(* ===== verification/Prelude.thy ===== *)
theory Prelude
  imports Main "HOL-Library.AList"
begin

text \<open>
  What every component of the development shares: the collections of rewrite rules, Go's
  clock and 64-bit integers, decimal conversion of integers (package \<open>strconv\<close>), and the
  generic lemmas on association lists, which stand for the Go maps the code iterates over
  or takes the length of.  A map that is only read and written by key is a HOL map.

  \<^item> A \<open>time.Time\<close> is the number of nanoseconds since the Unix epoch, a \<open>time.Duration\<close>
    a number of nanoseconds; \<open>t.Sub(u)\<close> is \<open>t - u\<close>, \<open>t.After(u)\<close> is \<open>u < t\<close> (the clock
    stays within the 292 years in which Go's \<open>Sub\<close> does not saturate).
  \<^item> A call of \<open>time.Now()\<close> is an argument of the operation, one for each call the code
    makes; \<open>ctx.Err() != nil\<close> is a boolean argument, one for each check the code makes.
  \<^item> An \<open>int\<close> or \<open>int64\<close> is a HOL \<open>int\<close>, and \<open>wrap64\<close> is written wherever an
    arithmetic operation of the code can leave the 64-bit range.
\<close>

subsection \<open>Collections\<close>

named_theorems model_simps \<open>defining equations of record-update style operations\<close>
named_theorems inv_simps \<open>definitions of component invariants\<close>
named_theorems inv_intros \<open>preservation of component invariants\<close>

subsection \<open>Time\<close>

type_synonym time = int
type_synonym duration = int

abbreviation millisecond :: duration where "millisecond \<equiv> 1000000"
abbreviation second :: duration where "second \<equiv> 1000000000"
abbreviation minute :: duration where "minute \<equiv> 60000000000"
abbreviation hour :: duration where "hour \<equiv> 3600000000000"

text \<open>\<open>t.Truncate(time.Minute)\<close>: Go's zero time lies a whole number of minutes before
  the epoch, so rounding down counts from the epoch as well.\<close>

definition truncate_minute :: "time \<Rightarrow> time" where
  "truncate_minute t = (t div minute) * minute"

text \<open>Go's zero \<open>time.Time\<close> (1 January of year 1).\<close>

definition zero_time :: time where
  "zero_time = - 62135596800 * second"

subsection \<open>64-bit integers\<close>

definition in64 :: "int \<Rightarrow> bool" where
  "in64 x \<longleftrightarrow> - 9223372036854775808 \<le> x \<and> x \<le> 9223372036854775807"

definition wrap64 :: "int \<Rightarrow> int" where
  "wrap64 x = (x + 9223372036854775808) mod 18446744073709551616 - 9223372036854775808"

lemma wrap64_id [simp]: "in64 x \<Longrightarrow> wrap64 x = x"
  by (simp add: wrap64_def in64_def)

lemma in64_wrap64 [simp]: "in64 (wrap64 x)"
  using pos_mod_bound [of 18446744073709551616 "x + 9223372036854775808"]
    pos_mod_sign [of 18446744073709551616 "x + 9223372036854775808"]
  by (simp add: wrap64_def in64_def)

text \<open>Go's integer division truncates towards zero.\<close>

definition go_div :: "int \<Rightarrow> int \<Rightarrow> int" where
  "go_div a b = sgn a * sgn b * (\<bar>a\<bar> div \<bar>b\<bar>)"

lemma go_div_pos [simp]: "0 \<le> a \<Longrightarrow> 0 < b \<Longrightarrow> go_div a b = a div b"
  by (cases "a = 0") (simp_all add: go_div_def)

lemma div_add_le: "0 < (k::int) \<Longrightarrow> a div k + b div k \<le> (a + b) div k"
proof -
  assume k: "0 < k"
  have "(a div k + b div k) * k \<le> a + b"
    using minus_mod_eq_div_mult [of a k] minus_mod_eq_div_mult [of b k]
      pos_mod_sign [OF k, of a] pos_mod_sign [OF k, of b] by (simp add: distrib_right)
  then have "(a div k + b div k) * k div k \<le> (a + b) div k" using k by (rule zdiv_mono1)
  then show ?thesis using k by simp
qed

subsection \<open>Association lists\<close>

text \<open>Lookup with Go's zero value for a missing key.\<close>

definition lookup_or :: "'v \<Rightarrow> ('k \<rightharpoonup> 'v) \<Rightarrow> 'k \<Rightarrow> 'v" where
  "lookup_or z m k = (case m k of None \<Rightarrow> z | Some v \<Rightarrow> v)"

lemma lookup_or_simps [simp]:
  "lookup_or z (m(k \<mapsto> v)) k = v"
  "k' \<noteq> k \<Longrightarrow> lookup_or z (m(k \<mapsto> v)) k' = lookup_or z m k'"
  "m k = None \<Longrightarrow> lookup_or z m k = z"
  "m k = Some v \<Longrightarrow> lookup_or z m k = v"
  by (simp_all add: lookup_or_def)

abbreviation keys_of :: "('k \<times> 'v) list \<Rightarrow> 'k set" where
  "keys_of al \<equiv> fst ` set al"

lemma map_of_update [simp]: "map_of (AList.update k v al) = (map_of al)(k \<mapsto> v)"
  by (rule update_conv')

lemma map_of_delete [simp]: "map_of (AList.delete k al) = (map_of al)(k := None)"
  by (rule delete_conv')

lemma map_of_filter_None: "map_of al k = None \<Longrightarrow> map_of (filter P al) k = None"
  by (auto simp: map_of_eq_None_iff image_iff)

lemma map_of_filter:
  assumes "distinct (map fst al)"
  shows "map_of (filter P al) k =
    (case map_of al k of None \<Rightarrow> None | Some v \<Rightarrow> if P (k, v) then Some v else None)"
  using assms
proof (induction al)
  case Nil
  then show ?case by simp
next
  case (Cons p al)
  obtain a b where p: "p = (a, b)" by (cases p)
  have "a \<notin> fst ` set al" using Cons.prems p by auto
  then have "map_of al a = None" by (simp add: map_of_eq_None_iff)
  then show ?case using Cons p by (auto simp: map_of_filter_None)
qed

lemma distinct_map_fst_filter [simp]:
  "distinct (map fst al) \<Longrightarrow> distinct (map fst (filter P al))"
  by (induction al) auto

lemma length_update: "length (AList.update k v al) =
    (if k \<in> keys_of al then length al else Suc (length al))"
  by (induction al) auto

lemma delete_notin [simp]: "k \<notin> keys_of al \<Longrightarrow> AList.delete k al = al"
  by (induction al) auto

lemma delete_append: "AList.delete k (xs @ ys) = AList.delete k xs @ AList.delete k ys"
  by (induction xs) auto

lemma length_delete:
  "distinct (map fst al) \<Longrightarrow> k \<in> keys_of al \<Longrightarrow> Suc (length (AList.delete k al)) = length al"
  by (induction al) auto

lemma keys_of_delete: "keys_of (AList.delete k al) = keys_of al - {k}"
  by (induction al) auto

lemma in_update: "(a, b) \<in> set (AList.update k v al) \<Longrightarrow> (a, b) = (k, v) \<or> (a, b) \<in> set al"
  by (induction al) (auto split: if_splits)

lemma Ball_update: "(\<forall>p \<in> set al. P p) \<Longrightarrow> P (k, v) \<Longrightarrow> \<forall>p \<in> set (AList.update k v al). P p"
  by (auto dest: in_update)

text \<open>Sums over the values of an association list, for the accounting of sizes.\<close>

definition sum_vals :: "('v \<Rightarrow> int) \<Rightarrow> ('k \<times> 'v) list \<Rightarrow> int" where
  "sum_vals f al = sum_list (map (\<lambda>(k, v). f v) al)"

lemma sum_vals_simps [simp]:
  "sum_vals f [] = 0"
  "sum_vals f ((k, v) # al) = f v + sum_vals f al"
  by (simp_all add: sum_vals_def)

lemma sum_vals_update_new: "k \<notin> keys_of al \<Longrightarrow>
    sum_vals f (AList.update k v al) = sum_vals f al + f v"
  by (induction al) auto

lemma sum_vals_update_old: "distinct (map fst al) \<Longrightarrow> map_of al k = Some w \<Longrightarrow>
    sum_vals f (AList.update k v al) = sum_vals f al - f w + f v"
  by (induction al) (auto split: if_splits)

lemma sum_vals_delete: "distinct (map fst al) \<Longrightarrow> map_of al k = Some w \<Longrightarrow>
    sum_vals f (AList.delete k al) = sum_vals f al - f w"
  by (induction al) (auto split: if_splits)

lemma sum_vals_nonneg: "(\<And>v. 0 \<le> f v) \<Longrightarrow> 0 \<le> sum_vals f al"
  by (induction al) auto

subsection \<open>Lists\<close>

text \<open>Go's \<open>append(xs[:i], xs[i+1:]...)\<close> for the first element that satisfies a test: the
  loop \<open>for i, x := range xs { if p(x) { ...; break } }\<close>.\<close>

fun remove_first :: "('a \<Rightarrow> bool) \<Rightarrow> 'a list \<Rightarrow> 'a list" where
  "remove_first p [] = []"
| "remove_first p (x # xs) = (if p x then xs else x # remove_first p xs)"

lemma remove_first_set: "set (remove_first p xs) \<subseteq> set xs"
  by (induction xs) auto

lemma length_remove_first_le: "length (remove_first p xs) \<le> length xs"
  by (induction xs) auto

lemma remove_first_eq_remove1: "remove_first (\<lambda>x. x = k) xs = remove1 k xs"
  by (induction xs) auto

subsection \<open>Decimal integers (package \<open>strconv\<close>)\<close>

definition digit_char :: "nat \<Rightarrow> char" where
  "digit_char d = char_of (48 + d)"

definition is_digit :: "char \<Rightarrow> bool" where
  "is_digit c \<longleftrightarrow> 48 \<le> (of_char c :: nat) \<and> (of_char c :: nat) \<le> 57"

definition digit_val :: "char \<Rightarrow> nat" where
  "digit_val c = of_char c - 48"

fun nat_str :: "nat \<Rightarrow> string" where
  "nat_str n = (if n < 10 then [digit_char n] else nat_str (n div 10) @ [digit_char (n mod 10)])"

declare nat_str.simps [simp del]

text \<open>\<open>strconv.FormatInt(n, 10)\<close>, \<open>strconv.Itoa(n)\<close> and the verb \<open>%d\<close>.\<close>

definition int_str :: "int \<Rightarrow> string" where
  "int_str n = (if n < 0 then CHR ''-'' # nat_str (nat (- n)) else nat_str (nat n))"

fun digits_val :: "nat \<Rightarrow> string \<Rightarrow> nat" where
  "digits_val acc [] = acc"
| "digits_val acc (c # cs) = digits_val (10 * acc + digit_val c) cs"

definition parse_nat :: "string \<Rightarrow> nat option" where
  "parse_nat s = (if s \<noteq> [] \<and> list_all is_digit s then Some (digits_val 0 s) else None)"

text \<open>\<open>strconv.ParseInt(s, 10, 64)\<close>: an optional sign, digits, and a range check; \<open>None\<close>
  is the error return (\<open>ErrSyntax\<close> or \<open>ErrRange\<close>).\<close>

definition parse_int64 :: "string \<Rightarrow> int option" where
  "parse_int64 s =
    (let (neg, ds) = (case s of
         [] \<Rightarrow> (False, [])
       | c # cs \<Rightarrow> if c = CHR ''-'' then (True, cs)
                   else if c = CHR ''+'' then (False, cs) else (False, c # cs))
     in case parse_nat ds of
          None \<Rightarrow> None
        | Some n \<Rightarrow> (let x = (if neg then - int n else int n)
                     in if in64 x then Some x else None))"

lemma of_char_digit_char: "d < 10 \<Longrightarrow> (of_char (digit_char d) :: nat) = 48 + d"
  by (simp add: digit_char_def of_char_of)

lemma digit_char_simps [simp]:
  "d < 10 \<Longrightarrow> is_digit (digit_char d)"
  "d < 10 \<Longrightarrow> digit_val (digit_char d) = d"
  by (simp_all add: is_digit_def digit_val_def of_char_digit_char)

lemma nat_str_not_Nil [simp]: "nat_str n \<noteq> []"
  by (subst nat_str.simps) simp

lemma nat_str_digits: "list_all is_digit (nat_str n)"
proof (induction n rule: nat_str.induct)
  case (1 n)
  show ?case
  proof (cases "n < 10")
    case True
    then show ?thesis by (subst nat_str.simps) simp
  next
    case False
    with 1 show ?thesis by (subst nat_str.simps) simp
  qed
qed

lemma digits_val_append: "digits_val acc (xs @ ys) = digits_val (digits_val acc xs) ys"
  by (induction xs arbitrary: acc) auto

lemma digits_val_nat_str: "digits_val 0 (nat_str n) = n"
proof (induction n rule: nat_str.induct)
  case (1 n)
  show ?case
  proof (cases "n < 10")
    case True
    then show ?thesis by (subst nat_str.simps) simp
  next
    case False
    with 1 have "digits_val 0 (nat_str (n div 10)) = n div 10" by simp
    with False show ?thesis by (subst nat_str.simps) (simp add: digits_val_append)
  qed
qed

lemma parse_nat_str [simp]: "parse_nat (nat_str n) = Some n"
  by (simp add: parse_nat_def nat_str_digits digits_val_nat_str)

lemma nat_str_no_sign: "nat_str n = c # cs \<Longrightarrow> c \<noteq> CHR ''-'' \<and> c \<noteq> CHR ''+''"
  using nat_str_digits [of n] by (auto simp: is_digit_def)

lemma nat_str_inj: "nat_str m = nat_str n \<longleftrightarrow> m = n"
  by (metis digits_val_nat_str)

text \<open>The round trip of \<open>FormatInt\<close> and \<open>ParseInt\<close> on 64-bit integers.\<close>

lemma parse_int64_int_str [simp]:
  assumes "in64 n"
  shows "parse_int64 (int_str n) = Some n"
proof (cases "n < 0")
  case True
  with assms show ?thesis by (simp add: parse_int64_def int_str_def)
next
  case False
  obtain c cs where s: "nat_str (nat n) = c # cs" by (cases "nat_str (nat n)") auto
  have "c \<noteq> CHR ''-''" "c \<noteq> CHR ''+''" using nat_str_no_sign [OF s] by auto
  moreover have "parse_nat (c # cs) = Some (nat n)" using parse_nat_str [of "nat n"] s by simp
  ultimately show ?thesis using False assms s by (simp add: parse_int64_def int_str_def)
qed

lemma int_str_inj: "int_str m = int_str n \<longleftrightarrow> m = n"
proof
  assume eq: "int_str m = int_str n"
  have no: "nat_str k \<noteq> CHR ''-'' # cs" for k cs using nat_str_no_sign by blast
  show "m = n"
    using eq no no [symmetric] by (auto simp: int_str_def nat_str_inj split: if_splits)
qed simp

subsection \<open>Strings\<close>

fun has_prefix :: "string \<Rightarrow> string \<Rightarrow> bool" where
  "has_prefix [] s = True"
| "has_prefix (p # ps) [] = False"
| "has_prefix (p # ps) (c # cs) = (p = c \<and> has_prefix ps cs)"

lemma has_prefix_iff: "has_prefix p s \<longleftrightarrow> (\<exists>r. s = p @ r)"
  by (induction p s rule: has_prefix.induct) auto

lemma has_prefix_append [simp]: "has_prefix p (p @ r)"
  by (auto simp: has_prefix_iff)

lemma append_sep_inject:
  assumes "a @ c # x = b @ c # y" and "c \<notin> set a" and "c \<notin> set b"
  shows "a = b \<and> x = y"
  using assms by (induction a arbitrary: b) (auto simp: Cons_eq_append_conv)

end
