(* ===== verification/Apiary_Types.thy ===== *)
theory Apiary_Types
  imports Complex_Main Prelude
begin

text \<open>
  The data of the platform, \<open>pkg/apiary/types.go\<close> and the parts of \<open>interfaces.go\<close> that
  compute: the resource kinds with their specifications and statuses, the accessors of the
  \<open>Resource\<close> interface, and label selectors.

  The embedded \<open>TypeMeta\<close> and \<open>ObjectMeta\<close> are fields.  Go maps that are stored and
  marshalled are association lists; pointers that can be nil are options.  A \<open>float64\<close> field
  is the rational number it denotes.  Phases are the strings of their constants.  A value of
  type \<open>interface{}\<close> is a \<open>go_value\<close>: the dynamic types the code asserts, and everything
  else, which it never inspects.
\<close>

section \<open>Common parts\<close>

type_synonym labels = "(string \<times> string) list"

definition Match :: "labels \<Rightarrow> labels \<Rightarrow> bool" where
  "Match l selector =
    (if selector = [] then True else list_all (\<lambda>(k, v). map_of l k = Some v) selector)"

datatype go_value =
    GString string
  | GStrings "string list"
  | GList "go_value list"
  | GMap "(string \<times> go_value) list"
  | GBool bool
  | GFloat rat
  | GOther string

record type_meta =
  tm_APIVersion :: string
  tm_Kind :: string

record object_meta =
  om_Name :: string
  om_Namespace :: string
  om_UID :: string
  om_Labels :: labels
  om_Annotations :: labels
  om_CreatedAt :: time
  om_UpdatedAt :: time

record resource_requirements =
  rr_CPU :: int
  rr_Memory :: int

section \<open>Agent specifications\<close>

record secret_key_selector =
  sk_Name :: string
  sk_Key :: string

record env_var =
  ev_Name :: string
  ev_Value :: string
  ev_ValueFrom :: "secret_key_selector option option"

record runtime_config =
  rc_Command :: "string list"
  rc_WorkingDir :: string
  rc_Env :: "env_var list"

record interface_config =
  ic_Type :: string
  ic_Port :: int
  ic_HealthPath :: string
  ic_MessagePath :: string

record resource_config =
  rs_Requests :: resource_requirements
  rs_Limits :: resource_requirements
  rs_TokenBudgetPerRequest :: int

record scaling_config =
  sc_MinReplicas :: int
  sc_MaxReplicas :: int
  sc_TargetLatencyMs :: int
  sc_ScaleUpThreshold :: rat
  sc_ScaleDownThreshold :: rat
  sc_CooldownSeconds :: int

record guardrail_config =
  gc_ResponseTimeoutSeconds :: int
  gc_RateLimitPerMinute :: int
  gc_OutputSchema :: "(string \<times> go_value) list"
  gc_TokenBudgetPerRequest :: int
  gc_TokenBudgetPerSession :: int
  gc_TokenBudgetPerMinute :: int

record agent_spec_spec =
  ss_Runtime :: runtime_config
  ss_Interface :: interface_config
  ss_Resources :: resource_config
  ss_Scaling :: scaling_config
  ss_TaskTier :: string
  ss_Guardrails :: guardrail_config

record agent_spec =
  as_TypeMeta :: type_meta
  as_Meta :: object_meta
  as_Spec :: agent_spec_spec

section \<open>Drones\<close>

record health_status =
  hs_Healthy :: bool
  hs_Message :: string
  hs_Timestamp :: time
  hs_Details :: "(string \<times> go_value) list"

abbreviation DronePhasePending :: string where "DronePhasePending \<equiv> ''pending''"
abbreviation DronePhaseStarting :: string where "DronePhaseStarting \<equiv> ''starting''"
abbreviation DronePhaseRunning :: string where "DronePhaseRunning \<equiv> ''running''"
abbreviation DronePhaseStopping :: string where "DronePhaseStopping \<equiv> ''stopping''"
abbreviation DronePhaseStopped :: string where "DronePhaseStopped \<equiv> ''stopped''"
abbreviation DronePhaseFailed :: string where "DronePhaseFailed \<equiv> ''failed''"

record drone_status =
  dst_Phase :: string
  dst_Message :: string
  dst_StartedAt :: "time option"
  dst_KeeperAddr :: string
  dst_Health :: "health_status option"

record drone =
  dr_TypeMeta :: type_meta
  dr_Meta :: object_meta
  dr_Status :: drone_status
  dr_Spec :: "agent_spec option"

section \<open>Hives\<close>

record session_config =
  sn_TimeoutMinutes :: int
  sn_MaxDurationMinutes :: int
  sn_PersistOnTerminate :: bool
  sn_PersistPath :: string
  sn_MaxMemoryMB :: int

record pattern_segment =
  ps_Name :: string
  ps_Pattern :: string
  ps_Config :: "(string \<times> go_value) list"
  ps_InputTopic :: string
  ps_OutputTopic :: string

record stage =
  st_Name :: string
  st_AgentRef :: string
  st_Replicas :: int
  st_Parallel :: bool
  st_WaitForAll :: bool

record retry_policy =
  rp_MaxRetries :: int
  rp_BackoffMultiplier :: int
  rp_InitialDelayMs :: int

record routing_config =
  ro_DeadLetterTopic :: string
  ro_RetryPolicy :: retry_policy

record webhook_config =
  wh_URL :: string
  wh_AuthHeader :: string

record hive_spec =
  hi_PoolMode :: string
  hi_WarmPoolSize :: int
  hi_Session :: session_config
  hi_Pattern :: string
  hi_Stages :: "stage list"
  hi_Routing :: routing_config
  hi_Guardrails :: guardrail_config
  hi_Webhook :: webhook_config
  hi_PatternSegments :: "pattern_segment list"

record hive_status =
  hst_Phase :: string
  hst_Message :: string
  hst_ActiveDrones :: int

record hive =
  hv_TypeMeta :: type_meta
  hv_Meta :: object_meta
  hv_Spec :: hive_spec
  hv_Status :: hive_status

section \<open>Cells, sessions and secrets\<close>

record resource_quota =
  rq_MaxHives :: int
  rq_MaxDronesPerHive :: int
  rq_MaxTotalDrones :: int
  rq_MaxMemoryGB :: int

record quota_usage =
  qu_Hives :: int
  qu_TotalDrones :: int
  qu_MemoryUsedGB :: int
  qu_MemoryLimitGB :: int

record cell_spec =
  ce_ResourceQuota :: resource_quota
  ce_DefaultGuardrails :: guardrail_config

record cell =
  cl_TypeMeta :: type_meta
  cl_Meta :: object_meta
  cl_Spec :: cell_spec

abbreviation SessionPhaseCreated :: string where "SessionPhaseCreated \<equiv> ''created''"
abbreviation SessionPhaseActive :: string where "SessionPhaseActive \<equiv> ''active''"
abbreviation SessionPhaseIdle :: string where "SessionPhaseIdle \<equiv> ''idle''"
abbreviation SessionPhaseTerminated :: string where "SessionPhaseTerminated \<equiv> ''terminated''"

record session_status =
  sst_Phase :: string
  sst_LastActivity :: time
  sst_ActiveAgents :: int

record session =
  se_TypeMeta :: type_meta
  se_Meta :: object_meta
  se_Status :: session_status
  se_Spec :: session_config

record secret =
  sec_TypeMeta :: type_meta
  sec_Meta :: object_meta
  sec_Data :: "(string \<times> string) list"

section \<open>The resource interface\<close>

text \<open>The six implementations of \<open>Resource\<close>.\<close>

datatype resource =
    RAgentSpec agent_spec
  | RDrone drone
  | RHive hive
  | RCell cell
  | RSession session
  | RSecret secret

fun res_meta :: "resource \<Rightarrow> object_meta" where
  "res_meta (RAgentSpec a) = as_Meta a"
| "res_meta (RDrone d) = dr_Meta d"
| "res_meta (RHive h) = hv_Meta h"
| "res_meta (RCell c) = cl_Meta c"
| "res_meta (RSession s) = se_Meta s"
| "res_meta (RSecret s) = sec_Meta s"

fun GetKind :: "resource \<Rightarrow> string" where
  "GetKind (RAgentSpec _) = ''AgentSpec''"
| "GetKind (RDrone _) = ''Drone''"
| "GetKind (RHive _) = ''Hive''"
| "GetKind (RCell _) = ''Cell''"
| "GetKind (RSession _) = ''Session''"
| "GetKind (RSecret _) = ''Secret''"

definition GetName :: "resource \<Rightarrow> string" where
  "GetName r = om_Name (res_meta r)"

text \<open>Cells are not namespaced.\<close>

definition GetNamespace :: "resource \<Rightarrow> string" where
  "GetNamespace r = (case r of RCell _ \<Rightarrow> '''' | _ \<Rightarrow> om_Namespace (res_meta r))"

definition GetUID :: "resource \<Rightarrow> string" where
  "GetUID r = om_UID (res_meta r)"

definition GetLabels :: "resource \<Rightarrow> labels" where
  "GetLabels r = om_Labels (res_meta r)"

fun set_UID :: "string \<Rightarrow> resource \<Rightarrow> resource" where
  "set_UID u (RAgentSpec a) = RAgentSpec (a\<lparr>as_Meta := (as_Meta a)\<lparr>om_UID := u\<rparr>\<rparr>)"
| "set_UID u (RDrone d) = RDrone (d\<lparr>dr_Meta := (dr_Meta d)\<lparr>om_UID := u\<rparr>\<rparr>)"
| "set_UID u (RHive h) = RHive (h\<lparr>hv_Meta := (hv_Meta h)\<lparr>om_UID := u\<rparr>\<rparr>)"
| "set_UID u (RCell c) = RCell (c\<lparr>cl_Meta := (cl_Meta c)\<lparr>om_UID := u\<rparr>\<rparr>)"
| "set_UID u (RSession s) = RSession (s\<lparr>se_Meta := (se_Meta s)\<lparr>om_UID := u\<rparr>\<rparr>)"
| "set_UID u (RSecret s) = RSecret (s\<lparr>sec_Meta := (sec_Meta s)\<lparr>om_UID := u\<rparr>\<rparr>)"

lemma Match_iff: "Match l sel \<longleftrightarrow> (\<forall>(k, v) \<in> set sel. map_of l k = Some v)"
  by (auto simp: Match_def list_all_iff)

lemma Match_Nil [simp]: "Match l []"
  by (simp add: Match_def)

lemma set_UID_simps [simp]:
  "GetKind (set_UID u r) = GetKind r"
  "GetName (set_UID u r) = GetName r"
  "GetNamespace (set_UID u r) = GetNamespace r"
  "GetUID (set_UID u r) = u"
  "GetLabels (set_UID u r) = GetLabels r"
  by (cases r; simp add: GetName_def GetNamespace_def GetUID_def GetLabels_def)+

text \<open>An agent specification for the witnesses.\<close>

definition sample_spec :: agent_spec where
  "sample_spec =
    \<lparr>as_TypeMeta = \<lparr>tm_APIVersion = ''v1'', tm_Kind = ''AgentSpec''\<rparr>,
     as_Meta = \<lparr>om_Name = ''worker'', om_Namespace = ''prod'', om_UID = ''u'', om_Labels = [],
                om_Annotations = [], om_CreatedAt = 1, om_UpdatedAt = 1\<rparr>,
     as_Spec = \<lparr>ss_Runtime = \<lparr>rc_Command = [''python''], rc_WorkingDir = '''', rc_Env = []\<rparr>,
       ss_Interface = \<lparr>ic_Type = ''stdin'', ic_Port = 0, ic_HealthPath = '''', ic_MessagePath = ''''\<rparr>,
       ss_Resources = \<lparr>rs_Requests = \<lparr>rr_CPU = 60000, rr_Memory = 0\<rparr>,
         rs_Limits = \<lparr>rr_CPU = 0, rr_Memory = 0\<rparr>, rs_TokenBudgetPerRequest = 0\<rparr>,
       ss_Scaling = \<lparr>sc_MinReplicas = 1, sc_MaxReplicas = 5, sc_TargetLatencyMs = 100,
         sc_ScaleUpThreshold = 0, sc_ScaleDownThreshold = 0, sc_CooldownSeconds = 0\<rparr>,
       ss_TaskTier = ''complex'',
       ss_Guardrails = \<lparr>gc_ResponseTimeoutSeconds = 0, gc_RateLimitPerMinute = 0, gc_OutputSchema = [],
         gc_TokenBudgetPerRequest = 0, gc_TokenBudgetPerSession = 0, gc_TokenBudgetPerMinute = 0\<rparr>\<rparr>\<rparr>"

end
