(* ===== verification/Secrets.thy ===== *)
theory Secrets
  imports Prelude
begin

text \<open>
  Encryption of secret values, \<open>internal/secrets/encrypt.go\<close>: the layout
  \<open>base64(salt + nonce + ciphertext + tag)\<close> around AES-256-GCM with a key derived from a
  passphrase.  Base64 (package \<open>encoding/base64\<close>, standard encoding) is modelled; the key
  derivation (\<open>x/crypto/pbkdf2\<close>) and the cipher are parameters, collected in the record
  \<open>crypto\<close>; the random bytes are arguments, \<open>None\<close> where the random source fails.  Byte
  slices are strings, a character being a byte.
\<close>

section \<open>Base64\<close>

definition b64_alphabet :: string where
  "b64_alphabet = ''ABCDEFGHIJKLMNOPQRSTUVWXYZabcdefghijklmnopqrstuvwxyz0123456789+/''"

definition b64_char :: "nat \<Rightarrow> char" where
  "b64_char n = b64_alphabet ! n"

fun index_of :: "'a \<Rightarrow> 'a list \<Rightarrow> nat option" where
  "index_of x [] = None"
| "index_of x (y # ys) = (if x = y then Some 0 else map_option Suc (index_of x ys))"

definition b64_val :: "char \<Rightarrow> nat option" where
  "b64_val c = index_of c b64_alphabet"

abbreviation byte :: "char \<Rightarrow> nat" where "byte c \<equiv> of_char c"

fun b64_encode :: "string \<Rightarrow> string" where
  "b64_encode [] = []"
| "b64_encode [a] = [b64_char (byte a div 4), b64_char ((byte a mod 4) * 16), CHR ''='', CHR ''='']"
| "b64_encode [a, b] = [b64_char (byte a div 4), b64_char ((byte a mod 4) * 16 + byte b div 16),
     b64_char ((byte b mod 16) * 4), CHR ''='']"
| "b64_encode (a # b # c # r) =
     b64_char (byte a div 4) # b64_char ((byte a mod 4) * 16 + byte b div 16) #
     b64_char ((byte b mod 16) * 4 + byte c div 64) # b64_char (byte c mod 64) # b64_encode r"

text \<open>The decoder takes groups of four; padding may only stand at the end.\<close>

fun b64_groups :: "string \<Rightarrow> string option" where
  "b64_groups [] = Some []"
| "b64_groups (w # x # y # z # r) =
     (case (b64_val w, b64_val x) of
        (Some w', Some x') \<Rightarrow>
          (if y = CHR ''='' then
             (if z = CHR ''='' \<and> r = [] then Some [char_of (w' * 4 + x' div 16)] else None)
           else case b64_val y of
             None \<Rightarrow> None
           | Some y' \<Rightarrow>
              (if z = CHR ''='' then
                 (if r = [] then Some [char_of (w' * 4 + x' div 16), char_of ((x' mod 16) * 16 + y' div 4)]
                  else None)
               else case (b64_val z, b64_groups r) of
                 (Some z', Some rest) \<Rightarrow>
                   Some (char_of (w' * 4 + x' div 16) # char_of ((x' mod 16) * 16 + y' div 4) #
                         char_of ((y' mod 4) * 64 + z') # rest)
               | _ \<Rightarrow> None))
      | _ \<Rightarrow> None)"
| "b64_groups _ = None"

text \<open>Line breaks in the input are skipped.\<close>

definition b64_decode :: "string \<Rightarrow> string option" where
  "b64_decode s = b64_groups (filter (\<lambda>c. byte c \<noteq> 10 \<and> byte c \<noteq> 13) s)"

lemma b64_alphabet_ok:
  "list_all (\<lambda>n. b64_val (b64_char n) = Some n \<and> b64_char n \<noteq> CHR ''='' \<and>
     byte (b64_char n) \<noteq> 10 \<and> byte (b64_char n) \<noteq> 13) [0..<64]"
  by code_simp

lemma b64_char_simps [simp]:
  assumes "n < 64"
  shows "b64_val (b64_char n) = Some n" "b64_char n \<noteq> CHR ''=''"
    "byte (b64_char n) \<noteq> 10" "byte (b64_char n) \<noteq> 13"
  using b64_alphabet_ok assms by (simp_all add: list_all_iff)

lemma byte_bound [simp]: "byte c < 256"
  using of_char_mod_256 [of c, where ?'a = nat] by (metis mod_less_divisor zero_less_numeral)

lemma byte_parts [simp]:
  "byte c div 4 < 64" "byte c div 16 < 16" "byte c div 64 < 4"
  "byte c mod 4 < 4" "byte c mod 16 < 16" "byte c mod 64 < 64"
  using byte_bound [of c] by (simp_all add: less_mult_imp_div_less)

lemma sextet_bounds [simp]:
  "(byte a mod 4) * 16 < 64" "(byte b mod 16) * 4 < 64"
  "(byte a mod 4) * 16 + byte b div 16 < 64" "(byte b mod 16) * 4 + byte c div 64 < 64"
  using byte_parts [of a] byte_parts [of b] byte_parts [of c] by linarith+

lemma byte_joins [simp]:
  "byte b div 16 div 16 = 0" "byte b div 16 mod 16 = byte b div 16"
  "byte c div 64 div 4 = 0" "byte c div 64 mod 4 = byte c div 64"
  by (simp_all add: div_less)

lemma b64_encode_no_break: "filter (\<lambda>c. byte c \<noteq> 10 \<and> byte c \<noteq> 13) (b64_encode s) = b64_encode s"
  by (induction s rule: b64_encode.induct) simp_all

lemma b64_groups_encode: "b64_groups (b64_encode s) = Some s"
  by (induction s rule: b64_encode.induct) simp_all

lemma b64_round_trip [simp]: "b64_decode (b64_encode s) = Some s"
  by (simp add: b64_decode_def b64_encode_no_break b64_groups_encode)

section \<open>Encrypt and Decrypt\<close>

abbreviation saltSize :: nat where "saltSize \<equiv> 16"
abbreviation nonceSize :: nat where "nonceSize \<equiv> 12"

record crypto =
  cr_pbkdf2 :: "string \<Rightarrow> string \<Rightarrow> string"
  cr_seal :: "string \<Rightarrow> string \<Rightarrow> string \<Rightarrow> string"
  cr_open :: "string \<Rightarrow> string \<Rightarrow> string \<Rightarrow> string option"

datatype secret_error =
    PassphraseEmpty
  | SaltFailed
  | NonceFailed
  | Base64Failed
  | DataTooShort
  | OpenFailed

definition Encrypt :: "crypto \<Rightarrow> string option \<Rightarrow> string option \<Rightarrow> string \<Rightarrow> string \<Rightarrow> secret_error + string" where
  "Encrypt cr salt_rnd nonce_rnd data passphrase =
    (if length passphrase = 0 then Inl PassphraseEmpty
     else case salt_rnd of
       None \<Rightarrow> Inl SaltFailed
     | Some salt \<Rightarrow>
        (let key = cr_pbkdf2 cr passphrase salt
         in case nonce_rnd of
              None \<Rightarrow> Inl NonceFailed
            | Some nonce \<Rightarrow>
               (let ciphertext = nonce @ cr_seal cr key nonce data;
                    result = salt @ ciphertext
                in Inr (b64_encode result))))"

definition Decrypt :: "crypto \<Rightarrow> string \<Rightarrow> string \<Rightarrow> secret_error + string" where
  "Decrypt cr encrypted passphrase =
    (if length passphrase = 0 then Inl PassphraseEmpty
     else case b64_decode encrypted of
       None \<Rightarrow> Inl Base64Failed
     | Some decoded \<Rightarrow>
        (if length decoded < saltSize + nonceSize then Inl DataTooShort
         else let salt = take saltSize decoded;
                  ciphertext = drop saltSize decoded;
                  key = cr_pbkdf2 cr passphrase salt;
                  nonce = take nonceSize ciphertext;
                  ciphertext = drop nonceSize ciphertext
              in case cr_open cr key nonce ciphertext of
                   None \<Rightarrow> Inl OpenFailed
                 | Some plaintext \<Rightarrow> Inr plaintext))"

text \<open>What the cipher promises: it opens what it has sealed under the same key and nonce.\<close>

definition aead_correct :: "crypto \<Rightarrow> bool" where
  "aead_correct cr \<longleftrightarrow> (\<forall>key nonce p. cr_open cr key nonce (cr_seal cr key nonce p) = Some p)"

lemma Decrypt_Encrypt:
  assumes "Encrypt cr (Some salt) nonce_rnd data passphrase = Inr e"
    and "length salt = saltSize" and "nonce_rnd = Some nonce" "length nonce = nonceSize"
  shows "Decrypt cr e passphrase' =
    (if passphrase' = [] then Inl PassphraseEmpty
     else case cr_open cr (cr_pbkdf2 cr passphrase' salt) nonce
            (cr_seal cr (cr_pbkdf2 cr passphrase salt) nonce data) of
          None \<Rightarrow> Inl OpenFailed | Some p \<Rightarrow> Inr p)"
  using assms by (auto simp: Encrypt_def Decrypt_def Let_def split: if_splits)

text \<open>What was encrypted is decrypted to itself under the same passphrase, for every salt
  and nonce the random source yields; another passphrase gets an error exactly when the
  cipher rejects the key derived from it.  A passphrase is required for both.\<close>

lemma secret_round_trip:
  assumes "aead_correct cr"
    and "Encrypt cr (Some salt) (Some nonce) data passphrase = Inr e"
    and "length salt = saltSize" and "length nonce = nonceSize"
    and "passphrase' \<noteq> []"
  shows "Decrypt cr e passphrase = Inr data \<and> Decrypt cr e [] = Inl PassphraseEmpty \<and>
    (Decrypt cr e passphrase' = Inl OpenFailed \<longleftrightarrow>
      cr_open cr (cr_pbkdf2 cr passphrase' salt) nonce
        (cr_seal cr (cr_pbkdf2 cr passphrase salt) nonce data) = None)"
proof -
  have "passphrase \<noteq> []" using assms(2) by (auto simp: Encrypt_def)
  then show ?thesis
    using assms(1,5) Decrypt_Encrypt [OF assms(2,3) refl assms(4)]
    by (simp add: aead_correct_def split: option.splits)
qed

text \<open>A cipher for the witness: the key, with a mark before each of its bytes, and the
  plaintext.\<close>

fun mark_key :: "string \<Rightarrow> string" where
  "mark_key [] = ''.''"
| "mark_key (c # cs) = CHR '':'' # c # mark_key cs"

definition marking_cipher :: crypto where
  "marking_cipher = \<lparr>cr_pbkdf2 = (\<lambda>pass salt. pass),
     cr_seal = (\<lambda>key nonce p. mark_key key @ p),
     cr_open = (\<lambda>key nonce c. if has_prefix (mark_key key) c
        then Some (drop (length (mark_key key)) c) else None)\<rparr>"

lemma marking_cipher_correct: "aead_correct marking_cipher"
  by (simp add: aead_correct_def marking_cipher_def)

end
