(* ===== verification/Badger_Store.thy ===== *)
theory Badger_Store
  imports Apiary_Types Secrets
begin

text \<open>
  The persistent resource store, \<open>internal/store/badger\<close>: keys, create, get, update, delete
  and list, the versions kept of each resource and their pruning, the encryption of secrets
  on the way in and out, and the watchers with their bounded channels.

  Not under the repository's control and therefore parameters, the fields of \<open>badger_env\<close>: the
  BadgerDB transaction (\<open>Get\<close>, \<open>SetEntry\<close>, \<open>Delete\<close>, iteration over a prefix, the commit at
  the end of \<open>db.Update\<close>), \<open>encoding/json\<close> for resources and version entries, and the
  cipher.  A transaction works on a private copy of the database state, which replaces the
  state when the commit succeeds; what BadgerDB documents of these operations is collected
  in \<open>kv_laws\<close>.
\<close>

section \<open>State and environment\<close>

datatype kv_error = ErrKeyNotFound | KVOther string

record version_entry =
  ve_Version :: int
  ve_Timestamp :: time
  ve_Data :: string

record 'd badger_env =
  be_get :: "string \<Rightarrow> 'd \<Rightarrow> kv_error + string"
  be_set :: "string \<Rightarrow> string \<Rightarrow> 'd \<Rightarrow> kv_error + 'd"
  be_delete :: "string \<Rightarrow> 'd \<Rightarrow> kv_error + 'd"
  be_iterate :: "string \<Rightarrow> 'd \<Rightarrow> (string \<times> string) list"
  be_commit :: "'d \<Rightarrow> 'd \<Rightarrow> kv_error option"
  be_marshal :: "resource \<Rightarrow> string option"
  be_unmarshal :: "string \<Rightarrow> string \<Rightarrow> resource option"
  be_marshalVersion :: "version_entry \<Rightarrow> string option"
  be_unmarshalVersion :: "string \<Rightarrow> version_entry option"
  be_crypto :: crypto

datatype event_type = EventCreated | EventUpdated | EventDeleted

record resource_event =
  re_Type :: event_type
  re_Resource :: resource

text \<open>A watcher's channel: 100 buffered events, and whether it has been closed.\<close>

record watch_chan =
  ch_buf :: "resource_event list"
  ch_closed :: bool

record 'd badger_store =
  bs_db :: 'd
  bs_watchers :: "(string \<times> nat list) list"
  bs_chans :: "watch_chan list"
  bs_maxVersions :: int
  bs_passphrase :: string

datatype store_error =
    ErrAlreadyExists
  | ErrNotFound
  | DBFailed kv_error
  | EncryptFailed string secret_error
  | DecryptFailed string secret_error
  | MarshalError
  | UnmarshalError
  | UnknownKind string

definition NewStore_badger :: "'d \<Rightarrow> string \<Rightarrow> 'd badger_store" where
  "NewStore_badger db env_passphrase =
    \<lparr>bs_db = db, bs_watchers = [], bs_chans = [], bs_maxVersions = 10,
     bs_passphrase = (if env_passphrase = '''' then ''default-dev-passphrase-change-in-production''
                      else env_passphrase)\<rparr>"

section \<open>Keys\<close>

definition store_key :: "string \<Rightarrow> string \<Rightarrow> string \<Rightarrow> string" where
  "store_key kind name namespace =
    ''/'' @ (if namespace \<noteq> '''' then namespace @ ''/'' else '''') @ kind @ ''/'' @ name"

definition versionKey :: "string \<Rightarrow> string \<Rightarrow> string \<Rightarrow> int \<Rightarrow> string" where
  "versionKey kind name namespace version = store_key kind name namespace @ '':v'' @ int_str version"

definition listPrefix :: "string \<Rightarrow> string \<Rightarrow> string" where
  "listPrefix kind namespace =
    (if namespace = '''' then ''/'' @ kind @ ''/'' else ''/'' @ namespace @ ''/'' @ kind @ ''/'')"

text \<open>\<open>strings.Contains(s, ":v")\<close>.\<close>

fun contains_v :: "string \<Rightarrow> bool" where
  "contains_v (c # d # s) = (c = CHR '':'' \<and> d = CHR ''v'' \<or> contains_v (d # s))"
| "contains_v _ = False"

text \<open>\<open>strings.Split(s, ":v")\<close>, with the piece read so far.\<close>

fun split_v :: "string \<Rightarrow> string \<Rightarrow> string list" where
  "split_v acc (c # d # s) =
    (if c = CHR '':'' \<and> d = CHR ''v'' then acc # split_v [] s else split_v (acc @ [c]) (d # s))"
| "split_v acc s = [acc @ s]"

text \<open>\<open>fmt.Sscanf(s, "%d", &v)\<close>: leading spaces, an optional sign and the longest run of
  digits; what follows is ignored, no digit or an overflow is an error.\<close>

definition is_space :: "char \<Rightarrow> bool" where
  "is_space c \<longleftrightarrow> c = CHR '' ''"

definition sscanf_d :: "string \<Rightarrow> int option" where
  "sscanf_d s =
    (let s = dropWhile is_space s;
         (neg, ds) = (case s of [] \<Rightarrow> (False, [])
           | c # cs \<Rightarrow> if c = CHR ''-'' then (True, cs) else if c = CHR ''+'' then (False, cs) else (False, s));
         digits = takeWhile is_digit ds
     in case parse_nat digits of
          None \<Rightarrow> None
        | Some n \<Rightarrow> (let x = (if neg then - int n else int n) in if in64 x then Some x else None))"

section \<open>Secrets\<close>

text \<open>The loops over \<open>secret.Data\<close>; \<open>rnd\<close> gives salt and nonce for each key.\<close>

fun encrypt_all :: "crypto \<Rightarrow> (string \<Rightarrow> string option \<times> string option) \<Rightarrow> string \<Rightarrow>
    (string \<times> string) list \<Rightarrow> (string \<times> string) list \<Rightarrow> store_error + (string \<times> string) list" where
  "encrypt_all cr rnd passphrase acc [] = Inr acc"
| "encrypt_all cr rnd passphrase acc ((k, v) # data) =
    (case Encrypt cr (fst (rnd k)) (snd (rnd k)) v passphrase of
       Inl e \<Rightarrow> Inl (EncryptFailed k e)
     | Inr enc \<Rightarrow> encrypt_all cr rnd passphrase (acc @ [(k, enc)]) data)"

fun decrypt_all :: "crypto \<Rightarrow> string \<Rightarrow> (string \<times> string) list \<Rightarrow> (string \<times> string) list \<Rightarrow>
    store_error + (string \<times> string) list" where
  "decrypt_all cr passphrase acc [] = Inr acc"
| "decrypt_all cr passphrase acc ((k, v) # data) =
    (case Decrypt cr v passphrase of
       Inl e \<Rightarrow> Inl (DecryptFailed k e)
     | Inr dec \<Rightarrow> decrypt_all cr passphrase (acc @ [(k, dec)]) data)"

definition encryptSecretData :: "crypto \<Rightarrow> (string \<Rightarrow> string option \<times> string option) \<Rightarrow> string \<Rightarrow>
    resource \<Rightarrow> store_error + resource" where
  "encryptSecretData cr rnd passphrase r =
    (case r of
       RSecret sec \<Rightarrow>
         (case encrypt_all cr rnd passphrase [] (sec_Data sec) of
            Inl e \<Rightarrow> Inl e | Inr d \<Rightarrow> Inr (RSecret (sec\<lparr>sec_Data := d\<rparr>)))
     | _ \<Rightarrow> Inr r)"

definition decryptSecretData :: "crypto \<Rightarrow> string \<Rightarrow> resource \<Rightarrow> store_error + resource" where
  "decryptSecretData cr passphrase r =
    (case r of
       RSecret sec \<Rightarrow>
         (case decrypt_all cr passphrase [] (sec_Data sec) of
            Inl e \<Rightarrow> Inl e | Inr d \<Rightarrow> Inr (RSecret (sec\<lparr>sec_Data := d\<rparr>)))
     | _ \<Rightarrow> Inr r)"

section \<open>Watchers\<close>

abbreviation chan_cap :: nat where "chan_cap \<equiv> 100"

definition watch_key :: "string \<Rightarrow> string \<Rightarrow> string" where
  "watch_key kind namespace = kind @ '':'' @ namespace"

text \<open>\<open>Watch\<close> returns the index of the new channel.\<close>

definition store_Watch :: "string \<Rightarrow> string \<Rightarrow> 'd badger_store \<Rightarrow> 'd badger_store \<times> nat" where
  "store_Watch kind namespace s =
    (let ch = length (bs_chans s);
         key = watch_key kind namespace;
         ws = (case map_of (bs_watchers s) key of None \<Rightarrow> [] | Some ws \<Rightarrow> ws)
     in (s\<lparr>bs_chans := bs_chans s @ [\<lparr>ch_buf = [], ch_closed = False\<rparr>],
           bs_watchers := AList.update key (ws @ [ch]) (bs_watchers s)\<rparr>, ch))"

definition remove_watcher :: "string \<Rightarrow> nat \<Rightarrow> 'd badger_store \<Rightarrow> 'd badger_store" where
  "remove_watcher key ch s =
    (case map_of (bs_watchers s) key of
       None \<Rightarrow> s
     | Some ws \<Rightarrow>
        (let ws = removeAll ch ws
         in s\<lparr>bs_watchers := (if ws = [] then AList.delete key (bs_watchers s)
                              else AList.update key ws (bs_watchers s))\<rparr>))"

text \<open>\<open>select { case <-ch: default: close(ch) }\<close>: the receive is ready when the channel holds an
  event (which it takes) or is closed; only otherwise the channel is closed.\<close>

definition close_or_receive :: "watch_chan \<Rightarrow> watch_chan" where
  "close_or_receive c =
    (if ch_buf c \<noteq> [] then c\<lparr>ch_buf := tl (ch_buf c)\<rparr>
     else if ch_closed c then c
     else c\<lparr>ch_closed := True\<rparr>)"

text \<open>The goroutine of \<open>Watch\<close> when its context is done.\<close>

definition watch_cancel :: "string \<Rightarrow> string \<Rightarrow> nat \<Rightarrow> 'd badger_store \<Rightarrow> 'd badger_store" where
  "watch_cancel kind namespace ch s =
    (let key = watch_key kind namespace
     in case map_of (bs_watchers s) key of
          None \<Rightarrow> s
        | Some ws \<Rightarrow>
           (if ch \<in> set ws
            then (let s = remove_watcher key ch s
                  in s\<lparr>bs_chans := (bs_chans s)[ch := close_or_receive (bs_chans s ! ch)]\<rparr>)
            else s))"

text \<open>One send of \<open>notifyWatchers\<close>: a full channel is removed from the table and closed.\<close>

definition notify_one :: "string \<Rightarrow> resource_event \<Rightarrow> nat \<Rightarrow> 'd badger_store \<Rightarrow> 'd badger_store" where
  "notify_one key event ch s =
    (let c = bs_chans s ! ch
     in if length (ch_buf c) < chan_cap
        then s\<lparr>bs_chans := (bs_chans s)[ch := c\<lparr>ch_buf := ch_buf c @ [event]\<rparr>]\<rparr>
        else (let s = remove_watcher key ch s
              in s\<lparr>bs_chans := (bs_chans s)[ch := c\<lparr>ch_closed := True\<rparr>]\<rparr>))"

definition notifyWatchers :: "string \<Rightarrow> string \<Rightarrow> event_type \<Rightarrow> resource \<Rightarrow> 'd badger_store \<Rightarrow>
    'd badger_store" where
  "notifyWatchers kind namespace eventType r s =
    (let key = watch_key kind namespace
     in case map_of (bs_watchers s) key of
          None \<Rightarrow> s
        | Some watcherList \<Rightarrow>
           fold (notify_one key \<lparr>re_Type = eventType, re_Resource = r\<rparr>) watcherList s)"

definition store_Close :: "'d badger_store \<Rightarrow> 'd badger_store" where
  "store_Close s =
    s\<lparr>bs_chans := fold (\<lambda>ch chans. chans[ch := close_or_receive (chans ! ch)])
                       (concat (map snd (bs_watchers s))) (bs_chans s),
      bs_watchers := []\<rparr>"

section \<open>Create, read, update, delete\<close>

definition ensureUID :: "string \<Rightarrow> resource \<Rightarrow> resource" where
  "ensureUID newUID r = (if GetUID r \<noteq> '''' then r else set_UID newUID r)"

definition unmarshalResource :: "'d badger_env \<Rightarrow> string \<Rightarrow> string \<Rightarrow> store_error + resource" where
  "unmarshalResource env kind data =
    (if kind \<in> {''AgentSpec'', ''Drone'', ''Hive'', ''Cell'', ''Session'', ''Secret''}
     then case be_unmarshal env kind data of None \<Rightarrow> Inl UnmarshalError | Some r \<Rightarrow> Inr r
     else Inl (UnknownKind kind))"

text \<open>\<open>db.Update(f)\<close>: the function works on a copy of the database; an error discards the copy,
  otherwise the copy is committed.  What the function does to the rest of the store (it
  notifies watchers) stays in any case.\<close>

definition db_Update :: "'d badger_env \<Rightarrow> ('d badger_store \<Rightarrow> 'd badger_store \<times> store_error option) \<Rightarrow>
    'd badger_store \<Rightarrow> 'd badger_store \<times> store_error option" where
  "db_Update env f s =
    (case f s of
       (s', Some e) \<Rightarrow> (s'\<lparr>bs_db := bs_db s\<rparr>, Some e)
     | (s', None) \<Rightarrow>
        (case be_commit env (bs_db s) (bs_db s') of
           Some e \<Rightarrow> (s'\<lparr>bs_db := bs_db s\<rparr>, Some (DBFailed e))
         | None \<Rightarrow> (s', None)))"

text \<open>The tail shared by \<open>Create\<close> and \<open>Update\<close>: encrypt, marshal, store the resource and its
  version, notify.  Both encrypt the caller's resource in place, so the resource is part of
  the result.\<close>

definition store_write :: "'d badger_env \<Rightarrow> time \<Rightarrow> (string \<Rightarrow> string option \<times> string option) \<Rightarrow>
    event_type \<Rightarrow> int \<Rightarrow> resource \<Rightarrow> 'd badger_store \<Rightarrow> resource \<times> 'd badger_store \<times> store_error option" where
  "store_write env now rnd ev version r s =
    (case encryptSecretData (be_crypto env) rnd (bs_passphrase s) r of
       Inl e \<Rightarrow> (r, s, Some e)
     | Inr r \<Rightarrow>
        (case be_marshal env r of
           None \<Rightarrow> (r, s, Some MarshalError)
         | Some data \<Rightarrow>
            (case be_set env (store_key (GetKind r) (GetName r) (GetNamespace r)) data (bs_db s) of
               Inl e \<Rightarrow> (r, s, Some (DBFailed e))
             | Inr db \<Rightarrow>
                (case be_marshalVersion env \<lparr>ve_Version = version, ve_Timestamp = now, ve_Data = data\<rparr> of
                   None \<Rightarrow> (r, s\<lparr>bs_db := db\<rparr>, Some MarshalError)
                 | Some vdata \<Rightarrow>
                    (case be_set env (versionKey (GetKind r) (GetName r) (GetNamespace r) version) vdata db of
                       Inl e \<Rightarrow> (r, s\<lparr>bs_db := db\<rparr>, Some (DBFailed e))
                     | Inr db \<Rightarrow>
                        (r, notifyWatchers (GetKind r) (GetNamespace r) ev r (s\<lparr>bs_db := db\<rparr>), None))))))"

definition store_Create :: "'d badger_env \<Rightarrow> string \<Rightarrow> time \<Rightarrow> (string \<Rightarrow> string option \<times> string option) \<Rightarrow>
    resource \<Rightarrow> 'd badger_store \<Rightarrow> resource \<times> 'd badger_store \<times> store_error option" where
  "store_Create env newUID now rnd r s =
    (let r = ensureUID newUID r;
         key = store_key (GetKind r) (GetName r) (GetNamespace r)
     in case be_get env key (bs_db s) of
          Inr _ \<Rightarrow> (r, s, Some ErrAlreadyExists)
        | Inl (KVOther e) \<Rightarrow> (r, s, Some (DBFailed (KVOther e)))
        | Inl ErrKeyNotFound \<Rightarrow>
           (let r' = fst (store_write env now rnd EventCreated 1 r s)
            in (r', db_Update env (\<lambda>s. snd (store_write env now rnd EventCreated 1 r s)) s)))"

definition store_Get :: "'d badger_env \<Rightarrow> string \<Rightarrow> string \<Rightarrow> string \<Rightarrow> 'd badger_store \<Rightarrow> store_error + resource" where
  "store_Get env kind name namespace s =
    (case be_get env (store_key kind name namespace) (bs_db s) of
       Inl ErrKeyNotFound \<Rightarrow> Inl ErrNotFound
     | Inl e \<Rightarrow> Inl (DBFailed e)
     | Inr data \<Rightarrow>
        (case unmarshalResource env kind data of
           Inl e \<Rightarrow> Inl e
         | Inr r \<Rightarrow> decryptSecretData (be_crypto env) (bs_passphrase s) r))"

text \<open>The scan for the highest version number of \<open>Update\<close>.\<close>

fun last_v :: "string \<Rightarrow> string option" where
  "last_v [] = None"
| "last_v (c # s) =
    (case last_v s of
       Some t \<Rightarrow> Some t
     | None \<Rightarrow> (if c = CHR '':'' \<and> has_prefix ''v'' s then Some (tl s) else None))"

fun max_version :: "(string \<times> string) list \<Rightarrow> int \<Rightarrow> int" where
  "max_version [] m = m"
| "max_version ((key, _) # items) m =
    max_version items
      (case last_v key of
         None \<Rightarrow> m
       | Some t \<Rightarrow> (case sscanf_d t of None \<Rightarrow> m | Some v \<Rightarrow> if v > m then v else m))"

definition store_Update :: "'d badger_env \<Rightarrow> time \<Rightarrow> (string \<Rightarrow> string option \<times> string option) \<Rightarrow>
    resource \<Rightarrow> 'd badger_store \<Rightarrow> resource \<times> 'd badger_store \<times> store_error option" where
  "store_Update env now rnd r s =
    (let key = store_key (GetKind r) (GetName r) (GetNamespace r)
     in case be_get env key (bs_db s) of
          Inl ErrKeyNotFound \<Rightarrow> (r, s, Some ErrNotFound)
        | Inl e \<Rightarrow> (r, s, Some (DBFailed e))
        | Inr _ \<Rightarrow>
           (let version = wrap64 (max_version (be_iterate env (key @ '':v'') (bs_db s)) 0 + 1);
                r' = fst (store_write env now rnd EventUpdated version r s)
            in (r', db_Update env (\<lambda>s. snd (store_write env now rnd EventUpdated version r s)) s)))"

definition store_Delete :: "'d badger_env \<Rightarrow> string \<Rightarrow> string \<Rightarrow> string \<Rightarrow> 'd badger_store \<Rightarrow>
    'd badger_store \<times> store_error option" where
  "store_Delete env kind name namespace s =
    db_Update env (\<lambda>s.
      let key = store_key kind name namespace
      in case be_get env key (bs_db s) of
           Inl ErrKeyNotFound \<Rightarrow> (s, Some ErrNotFound)
         | Inl e \<Rightarrow> (s, Some (DBFailed e))
         | Inr data \<Rightarrow>
            (case be_delete env key (bs_db s) of
               Inl e \<Rightarrow> (s, Some (DBFailed e))
             | Inr db \<Rightarrow>
                (case unmarshalResource env kind data of
                   Inl _ \<Rightarrow> (s\<lparr>bs_db := db\<rparr>, None)
                 | Inr r \<Rightarrow> (notifyWatchers kind namespace EventDeleted r (s\<lparr>bs_db := db\<rparr>), None)))) s"

fun list_loop :: "'d badger_env \<Rightarrow> string \<Rightarrow> labels option \<Rightarrow> (string \<times> string) list \<Rightarrow> resource list" where
  "list_loop env kind selector [] = []"
| "list_loop env kind selector ((key, data) # items) =
    (if contains_v key then list_loop env kind selector items
     else case unmarshalResource env kind data of
       Inl _ \<Rightarrow> list_loop env kind selector items
     | Inr r \<Rightarrow>
        (if (case selector of None \<Rightarrow> False | Some sel \<Rightarrow> \<not> Match (GetLabels r) sel)
         then list_loop env kind selector items
         else r # list_loop env kind selector items))"

definition store_List :: "'d badger_env \<Rightarrow> string \<Rightarrow> string \<Rightarrow> labels option \<Rightarrow> 'd badger_store \<Rightarrow>
    resource list" where
  "store_List env kind namespace selector s =
    list_loop env kind selector (be_iterate env (listPrefix kind namespace) (bs_db s))"

section \<open>Versions\<close>

definition GetVersion :: "'d badger_env \<Rightarrow> string \<Rightarrow> string \<Rightarrow> string \<Rightarrow> int \<Rightarrow> 'd badger_store \<Rightarrow>
    store_error + resource" where
  "GetVersion env kind name namespace version s =
    (case be_get env (versionKey kind name namespace version) (bs_db s) of
       Inl ErrKeyNotFound \<Rightarrow> Inl ErrNotFound
     | Inl e \<Rightarrow> Inl (DBFailed e)
     | Inr data \<Rightarrow>
        (case be_unmarshalVersion env data of
           None \<Rightarrow> Inl UnmarshalError
         | Some ve \<Rightarrow>
            (case unmarshalResource env kind (ve_Data ve) of
               Inl e \<Rightarrow> Inl e
             | Inr r \<Rightarrow> decryptSecretData (be_crypto env) (bs_passphrase s) r)))"

fun versions_loop :: "'d badger_env \<Rightarrow> (string \<times> string) list \<Rightarrow> (int \<times> time) list" where
  "versions_loop env [] = []"
| "versions_loop env ((_, data) # items) =
    (case be_unmarshalVersion env data of
       None \<Rightarrow> versions_loop env items
     | Some ve \<Rightarrow> (ve_Version ve, ve_Timestamp ve) # versions_loop env items)"

definition ListVersions :: "'d badger_env \<Rightarrow> string \<Rightarrow> string \<Rightarrow> string \<Rightarrow> 'd badger_store \<Rightarrow>
    (int \<times> time) list" where
  "ListVersions env kind name namespace s =
    versions_loop env (be_iterate env (store_key kind name namespace @ '':v'') (bs_db s))"

text \<open>First pass of \<open>pruneOldVersions\<close>: the versions found for each resource key.\<close>

fun collect_versions :: "(string \<times> string) list \<Rightarrow> (string \<times> int list) list \<Rightarrow> (string \<times> int list) list" where
  "collect_versions [] acc = acc"
| "collect_versions ((key, _) # items) acc =
    (if contains_v key then
       (case split_v [] key of
          [resourceKey, v] \<Rightarrow>
            (case sscanf_d v of
               None \<Rightarrow> collect_versions items acc
             | Some version \<Rightarrow>
                (let vs = (case map_of acc resourceKey of None \<Rightarrow> [] | Some vs \<Rightarrow> vs)
                 in collect_versions items (AList.update resourceKey (vs @ [version]) acc)))
        | _ \<Rightarrow> collect_versions items acc)
     else collect_versions items acc)"

text \<open>The bubble sort: \<open>bubble_pass n\<close> compares the first \<open>n + 1\<close> elements pairwise.\<close>

fun bubble_pass :: "nat \<Rightarrow> int list \<Rightarrow> int list" where
  "bubble_pass (Suc n) (x # y # xs) =
    (if x > y then y # bubble_pass n (x # xs) else x # bubble_pass n (y # xs))"
| "bubble_pass _ xs = xs"

definition bubble_sort :: "int list \<Rightarrow> int list" where
  "bubble_sort versions =
    fold (\<lambda>i vs. bubble_pass (length versions - i - 1) vs) [0..<length versions - 1] versions"

fun prune_delete :: "'d badger_env \<Rightarrow> string \<Rightarrow> int list \<Rightarrow> 'd \<Rightarrow> 'd" where
  "prune_delete env resourceKey [] db = db"
| "prune_delete env resourceKey (v # vs) db =
    prune_delete env resourceKey vs
      (case be_delete env (resourceKey @ '':v'' @ int_str v) db of Inl _ \<Rightarrow> db | Inr db \<Rightarrow> db)"

definition prune_resource :: "'d badger_env \<Rightarrow> int \<Rightarrow> string \<times> int list \<Rightarrow> 'd \<Rightarrow> 'd" where
  "prune_resource env maxVersions rv db =
    (let (resourceKey, versions) = rv
     in if int (length versions) \<le> maxVersions then db
        else prune_delete env resourceKey
               (take (length versions - nat maxVersions) (bubble_sort versions)) db)"

definition pruneOldVersions :: "'d badger_env \<Rightarrow> 'd badger_store \<Rightarrow> 'd badger_store" where
  "pruneOldVersions env s =
    (if bs_maxVersions s \<le> 0 then s
     else fst (db_Update env (\<lambda>s.
       (s\<lparr>bs_db := fold (prune_resource env (bs_maxVersions s))
                     (collect_versions (be_iterate env ''/'' (bs_db s)) []) (bs_db s)\<rparr>, None)) s))"

definition SetMaxVersions :: "int \<Rightarrow> 'd badger_store \<Rightarrow> 'd badger_store" where
  "SetMaxVersions m s = s\<lparr>bs_maxVersions := m\<rparr>"

section \<open>What the environment promises\<close>

text \<open>The documented behaviour of BadgerDB inside one transaction: a write or deletion that
  succeeds is seen by later reads of the key and changes no other key; iterating over a prefix
  visits every present key with the prefix once.\<close>

definition kv_laws :: "'d badger_env \<Rightarrow> bool" where
  "kv_laws env \<longleftrightarrow>
    (\<forall>k v d d'. be_set env k v d = Inr d' \<longrightarrow>
       (\<forall>k'. be_get env k' d' = (if k' = k then Inr v else be_get env k' d))) \<and>
    (\<forall>k d d'. be_delete env k d = Inr d' \<longrightarrow>
       (\<forall>k'. be_get env k' d' = (if k' = k then Inl ErrKeyNotFound else be_get env k' d))) \<and>
    (\<forall>p d. distinct (map fst (be_iterate env p d)) \<and>
       (\<forall>k v. (k, v) \<in> set (be_iterate env p d) \<longleftrightarrow> has_prefix p k \<and> be_get env k d = Inr v))"

text \<open>The documented behaviour of \<open>encoding/json\<close> on these types: what was marshalled is
  read back, and \<open>Unmarshal\<close> fills the struct it is given, which the code chooses by the kind.\<close>

definition json_laws :: "'d badger_env \<Rightarrow> bool" where
  "json_laws env \<longleftrightarrow>
    (\<forall>r data. be_marshal env r = Some data \<longrightarrow> be_unmarshal env (GetKind r) data = Some r) \<and>
    (\<forall>kind data r. be_unmarshal env kind data = Some r \<longrightarrow> GetKind r = kind) \<and>
    (\<forall>ve data. be_marshalVersion env ve = Some data \<longrightarrow> be_unmarshalVersion env data = Some ve)"

definition env_ok :: "'d badger_env \<Rightarrow> bool" where
  "env_ok env \<longleftrightarrow> kv_laws env \<and> json_laws env \<and> aead_correct (be_crypto env)"

text \<open>The random source returns as many bytes as it is asked for.\<close>

definition rnd_ok :: "(string \<Rightarrow> string option \<times> string option) \<Rightarrow> bool" where
  "rnd_ok rnd \<longleftrightarrow> (\<forall>k. (case fst (rnd k) of None \<Rightarrow> True | Some s \<Rightarrow> length s = saltSize) \<and>
                      (case snd (rnd k) of None \<Rightarrow> True | Some n \<Rightarrow> length n = nonceSize))"

lemma rnd_okD:
  assumes "rnd_ok rnd"
  shows "fst (rnd k) = Some s \<Longrightarrow> length s = saltSize" "snd (rnd k) = Some n \<Longrightarrow> length n = nonceSize"
  using assms [unfolded rnd_ok_def, rule_format, of k] by simp_all

lemma kv_set:
  assumes "env_ok env" and "be_set env k v d = Inr d'"
  shows "be_get env k' d' = (if k' = k then Inr v else be_get env k' d)"
  using assms unfolding env_ok_def kv_laws_def by blast

lemma kv_delete:
  assumes "env_ok env" and "be_delete env k d = Inr d'"
  shows "be_get env k' d' = (if k' = k then Inl ErrKeyNotFound else be_get env k' d)"
  using assms unfolding env_ok_def kv_laws_def by blast

lemma kv_iterate:
  assumes "env_ok env"
  shows "distinct (map fst (be_iterate env p d))"
    and "(k, v) \<in> set (be_iterate env p d) \<longleftrightarrow> has_prefix p k \<and> be_get env k d = Inr v"
  using assms unfolding env_ok_def kv_laws_def by blast+

lemma json_resource:
  assumes "env_ok env" and "be_marshal env r = Some data"
  shows "unmarshalResource env (GetKind r) data = Inr r"
proof -
  have "be_unmarshal env (GetKind r) data = Some r"
    using assms unfolding env_ok_def json_laws_def by blast
  then show ?thesis by (cases r) (simp_all add: unmarshalResource_def)
qed

lemma unmarshal_kind:
  "env_ok env \<Longrightarrow> unmarshalResource env kind data = Inr r \<Longrightarrow> GetKind r = kind"
  unfolding env_ok_def json_laws_def
  by (auto simp: unmarshalResource_def split: if_splits option.splits)

lemma json_version:
  "env_ok env \<Longrightarrow> be_marshalVersion env ve = Some data \<Longrightarrow> be_unmarshalVersion env data = Some ve"
  unfolding env_ok_def json_laws_def by blast

section \<open>Secrets in and out\<close>

lemma encrypt_decrypt_all:
  assumes "aead_correct cr" and "rnd_ok rnd" and "encrypt_all cr rnd passphrase acc data = Inr out"
  shows "\<exists>encs. out = acc @ encs \<and> decrypt_all cr passphrase acc' encs = Inr (acc' @ data)"
  using assms(3)
proof (induction data arbitrary: acc acc')
  case Nil
  then show ?case by simp
next
  case (Cons p data)
  obtain k v where p: "p = (k, v)" by (cases p)
  obtain enc where enc: "Encrypt cr (fst (rnd k)) (snd (rnd k)) v passphrase = Inr enc"
    and rest: "encrypt_all cr rnd passphrase (acc @ [(k, enc)]) data = Inr out"
    using Cons.prems by (auto simp: p split: sum.splits)
  obtain salt nonce where sn: "fst (rnd k) = Some salt" "snd (rnd k) = Some nonce"
  proof (cases "fst (rnd k)"; cases "snd (rnd k)")
    fix salt nonce assume "fst (rnd k) = Some salt" "snd (rnd k) = Some nonce"
    then show thesis by (rule that)
  qed (use enc in \<open>simp_all add: Encrypt_def Let_def split: if_splits\<close>)
  have len: "length salt = saltSize" "length nonce = nonceSize"
    using rnd_okD [OF assms(2)] sn by blast+
  have ne: "passphrase \<noteq> []" using enc by (auto simp: Encrypt_def)
  have dec: "Decrypt cr enc passphrase = Inr v"
    using Decrypt_Encrypt [OF _ len(1) refl len(2), of cr v passphrase enc passphrase] enc sn ne assms(1)
    by (simp add: aead_correct_def)
  from Cons.IH [OF rest, of "acc' @ [(k, v)]"] obtain encs
    where "out = (acc @ [(k, enc)]) @ encs"
      "decrypt_all cr passphrase (acc' @ [(k, v)]) encs = Inr (acc' @ (k, v) # data)" by auto
  then show ?case using dec by (intro exI [of _ "(k, enc) # encs"]) (simp add: p)
qed

lemma encrypt_decrypt_resource:
  assumes "env_ok env" and "rnd_ok rnd"
    and "encryptSecretData (be_crypto env) rnd passphrase r = Inr r'"
  shows "decryptSecretData (be_crypto env) passphrase r' = Inr r"
proof (cases r)
  case (RSecret sec)
  then obtain out where out: "encrypt_all (be_crypto env) rnd passphrase [] (sec_Data sec) = Inr out"
      "r' = RSecret (sec\<lparr>sec_Data := out\<rparr>)"
    using assms(3) by (auto simp: encryptSecretData_def split: sum.splits)
  have "aead_correct (be_crypto env)" using assms(1) by (simp add: env_ok_def)
  from encrypt_decrypt_all [OF this assms(2) out(1), of "[]"]
  have "decrypt_all (be_crypto env) passphrase [] out = Inr (sec_Data sec)" by auto
  then show ?thesis using RSecret out(2) by (simp add: decryptSecretData_def)
qed (use assms in \<open>auto simp: encryptSecretData_def decryptSecretData_def\<close>)

lemma encrypt_keeps_identity:
  assumes "encryptSecretData cr rnd passphrase r = Inr r'"
  shows "GetKind r' = GetKind r" "GetName r' = GetName r" "GetNamespace r' = GetNamespace r"
  using assms by (cases r; auto simp: encryptSecretData_def GetName_def GetNamespace_def split: sum.splits)+

section \<open>Keys\<close>

text \<open>A name without the characters the keys are built with.\<close>

definition plain :: "string \<Rightarrow> bool" where
  "plain s \<longleftrightarrow> CHR ''/'' \<notin> set s \<and> CHR '':'' \<notin> set s"

lemma plain_kind [simp]: "plain (GetKind r)"
  by (cases r) (simp_all add: plain_def)

lemma versionKey_neq_key: "versionKey kind name ns v \<noteq> store_key kind name ns"
  by (simp add: versionKey_def)

lemma key_colon: "plain kind \<Longrightarrow> plain name \<Longrightarrow> plain ns \<Longrightarrow> CHR '':'' \<notin> set (store_key kind name ns)"
  by (auto simp: store_key_def plain_def)

lemma versionKey_colon: "CHR '':'' \<in> set (versionKey kind name ns v)"
  by (simp add: versionKey_def)

lemma versionKey_neq_plain:
  "plain kind' \<Longrightarrow> plain name' \<Longrightarrow> plain ns' \<Longrightarrow> versionKey kind name ns v \<noteq> store_key kind' name' ns'"
  using key_colon versionKey_colon by metis

lemma store_key_inject:
  assumes "plain kind" "plain name" "plain ns" "plain kind'" "plain name'" "plain ns'"
  shows "store_key kind name ns = store_key kind' name' ns' \<longleftrightarrow> kind = kind' \<and> name = name' \<and> ns = ns'"
proof
  assume eq: "store_key kind name ns = store_key kind' name' ns'"
  have count: "length (filter (\<lambda>c. c = CHR ''/'') (store_key k n m)) = (if m = '''' then 2 else 3)"
    if "plain k" "plain n" "plain m" for k n m
  proof -
    have "filter (\<lambda>c. c = CHR ''/'') x = []" if "plain x" for x
      using that by (auto simp: plain_def filter_empty_conv)
    then show ?thesis using that by (simp add: store_key_def)
  qed
  have ns: "ns = '''' \<longleftrightarrow> ns' = ''''"
    using count [OF assms(1-3)] count [OF assms(4-6)] eq by (auto split: if_splits)
  have two: "kind = kind' \<and> name = name'" if "kind @ ''/'' @ name = kind' @ ''/'' @ name'"
    using that assms append_sep_inject [of kind "CHR ''/''" name kind' name'] by (simp add: plain_def)
  show "kind = kind' \<and> name = name' \<and> ns = ns'"
  proof (cases "ns = ''''")
    case True
    then show ?thesis using eq ns two by (simp add: store_key_def)
  next
    case False
    then have "ns @ CHR ''/'' # (kind @ ''/'' @ name) = ns' @ CHR ''/'' # (kind' @ ''/'' @ name')"
      using eq ns by (simp add: store_key_def)
    then show ?thesis using append_sep_inject [of ns "CHR ''/''" _ ns'] assms two by (auto simp: plain_def)
  qed
qed simp

section \<open>Effects of the operations\<close>

lemma remove_watcher_db [simp]:
  "bs_db (remove_watcher key ch s) = bs_db s" "bs_passphrase (remove_watcher key ch s) = bs_passphrase s"
  "bs_maxVersions (remove_watcher key ch s) = bs_maxVersions s"
  by (simp_all add: remove_watcher_def Let_def split: option.splits)

lemma notify_one_db [simp]:
  "bs_db (notify_one key e ch s) = bs_db s" "bs_passphrase (notify_one key e ch s) = bs_passphrase s"
  by (simp_all add: notify_one_def Let_def)

lemma notify_fold_db:
  "bs_db (fold (notify_one key e) ws s) = bs_db s"
  "bs_passphrase (fold (notify_one key e) ws s) = bs_passphrase s"
  by (induction ws arbitrary: s) simp_all

lemma notifyWatchers_db [simp]:
  "bs_db (notifyWatchers kind ns ev r s) = bs_db s"
  "bs_passphrase (notifyWatchers kind ns ev r s) = bs_passphrase s"
  by (simp_all add: notifyWatchers_def notify_fold_db Let_def split: option.splits)

lemma store_write_effect:
  assumes "env_ok env" and "store_write env now rnd ev v r s = (r', s', None)"
  shows "\<exists>data vdata. encryptSecretData (be_crypto env) rnd (bs_passphrase s) r = Inr r' \<and>
    be_marshal env r' = Some data \<and>
    be_marshalVersion env \<lparr>ve_Version = v, ve_Timestamp = now, ve_Data = data\<rparr> = Some vdata \<and>
    bs_passphrase s' = bs_passphrase s \<and>
    (\<forall>k. be_get env k (bs_db s') =
      (if k = versionKey (GetKind r) (GetName r) (GetNamespace r) v then Inr vdata
       else if k = store_key (GetKind r) (GetName r) (GetNamespace r) then Inr data
       else be_get env k (bs_db s)))"
proof -
  obtain r1 where r1: "encryptSecretData (be_crypto env) rnd (bs_passphrase s) r = Inr r1"
    using assms(2) by (auto simp: store_write_def split: sum.splits)
  note id = encrypt_keeps_identity [OF r1]
  obtain data where data: "be_marshal env r1 = Some data"
    using assms(2) r1 by (auto simp: store_write_def split: option.splits)
  obtain db1 where db1: "be_set env (store_key (GetKind r) (GetName r) (GetNamespace r)) data (bs_db s) = Inr db1"
    using assms(2) r1 data id by (auto simp: store_write_def split: sum.splits)
  obtain vdata where vdata: "be_marshalVersion env \<lparr>ve_Version = v, ve_Timestamp = now, ve_Data = data\<rparr> = Some vdata"
    using assms(2) r1 data db1 id by (auto simp: store_write_def split: option.splits)
  obtain db2 where db2: "be_set env (versionKey (GetKind r) (GetName r) (GetNamespace r) v) vdata db1 = Inr db2"
    using assms(2) r1 data db1 vdata id by (auto simp: store_write_def split: sum.splits)
  have s': "r' = r1" "s' = notifyWatchers (GetKind r) (GetNamespace r) ev r1 (s\<lparr>bs_db := db2\<rparr>)"
    using assms(2) r1 data db1 vdata db2 id by (auto simp: store_write_def)
  show ?thesis using r1 data vdata s' kv_set [OF assms(1) db1] kv_set [OF assms(1) db2] by auto
qed

lemma db_Update_None:
  assumes "db_Update env f s = (s', None)"
  shows "f s = (s', None)"
  using assms by (auto simp: db_Update_def split: prod.splits option.splits)

lemma store_Create_ok:
  assumes "store_Create env u now rnd r s = (r', s', None)"
  shows "store_write env now rnd EventCreated 1 (ensureUID u r) s = (r', s', None)"
    and "be_get env (store_key (GetKind r) (GetName r) (GetNamespace r)) (bs_db s) = Inl ErrKeyNotFound"
proof -
  have id: "GetKind (ensureUID u r) = GetKind r" "GetName (ensureUID u r) = GetName r"
    "GetNamespace (ensureUID u r) = GetNamespace r" by (simp_all add: ensureUID_def)
  show get: "be_get env (store_key (GetKind r) (GetName r) (GetNamespace r)) (bs_db s) = Inl ErrKeyNotFound"
    using assms by (auto simp: store_Create_def Let_def id split: sum.splits kv_error.splits)
  let ?w = "store_write env now rnd EventCreated 1 (ensureUID u r)"
  from assms get have "r' = fst (?w s)" and "db_Update env (\<lambda>s. snd (?w s)) s = (s', None)"
    by (auto simp: store_Create_def Let_def id)
  then show "?w s = (r', s', None)" by (metis db_Update_None prod.collapse)
qed

lemma store_Update_ok:
  assumes "store_Update env now rnd r s = (r', s', None)"
  shows "store_write env now rnd EventUpdated (wrap64 (max_version (be_iterate env
      (store_key (GetKind r) (GetName r) (GetNamespace r) @ '':v'') (bs_db s)) 0 + 1)) r s = (r', s', None)"
    and "\<exists>data. be_get env (store_key (GetKind r) (GetName r) (GetNamespace r)) (bs_db s) = Inr data"
proof -
  show get: "\<exists>data. be_get env (store_key (GetKind r) (GetName r) (GetNamespace r)) (bs_db s) = Inr data"
    using assms by (auto simp: store_Update_def Let_def split: sum.splits kv_error.splits)
  let ?v = "wrap64 (max_version (be_iterate env
      (store_key (GetKind r) (GetName r) (GetNamespace r) @ '':v'') (bs_db s)) 0 + 1)"
  let ?w = "store_write env now rnd EventUpdated ?v r"
  from assms get have "r' = fst (?w s)" and "db_Update env (\<lambda>s. snd (?w s)) s = (s', None)"
    by (auto simp: store_Update_def Let_def)
  then show "?w s = (r', s', None)" by (metis db_Update_None prod.collapse)
qed

lemma store_Delete_ok:
  assumes "env_ok env" and "store_Delete env kind name ns s = (s', None)"
  shows "bs_passphrase s' = bs_passphrase s \<and> (\<exists>data. be_get env (store_key kind name ns) (bs_db s) = Inr data) \<and>
    (\<forall>k. be_get env k (bs_db s') =
      (if k = store_key kind name ns then Inl ErrKeyNotFound else be_get env k (bs_db s)))"
proof -
  obtain data where data: "be_get env (store_key kind name ns) (bs_db s) = Inr data"
    using db_Update_None [OF assms(2) [unfolded store_Delete_def]]
    by (auto simp: Let_def split: sum.splits kv_error.splits)
  obtain db where db: "be_delete env (store_key kind name ns) (bs_db s) = Inr db"
    using db_Update_None [OF assms(2) [unfolded store_Delete_def]] data
    by (auto simp: Let_def split: sum.splits)
  have "bs_db s' = db \<and> bs_passphrase s' = bs_passphrase s"
    using db_Update_None [OF assms(2) [unfolded store_Delete_def]] data db
    by (auto simp: Let_def split: sum.splits)
  then show ?thesis using data kv_delete [OF assms(1) db] by simp
qed

lemma store_write_passphrase: "bs_passphrase (fst (snd (store_write env now rnd ev v r s))) = bs_passphrase s"
  by (simp add: store_write_def split: sum.split option.split)

lemma db_Update_fail:
  assumes "db_Update env f s = (s', Some e)" and "bs_passphrase (fst (f s)) = bs_passphrase s"
  shows "bs_db s' = bs_db s \<and> bs_passphrase s' = bs_passphrase s"
  using assms by (auto simp: db_Update_def split: prod.splits option.splits)

lemma store_write_fail:
  assumes "db_Update env (\<lambda>s. snd (store_write env now rnd ev v r s)) s = (s', Some e)"
  shows "bs_db s' = bs_db s \<and> bs_passphrase s' = bs_passphrase s"
  by (rule db_Update_fail [OF assms]) (simp add: store_write_passphrase)

lemma store_Create_fail:
  "store_Create env u now rnd r s = (r', s', Some e) \<Longrightarrow> bs_db s' = bs_db s \<and> bs_passphrase s' = bs_passphrase s"
  by (auto simp: store_Create_def Let_def dest: store_write_fail split: sum.splits kv_error.splits)

lemma store_Update_fail:
  "store_Update env now rnd r s = (r', s', Some e) \<Longrightarrow> bs_db s' = bs_db s \<and> bs_passphrase s' = bs_passphrase s"
  by (auto simp: store_Update_def Let_def dest: store_write_fail split: sum.splits kv_error.splits)

lemma store_Delete_fail:
  assumes "store_Delete env kind name ns s = (s', Some e)"
  shows "bs_db s' = bs_db s \<and> bs_passphrase s' = bs_passphrase s"
  using assms unfolding store_Delete_def
  by (rule db_Update_fail) (simp add: Let_def split: sum.split kv_error.split)

lemma store_Get_cong:
  "be_get env (store_key kind name ns) (bs_db s') = be_get env (store_key kind name ns) (bs_db s) \<Longrightarrow>
    bs_passphrase s' = bs_passphrase s \<Longrightarrow> store_Get env kind name ns s' = store_Get env kind name ns s"
  by (simp add: store_Get_def split: sum.splits kv_error.splits)

lemma store_write_Get:
  assumes "env_ok env" "rnd_ok rnd" and "store_write env now rnd ev v r s = (r', s', None)"
  shows "store_Get env (GetKind r) (GetName r) (GetNamespace r) s' = Inr r"
    and "plain (GetName r) \<Longrightarrow> plain (GetNamespace r) \<Longrightarrow> plain kind \<Longrightarrow> plain name \<Longrightarrow> plain ns \<Longrightarrow>
      (kind, name, ns) \<noteq> (GetKind r, GetName r, GetNamespace r) \<Longrightarrow>
      store_Get env kind name ns s' = store_Get env kind name ns s"
proof -
  obtain data vdata where w: "encryptSecretData (be_crypto env) rnd (bs_passphrase s) r = Inr r'"
    "be_marshal env r' = Some data" "bs_passphrase s' = bs_passphrase s"
    "\<And>k. be_get env k (bs_db s') =
      (if k = versionKey (GetKind r) (GetName r) (GetNamespace r) v then Inr vdata
       else if k = store_key (GetKind r) (GetName r) (GetNamespace r) then Inr data
       else be_get env k (bs_db s))"
    using store_write_effect [OF assms(1,3)] by blast
  have "unmarshalResource env (GetKind r) data = Inr r'"
    using json_resource [OF assms(1) w(2)] encrypt_keeps_identity [OF w(1)] by simp
  then show "store_Get env (GetKind r) (GetName r) (GetNamespace r) s' = Inr r"
    using encrypt_decrypt_resource [OF assms(1,2) w(1)] w(3,4) versionKey_neq_key [symmetric]
    by (simp add: store_Get_def)
  assume p: "plain (GetName r)" "plain (GetNamespace r)" "plain kind" "plain name" "plain ns"
    "(kind, name, ns) \<noteq> (GetKind r, GetName r, GetNamespace r)"
  then have "store_key kind name ns \<noteq> store_key (GetKind r) (GetName r) (GetNamespace r)"
    by (auto simp: store_key_inject)
  moreover have "store_key kind name ns \<noteq> versionKey (GetKind r) (GetName r) (GetNamespace r) v"
    using versionKey_neq_plain [OF p(3,4,5)] by metis
  ultimately show "store_Get env kind name ns s' = store_Get env kind name ns s"
    using w(3,4) by (intro store_Get_cong) simp_all
qed

section \<open>A concrete environment\<close>

text \<open>An environment that satisfies the laws, for the witnesses: the database is an
  association list, and one session in two states can be marshalled.\<close>

definition sample_session :: "string \<Rightarrow> resource" where
  "sample_session phase = RSession
    \<lparr>se_TypeMeta = \<lparr>tm_APIVersion = ''v1'', tm_Kind = ''Session''\<rparr>,
     se_Meta = \<lparr>om_Name = ''s1'', om_Namespace = ''prod'', om_UID = ''u1'', om_Labels = [],
                om_Annotations = [], om_CreatedAt = 1, om_UpdatedAt = 1\<rparr>,
     se_Status = \<lparr>sst_Phase = phase, sst_LastActivity = 1, sst_ActiveAgents = 0\<rparr>,
     se_Spec = \<lparr>sn_TimeoutMinutes = 5, sn_MaxDurationMinutes = 0, sn_PersistOnTerminate = False,
                sn_PersistPath = '''', sn_MaxMemoryMB = 0\<rparr>\<rparr>"

definition sample_env :: "(string \<times> string) list badger_env" where
  "sample_env =
    \<lparr>be_get = (\<lambda>k d. case map_of d k of None \<Rightarrow> Inl ErrKeyNotFound | Some v \<Rightarrow> Inr v),
     be_set = (\<lambda>k v d. Inr (AList.update k v d)),
     be_delete = (\<lambda>k d. Inr (AList.delete k d)),
     be_iterate = (\<lambda>p d. map (\<lambda>k. (k, the (map_of d k))) (filter (has_prefix p) (remdups (map fst d)))),
     be_commit = (\<lambda>_ _. None),
     be_marshal = (\<lambda>r. if r = sample_session ''created'' then Some ''c''
        else if r = sample_session ''active'' then Some ''a'' else None),
     be_unmarshal = (\<lambda>kind data. if kind = ''Session'' \<and> data = ''c'' then Some (sample_session ''created'')
        else if kind = ''Session'' \<and> data = ''a'' then Some (sample_session ''active'') else None),
     be_marshalVersion = (\<lambda>ve. if ve_Timestamp ve \<in> {0, 1} \<and> in64 (ve_Version ve) \<and> length (ve_Data ve) = 1
        then Some (ve_Data ve @ (if ve_Timestamp ve = 0 then CHR ''0'' else CHR ''1'') # int_str (ve_Version ve)) else None),
     be_unmarshalVersion = (\<lambda>s. map_option (\<lambda>v. \<lparr>ve_Version = v, ve_Timestamp = (if s ! 1 = CHR ''0'' then 0 else 1),
        ve_Data = take 1 s\<rparr>) (parse_int64 (drop 2 s))),
     be_crypto = marking_cipher\<rparr>"

lemma sample_env_ok: "env_ok sample_env"
proof -
  have "kv_laws sample_env"
  proof -
    have iter: "distinct (map fst (be_iterate sample_env p d)) \<and>
        (\<forall>k v. (k, v) \<in> set (be_iterate sample_env p d) \<longleftrightarrow>
          has_prefix p k \<and> be_get sample_env k d = Inr v)" for p d
    proof (intro conjI allI)
      show "distinct (map fst (be_iterate sample_env p d))" by (simp add: sample_env_def comp_def)
      have "k \<in> keys_of d \<longleftrightarrow> map_of d k \<noteq> None" for k by (simp add: map_of_eq_None_iff)
      then show "(k, v) \<in> set (be_iterate sample_env p d) \<longleftrightarrow>
          has_prefix p k \<and> be_get sample_env k d = Inr v" for k v
        by (auto simp: sample_env_def image_iff split: option.splits)
    qed
    show ?thesis unfolding kv_laws_def using iter by (auto simp: sample_env_def split: option.splits)
  qed
  moreover have "json_laws sample_env"
    unfolding json_laws_def by (auto simp: sample_env_def sample_session_def nth_append split: if_splits)
  ultimately show ?thesis
    by (simp add: env_ok_def sample_env_def marking_cipher_correct)
qed

definition sample_rnd :: "string \<Rightarrow> string option \<times> string option" where
  "sample_rnd k = (Some ''0123456789abcdef'', Some ''0123456789ab'')"

lemma sample_rnd_ok: "rnd_ok sample_rnd"
  by (simp add: rnd_ok_def sample_rnd_def)

lemma decrypt_not_ErrNotFound: "decryptSecretData cr p r \<noteq> Inl ErrNotFound"
proof -
  have "decrypt_all cr p acc d \<noteq> Inl ErrNotFound" for acc d
    by (induction cr p acc d rule: decrypt_all.induct) (auto split: sum.splits)
  then show ?thesis by (cases r) (auto simp: decryptSecretData_def split: sum.splits)
qed

lemma store_Get_present:
  assumes "be_get env (store_key kind name ns) (bs_db s) = Inr data"
  shows "store_Get env kind name ns s \<noteq> Inl ErrNotFound"
  using assms decrypt_not_ErrNotFound
  by (simp add: store_Get_def unmarshalResource_def split: sum.splits option.splits)

section \<open>Properties\<close>

text \<open>C1: For resources whose names contain neither slash nor colon, the store is a map from
  kind, name and namespace to resources.  A successful \<open>Create\<close> needs an absent key, a
  successful \<open>Update\<close> or \<open>Delete\<close> a present one; afterwards \<open>Get\<close> returns exactly the
  resource that was written (secrets decrypted again), or that it does not exist, and the
  answer for every other resource is unchanged.\<close>

theorem store_refines_map:
  assumes "env_ok env" "rnd_ok rnd" "plain (GetName r)" "plain (GetNamespace r)"
    and "plain kind" "plain name" "plain ns"
  shows "(store_Create env u now rnd r s = (r', s', None) \<longrightarrow>
      store_Get env (GetKind r) (GetName r) (GetNamespace r) s = Inl ErrNotFound \<and>
      store_Get env kind name ns s' =
        (if (kind, name, ns) = (GetKind r, GetName r, GetNamespace r) then Inr (ensureUID u r)
         else store_Get env kind name ns s)) \<and>
    (store_Update env now rnd r s = (r', s', None) \<longrightarrow>
      store_Get env (GetKind r) (GetName r) (GetNamespace r) s \<noteq> Inl ErrNotFound \<and>
      store_Get env kind name ns s' =
        (if (kind, name, ns) = (GetKind r, GetName r, GetNamespace r) then Inr r
         else store_Get env kind name ns s)) \<and>
    (store_Delete env (GetKind r) (GetName r) (GetNamespace r) s = (s', None) \<longrightarrow>
      store_Get env (GetKind r) (GetName r) (GetNamespace r) s \<noteq> Inl ErrNotFound \<and>
      store_Get env kind name ns s' =
        (if (kind, name, ns) = (GetKind r, GetName r, GetNamespace r) then Inl ErrNotFound
         else store_Get env kind name ns s))"
proof (intro conjI impI)
  have id: "GetKind (ensureUID u r) = GetKind r" "GetName (ensureUID u r) = GetName r"
    "GetNamespace (ensureUID u r) = GetNamespace r" by (simp_all add: ensureUID_def)
  assume c: "store_Create env u now rnd r s = (r', s', None)"
  show "store_Get env (GetKind r) (GetName r) (GetNamespace r) s = Inl ErrNotFound"
    using store_Create_ok(2) [OF c] by (simp add: store_Get_def)
  show "store_Get env kind name ns s' =
        (if (kind, name, ns) = (GetKind r, GetName r, GetNamespace r) then Inr (ensureUID u r)
         else store_Get env kind name ns s)"
    using store_write_Get [OF assms(1,2) store_Create_ok(1) [OF c]] assms(3-7) by (simp add: id)
next
  assume c: "store_Update env now rnd r s = (r', s', None)"
  show "store_Get env (GetKind r) (GetName r) (GetNamespace r) s \<noteq> Inl ErrNotFound"
    using store_Update_ok(2) [OF c] store_Get_present by blast
  show "store_Get env kind name ns s' =
        (if (kind, name, ns) = (GetKind r, GetName r, GetNamespace r) then Inr r
         else store_Get env kind name ns s)"
    using store_write_Get [OF assms(1,2) store_Update_ok(1) [OF c]] assms(3-7) by simp
next
  assume c: "store_Delete env (GetKind r) (GetName r) (GetNamespace r) s = (s', None)"
  note d = store_Delete_ok [OF assms(1) c]
  show "store_Get env (GetKind r) (GetName r) (GetNamespace r) s \<noteq> Inl ErrNotFound"
    using d store_Get_present by blast
  show "store_Get env kind name ns s' =
        (if (kind, name, ns) = (GetKind r, GetName r, GetNamespace r) then Inl ErrNotFound
         else store_Get env kind name ns s)"
  proof (cases "(kind, name, ns) = (GetKind r, GetName r, GetNamespace r)")
    case True
    then show ?thesis using d by (simp add: store_Get_def)
  next
    case False
    then have "store_key kind name ns \<noteq> store_key (GetKind r) (GetName r) (GetNamespace r)"
      using assms(3-7) by (auto simp: store_key_inject)
    then have "store_Get env kind name ns s' = store_Get env kind name ns s"
      using d by (intro store_Get_cong) simp_all
    then show ?thesis using False by auto
  qed
qed

text \<open>The witness creates a session in an empty store and reads it back.\<close>

definition sample_store :: "(string \<times> string) list badger_store" where
  "sample_store = NewStore_badger [] ''pw''"

lemma store_refines_map_witness:
  "store_Get sample_env ''Session'' ''s1'' ''prod''
     (fst (snd (store_Create sample_env ''u2'' 0 sample_rnd (sample_session ''created'') sample_store))) =
   Inr (sample_session ''created'')"
proof -
  let ?r = "sample_session ''created''"
  let ?c = "store_Create sample_env ''u2'' 0 sample_rnd ?r sample_store"
  have "snd (snd ?c) = None" by code_simp
  then have c: "?c = (fst ?c, fst (snd ?c), None)" by (metis prod.collapse)
  have id: "GetKind ?r = ''Session''" "GetName ?r = ''s1''" "GetNamespace ?r = ''prod''" "ensureUID ''u2'' ?r = ?r"
    by (simp_all add: sample_session_def GetName_def GetNamespace_def ensureUID_def GetUID_def)
  have pl: "plain ''s1''" "plain ''prod''" "plain ''Session''" by (simp_all add: plain_def)
  show ?thesis
    using store_refines_map [OF sample_env_ok sample_rnd_ok, of ?r "''Session''" "''s1''" "''prod''" "''u2''" 0
        sample_store "fst ?c" "fst (snd ?c)"] c pl unfolding id by simp
qed

subsection \<open>The version history\<close>

lemma last_v_append: "last_v s = Some t \<Longrightarrow> last_v (k @ s) = Some t"
  by (induction k) simp_all

lemma last_v_None: "CHR '':'' \<notin> set s \<Longrightarrow> last_v s = None"
  by (induction s) auto

lemma int_str_chars: "c \<in> set (int_str n) \<Longrightarrow> is_digit c \<or> c = CHR ''-''"
  using nat_str_digits [of "nat n"] nat_str_digits [of "nat (- n)"]
  by (auto simp: int_str_def list_all_iff split: if_splits)

lemma int_str_plain: "CHR '':'' \<notin> set (int_str n)" "CHR ''/'' \<notin> set (int_str n)"
  using int_str_chars [of "CHR '':''" n] int_str_chars [of "CHR ''/''" n] by (auto simp: is_digit_def)

lemma last_v_versionKey: "last_v (versionKey kind name ns i) = Some (int_str i)"
  unfolding versionKey_def
  by (rule last_v_append) (simp add: last_v_None int_str_plain)

lemma sscanf_int_str [simp]: "in64 n \<Longrightarrow> sscanf_d (int_str n) = Some n"
proof -
  assume n: "in64 n"
  have take: "takeWhile is_digit (nat_str k) = nat_str k" for k
    using nat_str_digits [of k] by (simp add: takeWhile_eq_all_conv list_all_iff)
  show ?thesis
  proof (cases "n < 0")
    case True
    then show ?thesis using n by (simp add: sscanf_d_def int_str_def is_space_def take)
  next
    case False
    obtain c cs where s: "nat_str (nat n) = c # cs" by (cases "nat_str (nat n)") auto
    have d: "is_digit c" using nat_str_digits [of "nat n"] s by simp
    then have "c \<noteq> CHR '' ''" "c \<noteq> CHR ''-''" "c \<noteq> CHR ''+''" by (auto simp: is_digit_def)
    moreover have "takeWhile is_digit (c # cs) = c # cs" "parse_nat (c # cs) = Some (nat n)"
      using take [of "nat n"] parse_nat_str [of "nat n"] s by simp_all
    ultimately show ?thesis using False n s by (simp add: sscanf_d_def int_str_def is_space_def)
  qed
qed

lemma versionKey_inject: "versionKey kind name ns i = versionKey kind name ns j \<longleftrightarrow> i = j"
  by (simp add: versionKey_def int_str_inj)

lemma max_version_eq:
  assumes "\<forall>p \<in> set items. \<exists>i. 1 \<le> i \<and> i \<le> n \<and> fst p = versionKey kind name ns i"
    and "m \<le> n" and "m = n \<or> versionKey kind name ns n \<in> fst ` set items" and "in64 n"
  shows "max_version items m = n"
  using assms
proof (induction items arbitrary: m)
  case Nil
  then show ?case by simp
next
  case (Cons p items)
  obtain i where i: "1 \<le> i" "i \<le> n" "fst p = versionKey kind name ns i" using Cons.prems(1) by auto
  then have "in64 i" using Cons.prems(4) by (auto simp: in64_def)
  then have step: "max_version (p # items) m = max_version items (max m i)"
    using i(3) by (cases p) (auto simp: last_v_versionKey max_def)
  have "max_version items (max m i) = n"
    using Cons.prems i by (intro Cons.IH) (auto simp: versionKey_inject max_def)
  then show ?case using step by simp
qed

text \<open>The version keys present for a resource are those of the numbers up to \<open>n\<close>.\<close>

definition versions_upto :: "'d badger_env \<Rightarrow> string \<Rightarrow> string \<Rightarrow> string \<Rightarrow> int \<Rightarrow> 'd badger_store \<Rightarrow> bool" where
  "versions_upto env kind name ns n s \<longleftrightarrow>
    (\<forall>k. has_prefix (store_key kind name ns @ '':v'') k \<longrightarrow>
      (\<exists>d. be_get env k (bs_db s) = Inr d) = (\<exists>i. 1 \<le> i \<and> i \<le> n \<and> k = versionKey kind name ns i))"

lemma versions_upto_max:
  assumes "env_ok env" "versions_upto env kind name ns n s" "in64 n" "0 \<le> n"
  shows "max_version (be_iterate env (store_key kind name ns @ '':v'') (bs_db s)) 0 = n"
proof (rule max_version_eq)
  let ?it = "be_iterate env (store_key kind name ns @ '':v'') (bs_db s)"
  show "\<forall>p \<in> set ?it. \<exists>i. 1 \<le> i \<and> i \<le> n \<and> fst p = versionKey kind name ns i"
    using kv_iterate(2) [OF assms(1)] assms(2) by (fastforce simp: versions_upto_def)
  show "0 = n \<or> versionKey kind name ns n \<in> fst ` set ?it"
  proof (cases "n = 0")
    case False
    have pre: "has_prefix (store_key kind name ns @ '':v'') (versionKey kind name ns n)"
      by (auto simp: versionKey_def has_prefix_iff)
    have "1 \<le> n" using False assms(4) by simp
    then have "\<exists>i. 1 \<le> i \<and> i \<le> n \<and> versionKey kind name ns n = versionKey kind name ns i" by auto
    then obtain d where "be_get env (versionKey kind name ns n) (bs_db s) = Inr d"
      using assms(2) pre unfolding versions_upto_def by blast
    then have "(versionKey kind name ns n, d) \<in> set ?it" using pre kv_iterate(2) [OF assms(1)] by blast
    then show ?thesis by force
  qed simp
qed (use assms in auto)

lemma store_write_versions:
  assumes "env_ok env" "rnd_ok rnd" and "store_write env now rnd ev (n + 1) r s = (r', s', None)"
    and "versions_upto env (GetKind r) (GetName r) (GetNamespace r) n s" "0 \<le> n"
  shows "versions_upto env (GetKind r) (GetName r) (GetNamespace r) (n + 1) s'"
    and "GetVersion env (GetKind r) (GetName r) (GetNamespace r) (n + 1) s' = Inr r"
    and "i \<noteq> n + 1 \<Longrightarrow> GetVersion env (GetKind r) (GetName r) (GetNamespace r) i s' =
      GetVersion env (GetKind r) (GetName r) (GetNamespace r) i s"
proof -
  let ?k = "store_key (GetKind r) (GetName r) (GetNamespace r)"
  let ?vk = "versionKey (GetKind r) (GetName r) (GetNamespace r)"
  obtain data vdata where w: "encryptSecretData (be_crypto env) rnd (bs_passphrase s) r = Inr r'"
    "be_marshal env r' = Some data"
    "be_marshalVersion env \<lparr>ve_Version = n + 1, ve_Timestamp = now, ve_Data = data\<rparr> = Some vdata"
    "bs_passphrase s' = bs_passphrase s"
    "\<And>k. be_get env k (bs_db s') = (if k = ?vk (n + 1) then Inr vdata
       else if k = ?k then Inr data else be_get env k (bs_db s))"
    using store_write_effect [OF assms(1,3)] by blast
  have nk: "\<not> has_prefix (?k @ '':v'') ?k" by (auto simp: has_prefix_iff)
  have pre: "has_prefix (?k @ '':v'') (?vk j)" for j by (auto simp: versionKey_def has_prefix_iff)
  show "versions_upto env (GetKind r) (GetName r) (GetNamespace r) (n + 1) s'"
    unfolding versions_upto_def
  proof (intro allI impI)
    fix k assume k: "has_prefix (?k @ '':v'') k"
    show "(\<exists>d. be_get env k (bs_db s') = Inr d) = (\<exists>i. 1 \<le> i \<and> i \<le> n + 1 \<and> k = ?vk i)"
    proof (cases "k = ?vk (n + 1)")
      case True
      then show ?thesis using w(5) assms(5) by (auto intro: exI [of _ "n + 1"])
    next
      case False
      then have "be_get env k (bs_db s') = be_get env k (bs_db s)" using w(5) k nk by auto
      moreover have "(\<exists>i. 1 \<le> i \<and> i \<le> n + 1 \<and> k = ?vk i) = (\<exists>i. 1 \<le> i \<and> i \<le> n \<and> k = ?vk i)"
        using False by (metis add_le_cancel_right order_le_less zle_add1_eq_le)
      ultimately show ?thesis using assms(4) k unfolding versions_upto_def by simp
    qed
  qed
  have "unmarshalResource env (GetKind r) data = Inr r'"
    using json_resource [OF assms(1) w(2)] encrypt_keeps_identity [OF w(1)] by simp
  then show "GetVersion env (GetKind r) (GetName r) (GetNamespace r) (n + 1) s' = Inr r"
    using encrypt_decrypt_resource [OF assms(1,2) w(1)] w(4,5) json_version [OF assms(1) w(3)]
    by (simp add: GetVersion_def)
  show "GetVersion env (GetKind r) (GetName r) (GetNamespace r) i s' =
      GetVersion env (GetKind r) (GetName r) (GetNamespace r) i s" if "i \<noteq> n + 1"
    using that w(4,5) versionKey_neq_key
    by (simp add: GetVersion_def versionKey_inject split: sum.splits kv_error.splits option.splits)
qed

text \<open>The operations that write, each with its own clock and randomness, and the updates of the key of \<open>r0\<close>
  that succeed in a run of them.\<close>

datatype store_op =
    OpCreate string time "string \<Rightarrow> string option \<times> string option" resource
  | OpUpdate time "string \<Rightarrow> string option \<times> string option" resource
  | OpDelete string string string

fun store_exec :: "'d badger_env \<Rightarrow> store_op \<Rightarrow> 'd badger_store \<Rightarrow> 'd badger_store \<times> store_error option" where
  "store_exec env (OpCreate u now rnd r) s = snd (store_Create env u now rnd r s)"
| "store_exec env (OpUpdate now rnd r) s = snd (store_Update env now rnd r s)"
| "store_exec env (OpDelete kind name ns) s = store_Delete env kind name ns s"

definition same_key :: "resource \<Rightarrow> resource \<Rightarrow> bool" where
  "same_key r r' \<longleftrightarrow> GetKind r' = GetKind r \<and> GetName r' = GetName r \<and> GetNamespace r' = GetNamespace r"

fun updated_by :: "resource \<Rightarrow> store_op \<Rightarrow> store_error option \<Rightarrow> resource list" where
  "updated_by r0 (OpUpdate now rnd r) None = (if same_key r0 r then [r] else [])"
| "updated_by r0 _ _ = []"

fun store_run :: "'d badger_env \<Rightarrow> resource \<Rightarrow> store_op list \<Rightarrow> 'd badger_store \<Rightarrow> 'd badger_store \<times> resource list" where
  "store_run env r0 [] s = (s, [])"
| "store_run env r0 (op # ops) s =
    (let (s, e) = store_exec env op s; (s', rs) = store_run env r0 ops s in (s', updated_by r0 op e @ rs))"

text \<open>The key of \<open>r0\<close> is neither deleted nor created again.\<close>

fun keeps_key :: "resource \<Rightarrow> store_op \<Rightarrow> bool" where
  "keeps_key r0 (OpCreate u now rnd r) \<longleftrightarrow> plain (GetName r) \<and> plain (GetNamespace r) \<and> \<not> same_key r0 r"
| "keeps_key r0 (OpUpdate now rnd r) \<longleftrightarrow> rnd_ok rnd \<and> plain (GetName r) \<and> plain (GetNamespace r)"
| "keeps_key r0 (OpDelete kind name ns) \<longleftrightarrow> plain kind \<and> plain name \<and> plain ns \<and>
    (kind, name, ns) \<noteq> (GetKind r0, GetName r0, GetNamespace r0)"

abbreviation versions_of :: "'d badger_env \<Rightarrow> resource \<Rightarrow> int \<Rightarrow> 'd badger_store \<Rightarrow> bool" where
  "versions_of env r n s \<equiv> versions_upto env (GetKind r) (GetName r) (GetNamespace r) n s"

abbreviation version_of :: "'d badger_env \<Rightarrow> resource \<Rightarrow> int \<Rightarrow> 'd badger_store \<Rightarrow> store_error + resource" where
  "version_of env r i s \<equiv> GetVersion env (GetKind r) (GetName r) (GetNamespace r) i s"

definition same_versions :: "'d badger_env \<Rightarrow> resource \<Rightarrow> 'd badger_store \<Rightarrow> 'd badger_store \<Rightarrow> bool" where
  "same_versions env r s s' \<longleftrightarrow> bs_passphrase s' = bs_passphrase s \<and>
    (\<forall>k. has_prefix (store_key (GetKind r) (GetName r) (GetNamespace r) @ '':v'') k \<longrightarrow>
      be_get env k (bs_db s') = be_get env k (bs_db s))"

lemma same_versionsD:
  assumes "same_versions env r s s'"
  shows "versions_of env r n s' = versions_of env r n s" "version_of env r i s' = version_of env r i s"
proof -
  have "has_prefix (store_key (GetKind r) (GetName r) (GetNamespace r) @ '':v'') (versionKey (GetKind r) (GetName r) (GetNamespace r) i)"
    by (auto simp: versionKey_def has_prefix_iff)
  then show "version_of env r i s' = version_of env r i s"
    using assms unfolding same_versions_def GetVersion_def by (simp only: simp_thms)
  show "versions_of env r n s' = versions_of env r n s"
    using assms by (simp add: same_versions_def versions_upto_def)
qed

lemma version_prefix_neq:
  assumes "has_prefix (store_key kind name ns @ '':v'') k" "plain kind" "plain name" "plain ns"
    and "plain kind'" "plain name'" "plain ns'"
  shows "k \<noteq> store_key kind' name' ns'"
    and "(kind', name', ns') \<noteq> (kind, name, ns) \<Longrightarrow> k \<noteq> versionKey kind' name' ns' v"
proof -
  obtain x where k: "k = store_key kind name ns @ CHR '':'' # ''v'' @ x" using assms(1) by (auto simp: has_prefix_iff)
  note c = key_colon [OF assms(2-4)] key_colon [OF assms(5-7)]
  have "CHR '':'' \<in> set k" by (simp add: k)
  then show "k \<noteq> store_key kind' name' ns'" using c(2) by metis
  show "k \<noteq> versionKey kind' name' ns' v" if "(kind', name', ns') \<noteq> (kind, name, ns)"
  proof
    assume "k = versionKey kind' name' ns' v"
    then have "store_key kind name ns @ CHR '':'' # (''v'' @ x) = store_key kind' name' ns' @ CHR '':'' # (''v'' @ int_str v)"
      by (simp add: k versionKey_def)
    then have "store_key kind name ns = store_key kind' name' ns'" using append_sep_inject c by metis
    then show False using that assms(2-7) by (auto simp: store_key_inject)
  qed
qed

lemma store_write_other_versions:
  assumes "env_ok env" "store_write env now rnd ev v r s = (r', s', None)" "\<not> same_key r0 r"
    and "plain (GetName r)" "plain (GetNamespace r)" "plain (GetName r0)" "plain (GetNamespace r0)"
  shows "same_versions env r0 s s'"
proof -
  obtain data vdata where w: "bs_passphrase s' = bs_passphrase s"
    "\<And>k. be_get env k (bs_db s') = (if k = versionKey (GetKind r) (GetName r) (GetNamespace r) v then Inr vdata
       else if k = store_key (GetKind r) (GetName r) (GetNamespace r) then Inr data else be_get env k (bs_db s))"
    using store_write_effect [OF assms(1,2)] by blast
  have "be_get env k (bs_db s') = be_get env k (bs_db s)"
    if "has_prefix (store_key (GetKind r0) (GetName r0) (GetNamespace r0) @ '':v'') k" for k
    using version_prefix_neq [OF that plain_kind assms(6,7) plain_kind assms(4,5)] assms(3) w(2) by (auto simp: same_key_def)
  then show ?thesis using w(1) by (simp add: same_versions_def)
qed

lemma failed_same_versions: "bs_db s' = bs_db s \<and> bs_passphrase s' = bs_passphrase s \<Longrightarrow> same_versions env r s s'"
  by (simp add: same_versions_def)

text \<open>An operation that is not a successful update of the key leaves its versions alone.\<close>

lemma store_exec_other_versions:
  assumes "env_ok env" "store_exec env op s = (s', e)" "keeps_key r0 op" "updated_by r0 op e = []"
    and "plain (GetName r0)" "plain (GetNamespace r0)"
  shows "same_versions env r0 s s'"
proof (cases e)
  case (Some x)
  show ?thesis
  proof (rule failed_same_versions, cases op)
    case (OpCreate u now rnd r)
    then show "bs_db s' = bs_db s \<and> bs_passphrase s' = bs_passphrase s"
      using assms(2) Some by (metis prod.collapse snd_conv store_Create_fail store_exec.simps(1))
  next
    case (OpUpdate now rnd r)
    then show "bs_db s' = bs_db s \<and> bs_passphrase s' = bs_passphrase s"
      using assms(2) Some by (metis prod.collapse snd_conv store_Update_fail store_exec.simps(2))
  next
    case (OpDelete kind name ns)
    then show "bs_db s' = bs_db s \<and> bs_passphrase s' = bs_passphrase s"
      using assms(2) Some store_Delete_fail by simp
  qed
next
  case None
  show ?thesis
  proof (cases op)
    case (OpCreate u now rnd r)
    have id: "GetKind (ensureUID u r) = GetKind r" "GetName (ensureUID u r) = GetName r"
      "GetNamespace (ensureUID u r) = GetNamespace r" by (simp_all add: ensureUID_def)
    have "store_Create env u now rnd r s = (fst (store_Create env u now rnd r s), s', None)"
      using assms(2) None OpCreate by (metis prod.collapse store_exec.simps(1))
    from store_write_other_versions [OF assms(1) store_Create_ok(1) [OF this], of r0] show ?thesis
      using assms(3,5,6) OpCreate by (simp add: same_key_def id)
  next
    case (OpUpdate now rnd r)
    have "store_Update env now rnd r s = (fst (store_Update env now rnd r s), s', None)"
      using assms(2) None OpUpdate by (metis prod.collapse store_exec.simps(2))
    from store_write_other_versions [OF assms(1) store_Update_ok(1) [OF this], of r0] show ?thesis
      using assms(3-6) OpUpdate None by (simp split: if_splits)
  next
    case (OpDelete kind name ns)
    then have "store_Delete env kind name ns s = (s', None)" using assms(2) None by simp
    note d = store_Delete_ok [OF assms(1) this]
    have "k \<noteq> store_key kind name ns"
      if "has_prefix (store_key (GetKind r0) (GetName r0) (GetNamespace r0) @ '':v'') k" for k
      using version_prefix_neq(1) [OF that plain_kind assms(5,6)] assms(3) OpDelete by simp
    then show ?thesis using d by (auto simp: same_versions_def)
  qed
qed

lemma store_run_history:
  assumes "env_ok env" "plain (GetName r0)" "plain (GetNamespace r0)"
    and "store_run env r0 ops s = (s', rs)" "\<forall>op \<in> set ops. keeps_key r0 op"
    and "versions_of env r0 n s" "0 \<le> n" "in64 (n + int (length rs))"
  shows "versions_of env r0 (n + int (length rs)) s' \<and> (\<forall>i. i \<le> n \<longrightarrow> version_of env r0 i s' = version_of env r0 i s) \<and>
    (\<forall>j < length rs. version_of env r0 (n + 1 + int j) s' = Inr (rs ! j))"
  using assms(4-)
proof (induction ops arbitrary: s n rs)
  case Nil
  then show ?case by simp
next
  case (Cons op ops)
  obtain s1 e where e: "store_exec env op s = (s1, e)" by fastforce
  obtain rs1 where rs: "store_run env r0 ops s1 = (s', rs1)" "rs = updated_by r0 op e @ rs1"
    using Cons.prems(1) e by (auto split: prod.splits)
  show ?case
  proof (cases "updated_by r0 op e")
    case Nil
    have "same_versions env r0 s s1"
      using store_exec_other_versions [OF assms(1) e _ Nil assms(2,3)] Cons.prems(2) by simp
    note same = same_versionsD [OF this]
    have len: "length rs = length rs1" using rs(2) Nil by simp
    show ?thesis using Cons.IH [OF rs(1), of n] Cons.prems(2-5) unfolding same len by (simp add: rs(2) Nil)
  next
    case (Cons r1 more)
    then obtain now rnd where op: "op = OpUpdate now rnd r1" "e = None" "same_key r0 r1" "more = []"
      by (cases "(r0, op, e)" rule: updated_by.cases) (auto split: if_splits)
    have key: "GetKind r1 = GetKind r0" "GetName r1 = GetName r0" "GetNamespace r1 = GetNamespace r0"
      using op(3) by (auto simp: same_key_def)
    obtain r1' where u: "store_Update env now rnd r1 s = (r1', s1, None)"
      using e op(1,2) by (metis prod.collapse store_exec.simps(2))
    have i64: "in64 n" "in64 (n + 1)" using Cons.prems(4,5) rs(2) Cons by (auto simp: in64_def)
    have "max_version (be_iterate env (store_key (GetKind r1) (GetName r1) (GetNamespace r1) @ '':v'') (bs_db s)) 0 = n"
      using versions_upto_max [OF assms(1)] i64(1) Cons.prems(3,4) key by simp
    with store_Update_ok(1) [OF u] i64(2) have w0: "store_write env now rnd EventUpdated (n + 1) r1 s = (r1', s1, None)" by simp
    have "rnd_ok rnd" using Cons.prems(2) op(1) by simp
    note w = store_write_versions [OF assms(1) this w0, unfolded key, OF Cons.prems(3,4)]
    have rs': "rs = r1 # rs1" using rs(2) Cons op(4) by simp
    have IH: "versions_of env r0 (n + 1 + int (length rs1)) s' \<and> (\<forall>i. i \<le> n + 1 \<longrightarrow> version_of env r0 i s' = version_of env r0 i s1) \<and>
      (\<forall>j < length rs1. version_of env r0 (n + 1 + 1 + int j) s' = Inr (rs1 ! j))"
      using Cons.prems w(1) rs' by (intro Cons.IH [OF rs(1)]) (simp_all add: add.assoc)
    show ?thesis
    proof (intro conjI allI impI)
      show "versions_of env r0 (n + int (length rs)) s'" using IH by (simp add: rs' add.assoc)
      show "version_of env r0 i s' = version_of env r0 i s" if "i \<le> n" for i using that IH w(3) [of i] by simp
      show "version_of env r0 (n + 1 + int j) s' = Inr (rs ! j)" if "j < length rs" for j
      proof (cases j)
        case 0
        then show ?thesis using IH w(2) by (simp add: rs')
      next
        case (Suc j')
        have "n + 1 + int j = n + 1 + 1 + int j'" using Suc by simp
        then show ?thesis using IH that by (simp only: Suc rs' nth_Cons_Suc length_Cons Suc_less_eq)
      qed
    qed
  qed
qed



subsection \<open>Listing\<close>

lemma listPrefix_key: "listPrefix kind ns @ name = store_key kind name ns"
  by (simp add: listPrefix_def store_key_def)

lemma list_loop_iff:
  "r \<in> set (list_loop env kind selector items) \<longleftrightarrow>
    (\<exists>(key, data) \<in> set items. \<not> contains_v key \<and> unmarshalResource env kind data = Inr r \<and>
      (case selector of None \<Rightarrow> True | Some sel \<Rightarrow> Match (GetLabels r) sel))"
  by (induction env kind selector items rule: list_loop.induct) (auto split: sum.splits option.splits)

lemma store_List_iff:
  assumes "env_ok env"
  shows "r \<in> set (store_List env kind ns selector s) \<longleftrightarrow>
    (\<exists>name data. be_get env (store_key kind name ns) (bs_db s) = Inr data \<and>
      \<not> contains_v (store_key kind name ns) \<and> unmarshalResource env kind data = Inr r \<and>
      (case selector of None \<Rightarrow> True | Some sel \<Rightarrow> Match (GetLabels r) sel))"
proof -
  have item: "p \<in> set (be_iterate env (listPrefix kind ns) (bs_db s)) \<longleftrightarrow>
      (\<exists>name data. p = (store_key kind name ns, data) \<and> be_get env (store_key kind name ns) (bs_db s) = Inr data)" for p
    by (cases p) (auto simp: kv_iterate(2) [OF assms] has_prefix_iff listPrefix_key)
  show ?thesis unfolding store_List_def list_loop_iff Bex_def item by blast
qed

lemma namespaced_key_not_global:
  assumes "plain ns" "ns \<noteq> ''''" "plain kind'" "ns \<noteq> kind'"
  shows "store_key kind name ns \<noteq> store_key kind' name' ''''"
    and "versionKey kind name ns v \<noteq> store_key kind' name' ''''"
proof -
  have "store_key kind name ns @ x \<noteq> store_key kind' name' ''''" for x
  proof
    assume "store_key kind name ns @ x = store_key kind' name' ''''"
    then have "ns @ CHR ''/'' # (kind @ ''/'' @ name @ x) = kind' @ CHR ''/'' # name'"
      using assms(2) by (simp add: store_key_def)
    then show False using append_sep_inject [of ns "CHR ''/''" _ kind' name'] assms by (auto simp: plain_def)
  qed
  from this [of "[]"] this [of "'':v'' @ int_str v"]
  show "store_key kind name ns \<noteq> store_key kind' name' ''''"
    "versionKey kind name ns v \<noteq> store_key kind' name' ''''"
    by (simp_all add: versionKey_def)
qed

text \<open>A creation in a namespace changes no list over the empty namespace.\<close>

lemma create_keeps_global_list:
  assumes "env_ok env" and c: "store_Create env u now rnd r s = (r', s', None)"
    and p: "plain (GetNamespace r)" "GetNamespace r \<noteq> ''''" "plain kind" "GetNamespace r \<noteq> kind"
  shows "set (store_List env kind '''' selector s') = set (store_List env kind '''' selector s)"
proof -
  have id: "GetKind (ensureUID u r) = GetKind r" "GetName (ensureUID u r) = GetName r"
    "GetNamespace (ensureUID u r) = GetNamespace r" by (simp_all add: ensureUID_def)
  have "be_get env (store_key kind name '''') (bs_db s') = be_get env (store_key kind name '''') (bs_db s)" for name
    using store_write_effect [OF assms(1) store_Create_ok(1) [OF c]] namespaced_key_not_global [OF p, symmetric]
    unfolding id by auto
  then show ?thesis by (auto simp: store_List_iff [OF assms(1)])
qed

text \<open>C6: \<open>List\<close> returns exactly the resources stored under the given kind and namespace that
  match the selector (and whose key does not look like a version key).  This holds for the
  empty namespace as well: creating a resource in any namespace does not change what a list
  over the empty namespace returns, although the interface documents that an empty namespace
  means all namespaces.\<close>

theorem list_exact:
  assumes "env_ok env"
  shows "(x \<in> set (store_List env kind ns selector s) \<longleftrightarrow>
      (\<exists>name data. be_get env (store_key kind name ns) (bs_db s) = Inr data \<and>
        \<not> contains_v (store_key kind name ns) \<and> unmarshalResource env kind data = Inr x \<and>
        (case selector of None \<Rightarrow> True | Some sel \<Rightarrow> Match (GetLabels x) sel))) \<and>
    (store_Create env u now rnd r s = (r', s', None) \<longrightarrow> plain (GetNamespace r) \<longrightarrow> GetNamespace r \<noteq> '''' \<longrightarrow>
      plain kind \<longrightarrow> GetNamespace r \<noteq> kind \<longrightarrow>
      set (store_List env kind '''' selector s') = set (store_List env kind '''' selector s))"
  using store_List_iff [OF assms] create_keeps_global_list [OF assms] by simp

lemma list_exact_witness:
  "set (store_List sample_env ''Session'' ''''  None
     (fst (snd (store_Create sample_env ''u2'' 0 sample_rnd (sample_session ''created'') sample_store)))) = {}"
proof -
  let ?r = "sample_session ''created''"
  let ?c = "store_Create sample_env ''u2'' 0 sample_rnd ?r sample_store"
  have "snd (snd ?c) = None" by code_simp
  then have c: "?c = (fst ?c, fst (snd ?c), None)" by (metis prod.collapse)
  have ns: "GetNamespace ?r = ''prod''" by (simp add: sample_session_def GetNamespace_def)
  have "set (store_List sample_env ''Session'' '''' None (fst (snd ?c))) =
      set (store_List sample_env ''Session'' '''' None sample_store)"
    using list_exact [OF sample_env_ok, THEN conjunct2, rule_format, OF c, of "''Session''"] ns
    by (simp add: plain_def)
  also have "\<dots> = {}" by (simp add: store_List_def sample_env_def sample_store_def NewStore_badger_def)
  finally show ?thesis .
qed

subsection \<open>Watchers\<close>



text \<open>Cancelling a watch closes its channel only if no event is waiting in it.  If one is,
  the cancellation takes an event away from the watcher and leaves the channel open, removed
  from the table, so nobody will ever close it: a reader that ranges over the channel blocks
  for ever after the remaining events.  (The interface promises that the channel is closed
  when the context is cancelled.)\<close>

lemma watch_cancel_leaks_pending:
  assumes "map_of (bs_watchers s) (watch_key kind ns) = Some ws" and "ch \<in> set ws" and "ch < length (bs_chans s)"
    and "\<not> ch_closed (bs_chans s ! ch)"
    and "s' = watch_cancel kind ns ch s"
  shows "ch_closed (bs_chans s' ! ch) = (ch_buf (bs_chans s ! ch) = []) \<and>
    ch_buf (bs_chans s' ! ch) = tl (ch_buf (bs_chans s ! ch)) \<and>
    (\<forall>ws'. map_of (bs_watchers s') (watch_key kind ns) = Some ws' \<longrightarrow> ch \<notin> set ws')"
  using assms
  by (auto simp: watch_cancel_def Let_def remove_watcher_def close_or_receive_def)

end
