(* ===== verification/Version_Pruning.thy ===== *)
theory Version_Pruning
  imports Badger_Store "HOL-Library.Multiset"
begin

text \<open>
  The pruning of old versions: the hand-written bubble sort of \<open>pruneOldVersions\<close> is a sorting
  function, and what a pruning deletes are the oldest versions of each resource.
\<close>

section \<open>The bubble sort\<close>

lemma bubble_pass_mset [simp]: "mset (bubble_pass n xs) = mset xs"
  by (induction n xs rule: bubble_pass.induct) auto

lemma bubble_pass_length [simp]: "length (bubble_pass n xs) = length xs"
  by (metis bubble_pass_mset size_mset)

lemma bubble_pass_drop: "drop (Suc n) (bubble_pass n xs) = drop (Suc n) xs"
  by (induction n xs rule: bubble_pass.induct) auto

lemma bubble_pass_take_mset: "mset (take (Suc n) (bubble_pass n xs)) = mset (take (Suc n) xs)"
proof -
  have "mset (take (Suc n) (bubble_pass n xs)) + mset (drop (Suc n) (bubble_pass n xs)) =
      mset (take (Suc n) xs) + mset (drop (Suc n) xs)"
    by (metis append_take_drop_id bubble_pass_mset mset_append)
  then show ?thesis by (simp add: bubble_pass_drop)
qed

lemma in_take_one: "x \<in> set (take (Suc 0) xs) \<longleftrightarrow> xs \<noteq> [] \<and> x = xs ! 0"
  by (cases xs) auto

text \<open>One pass moves the largest of the first \<open>n + 1\<close> elements to position \<open>n\<close>.\<close>

lemma bubble_pass_max: "n < length xs \<Longrightarrow> x \<in> set (take (Suc n) xs) \<Longrightarrow> x \<le> bubble_pass n xs ! n"
proof (induction n xs arbitrary: x rule: bubble_pass.induct)
  case (1 n a b xs)
  show ?case
  proof (cases "a > b")
    case True
    have "z \<le> bubble_pass n (a # xs) ! n" if "z \<in> set (take (Suc n) (a # xs))" for z
      using 1 True that by simp
    from this [of a] this [of x] show ?thesis using 1(4) True by auto
  next
    case False
    have "z \<le> bubble_pass n (b # xs) ! n" if "z \<in> set (take (Suc n) (b # xs))" for z
      using 1 False that by simp
    from this [of b] this [of x] show ?thesis using 1(4) False by auto
  qed
qed (auto simp: in_take_one)

definition tail_sorted :: "nat \<Rightarrow> int list \<Rightarrow> bool" where
  "tail_sorted k xs \<longleftrightarrow> sorted (drop k xs) \<and> (\<forall>x \<in> set (take k xs). \<forall>y \<in> set (drop k xs). x \<le> y)"

lemma tail_sorted_pass:
  assumes "tail_sorted (Suc n) xs" and "n < length xs"
  shows "tail_sorted n (bubble_pass n xs)"
proof -
  let ?ys = "bubble_pass n xs"
  have n: "n < length ?ys" using assms(2) by simp
  have drop: "drop n ?ys = ?ys ! n # drop (Suc n) xs"
    using Cons_nth_drop_Suc [OF n] bubble_pass_drop [of n xs] by simp
  have split: "set (take (Suc n) ?ys) = insert (?ys ! n) (set (take n ?ys))"
    using n by (simp add: take_Suc_conv_app_nth)
  have same: "set (take (Suc n) ?ys) = set (take (Suc n) xs)"
    using bubble_pass_take_mset [of n xs] by (rule mset_eq_setD)
  have le: "x \<le> ?ys ! n" if "x \<in> set (take n ?ys)" for x
    using bubble_pass_max [OF assms(2)] that split same by blast
  have old: "x \<le> y" if "x \<in> set (take (Suc n) ?ys)" "y \<in> set (drop (Suc n) xs)" for x y
    using assms(1) that same unfolding tail_sorted_def by blast
  show ?thesis unfolding tail_sorted_def drop
    using assms(1) le old split by (auto simp: tail_sorted_def)
qed

lemma bubble_rounds:
  assumes "i \<le> length xs - 1" and "xs \<noteq> []"
  shows "let ys = fold (\<lambda>i vs. bubble_pass (length xs - i - 1) vs) [0..<i] xs
    in mset ys = mset xs \<and> tail_sorted (length xs - i) ys"
  using assms(1)
proof (induction i)
  case 0
  then show ?case by (simp add: tail_sorted_def)
next
  case (Suc i)
  define ys where "ys = fold (\<lambda>i vs. bubble_pass (length xs - i - 1) vs) [0..<i] xs"
  have "i \<le> length xs - 1" using Suc.prems by simp
  from Suc.IH [OF this] have IH: "mset ys = mset xs" "tail_sorted (length xs - i) ys"
    unfolding ys_def Let_def by blast+
  have len: "length ys = length xs" using IH(1) by (metis size_mset)
  have "Suc (length xs - i - 1) = length xs - i" using Suc.prems by simp
  then have "tail_sorted (length xs - i - 1) (bubble_pass (length xs - i - 1) ys)"
    using tail_sorted_pass [of "length xs - i - 1" ys] IH(2) len Suc.prems by simp
  moreover have "fold (\<lambda>i vs. bubble_pass (length xs - i - 1) vs) [0..<Suc i] xs =
      bubble_pass (length xs - i - 1) ys" by (simp add: ys_def)
  ultimately show ?case using IH(1) by (simp add: Let_def)
qed

lemma bubble_sort_sort: "bubble_sort xs = sort xs"
proof (cases "xs = []")
  case True
  then show ?thesis by (simp add: bubble_sort_def)
next
  case False
  then have one: "length xs - (length xs - 1) = 1" by (cases xs) simp_all
  have "mset (bubble_sort xs) = mset xs" "tail_sorted 1 (bubble_sort xs)"
    using bubble_rounds [OF order_refl False] unfolding bubble_sort_def Let_def one by blast+
  then have "sorted (bubble_sort xs)"
    by (cases "bubble_sort xs") (auto simp: tail_sorted_def)
  then show ?thesis using \<open>mset (bubble_sort xs) = mset xs\<close> by (simp add: properties_for_sort)
qed

section \<open>What a pruning deletes\<close>

text \<open>Deletions succeed (a failing one is skipped by the code).\<close>

definition deletes_succeed :: "'d badger_env \<Rightarrow> bool" where
  "deletes_succeed env \<longleftrightarrow> (\<forall>k d. \<exists>d'. be_delete env k d = Inr d')"

lemma prune_delete_get:
  assumes "env_ok env" "deletes_succeed env"
  shows "be_get env k (prune_delete env rk vs d) =
    (if \<exists>v \<in> set vs. k = rk @ '':v'' @ int_str v then Inl ErrKeyNotFound else be_get env k d)"
proof (induction vs arbitrary: d)
  case Nil
  then show ?case by simp
next
  case (Cons v vs)
  obtain d' where d': "be_delete env (rk @ '':v'' @ int_str v) d = Inr d'"
    using assms(2) unfolding deletes_succeed_def by blast
  show ?case using Cons [of d'] kv_delete [OF assms(1) d'] d' by auto
qed

text \<open>In a sorted list without duplicates the first elements are those with enough elements
  above them.\<close>

lemma take_sorted_iff:
  assumes "sorted xs" "distinct xs" "k \<le> length xs"
  shows "x \<in> set (take k xs) \<longleftrightarrow> x \<in> set xs \<and> length xs - k \<le> card {y \<in> set xs. x < y}"
proof -
  have split: "set xs = set (take k xs) \<union> set (drop k xs)" by (metis append_take_drop_id set_append)
  have lt: "a < b" if "a \<in> set (take k xs)" "b \<in> set (drop k xs)" for a b
  proof -
    have "sorted (take k xs @ drop k xs)" "distinct (take k xs @ drop k xs)" using assms by simp_all
    then have "a \<le> b" "a \<noteq> b" using that unfolding sorted_append distinct_append by blast+
    then show ?thesis by simp
  qed
  have card: "card (set (drop k xs)) = length xs - k" using assms(2) by (simp add: distinct_card)
  show ?thesis
  proof
    assume x: "x \<in> set (take k xs)"
    have "set (drop k xs) \<subseteq> {y \<in> set xs. x < y}" using lt [OF x] split by auto
    then have "card (set (drop k xs)) \<le> card {y \<in> set xs. x < y}" by (intro card_mono) auto
    then show "x \<in> set xs \<and> length xs - k \<le> card {y \<in> set xs. x < y}" using x split card by auto
  next
    assume x: "x \<in> set xs \<and> length xs - k \<le> card {y \<in> set xs. x < y}"
    show "x \<in> set (take k xs)"
    proof (rule ccontr)
      assume "x \<notin> set (take k xs)"
      then have d: "x \<in> set (drop k xs)" using x split by auto
      have "{y \<in> set xs. x < y} \<subseteq> set (drop k xs) - {x}"
        using split lt d by (auto dest: less_trans)
      then have "card {y \<in> set xs. x < y} \<le> card (set (drop k xs) - {x})" by (intro card_mono) auto
      also have "\<dots> < card (set (drop k xs))" using d by (intro psubset_card_mono) auto
      finally show False using x card by simp
    qed
  qed
qed

text \<open>Pruning the versions of a resource deletes the oldest ones and nothing else: with more
  than \<open>maxVersions\<close> versions, a version is deleted exactly if at least \<open>maxVersions\<close> newer
  ones exist, so the \<open>maxVersions\<close> newest remain; with fewer, everything stays.  (The bubble
  sort the code uses is shown to sort.)\<close>

lemma prune_keeps_newest:
  assumes "env_ok env" "deletes_succeed env" "0 < maxVersions" "distinct versions"
  shows "be_get env (rk @ '':v'' @ int_str v) (prune_resource env maxVersions (rk, versions) d) =
      (if v \<in> set versions \<and> maxVersions \<le> int (card {w \<in> set versions. v < w})
       then Inl ErrKeyNotFound else be_get env (rk @ '':v'' @ int_str v) d) \<and>
    ((\<forall>v. k \<noteq> rk @ '':v'' @ int_str v) \<longrightarrow> be_get env k (prune_resource env maxVersions (rk, versions) d) = be_get env k d)"
proof (cases "int (length versions) \<le> maxVersions")
  case True
  have "card {w \<in> set versions. v < w} < length versions" if "v \<in> set versions"
  proof -
    have "{w \<in> set versions. v < w} \<subset> set versions" using that by auto
    then have "card {w \<in> set versions. v < w} < card (set versions)" by (simp add: psubset_card_mono)
    then show ?thesis using assms(4) by (simp add: distinct_card)
  qed
  then have "\<not> (v \<in> set versions \<and> maxVersions \<le> int (card {w \<in> set versions. v < w}))"
    using True by linarith
  then show ?thesis using True by (auto simp: prune_resource_def)
next
  case False
  let ?k = "length versions - nat maxVersions"
  have sorted: "sorted (bubble_sort versions)" "distinct (bubble_sort versions)"
    "set (bubble_sort versions) = set versions" "length (bubble_sort versions) = length versions"
    using assms(4) by (simp_all add: bubble_sort_sort)
  have keep: "length versions - ?k = nat maxVersions" using False assms(3) by simp
  then have deleted: "v \<in> set (take ?k (bubble_sort versions)) \<longleftrightarrow>
      v \<in> set versions \<and> maxVersions \<le> int (card {w \<in> set versions. v < w})" for v
    using take_sorted_iff [OF sorted(1,2), of ?k v] assms(3) unfolding sorted(3,4) keep
    by (simp add: nat_le_iff)
  have get: "be_get env k (prune_resource env maxVersions (rk, versions) d) =
      (if \<exists>v \<in> set (take ?k (bubble_sort versions)). k = rk @ '':v'' @ int_str v
       then Inl ErrKeyNotFound else be_get env k d)" for k
    using False prune_delete_get [OF assms(1,2)] by (simp add: prune_resource_def)
  show ?thesis unfolding get using deleted by (auto simp: int_str_inj)
qed

end
