(* ===== verification/Comb.thy ===== *)
theory Comb
  imports Prelude
begin

text \<open>
  The shared memory of a session, \<open>internal/comb/comb.go\<close>: per session a map from keys to
  values with an optional expiry, and the accounting of the bytes a session holds against an
  optional limit.

  Maps the code iterates over are association lists; the order in which Go visits a map is
  the order of the list, so a result that depends on it is only ever used up to order.  Each
  method is one critical section except \<open>Get\<close> and \<open>Exists\<close>, which release the read lock
  before they take the write lock to remove an expired key: the two sections are separate
  definitions (\<open>comb_read\<close>, \<open>comb_drop\<close>), and \<open>comb_Get\<close> composes them without an
  operation in between.
\<close>

section \<open>State\<close>

datatype ctx_error = Canceled | DeadlineExceeded

fun ctx_Error :: "ctx_error \<Rightarrow> string" where
  "ctx_Error Canceled = ''context canceled''"
| "ctx_Error DeadlineExceeded = ''context deadline exceeded''"

datatype comb_error =
    CtxErr ctx_error
  | SessionNotFound string
  | KeyNotFound string
  | KeyExpired string
  | MemoryLimitExceeded string int int
  | NotANumber string

fun comb_Error :: "comb_error \<Rightarrow> string" where
  "comb_Error (CtxErr e) = ctx_Error e"
| "comb_Error (SessionNotFound sid) = ''session not found: '' @ sid"
| "comb_Error (KeyNotFound key) = ''key not found: '' @ key"
| "comb_Error (KeyExpired key) = ''key expired: '' @ key"
| "comb_Error (MemoryLimitExceeded sid newUsage limit) =
    ''memory limit exceeded for session '' @ sid @ '': '' @ int_str newUsage @
    '' bytes would be used, '' @ int_str limit @ '' bytes limit''"
| "comb_Error (NotANumber v) = ''value is not a number: '' @ v"

record comb_entry =
  ent_value :: string
  ent_expiresAt :: "time option"

type_synonym session_data = "(string \<times> comb_entry) list"

record comb_store =
  cs_data :: "(string \<times> session_data) list"
  cs_memoryLimits :: "string \<rightharpoonup> int"
  cs_memoryUsage :: "string \<rightharpoonup> int"

definition NewStore :: comb_store where
  "NewStore = \<lparr>cs_data = [], cs_memoryLimits = Map.empty, cs_memoryUsage = Map.empty\<rparr>"

abbreviation usage_of :: "comb_store \<Rightarrow> string \<Rightarrow> int" where
  "usage_of s sid \<equiv> lookup_or 0 (cs_memoryUsage s) sid"

abbreviation entry_size :: "comb_entry \<Rightarrow> int" where
  "entry_size e \<equiv> int (length (ent_value e))"

definition comb_sessionKey :: "string \<Rightarrow> string \<Rightarrow> string" where
  "comb_sessionKey sessionID key = sessionID @ '':'' @ key"

section \<open>Operations\<close>

definition entry_expired :: "time \<Rightarrow> comb_entry \<Rightarrow> bool" where
  "entry_expired now ent = (case ent_expiresAt ent of None \<Rightarrow> False | Some t \<Rightarrow> t < now)"

text \<open>The section of \<open>Get\<close> under the read locks: whether the entry has expired, and its
  value (empty when it has).\<close>

definition comb_read :: "time \<Rightarrow> string \<Rightarrow> string \<Rightarrow> comb_store \<Rightarrow> comb_error + (bool \<times> string)" where
  "comb_read now sid key s =
    (case map_of (cs_data s) sid of
       None \<Rightarrow> Inl (SessionNotFound sid)
     | Some sd \<Rightarrow>
        (case map_of sd key of
           None \<Rightarrow> Inl (KeyNotFound key)
         | Some ent \<Rightarrow>
            (let expired = entry_expired now ent
             in Inr (expired, if \<not> expired then ent_value ent else ''''))))"

text \<open>The section of \<open>Get\<close> and \<open>Exists\<close> under the write lock: it removes whatever the key
  holds by then.\<close>

definition comb_drop :: "string \<Rightarrow> string \<Rightarrow> comb_store \<Rightarrow> comb_store" where
  "comb_drop sid key s =
    (case map_of (cs_data s) sid of
       None \<Rightarrow> s
     | Some sd \<Rightarrow>
        (case map_of sd key of
           None \<Rightarrow> s
         | Some ent \<Rightarrow>
            s\<lparr>cs_memoryUsage := (cs_memoryUsage s)(sid \<mapsto> usage_of s sid - entry_size ent),
              cs_data := AList.update sid (AList.delete key sd) (cs_data s)\<rparr>))"

definition comb_Get :: "ctx_error option \<Rightarrow> time \<Rightarrow> string \<Rightarrow> string \<Rightarrow> comb_store \<Rightarrow>
    comb_store \<times> (comb_error + string)" where
  "comb_Get ctx now sid key s =
    (case ctx of
       Some e \<Rightarrow> (s, Inl (CtxErr e))
     | None \<Rightarrow>
        (case comb_read now sid key s of
           Inl e \<Rightarrow> (s, Inl e)
         | Inr (expired, value) \<Rightarrow>
            if expired then (comb_drop sid key s, Inl (KeyExpired key)) else (s, Inr value)))"

definition comb_Exists :: "ctx_error option \<Rightarrow> time \<Rightarrow> string \<Rightarrow> string \<Rightarrow> comb_store \<Rightarrow>
    comb_store \<times> (comb_error + bool)" where
  "comb_Exists ctx now sid key s =
    (case ctx of
       Some e \<Rightarrow> (s, Inl (CtxErr e))
     | None \<Rightarrow>
        (case comb_read now sid key s of
           Inl _ \<Rightarrow> (s, Inr False)
         | Inr (expired, _) \<Rightarrow>
            if expired then (comb_drop sid key s, Inr False) else (s, Inr True)))"

text \<open>\<open>if s.data[sessionID] == nil\<close> of \<open>Set\<close> and \<open>Incr\<close>.\<close>

definition comb_init_session :: "string \<Rightarrow> comb_store \<Rightarrow> comb_store" where
  "comb_init_session sid s =
    (if map_of (cs_data s) sid = None
     then s\<lparr>cs_data := AList.update sid [] (cs_data s),
            cs_memoryUsage := (cs_memoryUsage s)(sid \<mapsto> 0)\<rparr>
     else s)"

definition session_entries :: "comb_store \<Rightarrow> string \<Rightarrow> session_data" where
  "session_entries s sid = (case map_of (cs_data s) sid of None \<Rightarrow> [] | Some sd \<Rightarrow> sd)"

definition comb_Set :: "ctx_error option \<Rightarrow> ctx_error option \<Rightarrow> time \<Rightarrow> string \<Rightarrow> string \<Rightarrow> string \<Rightarrow>
    duration \<Rightarrow> comb_store \<Rightarrow> comb_store \<times> comb_error option" where
  "comb_Set ctx1 ctx2 now sid key value ttl s =
    (case ctx1 of Some e \<Rightarrow> (s, Some (CtxErr e)) | None \<Rightarrow>
     case ctx2 of Some e \<Rightarrow> (s, Some (CtxErr e)) | None \<Rightarrow>
      (let s = comb_init_session sid s;
           sd = session_entries s sid;
           valueSize = int (length value);
           oldSize = (case map_of sd key of None \<Rightarrow> 0 | Some old \<Rightarrow> entry_size old);
           newUsage = usage_of s sid - oldSize + valueSize;
           ent = \<lparr>ent_value = value, ent_expiresAt = (if ttl > 0 then Some (now + ttl) else None)\<rparr>;
           s' = s\<lparr>cs_memoryUsage := (cs_memoryUsage s)(sid \<mapsto> newUsage),
                  cs_data := AList.update sid (AList.update key ent sd) (cs_data s)\<rparr>
       in case cs_memoryLimits s sid of
            None \<Rightarrow> (s', None)
          | Some limit \<Rightarrow>
             if newUsage > limit then (s, Some (MemoryLimitExceeded sid newUsage limit))
             else (s', None)))"

definition comb_Delete :: "ctx_error option \<Rightarrow> ctx_error option \<Rightarrow> string \<Rightarrow> string \<Rightarrow> comb_store \<Rightarrow>
    comb_store \<times> comb_error option" where
  "comb_Delete ctx1 ctx2 sid key s =
    (case ctx1 of Some e \<Rightarrow> (s, Some (CtxErr e)) | None \<Rightarrow>
     case ctx2 of Some e \<Rightarrow> (s, Some (CtxErr e)) | None \<Rightarrow>
     case map_of (cs_data s) sid of
       None \<Rightarrow> (s, Some (SessionNotFound sid))
     | Some sd \<Rightarrow>
        (case map_of sd key of
           None \<Rightarrow> (s, None)
         | Some ent \<Rightarrow>
            (s\<lparr>cs_memoryUsage := (cs_memoryUsage s)(sid \<mapsto> usage_of s sid - entry_size ent),
               cs_data := AList.update sid (AList.delete key sd) (cs_data s)\<rparr>, None)))"

definition comb_Incr :: "ctx_error option \<Rightarrow> ctx_error option \<Rightarrow> string \<Rightarrow> string \<Rightarrow> comb_store \<Rightarrow>
    comb_store \<times> (comb_error + int)" where
  "comb_Incr ctx1 ctx2 sid key s =
    (case ctx1 of Some e \<Rightarrow> (s, Inl (CtxErr e)) | None \<Rightarrow>
     case ctx2 of Some e \<Rightarrow> (s, Inl (CtxErr e)) | None \<Rightarrow>
      (let s = comb_init_session sid s;
           sd = session_entries s sid;
           ent = (case map_of sd key of
                    None \<Rightarrow> \<lparr>ent_value = ''0'', ent_expiresAt = None\<rparr> | Some ent \<Rightarrow> ent)
       in case parse_int64 (ent_value ent) of
            None \<Rightarrow> (s\<lparr>cs_data := AList.update sid (AList.update key ent sd) (cs_data s)\<rparr>,
                     Inl (NotANumber (ent_value ent)))
          | Some n \<Rightarrow>
             (let current = wrap64 (n + 1); ent = ent\<lparr>ent_value := int_str current\<rparr>
              in (s\<lparr>cs_data := AList.update sid (AList.update key ent sd) (cs_data s)\<rparr>,
                  Inr current))))"

definition matchesPattern :: "string \<Rightarrow> string \<Rightarrow> bool" where
  "matchesPattern key pattern = (if pattern = ''*'' then True else key = pattern)"

text \<open>The loop of \<open>Keys\<close>; \<open>ctxs\<close> are the values of \<open>ctx.Err()\<close> at the successive entries.\<close>

fun comb_Keys_loop :: "time \<Rightarrow> string \<Rightarrow> (nat \<Rightarrow> ctx_error option) \<Rightarrow> string list \<Rightarrow> session_data \<Rightarrow>
    comb_error + string list" where
  "comb_Keys_loop now pattern ctxs keys [] = Inr keys"
| "comb_Keys_loop now pattern ctxs keys ((key, ent) # sd) =
    (case ctxs 0 of
       Some e \<Rightarrow> Inl (CtxErr e)
     | None \<Rightarrow>
        comb_Keys_loop now pattern (\<lambda>i. ctxs (Suc i))
          (if entry_expired now ent then keys
           else if matchesPattern key pattern then keys @ [key] else keys) sd)"

text \<open>\<open>Keys\<close> gives up the store's lock between looking the session up and ranging over its map; here
  it is one atomic read, so what others do to the session in between is not seen.\<close>

definition comb_Keys :: "ctx_error option \<Rightarrow> (nat \<Rightarrow> ctx_error option) \<Rightarrow> time \<Rightarrow> string \<Rightarrow> string \<Rightarrow>
    comb_store \<Rightarrow> comb_error + string list" where
  "comb_Keys ctx ctxs now sid pattern s =
    (case ctx of
       Some e \<Rightarrow> Inl (CtxErr e)
     | None \<Rightarrow>
        (case map_of (cs_data s) sid of
           None \<Rightarrow> Inr []
         | Some sd \<Rightarrow> comb_Keys_loop now pattern ctxs [] sd))"

fun comb_Clear_loop :: "(nat \<Rightarrow> ctx_error option) \<Rightarrow> session_data \<Rightarrow> session_data \<times> comb_error option" where
  "comb_Clear_loop ctxs [] = ([], None)"
| "comb_Clear_loop ctxs (p # sd) =
    (case ctxs 0 of
       Some e \<Rightarrow> (p # sd, Some (CtxErr e))
     | None \<Rightarrow> comb_Clear_loop (\<lambda>i. ctxs (Suc i)) sd)"

definition comb_Clear :: "ctx_error option \<Rightarrow> (nat \<Rightarrow> ctx_error option) \<Rightarrow> string \<Rightarrow> comb_store \<Rightarrow>
    comb_store \<times> comb_error option" where
  "comb_Clear ctx ctxs sid s =
    (case ctx of
       Some e \<Rightarrow> (s, Some (CtxErr e))
     | None \<Rightarrow>
        (case map_of (cs_data s) sid of
           None \<Rightarrow> (s, None)
         | Some sd \<Rightarrow>
            (let (sd', err) = comb_Clear_loop ctxs sd
             in (s\<lparr>cs_memoryUsage := (cs_memoryUsage s)(sid \<mapsto> 0),
                   cs_data := AList.update sid sd' (cs_data s)\<rparr>, err))))"

definition comb_SetMemoryLimit :: "string \<Rightarrow> int \<Rightarrow> comb_store \<Rightarrow> comb_store" where
  "comb_SetMemoryLimit sid limitMB s =
    s\<lparr>cs_memoryLimits := (cs_memoryLimits s)(sid \<mapsto> wrap64 (wrap64 (limitMB * 1024) * 1024))\<rparr>"

definition comb_GetMemoryUsage :: "string \<Rightarrow> comb_store \<Rightarrow> int" where
  "comb_GetMemoryUsage sid s = usage_of s sid"

text \<open>\<open>expireKeys\<close>: first collect the expired keys of all sessions, then delete them.\<close>

definition comb_collect :: "time \<Rightarrow> comb_store \<Rightarrow> (string \<times> string \<times> int) list" where
  "comb_collect now s =
    concat (map (\<lambda>(sid, sd). map (\<lambda>(key, ent). (sid, key, entry_size ent))
                               (filter (\<lambda>(key, ent). entry_expired now ent) sd)) (cs_data s))"

fun comb_expire_one :: "string \<times> string \<times> int \<Rightarrow> comb_store \<Rightarrow> comb_store" where
  "comb_expire_one (sid, key, valueSize) s =
    (case map_of (cs_data s) sid of
       None \<Rightarrow> s
     | Some sd \<Rightarrow>
        (if map_of sd key = None then s
         else s\<lparr>cs_memoryUsage := (cs_memoryUsage s)(sid \<mapsto> usage_of s sid - valueSize),
                cs_data := AList.update sid (AList.delete key sd) (cs_data s)\<rparr>))"

definition comb_expireKeys :: "time \<Rightarrow> comb_store \<Rightarrow> comb_store" where
  "comb_expireKeys now s = fold comb_expire_one (comb_collect now s) s"

section \<open>Entries, invariant and accounting\<close>

definition comb_entry_at :: "comb_store \<Rightarrow> string \<Rightarrow> string \<Rightarrow> comb_entry option" where
  "comb_entry_at s sid key = map_of (session_entries s sid) key"

text \<open>The bytes a session holds.\<close>

definition comb_held :: "comb_store \<Rightarrow> string \<Rightarrow> int" where
  "comb_held s sid = sum_vals entry_size (session_entries s sid)"

text \<open>The association lists are maps: no key twice.\<close>

definition comb_inv :: "comb_store \<Rightarrow> bool" where
  "comb_inv s \<longleftrightarrow> distinct (map fst (cs_data s)) \<and>
    (\<forall>(sid, sd) \<in> set (cs_data s). distinct (map fst sd))"

text \<open>The accounting is exact, and nothing is charged to a session without data.\<close>

definition comb_accounted :: "comb_store \<Rightarrow> bool" where
  "comb_accounted s \<longleftrightarrow> (\<forall>sid. usage_of s sid = comb_held s sid)"

text \<open>The value a key has at a time: what a client of the store can observe.\<close>

definition comb_live :: "time \<Rightarrow> comb_store \<Rightarrow> string \<Rightarrow> string \<Rightarrow> string option" where
  "comb_live now s sid key =
    (case comb_entry_at s sid key of
       None \<Rightarrow> None
     | Some ent \<Rightarrow> if entry_expired now ent then None else Some (ent_value ent))"

text \<open>All operations change one session's entries through the same update.\<close>

lemma session_entries_update [simp]:
  "session_entries (s\<lparr>cs_memoryUsage := u, cs_data := AList.update sid sd (cs_data s)\<rparr>) sid' =
    (if sid' = sid then sd else session_entries s sid')"
  "session_entries (s\<lparr>cs_data := AList.update sid sd (cs_data s)\<rparr>) sid' =
    (if sid' = sid then sd else session_entries s sid')"
  "session_entries (s\<lparr>cs_data := AList.update sid sd (cs_data s), cs_memoryUsage := u\<rparr>) sid' =
    (if sid' = sid then sd else session_entries s sid')"
  by (simp_all add: session_entries_def)

lemma session_entries_other [simp]:
  "session_entries (s\<lparr>cs_memoryUsage := u\<rparr>) = session_entries s"
  "session_entries (s\<lparr>cs_memoryLimits := l\<rparr>) = session_entries s"
  "session_entries NewStore sid = []"
  by (simp_all add: session_entries_def NewStore_def fun_eq_iff)

lemma session_entries_None: "map_of (cs_data s) sid = None \<Longrightarrow> session_entries s sid = []"
  by (simp add: session_entries_def)

lemma comb_inv_entries: "comb_inv s \<Longrightarrow> distinct (map fst (session_entries s sid))"
  by (auto simp: comb_inv_def session_entries_def split: option.splits dest!: map_of_SomeD)

lemma comb_inv_update [inv_intros]:
  assumes "comb_inv s" and "distinct (map fst sd)"
  shows "comb_inv (s\<lparr>cs_data := AList.update sid sd (cs_data s)\<rparr>)"
    and "comb_inv (s\<lparr>cs_memoryUsage := u, cs_data := AList.update sid sd (cs_data s)\<rparr>)"
proof -
  have "\<forall>(sid, sd) \<in> set (AList.update sid sd (cs_data s)). distinct (map fst sd)"
    using assms unfolding comb_inv_def by (intro Ball_update) auto
  with assms show "comb_inv (s\<lparr>cs_data := AList.update sid sd (cs_data s)\<rparr>)"
    "comb_inv (s\<lparr>cs_memoryUsage := u, cs_data := AList.update sid sd (cs_data s)\<rparr>)"
    by (simp_all add: comb_inv_def distinct_update)
qed

lemma comb_inv_upd [simp]:
  "comb_inv (s\<lparr>cs_memoryUsage := u\<rparr>) = comb_inv s"
  "comb_inv (s\<lparr>cs_memoryLimits := l\<rparr>) = comb_inv s"
  by (simp_all add: comb_inv_def)

lemma comb_entry_at_None_no_session:
  "map_of (cs_data s) sid = None \<Longrightarrow> comb_entry_at s sid key = None"
  by (simp add: comb_entry_at_def session_entries_None)

lemma comb_init_session_simps [simp]:
  "session_entries (comb_init_session sid s) = session_entries s"
  "cs_memoryLimits (comb_init_session sid s) = cs_memoryLimits s"
  "comb_inv s \<Longrightarrow> comb_inv (comb_init_session sid s)"
  "sid' \<noteq> sid \<Longrightarrow> usage_of (comb_init_session sid s) sid' = usage_of s sid'"
  by (auto simp: comb_init_session_def session_entries_def fun_eq_iff lookup_or_def
      intro: comb_inv_update [of s "[]" sid, simplified])

lemma comb_init_session_accounted:
  "comb_accounted s \<Longrightarrow> usage_of (comb_init_session sid s) = usage_of s"
  by (auto simp: comb_init_session_def comb_accounted_def comb_held_def session_entries_None
      fun_eq_iff lookup_or_def split: option.splits)

text \<open>Removing one entry.\<close>

lemma comb_drop_eq:
  "comb_drop sid key s =
    (case comb_entry_at s sid key of
       None \<Rightarrow> s
     | Some ent \<Rightarrow>
        s\<lparr>cs_memoryUsage := (cs_memoryUsage s)(sid \<mapsto> usage_of s sid - entry_size ent),
          cs_data := AList.update sid (AList.delete key (session_entries s sid)) (cs_data s)\<rparr>)"
  by (auto simp: comb_drop_def comb_entry_at_def session_entries_def split: option.splits)

lemma comb_drop_entry_at:
  "comb_entry_at (comb_drop sid key s) sid' key' =
    (if sid' = sid \<and> key' = key then None else comb_entry_at s sid' key')"
  by (auto simp: comb_drop_eq comb_entry_at_def split: option.splits)

lemma comb_drop_inv [inv_intros]: "comb_inv s \<Longrightarrow> comb_inv (comb_drop sid key s)"
  by (auto simp: comb_drop_eq comb_inv_entries distinct_delete intro!: comb_inv_update split: option.splits)

lemma comb_drop_held:
  assumes "comb_inv s"
  shows "comb_held (comb_drop sid key s) sid' =
    comb_held s sid' - (if sid' = sid then case comb_entry_at s sid key of None \<Rightarrow> 0
      | Some ent \<Rightarrow> entry_size ent else 0)"
  using comb_inv_entries [OF assms]
  by (auto simp: comb_drop_eq comb_held_def comb_entry_at_def sum_vals_delete split: option.splits)

lemma comb_drop_usage:
  "usage_of (comb_drop sid key s) sid' =
    usage_of s sid' - (if sid' = sid then case comb_entry_at s sid key of None \<Rightarrow> 0
      | Some ent \<Rightarrow> entry_size ent else 0)"
  by (auto simp: comb_drop_eq lookup_or_def split: option.splits)

lemma comb_drop_accounted [inv_intros]:
  "comb_inv s \<Longrightarrow> comb_accounted s \<Longrightarrow> comb_accounted (comb_drop sid key s)"
  by (simp add: comb_accounted_def comb_drop_held comb_drop_usage)

lemma comb_drop_limits [simp]: "cs_memoryLimits (comb_drop sid key s) = cs_memoryLimits s"
  by (auto simp: comb_drop_eq split: option.splits)

text \<open>The sweep: as long as the collected sizes are those of the entries, each step of
  \<open>expireKeys\<close> is the removal of one entry.\<close>

definition comb_collected_ok :: "(string \<times> string \<times> int) list \<Rightarrow> comb_store \<Rightarrow> bool" where
  "comb_collected_ok ks s \<longleftrightarrow> (\<forall>(sid, key, sz) \<in> set ks.
    (case comb_entry_at s sid key of None \<Rightarrow> True | Some ent \<Rightarrow> entry_size ent = sz))"

lemma comb_expire_one_drop:
  assumes "comb_collected_ok [(sid, key, sz)] s"
  shows "comb_expire_one (sid, key, sz) s = comb_drop sid key s"
  using assms
  by (auto simp: comb_collected_ok_def comb_drop_def comb_entry_at_def session_entries_def
      split: option.splits)

lemma comb_collected_ok_drop: "comb_collected_ok ks s \<Longrightarrow> comb_collected_ok ks (comb_drop sid key s)"
  by (auto simp: comb_collected_ok_def comb_drop_entry_at split: if_splits)

lemma comb_expire_fold:
  "comb_collected_ok ks s \<Longrightarrow> fold comb_expire_one ks s = fold (\<lambda>(sid, key, _). comb_drop sid key) ks s"
proof (induction ks arbitrary: s)
  case Nil
  then show ?case by simp
next
  case (Cons k ks)
  obtain sid key sz where k: "k = (sid, key, sz)" by (cases k)
  have "comb_collected_ok [(sid, key, sz)] s" "comb_collected_ok ks s"
    using Cons.prems by (auto simp: comb_collected_ok_def k)
  then show ?case using Cons.IH [of "comb_drop sid key s"]
    by (simp add: k comb_expire_one_drop comb_collected_ok_drop del: comb_expire_one.simps)
qed

lemma comb_drops_entry_at:
  "comb_entry_at (fold (\<lambda>(sid, key, _). comb_drop sid key) ks s) sid key =
    (if \<exists>sz. (sid, key, sz) \<in> set ks then None else comb_entry_at s sid key)"
  by (induction ks arbitrary: s) (auto simp: comb_drop_entry_at)

lemma comb_drops_preserve:
  "comb_inv s \<Longrightarrow> comb_inv (fold (\<lambda>(sid, key, _). comb_drop sid key) ks s)"
  "comb_inv s \<Longrightarrow> comb_accounted s \<Longrightarrow> comb_accounted (fold (\<lambda>(sid, key, _). comb_drop sid key) ks s)"
  "cs_memoryLimits (fold (\<lambda>(sid, key, _). comb_drop sid key) ks s) = cs_memoryLimits s"
  by (induction ks arbitrary: s) (auto simp: comb_drop_inv comb_drop_accounted)

lemma comb_inv_entry_at:
  assumes "comb_inv s" and "(sid, sd) \<in> set (cs_data s)" and "(key, ent) \<in> set sd"
  shows "comb_entry_at s sid key = Some ent"
proof -
  have "map_of (cs_data s) sid = Some sd" using assms by (simp add: comb_inv_def)
  moreover have "distinct (map fst sd)" using assms by (auto simp: comb_inv_def)
  ultimately show ?thesis using assms by (simp add: comb_entry_at_def session_entries_def)
qed

lemma comb_collect_iff:
  assumes "comb_inv s"
  shows "(sid, key, sz) \<in> set (comb_collect now s) \<longleftrightarrow>
    (\<exists>ent. comb_entry_at s sid key = Some ent \<and> entry_expired now ent \<and> sz = entry_size ent)"
proof
  assume "(sid, key, sz) \<in> set (comb_collect now s)"
  then show "\<exists>ent. comb_entry_at s sid key = Some ent \<and> entry_expired now ent \<and> sz = entry_size ent"
    using comb_inv_entry_at [OF assms] unfolding comb_collect_def by fastforce
next
  assume "\<exists>ent. comb_entry_at s sid key = Some ent \<and> entry_expired now ent \<and> sz = entry_size ent"
  then obtain ent sd where "map_of (cs_data s) sid = Some sd" "map_of sd key = Some ent"
      "entry_expired now ent" "sz = entry_size ent"
    by (auto simp: comb_entry_at_def session_entries_def split: option.splits)
  then show "(sid, key, sz) \<in> set (comb_collect now s)"
    unfolding comb_collect_def by (force dest!: map_of_SomeD)
qed

lemma comb_collect_ok: "comb_inv s \<Longrightarrow> comb_collected_ok (comb_collect now s) s"
  by (auto simp: comb_collected_ok_def comb_collect_iff split: option.splits)

lemma comb_expireKeys_entry_at:
  "comb_inv s \<Longrightarrow> comb_entry_at (comb_expireKeys now s) sid key =
    (case comb_entry_at s sid key of None \<Rightarrow> None
     | Some ent \<Rightarrow> if entry_expired now ent then None else Some ent)"
  by (auto simp: comb_expireKeys_def comb_expire_fold comb_collect_ok comb_drops_entry_at
      comb_collect_iff split: option.splits)

lemma comb_expireKeys_preserve [inv_intros]:
  "comb_inv s \<Longrightarrow> comb_inv (comb_expireKeys now s)"
  "comb_inv s \<Longrightarrow> comb_accounted s \<Longrightarrow> comb_accounted (comb_expireKeys now s)"
  "comb_inv s \<Longrightarrow> cs_memoryLimits (comb_expireKeys now s) = cs_memoryLimits s"
  by (simp_all add: comb_expireKeys_def comb_expire_fold comb_collect_ok comb_drops_preserve)

text \<open>Writing one entry.\<close>

definition comb_put :: "string \<Rightarrow> string \<Rightarrow> comb_entry \<Rightarrow> int \<Rightarrow> comb_store \<Rightarrow> comb_store" where
  "comb_put sid key ent u s = s\<lparr>cs_memoryUsage := (cs_memoryUsage s)(sid \<mapsto> u),
     cs_data := AList.update sid (AList.update key ent (session_entries s sid)) (cs_data s)\<rparr>"

lemma comb_put_simps [simp]:
  "comb_inv s \<Longrightarrow> comb_inv (comb_put sid key ent u s)"
  "cs_memoryLimits (comb_put sid key ent u s) = cs_memoryLimits s"
  "usage_of (comb_put sid key ent u s) sid' = (if sid' = sid then u else usage_of s sid')"
  "comb_entry_at (comb_put sid key ent u s) sid' key' =
    (if sid' = sid \<and> key' = key then Some ent else comb_entry_at s sid' key')"
  using comb_inv_entries [of s sid]
  by (auto simp: comb_put_def comb_entry_at_def distinct_update lookup_or_def intro!: comb_inv_update)

lemma sum_vals_update:
  "distinct (map fst al) \<Longrightarrow> sum_vals f (AList.update k v al) =
    sum_vals f al - (case map_of al k of None \<Rightarrow> 0 | Some w \<Rightarrow> f w) + f v"
  by (cases "map_of al k")
    (simp_all add: sum_vals_update_new sum_vals_update_old map_of_eq_None_iff [symmetric])

abbreviation old_size :: "comb_store \<Rightarrow> string \<Rightarrow> string \<Rightarrow> int" where
  "old_size s sid key \<equiv> (case comb_entry_at s sid key of None \<Rightarrow> 0 | Some old \<Rightarrow> entry_size old)"

lemma comb_put_held:
  "comb_inv s \<Longrightarrow> comb_held (comb_put sid key ent u s) sid' =
    (if sid' = sid then comb_held s sid - old_size s sid key + entry_size ent else comb_held s sid')"
  using comb_inv_entries [of s sid]
  by (simp add: comb_put_def comb_held_def sum_vals_update comb_entry_at_def)

lemma comb_init_session_more [simp]:
  "comb_held (comb_init_session sid s) = comb_held s"
  "comb_entry_at (comb_init_session sid s) = comb_entry_at s"
  by (simp_all add: comb_held_def comb_entry_at_def fun_eq_iff)

lemma comb_Set_eq:
  "comb_Set ctx1 ctx2 now sid key value ttl s =
    (case ctx1 of Some e \<Rightarrow> (s, Some (CtxErr e)) | None \<Rightarrow>
     case ctx2 of Some e \<Rightarrow> (s, Some (CtxErr e)) | None \<Rightarrow>
      (let s1 = comb_init_session sid s;
           u = usage_of s1 sid - old_size s sid key + int (length value);
           ent = \<lparr>ent_value = value, ent_expiresAt = (if ttl > 0 then Some (now + ttl) else None)\<rparr>
       in case cs_memoryLimits s sid of
            Some l \<Rightarrow> if u > l then (s1, Some (MemoryLimitExceeded sid u l))
                      else (comb_put sid key ent u s1, None)
          | None \<Rightarrow> (comb_put sid key ent u s1, None)))"
  by (simp add: comb_Set_def Let_def comb_put_def comb_entry_at_def split: option.splits)

lemma comb_Set_cases:
  assumes "comb_Set ctx1 ctx2 now sid key value ttl s = (s', r)"
  obtains (cancelled) e where "s' = s" "r = Some (CtxErr e)"
    | (full) u l where "s' = comb_init_session sid s" "cs_memoryLimits s sid = Some l" "u > l"
        "r = Some (MemoryLimitExceeded sid u l)"
    | (stored) u where "r = None"
        "u = usage_of (comb_init_session sid s) sid - old_size s sid key + int (length value)"
        "\<forall>l. cs_memoryLimits s sid = Some l \<longrightarrow> u \<le> l"
        "s' = comb_put sid key \<lparr>ent_value = value,
           ent_expiresAt = (if ttl > 0 then Some (now + ttl) else None)\<rparr> u (comb_init_session sid s)"
proof (cases ctx1)
  case (Some e)
  then show ?thesis using assms by (intro cancelled [of e]) (simp_all add: comb_Set_eq)
next
  case ctx1: None
  show ?thesis
  proof (cases ctx2)
    case (Some e)
    then show ?thesis using assms ctx1 by (intro cancelled [of e]) (simp_all add: comb_Set_eq)
  next
    case None
    then show ?thesis using assms ctx1 full stored unfolding comb_Set_eq Let_def
      by (cases "cs_memoryLimits s sid") (fastforce split: if_splits)+
  qed
qed

lemma comb_Set_inv [inv_intros]:
  assumes "comb_inv s"
  shows "comb_inv (fst (comb_Set ctx1 ctx2 now sid key value ttl s))"
  using assms by (simp add: comb_Set_eq Let_def split: option.splits)

lemma comb_Set_accounted [inv_intros]:
  assumes "comb_inv s" and "comb_accounted s"
  shows "comb_accounted (fst (comb_Set ctx1 ctx2 now sid key value ttl s))"
proof (cases "comb_Set ctx1 ctx2 now sid key value ttl s")
  case (Pair s' r)
  have init: "comb_accounted (comb_init_session sid s)"
    using assms comb_init_session_accounted [of s sid] by (simp add: comb_accounted_def)
  from Pair show ?thesis
    by (cases rule: comb_Set_cases)
      (use assms init Pair in \<open>simp_all add: comb_accounted_def comb_put_held\<close>)
qed

lemma comb_Set_limit:
  assumes "comb_Set ctx1 ctx2 now sid key value ttl s = (s', None)" and "cs_memoryLimits s sid = Some l"
  shows "usage_of s' sid \<le> l"
  using assms(1) by (cases rule: comb_Set_cases) (use assms(2) in auto)

lemma comb_Set_limits [simp]: "cs_memoryLimits (fst (comb_Set ctx1 ctx2 now sid key value ttl s)) = cs_memoryLimits s"
  by (simp add: comb_Set_eq Let_def split: option.splits)

lemma comb_Set_entry_at:
  assumes "comb_Set ctx1 ctx2 now sid key value ttl s = (s', None)"
  shows "comb_entry_at s' sid' key' =
    (if sid' = sid \<and> key' = key
     then Some \<lparr>ent_value = value, ent_expiresAt = (if ttl > 0 then Some (now + ttl) else None)\<rparr>
     else comb_entry_at s sid' key')"
  using assms by (cases rule: comb_Set_cases) simp_all

lemma comb_Set_error_entry_at:
  assumes "comb_Set ctx1 ctx2 now sid key value ttl s = (s', Some e)"
  shows "comb_entry_at s' = comb_entry_at s"
  using assms by (cases rule: comb_Set_cases) simp_all

lemma comb_Delete_eq:
  "comb_Delete None None sid key s =
    (if map_of (cs_data s) sid = None then (s, Some (SessionNotFound sid)) else (comb_drop sid key s, None))"
  by (auto simp: comb_Delete_def comb_drop_def split: option.splits)

lemma fst_comb_Delete:
  "fst (comb_Delete ctx1 ctx2 sid key s) =
    (if ctx1 = None \<and> ctx2 = None then comb_drop sid key s else s)"
  by (auto simp: comb_Delete_def comb_drop_def split: option.splits)

lemma fst_comb_Get:
  "fst (comb_Get ctx now sid key s) =
    (if ctx = None \<and> (\<exists>v. comb_read now sid key s = Inr (True, v)) then comb_drop sid key s else s)"
  by (auto simp: comb_Get_def split: option.splits sum.splits)

lemma fst_comb_Exists: "fst (comb_Exists ctx now sid key s) = fst (comb_Get ctx now sid key s)"
  by (auto simp: comb_Get_def comb_Exists_def split: option.splits sum.splits)

lemma comb_Incr_eq:
  "comb_Incr None None sid key s =
    (let s1 = comb_init_session sid s;
         ent = (case comb_entry_at s sid key of
                  None \<Rightarrow> \<lparr>ent_value = ''0'', ent_expiresAt = None\<rparr> | Some ent \<Rightarrow> ent);
         put = (\<lambda>ent. s1\<lparr>cs_data := AList.update sid (AList.update key ent (session_entries s sid)) (cs_data s1)\<rparr>)
     in case parse_int64 (ent_value ent) of
          None \<Rightarrow> (put ent, Inl (NotANumber (ent_value ent)))
        | Some n \<Rightarrow> (put (ent\<lparr>ent_value := int_str (wrap64 (n + 1))\<rparr>), Inr (wrap64 (n + 1))))"
  by (simp add: comb_Incr_def comb_entry_at_def Let_def split: option.splits)

lemma comb_Clear_loop_free: "comb_Clear_loop (\<lambda>_. None) sd = ([], None)"
  by (induction sd) simp_all

lemma comb_Clear_loop_suffix: "\<exists>pre. sd = pre @ fst (comb_Clear_loop ctxs sd)"
proof (induction sd arbitrary: ctxs)
  case Nil
  then show ?case by simp
next
  case (Cons p sd)
  obtain pre where "sd = pre @ fst (comb_Clear_loop (\<lambda>i. ctxs (Suc i)) sd)" using Cons by blast
  then have tl: "p # sd = (p # pre) @ fst (comb_Clear_loop (\<lambda>i. ctxs (Suc i)) sd)" by simp
  show ?case
  proof (cases "ctxs 0")
    case None
    with tl show ?thesis by (intro exI [of _ "p # pre"]) simp
  next
    case (Some e)
    then show ?thesis by (intro exI [of _ "[]"]) simp
  qed
qed

lemma comb_Clear_loop_distinct:
  "distinct (map fst sd) \<Longrightarrow> distinct (map fst (fst (comb_Clear_loop ctxs sd)))"
  using comb_Clear_loop_suffix [of sd ctxs] by (metis distinct_append map_append)

section \<open>Runs\<close>

datatype comb_op =
    CGet "ctx_error option" time string string
  | CExists "ctx_error option" time string string
  | CSet "ctx_error option" "ctx_error option" time string string string duration
  | CDelete "ctx_error option" "ctx_error option" string string
  | CIncr "ctx_error option" "ctx_error option" string string
  | CClear "ctx_error option" "nat \<Rightarrow> ctx_error option" string
  | CLimit string int
  | CExpire time

fun comb_exec :: "comb_op \<Rightarrow> comb_store \<Rightarrow> comb_store" where
  "comb_exec (CGet ctx now sid key) s = fst (comb_Get ctx now sid key s)"
| "comb_exec (CExists ctx now sid key) s = fst (comb_Exists ctx now sid key s)"
| "comb_exec (CSet ctx1 ctx2 now sid key value ttl) s = fst (comb_Set ctx1 ctx2 now sid key value ttl s)"
| "comb_exec (CDelete ctx1 ctx2 sid key) s = fst (comb_Delete ctx1 ctx2 sid key s)"
| "comb_exec (CIncr ctx1 ctx2 sid key) s = fst (comb_Incr ctx1 ctx2 sid key s)"
| "comb_exec (CClear ctx ctxs sid) s = fst (comb_Clear ctx ctxs sid s)"
| "comb_exec (CLimit sid limitMB) s = comb_SetMemoryLimit sid limitMB s"
| "comb_exec (CExpire now) s = comb_expireKeys now s"

text \<open>The session an operation names; the sweep names none.\<close>

fun op_session :: "comb_op \<Rightarrow> string option" where
  "op_session (CGet _ _ sid _) = Some sid"
| "op_session (CExists _ _ sid _) = Some sid"
| "op_session (CSet _ _ _ sid _ _ _) = Some sid"
| "op_session (CDelete _ _ sid _) = Some sid"
| "op_session (CIncr _ _ sid _) = Some sid"
| "op_session (CClear _ _ sid) = Some sid"
| "op_session (CLimit sid _) = Some sid"
| "op_session (CExpire _) = None"

text \<open>The operations that keep the accounting: all but \<open>Incr\<close> and a \<open>Clear\<close> that is
  cancelled while it runs.\<close>

fun tracked_op :: "comb_op \<Rightarrow> bool" where
  "tracked_op (CIncr _ _ _ _) = False"
| "tracked_op (CClear _ ctxs _) = (ctxs = (\<lambda>_. None))"
| "tracked_op _ = True"

lemma comb_exec_inv:
  assumes "comb_inv s"
  shows "comb_inv (comb_exec op s)"
proof (cases op)
  case (CIncr ctx1 ctx2 sid key)
  have "comb_inv (fst (comb_Incr None None sid key s))"
    using comb_inv_entries [OF assms, of sid] assms
    by (auto simp: comb_Incr_eq Let_def distinct_update intro!: comb_inv_update split: option.splits)
  then show ?thesis using CIncr assms by (auto simp: comb_Incr_def split: option.splits)
next
  case (CClear ctx ctxs sid)
  have "comb_inv (fst (comb_Clear None ctxs sid s))"
    using comb_inv_entries [OF assms, of sid] assms
    by (auto simp: comb_Clear_def session_entries_def split_beta intro!: comb_inv_update
        comb_Clear_loop_distinct split: option.splits)
  then show ?thesis using CClear assms by (auto simp: comb_Clear_def split: option.splits)
qed (simp_all add: assms comb_Set_inv fst_comb_Delete fst_comb_Get fst_comb_Exists comb_drop_inv
    comb_SetMemoryLimit_def comb_expireKeys_preserve)

lemma comb_exec_accounted:
  assumes "comb_inv s" and "comb_accounted s" and "tracked_op op"
  shows "comb_accounted (comb_exec op s)"
proof (cases op)
  case (CClear ctx ctxs sid)
  then show ?thesis using assms
    by (auto simp: comb_Clear_def comb_Clear_loop_free comb_accounted_def comb_held_def lookup_or_def
        split: option.splits)
next
  case (CLimit sid l)
  then show ?thesis using assms by (simp add: comb_SetMemoryLimit_def comb_accounted_def comb_held_def)
qed (use assms in \<open>simp_all add: comb_Set_accounted fst_comb_Delete fst_comb_Get fst_comb_Exists
    comb_drop_accounted comb_expireKeys_preserve\<close>)

lemma comb_new: "comb_inv NewStore" "comb_accounted NewStore"
  by (simp_all add: NewStore_def comb_inv_def comb_accounted_def comb_held_def session_entries_def)

lemma comb_run_inv: "comb_inv s \<Longrightarrow> comb_inv (fold comb_exec ops s)"
  by (induction ops arbitrary: s) (simp_all add: comb_exec_inv)

lemma comb_run_accounted:
  "comb_inv s \<Longrightarrow> comb_accounted s \<Longrightarrow> list_all tracked_op ops \<Longrightarrow> comb_accounted (fold comb_exec ops s)"
  by (induction ops arbitrary: s) (simp_all add: comb_exec_inv comb_exec_accounted)

section \<open>Properties\<close>

lemma comb_live_None: "comb_entry_at s sid key = None \<Longrightarrow> comb_live t s sid key = None"
  by (simp add: comb_live_def)

lemma comb_live_drop:
  "comb_live t (comb_drop sid key s) = (comb_live t s)(sid := (comb_live t s sid)(key := None))"
  by (auto simp: comb_live_def comb_drop_entry_at fun_eq_iff)

lemma comb_live_drop_expired:
  assumes "comb_read now sid key s = Inr (True, v)" and "now \<le> t"
  shows "comb_live t (comb_drop sid key s) = comb_live t s"
proof -
  have "comb_live t s sid key = None"
    using assms by (auto simp: comb_read_def comb_live_def comb_entry_at_def session_entries_def
        entry_expired_def Let_def split: option.splits)
  then show ?thesis by (simp add: comb_live_drop fun_upd_idem)
qed

lemma comb_live_Get: "now \<le> t \<Longrightarrow> comb_live t (fst (comb_Get None now sid key s)) = comb_live t s"
  by (auto simp: fst_comb_Get comb_live_drop_expired)

lemma comb_Get_live: "(snd (comb_Get None now sid key s) = Inr v) = (comb_live now s sid key = Some v)"
  by (auto simp: comb_Get_def comb_read_def comb_live_def comb_entry_at_def session_entries_def
      Let_def split: option.splits)

lemma comb_Exists_live: "snd (comb_Exists None now sid key s) = Inr (comb_live now s sid key \<noteq> None)"
  by (auto simp: comb_Exists_def comb_read_def comb_live_def comb_entry_at_def session_entries_def
      Let_def split: option.splits)

lemma comb_live_Set:
  assumes "comb_Set ctx1 ctx2 now sid key value ttl s = (s', None)"
  shows "comb_live t s' = (comb_live t s)(sid := (comb_live t s sid)
    (key := if 0 < ttl \<and> now + ttl < t then None else Some value))"
  by (auto simp: comb_live_def comb_Set_entry_at [OF assms] entry_expired_def fun_eq_iff)

lemma comb_live_expireKeys:
  "comb_inv s \<Longrightarrow> now \<le> t \<Longrightarrow> comb_live t (comb_expireKeys now s) = comb_live t s"
  by (auto simp: comb_live_def comb_expireKeys_entry_at entry_expired_def fun_eq_iff split: option.splits)

text \<open>C7: In every state the store can reach, its operations implement a map with expiry
  times.  \<open>Get\<close> returns exactly the value that is live, \<open>Exists\<close> says whether there is one; a
  successful \<open>Set\<close> writes one key of one session and nothing else, for as long as its TTL
  says; \<open>Delete\<close> removes that key; and neither the removal of an expired key inside \<open>Get\<close>
  nor the periodic sweep changes what can be observed at any later time.\<close>

theorem comb_refines_timed_map:
  assumes "s = fold comb_exec ops NewStore" and "now \<le> t"
  shows "(snd (comb_Get None now sid key s) = Inr v) = (comb_live now s sid key = Some v) \<and>
    comb_live t (fst (comb_Get None now sid key s)) = comb_live t s \<and>
    snd (comb_Exists None now sid key s) = Inr (comb_live now s sid key \<noteq> None) \<and>
    (snd (comb_Set None None now sid key value ttl s) = None \<longrightarrow>
      comb_live t (fst (comb_Set None None now sid key value ttl s)) =
        (comb_live t s)(sid := (comb_live t s sid)
          (key := if 0 < ttl \<and> now + ttl < t then None else Some value))) \<and>
    comb_live t (fst (comb_Delete None None sid key s)) =
      (comb_live t s)(sid := (comb_live t s sid)(key := None)) \<and>
    comb_live t (comb_expireKeys now s) = comb_live t s"
proof -
  have "comb_inv s" using assms(1) comb_run_inv comb_new by simp
  moreover have "snd (comb_Set None None now sid key value ttl s) = None \<longrightarrow>
      comb_live t (fst (comb_Set None None now sid key value ttl s)) =
        (comb_live t s)(sid := (comb_live t s sid)
          (key := if 0 < ttl \<and> now + ttl < t then None else Some value))"
    by (metis comb_live_Set prod.collapse)
  ultimately show ?thesis using assms(2)
    by (simp add: comb_Get_live comb_Exists_live comb_live_Get comb_live_expireKeys
        fst_comb_Delete comb_live_drop)
qed

lemma comb_refines_timed_map_witness:
  "snd (comb_Get None 5 ''s'' ''k'' (fold comb_exec [CSet None None 0 ''s'' ''k'' ''v'' 9] NewStore)) = Inr ''v'' \<longleftrightarrow>
   comb_live 5 (fold comb_exec [CSet None None 0 ''s'' ''k'' ''v'' 9] NewStore) ''s'' ''k'' = Some ''v''"
  by (rule comb_refines_timed_map [THEN conjunct1, OF refl, of 5 5]) simp

lemma comb_held_bound_step:
  assumes "comb_inv s" "comb_accounted s" "tracked_op op" "\<And>sid' mb. op \<noteq> CLimit sid' mb"
    and "cs_memoryLimits s sid = Some l" "comb_held s sid \<le> l"
  shows "comb_held (comb_exec op s) sid \<le> l \<and> cs_memoryLimits (comb_exec op s) sid = Some l"
proof -
  have drop: "comb_held (comb_drop x key s) sid \<le> l" for x key
    using assms by (auto simp: comb_drop_held split: option.splits)
  have sweep: "comb_held (fold (\<lambda>(sid, key, _). comb_drop sid key) ks s) sid \<le> l"
    if "comb_inv s" "comb_held s sid \<le> l" for ks s
    using that
  proof (induction ks arbitrary: s)
    case (Cons k ks)
    have "comb_held (comb_drop x key s) sid \<le> l" for x key
      using Cons.prems by (auto simp: comb_drop_held split: option.splits)
    then show ?case using Cons by (auto simp: comb_drop_inv split: prod.splits)
  qed simp
  show ?thesis
  proof (cases op)
    case (CSet ctx1 ctx2 now sid' key val ttl)
    have acc: "comb_accounted (comb_exec op s)" using assms comb_exec_accounted by blast
    show ?thesis
    proof (cases "comb_Set ctx1 ctx2 now sid' key val ttl s")
      case (Pair s' r)
      then have lim: "cs_memoryLimits s' = cs_memoryLimits s" using comb_Set_limits by (metis fst_conv)
      have acc': "usage_of s' x = comb_held s' x" for x
        using acc CSet Pair by (simp add: comb_accounted_def)
      from Pair have "comb_held s' sid \<le> l"
      proof (cases rule: comb_Set_cases)
        case (stored u)
        then show ?thesis
        proof (cases "sid' = sid")
          case True
          then show ?thesis using stored assms(5) acc' [of sid] by simp
        next
          case False
          then show ?thesis using stored assms by (simp add: comb_put_held)
        qed
      qed (use assms in simp_all)
      then show ?thesis using CSet Pair lim assms by simp
    qed
  next
    case (CClear ctx ctxs sid')
    have "0 \<le> l" using assms(6) sum_vals_nonneg [of entry_size "session_entries s sid"]
      by (simp add: comb_held_def)
    then show ?thesis using assms CClear
      by (auto simp: comb_Clear_def comb_Clear_loop_free comb_held_def split: option.splits)
  qed (use assms drop sweep in \<open>simp_all add: fst_comb_Delete fst_comb_Get fst_comb_Exists
      comb_expireKeys_def comb_expire_fold comb_collect_ok comb_drops_preserve\<close>)
qed

lemma comb_held_bound_run:
  assumes "comb_inv s" "comb_accounted s" "list_all tracked_op ops" "\<forall>op \<in> set ops. \<forall>x mb. op \<noteq> CLimit x mb"
    and "cs_memoryLimits s sid = Some l" "comb_held s sid \<le> l"
  shows "comb_held (fold comb_exec ops s) sid \<le> l"
  using assms
proof (induction ops arbitrary: s)
  case (Cons op ops)
  then show ?case using comb_held_bound_step [of s op sid l]
    by (simp add: comb_exec_inv comb_exec_accounted)
qed simp

text \<open>C8: As long as nobody uses \<open>Incr\<close> and no \<open>Clear\<close> is cancelled half way, the
  accounting is exact (the usage reported for a session is the number of bytes it holds), and
  a limit that covers what a session holds when it is set is never exceeded afterwards,
  whatever the operations on this and other sessions.\<close>

theorem comb_memory_limit_enforced:
  assumes "list_all tracked_op (ops @ ops')"
    and "\<forall>op \<in> set ops'. \<forall>x mb. op \<noteq> CLimit x mb"
    and "s = comb_SetMemoryLimit sid limitMB (fold comb_exec ops NewStore)"
    and "in64 (limitMB * 1024 * 1024)" and "comb_held s sid \<le> limitMB * 1024 * 1024"
    and "s' = fold comb_exec ops' s"
  shows "comb_GetMemoryUsage sid s' = comb_held s' sid \<and> comb_held s' sid \<le> limitMB * 1024 * 1024"
proof -
  have a: "comb_inv s" "comb_accounted s"
    using assms(1,3) comb_new comb_run_inv comb_run_accounted
    by (simp_all add: comb_SetMemoryLimit_def comb_accounted_def comb_held_def)
  have "in64 (limitMB * 1024)" using assms(4) by (auto simp: in64_def)
  then have "cs_memoryLimits s sid = Some (limitMB * 1024 * 1024)"
    using assms(3,4) by (simp add: comb_SetMemoryLimit_def)
  then show ?thesis using a assms comb_run_accounted [of s ops'] comb_held_bound_run [of s ops' sid]
    by (simp add: comb_GetMemoryUsage_def comb_accounted_def)
qed

lemma comb_memory_limit_enforced_witness:
  "comb_held (fold comb_exec [CSet None None 0 ''s'' ''k'' ''vv'' 0]
     (comb_SetMemoryLimit ''s'' 1 (fold comb_exec [] NewStore))) ''s'' \<le> 1048576"
  using comb_memory_limit_enforced [of "[]" "[CSet None None 0 ''s'' ''k'' ''vv'' 0]" _ "''s''" 1,
      OF _ _ refl _ _ refl]
  by (simp add: in64_def comb_held_def comb_SetMemoryLimit_def NewStore_def session_entries_def)

lemma comb_Set_other_session:
  assumes "sid' \<noteq> sid"
  shows "session_entries (fst (comb_Set ctx1 ctx2 now sid key value ttl s)) sid' = session_entries s sid' \<and>
    usage_of (fst (comb_Set ctx1 ctx2 now sid key value ttl s)) sid' = usage_of s sid'"
  using assms by (auto simp: comb_Set_eq Let_def comb_put_def split: option.splits)

lemma comb_drop_other_session:
  "sid' \<noteq> sid \<Longrightarrow> session_entries (comb_drop sid key s) sid' = session_entries s sid' \<and>
    usage_of (comb_drop sid key s) sid' = usage_of s sid'"
  by (auto simp: comb_drop_eq split: option.splits)

text \<open>Sessions are isolated: an operation on one session leaves the entries, the
  accounted usage and the memory limit of every other session exactly as they were,
  whatever the keys.\<close>

lemma comb_session_isolation:
  assumes "op_session op = Some sid" and "sid' \<noteq> sid"
  shows "session_entries (comb_exec op s) sid' = session_entries s sid' \<and>
    comb_GetMemoryUsage sid' (comb_exec op s) = comb_GetMemoryUsage sid' s \<and>
    cs_memoryLimits (comb_exec op s) sid' = cs_memoryLimits s sid'"
proof (cases op)
  case (CIncr ctx1 ctx2 x key)
  with assms show ?thesis
    by (auto simp: comb_Incr_def comb_GetMemoryUsage_def Let_def split: option.splits)
next
  case (CClear ctx ctxs x)
  with assms show ?thesis
    by (auto simp: comb_Clear_def comb_GetMemoryUsage_def split: option.splits prod.splits)
qed (use assms in \<open>simp_all add: comb_GetMemoryUsage_def comb_Set_other_session fst_comb_Delete
    fst_comb_Get fst_comb_Exists comb_drop_other_session comb_SetMemoryLimit_def\<close>)

lemma int_str_1: "int_str 1 = ''1''"
  by code_simp

lemma parse_0: "parse_int64 ''0'' = Some 0"
  by (simp add: parse_int64_def parse_nat_def is_digit_def digit_val_def in64_def)

lemma comb_Incr_fresh:
  assumes "comb_inv s" and "comb_entry_at s sid key = None"
  defines "s1 \<equiv> fst (comb_Incr None None sid key s)"
  shows "comb_inv s1 \<and> comb_held s1 sid = comb_held s sid + 1 \<and>
    usage_of s1 = usage_of (comb_init_session sid s) \<and>
    comb_entry_at s1 sid key = Some \<lparr>ent_value = ''1'', ent_expiresAt = None\<rparr>"
proof -
  have "in64 1" by (simp add: in64_def)
  then have s1: "s1 = (comb_init_session sid s)\<lparr>cs_data := AList.update sid
      (AList.update key \<lparr>ent_value = ''1'', ent_expiresAt = None\<rparr> (session_entries s sid))
      (cs_data (comb_init_session sid s))\<rparr>"
    using assms(2) by (simp add: s1_def comb_Incr_eq Let_def int_str_1 parse_0)
  have new: "key \<notin> keys_of (session_entries s sid)" "distinct (map fst (session_entries s sid))"
    using assms(1,2) comb_inv_entries
    by (simp_all add: comb_entry_at_def map_of_eq_None_iff)
  show ?thesis
  proof (intro conjI)
    show "comb_inv s1" unfolding s1 using new assms(1)
      by (intro comb_inv_update) (simp_all add: distinct_update)
    show "comb_held s1 sid = comb_held s sid + 1" unfolding s1 comb_held_def
      using new by (simp add: sum_vals_update_new)
    show "comb_entry_at s1 sid key = Some \<lparr>ent_value = ''1'', ent_expiresAt = None\<rparr>"
      unfolding s1 comb_entry_at_def by simp
  qed (simp add: s1)
qed

text \<open>\<open>Incr\<close> escapes the accounting.  When it creates a counter the session holds a
  byte more but its usage does not change, so the usage is one too small; when the counter
  is deleted the byte is subtracted although it was never added, and the usage stays below
  the bytes held for good (it is \<open>-1\<close> for an empty session).\<close>

lemma comb_incr_escapes_accounting:
  assumes "list_all tracked_op ops" and "s = fold comb_exec ops NewStore"
    and "comb_entry_at s sid key = None"
    and "s1 = comb_exec (CIncr None None sid key) s"
    and "s2 = comb_exec (CDelete None None sid key) s1"
  shows "comb_GetMemoryUsage sid s1 = comb_held s1 sid - 1 \<and>
    comb_GetMemoryUsage sid s2 = comb_held s2 sid - 1 \<and> comb_held s2 sid = comb_held s sid"
proof -
  have s: "comb_inv s" "comb_accounted s"
    using assms(1,2) comb_new comb_run_inv comb_run_accounted by simp_all
  have s1: "s1 = fst (comb_Incr None None sid key s)" using assms(4) by simp
  note fresh = comb_Incr_fresh [OF s(1) assms(3), folded s1]
  have "usage_of s1 sid = comb_held s sid"
    using fresh comb_init_session_accounted [OF s(2), of sid] s(2) by (simp add: comb_accounted_def)
  then show ?thesis using fresh assms(5)
    by (simp add: comb_GetMemoryUsage_def fst_comb_Delete comb_drop_held comb_drop_usage)
qed

text \<open>\<open>Get\<close> releases its read lock before it removes an expired key and does not look
  at the expiry again.  A value another client writes in between is lost: the \<open>Set\<close> has
  reported success and the value is there, and once \<open>Get\<close> continues it is gone at every
  time, although it never expired.\<close>

lemma comb_get_loses_concurrent_set:
  assumes "comb_read now sid key s = Inr (True, v)"
    and "comb_Set None None now' sid key value ttl s = (s1, None)"
  shows "comb_live now' s1 sid key = Some value \<and> (\<forall>t. comb_live t (comb_drop sid key s1) sid key = None)"
  by (simp add: comb_live_Set [OF assms(2)] comb_live_drop)

section \<open>The interface of a session memory\<close>

text \<open>What the clients of the interface \<open>comb.Comb\<close> rely on: reading and writing strings by
  session and key (the keeper's request handlers and the structured accessors use nothing
  else of it for values that do not expire).\<close>

locale session_memory =
  fixes get :: "time \<Rightarrow> string \<Rightarrow> string \<Rightarrow> 's \<Rightarrow> 's \<times> ('e + string)"
    and set :: "time \<Rightarrow> string \<Rightarrow> string \<Rightarrow> string \<Rightarrow> 's \<Rightarrow> 's \<times> 'e option"
    and live :: "time \<Rightarrow> 's \<Rightarrow> string \<Rightarrow> string \<Rightarrow> string option"
  assumes get_live: "snd (get now sid key s) = Inr v \<longleftrightarrow> live now s sid key = Some v"
    and live_get: "now \<le> t \<Longrightarrow> live t (fst (get now sid key s)) = live t s"
    and live_set: "set now sid key v s = (s', None) \<Longrightarrow>
      live t s' = (live t s)(sid := (live t s sid)(key \<mapsto> v))"
begin

lemma get_after_set:
  "set now sid key v s = (s', None) \<Longrightarrow> snd (get t sid key s') = Inr v"
  by (simp add: get_live live_set)

lemma get_unaffected:
  assumes "set now sid key v s = (s', None)" and "(sid', key') \<noteq> (sid, key)"
  shows "snd (get t sid' key' s') = Inr w \<longleftrightarrow> snd (get t sid' key' s) = Inr w"
  using assms(2) by (auto simp: get_live live_set [OF assms(1)])

lemma set_survives_get:
  assumes "set now sid key v s = (s', None)" and "now' \<le> t"
  shows "snd (get t sid key (fst (get now' sid' key' s'))) = Inr v"
  using assms by (simp add: get_live live_get live_set)

end

interpretation comb: session_memory
  "\<lambda>now sid key. comb_Get None now sid key"
  "\<lambda>now sid key v. comb_Set None None now sid key v 0"
  comb_live
  by unfold_locales (simp_all add: comb_Get_live comb_live_Get comb_live_Set)

end
