(* ===== verification/Comb_Structured.thy ===== *)
theory Comb_Structured
  imports Comb
begin

text \<open>
  The structured accessors of the session memory, \<open>internal/comb/structured.go\<close>:
  conversation history, artifacts, the state machine with its history, and the scratchpad.
  They are sequences of \<open>Get\<close>, \<open>Set\<close>, \<open>Keys\<close> and \<open>Delete\<close> on the store, each its own critical
  section; \<open>ctx i\<close> is the \<open>i\<close>-th value of \<open>ctx.Err()\<close> and \<open>now i\<close> the \<open>i\<close>-th reading of the
  clock inside one call of an accessor.

  \<open>encoding/json\<close> is a parameter: \<open>enc\<close> is \<open>json.Marshal\<close> (\<open>None\<close> when it fails), \<open>dec\<close> is
  \<open>json.Unmarshal\<close> into an empty slice, which returns what it has put into the slice and
  whether it failed.
\<close>

section \<open>Data\<close>

record 'j conversation_message =
  cm_ID :: string
  cm_Timestamp :: time
  cm_AgentID :: string
  cm_Type :: string
  cm_Content :: string
  cm_Metadata :: 'j

record artifact_metadata =
  am_Name :: string
  am_Size :: int
  am_Type :: string
  am_CreatedAt :: time

record state_transition =
  tr_From :: string
  tr_To :: string
  tr_Timestamp :: time
  tr_Reason :: string

datatype structured_error =
    StoreErr comb_error
  | MarshalFailed string
  | UnmarshalFailed string
  | InvalidTransition string string

type_synonym 'a marshal = "'a list \<Rightarrow> string option"
type_synonym 'a unmarshal = "string \<Rightarrow> 'a list \<times> bool"

definition conversationKey :: "string \<Rightarrow> string" where
  "conversationKey sid = ''_conversation:'' @ sid"

definition artifactKey :: "string \<Rightarrow> string \<Rightarrow> string" where
  "artifactKey sid name = ''_artifact:'' @ sid @ '':'' @ name"

definition artifactListKey :: "string \<Rightarrow> string" where
  "artifactListKey sid = ''_artifacts:'' @ sid"

definition stateKey :: "string \<Rightarrow> string" where
  "stateKey sid = ''_state:'' @ sid"

definition stateHistoryKey :: "string \<Rightarrow> string" where
  "stateHistoryKey sid = ''_state_history:'' @ sid"

definition scratchpadKey :: "string \<Rightarrow> string \<Rightarrow> string" where
  "scratchpadKey sid key = ''_scratchpad:'' @ sid @ '':'' @ key"

section \<open>Operations\<close>

definition comb_AppendConversation :: "'j conversation_message marshal \<Rightarrow> 'j conversation_message unmarshal \<Rightarrow>
    (nat \<Rightarrow> ctx_error option) \<Rightarrow> (nat \<Rightarrow> time) \<Rightarrow> string \<Rightarrow> 'j conversation_message \<Rightarrow> comb_store \<Rightarrow>
    comb_store \<times> structured_error option" where
  "comb_AppendConversation enc dec ctx now sid msg s =
    (let convKey = conversationKey sid;
         (s, r) = comb_Get (ctx 0) (now 0) sid convKey s;
         messages = (case r of
             Inl _ \<Rightarrow> []
           | Inr existingJSON \<Rightarrow> (let (ms, ok) = dec existingJSON in if ok then ms else []));
         msg = (if cm_ID msg = '''' then msg\<lparr>cm_ID := ''msg-'' @ int_str (now 1)\<rparr> else msg);
         msg = (if cm_Timestamp msg = zero_time then msg\<lparr>cm_Timestamp := now 2\<rparr> else msg)
     in case enc (messages @ [msg]) of
          None \<Rightarrow> (s, Some (MarshalFailed ''conversation''))
        | Some json \<Rightarrow>
           (let (s, e) = comb_Set (ctx 1) (ctx 2) (now 3) sid convKey json 0 s
            in (s, map_option StoreErr e)))"

definition comb_GetConversation :: "'j conversation_message unmarshal \<Rightarrow> ctx_error option \<Rightarrow> time \<Rightarrow>
    string \<Rightarrow> int \<Rightarrow> comb_store \<Rightarrow> comb_store \<times> (structured_error + 'j conversation_message list)" where
  "comb_GetConversation dec ctx now sid limit s =
    (let (s, r) = comb_Get ctx now sid (conversationKey sid) s
     in (s, case r of
              Inl _ \<Rightarrow> Inr []
            | Inr existingJSON \<Rightarrow>
               (let (ms, ok) = dec existingJSON
                in if \<not> ok then Inl (UnmarshalFailed ''conversation'')
                   else Inr (if limit > 0 \<and> int (length ms) > limit
                             then drop (length ms - nat limit) ms else ms))))"

text \<open>The loop of \<open>StoreArtifact\<close> that replaces the first entry of the artifact's name, with
  the flag \<open>found\<close>.\<close>

fun artifact_replace :: "string \<Rightarrow> artifact_metadata \<Rightarrow> artifact_metadata list \<Rightarrow>
    artifact_metadata list \<times> bool" where
  "artifact_replace name new [] = ([], False)"
| "artifact_replace name new (art # arts) =
    (if am_Name art = name then (new # arts, True)
     else (let (arts', found) = artifact_replace name new arts in (art # arts', found)))"

definition comb_StoreArtifact :: "artifact_metadata marshal \<Rightarrow> artifact_metadata unmarshal \<Rightarrow>
    (nat \<Rightarrow> ctx_error option) \<Rightarrow> (nat \<Rightarrow> time) \<Rightarrow> string \<Rightarrow> string \<Rightarrow> string \<Rightarrow> comb_store \<Rightarrow>
    comb_store \<times> structured_error option" where
  "comb_StoreArtifact enc dec ctx now sid name data s =
    (let (s, e) = comb_Set (ctx 0) (ctx 1) (now 0) sid (artifactKey sid name) data 0 s
     in case e of
          Some e \<Rightarrow> (s, Some (StoreErr e))
        | None \<Rightarrow>
           (let listKey = artifactListKey sid;
                (s, r) = comb_Get (ctx 2) (now 1) sid listKey s;
                existingJSON = (case r of Inl _ \<Rightarrow> '''' | Inr v \<Rightarrow> v);
                artifacts = (if existingJSON \<noteq> '''' then fst (dec existingJSON) else []);
                new = \<lparr>am_Name = name, am_Size = int (length data), am_Type = '''',
                       am_CreatedAt = now 2\<rparr>;
                (artifacts, found) = artifact_replace name new artifacts;
                artifacts = (if \<not> found then artifacts @ [new] else artifacts)
            in case enc artifacts of
                 None \<Rightarrow> (s, Some (MarshalFailed ''artifacts''))
               | Some json \<Rightarrow>
                  (let (s, e) = comb_Set (ctx 3) (ctx 4) (now 3) sid listKey json 0 s
                   in (s, map_option StoreErr e))))"

definition comb_GetArtifact :: "ctx_error option \<Rightarrow> time \<Rightarrow> string \<Rightarrow> string \<Rightarrow> comb_store \<Rightarrow>
    comb_store \<times> (comb_error + string)" where
  "comb_GetArtifact ctx now sid name s = comb_Get ctx now sid (artifactKey sid name) s"

definition comb_ListArtifacts :: "artifact_metadata unmarshal \<Rightarrow> ctx_error option \<Rightarrow> time \<Rightarrow> string \<Rightarrow>
    comb_store \<Rightarrow> comb_store \<times> (structured_error + artifact_metadata list)" where
  "comb_ListArtifacts dec ctx now sid s =
    (let (s, r) = comb_Get ctx now sid (artifactListKey sid) s
     in (s, case r of
              Inl _ \<Rightarrow> Inr []
            | Inr existingJSON \<Rightarrow>
               (let (arts, ok) = dec existingJSON
                in if \<not> ok then Inl (UnmarshalFailed ''artifacts'') else Inr arts)))"

definition comb_SetState :: "ctx_error option \<Rightarrow> ctx_error option \<Rightarrow> time \<Rightarrow> string \<Rightarrow> string \<Rightarrow>
    comb_store \<Rightarrow> comb_store \<times> comb_error option" where
  "comb_SetState ctx1 ctx2 now sid state s = comb_Set ctx1 ctx2 now sid (stateKey sid) state 0 s"

definition comb_GetState :: "ctx_error option \<Rightarrow> time \<Rightarrow> string \<Rightarrow> comb_store \<Rightarrow>
    comb_store \<times> (comb_error + string)" where
  "comb_GetState ctx now sid s = comb_Get ctx now sid (stateKey sid) s"

text \<open>\<open>TransitionState\<close> in two parts: the test of the current state, and the write of the new
  state with its entry in the history; nothing holds a lock between them.\<close>

definition transition_check :: "ctx_error option \<Rightarrow> time \<Rightarrow> string \<Rightarrow> string \<Rightarrow> comb_store \<Rightarrow>
    comb_store \<times> structured_error option" where
  "transition_check ctx now sid from_state s =
    (let (s, r) = comb_GetState ctx now sid s;
         currentState = (case r of Inl _ \<Rightarrow> '''' | Inr v \<Rightarrow> v)
     in case r of
          Inl e \<Rightarrow>
            (if comb_Error e \<noteq> ''key not found: '' @ stateKey sid then (s, Some (StoreErr e))
             else (s, None))
        | Inr _ \<Rightarrow>
            (if currentState \<noteq> '''' \<and> currentState \<noteq> from_state
             then (s, Some (InvalidTransition currentState from_state)) else (s, None)))"

definition transition_apply :: "state_transition marshal \<Rightarrow> state_transition unmarshal \<Rightarrow>
    (nat \<Rightarrow> ctx_error option) \<Rightarrow> (nat \<Rightarrow> time) \<Rightarrow> string \<Rightarrow> string \<Rightarrow> string \<Rightarrow> comb_store \<Rightarrow>
    comb_store \<times> structured_error option" where
  "transition_apply enc dec ctx now sid from_state to_state s =
    (let (s, e) = comb_SetState (ctx 1) (ctx 2) (now 1) sid to_state s
     in case e of
          Some e \<Rightarrow> (s, Some (StoreErr e))
        | None \<Rightarrow>
           (let historyKey = stateHistoryKey sid;
                (s, r) = comb_Get (ctx 3) (now 2) sid historyKey s;
                existingJSON = (case r of Inl _ \<Rightarrow> '''' | Inr v \<Rightarrow> v);
                history = (if existingJSON \<noteq> '''' then fst (dec existingJSON) else []);
                history = history @ [\<lparr>tr_From = from_state, tr_To = to_state,
                                      tr_Timestamp = now 3, tr_Reason = ''''\<rparr>]
            in case enc history of
                 None \<Rightarrow> (s, Some (MarshalFailed ''state history''))
               | Some json \<Rightarrow>
                  (let (s, e) = comb_Set (ctx 4) (ctx 5) (now 4) sid historyKey json 0 s
                   in (s, map_option StoreErr e))))"

definition comb_TransitionState :: "state_transition marshal \<Rightarrow> state_transition unmarshal \<Rightarrow>
    (nat \<Rightarrow> ctx_error option) \<Rightarrow> (nat \<Rightarrow> time) \<Rightarrow> string \<Rightarrow> string \<Rightarrow> string \<Rightarrow> comb_store \<Rightarrow>
    comb_store \<times> structured_error option" where
  "comb_TransitionState enc dec ctx now sid from_state to_state s =
    (let (s, e) = transition_check (ctx 0) (now 0) sid from_state s
     in case e of
          Some e \<Rightarrow> (s, Some e)
        | None \<Rightarrow> transition_apply enc dec ctx now sid from_state to_state s)"

definition comb_GetStateHistory :: "state_transition unmarshal \<Rightarrow> ctx_error option \<Rightarrow> time \<Rightarrow> string \<Rightarrow>
    comb_store \<Rightarrow> comb_store \<times> (structured_error + state_transition list)" where
  "comb_GetStateHistory dec ctx now sid s =
    (let (s, r) = comb_Get ctx now sid (stateHistoryKey sid) s
     in (s, case r of
              Inl _ \<Rightarrow> Inr []
            | Inr existingJSON \<Rightarrow>
               (let (h, ok) = dec existingJSON
                in if \<not> ok then Inl (UnmarshalFailed ''state history'') else Inr h)))"

definition comb_SetScratchpad :: "ctx_error option \<Rightarrow> ctx_error option \<Rightarrow> time \<Rightarrow> string \<Rightarrow> string \<Rightarrow> string \<Rightarrow>
    comb_store \<Rightarrow> comb_store \<times> comb_error option" where
  "comb_SetScratchpad ctx1 ctx2 now sid key value s =
    comb_Set ctx1 ctx2 now sid (scratchpadKey sid key) value 0 s"

definition comb_GetScratchpad :: "ctx_error option \<Rightarrow> time \<Rightarrow> string \<Rightarrow> string \<Rightarrow> comb_store \<Rightarrow>
    comb_store \<times> (comb_error + string)" where
  "comb_GetScratchpad ctx now sid key s = comb_Get ctx now sid (scratchpadKey sid key) s"

text \<open>The deletions of \<open>ClearScratchpad\<close>; an error of \<open>Delete\<close> is passed over.\<close>

fun scratch_delete_all :: "(nat \<Rightarrow> ctx_error option) \<Rightarrow> string \<Rightarrow> string \<Rightarrow> string list \<Rightarrow> comb_store \<Rightarrow> comb_store" where
  "scratch_delete_all ctxs sid prefix [] s = s"
| "scratch_delete_all ctxs sid prefix (key # keys) s =
    (if length key > length prefix \<and> take (length prefix) key = prefix
     then scratch_delete_all (\<lambda>i. ctxs (i + 2)) sid prefix keys
            (fst (comb_Delete (ctxs 0) (ctxs 1) sid key s))
     else scratch_delete_all ctxs sid prefix keys s)"

definition comb_ClearScratchpad :: "ctx_error option \<Rightarrow> (nat \<Rightarrow> ctx_error option) \<Rightarrow>
    (nat \<Rightarrow> ctx_error option) \<Rightarrow> time \<Rightarrow> string \<Rightarrow> comb_store \<Rightarrow> comb_store \<times> comb_error option" where
  "comb_ClearScratchpad ctx ctxs_keys ctxs_del now sid s =
    (case comb_Keys ctx ctxs_keys now sid ''*'' s of
       Inl e \<Rightarrow> (s, Some e)
     | Inr allKeys \<Rightarrow>
        (scratch_delete_all ctxs_del sid (''_scratchpad:'' @ sid @ '':'') allKeys s, None))"

section \<open>Properties\<close>

text \<open>The documented behaviour of \<open>encoding/json\<close> the accessors rely on: what was marshalled
  is read back.\<close>

definition json_round_trip :: "'a marshal \<Rightarrow> 'a unmarshal \<Rightarrow> bool" where
  "json_round_trip enc dec \<longleftrightarrow> (\<forall>xs j. enc xs = Some j \<longrightarrow> j \<noteq> '''' \<and> dec j = (xs, True))"

lemma json_round_tripD: "json_round_trip enc dec \<Longrightarrow> enc xs = Some j \<Longrightarrow> j \<noteq> '''' \<and> dec j = (xs, True)"
  by (simp add: json_round_trip_def)

definition stored_list :: "'a unmarshal \<Rightarrow> string option \<Rightarrow> 'a list" where
  "stored_list dec v = (case v of None \<Rightarrow> [] | Some j \<Rightarrow> if j \<noteq> '''' then fst (dec j) else [])"

text \<open>What \<open>Get\<close> hands to a client that treats every error as the empty string.\<close>

lemma get_or_empty:
  "(case snd (comb_Get None now sid key s) of Inl _ \<Rightarrow> '''' | Inr v \<Rightarrow> v) =
    (case comb_live now s sid key of None \<Rightarrow> '''' | Some v \<Rightarrow> v)"
proof (cases "comb_live now s sid key")
  case None
  then obtain e where "snd (comb_Get None now sid key s) = Inl e"
    using comb.get_live by (cases "snd (comb_Get None now sid key s)") auto
  then show ?thesis using None by simp
next
  case (Some v)
  then have "snd (comb_Get None now sid key s) = Inr v" by (simp add: comb.get_live)
  then show ?thesis using Some by simp
qed

lemma get_list:
  "(if (case snd (comb_Get None now sid key s) of Inl _ \<Rightarrow> '''' | Inr v \<Rightarrow> v) \<noteq> ''''
    then fst (dec (case snd (comb_Get None now sid key s) of Inl _ \<Rightarrow> '''' | Inr v \<Rightarrow> v)) else []) =
   stored_list dec (comb_live now s sid key)"
  by (simp add: get_or_empty stored_list_def split: option.splits)

text \<open>Read a list at a key, append to it and write it back: the body shared by the
  accessors of lists.\<close>

lemma read_modify_write:
  assumes "comb_Set None None t sid key v 0 (fst (comb_Get None now sid key s)) = (s', None)"
    and "now \<le> u"
  shows "comb_live u s' = (comb_live u s)(sid := (comb_live u s sid)(key \<mapsto> v))"
  using comb.live_set [OF assms(1)] comb.live_get [OF assms(2)] by simp

lemma keys_differ: "stateKey sid \<noteq> stateHistoryKey sid"
  by (simp add: stateKey_def stateHistoryKey_def)

lemma transition_apply_effect:
  assumes "json_round_trip enc dec"
    and "transition_apply enc dec (\<lambda>_. None) now sid from_state to_state s = (s', None)"
    and "now 2 \<le> u"
  shows "\<exists>j. comb_live u s' = (comb_live u s)(sid := (comb_live u s sid)
      (stateKey sid \<mapsto> to_state, stateHistoryKey sid \<mapsto> j)) \<and>
    dec j = (stored_list dec (comb_live (now 2) s sid (stateHistoryKey sid)) @
      [\<lparr>tr_From = from_state, tr_To = to_state, tr_Timestamp = now 3, tr_Reason = ''''\<rparr>], True)"
proof -
  obtain s1 where s1: "comb_SetState None None (now 1) sid to_state s = (s1, None)"
    using assms(2) by (auto simp: transition_apply_def split: prod.splits option.splits)
  define h where "h = stored_list dec (comb_live (now 2) s1 sid (stateHistoryKey sid)) @
      [\<lparr>tr_From = from_state, tr_To = to_state, tr_Timestamp = now 3, tr_Reason = ''''\<rparr>]"
  have live1: "comb_live v s1 = (comb_live v s)(sid := (comb_live v s sid)(stateKey sid \<mapsto> to_state))" for v
    using comb.live_set [OF s1 [unfolded comb_SetState_def]] .
  obtain j where j: "enc h = Some j"
    and set: "comb_Set None None (now 4) sid (stateHistoryKey sid) j 0
      (fst (comb_Get None (now 2) sid (stateHistoryKey sid) s1)) = (s', None)"
    using assms(2) s1
    by (auto simp: transition_apply_def Let_def split_beta get_list h_def split: option.splits)
       (metis prod.collapse)
  have "dec j = (h, True)" using json_round_tripD [OF assms(1) j] by simp
  moreover have "h = stored_list dec (comb_live (now 2) s sid (stateHistoryKey sid)) @
      [\<lparr>tr_From = from_state, tr_To = to_state, tr_Timestamp = now 3, tr_Reason = ''''\<rparr>]"
    using keys_differ [of sid] by (simp add: h_def live1)
  moreover have "comb_live u s' = (comb_live u s)(sid := (comb_live u s sid)
      (stateKey sid \<mapsto> to_state, stateHistoryKey sid \<mapsto> j))"
    using read_modify_write [OF set assms(3)] by (simp add: live1)
  ultimately show ?thesis by blast
qed

lemma transition_check_passes:
  assumes "transition_check None now sid from_state s = (s', None)"
  shows "s' = fst (comb_Get None now sid (stateKey sid) s) \<and>
    (case comb_live now s sid (stateKey sid) of None \<Rightarrow> True | Some c \<Rightarrow> c = '''' \<or> c = from_state)"
proof (cases "snd (comb_Get None now sid (stateKey sid) s)")
  case (Inl e)
  then have "comb_live now s sid (stateKey sid) = None"
    using comb.get_live [of now sid "stateKey sid" s] by (cases "comb_live now s sid (stateKey sid)") auto
  then show ?thesis using assms Inl
    by (auto simp: transition_check_def comb_GetState_def split_beta Let_def split: if_splits)
next
  case (Inr v)
  then have "comb_live now s sid (stateKey sid) = Some v" using comb.get_live by blast
  then show ?thesis using assms Inr
    by (auto simp: transition_check_def comb_GetState_def split_beta Let_def split: if_splits)
qed

text \<open>A transition that reports success is a step of the state machine: the state before
  was the expected one (or none was recorded), the state is the new one from then on, and the
  history is the old history with this transition appended, in order; no other key of any
  session changes.\<close>

lemma transition_state_correct:
  assumes "json_round_trip enc dec"
    and "comb_TransitionState enc dec (\<lambda>_. None) now sid from_state to_state s = (s', None)"
    and "now 0 \<le> now 2" and "now 2 \<le> u"
  shows "comb_live (now 0) s sid (stateKey sid) \<in> {None, Some '''', Some from_state} \<and>
    (\<exists>j. comb_live u s' = (comb_live u s)(sid := (comb_live u s sid)
           (stateKey sid \<mapsto> to_state, stateHistoryKey sid \<mapsto> j)) \<and>
      dec j = (stored_list dec (comb_live (now 2) s sid (stateHistoryKey sid)) @
        [\<lparr>tr_From = from_state, tr_To = to_state, tr_Timestamp = now 3, tr_Reason = ''''\<rparr>], True))"
proof -
  obtain s1 where check: "transition_check None (now 0) sid from_state s = (s1, None)"
    and apply_: "transition_apply enc dec (\<lambda>_. None) now sid from_state to_state s1 = (s', None)"
    using assms(2) by (auto simp: comb_TransitionState_def split: prod.splits option.splits)
  have s1: "s1 = fst (comb_Get None (now 0) sid (stateKey sid) s)"
    and state: "comb_live (now 0) s sid (stateKey sid) \<in> {None, Some '''', Some from_state}"
    using transition_check_passes [OF check] by (auto split: option.splits)
  show ?thesis
    using state transition_apply_effect [OF assms(1) apply_ assms(4)] assms(3,4)
    by (simp add: s1 comb.live_get)
qed

text \<open>The first transition of a session without data always fails.  The code lets a
  missing key pass (it compares the message of \<open>Get\<close> with \<open>key not found: ...\<close>), but for a
  session that has stored nothing yet \<open>Get\<close> reports \<open>session not found\<close> instead, so the
  state machine can only be started by another write to the session.\<close>

lemma first_transition_needs_session:
  assumes "map_of (cs_data s) sid = None"
  shows "comb_TransitionState enc dec (\<lambda>_. None) now sid from_state to_state s =
    (s, Some (StoreErr (SessionNotFound sid)))"
  using assms
  by (simp add: comb_TransitionState_def transition_check_def comb_GetState_def comb_Get_def comb_read_def)

lemma comb_Keys_loop_free:
  "comb_Keys_loop now ''*'' (\<lambda>_. None) acc sd =
    Inr (acc @ map fst (filter (\<lambda>(k, e). \<not> entry_expired now e) sd))"
  by (induction sd arbitrary: acc) (auto simp: matchesPattern_def)

lemma scratch_delete_all_live:
  "comb_live t (scratch_delete_all (\<lambda>_. None) sid prefix keys s) sid' key =
    (if sid' = sid \<and> key \<in> set keys \<and> length key > length prefix \<and> take (length prefix) key = prefix
     then None else comb_live t s sid' key)"
  by (induction keys arbitrary: s) (auto simp: fst_comb_Delete comb_live_drop)

lemma comb_Keys_all:
  "comb_inv s \<Longrightarrow> \<exists>keys. comb_Keys None (\<lambda>_. None) now sid ''*'' s = Inr keys \<and>
    set keys = {key. comb_live now s sid key \<noteq> None}"
proof (cases "map_of (cs_data s) sid")
  case None
  then show ?thesis by (simp add: comb_Keys_def comb_live_def comb_entry_at_None_no_session)
next
  case (Some sd)
  assume "comb_inv s"
  then have "distinct (map fst sd)" using comb_inv_entries [of s sid] Some by (simp add: session_entries_def)
  then have "fst ` set (filter (\<lambda>(k, e). \<not> entry_expired now e) sd) = {key. comb_live now s sid key \<noteq> None}"
    unfolding dom_map_of_conv_image_fst [symmetric] dom_def using Some
    by (simp add: map_of_filter comb_live_def comb_entry_at_def session_entries_def split: option.splits)
  then show ?thesis using Some by (simp add: comb_Keys_def comb_Keys_loop_free)
qed

text \<open>\<open>ClearScratchpad\<close> removes every scratchpad value of the session except the one
  stored under the empty key (the test is \<open>len(key) > len(prefix)\<close>), and removes nothing else:
  conversation, artifacts, state and other sessions keep their values.\<close>

lemma clear_scratchpad_exact:
  assumes "s = fold comb_exec ops NewStore" and "now \<le> t"
    and "s' = fst (comb_ClearScratchpad None (\<lambda>_. None) (\<lambda>_. None) now sid s)"
  shows "(key \<noteq> '''' \<longrightarrow> comb_live t s' sid (scratchpadKey sid key) = None) \<and>
    comb_live t s' sid (scratchpadKey sid '''') = comb_live t s sid (scratchpadKey sid '''') \<and>
    ((\<forall>key. k \<noteq> scratchpadKey sid key) \<longrightarrow> comb_live t s' sid k = comb_live t s sid k) \<and>
    (sid' \<noteq> sid \<longrightarrow> comb_live t s' sid' k = comb_live t s sid' k)"
proof -
  let ?p = "''_scratchpad:'' @ sid @ '':''"
  have "comb_inv s" using assms(1) comb_run_inv comb_new by simp
  then obtain keys where keys: "comb_Keys None (\<lambda>_. None) now sid ''*'' s = Inr keys"
      "set keys = {key. comb_live now s sid key \<noteq> None}" using comb_Keys_all by blast
  have s': "comb_live t s' x y = (if x = sid \<and> comb_live now s sid y \<noteq> None \<and> length y > length ?p \<and>
      take (length ?p) y = ?p then None else comb_live t s x y)" for x y
    using assms(3) keys by (simp add: comb_ClearScratchpad_def scratch_delete_all_live del: length_append)
  have gone: "comb_live now s x y = None \<Longrightarrow> comb_live t s x y = None" for x y
    using assms(2) by (auto simp: comb_live_def entry_expired_def split: option.splits if_splits)
  have pre: "scratchpadKey sid y = ?p @ y" for y by (simp add: scratchpadKey_def)
  have other: "take (length ?p) k = ?p \<Longrightarrow> \<exists>y. k = scratchpadKey sid y" for k
    unfolding pre by (metis append_take_drop_id)
  show ?thesis using gone other by (auto simp: s' pre)
qed

text \<open>The conversation: a successful append is seen by the next reader, who gets the last
  \<open>limit\<close> messages.\<close>

lemma append_then_get_conversation:
  assumes "json_round_trip enc dec"
    and "comb_AppendConversation enc dec (\<lambda>_. None) now sid msg s = (s', None)"
    and "cm_ID msg \<noteq> ''''" and "cm_Timestamp msg \<noteq> zero_time"
    and old: "snd (comb_GetConversation dec None (now 0) sid 0 s) = Inr ms"
  shows "snd (comb_GetConversation dec None t sid limit s') =
    Inr (if limit > 0 then drop (length ms + 1 - nat limit) (ms @ [msg]) else ms @ [msg])"
proof -
  let ?old = "case snd (comb_Get None (now 0) sid (conversationKey sid) s) of Inl _ \<Rightarrow> []
      | Inr j \<Rightarrow> (let (ms, ok) = dec j in if ok then ms else [])"
  have ms: "?old = ms"
    using old by (auto simp: comb_GetConversation_def split_beta Let_def split: sum.splits if_splits)
  obtain j where j: "enc (ms @ [msg]) = Some j"
    and set: "comb_Set None None (now 3) sid (conversationKey sid) j 0
      (fst (comb_Get None (now 0) sid (conversationKey sid) s)) = (s', None)"
    using assms(2-4) unfolding comb_AppendConversation_def Let_def split_beta ms [unfolded Let_def split_beta]
    by (auto split: option.splits) (metis prod.collapse)
  have "snd (comb_Get None t sid (conversationKey sid) s') = Inr j"
    using comb.get_after_set [OF set] .
  then show ?thesis using json_round_tripD [OF assms(1) j]
    by (auto simp: comb_GetConversation_def split_beta Let_def)
qed

end
