(* ===== verification/Circuit_Breaker.thy ===== *)
theory Circuit_Breaker
  imports Prelude
begin

text \<open>
  Package \<open>internal/circuitbreaker\<close>: the per-drone breaker (\<open>circuitbreaker.go\<close>) and the
  manager that keeps one breaker for each drone (\<open>manager.go\<close>).  Every method holds the
  breaker's mutex from start to end, so each is an atomic function of the breaker; the two
  steps of a manager method (look the breaker up, then use it) act on one drone's entry.
\<close>

section \<open>The breaker\<close>

datatype cb_state = StateClosed | StateOpen | StateHalfOpen

text \<open>The Go type is an \<open>int\<close> numbered by \<open>iota\<close>; the order of the states is that of the numbers.\<close>

fun cb_ord :: "cb_state \<Rightarrow> nat" where
  "cb_ord StateClosed = 0"
| "cb_ord StateOpen = 1"
| "cb_ord StateHalfOpen = 2"

lemma cb_ord_inject: "cb_ord a = cb_ord b \<longleftrightarrow> a = b"
  by (cases a; cases b) simp_all

instantiation cb_state :: linorder
begin

definition less_eq_cb_state :: "cb_state \<Rightarrow> cb_state \<Rightarrow> bool" where
  "less_eq_cb_state a b \<longleftrightarrow> cb_ord a \<le> cb_ord b"

definition less_cb_state :: "cb_state \<Rightarrow> cb_state \<Rightarrow> bool" where
  "less_cb_state a b \<longleftrightarrow> cb_ord a < cb_ord b"

instance
  by standard (auto simp: less_eq_cb_state_def less_cb_state_def cb_ord_inject)

end

fun cb_String :: "cb_state \<Rightarrow> string" where
  "cb_String StateClosed = ''closed''"
| "cb_String StateOpen = ''open''"
| "cb_String StateHalfOpen = ''half-open''"

record circuit_breaker =
  cb_droneID :: string
  cb_failureThreshold :: int
  cb_resetTimeout :: duration
  cb_maxFailures :: int
  cb_state :: cb_state
  cb_failureCount :: int
  cb_lastFailure :: time
  cb_halfOpenStart :: time
  cb_halfOpenRequestID :: string

record cb_config =
  FailureThreshold :: int
  ResetTimeout :: duration
  MaxFailures :: int

definition NewCircuitBreaker :: "string \<Rightarrow> cb_config \<Rightarrow> circuit_breaker" where
  "NewCircuitBreaker droneID cfg =
    (let threshold = (if FailureThreshold cfg \<le> 0 then 5 else FailureThreshold cfg);
         resetTimeout = (if ResetTimeout cfg \<le> 0 then 30 * second else ResetTimeout cfg);
         maxFailures = (if MaxFailures cfg \<le> 0 then 10 else MaxFailures cfg)
     in \<lparr>cb_droneID = droneID, cb_failureThreshold = threshold, cb_resetTimeout = resetTimeout,
         cb_maxFailures = maxFailures, cb_state = StateClosed, cb_failureCount = 0,
         cb_lastFailure = zero_time, cb_halfOpenStart = zero_time, cb_halfOpenRequestID = ''''\<rparr>)"

definition cb_RecordFailure :: "time \<Rightarrow> circuit_breaker \<Rightarrow> circuit_breaker" where
  "cb_RecordFailure now cb =
    (let cb = cb\<lparr>cb_failureCount := wrap64 (cb_failureCount cb + 1)\<rparr>;
         cb = (if cb_failureCount cb > cb_maxFailures cb
               then cb\<lparr>cb_failureCount := cb_maxFailures cb\<rparr> else cb);
         cb = cb\<lparr>cb_lastFailure := now\<rparr>
     in if cb_state cb = StateClosed \<and> cb_failureCount cb \<ge> cb_failureThreshold cb
        then cb\<lparr>cb_state := StateOpen\<rparr>
        else if cb_state cb = StateHalfOpen
        then cb\<lparr>cb_state := StateOpen, cb_halfOpenRequestID := ''''\<rparr>
        else cb)"

definition cb_RecordSuccess :: "circuit_breaker \<Rightarrow> circuit_breaker" where
  "cb_RecordSuccess cb =
    (if cb_state cb = StateHalfOpen
     then cb\<lparr>cb_state := StateClosed, cb_failureCount := 0, cb_halfOpenRequestID := ''''\<rparr>
     else if cb_state cb = StateClosed then cb\<lparr>cb_failureCount := 0\<rparr>
     else cb)"

definition cb_AllowRequest :: "time \<Rightarrow> string \<Rightarrow> circuit_breaker \<Rightarrow> circuit_breaker \<times> bool \<times> string" where
  "cb_AllowRequest now requestID cb =
    (case cb_state cb of
       StateClosed \<Rightarrow> (cb, True, '''')
     | StateOpen \<Rightarrow>
        (if now - cb_lastFailure cb \<ge> cb_resetTimeout cb
         then (cb\<lparr>cb_state := StateHalfOpen, cb_halfOpenStart := now,
                  cb_halfOpenRequestID := requestID\<rparr>, True, requestID)
         else (cb, False, ''''))
     | StateHalfOpen \<Rightarrow>
        (if cb_halfOpenRequestID cb = ''''
         then (cb\<lparr>cb_halfOpenRequestID := requestID\<rparr>, True, requestID)
         else if cb_halfOpenRequestID cb = requestID then (cb, True, requestID)
         else (cb, False, '''')))"

definition cb_IsOpen :: "circuit_breaker \<Rightarrow> bool" where
  "cb_IsOpen cb \<longleftrightarrow> cb_state cb = StateOpen"

definition cb_IsClosed :: "circuit_breaker \<Rightarrow> bool" where
  "cb_IsClosed cb \<longleftrightarrow> cb_state cb = StateClosed"

definition cb_IsHalfOpen :: "circuit_breaker \<Rightarrow> bool" where
  "cb_IsHalfOpen cb \<longleftrightarrow> cb_state cb = StateHalfOpen"

section \<open>Runs of a breaker\<close>

datatype cb_event = EvFailure time | EvSuccess | EvRequest time string

fun cb_exec :: "cb_event \<Rightarrow> circuit_breaker \<Rightarrow> circuit_breaker" where
  "cb_exec (EvFailure now) cb = cb_RecordFailure now cb"
| "cb_exec EvSuccess cb = cb_RecordSuccess cb"
| "cb_exec (EvRequest now rid) cb = fst (cb_AllowRequest now rid cb)"

text \<open>The states reachable from a new breaker.\<close>

inductive cb_reachable :: "string \<Rightarrow> cb_config \<Rightarrow> circuit_breaker \<Rightarrow> bool"
  for d :: string and cfg :: cb_config where
  cb_start: "cb_reachable d cfg (NewCircuitBreaker d cfg)"
| cb_next: "cb_reachable d cfg cb \<Longrightarrow> cb_reachable d cfg (cb_exec e cb)"

text \<open>The documented machine: which state may follow which.\<close>

inductive cb_trans :: "cb_state \<Rightarrow> cb_state \<Rightarrow> bool" where
  cb_stay: "cb_trans s s"
| cb_trip: "cb_trans StateClosed StateOpen"
| cb_probe: "cb_trans StateOpen StateHalfOpen"
| cb_recover: "cb_trans StateHalfOpen StateClosed"
| cb_reopen: "cb_trans StateHalfOpen StateOpen"

inductive_simps cb_trans_simps [simp]:
  "cb_trans StateClosed s" "cb_trans StateOpen s" "cb_trans StateHalfOpen s"

definition cb_inv :: "circuit_breaker \<Rightarrow> bool" where
  "cb_inv cb \<longleftrightarrow> 0 < cb_failureThreshold cb \<and> 0 < cb_resetTimeout cb \<and>
     0 < cb_maxFailures cb \<and> 0 \<le> cb_failureCount cb \<and> cb_failureCount cb \<le> cb_maxFailures cb \<and>
     (cb_state cb = StateClosed \<longrightarrow> cb_failureCount cb < cb_failureThreshold cb) \<and>
     (cb_state cb \<noteq> StateHalfOpen \<longrightarrow> cb_halfOpenRequestID cb = '''') \<and>
     cb_maxFailures cb \<le> 9223372036854775806"

lemma NewCircuitBreaker_inv [inv_intros]:
  "MaxFailures cfg \<le> 9223372036854775806 \<Longrightarrow> cb_inv (NewCircuitBreaker d cfg)"
  by (simp add: cb_inv_def NewCircuitBreaker_def Let_def)

lemma cb_count_exact: "cb_inv cb \<Longrightarrow> wrap64 (cb_failureCount cb + 1) = cb_failureCount cb + 1"
  by (simp add: cb_inv_def in64_def)

lemma cb_RecordFailure_inv [inv_intros]: "cb_inv cb \<Longrightarrow> cb_inv (cb_RecordFailure now cb)"
  by (auto simp: cb_count_exact cb_RecordFailure_def Let_def) (auto simp: cb_inv_def)

lemma cb_RecordSuccess_inv [inv_intros]: "cb_inv cb \<Longrightarrow> cb_inv (cb_RecordSuccess cb)"
  by (auto simp: cb_inv_def cb_RecordSuccess_def)

lemma cb_AllowRequest_inv [inv_intros]: "cb_inv cb \<Longrightarrow> cb_inv (fst (cb_AllowRequest now r cb))"
  by (auto simp: cb_inv_def cb_AllowRequest_def split: cb_state.splits)

lemma cb_exec_inv: "cb_inv cb \<Longrightarrow> cb_inv (cb_exec e cb)"
  by (cases e) (simp_all add: inv_intros)

lemma cb_exec_params [simp]:
  "cb_failureThreshold (cb_exec e cb) = cb_failureThreshold cb"
  "cb_maxFailures (cb_exec e cb) = cb_maxFailures cb"
  "cb_resetTimeout (cb_exec e cb) = cb_resetTimeout cb"
  "cb_droneID (cb_exec e cb) = cb_droneID cb"
  by (cases e; simp add: cb_RecordFailure_def cb_RecordSuccess_def cb_AllowRequest_def Let_def
      split: cb_state.split)+

lemma cb_exec_trans: "cb_trans (cb_state cb) (cb_state (cb_exec e cb))"
  by (cases e; cases "cb_state cb")
    (auto simp: cb_RecordFailure_def cb_RecordSuccess_def cb_AllowRequest_def Let_def)

lemma cb_reachable_params:
  "cb_reachable d cfg cb \<Longrightarrow>
    cb_failureThreshold cb = cb_failureThreshold (NewCircuitBreaker d cfg) \<and>
    cb_maxFailures cb = cb_maxFailures (NewCircuitBreaker d cfg)"
  by (induction rule: cb_reachable.induct) auto

text \<open>C15: Invariant of every reachable breaker: the failure count stays between zero and the
  cap, a closed breaker is below its threshold, a probe request is tracked only while half-open,
  and each operation moves the state only along an edge of the documented machine.\<close>

theorem cb_reachable_inv:
  assumes "cb_reachable d cfg cb" and "MaxFailures cfg \<le> 9223372036854775806"
  shows "cb_inv cb \<and> cb_trans (cb_state cb) (cb_state (cb_exec e cb))"
proof -
  have "cb_inv cb" using assms
    by (induction rule: cb_reachable.induct) (simp_all add: NewCircuitBreaker_inv cb_exec_inv)
  then show ?thesis by (simp add: cb_exec_trans)
qed

lemma cb_reachable_inv_witness:
  "cb_inv (cb_exec (EvFailure 7) (NewCircuitBreaker ''d1'' \<lparr>FailureThreshold = 1, ResetTimeout = 0, MaxFailures = 0\<rparr>))"
  by (rule cb_reachable_inv [THEN conjunct1, OF cb_next [OF cb_start]]) simp

text \<open>One failure, and then \<open>n\<close> consecutive failures from a new breaker.\<close>

lemma cb_RecordFailure_count:
  "cb_inv cb \<Longrightarrow> cb_failureCount (cb_RecordFailure now cb) =
    min (cb_failureCount cb + 1) (cb_maxFailures cb)"
  by (simp add: cb_RecordFailure_def cb_count_exact Let_def min_def)

lemma cb_RecordFailure_state:
  "cb_inv cb \<Longrightarrow> cb_state (cb_RecordFailure now cb) =
    (if cb_state cb = StateClosed \<and> min (cb_failureCount cb + 1) (cb_maxFailures cb) < cb_failureThreshold cb
     then StateClosed else StateOpen)"
  by (cases "cb_state cb") (auto simp: cb_RecordFailure_def cb_count_exact Let_def min_def)

definition cb_after_failures :: "nat \<Rightarrow> circuit_breaker \<Rightarrow> bool" where
  "cb_after_failures n cb \<longleftrightarrow> cb_inv cb \<and> cb_failureCount cb = min (int n) (cb_maxFailures cb) \<and>
    cb_state cb = (if cb_failureThreshold cb \<le> cb_failureCount cb then StateOpen else StateClosed)"

lemma cb_after_failures_step:
  assumes "cb_after_failures n cb"
  shows "cb_after_failures (Suc n) (cb_RecordFailure now cb)"
proof -
  have i: "cb_inv cb" and c: "cb_failureCount cb = min (int n) (cb_maxFailures cb)"
    and s: "cb_state cb = (if cb_failureThreshold cb \<le> cb_failureCount cb then StateOpen else StateClosed)"
    using assms by (simp_all add: cb_after_failures_def)
  have p: "cb_maxFailures (cb_RecordFailure now cb) = cb_maxFailures cb"
    "cb_failureThreshold (cb_RecordFailure now cb) = cb_failureThreshold cb"
    using cb_exec_params [of "EvFailure now" cb] by simp_all
  have c': "min (cb_failureCount cb + 1) (cb_maxFailures cb) = min (int (Suc n)) (cb_maxFailures cb)"
    unfolding c by linarith
  show ?thesis
    using cb_RecordFailure_inv [OF i] s c
    by (simp add: cb_after_failures_def cb_RecordFailure_count [OF i] cb_RecordFailure_state [OF i] p c')
      linarith
qed

lemma cb_after_failures_run:
  "cb_after_failures n cb \<Longrightarrow> cb_after_failures (n + length ts) (fold cb_RecordFailure ts cb) \<and>
    cb_failureThreshold (fold cb_RecordFailure ts cb) = cb_failureThreshold cb \<and>
    cb_maxFailures (fold cb_RecordFailure ts cb) = cb_maxFailures cb"
proof (induction ts arbitrary: n cb)
  case (Cons t ts)
  from Cons.IH [OF cb_after_failures_step [OF Cons.prems, of t]] show ?case
    using cb_exec_params [of "EvFailure t" cb] by simp
qed simp

lemma cb_after_failures_new:
  assumes "MaxFailures cfg \<le> 9223372036854775806"
  shows "cb_after_failures 0 (NewCircuitBreaker d cfg)"
  using NewCircuitBreaker_inv [OF assms, of d]
  by (auto simp: cb_after_failures_def cb_inv_def NewCircuitBreaker_def Let_def)

text \<open>A breaker whose cap is at least its threshold opens exactly when the threshold number
  of consecutive failures has been recorded.\<close>

lemma cb_opens_at_threshold:
  assumes "cb = NewCircuitBreaker d cfg" and "cb_failureThreshold cb \<le> cb_maxFailures cb"
    and "MaxFailures cfg \<le> 9223372036854775806"
  shows "cb_IsOpen (fold cb_RecordFailure ts cb) \<longleftrightarrow> cb_failureThreshold cb \<le> int (length ts)"
proof -
  note r = cb_after_failures_run [OF cb_after_failures_new [OF assms(3)], of ts d]
  then have "cb_state (fold cb_RecordFailure ts cb) =
      (if cb_failureThreshold cb \<le> min (int (length ts)) (cb_maxFailures cb) then StateOpen else StateClosed)"
    using assms(1) by (simp add: cb_after_failures_def)
  then show ?thesis using assms(2) by (simp add: cb_IsOpen_def)
qed

text \<open>A breaker whose threshold exceeds the cap on its failure counter (for instance a
  threshold of 20 with the default cap of 10) never opens, whatever is recorded.\<close>

lemma cb_never_opens_above_cap:
  assumes "cb_reachable d cfg cb" and "MaxFailures cfg \<le> 9223372036854775806"
    and "cb_maxFailures (NewCircuitBreaker d cfg) < cb_failureThreshold (NewCircuitBreaker d cfg)"
  shows "cb_IsClosed cb"
  using assms(1)
proof (induction rule: cb_reachable.induct)
  case cb_start
  show ?case by (simp add: cb_IsClosed_def NewCircuitBreaker_def Let_def)
next
  case (cb_next cb e)
  have "cb_inv cb" using cb_next.hyps assms(2)
    by (induction rule: cb_reachable.induct) (simp_all add: NewCircuitBreaker_inv cb_exec_inv)
  moreover have "cb_maxFailures cb < cb_failureThreshold cb"
    using cb_reachable_params [OF cb_next.hyps] assms(3) by simp
  ultimately show ?case
    using cb_next.IH
    by (cases e) (auto simp: cb_IsClosed_def cb_RecordFailure_def cb_RecordSuccess_def
        cb_AllowRequest_def cb_count_exact Let_def)
qed

text \<open>A sequence of requests, with the identifiers of those that are let through.\<close>

fun cb_requests :: "(time \<times> string) list \<Rightarrow> circuit_breaker \<Rightarrow> circuit_breaker \<times> string list" where
  "cb_requests [] cb = (cb, [])"
| "cb_requests ((now, rid) # rs) cb =
    (let (cb', ok, _) = cb_AllowRequest now rid cb; (cb'', ids) = cb_requests rs cb'
     in (cb'', if ok then rid # ids else ids))"

lemma cb_requests_Cons:
  assumes "cb_AllowRequest now rid cb = (cb', ok, tr)"
  shows "snd (cb_requests ((now, rid) # rs) cb) =
    (if ok then [rid] else []) @ snd (cb_requests rs cb')"
  using assms by (cases "cb_requests rs cb'") simp

lemma cb_requests_tracked:
  assumes "cb_state cb = StateHalfOpen" "cb_halfOpenRequestID cb = r" "r \<noteq> ''''"
  shows "set (snd (cb_requests rs cb)) \<subseteq> {r}"
proof (induction rs)
  case (Cons q rs)
  obtain now rid where q: "q = (now, rid)" by (cases q)
  have "cb_AllowRequest now rid cb = (cb, rid = r, if rid = r then r else '''')"
    using assms by (auto simp: cb_AllowRequest_def)
  from cb_requests_Cons [OF this] Cons.IH q show ?case by auto
qed simp

text \<open>While a breaker is open or half-open, the requests it lets through all carry one and
  the same identifier, provided identifiers are not empty: a single probe tests the drone.\<close>

lemma cb_single_probe:
  assumes "\<not> cb_IsClosed cb" and "\<forall>(now, rid) \<in> set rs. rid \<noteq> ''''"
  shows "\<exists>r. set (snd (cb_requests rs cb)) \<subseteq> {r}"
  using assms
proof (induction rs arbitrary: cb)
  case Nil
  then show ?case by simp
next
  case (Cons q rs)
  obtain now rid where q: "q = (now, rid)" by (cases q)
  obtain cb' ok tr where al: "cb_AllowRequest now rid cb = (cb', ok, tr)"
    by (cases "cb_AllowRequest now rid cb")
  have rid: "rid \<noteq> ''''" using Cons.prems q by auto
  show ?case
  proof (cases ok)
    case True
    then have "cb_state cb' = StateHalfOpen" "cb_halfOpenRequestID cb' = rid"
      using al Cons.prems(1)
      by (auto simp: cb_AllowRequest_def cb_IsClosed_def split: cb_state.splits if_splits)
    then have "set (snd (cb_requests rs cb')) \<subseteq> {rid}" using rid by (simp add: cb_requests_tracked)
    then show ?thesis unfolding q cb_requests_Cons [OF al] by auto
  next
    case False
    then have "\<not> cb_IsClosed cb'"
      using al Cons.prems(1)
      by (auto simp: cb_AllowRequest_def cb_IsClosed_def split: cb_state.splits if_splits)
    then show ?thesis unfolding q cb_requests_Cons [OF al]
      using Cons.IH [of cb'] Cons.prems(2) False by auto
  qed
qed

lemma cb_requests_empty_id:
  assumes "cb_state cb = StateHalfOpen" "cb_halfOpenRequestID cb = ''''" "\<forall>q \<in> set rs. snd q = ''''"
  shows "length (snd (cb_requests rs cb)) = length rs"
  using assms(3)
proof (induction rs)
  case (Cons q rs)
  obtain now where q: "q = (now, '''')" using Cons.prems by (cases q) auto
  have "cb_AllowRequest now '''' cb = (cb, True, '''')"
    using assms by (simp add: cb_AllowRequest_def)
  from cb_requests_Cons [OF this] Cons q show ?case by simp
qed simp

text \<open>The single-probe limit does not hold for requests without an identifier: once the
  timeout of an open breaker has passed, every request with an empty identifier is let through,
  because the empty string also stands for "no request tracked".\<close>

theorem cb_empty_id_floods_half_open:
  assumes "cb_IsOpen cb" and "cb_resetTimeout cb \<le> now - cb_lastFailure cb"
    and "\<forall>q \<in> set rs. snd q = ''''"
  shows "length (snd (cb_requests ((now, '''') # rs) cb)) = Suc (length rs)"
proof -
  let ?cb = "fst (cb_AllowRequest now '''' cb)"
  have al: "cb_AllowRequest now '''' cb = (?cb, True, '''')" "cb_state ?cb = StateHalfOpen"
    "cb_halfOpenRequestID ?cb = ''''"
    using assms(1,2) by (simp_all add: cb_AllowRequest_def cb_IsOpen_def)
  from cb_requests_empty_id [OF al(2,3) assms(3)] cb_requests_Cons [OF al(1)] show ?thesis by simp
qed

lemma cb_empty_id_floods_half_open_witness:
  "length (snd (cb_requests ((30 * second, '''') # [(30 * second, ''''), (30 * second, '''')])
     (cb_RecordFailure 0 (NewCircuitBreaker ''d'' \<lparr>FailureThreshold = 1, ResetTimeout = 0, MaxFailures = 0\<rparr>))))
   = Suc (length [(30 * second, ''''), (30 * second, [] :: string)])"
  by (rule cb_empty_id_floods_half_open)
    (simp_all add: cb_IsOpen_def cb_RecordFailure_def NewCircuitBreaker_def in64_def)

text \<open>An open breaker rejects every request that arrives before its reset timeout has passed
  since the last failure, and the rejected requests leave it unchanged.\<close>

lemma cb_open_rejects_until_timeout:
  assumes "cb_IsOpen cb" and "\<forall>(now, rid) \<in> set rs. now - cb_lastFailure cb < cb_resetTimeout cb"
  shows "cb_requests rs cb = (cb, [])"
  using assms(2)
proof (induction rs)
  case (Cons q rs)
  then show ?case using assms(1) by (cases q) (auto simp: cb_AllowRequest_def cb_IsOpen_def)
qed simp

section \<open>The manager\<close>

record cb_manager =
  cbm_breakers :: "string \<rightharpoonup> circuit_breaker"
  cbm_config :: cb_config

definition cbm_NewManager :: "cb_config \<Rightarrow> cb_manager" where
  "cbm_NewManager cfg = \<lparr>cbm_breakers = Map.empty, cbm_config = cfg\<rparr>"

definition cbm_GetOrCreate :: "string \<Rightarrow> cb_manager \<Rightarrow> cb_manager \<times> circuit_breaker" where
  "cbm_GetOrCreate droneID m =
    (case cbm_breakers m droneID of
       Some cb \<Rightarrow> (m, cb)
     | None \<Rightarrow> (let cb = NewCircuitBreaker droneID (cbm_config m)
               in (m\<lparr>cbm_breakers := (cbm_breakers m)(droneID \<mapsto> cb)\<rparr>, cb)))"

definition cbm_Get :: "string \<Rightarrow> cb_manager \<Rightarrow> circuit_breaker option" where
  "cbm_Get droneID m = cbm_breakers m droneID"

text \<open>The breaker returned by \<open>GetOrCreate\<close> is a pointer into the map: what a method does to it is
  done to the map's entry.\<close>

definition cbm_store :: "string \<Rightarrow> circuit_breaker \<Rightarrow> cb_manager \<Rightarrow> cb_manager" where
  "cbm_store droneID cb m = m\<lparr>cbm_breakers := (cbm_breakers m)(droneID \<mapsto> cb)\<rparr>"

definition cbm_RecordFailure :: "time \<Rightarrow> string \<Rightarrow> cb_manager \<Rightarrow> cb_manager" where
  "cbm_RecordFailure now droneID m =
    (let (m, cb) = cbm_GetOrCreate droneID m in cbm_store droneID (cb_RecordFailure now cb) m)"

definition cbm_RecordSuccess :: "string \<Rightarrow> cb_manager \<Rightarrow> cb_manager" where
  "cbm_RecordSuccess droneID m =
    (let (m, cb) = cbm_GetOrCreate droneID m in cbm_store droneID (cb_RecordSuccess cb) m)"

definition cbm_AllowRequest :: "time \<Rightarrow> string \<Rightarrow> string \<Rightarrow> cb_manager \<Rightarrow>
    cb_manager \<times> bool \<times> string" where
  "cbm_AllowRequest now droneID requestID m =
    (let (m, cb) = cbm_GetOrCreate droneID m; (cb, res) = cb_AllowRequest now requestID cb
     in (cbm_store droneID cb m, res))"

definition cbm_Remove :: "string \<Rightarrow> cb_manager \<Rightarrow> cb_manager" where
  "cbm_Remove droneID m = m\<lparr>cbm_breakers := (cbm_breakers m)(droneID := None)\<rparr>"

definition cbm_IsOpen :: "string \<Rightarrow> cb_manager \<Rightarrow> bool" where
  "cbm_IsOpen droneID m = (case cbm_Get droneID m of None \<Rightarrow> False | Some cb \<Rightarrow> cb_IsOpen cb)"

definition cbm_IsClosed :: "string \<Rightarrow> cb_manager \<Rightarrow> bool" where
  "cbm_IsClosed droneID m = (case cbm_Get droneID m of None \<Rightarrow> True | Some cb \<Rightarrow> cb_IsClosed cb)"

lemmas cbm_ops = cbm_RecordFailure_def cbm_RecordSuccess_def cbm_AllowRequest_def cbm_Remove_def
  cbm_IsOpen_def cbm_IsClosed_def cbm_Get_def cbm_GetOrCreate_def cbm_store_def

text \<open>What the orchestrator relies on: failures, successes and removals of one drone never change
  whether another drone is excluded, a removed drone is not excluded, and a success never
  changes who is excluded.\<close>

locale drone_breakers =
  fixes is_open :: "string \<Rightarrow> 'm \<Rightarrow> bool"
    and failure :: "time \<Rightarrow> string \<Rightarrow> 'm \<Rightarrow> 'm"
    and success :: "string \<Rightarrow> 'm \<Rightarrow> 'm"
    and remove :: "string \<Rightarrow> 'm \<Rightarrow> 'm"
  assumes failure_other: "d' \<noteq> d \<Longrightarrow> is_open d' (failure now d m) = is_open d' m"
    and success_other: "d' \<noteq> d \<Longrightarrow> is_open d' (success d m) = is_open d' m"
    and remove_other: "d' \<noteq> d \<Longrightarrow> is_open d' (remove d m) = is_open d' m"
    and failure_keeps_open: "is_open d m \<Longrightarrow> is_open d (failure now d m)"
    and success_same: "is_open d (success d m) = is_open d m"
    and remove_same: "\<not> is_open d (remove d m)"
begin

lemma available_remove:
  "filter (\<lambda>d. \<not> is_open d (remove e m)) ds = filter (\<lambda>d. d = e \<or> \<not> is_open d m) ds"
proof (rule filter_cong [OF refl])
  show "(\<not> is_open d (remove e m)) = (d = e \<or> \<not> is_open d m)" for d
    by (cases "d = e") (simp_all add: remove_same remove_other)
qed

lemma failure_excludes_at_most_one:
  "set (filter (\<lambda>d. \<not> is_open d m) ds) - {e} \<subseteq> set (filter (\<lambda>d. \<not> is_open d (failure now e m)) ds)"
  by (auto simp: failure_other)

lemma success_available: "filter (\<lambda>d. \<not> is_open d (success e m)) ds = filter (\<lambda>d. \<not> is_open d m) ds"
proof (rule filter_cong [OF refl])
  show "(\<not> is_open d (success e m)) = (\<not> is_open d m)" for d
    by (cases "d = e") (simp_all add: success_same success_other)
qed

end

interpretation cbm: drone_breakers cbm_IsOpen cbm_RecordFailure cbm_RecordSuccess cbm_Remove
proof (unfold_locales, goal_cases)
  case (4 d m now)
  then show ?case
    by (auto simp: cbm_ops cb_IsOpen_def cb_RecordFailure_def Let_def split: option.splits)
next
  case (5 d m)
  then show ?case
    by (auto simp: cbm_ops cb_IsOpen_def cb_RecordSuccess_def NewCircuitBreaker_def Let_def
        split: option.splits)
qed (auto simp: cbm_ops Let_def split: option.splits)

end
