(* ===== verification/Guardrails.thy ===== *)
theory Guardrails
  imports Prelude
begin

text \<open>
  Package \<open>internal/guardrails\<close>: the token-bucket rate limiter (\<open>ratelimit.go\<close>), the token
  budget tracker (\<open>tokenbudget.go\<close>) and the response timeout tracker (\<open>timeout.go\<close>).
  Each operation runs under the tracker's mutex, so it is one atomic function of the state.
  A nil \<open>*RateLimiter\<close> or \<open>*TimeoutTracker\<close>, on which the code defines every method, is
  \<open>None\<close>.
\<close>

section \<open>Rate limiter\<close>

record rate_limiter =
  rl_requestsPerMinute :: int
  rl_burstSize :: int
  rl_tokens :: int
  rl_lastRefill :: time
  rl_refillInterval :: duration
  rl_tokensPerRefill :: int

definition NewRateLimiter :: "time \<Rightarrow> int \<Rightarrow> int \<Rightarrow> rate_limiter option" where
  "NewRateLimiter now requestsPerMinute burstSize =
    (if requestsPerMinute \<le> 0 then None
     else
       let burstSize = (if burstSize \<le> 0 then requestsPerMinute else burstSize);
           tokensPerSecond = go_div requestsPerMinute 60;
           tokensPerSecond = (if tokensPerSecond < 1 then 1 else tokensPerSecond)
       in Some \<lparr>rl_requestsPerMinute = requestsPerMinute, rl_burstSize = burstSize,
            rl_tokens = burstSize, rl_lastRefill = now, rl_refillInterval = second,
            rl_tokensPerRefill = tokensPerSecond\<rparr>)"

text \<open>The refill at the start of \<open>Allow\<close>.\<close>

definition rl_refill :: "time \<Rightarrow> rate_limiter \<Rightarrow> rate_limiter" where
  "rl_refill now r =
    (let elapsed = now - rl_lastRefill r in
     if elapsed > 0 then
       let refills = go_div elapsed (rl_refillInterval r) in
       if refills > 0 then
         let newTokens = wrap64 (refills * rl_tokensPerRefill r);
             tokens = wrap64 (rl_tokens r + newTokens);
             tokens = (if tokens > rl_burstSize r then rl_burstSize r else tokens)
         in r\<lparr>rl_tokens := tokens, rl_lastRefill := now\<rparr>
       else r
     else r)"

fun rl_Allow :: "time \<Rightarrow> rate_limiter option \<Rightarrow> rate_limiter option \<times> bool" where
  "rl_Allow now None = (None, True)"
| "rl_Allow now (Some r) =
    (let r = rl_refill now r in
     if rl_tokens r > 0 then (Some (r\<lparr>rl_tokens := rl_tokens r - 1\<rparr>), True)
     else (Some r, False))"

text \<open>\<open>Wait\<close>: the channel operations of its \<open>select\<close> loop are a list of events, in the order
  in which the runtime delivers them.  The result is \<open>None\<close> while the call is still blocked,
  \<open>Some True\<close> for \<open>nil\<close> and \<open>Some False\<close> for \<open>ctx.Err()\<close>.\<close>

datatype wait_event = Tick time | CtxDone

fun rl_wait_loop :: "wait_event list \<Rightarrow> rate_limiter option \<Rightarrow> rate_limiter option \<times> bool option" where
  "rl_wait_loop [] r = (r, None)"
| "rl_wait_loop (CtxDone # es) r = (r, Some False)"
| "rl_wait_loop (Tick now # es) r =
    (let (r', ok) = rl_Allow now r in if ok then (r', Some True) else rl_wait_loop es r')"

definition rl_Wait :: "time \<Rightarrow> wait_event list \<Rightarrow> rate_limiter option \<Rightarrow>
    rate_limiter option \<times> bool option" where
  "rl_Wait now es r =
    (case r of
       None \<Rightarrow> (None, Some True)
     | Some _ \<Rightarrow> (let (r', ok) = rl_Allow now r in
                  if ok then (r', Some True) else rl_wait_loop es r'))"

definition rl_RequestsPerMinute :: "rate_limiter option \<Rightarrow> int" where
  "rl_RequestsPerMinute r = (case r of None \<Rightarrow> 0 | Some l \<Rightarrow> rl_requestsPerMinute l)"

text \<open>A sequence of calls of \<open>Allow\<close> at the given times, and the number of them granted.\<close>

fun rl_allow_run :: "time list \<Rightarrow> rate_limiter option \<Rightarrow> rate_limiter option \<times> nat" where
  "rl_allow_run [] r = (r, 0)"
| "rl_allow_run (t # ts) r =
    (let (r', ok) = rl_Allow t r; (r'', n) = rl_allow_run ts r'
     in (r'', (if ok then Suc n else n)))"

text \<open>Well-formed limiters: what \<open>NewRateLimiter\<close> builds from 32-bit settings.\<close>

definition rl_wf :: "rate_limiter \<Rightarrow> bool" where
  "rl_wf r \<longleftrightarrow> 0 \<le> rl_tokens r \<and> rl_tokens r \<le> rl_burstSize r \<and>
     1 \<le> rl_burstSize r \<and> rl_burstSize r \<le> 2147483647 \<and>
     rl_refillInterval r = second \<and>
     1 \<le> rl_tokensPerRefill r \<and> rl_tokensPerRefill r \<le> 35791394"

lemma NewRateLimiter_wf:
  assumes "rpm \<le> 2147483647" "burst \<le> 2147483647" "NewRateLimiter now rpm burst = Some r"
  shows "rl_wf r"
proof -
  have pos: "0 < rpm" using assms(3) by (auto simp: NewRateLimiter_def split: if_splits)
  moreover have "rpm div 60 \<le> 35791394" using assms(1) by simp
  ultimately show ?thesis
    using assms by (auto simp: NewRateLimiter_def rl_wf_def Let_def)
qed

text \<open>Without overflow, a refill adds the whole elapsed seconds' tokens and caps at the burst.\<close>

lemma rl_refill_exact:
  assumes wf: "rl_wf r" and el: "now - rl_lastRefill r \<le> 9223372036854775807"
  shows "rl_refill now r =
    (if second \<le> now - rl_lastRefill r
     then r\<lparr>rl_tokens := min (rl_burstSize r)
              (rl_tokens r + (now - rl_lastRefill r) div second * rl_tokensPerRefill r),
            rl_lastRefill := now\<rparr>
     else r)"
proof (cases "second \<le> now - rl_lastRefill r")
  case True
  let ?n = "(now - rl_lastRefill r) div second"
  have n: "1 \<le> ?n" "?n \<le> 9223372036" using True el by auto
  have "?n * rl_tokensPerRefill r \<le> 9223372036 * 35791394"
    using n wf by (intro mult_mono) (auto simp: rl_wf_def)
  moreover have "0 \<le> ?n * rl_tokensPerRefill r" using n wf by (simp add: rl_wf_def)
  ultimately have w: "in64 (?n * rl_tokensPerRefill r)"
    "in64 (rl_tokens r + ?n * rl_tokensPerRefill r)"
    using wf by (auto simp: in64_def rl_wf_def)
  have int: "rl_refillInterval r = second" using wf by (simp add: rl_wf_def)
  show ?thesis
    using True n w int by (simp add: rl_refill_def Let_def min_def)
next
  case False
  then have "(now - rl_lastRefill r) div second \<le> 0" by simp
  with False wf show ?thesis by (auto simp: rl_refill_def rl_wf_def Let_def)
qed

lemma rl_refill_wf:
  assumes "rl_wf r" "now - rl_lastRefill r \<le> 9223372036854775807"
  shows "rl_wf (rl_refill now r)"
proof -
  have "0 \<le> (now - rl_lastRefill r) div second * rl_tokensPerRefill r"
    if "second \<le> now - rl_lastRefill r"
    using that assms(1) by (simp add: rl_wf_def)
  then show ?thesis using assms by (auto simp: rl_refill_exact rl_wf_def)
qed

lemma rl_refill_params [simp]:
  "rl_burstSize (rl_refill now r) = rl_burstSize r"
  "rl_tokensPerRefill (rl_refill now r) = rl_tokensPerRefill r"
  "rl_refillInterval (rl_refill now r) = rl_refillInterval r"
  by (simp_all add: rl_refill_def Let_def)

text \<open>One step of the admission account: the tokens left plus the request granted never
  exceed the tokens before plus those refilled for whole elapsed seconds.\<close>

lemma rl_Allow_step:
  assumes wf: "rl_wf r" and el: "now - rl_lastRefill r \<le> 9223372036854775807"
    and al: "rl_Allow now (Some r) = (r', ok)"
  shows "\<exists>r1. r' = Some r1 \<and> rl_wf r1 \<and> rl_tokensPerRefill r1 = rl_tokensPerRefill r \<and>
    (rl_lastRefill r1 = rl_lastRefill r \<or> rl_lastRefill r1 = now \<and> rl_lastRefill r \<le> now) \<and>
    rl_tokens r1 + (if ok then 1 else 0) \<le> rl_tokens r +
      (rl_lastRefill r1 - rl_lastRefill r) div second * rl_tokensPerRefill r"
proof -
  let ?r = "rl_refill now r"
  have wf': "rl_wf ?r" using wf el by (rule rl_refill_wf)
  have last: "rl_lastRefill ?r = rl_lastRefill r \<or>
      rl_lastRefill ?r = now \<and> rl_lastRefill r \<le> now"
    using wf el by (auto simp: rl_refill_exact)
  have tok: "rl_tokens ?r \<le> rl_tokens r +
      (rl_lastRefill ?r - rl_lastRefill r) div second * rl_tokensPerRefill r"
    using wf el by (auto simp: rl_refill_exact)
  show ?thesis
  proof (cases "rl_tokens ?r > 0")
    case True
    then have "rl_wf (?r\<lparr>rl_tokens := rl_tokens ?r - 1\<rparr>)" using wf' by (auto simp: rl_wf_def)
    with al True last tok show ?thesis by (auto simp: Let_def)
  next
    case False
    with al wf' last tok show ?thesis by (auto simp: Let_def)
  qed
qed

lemma rl_allow_run_Cons:
  assumes "rl_Allow t r = (r', ok)"
  shows "snd (rl_allow_run (t # ts) r) = (if ok then 1 else 0) + snd (rl_allow_run ts r')"
  using assms by (cases "rl_allow_run ts r'") simp

lemma rl_run_account:
  assumes "rl_wf r" "sorted (rl_lastRefill r # ts)" "\<forall>t \<in> set ts. t \<le> T"
    "rl_lastRefill r \<le> T" "T - rl_lastRefill r \<le> 9223372036854775807"
  shows "int (snd (rl_allow_run ts (Some r))) \<le>
    rl_tokens r + (T - rl_lastRefill r) div second * rl_tokensPerRefill r"
  using assms
proof (induction ts arbitrary: r)
  case Nil
  then show ?case by (simp add: rl_wf_def)
next
  case (Cons t ts)
  obtain r' ok where al: "rl_Allow t (Some r) = (r', ok)" by (cases "rl_Allow t (Some r)")
  have "t - rl_lastRefill r \<le> 9223372036854775807" using Cons.prems by auto
  from rl_Allow_step [OF Cons.prems(1) this al] obtain r1 where r1: "r' = Some r1" "rl_wf r1"
    "rl_tokensPerRefill r1 = rl_tokensPerRefill r"
    "rl_lastRefill r1 = rl_lastRefill r \<or> rl_lastRefill r1 = t \<and> rl_lastRefill r \<le> t"
    and tok: "rl_tokens r1 + (if ok then 1 else 0) \<le> rl_tokens r +
      (rl_lastRefill r1 - rl_lastRefill r) div second * rl_tokensPerRefill r"
    by blast
  have IH: "int (snd (rl_allow_run ts (Some r1))) \<le>
      rl_tokens r1 + (T - rl_lastRefill r1) div second * rl_tokensPerRefill r1"
    using Cons.prems r1 by (intro Cons.IH) auto
  have "(rl_lastRefill r1 - rl_lastRefill r) div second + (T - rl_lastRefill r1) div second
      \<le> (T - rl_lastRefill r) div second"
    using div_add_le [of second "rl_lastRefill r1 - rl_lastRefill r" "T - rl_lastRefill r1"] by simp
  then have "((rl_lastRefill r1 - rl_lastRefill r) div second + (T - rl_lastRefill r1) div second)
      * rl_tokensPerRefill r \<le> (T - rl_lastRefill r) div second * rl_tokensPerRefill r"
    using Cons.prems(1) by (intro mult_right_mono) (auto simp: rl_wf_def)
  with IH tok r1(3) have "int (snd (rl_allow_run ts (Some r1))) + (if ok then 1 else 0) \<le>
      rl_tokens r + (T - rl_lastRefill r) div second * rl_tokensPerRefill r"
    by (simp add: distrib_right)
  then show ?case unfolding rl_allow_run_Cons [OF al] r1(1) by (cases ok) simp_all
qed

text \<open>A run keeps the limiter well formed, with its parameters, and its last refill in the past.\<close>

lemma rl_run_state:
  assumes "rl_wf r" "sorted (rl_lastRefill r # ts)" "\<forall>t \<in> set ts. t \<le> a"
    "rl_lastRefill r \<le> a" "a - rl_lastRefill r \<le> 9223372036854775807"
  shows "\<exists>r1. fst (rl_allow_run ts (Some r)) = Some r1 \<and> rl_wf r1 \<and>
    rl_tokensPerRefill r1 = rl_tokensPerRefill r \<and> rl_burstSize r1 = rl_burstSize r \<and>
    rl_lastRefill r \<le> rl_lastRefill r1 \<and> rl_lastRefill r1 \<le> a"
  using assms
proof (induction ts arbitrary: r)
  case Nil
  then show ?case by simp
next
  case (Cons t ts)
  obtain r' ok where al: "rl_Allow t (Some r) = (r', ok)" by (cases "rl_Allow t (Some r)")
  have el: "t - rl_lastRefill r \<le> 9223372036854775807" using Cons.prems by auto
  from rl_Allow_step [OF Cons.prems(1) el al] obtain r1 where r1: "r' = Some r1" "rl_wf r1"
    "rl_tokensPerRefill r1 = rl_tokensPerRefill r"
    "rl_lastRefill r1 = rl_lastRefill r \<or> rl_lastRefill r1 = t \<and> rl_lastRefill r \<le> t"
    by blast
  have b: "rl_burstSize r1 = rl_burstSize r" using al r1(1) by (auto simp: Let_def split: if_splits)
  have "\<exists>r2. fst (rl_allow_run ts (Some r1)) = Some r2 \<and> rl_wf r2 \<and>
    rl_tokensPerRefill r2 = rl_tokensPerRefill r1 \<and> rl_burstSize r2 = rl_burstSize r1 \<and>
    rl_lastRefill r1 \<le> rl_lastRefill r2 \<and> rl_lastRefill r2 \<le> a"
    using Cons.prems r1 by (intro Cons.IH) auto
  then show ?case using al r1 b by (auto split: prod.splits)
qed

lemma rl_allow_run_append:
  "rl_allow_run (ts @ us) r =
    (fst (rl_allow_run us (fst (rl_allow_run ts r))),
     snd (rl_allow_run ts r) + snd (rl_allow_run us (fst (rl_allow_run ts r))))"
  by (induction ts arbitrary: r) (auto simp: split_beta Let_def)

text \<open>What a window of requests is granted: the bucket holds at most its burst when the window
  opens, and what is refilled later comes in whole seconds, the first of which may have begun
  before the window.\<close>

lemma rl_run_window:
  assumes wf: "rl_wf r" and l: "rl_lastRefill r \<le> a" and "a \<le> T" "sorted ts"
    and "\<forall>t \<in> set ts. a \<le> t \<and> t \<le> T" and el: "T - rl_lastRefill r \<le> 9223372036854775807"
  shows "int (snd (rl_allow_run ts (Some r))) \<le>
    rl_burstSize r + ((T - a) div second + 1) * rl_tokensPerRefill r"
proof (cases ts)
  case Nil
  have "0 \<le> ((T - a) div second + 1) * rl_tokensPerRefill r" using wf assms(3) by (simp add: rl_wf_def)
  then show ?thesis using Nil wf by (simp add: rl_wf_def)
next
  case (Cons t us)
  let ?r = "rl_refill t r"
  have t: "a \<le> t" "t \<le> T" "t - rl_lastRefill r \<le> 9223372036854775807" using assms Cons by auto
  have wf': "rl_wf ?r" by (rule rl_refill_wf [OF wf t(3)])
  have last: "rl_lastRefill ?r \<le> t" "t < rl_lastRefill ?r + second" "rl_lastRefill r \<le> rl_lastRefill ?r"
    using t l by (auto simp: rl_refill_exact [OF wf t(3)])
  have "rl_refill t ?r = ?r" using last by (subst rl_refill_exact [OF wf']) auto
  then have "rl_Allow t (Some r) = rl_Allow t (Some ?r)" by simp
  then have same: "rl_allow_run ts (Some r) = rl_allow_run ts (Some ?r)" by (simp only: Cons rl_allow_run.simps)
  have "int (snd (rl_allow_run ts (Some ?r))) \<le>
      rl_tokens ?r + (T - rl_lastRefill ?r) div second * rl_tokensPerRefill ?r"
    using wf' last t assms Cons by (intro rl_run_account) auto
  also have "(T - rl_lastRefill ?r) div second \<le> (T - a + second) div second"
    using last t by (intro zdiv_mono1) auto
  then have "(T - rl_lastRefill ?r) div second * rl_tokensPerRefill ?r
      \<le> ((T - a) div second + 1) * rl_tokensPerRefill r"
    using wf assms(3) by (intro mult_mono) (auto simp: rl_wf_def pos_imp_zdiv_nonneg_iff add_nonneg_nonneg)
  finally show ?thesis unfolding same using wf' by (simp add: rl_wf_def)
qed

lemma NewRateLimiter_params:
  "0 < rpm \<Longrightarrow> \<exists>r. NewRateLimiter t0 rpm burst = Some r \<and> rl_lastRefill r = t0 \<and>
    rl_tokens r = rl_burstSize r \<and> rl_burstSize r = (if burst \<le> 0 then rpm else burst) \<and>
    rl_tokensPerRefill r = max 1 (rpm div 60)"
  by (auto simp: NewRateLimiter_def Let_def max_def)

text \<open>C30: Admission bound of the token bucket.  Take a limiter created with positive requests
  per minute and any sequence of requests in time order.  In every window \<open>[a, T]\<close> of it,
  whatever came before, the limiter grants at most the burst (the requests per minute when no
  burst is configured) plus a sixtieth of the requests per minute, at least one, for each
  whole second of the window and one second more; counted from the creation, the additional
  second is not needed.  Settings are at most \<open>2 ^ 31 - 1\<close> and all times within 292 years.\<close>

theorem rate_limit_admission_bound:
  assumes "0 < rpm" and "rpm \<le> 2147483647" and "burst \<le> 2147483647"
    and "sorted (t0 # earlier @ window)"
    and "\<forall>t \<in> set earlier. t \<le> a" and "\<forall>t \<in> set window. a \<le> t \<and> t \<le> T"
    and "t0 \<le> a" and "a \<le> T" and "T - t0 \<le> 9223372036854775807"
  shows "int (snd (rl_allow_run window (fst (rl_allow_run earlier (NewRateLimiter t0 rpm burst))))) \<le>
      (if burst \<le> 0 then rpm else burst) + ((T - a) div second + 1) * max 1 (rpm div 60) \<and>
    int (snd (rl_allow_run (earlier @ window) (NewRateLimiter t0 rpm burst))) \<le>
      (if burst \<le> 0 then rpm else burst) + (T - t0) div second * max 1 (rpm div 60)"
proof -
  obtain r where r: "NewRateLimiter t0 rpm burst = Some r" "rl_lastRefill r = t0"
    "rl_tokens r = rl_burstSize r" "rl_burstSize r = (if burst \<le> 0 then rpm else burst)"
    "rl_tokensPerRefill r = max 1 (rpm div 60)"
    using NewRateLimiter_params [OF assms(1)] by blast
  have wf: "rl_wf r" by (rule NewRateLimiter_wf [OF assms(2,3) r(1)])
  obtain r1 where r1: "fst (rl_allow_run earlier (Some r)) = Some r1" "rl_wf r1"
    "rl_tokensPerRefill r1 = rl_tokensPerRefill r" "rl_burstSize r1 = rl_burstSize r"
    "t0 \<le> rl_lastRefill r1" "rl_lastRefill r1 \<le> a"
    using rl_run_state [OF wf, of earlier a] assms(4-9) r(2) by (auto simp: sorted_append)
  have "int (snd (rl_allow_run window (fst (rl_allow_run earlier (NewRateLimiter t0 rpm burst))))) \<le>
      (if burst \<le> 0 then rpm else burst) + ((T - a) div second + 1) * max 1 (rpm div 60)"
    using rl_run_window [OF r1(2,6), of T window] assms r1 r by (simp add: sorted_append)
  moreover have "int (snd (rl_allow_run (earlier @ window) (NewRateLimiter t0 rpm burst))) \<le>
      (if burst \<le> 0 then rpm else burst) + (T - t0) div second * max 1 (rpm div 60)"
    using rl_run_account [OF wf, of "earlier @ window" T] assms r by fastforce
  ultimately show ?thesis ..
qed

text \<open>A bucket of two with two a second: after ten idle seconds a burst of five requests within
  a second is granted at most four, and the eight requests together at most 22.\<close>

lemma rate_limit_admission_bound_witness:
  "snd (rl_allow_run (replicate 5 (10 * second)) (fst (rl_allow_run [0, 0, 0] (NewRateLimiter 0 120 2)))) \<le> 4 \<and>
   snd (rl_allow_run ([0, 0, 0] @ replicate 5 (10 * second)) (NewRateLimiter 0 120 2)) \<le> 22"
  using rate_limit_admission_bound [of 120 2 0 "[0, 0, 0]" "replicate 5 (10 * second)" "10 * second" "10 * second"]
  by (simp del: rl_allow_run.simps)

text \<open>Requests that come exactly one second apart are all granted, whatever the limit.\<close>

lemma rl_Allow_after_second:
  assumes "rl_wf r" "now = rl_lastRefill r + second"
  shows "\<exists>r1. rl_Allow now (Some r) = (Some r1, True) \<and> rl_wf r1 \<and> rl_lastRefill r1 = now"
  using assms by (auto simp: rl_refill_exact Let_def rl_wf_def)

lemma rl_run_every_second:
  assumes "rl_wf r"
  shows "snd (rl_allow_run (map (\<lambda>i. rl_lastRefill r + (1 + int i) * second) [0..<n]) (Some r)) = n"
  using assms
proof (induction n arbitrary: r)
  case 0
  then show ?case by simp
next
  case (Suc n)
  obtain r1 where r1: "rl_Allow (rl_lastRefill r + second) (Some r) = (Some r1, True)" "rl_wf r1"
    "rl_lastRefill r1 = rl_lastRefill r + second"
    using rl_Allow_after_second [OF Suc.prems refl] by blast
  have ts: "map (\<lambda>i. rl_lastRefill r + (1 + int i) * second) [0..<Suc n] =
      (rl_lastRefill r + second) # map (\<lambda>i. rl_lastRefill r1 + (1 + int i) * second) [0..<n]"
    unfolding upt_conv_Cons [OF zero_less_Suc] map_Suc_upt [symmetric]
    by (simp add: r1(3) algebra_simps)
  show ?case unfolding ts rl_allow_run_Cons [OF r1(1)] using Suc.IH [OF r1(2)] by simp
qed

text \<open>The configured rate is not enforced below sixty requests a minute.  Whatever the
  limit, a client that sends one request each second has every request granted, so a limit of
  \<open>rpm < 60\<close> admits sixty requests a minute: the refill of one token a second is a floor.\<close>

lemma rate_limit_not_enforced_below_60:
  assumes "NewRateLimiter t0 rpm burst = Some r"
    and "rpm \<le> 2147483647" and "burst \<le> 2147483647"
  shows "snd (rl_allow_run (map (\<lambda>i. t0 + (1 + int i) * second) [0..<n]) (Some r)) = n"
proof -
  have "rl_lastRefill r = t0"
    using assms(1) by (auto simp: NewRateLimiter_def Let_def split: if_splits)
  then show ?thesis using rl_run_every_second [of r n] NewRateLimiter_wf [OF assms(2,3,1)] by simp
qed

section \<open>Token budgets\<close>

record token_budget =
  tb_perRequestBudget :: int
  tb_perSessionBudget :: int
  tb_perMinuteBudget :: int
  tb_sessionTokens :: int
  tb_minuteTokens :: int
  tb_minuteWindow :: time
  tb_lastRequestTokens :: int

datatype budget_error = BudgetExceededError (be_type: string) (be_limit: int) (be_used: int)

definition NewTokenBudgetTracker :: "time \<Rightarrow> int \<Rightarrow> int \<Rightarrow> int \<Rightarrow> token_budget" where
  "NewTokenBudgetTracker now perRequest perSession perMinute =
    \<lparr>tb_perRequestBudget = perRequest, tb_perSessionBudget = perSession,
     tb_perMinuteBudget = perMinute, tb_sessionTokens = 0, tb_minuteTokens = 0,
     tb_minuteWindow = truncate_minute now, tb_lastRequestTokens = 0\<rparr>"

text \<open>\<open>RecordUsage\<close>: the window reset, then the per-minute and the per-session check, each of
  which stores its counter as soon as it passes.  The result is the tracker and the error.\<close>

definition tb_reset_window :: "time \<Rightarrow> token_budget \<Rightarrow> token_budget" where
  "tb_reset_window now t =
    (let currentMinute = truncate_minute now in
     if tb_minuteWindow t < currentMinute
     then t\<lparr>tb_minuteTokens := 0, tb_minuteWindow := currentMinute\<rparr> else t)"

definition tb_check_minute :: "int \<Rightarrow> token_budget \<Rightarrow> budget_error + token_budget" where
  "tb_check_minute tokens t =
    (if tb_perMinuteBudget t > 0 then
       let newMinuteTokens = wrap64 (tb_minuteTokens t + tokens) in
       if newMinuteTokens > tb_perMinuteBudget t
       then Inl (BudgetExceededError ''per-minute'' (tb_perMinuteBudget t) newMinuteTokens)
       else Inr (t\<lparr>tb_minuteTokens := newMinuteTokens\<rparr>)
     else Inr t)"

definition tb_check_session :: "int \<Rightarrow> token_budget \<Rightarrow> budget_error + token_budget" where
  "tb_check_session tokens t =
    (if tb_perSessionBudget t > 0 then
       let newSessionTokens = wrap64 (tb_sessionTokens t + tokens) in
       if newSessionTokens > tb_perSessionBudget t
       then Inl (BudgetExceededError ''per-session'' (tb_perSessionBudget t) newSessionTokens)
       else Inr (t\<lparr>tb_sessionTokens := newSessionTokens\<rparr>)
     else Inr t)"

definition tb_RecordUsage :: "time \<Rightarrow> int \<Rightarrow> token_budget \<Rightarrow> token_budget \<times> budget_error option" where
  "tb_RecordUsage now tokens t =
    (if tb_perRequestBudget t > 0 \<and> tokens > tb_perRequestBudget t
     then (t, Some (BudgetExceededError ''per-request'' (tb_perRequestBudget t) tokens))
     else
       let t1 = tb_reset_window now t in
       case tb_check_minute tokens t1 of
         Inl e \<Rightarrow> (t1, Some e)
       | Inr t2 \<Rightarrow>
          (case tb_check_session tokens t2 of
             Inl e \<Rightarrow> (t2, Some e)
           | Inr t3 \<Rightarrow> (t3\<lparr>tb_lastRequestTokens := tokens\<rparr>, None)))"

record token_usage =
  tu_SessionTokens :: int
  tu_MinuteTokens :: int
  tu_LastRequestTokens :: int
  tu_MinuteWindowStart :: time

definition tb_GetUsage :: "token_budget \<Rightarrow> token_usage" where
  "tb_GetUsage t = \<lparr>tu_SessionTokens = tb_sessionTokens t, tu_MinuteTokens = tb_minuteTokens t,
     tu_LastRequestTokens = tb_lastRequestTokens t, tu_MinuteWindowStart = tb_minuteWindow t\<rparr>"

definition tb_ResetSession :: "token_budget \<Rightarrow> token_budget" where
  "tb_ResetSession t = t\<lparr>tb_sessionTokens := 0\<rparr>"

definition ExtractTokenCount :: "(string \<rightharpoonup> string) \<Rightarrow> int" where
  "ExtractTokenCount msgMetadata =
    (case Option.bind (msgMetadata ''token-count'') parse_int64 of
       Some count \<Rightarrow> count
     | None \<Rightarrow>
        (case Option.bind (msgMetadata ''tokens-used'') parse_int64 of
           Some count \<Rightarrow> count
         | None \<Rightarrow> 0))"

lemmas tb_ops = tb_RecordUsage_def tb_reset_window_def tb_check_minute_def tb_check_session_def
  Let_def

text \<open>A sequence of usages, each a time and a token count, and the sum of the accepted ones.\<close>

fun tb_run :: "(time \<times> int) list \<Rightarrow> token_budget \<Rightarrow> token_budget \<times> int" where
  "tb_run [] t = (t, 0)"
| "tb_run ((now, n) # us) t =
    (let (t', e) = tb_RecordUsage now n t; (t'', a) = tb_run us t'
     in (t'', if e = None then n + a else a))"

definition tb_wf :: "token_budget \<Rightarrow> bool" where
  "tb_wf t \<longleftrightarrow> 0 \<le> tb_sessionTokens t \<and> 0 \<le> tb_minuteTokens t \<and>
     tb_perSessionBudget t \<le> 4611686018427387904 \<and> tb_perMinuteBudget t \<le> 4611686018427387904 \<and>
     (if tb_perSessionBudget t > 0 then tb_sessionTokens t \<le> tb_perSessionBudget t
      else tb_sessionTokens t = 0) \<and>
     (if tb_perMinuteBudget t > 0 then tb_minuteTokens t \<le> tb_perMinuteBudget t
      else tb_minuteTokens t = 0)"

text \<open>Token counts that cannot overflow the counters.\<close>

abbreviation usable :: "int \<Rightarrow> bool" where
  "usable n \<equiv> 0 \<le> n \<and> n \<le> 4611686018427387903"

lemma tb_reset_window_wf: "tb_wf t \<Longrightarrow> tb_wf (tb_reset_window now t)"
  by (auto simp: tb_wf_def tb_reset_window_def Let_def)

lemma tb_reset_window_params [simp]:
  "tb_perRequestBudget (tb_reset_window now t) = tb_perRequestBudget t"
  "tb_perSessionBudget (tb_reset_window now t) = tb_perSessionBudget t"
  "tb_perMinuteBudget (tb_reset_window now t) = tb_perMinuteBudget t"
  "tb_sessionTokens (tb_reset_window now t) = tb_sessionTokens t"
  by (simp_all add: tb_reset_window_def Let_def)

lemma tb_check_minute_exact:
  "tb_wf t \<Longrightarrow> usable n \<Longrightarrow> tb_check_minute n t =
    (if tb_perMinuteBudget t > 0 then
       if tb_minuteTokens t + n > tb_perMinuteBudget t
       then Inl (BudgetExceededError ''per-minute'' (tb_perMinuteBudget t) (tb_minuteTokens t + n))
       else Inr (t\<lparr>tb_minuteTokens := tb_minuteTokens t + n\<rparr>)
     else Inr t)"
  by (auto simp: tb_check_minute_def tb_wf_def in64_def Let_def)

lemma tb_check_session_exact:
  "tb_wf t \<Longrightarrow> usable n \<Longrightarrow> tb_check_session n t =
    (if tb_perSessionBudget t > 0 then
       if tb_sessionTokens t + n > tb_perSessionBudget t
       then Inl (BudgetExceededError ''per-session'' (tb_perSessionBudget t) (tb_sessionTokens t + n))
       else Inr (t\<lparr>tb_sessionTokens := tb_sessionTokens t + n\<rparr>)
     else Inr t)"
  by (auto simp: tb_check_session_def tb_wf_def in64_def Let_def)

lemma tb_check_minute_wf: "tb_wf t \<Longrightarrow> usable n \<Longrightarrow> tb_check_minute n t = Inr t' \<Longrightarrow> tb_wf t'"
  by (auto simp: tb_check_minute_exact tb_wf_def split: if_splits)

lemma tb_check_session_wf: "tb_wf t \<Longrightarrow> usable n \<Longrightarrow> tb_check_session n t = Inr t' \<Longrightarrow> tb_wf t'"
  by (auto simp: tb_check_session_exact tb_wf_def split: if_splits)

text \<open>\<open>RecordUsage\<close> on well-formed trackers, with the 64-bit additions replaced by exact ones.\<close>

definition tb_charge_minute :: "int \<Rightarrow> token_budget \<Rightarrow> token_budget" where
  "tb_charge_minute n t =
    (if tb_perMinuteBudget t > 0 then t\<lparr>tb_minuteTokens := tb_minuteTokens t + n\<rparr> else t)"

definition tb_charge_session :: "int \<Rightarrow> token_budget \<Rightarrow> token_budget" where
  "tb_charge_session n t =
    (if tb_perSessionBudget t > 0 then t\<lparr>tb_sessionTokens := tb_sessionTokens t + n\<rparr> else t)"

lemma tb_charge_params [simp]:
  "tb_perSessionBudget (tb_charge_minute n t) = tb_perSessionBudget t"
  "tb_perSessionBudget (tb_charge_session n t) = tb_perSessionBudget t"
  "tb_perMinuteBudget (tb_charge_session n t) = tb_perMinuteBudget t"
  "tb_sessionTokens (tb_charge_minute n t) = tb_sessionTokens t"
  "tb_minuteTokens (tb_charge_session n t) = tb_minuteTokens t"
  by (simp_all add: tb_charge_minute_def tb_charge_session_def)

lemma tb_RecordUsage_exact:
  assumes "tb_wf t" "usable n"
  shows "tb_RecordUsage now n t =
    (let u = tb_reset_window now t; v = tb_charge_minute n u in
     if tb_perRequestBudget t > 0 \<and> n > tb_perRequestBudget t
     then (t, Some (BudgetExceededError ''per-request'' (tb_perRequestBudget t) n))
     else if tb_perMinuteBudget t > 0 \<and> tb_minuteTokens u + n > tb_perMinuteBudget t
     then (u, Some (BudgetExceededError ''per-minute'' (tb_perMinuteBudget t) (tb_minuteTokens u + n)))
     else if tb_perSessionBudget t > 0 \<and> tb_sessionTokens t + n > tb_perSessionBudget t
     then (v, Some (BudgetExceededError ''per-session'' (tb_perSessionBudget t) (tb_sessionTokens t + n)))
     else ((tb_charge_session n v)\<lparr>tb_lastRequestTokens := n\<rparr>, None))"
proof -
  let ?u = "tb_reset_window now t" and ?v = "tb_charge_minute n (tb_reset_window now t)"
  note w = tb_reset_window_wf [OF assms(1), of now]
  have m: "tb_check_minute n ?u =
      (if tb_perMinuteBudget t > 0 \<and> tb_minuteTokens ?u + n > tb_perMinuteBudget t
       then Inl (BudgetExceededError ''per-minute'' (tb_perMinuteBudget t) (tb_minuteTokens ?u + n))
       else Inr ?v)"
    by (simp add: tb_check_minute_exact [OF w assms(2)] tb_charge_minute_def)
  have s: "tb_check_session n ?v =
      (if tb_perSessionBudget t > 0 \<and> tb_sessionTokens t + n > tb_perSessionBudget t
       then Inl (BudgetExceededError ''per-session'' (tb_perSessionBudget t) (tb_sessionTokens t + n))
       else Inr (tb_charge_session n ?v))"
    if ok: "\<not> (tb_perMinuteBudget t > 0 \<and> tb_minuteTokens ?u + n > tb_perMinuteBudget t)"
  proof -
    have "tb_wf ?v" using w assms(2) ok by (auto simp: tb_wf_def tb_charge_minute_def)
    from tb_check_session_exact [OF this assms(2)] show ?thesis
      by (simp add: tb_charge_session_def)
  qed
  show ?thesis
    by (simp only: tb_RecordUsage_def Let_def m) (simp add: s)
qed

lemma tb_RecordUsage_wf [inv_intros]:
  assumes "tb_wf t" "usable n"
  shows "tb_wf (fst (tb_RecordUsage now n t))"
  using tb_reset_window_wf [OF assms(1), of now] assms
  by (auto simp: tb_RecordUsage_exact Let_def tb_wf_def tb_charge_minute_def tb_charge_session_def)

lemma tb_RecordUsage_session:
  assumes "tb_wf t" "usable n"
  shows "tb_perSessionBudget (fst (tb_RecordUsage now n t)) = tb_perSessionBudget t"
    and "tb_perSessionBudget t > 0 \<Longrightarrow> tb_sessionTokens (fst (tb_RecordUsage now n t)) =
      tb_sessionTokens t + (if snd (tb_RecordUsage now n t) = None then n else 0)"
  using assms by (simp_all add: tb_RecordUsage_exact Let_def tb_charge_session_def)

text \<open>A usage is accepted exactly when it respects every configured budget: the request's own
  size, the tokens already spent in the current minute, and those already spent in the session.\<close>

lemma token_budget_accepts_iff:
  assumes "tb_wf t" and "0 \<le> n" and "n \<le> 4611686018427387903"
  shows "snd (tb_RecordUsage now n t) = None \<longleftrightarrow>
    (tb_perRequestBudget t > 0 \<longrightarrow> n \<le> tb_perRequestBudget t) \<and>
    (tb_perMinuteBudget t > 0 \<longrightarrow>
       tb_minuteTokens (tb_reset_window now t) + n \<le> tb_perMinuteBudget t) \<and>
    (tb_perSessionBudget t > 0 \<longrightarrow> tb_sessionTokens t + n \<le> tb_perSessionBudget t)"
  using assms by (simp add: tb_RecordUsage_exact Let_def) auto

lemma tb_run_session:
  assumes "tb_wf t" "\<forall>(now, n) \<in> set us. usable n" "tb_perSessionBudget t > 0"
  shows "tb_wf (fst (tb_run us t)) \<and>
    tb_perSessionBudget (fst (tb_run us t)) = tb_perSessionBudget t \<and>
    tb_sessionTokens (fst (tb_run us t)) = tb_sessionTokens t + snd (tb_run us t)"
  using assms
proof (induction us t rule: tb_run.induct)
  case (1 t)
  then show ?case by simp
next
  case (2 now n us t)
  obtain t' e where r: "tb_RecordUsage now n t = (t', e)" by (cases "tb_RecordUsage now n t")
  have n: "usable n" using "2.prems" by auto
  have "tb_wf t'" using tb_RecordUsage_wf [OF "2.prems"(1) n, of now] r by simp
  moreover have "tb_perSessionBudget t' = tb_perSessionBudget t"
    "tb_sessionTokens t' = tb_sessionTokens t + (if e = None then n else 0)"
    using tb_RecordUsage_session [OF "2.prems"(1) n, of now] r "2.prems"(3) by auto
  ultimately show ?case
    using "2.IH" [OF r [symmetric] refl] "2.prems" r by (auto split: prod.splits)
qed

text \<open>Session budget safety.  Whatever the sequence of usages and the times at which they are
  recorded, the accepted token counts of a session never sum to more than its budget.\<close>

lemma token_budget_session_bound:
  assumes "0 < perSession" and "perSession \<le> 4611686018427387904"
    and "perMinute \<le> 4611686018427387904"
    and "\<forall>(now, n) \<in> set us. 0 \<le> n \<and> n \<le> 4611686018427387903"
  shows "snd (tb_run us (NewTokenBudgetTracker now perRequest perSession perMinute)) \<le> perSession"
proof -
  let ?t = "NewTokenBudgetTracker now perRequest perSession perMinute"
  have t: "tb_wf ?t" "tb_perSessionBudget ?t = perSession" "tb_sessionTokens ?t = 0"
    using assms by (auto simp: tb_wf_def NewTokenBudgetTracker_def)
  then have "tb_wf (fst (tb_run us ?t))" "tb_perSessionBudget (fst (tb_run us ?t)) = perSession"
    "tb_sessionTokens (fst (tb_run us ?t)) = snd (tb_run us ?t)"
    using tb_run_session [OF t(1) assms(4)] assms(1) by auto
  then show ?thesis using assms(1) by (simp add: tb_wf_def)
qed

text \<open>A usage that the session budget rejects has already been charged to the minute: the
  per-minute counter is stored before the per-session check, so rejected requests starve the
  accepted ones of the same minute.\<close>

lemma token_budget_rejected_usage_charges_minute:
  assumes "tb_wf t" and "0 \<le> n" and "n \<le> 4611686018427387903"
    and "tb_RecordUsage now n t = (t', Some (BudgetExceededError ''per-session'' lim used))"
    and "tb_perMinuteBudget t > 0"
  shows "tb_minuteTokens t' = tb_minuteTokens (tb_reset_window now t) + n"
  using assms
  by (auto simp: tb_RecordUsage_exact Let_def tb_charge_minute_def split: if_splits)

text \<open>The 64-bit addition of the session counter can wrap.  With only a session budget
  configured and at least one token already spent, a message that reports the largest token
  count is accepted and leaves the session counter negative, which disables the budget.\<close>

theorem token_budget_overflow_bypasses_session:
  assumes "tb_perRequestBudget t = 0" and "tb_perMinuteBudget t = 0"
    and "0 < tb_sessionTokens t" and "tb_sessionTokens t \<le> tb_perSessionBudget t"
    and "tb_perSessionBudget t \<le> 9223372036854775807"
    and "ExtractTokenCount md = 9223372036854775807"
  shows "snd (tb_RecordUsage now (ExtractTokenCount md) t) = None \<and>
    tb_sessionTokens (fst (tb_RecordUsage now (ExtractTokenCount md) t)) < 0"
proof -
  have "(tb_sessionTokens t - 1 + 18446744073709551616) mod 18446744073709551616 =
      (tb_sessionTokens t - 1) mod 18446744073709551616"
    by (rule mod_add_self2)
  also have "\<dots> = tb_sessionTokens t - 1" using assms(3-5) by (intro mod_pos_pos_trivial) auto
  finally have "wrap64 (tb_sessionTokens t + 9223372036854775807) =
      tb_sessionTokens t - 1 - 9223372036854775808"
    by (simp add: wrap64_def algebra_simps)
  then show ?thesis using assms by (simp add: tb_ops)
qed

lemma token_budget_overflow_bypasses_session_witness:
  "snd (tb_RecordUsage 0 (ExtractTokenCount [''token-count'' \<mapsto> ''9223372036854775807''])
     (NewTokenBudgetTracker 0 0 100 0\<lparr>tb_sessionTokens := 1\<rparr>)) = None"
proof -
  have "ExtractTokenCount [''token-count'' \<mapsto> ''9223372036854775807''] = 9223372036854775807"
    by (simp add: ExtractTokenCount_def parse_int64_def parse_nat_def is_digit_def digit_val_def in64_def)
  from token_budget_overflow_bypasses_session [OF _ _ _ _ _ this,
      of "NewTokenBudgetTracker 0 0 100 0\<lparr>tb_sessionTokens := 1\<rparr>" 0]
  show ?thesis by (simp add: NewTokenBudgetTracker_def)
qed

section \<open>Response timeouts\<close>

text \<open>The map of active requests is an association list, because \<open>CheckTimeouts\<close> iterates over
  it: the order of the list is the order in which the runtime's \<open>range\<close> visits the keys.\<close>

record timeout_tracker =
  tt_timeoutSeconds :: int
  tt_activeRequests :: "(string \<times> time) list"

definition NewTimeoutTracker :: "int \<Rightarrow> timeout_tracker option" where
  "NewTimeoutTracker timeoutSeconds =
    (if timeoutSeconds \<le> 0 then None
     else Some \<lparr>tt_timeoutSeconds = timeoutSeconds, tt_activeRequests = []\<rparr>)"

definition tt_StartRequest :: "time \<Rightarrow> string \<Rightarrow> timeout_tracker option \<Rightarrow> timeout_tracker option" where
  "tt_StartRequest now messageID = map_option
    (\<lambda>t. t\<lparr>tt_activeRequests := AList.update messageID now (tt_activeRequests t)\<rparr>)"

definition tt_CompleteRequest :: "string \<Rightarrow> timeout_tracker option \<Rightarrow> timeout_tracker option" where
  "tt_CompleteRequest messageID = map_option
    (\<lambda>t. t\<lparr>tt_activeRequests := AList.delete messageID (tt_activeRequests t)\<rparr>)"

fun tt_scan :: "(time \<Rightarrow> bool) \<Rightarrow> (string \<times> time) list \<Rightarrow> (string \<times> time) list \<Rightarrow> string list \<Rightarrow>
    (string \<times> time) list \<times> string list" where
  "tt_scan late [] active timedOut = (active, timedOut)"
| "tt_scan late ((msgID, startTime) # todo) active timedOut =
    (if late startTime
     then tt_scan late todo (AList.delete msgID active) (timedOut @ [msgID])
     else tt_scan late todo active timedOut)"

definition tt_CheckTimeouts :: "time \<Rightarrow> timeout_tracker option \<Rightarrow>
    timeout_tracker option \<times> string list" where
  "tt_CheckTimeouts now t =
    (case t of
       None \<Rightarrow> (None, [])
     | Some t \<Rightarrow>
        (let timeoutDuration = wrap64 (tt_timeoutSeconds t * second);
             (active, timedOut) = tt_scan (\<lambda>startTime. now - startTime > timeoutDuration)
               (tt_activeRequests t) (tt_activeRequests t) []
         in (Some (t\<lparr>tt_activeRequests := active\<rparr>), timedOut)))"

definition tt_GetActiveRequestCount :: "timeout_tracker option \<Rightarrow> nat" where
  "tt_GetActiveRequestCount t = (case t of None \<Rightarrow> 0 | Some t \<Rightarrow> length (tt_activeRequests t))"

definition tt_GetTimeoutSeconds :: "timeout_tracker option \<Rightarrow> int" where
  "tt_GetTimeoutSeconds t = (case t of None \<Rightarrow> 0 | Some t \<Rightarrow> tt_timeoutSeconds t)"

definition tt_Clear :: "timeout_tracker option \<Rightarrow> timeout_tracker option" where
  "tt_Clear = map_option (\<lambda>t. t\<lparr>tt_activeRequests := []\<rparr>)"

definition tt_wf :: "timeout_tracker \<Rightarrow> bool" where
  "tt_wf t \<longleftrightarrow> 0 < tt_timeoutSeconds t \<and> tt_timeoutSeconds t \<le> 9223372036 \<and>
     distinct (map fst (tt_activeRequests t))"

lemma tt_StartRequest_wf [inv_intros]:
  "tt_wf t \<Longrightarrow> tt_StartRequest now m (Some t) = Some t' \<Longrightarrow> tt_wf t'"
  by (auto simp: tt_wf_def tt_StartRequest_def distinct_update)

lemma tt_CompleteRequest_wf [inv_intros]:
  "tt_wf t \<Longrightarrow> tt_CompleteRequest m (Some t) = Some t' \<Longrightarrow> tt_wf t'"
  by (auto simp: tt_wf_def tt_CompleteRequest_def distinct_delete)

text \<open>Deleting from the map while ranging over it splits the map into late and other requests.\<close>

lemma tt_scan_filter:
  assumes "distinct (map fst (seen @ todo))"
  shows "tt_scan late todo (seen @ todo) out =
    (seen @ filter (\<lambda>(_, s). \<not> late s) todo, out @ map fst (filter (\<lambda>(_, s). late s) todo))"
  using assms
proof (induction todo arbitrary: seen out)
  case Nil
  then show ?case by simp
next
  case (Cons p todo)
  obtain m s where p: "p = (m, s)" by (cases p)
  show ?case
  proof (cases "late s")
    case True
    have "AList.delete m (seen @ (m, s) # todo) = seen @ todo"
      using Cons.prems p by (simp add: delete_append)
    with True p Cons.IH [of seen] Cons.prems show ?thesis by simp
  next
    case False
    with p Cons.IH [of "seen @ [p]"] Cons.prems show ?thesis by simp
  qed
qed

text \<open>A timeout check reports exactly the requests that have been active for longer than the
  timeout, keeps exactly the others with their start times, and loses none.\<close>

lemma check_timeouts_exact:
  assumes "tt_wf t" and "tt_CheckTimeouts now (Some t) = (Some t', late)"
  shows "set late = {m. \<exists>s. map_of (tt_activeRequests t) m = Some s \<and>
           now - s > tt_timeoutSeconds t * second} \<and>
    map_of (tt_activeRequests t') = map_of (tt_activeRequests t) |` (- set late) \<and>
    distinct late \<and> tt_wf t'"
proof -
  let ?a = "tt_activeRequests t" and ?d = "tt_timeoutSeconds t * second"
  have d: "distinct (map fst ?a)" using assms(1) by (simp add: tt_wf_def)
  have "in64 ?d" using assms(1) by (simp add: tt_wf_def in64_def)
  then have eq: "tt_activeRequests t' = filter (\<lambda>(_, s). \<not> ?d < now - s) ?a"
    "late = map fst (filter (\<lambda>(_, s). ?d < now - s) ?a)"
    "tt_timeoutSeconds t' = tt_timeoutSeconds t"
    using assms(2) tt_scan_filter [of "[]" ?a "\<lambda>s. ?d < now - s" "[]"] d
    by (auto simp: tt_CheckTimeouts_def Let_def)
  have set_late: "set late = {m. \<exists>s. map_of ?a m = Some s \<and> now - s > ?d}"
    using d by (auto simp: eq(2) image_iff split: prod.splits)
  moreover have "map_of (tt_activeRequests t') = map_of ?a |` (- set late)"
    unfolding set_late eq(1)
    by (rule ext) (auto simp: map_of_filter [OF d] restrict_map_def split: option.splits)
  moreover have "distinct late" "tt_wf t'"
    using assms(1) d eq by (auto simp: tt_wf_def)
  ultimately show ?thesis by blast
qed

end
