(* ===== verification/Messaging.thy ===== *)
theory Messaging
  imports Prelude
begin

text \<open>
  Messages and their addressing: \<open>internal/nectar\<close> (the message type, \<open>topic.go\<close>,
  \<open>codec.go\<close>, the subscription table of \<open>bus.go\<close>), the validation of namespaces in
  \<open>internal/api/validation.go\<close>, and the dead letter queue \<open>internal/dlq/dlq.go\<close>.

  The transport (the NATS server and client, an external package) is not modelled: of
  \<open>bus.go\<close> the theory has the subjects the bus computes and the table of subscriptions.
\<close>

section \<open>Messages and topics\<close>

record message =
  msg_ID :: string
  msg_Type :: string
  msg_Payload :: string
  msg_Metadata :: "(string \<times> string) list"
  msg_Timestamp :: time
  msg_Source :: string
  msg_SessionID :: string

definition PrefixTopic :: "string \<Rightarrow> string \<Rightarrow> string" where
  "PrefixTopic namespace topic =
    (if namespace = '''' then topic else ''cell.'' @ namespace @ ''.'' @ topic)"

text \<open>The loop that finds the first dot: what stands before and after it.\<close>

fun split_dot :: "string \<Rightarrow> string \<Rightarrow> (string \<times> string) option" where
  "split_dot pre [] = None"
| "split_dot pre (c # cs) = (if c = CHR ''.'' then Some (pre, cs) else split_dot (pre @ [c]) cs)"

definition ExtractNamespace :: "string \<Rightarrow> string \<times> string" where
  "ExtractNamespace prefixedTopic =
    (if length prefixedTopic < length ''cell.'' \<or> take (length ''cell.'') prefixedTopic \<noteq> ''cell.''
     then ('''', prefixedTopic)
     else case split_dot '''' (drop (length ''cell.'') prefixedTopic) of
            Some (ns, topic) \<Rightarrow> (ns, topic)
          | None \<Rightarrow> ('''', prefixedTopic))"

definition subjectForTopic :: "string \<Rightarrow> string" where
  "subjectForTopic topic = ''nectar.'' @ topic"

text \<open>\<open>encodeMessage\<close> stamps the message it is given (the caller's) before it marshals it;
  \<open>enc\<close> is \<open>json.Marshal\<close>, \<open>dec\<close> is \<open>json.Unmarshal\<close>.\<close>

definition encodeMessage :: "(message \<Rightarrow> string option) \<Rightarrow> time \<Rightarrow> message \<Rightarrow> message \<times> string option" where
  "encodeMessage enc now msg =
    (let msg = (if msg_Timestamp msg = zero_time then msg\<lparr>msg_Timestamp := now\<rparr> else msg)
     in (msg, enc msg))"

definition decodeMessage :: "(string \<Rightarrow> message option) \<Rightarrow> string \<Rightarrow> message option" where
  "decodeMessage dec data = dec data"

section \<open>Namespaces\<close>

text \<open>\<open>namespaceRegex\<close>, \<open>^[a-z0-9]([-a-z0-9]*[a-z0-9])?$\<close>: letters, digits and dashes, with a
  letter or digit at both ends.\<close>

definition ns_alnum :: "char \<Rightarrow> bool" where
  "ns_alnum c \<longleftrightarrow> (let n = (of_char c :: nat) in 97 \<le> n \<and> n \<le> 122 \<or> 48 \<le> n \<and> n \<le> 57)"

definition namespaceRegex :: "string \<Rightarrow> bool" where
  "namespaceRegex s \<longleftrightarrow> s \<noteq> [] \<and> ns_alnum (hd s) \<and> ns_alnum (last s) \<and>
    list_all (\<lambda>c. c = CHR ''-'' \<or> ns_alnum c) s"

datatype namespace_error =
    NamespaceRequired
  | NamespaceTooLong
  | NamespaceFormat
  | ResourceNamespaceRequired
  | NamespaceMismatch string string

definition validateNamespace :: "string \<Rightarrow> namespace_error option" where
  "validateNamespace namespace =
    (if namespace = '''' then Some NamespaceRequired
     else if length namespace > 253 then Some NamespaceTooLong
     else if \<not> namespaceRegex namespace then Some NamespaceFormat
     else None)"

definition validateResourceNamespace :: "string \<Rightarrow> string \<Rightarrow> namespace_error option" where
  "validateResourceNamespace resourceNamespace urlNamespace =
    (if resourceNamespace = '''' then Some ResourceNamespaceRequired
     else if resourceNamespace \<noteq> urlNamespace
     then Some (NamespaceMismatch resourceNamespace urlNamespace)
     else validateNamespace resourceNamespace)"

lemma namespaceRegex_chars: "namespaceRegex ns \<Longrightarrow> c \<in> set ns \<Longrightarrow> c = CHR ''-'' \<or> ns_alnum c"
  by (simp add: namespaceRegex_def list_all_iff)

lemma not_alnum [simp]: "\<not> ns_alnum CHR ''.''" "\<not> ns_alnum CHR ''/''" "\<not> ns_alnum CHR '':''"
  by (simp_all add: ns_alnum_def)

lemma validNamespace_chars:
  assumes "validateNamespace ns = None"
  shows "ns \<noteq> []" and "CHR ''.'' \<notin> set ns" and "CHR ''/'' \<notin> set ns" and "CHR '':'' \<notin> set ns"
proof -
  have ns: "ns \<noteq> [] \<and> namespaceRegex ns" using assms by (simp add: validateNamespace_def split: if_splits)
  then show "ns \<noteq> []" by simp
  have "c \<notin> set ns" if "c \<noteq> CHR ''-''" "\<not> ns_alnum c" for c
    using namespaceRegex_chars [of ns c] ns that by blast
  from this [of "CHR ''.''"] this [of "CHR ''/''"] this [of "CHR '':''"]
  show "CHR ''.'' \<notin> set ns" "CHR ''/'' \<notin> set ns" "CHR '':'' \<notin> set ns" by simp_all
qed

lemma split_dot_append: "CHR ''.'' \<notin> set ns \<Longrightarrow> split_dot pre (ns @ CHR ''.'' # t) = Some (pre @ ns, t)"
  by (induction ns arbitrary: pre) auto

lemma extract_prefix: "validateNamespace n = None \<Longrightarrow> ExtractNamespace (PrefixTopic n t) = (n, t)"
  using validNamespace_chars [of n] by (simp add: PrefixTopic_def ExtractNamespace_def split_dot_append)

lemma prefix_topic_inj:
  assumes "validateNamespace n = None" and "validateNamespace n' = None"
  shows "PrefixTopic n t = PrefixTopic n' t' \<longleftrightarrow> n = n' \<and> t = t'"
  by (metis extract_prefix [OF assms(1), of t] extract_prefix [OF assms(2), of t'] Pair_inject)

text \<open>C31: Topics of different cells never meet.  A topic prefixed with a namespace the API
  accepts is split back into exactly that namespace and topic, so the subjects of two cells
  are equal only if cell and topic are.\<close>

theorem topic_isolation:
  assumes "validateNamespace ns = None" and "validateNamespace ns' = None"
  shows "ExtractNamespace (PrefixTopic ns topic) = (ns, topic) \<and>
    (subjectForTopic (PrefixTopic ns topic) = subjectForTopic (PrefixTopic ns' topic') \<longleftrightarrow>
      ns = ns' \<and> topic = topic')"
  using prefix_topic_inj [OF assms] extract_prefix [OF assms(1)] by (simp add: subjectForTopic_def)

lemma topic_isolation_witness:
  "ExtractNamespace (PrefixTopic ''prod'' ''agent.in'') = (''prod'', ''agent.in'')"
  by (rule topic_isolation [THEN conjunct1, of _ "''prod''"])
    (simp_all add: validateNamespace_def namespaceRegex_def ns_alnum_def)

section \<open>The dead letter queue\<close>

record dlq_message =
  dm_ID :: string
  dm_OriginalMsg :: message
  dm_FailureReason :: string
  dm_FailureTime :: time
  dm_Attempts :: int
  dm_Metadata :: "(string \<times> string) list"

record dlq_queue =
  q_messages :: "dlq_message list"
  q_maxSize :: nat

text \<open>The manager maps the key \<open>namespace/hiveName\<close> to a queue.  \<open>AddMessage\<close> creates the
  queue under the manager's lock and fills it under the queue's; queues are never removed,
  so the two sections act as one.\<close>

type_synonym dlq_manager = "string \<rightharpoonup> dlq_queue"

datatype dlq_error = DLQNotFound string string | DLQMessageNotFound string

definition dlq_NewManager :: dlq_manager where
  "dlq_NewManager = Map.empty"

definition dlq_key :: "string \<Rightarrow> string \<Rightarrow> string" where
  "dlq_key namespace hiveName = namespace @ ''/'' @ hiveName"

definition dlq_AddMessage :: "time \<Rightarrow> time \<Rightarrow> string \<Rightarrow> string \<Rightarrow> message \<Rightarrow> string \<Rightarrow> int \<Rightarrow> dlq_manager \<Rightarrow>
    dlq_manager" where
  "dlq_AddMessage now1 now2 namespace hiveName msg failureReason attempts m =
    (let key = dlq_key namespace hiveName;
         q = (case m key of None \<Rightarrow> \<lparr>q_messages = [], q_maxSize = 1000\<rparr> | Some q \<Rightarrow> q);
         dlqMsg = \<lparr>dm_ID = msg_ID msg @ ''-'' @ int_str now1, dm_OriginalMsg = msg,
                   dm_FailureReason = failureReason, dm_FailureTime = now2,
                   dm_Attempts = attempts, dm_Metadata = []\<rparr>;
         q = (if length (q_messages q) \<ge> q_maxSize q then q\<lparr>q_messages := tl (q_messages q)\<rparr> else q);
         q = q\<lparr>q_messages := q_messages q @ [dlqMsg]\<rparr>
     in m(key \<mapsto> q))"

definition dlq_ListMessages :: "string \<Rightarrow> string \<Rightarrow> dlq_manager \<Rightarrow> dlq_message list" where
  "dlq_ListMessages namespace hiveName m =
    (case m (dlq_key namespace hiveName) of None \<Rightarrow> [] | Some q \<Rightarrow> q_messages q)"

definition dlq_GetMessage :: "string \<Rightarrow> string \<Rightarrow> string \<Rightarrow> dlq_manager \<Rightarrow> dlq_error + dlq_message" where
  "dlq_GetMessage namespace hiveName messageID m =
    (case m (dlq_key namespace hiveName) of
       None \<Rightarrow> Inl (DLQNotFound namespace hiveName)
     | Some q \<Rightarrow>
        (case find (\<lambda>msg. dm_ID msg = messageID) (q_messages q) of
           Some msg \<Rightarrow> Inr msg
         | None \<Rightarrow> Inl (DLQMessageNotFound messageID)))"

definition dlq_ClearMessages :: "string \<Rightarrow> string \<Rightarrow> dlq_manager \<Rightarrow> dlq_manager" where
  "dlq_ClearMessages namespace hiveName m =
    (case m (dlq_key namespace hiveName) of
       None \<Rightarrow> m
     | Some q \<Rightarrow> m(dlq_key namespace hiveName \<mapsto> q\<lparr>q_messages := []\<rparr>))"

definition dlq_DeleteMessage :: "string \<Rightarrow> string \<Rightarrow> string \<Rightarrow> dlq_manager \<Rightarrow>
    dlq_manager \<times> dlq_error option" where
  "dlq_DeleteMessage namespace hiveName messageID m =
    (case m (dlq_key namespace hiveName) of
       None \<Rightarrow> (m, Some (DLQNotFound namespace hiveName))
     | Some q \<Rightarrow>
        (if \<exists>msg \<in> set (q_messages q). dm_ID msg = messageID
         then (m(dlq_key namespace hiveName \<mapsto>
                 q\<lparr>q_messages := remove_first (\<lambda>msg. dm_ID msg = messageID) (q_messages q)\<rparr>), None)
         else (m, Some (DLQMessageNotFound messageID))))"

definition dlq_GetQueueSize :: "string \<Rightarrow> string \<Rightarrow> dlq_manager \<Rightarrow> nat" where
  "dlq_GetQueueSize namespace hiveName m =
    (case m (dlq_key namespace hiveName) of None \<Rightarrow> 0 | Some q \<Rightarrow> length (q_messages q))"

definition GetDLQTopic :: "string \<Rightarrow> string \<Rightarrow> string \<Rightarrow> string" where
  "GetDLQTopic namespace hiveName configuredTopic =
    (if configuredTopic \<noteq> '''' then configuredTopic else ''dlq.'' @ namespace @ ''.'' @ hiveName)"

subsection \<open>Runs of the manager\<close>

datatype dlq_op =
    DAdd time time string string message string int
  | DClear string string
  | DDelete string string string

fun dlq_exec :: "dlq_op \<Rightarrow> dlq_manager \<Rightarrow> dlq_manager" where
  "dlq_exec (DAdd now1 now2 ns h msg reason attempts) m = dlq_AddMessage now1 now2 ns h msg reason attempts m"
| "dlq_exec (DClear ns h) m = dlq_ClearMessages ns h m"
| "dlq_exec (DDelete ns h i) m = fst (dlq_DeleteMessage ns h i m)"

fun dlq_op_key :: "dlq_op \<Rightarrow> string" where
  "dlq_op_key (DAdd _ _ ns h _ _ _) = dlq_key ns h"
| "dlq_op_key (DClear ns h) = dlq_key ns h"
| "dlq_op_key (DDelete ns h _) = dlq_key ns h"

definition dlq_inv :: "dlq_manager \<Rightarrow> bool" where
  "dlq_inv m \<longleftrightarrow> (\<forall>key q. m key = Some q \<longrightarrow> q_maxSize q = 1000 \<and> length (q_messages q) \<le> 1000)"

lemma dlq_invD: "dlq_inv m \<Longrightarrow> m key = Some q \<Longrightarrow> q_maxSize q = 1000 \<and> length (q_messages q) \<le> 1000"
  by (simp add: dlq_inv_def)

lemma dlq_inv_upd: "dlq_inv m \<Longrightarrow> q_maxSize q = 1000 \<Longrightarrow> length (q_messages q) \<le> 1000 \<Longrightarrow> dlq_inv (m(key \<mapsto> q))"
  by (simp add: dlq_inv_def)

lemma dlq_exec_inv: "dlq_inv m \<Longrightarrow> dlq_inv (dlq_exec op m)"
proof (cases op)
  case (DAdd now1 now2 ns h msg reason attempts)
  assume "dlq_inv m"
  then show ?thesis unfolding DAdd dlq_exec.simps dlq_AddMessage_def Let_def
    by (intro dlq_inv_upd) (auto dest: dlq_invD split: option.splits)
next
  case (DDelete ns h i)
  assume "dlq_inv m"
  then show ?thesis unfolding DDelete
    by (auto simp: dlq_DeleteMessage_def dest: dlq_invD intro!: dlq_inv_upd
        order_trans [OF length_remove_first_le] split: option.splits)
qed (auto simp: dlq_ClearMessages_def dest: dlq_invD intro!: dlq_inv_upd split: option.splits)

lemma dlq_run_inv: "dlq_inv (fold dlq_exec ops dlq_NewManager)"
proof -
  have "dlq_inv m \<Longrightarrow> dlq_inv (fold dlq_exec ops m)" for m
    by (induction ops arbitrary: m) (simp_all add: dlq_exec_inv)
  moreover have "dlq_inv dlq_NewManager" by (simp add: dlq_inv_def dlq_NewManager_def)
  ultimately show ?thesis by blast
qed

lemma dlq_exec_other: "key \<noteq> dlq_op_key op \<Longrightarrow> dlq_exec op m key = m key"
  by (cases op) (auto simp: dlq_AddMessage_def dlq_ClearMessages_def dlq_DeleteMessage_def Let_def
      split: option.splits)

lemma dlq_key_inject:
  assumes "validateNamespace ns = None" and "validateNamespace ns' = None"
  shows "dlq_key ns h = dlq_key ns' h' \<longleftrightarrow> ns = ns' \<and> h = h'"
  using append_sep_inject [of ns "CHR ''/''" h ns' h'] validNamespace_chars(3) [OF assms(1)]
    validNamespace_chars(3) [OF assms(2)] by (auto simp: dlq_key_def)

lemma dlq_AddMessage_window:
  assumes "dlq_inv m"
  shows "dlq_ListMessages ns h (dlq_AddMessage now1 now2 ns h msg reason attempts m) =
    drop (length (dlq_ListMessages ns h m) - 999) (dlq_ListMessages ns h m) @
    [\<lparr>dm_ID = msg_ID msg @ ''-'' @ int_str now1, dm_OriginalMsg = msg, dm_FailureReason = reason,
      dm_FailureTime = now2, dm_Attempts = attempts, dm_Metadata = []\<rparr>]"
proof (cases "m (dlq_key ns h)")
  case None
  then show ?thesis by (simp add: dlq_AddMessage_def dlq_ListMessages_def Let_def)
next
  case (Some q)
  from dlq_invD [OF assms Some] have q: "q_maxSize q = 1000" "length (q_messages q) \<le> 1000" by auto
  show ?thesis
  proof (cases "length (q_messages q) = 1000")
    case True
    then show ?thesis using Some q by (simp add: dlq_AddMessage_def dlq_ListMessages_def Let_def drop_Suc)
  next
    case False
    then show ?thesis using Some q by (simp add: dlq_AddMessage_def dlq_ListMessages_def Let_def)
  qed
qed

text \<open>The messages a run adds to one hive, as entries of its queue.\<close>

fun dlq_added :: "string \<Rightarrow> dlq_op list \<Rightarrow> dlq_message list" where
  "dlq_added key [] = []"
| "dlq_added key (DAdd now1 now2 ns h msg reason attempts # ops) =
    (if dlq_key ns h = key
     then \<lparr>dm_ID = msg_ID msg @ ''-'' @ int_str now1, dm_OriginalMsg = msg, dm_FailureReason = reason,
           dm_FailureTime = now2, dm_Attempts = attempts, dm_Metadata = []\<rparr> # dlq_added key ops
     else dlq_added key ops)"
| "dlq_added key (op # ops) = dlq_added key ops"

fun is_dadd :: "dlq_op \<Rightarrow> bool" where
  "is_dadd (DAdd _ _ _ _ _ _ _) = True"
| "is_dadd _ = False"

lemma dlq_adds_window:
  assumes "dlq_inv m" and "\<forall>op \<in> set ops. dlq_op_key op = dlq_key ns h \<longrightarrow> is_dadd op"
  shows "dlq_ListMessages ns h (fold dlq_exec ops m) =
    (let all = dlq_ListMessages ns h m @ dlq_added (dlq_key ns h) ops in drop (length all - 1000) all)"
  using assms
proof (induction ops arbitrary: m)
  case Nil
  then have "length (dlq_ListMessages ns h m) \<le> 1000"
    by (auto simp: dlq_ListMessages_def dest: dlq_invD split: option.splits)
  then show ?case by simp
next
  case (Cons op ops)
  have len: "length (dlq_ListMessages ns h m) \<le> 1000"
    using Cons.prems(1) by (auto simp: dlq_ListMessages_def dest: dlq_invD split: option.splits)
  have IH: "dlq_ListMessages ns h (fold dlq_exec ops (dlq_exec op m)) =
      (let all = dlq_ListMessages ns h (dlq_exec op m) @ dlq_added (dlq_key ns h) ops
       in drop (length all - 1000) all)"
    using Cons.prems by (intro Cons.IH dlq_exec_inv) auto
  show ?case
  proof (cases "dlq_op_key op = dlq_key ns h")
    case False
    then have "dlq_exec op m (dlq_key ns h) = m (dlq_key ns h)" by (simp add: dlq_exec_other)
    then have same: "dlq_ListMessages ns h (dlq_exec op m) = dlq_ListMessages ns h m"
      by (simp add: dlq_ListMessages_def)
    have "dlq_added (dlq_key ns h) (op # ops) = dlq_added (dlq_key ns h) ops"
      using False by (cases op) auto
    then show ?thesis using IH same by simp
  next
    case True
    then have "is_dadd op" using Cons.prems(2) by simp
    then obtain now1 now2 ns' h' msg reason attempts
      where op: "op = DAdd now1 now2 ns' h' msg reason attempts" by (cases op) auto
    define e where "e = \<lparr>dm_ID = msg_ID msg @ ''-'' @ int_str now1, dm_OriginalMsg = msg,
        dm_FailureReason = reason, dm_FailureTime = now2, dm_Attempts = attempts, dm_Metadata = []\<rparr>"
    have key: "dlq_key ns' h' = dlq_key ns h" using True op by simp
    have "dlq_ListMessages ns h (dlq_exec op m) = dlq_ListMessages ns' h' (dlq_exec op m)"
      by (simp add: dlq_ListMessages_def key)
    also have "\<dots> = drop (length (dlq_ListMessages ns h m) - 999) (dlq_ListMessages ns h m) @ [e]"
      using dlq_AddMessage_window [OF Cons.prems(1), of ns' h' now1 now2 msg reason attempts]
      by (simp add: op e_def) (simp add: dlq_ListMessages_def key)
    finally have step: "dlq_ListMessages ns h (dlq_exec op m) =
        drop (length (dlq_ListMessages ns h m) - 999) (dlq_ListMessages ns h m) @ [e]" .
    have add: "dlq_added (dlq_key ns h) (op # ops) = e # dlq_added (dlq_key ns h) ops"
      by (simp add: op key e_def)
    show ?thesis
    proof (cases "length (dlq_ListMessages ns h m) = 1000")
      case True
      then show ?thesis using IH step add by (simp add: Let_def drop_append Suc_diff_le)
    next
      case False
      then show ?thesis using IH step add len by (simp add: Let_def)
    qed
  qed
qed

text \<open>A dead letter queue is a window on what was added.  In every reachable state, after
  any further operations that on this hive only add, the queue holds the last 1000 of its old
  messages and the added ones, oldest first; operations on other hives do not show, because
  the keys of hives in namespaces the API accepts never collide.\<close>

lemma dlq_keeps_last_1000:
  assumes "m = fold dlq_exec ops dlq_NewManager"
    and "\<forall>op \<in> set ops'. dlq_op_key op = dlq_key ns h \<longrightarrow> is_dadd op"
    and "all = dlq_ListMessages ns h m @ dlq_added (dlq_key ns h) ops'"
    and "validateNamespace ns = None" and "validateNamespace ns' = None" and "(ns', h') \<noteq> (ns, h)"
  shows "dlq_ListMessages ns h (fold dlq_exec ops' m) = drop (length all - 1000) all \<and>
    dlq_GetQueueSize ns h (fold dlq_exec ops' m) = min 1000 (length all) \<and>
    dlq_ListMessages ns' h' (dlq_AddMessage now1 now2 ns h msg reason attempts m) =
      dlq_ListMessages ns' h' m"
proof -
  have inv: "dlq_inv m" using assms(1) dlq_run_inv by simp
  have size: "dlq_GetQueueSize ns h x = length (dlq_ListMessages ns h x)" for x
    by (simp add: dlq_GetQueueSize_def dlq_ListMessages_def split: option.splits)
  have window: "dlq_ListMessages ns h (fold dlq_exec ops' m) = drop (length all - 1000) all"
    using dlq_adds_window [OF inv assms(2)] unfolding Let_def assms(3) by blast
  have "dlq_key ns' h' \<noteq> dlq_key ns h" using assms(4-6) by (auto simp: dlq_key_inject)
  then have "dlq_AddMessage now1 now2 ns h msg reason attempts m (dlq_key ns' h') = m (dlq_key ns' h')"
    using dlq_exec_other [of "dlq_key ns' h'" "DAdd now1 now2 ns h msg reason attempts" m] by simp
  then have "dlq_ListMessages ns' h' (dlq_AddMessage now1 now2 ns h msg reason attempts m) =
      dlq_ListMessages ns' h' m" by (simp add: dlq_ListMessages_def)
  moreover have "length (drop (length all - 1000) all) = min 1000 (length all)"
    unfolding length_drop by arith
  ultimately show ?thesis using window size by metis
qed

definition sample_message :: message where
  "sample_message = \<lparr>msg_ID = ''m1'', msg_Type = ''request'', msg_Payload = ''{}'', msg_Metadata = [],
     msg_Timestamp = 5, msg_Source = ''client'', msg_SessionID = ''s''\<rparr>"

section \<open>The bus\<close>

text \<open>\<open>internal/nectar/bus.go\<close>.  NATS is a parameter: whether its JetStream context can be had,
  whether it takes data for a subject, and the subscription it makes for a subject (\<open>None\<close> if it
  fails).  \<open>NewBus\<close> only configures and starts it.\<close>

datatype bus_error =
    BusEncodeFailed
  | JetStreamUnavailable
  | NatsPublishFailed
  | SubscribeFailed

record bus =
  bu_persistent :: bool
  bu_subs :: "(string \<times> nat) list"

definition bus_Publish :: "(message \<Rightarrow> string option) \<Rightarrow> bool \<Rightarrow> (string \<Rightarrow> string \<Rightarrow> bool) \<Rightarrow> time \<Rightarrow> string \<Rightarrow> message \<Rightarrow>
    bus \<Rightarrow> message \<times> bus_error option" where
  "bus_Publish enc jetstream send now topic msg b =
    (case encodeMessage enc now msg of
       (msg, None) \<Rightarrow> (msg, Some BusEncodeFailed)
     | (msg, Some data) \<Rightarrow>
        (if bu_persistent b \<and> \<not> jetstream then (msg, Some JetStreamUnavailable)
         else if send (subjectForTopic topic) data then (msg, None)
         else (msg, Some NatsPublishFailed)))"

text \<open>The callbacks of the two kinds of subscription, on the state \<open>'s\<close> of the handler.  Only a
  queue subscription of a persistent bus answers NATS.\<close>

definition sub_callback :: "(string \<Rightarrow> message option) \<Rightarrow> (message \<Rightarrow> 's \<Rightarrow> 's \<times> 'e option) \<Rightarrow> string \<Rightarrow> 's \<Rightarrow> 's" where
  "sub_callback dec handler data s =
    (case decodeMessage dec data of None \<Rightarrow> s | Some msg \<Rightarrow> fst (handler msg s))"

datatype nats_answer = NoAnswer | Ack | Nak

definition queue_callback :: "bus \<Rightarrow> (string \<Rightarrow> message option) \<Rightarrow> (message \<Rightarrow> 's \<Rightarrow> 's \<times> 'e option) \<Rightarrow> string \<Rightarrow> 's \<Rightarrow>
    's \<times> nats_answer" where
  "queue_callback b dec handler data s =
    (case decodeMessage dec data of
       None \<Rightarrow> (s, NoAnswer)
     | Some msg \<Rightarrow>
        (case handler msg s of
           (s, Some _) \<Rightarrow> (s, if bu_persistent b then Nak else NoAnswer)
         | (s, None) \<Rightarrow> (s, if bu_persistent b then Ack else NoAnswer)))"

definition bus_subscribe :: "bool \<Rightarrow> (string \<Rightarrow> nat option) \<Rightarrow> string \<Rightarrow> string \<Rightarrow> bus \<Rightarrow> bus \<times> (bus_error + nat)" where
  "bus_subscribe jetstream subscribe subject key b =
    (if bu_persistent b \<and> \<not> jetstream then (b, Inl JetStreamUnavailable)
     else case subscribe subject of
       None \<Rightarrow> (b, Inl SubscribeFailed)
     | Some sub \<Rightarrow> (b\<lparr>bu_subs := AList.update key sub (bu_subs b)\<rparr>, Inr sub))"

definition bus_Subscribe :: "bool \<Rightarrow> (string \<Rightarrow> nat option) \<Rightarrow> string \<Rightarrow> bus \<Rightarrow> bus \<times> (bus_error + nat)" where
  "bus_Subscribe jetstream subscribe topic = bus_subscribe jetstream subscribe (''nectar.'' @ topic) topic"

definition bus_QueueSubscribe :: "bool \<Rightarrow> (string \<Rightarrow> nat option) \<Rightarrow> string \<Rightarrow> string \<Rightarrow> bus \<Rightarrow> bus \<times> (bus_error + nat)" where
  "bus_QueueSubscribe jetstream subscribe topic queue =
    bus_subscribe jetstream subscribe (subjectForTopic topic) (topic @ '':'' @ queue)"

text \<open>The bus after \<open>Close\<close>, and the subscriptions it has cancelled.\<close>

definition bus_Close :: "bus \<Rightarrow> bus \<times> nat list" where
  "bus_Close b = (b\<lparr>bu_subs := []\<rparr>, map snd (bu_subs b))"

text \<open>A published message reaches the handlers of its topic as it was stamped, and is sent to no
  other subject.\<close>

lemma bus_round_trip:
  assumes "\<And>m d. enc m = Some d \<Longrightarrow> dec d = Some m" and "bus_Publish enc jetstream send now topic msg b = (msg', None)"
  shows "msg' = (if msg_Timestamp msg = zero_time then msg\<lparr>msg_Timestamp := now\<rparr> else msg) \<and>
    (\<exists>data. send (subjectForTopic topic) data \<and> (\<forall>handler s. sub_callback dec handler data s = fst (handler msg' s)))"
  using assms
  by (auto simp: bus_Publish_def encodeMessage_def Let_def sub_callback_def decodeMessage_def
      split: option.splits if_splits)

text \<open>A message whose handler fails is lost: without a queue NATS gets no answer, so the error of a
  handler changes nothing but the handler's own state.\<close>

lemma failed_handler_loses_message:
  assumes "decodeMessage dec data = Some msg" and "handler msg s = (s', Some e)"
  shows "sub_callback dec handler data s = s'" and "snd (queue_callback b dec handler data s) \<noteq> Ack"
  using assms by (simp_all add: sub_callback_def queue_callback_def)

text \<open>A second subscription to a topic replaces the first in the table, so \<open>Close\<close> does not cancel
  the first.\<close>

lemma second_subscription_forgets_first:
  assumes "bus_Subscribe True sub1 topic b = (b1, Inr s1)" and "bus_Subscribe True sub2 topic b1 = (b2, Inr s2)"
    and "distinct (map fst (bu_subs b))" "s1 \<notin> snd ` set (bu_subs b)" "s1 \<noteq> s2"
  shows "s1 \<notin> set (snd (bus_Close b2))"
proof -
  have b1: "bu_subs b1 = AList.update topic s1 (bu_subs b)" and b2: "bu_subs b2 = AList.update topic s2 (bu_subs b1)"
    using assms(1,2) by (auto simp: bus_Subscribe_def bus_subscribe_def split: if_splits option.splits)
  have d: "distinct (map fst (bu_subs b2))" using assms(3) by (simp add: b1 b2 distinct_update)
  have "s1 \<notin> snd ` set (bu_subs b2)"
  proof
    assume "s1 \<in> snd ` set (bu_subs b2)"
    then obtain k where "map_of (bu_subs b2) k = Some s1" using d by force
    then have "k \<noteq> topic" "map_of (bu_subs b) k = Some s1"
      using assms(5) by (auto simp: b1 b2 update_conv' split: if_splits)
    then show False using assms(4) map_of_SomeD by force
  qed
  then show ?thesis by (simp add: bus_Close_def)
qed

end
