(* ===== verification/Access_Control.thy ===== *)
theory Access_Control
  imports Prelude
begin

text \<open>
  Package \<open>internal/auth\<close>: the role assignments of each cell (\<open>rbac.go\<close>) and the decision of
  the HTTP authorization middleware (\<open>middleware.go\<close>).  The web framework is not modelled: a
  request is what the middleware reads of it (the namespace parameter, the method, the
  principal another middleware has put into the context), and the middleware's result is
  the decision, to call the next handler or to answer with a status code.
\<close>

section \<open>Roles\<close>

text \<open>\<open>Role\<close> and \<open>Permission\<close> are Go strings with named constants; a role can be any string.\<close>

type_synonym role = string
type_synonym permission = string

abbreviation RoleAdmin :: role where "RoleAdmin \<equiv> ''admin''"
abbreviation RoleDeveloper :: role where "RoleDeveloper \<equiv> ''developer''"
abbreviation RoleViewer :: role where "RoleViewer \<equiv> ''viewer''"

abbreviation PermissionCreate :: permission where "PermissionCreate \<equiv> ''create''"
abbreviation PermissionRead :: permission where "PermissionRead \<equiv> ''read''"
abbreviation PermissionUpdate :: permission where "PermissionUpdate \<equiv> ''update''"
abbreviation PermissionDelete :: permission where "PermissionDelete \<equiv> ''delete''"

record principal =
  pr_ID :: string
  pr_Name :: string

type_synonym rbac = "(string \<times> (string \<times> role) list) list"

datatype rbac_error = CellRequired | UserRequired | InvalidRole string

definition NewRBAC :: rbac where
  "NewRBAC = []"

definition isValidRole :: "role \<Rightarrow> bool" where
  "isValidRole r \<longleftrightarrow> r = RoleAdmin \<or> r = RoleDeveloper \<or> r = RoleViewer"

definition hasPermission :: "role \<Rightarrow> permission \<Rightarrow> bool" where
  "hasPermission role permission =
    (if role = RoleAdmin then True
     else if role = RoleDeveloper
     then permission = PermissionCreate \<or> permission = PermissionRead \<or> permission = PermissionUpdate
     else if role = RoleViewer then permission = PermissionRead
     else False)"

definition AssignRole :: "string \<Rightarrow> string \<Rightarrow> role \<Rightarrow> rbac \<Rightarrow> rbac \<times> rbac_error option" where
  "AssignRole cell userID role r =
    (if cell = '''' then (r, Some CellRequired)
     else if userID = '''' then (r, Some UserRequired)
     else if \<not> isValidRole role then (r, Some (InvalidRole role))
     else (let userRoles = (case map_of r cell of None \<Rightarrow> [] | Some u \<Rightarrow> u)
           in (AList.update cell (AList.update userID role userRoles) r, None)))"

definition GetRole :: "string \<Rightarrow> string \<Rightarrow> rbac \<Rightarrow> role option" where
  "GetRole cell userID r =
    (case map_of r cell of None \<Rightarrow> None | Some userRoles \<Rightarrow> map_of userRoles userID)"

definition RemoveRole :: "string \<Rightarrow> string \<Rightarrow> rbac \<Rightarrow> rbac" where
  "RemoveRole cell userID r =
    (case map_of r cell of
       None \<Rightarrow> r
     | Some userRoles \<Rightarrow>
        (let userRoles = AList.delete userID userRoles
         in if userRoles = [] then AList.delete cell r else AList.update cell userRoles r))"

definition CheckPermission :: "principal option \<Rightarrow> string \<Rightarrow> permission \<Rightarrow> rbac \<Rightarrow> bool" where
  "CheckPermission p cell permission r =
    (case p of
       None \<Rightarrow> False
     | Some p \<Rightarrow>
        (case GetRole cell (pr_ID p) r of None \<Rightarrow> False | Some role \<Rightarrow> hasPermission role permission))"

definition ListCellRoles :: "string \<Rightarrow> rbac \<Rightarrow> (string \<times> role) list" where
  "ListCellRoles cell r = (case map_of r cell of None \<Rightarrow> [] | Some userRoles \<Rightarrow> userRoles)"

section \<open>The middleware\<close>

record request =
  rq_namespace :: string
  rq_method :: string
  rq_principal :: "principal option"

datatype decision = CallNext | Respond int

definition ExtractPrincipalFromHeader :: "(string \<Rightarrow> string) \<Rightarrow> principal option" where
  "ExtractPrincipalFromHeader header =
    (let userID = header ''X-User-ID''
     in if userID = '''' then None
        else let userName = header ''X-User-Name''
             in Some \<lparr>pr_ID = userID, pr_Name = (if userName = '''' then userID else userName)\<rparr>)"

definition PrincipalMiddleware :: "(string \<Rightarrow> string) \<Rightarrow> request \<Rightarrow> request" where
  "PrincipalMiddleware header rq =
    (case ExtractPrincipalFromHeader header of
       None \<Rightarrow> rq | Some p \<Rightarrow> rq\<lparr>rq_principal := Some p\<rparr>)"

definition method_permission :: "string \<Rightarrow> permission option" where
  "method_permission method =
    (if method = ''GET'' then Some PermissionRead
     else if method = ''POST'' then Some PermissionCreate
     else if method = ''PUT'' \<or> method = ''PATCH'' then Some PermissionUpdate
     else if method = ''DELETE'' then Some PermissionDelete
     else None)"

definition AuthorizationMiddleware :: "bool \<Rightarrow> rbac \<Rightarrow> request \<Rightarrow> decision" where
  "AuthorizationMiddleware requireAuth r rq =
    (if rq_namespace rq = '''' then CallNext
     else case rq_principal rq of
       None \<Rightarrow> (if requireAuth then Respond 401 else CallNext)
     | Some p \<Rightarrow>
        (if \<not> requireAuth then CallNext
         else case method_permission (rq_method rq) of
                None \<Rightarrow> CallNext
              | Some permission \<Rightarrow>
                 (if \<not> CheckPermission (Some p) (rq_namespace rq) permission r then Respond 403
                  else CallNext)))"

definition RequireAuth :: "request \<Rightarrow> int + principal" where
  "RequireAuth rq = (case rq_principal rq of None \<Rightarrow> Inl 401 | Some p \<Rightarrow> Inr p)"

definition RequirePermission :: "rbac \<Rightarrow> request \<Rightarrow> string \<Rightarrow> permission \<Rightarrow> int option" where
  "RequirePermission r rq namespace permission =
    (case RequireAuth rq of
       Inl e \<Rightarrow> Some e
     | Inr p \<Rightarrow> (if \<not> CheckPermission (Some p) namespace permission r then Some 403 else None))"

section \<open>Invariant\<close>

text \<open>The assignments are maps, only valid roles are assigned, and no cell keeps an empty table.\<close>

definition users_ok :: "(string \<times> role) list \<Rightarrow> bool" where
  "users_ok us \<longleftrightarrow> us \<noteq> [] \<and> distinct (map fst us) \<and> (\<forall>p \<in> set us. isValidRole (snd p))"

definition rbac_inv :: "rbac \<Rightarrow> bool" where
  "rbac_inv r \<longleftrightarrow> distinct (map fst r) \<and> (\<forall>p \<in> set r. users_ok (snd p))"

datatype rbac_op = RAssign string string role | RRemove string string

fun rbac_exec :: "rbac_op \<Rightarrow> rbac \<Rightarrow> rbac" where
  "rbac_exec (RAssign cell user role) r = fst (AssignRole cell user role r)"
| "rbac_exec (RRemove cell user) r = RemoveRole cell user r"

lemma rbac_inv_cell:
  "rbac_inv r \<Longrightarrow> map_of r cell = Some us \<Longrightarrow> users_ok us"
  by (auto simp: rbac_inv_def dest!: map_of_SomeD)

lemma in_delete: "(a, b) \<in> set (AList.delete k al) \<Longrightarrow> (a, b) \<in> set al"
  by (induction al) (auto split: if_splits)

lemma rbac_inv_update:
  assumes "rbac_inv r" and "users_ok us"
  shows "rbac_inv (AList.update cell us r)"
proof -
  have "\<forall>p \<in> set (AList.update cell us r). users_ok (snd p)"
    using assms by (intro Ball_update) (auto simp: rbac_inv_def)
  then show ?thesis using assms by (simp add: rbac_inv_def distinct_update)
qed

lemma rbac_inv_delete: "rbac_inv r \<Longrightarrow> rbac_inv (AList.delete cell r)"
  unfolding rbac_inv_def by (auto simp: distinct_delete dest!: in_delete)

lemma update_not_Nil [simp]: "AList.update k v al \<noteq> []"
  by (cases al) auto

lemma rbac_exec_inv [inv_intros]: "rbac_inv r \<Longrightarrow> rbac_inv (rbac_exec op r)"
proof (cases op)
  case (RAssign cell user role)
  assume inv: "rbac_inv r"
  show ?thesis
  proof (cases "cell = '''' \<or> user = '''' \<or> \<not> isValidRole role")
    case True
    then show ?thesis using RAssign inv by (auto simp: AssignRole_def)
  next
    case False
    define us where "us = (case map_of r cell of None \<Rightarrow> [] | Some u \<Rightarrow> u)"
    have "distinct (map fst us) \<and> (\<forall>p \<in> set us. isValidRole (snd p))"
      using rbac_inv_cell [OF inv, of cell] by (cases "map_of r cell") (simp_all add: us_def users_ok_def)
    moreover from this have "\<forall>p \<in> set (AList.update user role us). isValidRole (snd p)"
      using False by (intro Ball_update) auto
    ultimately have "rbac_inv (AList.update cell (AList.update user role us) r)"
      using inv by (intro rbac_inv_update) (auto simp: users_ok_def distinct_update)
    then show ?thesis using RAssign False by (simp add: AssignRole_def us_def Let_def)
  qed
next
  case (RRemove cell user)
  assume inv: "rbac_inv r"
  show ?thesis
  proof (cases "map_of r cell")
    case None
    then show ?thesis using RRemove inv by (simp add: RemoveRole_def)
  next
    case (Some us)
    then have "distinct (map fst us) \<and> (\<forall>p \<in> set us. isValidRole (snd p))"
      using rbac_inv_cell [OF inv, of cell] by (simp add: users_ok_def)
    then have "AList.delete user us \<noteq> [] \<Longrightarrow> rbac_inv (AList.update cell (AList.delete user us) r)"
      using inv by (intro rbac_inv_update) (auto simp: users_ok_def distinct_delete dest!: in_delete)
    then show ?thesis using RRemove Some inv by (simp add: RemoveRole_def Let_def rbac_inv_delete)
  qed
qed

lemma rbac_run_inv: "rbac_inv (fold rbac_exec ops NewRBAC)"
proof -
  have "rbac_inv r \<Longrightarrow> rbac_inv (fold rbac_exec ops r)" for r
    by (induction ops arbitrary: r) (simp_all add: rbac_exec_inv)
  moreover have "rbac_inv NewRBAC" by (simp add: rbac_inv_def NewRBAC_def)
  ultimately show ?thesis by blast
qed

lemma rbac_role_valid: "rbac_inv r \<Longrightarrow> GetRole cell user r = Some role \<Longrightarrow> isValidRole role"
proof -
  assume "rbac_inv r" "GetRole cell user r = Some role"
  then obtain us where us: "users_ok us" "map_of us user = Some role"
    using rbac_inv_cell [of r cell] by (auto simp: GetRole_def split: option.splits)
  from map_of_SomeD [OF us(2)] us(1) show "isValidRole role" unfolding users_ok_def by fastforce
qed

text \<open>The role a run leaves: the last effective assignment or removal decides.\<close>

fun role_spec :: "string \<Rightarrow> string \<Rightarrow> role option \<Rightarrow> rbac_op list \<Rightarrow> role option" where
  "role_spec cell user cur [] = cur"
| "role_spec cell user cur (RAssign c u role # ops) =
    role_spec cell user (if c = cell \<and> u = user \<and> c \<noteq> '''' \<and> u \<noteq> '''' \<and> isValidRole role
      then Some role else cur) ops"
| "role_spec cell user cur (RRemove c u # ops) =
    role_spec cell user (if c = cell \<and> u = user then None else cur) ops"

lemma GetRole_Assign:
  "GetRole cell user (fst (AssignRole c u role r)) =
    (if c = cell \<and> u = user \<and> c \<noteq> '''' \<and> u \<noteq> '''' \<and> isValidRole role then Some role
     else GetRole cell user r)"
  by (auto simp: AssignRole_def GetRole_def Let_def split: option.splits)

lemma delete_Nil_lookup: "AList.delete k al = [] \<Longrightarrow> x \<noteq> k \<Longrightarrow> map_of al x = None"
  by (induction al) (auto split: if_splits)

lemma GetRole_Remove:
  "GetRole cell user (RemoveRole c u r) = (if c = cell \<and> u = user then None else GetRole cell user r)"
  using delete_Nil_lookup [of u "the (map_of r c)" user]
  by (auto simp: RemoveRole_def GetRole_def Let_def split: option.splits)

lemma rbac_run_role: "GetRole cell user (fold rbac_exec ops r) = role_spec cell user (GetRole cell user r) ops"
  by (induction cell user "GetRole cell user r" ops arbitrary: r rule: role_spec.induct)
    (simp_all add: GetRole_Assign GetRole_Remove)

text \<open>With authentication required, a request to a namespaced resource with one of the
  methods the API uses reaches its handler exactly if it carries a principal and the last
  effective assignment for that user in that cell is a role that has the permission of the
  method: admin everything, developer all but delete, viewer only read.  Otherwise it is
  answered with 401 or 403.\<close>

lemma middleware_allows_iff:
  assumes "r = fold rbac_exec ops NewRBAC" and "rq_namespace rq \<noteq> ''''"
    and "rq_method rq \<in> {''GET'', ''POST'', ''PUT'', ''PATCH'', ''DELETE''}"
  shows "AuthorizationMiddleware True r rq =
    (case rq_principal rq of
       None \<Rightarrow> Respond 401
     | Some p \<Rightarrow>
        (if role_spec (rq_namespace rq) (pr_ID p) None ops \<in>
              (if rq_method rq = ''GET'' then {Some RoleAdmin, Some RoleDeveloper, Some RoleViewer}
               else if rq_method rq = ''DELETE'' then {Some RoleAdmin}
               else {Some RoleAdmin, Some RoleDeveloper})
         then CallNext else Respond 403))"
proof (cases "rq_principal rq")
  case None
  then show ?thesis using assms(2) by (simp add: AuthorizationMiddleware_def)
next
  case (Some p)
  have "GetRole c u NewRBAC = None" for c u by (simp add: GetRole_def NewRBAC_def)
  then have role: "GetRole (rq_namespace rq) (pr_ID p) r = role_spec (rq_namespace rq) (pr_ID p) None ops"
    using rbac_run_role [of "rq_namespace rq" "pr_ID p" ops NewRBAC] assms(1) by simp
  show ?thesis
  proof (cases "role_spec (rq_namespace rq) (pr_ID p) None ops")
    case None
    then show ?thesis using Some assms(2,3) role
      by (auto simp: AuthorizationMiddleware_def method_permission_def CheckPermission_def)
  next
    case role2: (Some role)
    then have "isValidRole role"
      using role rbac_role_valid [OF rbac_run_inv [of ops], of "rq_namespace rq" "pr_ID p" role] assms(1) by simp
    then show ?thesis using Some assms(2,3) role role2
      by (auto simp: AuthorizationMiddleware_def method_permission_def CheckPermission_def
          hasPermission_def isValidRole_def)
  qed
qed

text \<open>Any other method passes the middleware without a permission check, whatever role the
  user has in the cell (even none), as long as some principal is named.\<close>

theorem middleware_unknown_method_unchecked:
  assumes "rq_method rq \<notin> {''GET'', ''POST'', ''PUT'', ''PATCH'', ''DELETE''}"
    and "rq_principal rq = Some p"
  shows "AuthorizationMiddleware requireAuth r rq = CallNext"
  using assms by (simp add: AuthorizationMiddleware_def method_permission_def)

lemma middleware_unknown_method_unchecked_witness:
  "AuthorizationMiddleware True NewRBAC \<lparr>rq_namespace = ''prod'', rq_method = ''HEAD'',
      rq_principal = Some \<lparr>pr_ID = ''eve'', pr_Name = ''''\<rparr>\<rparr> = CallNext"
  by (rule middleware_unknown_method_unchecked) simp_all

end
