(* ===== verification/Float64.thy ===== *)
theory Float64
  imports Complex_Main Prelude "HOL-Library.Log_Nat"
begin

text \<open>
  Go's \<open>float64\<close> for the arithmetic of the scheduler and the autoscaler: a value is the
  rational number it denotes, and every operation is the exact one followed by rounding to a
  53-bit significand, to nearest with ties to even.  The values that occur (counts,
  milliseconds, bytes and small factors) stay far inside the exponent range, so overflow,
  subnormal numbers and NaN do not arise and are left out.
\<close>

definition round_half_even :: "rat \<Rightarrow> int" where
  "round_half_even y =
    (let f = \<lfloor>y\<rfloor>; r = y - of_int f
     in if r < 1 / 2 then f else if r > 1 / 2 then f + 1 else if even f then f else f + 1)"

definition pow2 :: "int \<Rightarrow> rat" where
  "pow2 e = (if 0 \<le> e then 2 ^ nat e else 1 / 2 ^ nat (- e))"

text \<open>For a positive \<open>x = n / d\<close> the scaled value \<open>x * 2\<^sup>s\<close> with \<open>s = 53 - (bitlen n - bitlen d)\<close>
  lies between \<open>2\<^sup>5\<^sup>2\<close> and \<open>2\<^sup>5\<^sup>4\<close>; if it reaches \<open>2\<^sup>5\<^sup>3\<close> one bit less is kept.\<close>

definition round_pos :: "rat \<Rightarrow> rat" where
  "round_pos x =
    (let (n, d) = quotient_of x;
         s = 53 - (bitlen n - bitlen d);
         s = (if x * pow2 s < 9007199254740992 then s else s - 1)
     in of_int (round_half_even (x * pow2 s)) * pow2 (- s))"

definition fl :: "rat \<Rightarrow> rat" where
  "fl x = (if x = 0 then 0 else if x < 0 then - round_pos (- x) else round_pos x)"

abbreviation float_of_int :: "int \<Rightarrow> rat" where "float_of_int n \<equiv> fl (of_int n)"

definition fmul :: "rat \<Rightarrow> rat \<Rightarrow> rat" where "fmul x y = fl (x * y)"
definition fdiv :: "rat \<Rightarrow> rat \<Rightarrow> rat" where "fdiv x y = fl (x / y)"
definition fadd :: "rat \<Rightarrow> rat \<Rightarrow> rat" where "fadd x y = fl (x + y)"

text \<open>Conversion to \<open>int64\<close> truncates towards zero.  Go leaves the result open when the value
  does not fit; on amd64 it is the smallest integer.\<close>

definition int64_of_float :: "rat \<Rightarrow> int" where
  "int64_of_float x =
    (let t = (if x < 0 then - \<lfloor>- x\<rfloor> else \<lfloor>x\<rfloor>) in if in64 t then t else - 9223372036854775808)"

section \<open>Exactness on small integers\<close>

lemma pow2_pos [simp]: "0 < pow2 e"
  by (simp add: pow2_def)

lemma pow2_add: "pow2 (a + b) = pow2 a * pow2 b"
proof -
  have "pow2 e = 2 powi e" for e
    by (simp add: pow2_def power_int_def divide_simps)
  then show ?thesis by (simp add: power_int_add)
qed

lemma pow2_minus: "pow2 s * pow2 (- s) = 1"
  by (simp add: pow2_add [symmetric]) (simp add: pow2_def)

lemma round_half_even_int [simp]: "round_half_even (of_int n) = n"
  by (simp add: round_half_even_def Let_def)

lemma round_half_even_mono: "x \<le> y \<Longrightarrow> round_half_even x \<le> round_half_even y"
proof (cases "\<lfloor>x\<rfloor> = \<lfloor>y\<rfloor>")
  case True
  assume "x \<le> y"
  then show ?thesis using True by (auto simp: round_half_even_def Let_def)
next
  case False
  assume "x \<le> y"
  then have "\<lfloor>x\<rfloor> + 1 \<le> \<lfloor>y\<rfloor>" using False floor_mono [of x y] by simp
  moreover have "round_half_even x \<le> \<lfloor>x\<rfloor> + 1" "\<lfloor>y\<rfloor> \<le> round_half_even y"
    by (simp_all add: round_half_even_def Let_def)
  ultimately show ?thesis by simp
qed

text \<open>A value that becomes an integer when scaled is not rounded.\<close>

lemma round_pos_exact:
  assumes "x * pow2 s = of_int m" and "s = (let (n, d) = quotient_of x; s = 53 - (bitlen n - bitlen d)
      in if x * pow2 s < 9007199254740992 then s else s - 1)"
  shows "round_pos x = x"
proof -
  have "round_pos x = of_int (round_half_even (x * pow2 s)) * pow2 (- s)"
    unfolding round_pos_def using assms(2) by (simp add: Let_def split_beta)
  also have "\<dots> = x * pow2 s * pow2 (- s)" using assms(1) by simp
  also have "\<dots> = x" using pow2_minus [of s] by (simp add: mult.assoc)
  finally show ?thesis .
qed

lemma fl_small_int:
  assumes "0 \<le> n" "n < 9007199254740992"
  shows "fl (of_int n) = of_int n"
proof (cases "n = 0")
  case True
  then show ?thesis by (simp add: fl_def)
next
  case False
  then have pos: "0 < n" using assms(1) by simp
  have q: "quotient_of (of_int n) = (n, 1)" by (simp add: quotient_of_int)
  have b1: "bitlen 1 = 1" by code_simp
  have "bitlen n \<le> 53"
    using bitlen_le_iff_power [of n 53] assms(2) pos by simp
  define s where "s = (let (n', d) = quotient_of (rat_of_int n); s = 53 - (bitlen n' - bitlen d)
      in if rat_of_int n * pow2 s < 9007199254740992 then s else s - 1)"
  have "0 \<le> s" using \<open>bitlen n \<le> 53\<close> b1 by (auto simp: s_def q Let_def)
  then have ex: "rat_of_int n * pow2 s = of_int (n * 2 ^ nat s)" by (simp add: pow2_def)
  have "round_pos (rat_of_int n) = rat_of_int n" by (rule round_pos_exact [OF ex s_def])
  then show ?thesis using pos by (simp add: fl_def)
qed

lemma int64_of_float_int: "in64 n \<Longrightarrow> int64_of_float (of_int n) = n"
  by (simp add: int64_of_float_def Let_def)

section \<open>Rounding respects integers\<close>

lemma pow2_of_nat: "pow2 (int k) = 2 ^ k"
  by (simp add: pow2_def)

lemma pow2_mono: "a \<le> b \<Longrightarrow> pow2 a \<le> pow2 b"
proof -
  assume "a \<le> b"
  then have "pow2 b = pow2 a * 2 ^ nat (b - a)" using pow2_add [of a "b - a"] by (simp add: pow2_def)
  moreover have "(1::rat) \<le> 2 ^ nat (b - a)" by simp
  ultimately show ?thesis using mult_left_mono [of 1 "2 ^ nat (b - a)" "pow2 a"] pow2_pos [of a] by simp
qed

text \<open>The scale the rounding of \<open>x\<close> uses, and that it leaves at least 53 bits.\<close>

definition fl_scale :: "rat \<Rightarrow> int" where
  "fl_scale x = (let (n, d) = quotient_of x; s = 53 - (bitlen n - bitlen d)
      in if x * pow2 s < 9007199254740992 then s else s - 1)"

lemma round_pos_scale: "round_pos x = of_int (round_half_even (x * pow2 (fl_scale x))) * pow2 (- fl_scale x)"
  by (simp add: round_pos_def fl_scale_def Let_def split_beta)

lemma fl_scale_big:
  assumes "0 < x"
  shows "4503599627370496 \<le> x * pow2 (fl_scale x)"
proof -
  obtain n d where q: "quotient_of x = (n, d)" by (cases "quotient_of x")
  have d: "0 < d" and x: "x = of_int n / of_int d"
    using quotient_of_denom_pos [OF q] quotient_of_div [OF q] by simp_all
  have n: "0 < n" using assms x d by (simp add: zero_less_divide_iff)
  define s where "s = 53 - (bitlen n - bitlen d)"
  have bn: "2 ^ nat (bitlen n - 1) \<le> n" and bd: "d < 2 ^ nat (bitlen d)"
    using bitlen_bounds [of n] bitlen_bounds [of d] n d by auto
  have b0: "0 < bitlen n" "0 < bitlen d"
    using bitlen_bounds [of n] bitlen_bounds [of d] n d
    by (cases "0 < bitlen n"; cases "0 < bitlen d"; simp)+
  have "pow2 (bitlen n - 1) \<le> of_int n"
    using of_int_le_iff [where 'a = rat, THEN iffD2, OF bn] b0(1) by (simp add: pow2_def)
  moreover have "of_int d \<le> pow2 (bitlen d)"
    using of_int_less_iff [where 'a = rat, THEN iffD2, OF bd] b0(2) by (simp add: pow2_def)
  ultimately have "pow2 (bitlen n - 1) * of_int d \<le> of_int n * pow2 (bitlen d)"
    using d n by (intro mult_mono) simp_all
  then have "pow2 (bitlen n - 1) \<le> x * pow2 (bitlen d)" using d by (simp add: x field_simps)
  then have "pow2 (bitlen n - 1) * pow2 (53 - bitlen n) \<le> x * pow2 (bitlen d) * pow2 (53 - bitlen n)"
    by (rule mult_right_mono) (simp add: less_imp_le)
  then have "pow2 52 \<le> x * pow2 s" by (simp add: mult.assoc pow2_add [symmetric] s_def algebra_simps)
  then have big: "4503599627370496 \<le> x * pow2 s" by (simp add: pow2_def)
  have "pow2 s = pow2 (s - 1) * 2" using pow2_add [of "s - 1" 1] by (simp add: pow2_def [of 1])
  then have "x * pow2 (s - 1) = x * pow2 s / 2" by simp
  then have "4503599627370496 \<le> x * pow2 (s - 1)" if "\<not> x * pow2 s < 9007199254740992"
    using that by linarith
  with big show ?thesis by (auto simp: fl_scale_def q Let_def s_def [symmetric])
qed

lemma round_half_even_ge: "of_int n \<le> y \<Longrightarrow> n \<le> round_half_even y"
  using round_half_even_mono [of "of_int n" y] by simp

lemma round_half_even_le: "y \<le> of_int n \<Longrightarrow> round_half_even y \<le> n"
  using round_half_even_mono [of y "of_int n"] by simp

lemma scaled_int:
  assumes "0 \<le> s"
  shows "of_int n * pow2 s = (of_int (n * 2 ^ nat s) :: rat)" "(of_int (m * 2 ^ nat s) :: rat) * pow2 (- s) = of_int m"
  using assms pow2_minus [of s] by (simp_all add: pow2_def)

lemma round_pos_ge:
  assumes "0 < x" and "of_int n \<le> x" and "0 \<le> n" "n < 9007199254740992"
  shows "of_int n \<le> round_pos x"
proof (cases "0 \<le> fl_scale x")
  case True
  have "of_int n * pow2 (fl_scale x) \<le> x * pow2 (fl_scale x)"
    using assms(2) by (intro mult_right_mono) (simp_all add: less_imp_le)
  then have "n * 2 ^ nat (fl_scale x) \<le> round_half_even (x * pow2 (fl_scale x))"
    using scaled_int(1) [OF True, of n] by (intro round_half_even_ge) simp
  then have "rat_of_int (n * 2 ^ nat (fl_scale x)) * pow2 (- fl_scale x) \<le> round_pos x"
    unfolding round_pos_scale by (intro mult_right_mono) (simp_all only: of_int_le_iff pow2_pos less_imp_le)
  then show ?thesis unfolding scaled_int(2) [OF True] .
next
  case False
  have "4503599627370496 \<le> round_half_even (x * pow2 (fl_scale x))"
    using fl_scale_big [OF assms(1)] by (intro round_half_even_ge) simp
  then have "(4503599627370496 :: rat) \<le> of_int (round_half_even (x * pow2 (fl_scale x)))"
    using of_int_le_iff [where 'a = rat, of 4503599627370496] by simp
  moreover have "2 \<le> pow2 (- fl_scale x)" using False pow2_mono [of 1 "- fl_scale x"] by (simp add: pow2_def [of 1])
  ultimately have "4503599627370496 * 2 \<le> round_pos x" unfolding round_pos_scale by (intro mult_mono) simp_all
  moreover have "rat_of_int n \<le> 9007199254740992" using assms(4) of_int_le_iff [where 'a = rat, of n 9007199254740992] by simp
  ultimately show ?thesis by simp
qed

lemma fl_ge: "of_int n \<le> x \<Longrightarrow> 0 \<le> n \<Longrightarrow> n < 9007199254740992 \<Longrightarrow> of_int n \<le> fl x"
proof -
  assume a: "of_int n \<le> x" "0 \<le> n" "n < 9007199254740992"
  then have "0 \<le> x" by (meson of_int_0_le_iff order_trans)
  then show ?thesis using a round_pos_ge [of x n] by (cases "x = 0") (simp_all add: fl_def)
qed

lemma round_pos_le:
  assumes "0 < x" and "x \<le> of_int n" and "n < 9007199254740992"
  shows "round_pos x \<le> of_int n"
proof (cases "0 \<le> fl_scale x")
  case True
  have "x * pow2 (fl_scale x) \<le> of_int n * pow2 (fl_scale x)"
    using assms(2) by (intro mult_right_mono) (simp_all add: less_imp_le)
  then have "round_half_even (x * pow2 (fl_scale x)) \<le> n * 2 ^ nat (fl_scale x)"
    using scaled_int(1) [OF True, of n] by (intro round_half_even_le) simp
  then have "round_pos x \<le> rat_of_int (n * 2 ^ nat (fl_scale x)) * pow2 (- fl_scale x)"
    unfolding round_pos_scale by (intro mult_right_mono) (simp_all only: of_int_le_iff pow2_pos less_imp_le)
  then show ?thesis unfolding scaled_int(2) [OF True] .
next
  case False
  have "pow2 (fl_scale x) \<le> 1 / 2" using False pow2_mono [of "fl_scale x" "- 1"] by (simp add: pow2_def [of "- 1"])
  then have "x * pow2 (fl_scale x) \<le> x * (1 / 2)" using assms(1) by (intro mult_left_mono) simp_all
  then have "9007199254740992 \<le> x" using fl_scale_big [OF assms(1)] by simp
  moreover have "rat_of_int n < 9007199254740992" using assms(3) of_int_less_iff [where 'a = rat, of n 9007199254740992] by simp
  ultimately show ?thesis using assms(2) by simp
qed

lemma fl_le: "0 \<le> x \<Longrightarrow> x \<le> of_int n \<Longrightarrow> n < 9007199254740992 \<Longrightarrow> fl x \<le> of_int n"
  using round_pos_le [of x n] by (cases "x = 0") (simp_all add: fl_def)

text \<open>The conversion of a non-negative value that fits.\<close>

lemma int64_of_float_ge:
  assumes "of_int n \<le> x" "0 \<le> n" "x \<le> of_int m" "m < 9223372036854775808"
  shows "n \<le> int64_of_float x \<and> int64_of_float x \<le> m"
proof -
  have "0 \<le> x" using assms(1,2) by (meson of_int_0_le_iff order_trans)
  moreover have "n \<le> \<lfloor>x\<rfloor>" using assms(1) by (simp add: le_floor_iff)
  moreover have "\<lfloor>x\<rfloor> \<le> m" using assms(3) floor_mono [of x "of_int m"] by simp
  moreover have "in64 \<lfloor>x\<rfloor>" using calculation assms(2,4) unfolding in64_def by linarith
  ultimately show ?thesis by (simp add: int64_of_float_def Let_def)
qed

end
