(* ===== verification/Scheduler.thy ===== *)
theory Scheduler
  imports Apiary_Types Float64
begin

text \<open>
  Package \<open>internal/scheduler\<close>: the evaluation of task tiers (\<open>tier.go\<close>) and the reservation
  of CPU and memory for a drone (\<open>scheduler.go\<close>).  \<open>Schedule\<close> computes the requirements
  without the lock and then tests and reserves under it.
\<close>

section \<open>Tiers\<close>

text \<open>A task tier is a string with three named values; the empty string means standard.\<close>

abbreviation TaskTierSimple :: string where "TaskTierSimple \<equiv> ''simple''"
abbreviation TaskTierStandard :: string where "TaskTierStandard \<equiv> ''standard''"
abbreviation TaskTierComplex :: string where "TaskTierComplex \<equiv> ''complex''"

datatype cost_preference = Minimize | Balance | Maximize

fun cost_string :: "cost_preference \<Rightarrow> string" where
  "cost_string Minimize = ''minimize''"
| "cost_string Balance = ''balance''"
| "cost_string Maximize = ''maximize''"

record tier_hints =
  th_Tier :: string
  th_Priority :: int
  th_ResourceMultiplier :: rat
  th_CostPreference :: cost_preference

definition getPriority :: "string \<Rightarrow> int" where
  "getPriority tier =
    (if tier = TaskTierSimple then 1 else if tier = TaskTierStandard then 5
     else if tier = TaskTierComplex then 10 else 5)"

definition getResourceMultiplier :: "string \<Rightarrow> rat" where
  "getResourceMultiplier tier =
    (if tier = TaskTierSimple then fl (8 / 10) else if tier = TaskTierStandard then 1
     else if tier = TaskTierComplex then 3 / 2 else 1)"

definition getCostPreference :: "string \<Rightarrow> cost_preference" where
  "getCostPreference tier =
    (if tier = TaskTierSimple then Minimize else if tier = TaskTierStandard then Balance
     else if tier = TaskTierComplex then Maximize else Balance)"

definition EvaluateTier :: "agent_spec \<Rightarrow> tier_hints" where
  "EvaluateTier spec =
    (let tier = ss_TaskTier (as_Spec spec);
         tier = (if tier = '''' then TaskTierStandard else tier)
     in \<lparr>th_Tier = tier, th_Priority = getPriority tier,
         th_ResourceMultiplier = getResourceMultiplier tier,
         th_CostPreference = getCostPreference tier\<rparr>)"

definition ApplyTierHints :: "resource_requirements \<Rightarrow> tier_hints \<Rightarrow> resource_requirements" where
  "ApplyTierHints requests hints =
    (let cpu = int64_of_float (fmul (float_of_int (rr_CPU requests)) (th_ResourceMultiplier hints));
         memory = int64_of_float (fmul (float_of_int (rr_Memory requests)) (th_ResourceMultiplier hints))
     in \<lparr>rr_CPU = (if cpu < 100 then 100 else cpu),
         rr_Memory = (if memory < 128 * 1024 * 1024 then 128 * 1024 * 1024 else memory)\<rparr>)"

section \<open>Reservation\<close>

record scheduler =
  sch_availableCPU :: int
  sch_availableMemory :: int

record schedule_decision =
  sd_NodeID :: string
  sd_Resources :: resource_requirements
  sd_Reason :: string

record resource_availability =
  ra_AvailableCPU :: int
  ra_AvailableMemory :: int
  ra_TotalCPU :: int
  ra_TotalMemory :: int

datatype schedule_error = InsufficientCPU int int | InsufficientMemory int int

abbreviation totalCPU :: int where "totalCPU \<equiv> 100000"
abbreviation totalMemory :: int where "totalMemory \<equiv> 107374182400"

definition NewScheduler :: scheduler where
  "NewScheduler = \<lparr>sch_availableCPU = totalCPU, sch_availableMemory = totalMemory\<rparr>"

definition sched_required :: "agent_spec \<Rightarrow> resource_requirements" where
  "sched_required spec =
    (let tierHints = EvaluateTier spec;
         baseCPU = rr_CPU (rs_Requests (ss_Resources (as_Spec spec)));
         baseMemory = rr_Memory (rs_Requests (ss_Resources (as_Spec spec)));
         baseCPU = (if baseCPU = 0 then 500 else baseCPU);
         baseMemory = (if baseMemory = 0 then 512 * 1024 * 1024 else baseMemory)
     in ApplyTierHints \<lparr>rr_CPU = baseCPU, rr_Memory = baseMemory\<rparr> tierHints)"

definition Schedule :: "agent_spec \<Rightarrow> scheduler \<Rightarrow> scheduler \<times> (schedule_error + schedule_decision)" where
  "Schedule spec s =
    (let tierHints = EvaluateTier spec;
         requiredCPU = rr_CPU (sched_required spec);
         requiredMemory = rr_Memory (sched_required spec)
     in if requiredCPU > sch_availableCPU s
        then (s, Inl (InsufficientCPU requiredCPU (sch_availableCPU s)))
        else if requiredMemory > sch_availableMemory s
        then (s, Inl (InsufficientMemory requiredMemory (sch_availableMemory s)))
        else (s\<lparr>sch_availableCPU := sch_availableCPU s - requiredCPU,
                sch_availableMemory := sch_availableMemory s - requiredMemory\<rparr>,
              Inr \<lparr>sd_NodeID = ''local'',
                   sd_Resources = \<lparr>rr_CPU = requiredCPU, rr_Memory = requiredMemory\<rparr>,
                   sd_Reason = ''scheduled on local node (tier: '' @ th_Tier tierHints @
                     '', preference: '' @ cost_string (th_CostPreference tierHints) @ '')''\<rparr>))"

definition GetResourceAvailability :: "scheduler \<Rightarrow> resource_availability" where
  "GetResourceAvailability s =
    \<lparr>ra_AvailableCPU = sch_availableCPU s, ra_AvailableMemory = sch_availableMemory s,
     ra_TotalCPU = totalCPU, ra_TotalMemory = totalMemory\<rparr>"

section \<open>Runs\<close>

text \<open>A sequence of requests, with the resources granted to those that succeed.\<close>

fun sched_run :: "agent_spec list \<Rightarrow> scheduler \<Rightarrow> scheduler \<times> resource_requirements list" where
  "sched_run [] s = (s, [])"
| "sched_run (spec # specs) s =
    (case Schedule spec s of
       (s', Inl _) \<Rightarrow> sched_run specs s'
     | (s', Inr d) \<Rightarrow> (let (s'', rs) = sched_run specs s' in (s'', sd_Resources d # rs)))"

lemma sched_required_min: "100 \<le> rr_CPU (sched_required spec) \<and> 134217728 \<le> rr_Memory (sched_required spec)"
  by (simp add: sched_required_def ApplyTierHints_def Let_def)

lemma Schedule_cases:
  obtains (fail) e where "Schedule spec s = (s, Inl e)"
  | (ok) d where "Schedule spec s = (s\<lparr>sch_availableCPU := sch_availableCPU s - rr_CPU (sched_required spec),
        sch_availableMemory := sch_availableMemory s - rr_Memory (sched_required spec)\<rparr>, Inr d)"
      "sd_Resources d = sched_required spec"
      "rr_CPU (sched_required spec) \<le> sch_availableCPU s" "rr_Memory (sched_required spec) \<le> sch_availableMemory s"
proof (cases "rr_CPU (sched_required spec) > sch_availableCPU s \<or>
    rr_Memory (sched_required spec) > sch_availableMemory s")
  case True
  then have "\<exists>e. Schedule spec s = (s, Inl e)" by (auto simp: Schedule_def Let_def)
  then show ?thesis using fail by blast
next
  case False
  have eta: "\<lparr>rr_CPU = rr_CPU x, rr_Memory = rr_Memory x\<rparr> = x" for x :: resource_requirements
    by (cases x) simp
  have "\<exists>d. Schedule spec s = (s\<lparr>sch_availableCPU := sch_availableCPU s - rr_CPU (sched_required spec),
        sch_availableMemory := sch_availableMemory s - rr_Memory (sched_required spec)\<rparr>, Inr d) \<and>
      sd_Resources d = sched_required spec"
    using False by (simp add: Schedule_def Let_def eta)
  then show ?thesis using False ok by auto
qed

lemma sched_run_conserves:
  assumes "0 \<le> sch_availableCPU s" "0 \<le> sch_availableMemory s" and "sched_run specs s = (s', rs)"
  shows "sch_availableCPU s' = sch_availableCPU s - sum_list (map rr_CPU rs) \<and> 0 \<le> sch_availableCPU s' \<and>
    sch_availableMemory s' = sch_availableMemory s - sum_list (map rr_Memory rs) \<and> 0 \<le> sch_availableMemory s' \<and>
    100 * int (length rs) \<le> sum_list (map rr_CPU rs) \<and>
    134217728 * int (length rs) \<le> sum_list (map rr_Memory rs)"
  using assms
proof (induction specs arbitrary: s s' rs)
  case Nil
  then show ?case by simp
next
  case (Cons spec specs)
  show ?case
  proof (cases spec s rule: Schedule_cases)
    case (fail e)
    then have "sched_run specs s = (s', rs)" using Cons.prems(3) by simp
    from Cons.IH [OF Cons.prems(1,2) this] show ?thesis .
  next
    case (ok d)
    let ?s1 = "s\<lparr>sch_availableCPU := sch_availableCPU s - rr_CPU (sched_required spec),
        sch_availableMemory := sch_availableMemory s - rr_Memory (sched_required spec)\<rparr>"
    obtain rs1 where rs1: "sched_run specs ?s1 = (s', rs1)" "rs = sched_required spec # rs1"
      using Cons.prems(3) ok by (auto split: prod.splits)
    have "0 \<le> sch_availableCPU ?s1" "0 \<le> sch_availableMemory ?s1" using ok by simp_all
    from Cons.IH [OF this rs1(1)] show ?thesis
      using sched_required_min [of spec] rs1(2) by (simp add: algebra_simps)
  qed
qed

text \<open>C14: The scheduler never overcommits: whatever is requested, in any order, the resources
  granted and those still available add up to the machine's, and none of them goes below
  zero.  Nothing ever returns a reservation, and each takes at least 100 millicores and
  128 MB, so over the whole life of the process at most 800 drones can be scheduled, however
  many of them have stopped.\<close>

theorem scheduler_conserves_and_exhausts:
  assumes "sched_run specs NewScheduler = (s, granted)"
  shows "ra_AvailableCPU (GetResourceAvailability s) + sum_list (map rr_CPU granted) = totalCPU \<and>
    ra_AvailableMemory (GetResourceAvailability s) + sum_list (map rr_Memory granted) = totalMemory \<and>
    0 \<le> ra_AvailableCPU (GetResourceAvailability s) \<and> 0 \<le> ra_AvailableMemory (GetResourceAvailability s) \<and>
    length granted \<le> 800"
  using sched_run_conserves [OF _ _ assms] by (auto simp: NewScheduler_def GetResourceAvailability_def)

lemma scheduler_conserves_and_exhausts_witness:
  "length (snd (sched_run [sample_spec, sample_spec] NewScheduler)) \<le> 800 \<and>
   map rr_CPU (snd (sched_run [sample_spec, sample_spec] NewScheduler)) = [90000]"
proof
  show "length (snd (sched_run [sample_spec, sample_spec] NewScheduler)) \<le> 800"
    using scheduler_conserves_and_exhausts [OF prod.collapse [symmetric]] by blast
  show "map rr_CPU (snd (sched_run [sample_spec, sample_spec] NewScheduler)) = [90000]" by code_simp
qed

lemma fmul_one: "0 \<le> n \<Longrightarrow> n < 9007199254740992 \<Longrightarrow> fmul (float_of_int n) 1 = of_int n"
  by (simp add: fmul_def fl_small_int)

text \<open>Tiers scale what is reserved.  A standard (or unnamed, or unknown) tier reserves
  exactly what the specification requests, 500 millicores and 512 MB where it requests
  nothing, and never less than 100 millicores and 128 MB; the floating-point detour loses
  nothing below \<open>2\<^sup>5\<^sup>3\<close>.\<close>

lemma standard_tier_exact:
  assumes "ss_TaskTier (as_Spec spec) \<notin> {TaskTierSimple, TaskTierComplex}"
    and "rr_CPU (rs_Requests (ss_Resources (as_Spec spec))) = cpu" "0 \<le> cpu" "cpu < 9007199254740992"
    and "rr_Memory (rs_Requests (ss_Resources (as_Spec spec))) = mem" "0 \<le> mem" "mem < 9007199254740992"
  shows "sched_required spec =
    \<lparr>rr_CPU = (if cpu = 0 then 500 else max 100 cpu),
     rr_Memory = (if mem = 0 then 536870912 else max 134217728 mem)\<rparr>"
proof -
  have m: "th_ResourceMultiplier (EvaluateTier spec) = 1"
    using assms(1) by (simp add: EvaluateTier_def getResourceMultiplier_def Let_def)
  have conv: "int64_of_float (fmul (float_of_int n) 1) = n" if "0 \<le> n" "n < 9007199254740992" for n
    using that by (simp add: fmul_one int64_of_float_int in64_def)
  show ?thesis using assms(2-) conv [of 500] conv [of 536870912] conv [of cpu] conv [of mem]
    by (simp add: sched_required_def ApplyTierHints_def m Let_def max_def)
qed

end
