(* ===== verification/Metrics.thy ===== *)
theory Metrics
  imports Float64
begin

text \<open>
  The aggregation of metrics per agent specification, \<open>internal/metrics/metrics.go\<close>, which
  the autoscaler decides on.  The Prometheus registry and its vectors are an external package
  (what is recorded in them is in \<open>Metrics_Export\<close>):
  of them the theory keeps the counters the package only increments, as functions from label
  values to counts; a vector field that the constructor leaves unset is \<open>None\<close>, and a method
  on it panics (\<open>None\<close>).  The aggregates share one key space, \<open>namespace/agentspec\<close>, and one
  table of last accesses, which drives the cleanup.
\<close>

section \<open>State\<close>

record latency_stats =
  ls_P50 :: duration
  ls_P95 :: duration
  ls_P99 :: duration
  ls_Count :: int

type_synonym counter_vec = "string list \<Rightarrow> nat"

record collector =
  mc_latency :: "string \<rightharpoonup> latency_stats"
  mc_tokens :: "string \<rightharpoonup> int"
  mc_queue :: "string \<rightharpoonup> int"
  mc_rate :: "string \<rightharpoonup> rat"
  mc_lastAccess :: "(string \<times> time) list"
  mc_maxIdleTime :: duration
  mc_validationFailures :: "counter_vec option"
  mc_rateLimitExceeded :: "counter_vec option"
  mc_dlqMessagesAdded :: "counter_vec option"
  mc_webhookSent :: "counter_vec option"
  mc_webhookFailed :: "counter_vec option"

text \<open>The struct literal of \<open>NewCollector\<close> does not mention \<open>webhookSent\<close> and
  \<open>webhookFailed\<close>, although both vectors are created and registered.\<close>

definition NewCollector :: collector where
  "NewCollector =
    \<lparr>mc_latency = Map.empty, mc_tokens = Map.empty, mc_queue = Map.empty, mc_rate = Map.empty,
     mc_lastAccess = [], mc_maxIdleTime = 24 * hour,
     mc_validationFailures = Some (\<lambda>_. 0), mc_rateLimitExceeded = Some (\<lambda>_. 0),
     mc_dlqMessagesAdded = Some (\<lambda>_. 0), mc_webhookSent = None, mc_webhookFailed = None\<rparr>"

definition metric_key :: "string \<Rightarrow> string \<Rightarrow> string" where
  "metric_key namespace agentspec = namespace @ ''/'' @ agentspec"

definition touch :: "time \<Rightarrow> string \<Rightarrow> collector \<Rightarrow> collector" where
  "touch now key c = c\<lparr>mc_lastAccess := AList.update key now (mc_lastAccess c)\<rparr>"

section \<open>Recording\<close>

definition update_latency :: "duration \<Rightarrow> latency_stats \<Rightarrow> latency_stats" where
  "update_latency latency stats =
    (let stats = stats\<lparr>ls_Count := wrap64 (ls_Count stats + 1)\<rparr>
     in if ls_Count stats = 1
        then stats\<lparr>ls_P50 := latency, ls_P95 := latency, ls_P99 := latency\<rparr>
        else
          (let stats = (if latency > ls_P95 stats then stats\<lparr>ls_P95 := latency\<rparr> else stats);
               stats = (if latency > ls_P99 stats then stats\<lparr>ls_P99 := latency\<rparr> else stats)
           in stats\<lparr>ls_P50 := go_div (wrap64 (ls_P50 stats + latency)) 2\<rparr>))"

definition RecordLatency :: "time \<Rightarrow> string \<Rightarrow> string \<Rightarrow> duration \<Rightarrow> collector \<Rightarrow> collector" where
  "RecordLatency now agentspec namespace latency c =
    (let key = metric_key namespace agentspec;
         stats = (case mc_latency c key of
             None \<Rightarrow> \<lparr>ls_P50 = 0, ls_P95 = 0, ls_P99 = 0, ls_Count = 0\<rparr> | Some s \<Rightarrow> s)
     in touch now key (c\<lparr>mc_latency := (mc_latency c)(key \<mapsto> update_latency latency stats)\<rparr>))"

definition RecordTokens :: "time \<Rightarrow> string \<Rightarrow> string \<Rightarrow> int \<Rightarrow> collector \<Rightarrow> collector" where
  "RecordTokens now agentspec namespace tokens c =
    (let key = metric_key namespace agentspec
     in touch now key
          (c\<lparr>mc_tokens := (mc_tokens c)(key \<mapsto> wrap64 (lookup_or 0 (mc_tokens c) key + tokens))\<rparr>))"

definition SetQueueDepth :: "time \<Rightarrow> string \<Rightarrow> string \<Rightarrow> int \<Rightarrow> collector \<Rightarrow> collector" where
  "SetQueueDepth now agentspec namespace depth c =
    (let key = metric_key namespace agentspec
     in touch now key
          (if depth > lookup_or 0 (mc_queue c) key
           then c\<lparr>mc_queue := (mc_queue c)(key \<mapsto> depth)\<rparr> else c))"

definition RecordRequest :: "time \<Rightarrow> string \<Rightarrow> string \<Rightarrow> collector \<Rightarrow> collector" where
  "RecordRequest now agentspec namespace c =
    (let key = metric_key namespace agentspec
     in touch now key (c\<lparr>mc_rate := (mc_rate c)(key \<mapsto> fadd (lookup_or 0 (mc_rate c) key) 1)\<rparr>))"

definition counter_inc :: "string list \<Rightarrow> counter_vec option \<Rightarrow> counter_vec option" where
  "counter_inc ls v = (case v of None \<Rightarrow> None | Some f \<Rightarrow> Some (f(ls := f ls + 1)))"

text \<open>The result \<open>None\<close> is a nil-pointer panic.\<close>

definition RecordOutputValidationFailure :: "string \<Rightarrow> string \<Rightarrow> string \<Rightarrow> collector \<Rightarrow> collector option" where
  "RecordOutputValidationFailure agentspec namespace droneID c =
    (case counter_inc [agentspec, namespace, droneID] (mc_validationFailures c) of
       None \<Rightarrow> None | Some v \<Rightarrow> Some (c\<lparr>mc_validationFailures := Some v\<rparr>))"

definition RecordRateLimitExceeded :: "string \<Rightarrow> string \<Rightarrow> string \<Rightarrow> collector \<Rightarrow> collector option" where
  "RecordRateLimitExceeded agentspec namespace droneID c =
    (case counter_inc [agentspec, namespace, droneID] (mc_rateLimitExceeded c) of
       None \<Rightarrow> None | Some v \<Rightarrow> Some (c\<lparr>mc_rateLimitExceeded := Some v\<rparr>))"

definition RecordDLQMessageAdded :: "string \<Rightarrow> string \<Rightarrow> collector \<Rightarrow> collector option" where
  "RecordDLQMessageAdded namespace hive c =
    (case counter_inc [namespace, hive] (mc_dlqMessagesAdded c) of
       None \<Rightarrow> None | Some v \<Rightarrow> Some (c\<lparr>mc_dlqMessagesAdded := Some v\<rparr>))"

definition RecordWebhookSent :: "string \<Rightarrow> string \<Rightarrow> string \<Rightarrow> collector \<Rightarrow> collector option" where
  "RecordWebhookSent namespace hive eventType c =
    (case counter_inc [namespace, hive, eventType] (mc_webhookSent c) of
       None \<Rightarrow> None | Some v \<Rightarrow> Some (c\<lparr>mc_webhookSent := Some v\<rparr>))"

definition RecordWebhookFailed :: "string \<Rightarrow> string \<Rightarrow> string \<Rightarrow> collector \<Rightarrow> collector option" where
  "RecordWebhookFailed namespace hive eventType c =
    (case counter_inc [namespace, hive, eventType] (mc_webhookFailed c) of
       None \<Rightarrow> None | Some v \<Rightarrow> Some (c\<lparr>mc_webhookFailed := Some v\<rparr>))"

section \<open>Reading\<close>

text \<open>Every getter records an access, also for a key without metrics; \<open>None\<close> is the error
  \<open>no metrics found\<close>.\<close>

definition GetLatencyStats :: "time \<Rightarrow> string \<Rightarrow> string \<Rightarrow> collector \<Rightarrow> collector \<times> latency_stats option" where
  "GetLatencyStats now namespace agentspec c =
    (let key = metric_key namespace agentspec; c = touch now key c in (c, mc_latency c key))"

definition GetTokenUsage :: "time \<Rightarrow> string \<Rightarrow> string \<Rightarrow> collector \<Rightarrow> collector \<times> int option" where
  "GetTokenUsage now namespace agentspec c =
    (let key = metric_key namespace agentspec; c = touch now key c in (c, mc_tokens c key))"

definition GetQueueDepth :: "time \<Rightarrow> string \<Rightarrow> string \<Rightarrow> collector \<Rightarrow> collector \<times> int option" where
  "GetQueueDepth now namespace agentspec c =
    (let key = metric_key namespace agentspec; c = touch now key c in (c, mc_queue c key))"

definition GetRequestRate :: "time \<Rightarrow> string \<Rightarrow> string \<Rightarrow> collector \<Rightarrow> collector \<times> rat option" where
  "GetRequestRate now namespace agentspec c =
    (let key = metric_key namespace agentspec; c = touch now key c in (c, mc_rate c key))"

section \<open>Reports of keepers and cleanup\<close>

datatype metric_value = VDuration duration | VInt64 int | VInt int | VOther

record metric =
  me_Type :: string
  me_AgentSpec :: string
  me_Namespace :: string
  me_Value :: metric_value

definition aggregate_one :: "time \<Rightarrow> metric \<Rightarrow> collector \<Rightarrow> collector" where
  "aggregate_one now m c =
    (if me_Type m = ''latency'' then
       (case me_Value m of VDuration d \<Rightarrow> RecordLatency now (me_AgentSpec m) (me_Namespace m) d c | _ \<Rightarrow> c)
     else if me_Type m = ''tokens'' then
       (case me_Value m of VInt64 n \<Rightarrow> RecordTokens now (me_AgentSpec m) (me_Namespace m) n c | _ \<Rightarrow> c)
     else if me_Type m = ''queue_depth'' then
       (case me_Value m of VInt n \<Rightarrow> SetQueueDepth now (me_AgentSpec m) (me_Namespace m) n c | _ \<Rightarrow> c)
     else if me_Type m = ''request'' then RecordRequest now (me_AgentSpec m) (me_Namespace m) c
     else c)"

text \<open>\<open>AggregateMetrics\<close>: one check of the context for each keeper; \<open>False\<close> is the error of a
  cancelled context.\<close>

fun AggregateMetrics :: "time \<Rightarrow> (bool \<times> metric list) list \<Rightarrow> collector \<Rightarrow> collector \<times> bool" where
  "AggregateMetrics now [] c = (c, True)"
| "AggregateMetrics now ((cancelled, metrics) # keepers) c =
    (if cancelled then (c, False)
     else AggregateMetrics now keepers (fold (aggregate_one now) metrics c))"

definition drop_key :: "string \<Rightarrow> collector \<Rightarrow> collector" where
  "drop_key key c = c\<lparr>mc_latency := (mc_latency c)(key := None), mc_tokens := (mc_tokens c)(key := None),
     mc_queue := (mc_queue c)(key := None), mc_rate := (mc_rate c)(key := None),
     mc_lastAccess := AList.delete key (mc_lastAccess c)\<rparr>"

definition cleanupIdleMetrics :: "time \<Rightarrow> collector \<Rightarrow> collector" where
  "cleanupIdleMetrics now c =
    fold drop_key (map fst (filter (\<lambda>(key, last). now - last > mc_maxIdleTime c) (mc_lastAccess c))) c"

definition SetMaxIdleTime :: "duration \<Rightarrow> collector \<Rightarrow> collector" where
  "SetMaxIdleTime d c = c\<lparr>mc_maxIdleTime := d\<rparr>"

section \<open>Properties\<close>

datatype metrics_op =
    MLatency time string string duration
  | MTokens time string string int
  | MQueue time string string int
  | MRequest time string string
  | MGetLatency time string string
  | MGetQueue time string string
  | MCleanup time

fun metrics_exec :: "metrics_op \<Rightarrow> collector \<Rightarrow> collector" where
  "metrics_exec (MLatency now a n d) c = RecordLatency now a n d c"
| "metrics_exec (MTokens now a n t) c = RecordTokens now a n t c"
| "metrics_exec (MQueue now a n d) c = SetQueueDepth now a n d c"
| "metrics_exec (MRequest now a n) c = RecordRequest now a n c"
| "metrics_exec (MGetLatency now a n) c = fst (GetLatencyStats now n a c)"
| "metrics_exec (MGetQueue now a n) c = fst (GetQueueDepth now n a c)"
| "metrics_exec (MCleanup now) c = cleanupIdleMetrics now c"

fun is_cleanup :: "metrics_op \<Rightarrow> bool" where
  "is_cleanup (MCleanup _) = True"
| "is_cleanup _ = False"

lemma touch_simps [simp]:
  "mc_latency (touch now k c) = mc_latency c" "mc_queue (touch now k c) = mc_queue c"
  "mc_tokens (touch now k c) = mc_tokens c" "mc_rate (touch now k c) = mc_rate c"
  "mc_webhookSent (touch now k c) = mc_webhookSent c" "mc_webhookFailed (touch now k c) = mc_webhookFailed c"
  by (simp_all add: touch_def)

lemma update_latency_P95:
  "0 < ls_Count s \<Longrightarrow> ls_Count s < 9223372036854775807 \<Longrightarrow>
    ls_P95 (update_latency d s) = max (ls_P95 s) d \<and> ls_Count (update_latency d s) = ls_Count s + 1"
  by (auto simp: update_latency_def Let_def in64_def max_def)

text \<open>The largest latency among the records for a key.\<close>

fun latencies :: "string \<Rightarrow> metrics_op list \<Rightarrow> duration list" where
  "latencies key [] = []"
| "latencies key (MLatency now a n d # ops) =
    (if metric_key n a = key then d # latencies key ops else latencies key ops)"
| "latencies key (op # ops) = latencies key ops"

fun depths :: "string \<Rightarrow> metrics_op list \<Rightarrow> int list" where
  "depths key [] = []"
| "depths key (MQueue now a n d # ops) =
    (if metric_key n a = key then d # depths key ops else depths key ops)"
| "depths key (op # ops) = depths key ops"

lemma queue_run:
  "list_all (\<lambda>op. \<not> is_cleanup op) ops \<Longrightarrow>
    lookup_or 0 (mc_queue (fold metrics_exec ops c)) key = foldl max (lookup_or 0 (mc_queue c) key) (depths key ops)"
proof (induction ops arbitrary: c)
  case Nil
  then show ?case by simp
next
  case (Cons op ops)
  have "lookup_or 0 (mc_queue (metrics_exec op c)) key = foldl max (lookup_or 0 (mc_queue c) key) (depths key [op])"
    using Cons.prems
    by (cases op) (auto simp: RecordLatency_def RecordTokens_def SetQueueDepth_def RecordRequest_def
        GetLatencyStats_def GetQueueDepth_def Let_def lookup_or_def max_def split: option.splits)
  moreover have "depths key (op # ops) = depths key [op] @ depths key ops" by (cases op) auto
  ultimately show ?case using Cons by simp
qed

lemma latency_run:
  assumes "list_all (\<lambda>op. \<not> is_cleanup op) ops" and "mc_latency c key = Some s"
    and "0 < ls_Count s" "ls_Count s + int (length ops) < 9223372036854775807"
  shows "\<exists>s'. mc_latency (fold metrics_exec ops c) key = Some s' \<and>
    ls_P95 s' = foldl max (ls_P95 s) (latencies key ops)"
  using assms
proof (induction ops arbitrary: c s)
  case Nil
  then show ?case by simp
next
  case (Cons op ops)
  show ?case
  proof (cases "\<exists>now a n d. op = MLatency now a n d \<and> metric_key n a = key")
    case True
    then obtain now a n d where op: "op = MLatency now a n d" "metric_key n a = key" by blast
    let ?s = "update_latency d s"
    have "mc_latency (metrics_exec op c) key = Some ?s"
      using op Cons.prems(2) by (simp add: RecordLatency_def Let_def)
    moreover have s: "ls_P95 ?s = max (ls_P95 s) d \<and> ls_Count ?s = ls_Count s + 1"
      using Cons.prems by (intro update_latency_P95) auto
    ultimately show ?thesis using Cons.IH [of "metrics_exec op c" ?s] Cons.prems op by auto
  next
    case False
    then have "mc_latency (metrics_exec op c) key = mc_latency c key"
      using Cons.prems(1)
      by (cases op) (auto simp: RecordLatency_def RecordTokens_def SetQueueDepth_def RecordRequest_def
        GetLatencyStats_def GetQueueDepth_def Let_def)
    moreover have "latencies key (op # ops) = latencies key ops" using False by (cases op) auto
    ultimately show ?thesis using Cons.IH [of "metrics_exec op c" s] Cons.prems by auto
  qed
qed

text \<open>The signals the autoscaler reads never come down.  Between two cleanups the reported
  queue depth of a specification is the largest depth ever set and the reported 95th
  percentile the largest latency ever recorded, whatever is recorded afterwards; and since
  reading them counts as an access, a specification that is evaluated is never idle.\<close>

lemma signals_are_running_maxima:
  assumes "list_all (\<lambda>op. \<not> is_cleanup op) ops"
    and "int (length ops) < 9223372036854775806"
    and "c = fold metrics_exec ops (RecordLatency now agentspec ns d NewCollector)"
  shows "lookup_or 0 (mc_queue c) (metric_key ns agentspec) = foldl max 0 (depths (metric_key ns agentspec) ops) \<and>
    (\<exists>s. snd (GetLatencyStats t ns agentspec c) = Some s \<and>
      ls_P95 s = foldl max d (latencies (metric_key ns agentspec) ops)) \<and>
    map_of (mc_lastAccess (fst (GetQueueDepth t ns agentspec c))) (metric_key ns agentspec) = Some t"
proof -
  let ?c = "RecordLatency now agentspec ns d NewCollector" and ?k = "metric_key ns agentspec"
  have "mc_latency ?c ?k = Some \<lparr>ls_P50 = d, ls_P95 = d, ls_P99 = d, ls_Count = 1\<rparr>"
    by (simp add: RecordLatency_def NewCollector_def update_latency_def in64_def Let_def)
  from latency_run [OF assms(1) this] assms(2,3)
  have "\<exists>s. mc_latency c ?k = Some s \<and> ls_P95 s = foldl max d (latencies ?k ops)" by simp
  moreover have "lookup_or 0 (mc_queue c) ?k = foldl max 0 (depths ?k ops)"
    using queue_run [OF assms(1), of ?c ?k] assms(3)
    by (simp add: RecordLatency_def NewCollector_def Let_def)
  ultimately show ?thesis by (simp add: GetLatencyStats_def GetQueueDepth_def Let_def touch_def)
qed

text \<open>The constructor registers the two webhook counters but leaves the collector's fields
  unset, and no operation sets them.\<close>

lemma webhook_counters_unset:
  assumes "c = fold metrics_exec ops NewCollector"
  shows "RecordWebhookSent ns hive ev c = None \<and> RecordWebhookFailed ns hive ev c = None \<and>
    RecordDLQMessageAdded ns hive NewCollector \<noteq> None"
proof -
  have drop: "mc_webhookSent (fold drop_key ks c) = mc_webhookSent c \<and>
      mc_webhookFailed (fold drop_key ks c) = mc_webhookFailed c" for ks c
    by (induction ks arbitrary: c) (simp_all add: drop_key_def)
  have step: "mc_webhookSent (metrics_exec op c) = mc_webhookSent c \<and>
      mc_webhookFailed (metrics_exec op c) = mc_webhookFailed c" for op c
    by (cases op) (simp_all add: RecordLatency_def RecordTokens_def SetQueueDepth_def RecordRequest_def
        GetLatencyStats_def GetQueueDepth_def cleanupIdleMetrics_def drop Let_def)
  have "mc_webhookSent (fold metrics_exec ops c) = mc_webhookSent c \<and>
      mc_webhookFailed (fold metrics_exec ops c) = mc_webhookFailed c" for c
    by (induction ops arbitrary: c) (simp_all add: step)
  from this [of NewCollector] show ?thesis using assms
    by (simp add: RecordWebhookSent_def RecordWebhookFailed_def RecordDLQMessageAdded_def counter_inc_def
        NewCollector_def)
qed

end
