(* ===== verification/Launcher.thy ===== *)
theory Launcher
  imports Badger_Store
begin

text \<open>
  Package \<open>internal/launcher\<close>: starting agent processes with their environment, resolving
  references to secrets, and stopping processes.

  The operating system is a table of live processes: \<open>exec_start\<close> (the outcome of
  \<open>cmd.Start()\<close>) is a parameter, an exit is an event (\<open>monitor_exit\<close>, the goroutine started by
  \<open>Launch\<close>).  \<open>os.Process.Signal\<close> is modelled with its two arguments that occur: a nil
  \<open>os.Signal\<close> is not a \<open>syscall.Signal\<close>, for which Go returns the error
  \<open>os: unsupported signal type\<close> whatever the process is doing; \<open>os.Interrupt\<close> is delivered
  to a live process.  On Unix \<open>os.FindProcess\<close> always succeeds.
\<close>

section \<open>State\<close>

abbreviation ProcessStatusRunning :: string where "ProcessStatusRunning \<equiv> ''running''"
abbreviation ProcessStatusStopped :: string where "ProcessStatusStopped \<equiv> ''stopped''"
abbreviation ProcessStatusFailed :: string where "ProcessStatusFailed \<equiv> ''failed''"

record agent_process =
  ap_ID :: string
  ap_PID :: int
  ap_Status :: string
  ap_StartedAt :: time
  ap_Spec :: agent_spec

record launcher =
  la_processes :: "string \<rightharpoonup> agent_process"
  la_alive :: "int list"

datatype launch_error =
    CommandRequired
  | StoreNotAvailable
  | SecretGetFailed string store_error
  | NotASecret string
  | SecretWrongNamespace string string string
  | SecretKeyMissing string string
  | ResolveFailed string string launch_error
  | StartFailed string
  | ProcessNotFound string

definition NewLauncher :: launcher where
  "NewLauncher = \<lparr>la_processes = Map.empty, la_alive = []\<rparr>"

section \<open>Operations\<close>

text \<open>\<open>get\<close> is the store's \<open>Get\<close>, \<open>None\<close> when the launcher has no store.\<close>

type_synonym store_get = "(string \<Rightarrow> string \<Rightarrow> string \<Rightarrow> store_error + resource) option"

definition resolveSecretRef :: "store_get \<Rightarrow> string \<Rightarrow> secret_key_selector \<Rightarrow> launch_error + string" where
  "resolveSecretRef get namespace ref =
    (case get of
       None \<Rightarrow> Inl StoreNotAvailable
     | Some get \<Rightarrow>
        (case get ''Secret'' (sk_Name ref) namespace of
           Inl e \<Rightarrow> Inl (SecretGetFailed (sk_Name ref) e)
         | Inr r \<Rightarrow>
            (case r of
               RSecret secret \<Rightarrow>
                 (if GetNamespace (RSecret secret) \<noteq> namespace
                  then Inl (SecretWrongNamespace (sk_Name ref) (GetNamespace (RSecret secret)) namespace)
                  else case map_of (sec_Data secret) (sk_Key ref) of
                         None \<Rightarrow> Inl (SecretKeyMissing (sk_Key ref) (sk_Name ref))
                       | Some v \<Rightarrow> Inr v)
             | _ \<Rightarrow> Inl (NotASecret (sk_Name ref)))))"

fun build_env :: "store_get \<Rightarrow> string \<Rightarrow> string list \<Rightarrow> env_var list \<Rightarrow> launch_error + string list" where
  "build_env get namespace env [] = Inr env"
| "build_env get namespace env (v # vs) =
    (case ev_ValueFrom v of
       Some (Some ref) \<Rightarrow>
         (case resolveSecretRef get namespace ref of
            Inl e \<Rightarrow> Inl (ResolveFailed (sk_Name ref) (ev_Name v) e)
          | Inr secretValue \<Rightarrow> build_env get namespace (env @ [ev_Name v @ ''='' @ secretValue]) vs)
     | _ \<Rightarrow> build_env get namespace (env @ [ev_Name v @ ''='' @ ev_Value v]) vs)"

definition Launch :: "(string list \<Rightarrow> string \<Rightarrow> string list \<Rightarrow> string + int) \<Rightarrow> store_get \<Rightarrow> string list \<Rightarrow>
    string \<Rightarrow> time \<Rightarrow> agent_spec \<Rightarrow> launcher \<Rightarrow> launcher \<times> (launch_error + agent_process)" where
  "Launch exec_start get environ newID now spec l =
    (let rt = ss_Runtime (as_Spec spec)
     in if rc_Command rt = [] then (l, Inl CommandRequired)
        else case build_env get (GetNamespace (RAgentSpec spec)) environ (rc_Env rt) of
          Inl e \<Rightarrow> (l, Inl e)
        | Inr env \<Rightarrow>
           (case exec_start (rc_Command rt) (rc_WorkingDir rt) env of
              Inl e \<Rightarrow> (l, Inl (StartFailed e))
            | Inr pid \<Rightarrow>
               (let process = \<lparr>ap_ID = newID, ap_PID = pid, ap_Status = ProcessStatusRunning,
                               ap_StartedAt = now, ap_Spec = spec\<rparr>
                in (l\<lparr>la_processes := (la_processes l)(newID \<mapsto> process), la_alive := pid # la_alive l\<rparr>,
                    Inr process))))"

text \<open>\<open>proc.Signal\<close>: whether it returns an error, and what it does to the process.\<close>

datatype os_signal = NilSignal | Interrupt

definition proc_signal :: "os_signal \<Rightarrow> int \<Rightarrow> launcher \<Rightarrow> bool" where
  "proc_signal sig pid l = (case sig of NilSignal \<Rightarrow> False | Interrupt \<Rightarrow> pid \<in> set (la_alive l))"

definition kill_process :: "int \<Rightarrow> launcher \<Rightarrow> launcher" where
  "kill_process pid l = l\<lparr>la_alive := removeAll pid (la_alive l)\<rparr>"

text \<open>After an interrupt the code waits for the exit, the end of the context or five seconds,
  and kills the process in the last two cases: in all three it is gone.\<close>

definition launcher_Stop :: "string \<Rightarrow> launcher \<Rightarrow> launcher \<times> launch_error option" where
  "launcher_Stop processID l =
    (case la_processes l processID of
       None \<Rightarrow> (l, Some (ProcessNotFound processID))
     | Some process \<Rightarrow>
        (let l = l\<lparr>la_processes := (la_processes l)(processID := None)\<rparr>;
             pid = ap_PID process
         in if \<not> proc_signal NilSignal pid l then (l, None)
            else if \<not> proc_signal Interrupt pid l then (kill_process pid l, None)
            else (kill_process pid l, None)))"

definition GetProcess :: "string \<Rightarrow> launcher \<Rightarrow> launch_error + agent_process" where
  "GetProcess processID l =
    (case la_processes l processID of None \<Rightarrow> Inl (ProcessNotFound processID) | Some p \<Rightarrow> Inr p)"

text \<open>The exit of a process, as \<open>monitorProcess\<close> sees it.\<close>

definition monitor_exit :: "string \<Rightarrow> bool \<Rightarrow> int \<Rightarrow> launcher \<Rightarrow> launcher" where
  "monitor_exit processID failed pid l =
    (let l = kill_process pid l
     in case la_processes l processID of
          None \<Rightarrow> l
        | Some p \<Rightarrow>
           l\<lparr>la_processes := (la_processes l)(processID \<mapsto>
              p\<lparr>ap_Status := (if failed then ProcessStatusFailed else ProcessStatusStopped)\<rparr>)\<rparr>)"

section \<open>Properties\<close>

text \<open>\<open>Stop\<close> never stops a process.  Its test whether the process is alive sends a nil signal,
  which Go rejects for every process, so the code always concludes that the process is dead:
  it forgets the process, reports success, and leaves it running.\<close>

lemma stop_leaves_process_running:
  assumes "la_processes l processID = Some p"
  shows "snd (launcher_Stop processID l) = None \<and> la_alive (fst (launcher_Stop processID l)) = la_alive l \<and>
    GetProcess processID (fst (launcher_Stop processID l)) = Inl (ProcessNotFound processID)"
  using assms by (simp add: launcher_Stop_def proc_signal_def GetProcess_def Let_def)

lemma build_env_prefix:
  "build_env get ns env vs = Inr env' \<Longrightarrow> \<exists>ext. env' = env @ ext \<and> length ext = length vs"
proof (induction vs arbitrary: env)
  case Nil
  then show ?case by simp
next
  case (Cons v vs)
  then obtain x where "build_env get ns (env @ [x]) vs = Inr env'"
    by (auto split: option.splits sum.splits)
  from Cons.IH [OF this] obtain ext where "env' = (env @ [x]) @ ext" "length ext = length vs" by blast
  then show ?case by (intro exI [of _ "x # ext"]) simp
qed

text \<open>The value of one variable, as it must be passed to the process.\<close>

definition env_value :: "(string \<Rightarrow> string \<Rightarrow> string \<Rightarrow> store_error + resource) \<Rightarrow> string \<Rightarrow> env_var \<Rightarrow> string \<Rightarrow> bool" where
  "env_value get ns v val =
    (case ev_ValueFrom v of
       Some (Some ref) \<Rightarrow>
         (case get ''Secret'' (sk_Name ref) ns of
            Inr (RSecret sec) \<Rightarrow> om_Namespace (sec_Meta sec) = ns \<and> map_of (sec_Data sec) (sk_Key ref) = Some val
          | _ \<Rightarrow> False)
     | _ \<Rightarrow> val = ev_Value v)"

lemma build_env_values:
  assumes "build_env (Some get) ns env vs = Inr env'"
  shows "\<exists>vals. env' = env @ map2 (\<lambda>v val. ev_Name v @ ''='' @ val) vs vals \<and> list_all2 (env_value get ns) vs vals"
  using assms
proof (induction vs arbitrary: env)
  case Nil
  then show ?case by simp
next
  case (Cons v vs)
  obtain val where step: "build_env (Some get) ns (env @ [ev_Name v @ ''='' @ val]) vs = Inr env'"
    and val: "env_value get ns v val"
  proof (cases "\<exists>ref. ev_ValueFrom v = Some (Some ref)")
    case True
    then obtain ref where ref: "ev_ValueFrom v = Some (Some ref)" by blast
    then obtain s where s: "resolveSecretRef (Some get) ns ref = Inr s"
      "build_env (Some get) ns (env @ [ev_Name v @ ''='' @ s]) vs = Inr env'"
      using Cons.prems by (auto split: sum.splits)
    have "env_value get ns v s" using s(1) ref
      by (auto simp: resolveSecretRef_def env_value_def GetNamespace_def split: sum.splits resource.splits
          option.splits if_splits)
    with s(2) show ?thesis by (rule that)
  next
    case False
    then have "build_env (Some get) ns (env @ [ev_Name v @ ''='' @ ev_Value v]) vs = Inr env'"
      using Cons.prems by (auto split: option.splits)
    moreover have "env_value get ns v (ev_Value v)"
      using False by (auto simp: env_value_def split: option.splits)
    ultimately show ?thesis by (rule that)
  qed
  from Cons.IH [OF step] obtain vals where
    "env' = (env @ [ev_Name v @ ''='' @ val]) @ map2 (\<lambda>v val. ev_Name v @ ''='' @ val) vs vals"
    "list_all2 (env_value get ns) vs vals" by blast
  with val show ?case by (intro exI [of _ "val # vals"]) simp
qed

text \<open>C32: A process is started with the launcher's own environment followed by exactly the
  variables of the specification, in order, each with its value; the value of a secret
  reference is the value of that key of the secret of that name in the specification's own
  namespace.  A launch that fails, as one that refers to a missing secret or key does, leaves the
  launcher as it was.\<close>

theorem launch_environment:
  assumes "Launch exec_start (Some get) environ i now spec l = (l', res)"
  shows "case res of
      Inl e \<Rightarrow> l' = l
    | Inr p \<Rightarrow>
       (\<exists>vals. list_all2 (env_value get (om_Namespace (as_Meta spec))) (rc_Env (ss_Runtime (as_Spec spec))) vals \<and>
        exec_start (rc_Command (ss_Runtime (as_Spec spec))) (rc_WorkingDir (ss_Runtime (as_Spec spec)))
          (environ @ map2 (\<lambda>v val. ev_Name v @ ''='' @ val) (rc_Env (ss_Runtime (as_Spec spec))) vals) = Inr (ap_PID p) \<and>
        la_processes l' = (la_processes l)(i \<mapsto> p) \<and> la_alive l' = ap_PID p # la_alive l)"
proof (cases res)
  case (Inl e)
  then show ?thesis using assms by (auto simp: Launch_def Let_def split: if_splits sum.splits)
next
  case (Inr p)
  note run = assms [unfolded Inr]
  let ?rt = "ss_Runtime (as_Spec spec)"
  obtain env where env: "build_env (Some get) (om_Namespace (as_Meta spec)) environ (rc_Env ?rt) = Inr env"
    using run by (auto simp: Launch_def Let_def GetNamespace_def split: if_splits sum.splits)
  obtain pid where pid: "exec_start (rc_Command ?rt) (rc_WorkingDir ?rt) env = Inr pid"
    using run env by (auto simp: Launch_def Let_def GetNamespace_def split: if_splits sum.splits)
  have "ap_PID p = pid \<and> la_processes l' = (la_processes l)(i \<mapsto> p) \<and> la_alive l' = pid # la_alive l"
    using run env pid by (auto simp: Launch_def Let_def GetNamespace_def split: if_splits)
  then show ?thesis using build_env_values [OF env] pid by (auto simp: Inr)
qed

text \<open>A specification that takes a variable from a secret, and a store that has the secret.\<close>

definition sample_secret_spec :: agent_spec where
  "sample_secret_spec = sample_spec\<lparr>as_Spec := (as_Spec sample_spec)\<lparr>ss_Runtime :=
     \<lparr>rc_Command = [''python''], rc_WorkingDir = '''',
      rc_Env = [\<lparr>ev_Name = ''DB'', ev_Value = '''',
        ev_ValueFrom = Some (Some \<lparr>sk_Name = ''db'', sk_Key = ''url''\<rparr>)\<rparr>]\<rparr>\<rparr>\<rparr>"

definition sample_get :: "string \<Rightarrow> string \<Rightarrow> string \<Rightarrow> store_error + resource" where
  "sample_get kind name ns =
    (if (kind, name, ns) = (''Secret'', ''db'', ''prod'')
     then Inr (RSecret \<lparr>sec_TypeMeta = as_TypeMeta sample_spec, sec_Meta = as_Meta sample_spec,
       sec_Data = [(''url'', ''pg://x'')]\<rparr>)
     else Inl ErrNotFound)"

lemma launch_environment_witness:
  "\<exists>p. snd (Launch (\<lambda>c d env. if env = [''HOME=/'', ''DB=pg://x''] then Inr 7 else Inl ''bad'')
      (Some sample_get) [''HOME=/''] ''p1'' 0 sample_secret_spec NewLauncher) = Inr p \<and>
    la_alive (fst (Launch (\<lambda>c d env. if env = [''HOME=/'', ''DB=pg://x''] then Inr 7 else Inl ''bad'')
      (Some sample_get) [''HOME=/''] ''p1'' 0 sample_secret_spec NewLauncher)) = [ap_PID p]"
proof -
  let ?l = "Launch (\<lambda>c d env. if env = [''HOME=/'', ''DB=pg://x''] then Inr 7 else Inl ''bad'')
      (Some sample_get) [''HOME=/''] ''p1'' 0 sample_secret_spec NewLauncher"
  have "\<exists>p. snd ?l = Inr p"
    by (simp add: Launch_def sample_secret_spec_def sample_spec_def resolveSecretRef_def sample_get_def
        GetNamespace_def Let_def)
  then obtain p where p: "snd ?l = Inr p" ..
  then have "?l = (fst ?l, Inr p)" by (metis prod.collapse)
  from launch_environment [OF this] have "la_alive (fst ?l) = ap_PID p # la_alive NewLauncher" by auto
  then show ?thesis using p by (simp add: NewLauncher_def)
qed

end
