(* ===== verification/Platform.thy ===== *)
theory Platform
  imports Badger_Store Scheduler Launcher
begin

text \<open>
  The platform the control loops run on: the resource store, the launcher and the scheduler in
  one state, \<open>world\<close>, with the operations of the interfaces \<open>ResourceStore\<close>,
  \<open>AgentLauncher\<close> and \<open>Scheduler\<close> of \<open>pkg/apiary/interfaces.go\<close> on it.

  What a control loop reads from outside (the clock, fresh identifiers, random bytes, whether
  its context is done, the outcome of starting a process) is a stream: the \<open>i\<close>-th interaction
  gets the \<open>i\<close>-th element, and \<open>w_tick\<close> counts the interactions.  The locale
  \<open>resource_store\<close> states what clients rely on of a store; the interpretation proves it for
  the BadgerDB store.
\<close>

section \<open>State and operations\<close>

record 'd world_env =
  we_store :: "'d badger_env"
  we_now :: "nat \<Rightarrow> time"
  we_uuid :: "nat \<Rightarrow> string"
  we_rnd :: "nat \<Rightarrow> string \<Rightarrow> string option \<times> string option"
  we_cancelled :: "nat \<Rightarrow> bool"
  we_exec :: "nat \<Rightarrow> string list \<Rightarrow> string \<Rightarrow> string list \<Rightarrow> string + int"
  we_environ :: "string list"

record 'd world =
  w_store :: "'d badger_store"
  w_launcher :: launcher
  w_scheduler :: scheduler
  w_tick :: nat

definition w_next :: "'d world \<Rightarrow> 'd world" where
  "w_next w = w\<lparr>w_tick := Suc (w_tick w)\<rparr>"

definition w_now :: "'d world_env \<Rightarrow> 'd world \<Rightarrow> 'd world \<times> time" where
  "w_now env w = (w_next w, we_now env (w_tick w))"

definition w_done :: "'d world_env \<Rightarrow> 'd world \<Rightarrow> 'd world \<times> bool" where
  "w_done env w = (w_next w, we_cancelled env (w_tick w))"

definition w_Get :: "'d world_env \<Rightarrow> string \<Rightarrow> string \<Rightarrow> string \<Rightarrow> 'd world \<Rightarrow> store_error + resource" where
  "w_Get env kind name ns w = store_Get (we_store env) kind name ns (w_store w)"

definition w_List :: "'d world_env \<Rightarrow> string \<Rightarrow> string \<Rightarrow> labels option \<Rightarrow> 'd world \<Rightarrow> resource list" where
  "w_List env kind ns sel w = store_List (we_store env) kind ns sel (w_store w)"

definition w_Create :: "'d world_env \<Rightarrow> resource \<Rightarrow> 'd world \<Rightarrow> 'd world \<times> store_error option" where
  "w_Create env r w =
    (let (_, s, e) = store_Create (we_store env) (we_uuid env (w_tick w)) (we_now env (w_tick w))
       (we_rnd env (w_tick w)) r (w_store w)
     in ((w_next w)\<lparr>w_store := s\<rparr>, e))"

definition w_Update :: "'d world_env \<Rightarrow> resource \<Rightarrow> 'd world \<Rightarrow> 'd world \<times> store_error option" where
  "w_Update env r w =
    (let (_, s, e) = store_Update (we_store env) (we_now env (w_tick w)) (we_rnd env (w_tick w)) r (w_store w)
     in ((w_next w)\<lparr>w_store := s\<rparr>, e))"

definition w_Delete :: "'d world_env \<Rightarrow> string \<Rightarrow> string \<Rightarrow> string \<Rightarrow> 'd world \<Rightarrow> 'd world \<times> store_error option" where
  "w_Delete env kind name ns w =
    (let (s, e) = store_Delete (we_store env) kind name ns (w_store w) in (w\<lparr>w_store := s\<rparr>, e))"

definition w_Schedule :: "agent_spec \<Rightarrow> 'd world \<Rightarrow> 'd world \<times> (schedule_error + schedule_decision)" where
  "w_Schedule spec w = (let (s, r) = Schedule spec (w_scheduler w) in (w\<lparr>w_scheduler := s\<rparr>, r))"

definition w_Launch :: "'d world_env \<Rightarrow> agent_spec \<Rightarrow> 'd world \<Rightarrow> 'd world \<times> (launch_error + agent_process)" where
  "w_Launch env spec w =
    (let (l, r) = Launch (we_exec env (w_tick w)) (Some (\<lambda>kind name ns. w_Get env kind name ns w))
       (we_environ env) (we_uuid env (w_tick w)) (we_now env (w_tick w)) spec (w_launcher w)
     in ((w_next w)\<lparr>w_launcher := l\<rparr>, r))"

definition w_Stop :: "string \<Rightarrow> 'd world \<Rightarrow> 'd world \<times> launch_error option" where
  "w_Stop processID w = (let (l, e) = launcher_Stop processID (w_launcher w) in (w\<lparr>w_launcher := l\<rparr>, e))"

section \<open>The contract of a resource store\<close>

definition resource_key :: "resource \<Rightarrow> string \<times> string \<times> string" where
  "resource_key r = (GetKind r, GetName r, GetNamespace r)"

text \<open>\<open>ok\<close> is the assumption on the environment, \<open>wf\<close> the names the store keeps apart.\<close>

locale resource_store =
  fixes ok :: "'e \<Rightarrow> bool" and wf :: "string \<Rightarrow> bool"
    and get :: "'e \<Rightarrow> string \<Rightarrow> string \<Rightarrow> string \<Rightarrow> 's \<Rightarrow> store_error + resource"
    and listing :: "'e \<Rightarrow> string \<Rightarrow> string \<Rightarrow> labels option \<Rightarrow> 's \<Rightarrow> resource list"
    and create :: "'e \<Rightarrow> resource \<Rightarrow> 's \<Rightarrow> 's \<times> store_error option"
    and upd :: "'e \<Rightarrow> resource \<Rightarrow> 's \<Rightarrow> 's \<times> store_error option"
    and del :: "'e \<Rightarrow> string \<Rightarrow> string \<Rightarrow> string \<Rightarrow> 's \<Rightarrow> 's \<times> store_error option"
  assumes create_effect: "ok e \<Longrightarrow> wf (GetName r) \<Longrightarrow> wf (GetNamespace r) \<Longrightarrow> create e r s = (s', None) \<Longrightarrow>
      get e (GetKind r) (GetName r) (GetNamespace r) s = Inl ErrNotFound \<and>
      (\<exists>u. \<forall>k n m. wf k \<longrightarrow> wf n \<longrightarrow> wf m \<longrightarrow>
        get e k n m s' = (if (k, n, m) = resource_key r then Inr (ensureUID u r) else get e k n m s))"
    and upd_effect: "ok e \<Longrightarrow> wf (GetName r) \<Longrightarrow> wf (GetNamespace r) \<Longrightarrow> upd e r s = (s', None) \<Longrightarrow>
      get e (GetKind r) (GetName r) (GetNamespace r) s \<noteq> Inl ErrNotFound \<and>
      (\<forall>k n m. wf k \<longrightarrow> wf n \<longrightarrow> wf m \<longrightarrow>
        get e k n m s' = (if (k, n, m) = resource_key r then Inr r else get e k n m s))"
    and del_effect: "ok e \<Longrightarrow> wf k' \<Longrightarrow> wf n' \<Longrightarrow> wf m' \<Longrightarrow> del e k' n' m' s = (s', None) \<Longrightarrow>
      get e k' n' m' s \<noteq> Inl ErrNotFound \<and>
      (\<forall>k n m. wf k \<longrightarrow> wf n \<longrightarrow> wf m \<longrightarrow>
        get e k n m s' = (if (k, n, m) = (k', n', m') then Inl ErrNotFound else get e k n m s))"
    and create_fail: "create e r s = (s', Some err) \<Longrightarrow> get e k n m s' = get e k n m s"
    and upd_fail: "upd e r s = (s', Some err) \<Longrightarrow> get e k n m s' = get e k n m s"
    and del_fail: "del e k' n' m' s = (s', Some err) \<Longrightarrow> get e k n m s' = get e k n m s"
    and listing_get: "ok e \<Longrightarrow> k \<noteq> ''Secret'' \<Longrightarrow> x \<in> set (listing e k m None s) \<Longrightarrow>
      \<exists>n. get e k n m s = Inr x"
    and get_listing: "ok e \<Longrightarrow> k \<noteq> ''Secret'' \<Longrightarrow> wf k \<Longrightarrow> wf n \<Longrightarrow> wf m \<Longrightarrow> get e k n m s = Inr x \<Longrightarrow>
      x \<in> set (listing e k m None s)"
    and listing_select: "listing e k m (Some sel) s = filter (\<lambda>r. Match (GetLabels r) sel) (listing e k m None s)"
begin

text \<open>An operation on one resource changes the answer for no other, whether it succeeds or not.\<close>

lemma create_other:
  assumes "ok e" "wf (GetName r)" "wf (GetNamespace r)" "create e r s = (s', x)"
    and "wf k" "wf n" "wf m" "(k, n, m) \<noteq> resource_key r"
  shows "get e k n m s' = get e k n m s"
  using create_effect [OF assms(1-3), of s s'] create_fail [of e r s s'] assms by (cases x) auto

lemma upd_other:
  assumes "ok e" "wf (GetName r)" "wf (GetNamespace r)" "upd e r s = (s', x)"
    and "wf k" "wf n" "wf m" "(k, n, m) \<noteq> resource_key r"
  shows "get e k n m s' = get e k n m s"
  using upd_effect [OF assms(1-3), of s s'] upd_fail [of e r s s'] assms by (cases x) auto

lemma del_other:
  assumes "ok e" "wf k'" "wf n'" "wf m'" "del e k' n' m' s = (s', x)"
    and "wf k" "wf n" "wf m" "(k, n, m) \<noteq> (k', n', m')"
  shows "get e k n m s' = get e k n m s"
  using del_effect [OF assms(1-4), of s s'] del_fail [of e k' n' m' s s'] assms by (cases x) auto

lemma del_gone:
  assumes "ok e" "wf k'" "wf n'" "wf m'" "del e k' n' m' s = (s', x)"
    and "wf k" "wf n" "wf m" "get e k n m s = Inl ErrNotFound"
  shows "get e k n m s' = Inl ErrNotFound"
  using del_effect [OF assms(1-4), of s s'] del_fail [of e k' n' m' s s'] assms by (cases x) auto

text \<open>A deletion followed by a creation under the same key succeeds in reading the new resource.\<close>

lemma recreate:
  assumes "ok e" "wf (GetName r)" "wf (GetNamespace r)" "wf (GetKind r)"
    and "del e (GetKind r) (GetName r) (GetNamespace r) s = (s1, None)" and "create e r s1 = (s2, None)"
    and "GetUID r \<noteq> ''''"
  shows "get e (GetKind r) (GetName r) (GetNamespace r) s2 = Inr r"
  using create_effect [OF assms(1-3,6)] assms by (auto simp: resource_key_def ensureUID_def)

end

section \<open>The BadgerDB store keeps the contract\<close>

lemma same_db_Get:
  "bs_db s' = bs_db s \<and> bs_passphrase s' = bs_passphrase s \<Longrightarrow> store_Get env kind name ns s' = store_Get env kind name ns s"
  by (rule store_Get_cong) simp_all

lemma list_loop_select:
  "list_loop env kind (Some sel) items = filter (\<lambda>r. Match (GetLabels r) sel) (list_loop env kind None items)"
  by (induction items) (auto split: sum.split)

lemma plain_no_v: "CHR '':'' \<notin> set k \<Longrightarrow> \<not> contains_v k"
  by (induction k rule: contains_v.induct) auto

lemma get_not_secret:
  assumes "env_ok env" and "be_get env (store_key kind name ns) (bs_db s) = Inr data"
    and "unmarshalResource env kind data = Inr r" and "kind \<noteq> ''Secret''"
  shows "store_Get env kind name ns s = Inr r"
proof -
  have "GetKind r = kind" using unmarshal_kind [OF assms(1,3)] .
  then show ?thesis using assms(2-4) by (cases r) (auto simp: store_Get_def decryptSecretData_def)
qed

definition world_ok :: "'d world_env \<Rightarrow> bool" where
  "world_ok env \<longleftrightarrow> env_ok (we_store env) \<and> (\<forall>i. rnd_ok (we_rnd env i))"

lemma w_Create_cases:
  assumes "w_Create env r w = (w', e)"
  obtains r' s' where "store_Create (we_store env) (we_uuid env (w_tick w)) (we_now env (w_tick w))
      (we_rnd env (w_tick w)) r (w_store w) = (r', s', e)" "w_store w' = s'"
    "w_launcher w' = w_launcher w" "w_scheduler w' = w_scheduler w" "w_tick w' = Suc (w_tick w)"
  using assms by (auto simp: w_Create_def w_next_def split: prod.splits)

lemma w_Update_cases:
  assumes "w_Update env r w = (w', e)"
  obtains r' s' where "store_Update (we_store env) (we_now env (w_tick w)) (we_rnd env (w_tick w)) r
      (w_store w) = (r', s', e)" "w_store w' = s'"
    "w_launcher w' = w_launcher w" "w_scheduler w' = w_scheduler w" "w_tick w' = Suc (w_tick w)"
  using assms by (auto simp: w_Update_def w_next_def split: prod.splits)

lemma w_Delete_cases:
  assumes "w_Delete env k n m w = (w', e)"
  obtains s' where "store_Delete (we_store env) k n m (w_store w) = (s', e)" "w' = w\<lparr>w_store := s'\<rparr>"
  using assms by (auto simp: w_Delete_def split: prod.splits)

lemma w_Create_effect:
  assumes "world_ok env" "plain (GetName r)" "plain (GetNamespace r)" and "w_Create env r w = (w', None)"
  shows "w_Get env (GetKind r) (GetName r) (GetNamespace r) w = Inl ErrNotFound \<and>
    (\<exists>u. \<forall>k n m. plain k \<longrightarrow> plain n \<longrightarrow> plain m \<longrightarrow>
      w_Get env k n m w' = (if (k, n, m) = resource_key r then Inr (ensureUID u r) else w_Get env k n m w))"
proof -
  from assms(4) obtain r' s' where c: "store_Create (we_store env) (we_uuid env (w_tick w)) (we_now env (w_tick w))
      (we_rnd env (w_tick w)) r (w_store w) = (r', s', None)" "w_store w' = s'" by (rule w_Create_cases)
  have ok: "env_ok (we_store env)" "rnd_ok (we_rnd env (w_tick w))" using assms(1) by (simp_all add: world_ok_def)
  have id: "GetKind (ensureUID u r) = GetKind r" "GetName (ensureUID u r) = GetName r"
    "GetNamespace (ensureUID u r) = GetNamespace r" for u by (simp_all add: ensureUID_def)
  note g = store_write_Get [OF ok store_Create_ok(1) [OF c(1)], unfolded id]
  show ?thesis using g(1) g(2) [OF assms(2,3)] store_Create_ok(2) [OF c(1)] c(2)
    by (auto simp: w_Get_def resource_key_def store_Get_def)
qed

lemma w_Update_effect:
  assumes "world_ok env" "plain (GetName r)" "plain (GetNamespace r)" and "w_Update env r w = (w', None)"
  shows "w_Get env (GetKind r) (GetName r) (GetNamespace r) w \<noteq> Inl ErrNotFound \<and>
    (\<forall>k n m. plain k \<longrightarrow> plain n \<longrightarrow> plain m \<longrightarrow>
      w_Get env k n m w' = (if (k, n, m) = resource_key r then Inr r else w_Get env k n m w))"
proof -
  from assms(4) obtain r' s' where c: "store_Update (we_store env) (we_now env (w_tick w))
      (we_rnd env (w_tick w)) r (w_store w) = (r', s', None)" "w_store w' = s'" by (rule w_Update_cases)
  have ok: "env_ok (we_store env)" "rnd_ok (we_rnd env (w_tick w))" using assms(1) by (simp_all add: world_ok_def)
  note g = store_write_Get [OF ok store_Update_ok(1) [OF c(1)]]
  obtain data where "be_get (we_store env) (store_key (GetKind r) (GetName r) (GetNamespace r)) (bs_db (w_store w)) = Inr data"
    using store_Update_ok(2) [OF c(1)] by blast
  then have "w_Get env (GetKind r) (GetName r) (GetNamespace r) w \<noteq> Inl ErrNotFound"
    unfolding w_Get_def by (rule store_Get_present)
  then show ?thesis using g(1) g(2) [OF assms(2,3)] c(2) by (auto simp: w_Get_def resource_key_def)
qed

lemma w_Delete_effect:
  assumes "world_ok env" "plain k'" "plain n'" "plain m'" and "w_Delete env k' n' m' w = (w', None)"
  shows "w_Get env k' n' m' w \<noteq> Inl ErrNotFound \<and>
    (\<forall>k n m. plain k \<longrightarrow> plain n \<longrightarrow> plain m \<longrightarrow>
      w_Get env k n m w' = (if (k, n, m) = (k', n', m') then Inl ErrNotFound else w_Get env k n m w))"
proof -
  from assms(5) obtain s' where c: "store_Delete (we_store env) k' n' m' (w_store w) = (s', None)" "w' = w\<lparr>w_store := s'\<rparr>"
    by (rule w_Delete_cases)
  have ok: "env_ok (we_store env)" using assms(1) by (simp add: world_ok_def)
  note d = store_Delete_ok [OF ok c(1)]
  obtain data where "be_get (we_store env) (store_key k' n' m') (bs_db (w_store w)) = Inr data" using d by blast
  then have "w_Get env k' n' m' w \<noteq> Inl ErrNotFound" unfolding w_Get_def by (rule store_Get_present)
  moreover have "w_Get env k n m w' = (if (k, n, m) = (k', n', m') then Inl ErrNotFound else w_Get env k n m w)"
    if "plain k" "plain n" "plain m" for k n m
  proof (cases "(k, n, m) = (k', n', m')")
    case True
    then show ?thesis using d c(2) by (simp add: w_Get_def store_Get_def)
  next
    case False
    then have "store_key k n m \<noteq> store_key k' n' m'" using that assms(2-4) by (auto simp: store_key_inject)
    then show ?thesis using False d c(2) by (auto simp: w_Get_def intro!: store_Get_cong)
  qed
  ultimately show ?thesis by blast
qed

interpretation ws: resource_store world_ok plain w_Get w_List w_Create w_Update w_Delete
proof (unfold_locales, goal_cases)
  case (1 e r s s')
  then show ?case by (rule w_Create_effect)
next
  case (2 e r s s')
  then show ?case by (rule w_Update_effect)
next
  case (3 e k' n' m' s s')
  then show ?case by (rule w_Delete_effect)
next
  case (4 e r s s' err k n m)
  then show ?case unfolding w_Get_def by (metis w_Create_cases store_Create_fail same_db_Get)
next
  case (5 e r s s' err k n m)
  then show ?case unfolding w_Get_def by (metis w_Update_cases store_Update_fail same_db_Get)
next
  case (6 e k' n' m' s s' err k n m)
  then obtain t where "store_Delete (we_store e) k' n' m' (w_store s) = (t, Some err)" "s' = s\<lparr>w_store := t\<rparr>"
    by (elim w_Delete_cases)
  then show ?case unfolding w_Get_def using same_db_Get [OF store_Delete_fail] by simp
next
  case (7 e k x m s)
  then obtain name data where "be_get (we_store e) (store_key k name m) (bs_db (w_store s)) = Inr data"
      "unmarshalResource (we_store e) k data = Inr x"
    by (auto simp: w_List_def world_ok_def store_List_iff)
  then have "store_Get (we_store e) k name m (w_store s) = Inr x"
    using 7(1,2) by (intro get_not_secret) (simp_all add: world_ok_def)
  then show ?case by (auto simp: w_Get_def)
next
  case (8 e k n m s x)
  then have "\<not> contains_v (store_key k n m)" by (simp add: plain_no_v key_colon)
  moreover obtain data where data: "be_get (we_store e) (store_key k n m) (bs_db (w_store s)) = Inr data"
      "unmarshalResource (we_store e) k data = Inr x"
  proof -
    obtain data r where dr: "be_get (we_store e) (store_key k n m) (bs_db (w_store s)) = Inr data"
        "unmarshalResource (we_store e) k data = Inr r"
        "decryptSecretData (be_crypto (we_store e)) (bs_passphrase (w_store s)) r = Inr x"
      using 8 by (auto simp: w_Get_def store_Get_def split: sum.splits kv_error.splits)
    have "GetKind r = k" using unmarshal_kind [OF _ dr(2)] 8(1) by (simp add: world_ok_def)
    then have "r = x" using dr(3) 8(2) by (cases r) (auto simp: decryptSecretData_def)
    then show ?thesis using dr that by blast
  qed
  ultimately show ?case using 8(1) by (auto simp: w_List_def world_ok_def store_List_iff)
next
  case (9 e k m sel s)
  then show ?case by (simp add: w_List_def store_List_def list_loop_select)
qed

section \<open>A concrete world\<close>

text \<open>An environment for the witnesses that marshals the resources of a table, each to its
  name in the table.  Time stands still in version entries, which the table does not hold.\<close>

type_synonym resource_table = "(string \<times> resource) list"

definition table_env :: "resource_table \<Rightarrow> (string \<times> string) list badger_env" where
  "table_env tbl = sample_env
    \<lparr>be_marshal := (\<lambda>r. map_option fst (find (\<lambda>(k, r'). r' = r) tbl)),
     be_unmarshal := (\<lambda>kind data. case map_of tbl data of
        Some r \<Rightarrow> if GetKind r = kind then Some r else None | None \<Rightarrow> None)\<rparr>"

lemma table_env_ok:
  assumes "distinct (map fst tbl)"
  shows "env_ok (table_env tbl)"
proof -
  have s: "kv_laws sample_env" "json_laws sample_env" "aead_correct (be_crypto sample_env)"
    using sample_env_ok by (simp_all add: env_ok_def)
  have "kv_laws (table_env tbl)" using s(1) by (simp add: kv_laws_def table_env_def)
  moreover have "be_unmarshal (table_env tbl) (GetKind r) data = Some r"
    if m: "be_marshal (table_env tbl) r = Some data" for r data
  proof -
    obtain b where kv: "find (\<lambda>(k, r'). r' = r) tbl = Some (data, b)"
      using m by (auto simp: table_env_def)
    then have "(data, r) \<in> set tbl" by (auto simp: find_Some_iff dest!: nth_mem)
    then have "map_of tbl data = Some r" using assms by simp
    then show ?thesis by (simp add: table_env_def)
  qed
  moreover have "be_unmarshalVersion (table_env tbl) data = Some ve"
    if "be_marshalVersion (table_env tbl) ve = Some data" for ve data
    using s(2) that unfolding json_laws_def by (simp add: table_env_def)
  ultimately show ?thesis using s(3)
    by (auto simp: env_ok_def json_laws_def table_env_def split: option.splits if_splits)
qed

definition sample_world_env :: "resource_table \<Rightarrow> (string \<times> string) list world_env" where
  "sample_world_env tbl =
    \<lparr>we_store = table_env tbl, we_now = (\<lambda>_. 0), we_uuid = (\<lambda>i. ''p'' @ nat_str i), we_rnd = (\<lambda>_. sample_rnd),
     we_cancelled = (\<lambda>_. False), we_exec = (\<lambda>i _ _ _. Inr (100 + int i)), we_environ = []\<rparr>"

lemma sample_world_ok: "distinct (map fst tbl) \<Longrightarrow> world_ok (sample_world_env tbl)"
  by (simp add: world_ok_def sample_world_env_def table_env_ok sample_rnd_ok)

definition NewWorld :: "'d \<Rightarrow> string \<Rightarrow> 'd world" where
  "NewWorld db passphrase =
    \<lparr>w_store = NewStore_badger db passphrase, w_launcher = NewLauncher, w_scheduler = NewScheduler, w_tick = 0\<rparr>"

section \<open>What each operation leaves alone\<close>

text \<open>\<open>Get\<close> and \<open>List\<close> depend on the store only.\<close>

lemma w_store_only [simp]:
  "w_Get env k n m (w\<lparr>w_launcher := l\<rparr>) = w_Get env k n m w"
  "w_Get env k n m (w\<lparr>w_scheduler := s\<rparr>) = w_Get env k n m w"
  "w_Get env k n m (w_next w) = w_Get env k n m w"
  "w_List env k m sel (w\<lparr>w_launcher := l\<rparr>) = w_List env k m sel w"
  "w_List env k m sel (w\<lparr>w_scheduler := s\<rparr>) = w_List env k m sel w"
  "w_List env k m sel (w_next w) = w_List env k m sel w"
  by (simp_all add: w_Get_def w_List_def w_next_def)

lemma w_next_simps [simp]:
  "w_store (w_next w) = w_store w" "w_launcher (w_next w) = w_launcher w"
  "w_scheduler (w_next w) = w_scheduler w" "w_tick (w_next w) = Suc (w_tick w)"
  by (simp_all add: w_next_def)

lemma w_Schedule_Inl: "w_Schedule spec w = (w', Inl e) \<Longrightarrow> w' = w"
  by (cases spec "w_scheduler w" rule: Schedule_cases) (auto simp: w_Schedule_def)

text \<open>The scheduler after a reservation for a specification.\<close>

definition reserve :: "agent_spec \<Rightarrow> scheduler \<Rightarrow> scheduler" where
  "reserve spec s = s\<lparr>sch_availableCPU := sch_availableCPU s - rr_CPU (sched_required spec),
     sch_availableMemory := sch_availableMemory s - rr_Memory (sched_required spec)\<rparr>"

lemma w_Schedule_Inr:
  assumes "w_Schedule spec w = (w', Inr d)"
  shows "w' = w\<lparr>w_scheduler := reserve spec (w_scheduler w)\<rparr>"
  using assms by (cases spec "w_scheduler w" rule: Schedule_cases) (auto simp: w_Schedule_def reserve_def)

lemma Launch_Inl: "Launch ex get environ i now spec l = (l', Inl e) \<Longrightarrow> l' = l"
  by (auto simp: Launch_def Let_def split: if_splits sum.splits)

lemma Launch_Inr:
  "Launch ex get environ i now spec l = (l', Inr p) \<Longrightarrow> ap_ID p = i \<and>
    l' = l\<lparr>la_processes := (la_processes l)(i \<mapsto> p), la_alive := ap_PID p # la_alive l\<rparr>"
  by (auto simp: Launch_def Let_def split: if_splits sum.splits)

lemma w_Launch_Inl: "w_Launch env spec w = (w', Inl e) \<Longrightarrow> w' = w_next w"
  by (auto simp: w_Launch_def w_next_def dest: Launch_Inl split: prod.splits)

lemma w_Launch_Inr:
  "w_Launch env spec w = (w', Inr p) \<Longrightarrow> ap_ID p = we_uuid env (w_tick w) \<and>
    w' = (w_next w)\<lparr>w_launcher := (w_launcher w)\<lparr>la_processes := (la_processes (w_launcher w))(ap_ID p \<mapsto> p),
      la_alive := ap_PID p # la_alive (w_launcher w)\<rparr>\<rparr>"
  by (auto simp: w_Launch_def w_next_def dest!: Launch_Inr split: prod.splits)

lemma launcher_Stop_alive [simp]: "la_alive (fst (launcher_Stop p l)) = la_alive l"
  by (simp add: launcher_Stop_def proc_signal_def split: option.split)

lemma w_Stop_simps [simp]:
  "w_store (fst (w_Stop p w)) = w_store w" "w_scheduler (fst (w_Stop p w)) = w_scheduler w"
  "w_tick (fst (w_Stop p w)) = w_tick w" "la_alive (w_launcher (fst (w_Stop p w))) = la_alive (w_launcher w)"
  "w_Get env k n m (fst (w_Stop p w)) = w_Get env k n m w"
  by (simp_all add: w_Stop_def w_Get_def split_beta)

lemma w_store_ops [simp]:
  "w_launcher (fst (w_Create env r w)) = w_launcher w" "w_scheduler (fst (w_Create env r w)) = w_scheduler w"
  "w_tick (fst (w_Create env r w)) = Suc (w_tick w)"
  "w_launcher (fst (w_Update env r w)) = w_launcher w" "w_scheduler (fst (w_Update env r w)) = w_scheduler w"
  "w_tick (fst (w_Update env r w)) = Suc (w_tick w)"
  "w_launcher (fst (w_Delete env k n m w)) = w_launcher w" "w_scheduler (fst (w_Delete env k n m w)) = w_scheduler w"
  "w_tick (fst (w_Delete env k n m w)) = w_tick w"
  by (simp_all add: w_Create_def w_Update_def w_Delete_def w_next_def split_beta)

lemma w_now_simps [simp]: "w_now env w = (w_next w, we_now env (w_tick w))"
  "w_done env w = (w_next w, we_cancelled env (w_tick w))"
  by (simp_all add: w_now_def w_done_def)

lemma plain_append [simp]: "plain (a @ b) \<longleftrightarrow> plain a \<and> plain b"
  by (auto simp: plain_def)

lemma plain_dash [simp]: "plain ''-''" "plain (CHR ''-'' # x) \<longleftrightarrow> plain x"
  by (auto simp: plain_def)

lemma plain_nat_str [simp]: "plain (nat_str i)"
proof -
  have "\<not> is_digit CHR ''/''" "\<not> is_digit CHR '':''" by code_simp+
  then show ?thesis using nat_str_digits [of i] by (auto simp: plain_def list_all_iff)
qed

lemma sample_uuid: "plain (we_uuid (sample_world_env tbl) i)" "we_uuid (sample_world_env tbl) i \<noteq> ''''"
  using plain_nat_str [of i] by (simp_all add: sample_world_env_def plain_def)

end
