(* ===== verification/Autoscaler.thy ===== *)
theory Autoscaler
  imports Platform Metrics
begin

text \<open>
  Package \<open>internal/autoscaler\<close>: the evaluation of the desired number of replicas from the
  collected metrics (\<open>evaluator.go\<close>), the execution of a scaling decision on the platform
  (\<open>executor.go\<close>), and the loop body that combines them with a cooldown (\<open>autoscaler.go\<close>).
\<close>

section \<open>Evaluation\<close>

datatype scaling_action = ScalingActionNone | ScalingActionUp | ScalingActionDown

record scaling_decision =
  sd_AgentSpec :: string
  sd_Namespace :: string
  sd_CurrentReplicas :: int
  sd_DesiredReplicas :: int
  sd_Action :: scaling_action
  sd_ScaleReason :: string
  sd_Timestamp :: time

text \<open>The replicas that the latency asks for, with the minimum \<open>minReplicas\<close>.\<close>

definition eval_latency :: "time \<Rightarrow> agent_spec \<Rightarrow> int \<Rightarrow> int \<Rightarrow> collector \<Rightarrow> collector \<times> int" where
  "eval_latency now spec minReplicas currentReplicas c =
    (let target = sc_TargetLatencyMs (ss_Scaling (as_Spec spec))
     in if target > 0 then
          (let (c, stats) = GetLatencyStats now (GetNamespace (RAgentSpec spec)) (GetName (RAgentSpec spec)) c
           in case stats of
                None \<Rightarrow> (c, currentReplicas)
              | Some ls \<Rightarrow>
                 (if ls_Count ls > 0 then
                    (let p95 = go_div (ls_P95 ls) millisecond
                     in if p95 > target
                        then (c, int64_of_float (fmul (float_of_int currentReplicas)
                                   (fdiv (float_of_int p95) (float_of_int target))))
                        else if p95 < go_div (wrap64 (target * 80)) 100 \<and> currentReplicas > minReplicas
                        then (c, currentReplicas - 1)
                        else (c, currentReplicas))
                  else (c, currentReplicas)))
        else (c, currentReplicas))"

definition eval_queue :: "time \<Rightarrow> agent_spec \<Rightarrow> int \<Rightarrow> int \<Rightarrow> collector \<Rightarrow> collector \<times> int" where
  "eval_queue now spec currentReplicas desired c =
    (let (c, depth) = GetQueueDepth now (GetNamespace (RAgentSpec spec)) (GetName (RAgentSpec spec)) c
     in case depth of
          None \<Rightarrow> (c, desired)
        | Some d \<Rightarrow>
           (if d > 10 then
              (let scaleFactor = fadd 1 (fdiv (float_of_int d) 10);
                   calculated = int64_of_float (fmul (float_of_int currentReplicas) scaleFactor)
               in (c, if calculated > desired then calculated else desired))
            else (c, desired)))"

definition min_replicas :: "agent_spec \<Rightarrow> int" where
  "min_replicas spec = (let m = sc_MinReplicas (ss_Scaling (as_Spec spec)) in if m = 0 then 1 else m)"

definition max_replicas :: "agent_spec \<Rightarrow> int" where
  "max_replicas spec = (let m = sc_MaxReplicas (ss_Scaling (as_Spec spec)) in if m = 0 then 10 else m)"

definition EvaluateScaling :: "time \<Rightarrow> time \<Rightarrow> agent_spec \<Rightarrow> int \<Rightarrow> collector \<Rightarrow> collector \<times> int" where
  "EvaluateScaling now1 now2 spec currentReplicas c =
    (let scaling = ss_Scaling (as_Spec spec)
     in if sc_MinReplicas scaling = 0 \<and> sc_MaxReplicas scaling = 0
        then (c, if currentReplicas = 0 then 1 else currentReplicas)
        else
          (let (c, desired) = eval_latency now1 spec (min_replicas spec) currentReplicas c;
               (c, desired) = eval_queue now2 spec currentReplicas desired c;
               desired = (if desired < min_replicas spec then min_replicas spec else desired);
               desired = (if desired > max_replicas spec then max_replicas spec else desired)
           in (c, desired)))"

definition MakeDecision :: "time \<Rightarrow> time \<Rightarrow> time \<Rightarrow> agent_spec \<Rightarrow> int \<Rightarrow> collector \<Rightarrow> collector \<times> scaling_decision" where
  "MakeDecision now1 now2 now3 spec currentReplicas c =
    (let (c, desired) = EvaluateScaling now1 now2 spec currentReplicas c;
         (action, reason) =
           (if desired > currentReplicas
            then (ScalingActionUp, ''scale up from '' @ int_str currentReplicas @ '' to '' @ int_str desired @ '' replicas'')
            else if desired < currentReplicas
            then (ScalingActionDown, ''scale down from '' @ int_str currentReplicas @ '' to '' @ int_str desired @ '' replicas'')
            else (ScalingActionNone, ''no scaling needed''))
     in (c, \<lparr>sd_AgentSpec = GetName (RAgentSpec spec), sd_Namespace = GetNamespace (RAgentSpec spec),
             sd_CurrentReplicas = currentReplicas, sd_DesiredReplicas = desired, sd_Action = action,
             sd_ScaleReason = reason, sd_Timestamp = now3\<rparr>))"

section \<open>Execution\<close>

record scaling_operation =
  so_AgentSpec :: string
  so_Namespace :: string
  so_TargetReplicas :: int
  so_StartedAt :: time
  so_CompletedAt :: "time option"

type_synonym scaling_ops = "string \<rightharpoonup> scaling_operation"

datatype scaling_error =
    ScalingInProgress string string
  | ScalingCancelled
  | SchedulingFailed schedule_error
  | LaunchFailed launch_error
  | StoreDroneFailed store_error

definition scaled_drone :: "agent_spec \<Rightarrow> string \<Rightarrow> time \<Rightarrow> resource" where
  "scaled_drone spec processID now = RDrone
    \<lparr>dr_TypeMeta = \<lparr>tm_APIVersion = ''apiary.io/v1'', tm_Kind = ''Drone''\<rparr>,
     dr_Meta = \<lparr>om_Name = GetName (RAgentSpec spec) @ ''-'' @ processID,
                om_Namespace = GetNamespace (RAgentSpec spec), om_UID = processID,
                om_Labels = [(''agentspec'', GetName (RAgentSpec spec))], om_Annotations = [],
                om_CreatedAt = now, om_UpdatedAt = now\<rparr>,
     dr_Status = \<lparr>dst_Phase = DronePhaseStarting, dst_Message = '''', dst_StartedAt = Some now,
                  dst_KeeperAddr = '''', dst_Health = None\<rparr>,
     dr_Spec = Some spec\<rparr>"

text \<open>One pass of the loop of \<open>scaleUp\<close>.\<close>

definition scale_up_one :: "'d world_env \<Rightarrow> agent_spec \<Rightarrow> 'd world \<Rightarrow> 'd world \<times> scaling_error option" where
  "scale_up_one env spec w =
    (let (w, cancelled) = w_done env w
     in if cancelled then (w, Some ScalingCancelled)
        else case w_Schedule spec w of
          (w, Inl e) \<Rightarrow> (w, Some (SchedulingFailed e))
        | (w, Inr _) \<Rightarrow>
           (case w_Launch env spec w of
              (w, Inl e) \<Rightarrow> (w, Some (LaunchFailed e))
            | (w, Inr process) \<Rightarrow>
               (let (w, now) = w_now env w
                in case w_Create env (scaled_drone spec (ap_ID process) now) w of
                     (w, Some e) \<Rightarrow> (fst (w_Stop (ap_ID process) w), Some (StoreDroneFailed e))
                   | (w, None) \<Rightarrow> (w, None))))"

fun scale_up_loop :: "'d world_env \<Rightarrow> agent_spec \<Rightarrow> nat \<Rightarrow> 'd world \<Rightarrow> 'd world \<times> scaling_error option" where
  "scale_up_loop env spec 0 w = (w, None)"
| "scale_up_loop env spec (Suc n) w =
    (case scale_up_one env spec w of
       (w, Some e) \<Rightarrow> (w, Some e)
     | (w, None) \<Rightarrow> scale_up_loop env spec n w)"

definition scaleUp :: "'d world_env \<Rightarrow> agent_spec \<Rightarrow> int \<Rightarrow> int \<Rightarrow> 'd world \<Rightarrow> 'd world \<times> scaling_error option" where
  "scaleUp env spec current desired w = scale_up_loop env spec (nat (desired - current)) w"

fun scale_down_loop :: "'d world_env \<Rightarrow> resource list \<Rightarrow> int \<Rightarrow> int \<Rightarrow> 'd world \<Rightarrow> 'd world \<times> scaling_error option" where
  "scale_down_loop env [] toDelete deleted w = (w, None)"
| "scale_down_loop env (r # rs) toDelete deleted w =
    (if \<not> deleted < toDelete then (w, None)
     else
      (let (w, cancelled) = w_done env w
       in if cancelled then (w, Some ScalingCancelled)
          else case r of
            RDrone d \<Rightarrow>
              (let (w, _) = w_Stop (GetUID r) w;
                   (w, e) = w_Delete env ''Drone'' (GetName r) (GetNamespace r) w
               in scale_down_loop env rs toDelete (if e = None then deleted + 1 else deleted) w)
          | _ \<Rightarrow> scale_down_loop env rs toDelete deleted w))"

definition scaleDown :: "'d world_env \<Rightarrow> resource list \<Rightarrow> int \<Rightarrow> int \<Rightarrow> 'd world \<Rightarrow> 'd world \<times> scaling_error option" where
  "scaleDown env drones current desired w = scale_down_loop env drones (current - desired) 0 w"

definition scaling_key :: "string \<Rightarrow> string \<Rightarrow> string" where
  "scaling_key namespace agentspec = namespace @ ''/'' @ agentspec"

definition IsScalingInProgress :: "string \<Rightarrow> string \<Rightarrow> scaling_ops \<Rightarrow> bool" where
  "IsScalingInProgress namespace agentspec ops =
    (case ops (scaling_key namespace agentspec) of None \<Rightarrow> False | Some op \<Rightarrow> so_CompletedAt op = None)"

definition mark_completed :: "string \<Rightarrow> time \<Rightarrow> scaling_ops \<Rightarrow> scaling_ops" where
  "mark_completed key now ops =
    (case ops key of None \<Rightarrow> ops | Some op \<Rightarrow> ops(key \<mapsto> op\<lparr>so_CompletedAt := Some now\<rparr>))"

definition ExecuteScaling :: "'d world_env \<Rightarrow> scaling_decision \<Rightarrow> agent_spec \<Rightarrow> scaling_ops \<Rightarrow> 'd world \<Rightarrow>
    scaling_ops \<times> 'd world \<times> scaling_error option" where
  "ExecuteScaling env decision spec ops w =
    (let key = scaling_key (sd_Namespace decision) (sd_AgentSpec decision)
     in if (case ops key of None \<Rightarrow> False | Some op \<Rightarrow> so_CompletedAt op = None)
        then (ops, w, Some (ScalingInProgress (sd_Namespace decision) (sd_AgentSpec decision)))
        else if sd_Action decision = ScalingActionNone then (ops, w, None)
        else
          (let drones = w_List env ''Drone'' (sd_Namespace decision) (Some [(''agentspec'', sd_AgentSpec decision)]) w;
               currentReplicas = int (length drones);
               (w, now) = w_now env w;
               ops = ops(key \<mapsto> \<lparr>so_AgentSpec = sd_AgentSpec decision, so_Namespace = sd_Namespace decision,
                                so_TargetReplicas = sd_DesiredReplicas decision, so_StartedAt = now,
                                so_CompletedAt = None\<rparr>);
               (w, err) =
                 (case sd_Action decision of
                    ScalingActionUp \<Rightarrow> scaleUp env spec currentReplicas (sd_DesiredReplicas decision) w
                  | ScalingActionDown \<Rightarrow> scaleDown env drones currentReplicas (sd_DesiredReplicas decision) w
                  | ScalingActionNone \<Rightarrow> (w, None));
               (w, now) = w_now env w
           in (mark_completed key now ops, w, err)))"

section \<open>The loop body\<close>

record autoscaler =
  au_ops :: scaling_ops
  au_lastScaling :: "string \<rightharpoonup> time"
  au_cooldownPeriod :: duration

definition NewAutoscaler :: "duration \<Rightarrow> autoscaler" where
  "NewAutoscaler cooldown =
    \<lparr>au_ops = Map.empty, au_lastScaling = Map.empty,
     au_cooldownPeriod = (if cooldown = 0 then 60 * second else cooldown)\<rparr>"

text \<open>\<open>time.Since\<close> reads the clock only when there was a scaling; the two getters and the decision
  read it three times.\<close>

definition in_cooldown :: "'d world_env \<Rightarrow> string \<Rightarrow> autoscaler \<Rightarrow> 'd world \<Rightarrow> 'd world \<times> bool" where
  "in_cooldown env key a w =
    (case au_lastScaling a key of
       None \<Rightarrow> (w, False)
     | Some t \<Rightarrow> (let (w, now) = w_now env w in (w, now - t < au_cooldownPeriod a)))"

definition EvaluateAndScale :: "'d world_env \<Rightarrow> agent_spec \<Rightarrow> int \<Rightarrow> autoscaler \<Rightarrow> collector \<Rightarrow> 'd world \<Rightarrow>
    autoscaler \<times> collector \<times> 'd world \<times> scaling_error option" where
  "EvaluateAndScale env spec currentReplicas a c w =
    (let namespace = GetNamespace (RAgentSpec spec); agentspec = GetName (RAgentSpec spec);
         key = scaling_key namespace agentspec;
         (w, cooling) = in_cooldown env key a w
     in if cooling then (a, c, w, None)
        else if IsScalingInProgress namespace agentspec (au_ops a) then (a, c, w, None)
        else
          (let (w, now1) = w_now env w; (w, now2) = w_now env w; (w, now3) = w_now env w;
               (c, decision) = MakeDecision now1 now2 now3 spec currentReplicas c
           in if sd_Action decision = ScalingActionNone then (a, c, w, None)
              else
               (let (ops, w, err) = ExecuteScaling env decision spec (au_ops a) w;
                    a = a\<lparr>au_ops := ops\<rparr>
                in case err of
                     Some e \<Rightarrow> (a, c, w, Some e)
                   | None \<Rightarrow>
                      (let (w, now) = w_now env w
                       in (a\<lparr>au_lastScaling := (au_lastScaling a)(key \<mapsto> now)\<rparr>, c, w, None)))))"

definition GetLastScalingTime :: "string \<Rightarrow> string \<Rightarrow> autoscaler \<Rightarrow> time option" where
  "GetLastScalingTime namespace agentspec a = au_lastScaling a (scaling_key namespace agentspec)"

section \<open>Evaluation stays within its bounds\<close>

definition unlimited :: "agent_spec \<Rightarrow> bool" where
  "unlimited spec \<longleftrightarrow> sc_MinReplicas (ss_Scaling (as_Spec spec)) = 0 \<and> sc_MaxReplicas (ss_Scaling (as_Spec spec)) = 0"

definition spec_metric_key :: "agent_spec \<Rightarrow> string" where
  "spec_metric_key spec = metric_key (GetNamespace (RAgentSpec spec)) (GetName (RAgentSpec spec))"

lemma EvaluateScaling_unlimited:
  "unlimited spec \<Longrightarrow> EvaluateScaling now1 now2 spec cur c = (c, if cur = 0 then 1 else cur)"
  by (simp add: EvaluateScaling_def unlimited_def)

lemma EvaluateScaling_limited:
  assumes "\<not> unlimited spec" and "eval_latency now1 spec (min_replicas spec) cur c = (c1, d1)"
    and "eval_queue now2 spec cur d1 c1 = (c2, d2)"
  shows "EvaluateScaling now1 now2 spec cur c = (c2, min (max_replicas spec) (max (min_replicas spec) d2))"
  using assms by (simp add: EvaluateScaling_def unlimited_def Let_def min_def max_def del: de_Morgan_conj)

lemma eval_latency_no_signal:
  assumes "mc_latency c (spec_metric_key spec) = None" and "eval_latency now spec m cur c = (c1, d)"
  shows "d = cur"
  using assms
  by (auto simp: eval_latency_def GetLatencyStats_def spec_metric_key_def Let_def split: option.splits if_splits)

lemma eval_queue_no_signal:
  assumes "lookup_or 0 (mc_queue c) (spec_metric_key spec) \<le> 10" and "eval_queue now spec cur d c = (c1, d1)"
  shows "d1 = d"
  using assms
  by (auto simp: eval_queue_def GetQueueDepth_def lookup_or_def spec_metric_key_def Let_def split: option.splits if_splits)

lemma eval_latency_queue:
  "eval_latency now spec m cur c = (c1, d) \<Longrightarrow> mc_queue c1 = mc_queue c"
  by (auto simp: eval_latency_def GetLatencyStats_def Let_def split: option.splits if_splits)

lemma eval_queue_queue:
  "eval_queue now spec cur d c = (c1, d1) \<Longrightarrow> mc_queue c1 = mc_queue c"
  by (auto simp: eval_queue_def GetQueueDepth_def Let_def split: option.splits if_splits)

text \<open>The desired number of replicas stays within the configured limits (with the defaults
  1 and 10), whatever the metrics say; without limits the number is kept, at least one
  when there is none; and without a signal (no latency recorded, no queue deeper than ten) the
  evaluation only moves the number into its limits.\<close>

lemma evaluate_within_bounds:
  assumes "EvaluateScaling now1 now2 spec cur c = (c', desired)"
  shows "(unlimited spec \<longrightarrow> desired = (if cur = 0 then 1 else cur)) \<and>
    (\<not> unlimited spec \<longrightarrow> min_replicas spec \<le> max_replicas spec \<longrightarrow>
      min_replicas spec \<le> desired \<and> desired \<le> max_replicas spec) \<and>
    (\<not> unlimited spec \<longrightarrow> mc_latency c (spec_metric_key spec) = None \<longrightarrow>
      lookup_or 0 (mc_queue c) (spec_metric_key spec) \<le> 10 \<longrightarrow>
      desired = min (max_replicas spec) (max (min_replicas spec) cur))"
proof (cases "unlimited spec")
  case True
  then show ?thesis using assms by (simp add: EvaluateScaling_unlimited)
next
  case False
  obtain c1 d1 where l: "eval_latency now1 spec (min_replicas spec) cur c = (c1, d1)" by (metis surj_pair)
  obtain c2 d2 where q: "eval_queue now2 spec cur d1 c1 = (c2, d2)" by (metis surj_pair)
  have "desired = min (max_replicas spec) (max (min_replicas spec) d2)"
    using EvaluateScaling_limited [OF False l q] assms by simp
  then show ?thesis
    using False eval_latency_no_signal [OF _ l] eval_queue_no_signal [OF _ q] eval_latency_queue [OF l] by auto
qed

section \<open>A queue peak is never forgotten\<close>

fun eval_run :: "agent_spec \<Rightarrow> (metrics_op list \<times> time \<times> time) list \<Rightarrow> int \<Rightarrow> collector \<Rightarrow> int" where
  "eval_run spec [] cur c = cur"
| "eval_run spec ((ops, now1, now2) # rounds) cur c =
    (let (c, desired) = EvaluateScaling now1 now2 spec cur (fold metrics_exec ops c)
     in eval_run spec rounds desired c)"

lemma EvaluateScaling_queue:
  assumes "EvaluateScaling now1 now2 spec cur c = (c', d)"
  shows "mc_queue c' = mc_queue c"
proof (cases "unlimited spec")
  case False
  obtain c1 d1 where l: "eval_latency now1 spec (min_replicas spec) cur c = (c1, d1)" by (metis surj_pair)
  obtain c2 d2 where q: "eval_queue now2 spec cur d1 c1 = (c2, d2)" by (metis surj_pair)
  show ?thesis
    using EvaluateScaling_limited [OF False l q] eval_latency_queue [OF l] eval_queue_queue [OF q] assms by simp
qed (use assms in \<open>simp add: EvaluateScaling_unlimited\<close>)

lemma queue_factor:
  assumes "10 < d" "0 < cur" "cur * (d + 2) < 9007199254740992"
  shows "2 * cur \<le> int64_of_float (fmul (float_of_int cur) (fadd 1 (fdiv (float_of_int d) 10)))"
proof -
  have "d + 2 \<le> cur * (d + 2)" using mult_mono [of 1 cur "d + 2" "d + 2"] assms(1,2) by simp
  then have d2: "d + 2 < 9007199254740992" using assms(3) by (rule le_less_trans)
  have "2 * cur \<le> cur * (d + 2)" using mult_mono [of cur cur 2 "d + 2"] assms(1,2) by simp
  then have c2: "2 * cur < 9007199254740992" using assms(3) by (rule le_less_trans)
  have small: "cur < 9007199254740992" "d < 9007199254740992" using d2 c2 assms(1,2) by linarith+
  note small = small d2 c2
  define q where "q = fdiv (float_of_int d) 10"
  have d10: "float_of_int d / 10 = of_int d / 10" using fl_small_int [of d] small assms(1) by simp
  have "1 \<le> q" using fl_ge [of 1 "of_int d / 10"] assms(1) d10 by (simp add: q_def fdiv_def)
  moreover have "q \<le> of_int (d + 1)"
    using fl_le [of "of_int d / 10" "d + 1"] assms(1) d10 small by (simp add: q_def fdiv_def)
  ultimately have f: "2 \<le> fadd 1 q" "fadd 1 q \<le> of_int (d + 2)"
    using fl_ge [of 2 "1 + q"] fl_le [of "1 + q" "d + 2"] small by (simp_all add: fadd_def)
  have c: "float_of_int cur = of_int cur" using fl_small_int [of cur] small assms(2) by simp
  have lo: "of_int (2 * cur) \<le> of_int cur * fadd 1 q"
    using mult_left_mono [OF f(1), of "of_int cur"] assms(2) by simp
  have hi: "of_int cur * fadd 1 q \<le> of_int (cur * (d + 2))"
    using mult_left_mono [OF f(2), of "of_int cur"] assms(2) by simp
  have "of_int (2 * cur) \<le> fmul (float_of_int cur) (fadd 1 q)"
    using fl_ge [OF lo] assms(2) small c by (simp add: fmul_def)
  moreover have "0 \<le> of_int cur * fadd 1 q" using f(1) assms(2) by simp
  then have "fmul (float_of_int cur) (fadd 1 q) \<le> of_int (cur * (d + 2))"
    using fl_le [OF _ hi] assms(3) c by (simp add: fmul_def)
  ultimately show ?thesis
    using int64_of_float_ge [of "2 * cur" _ "cur * (d + 2)"] assms(2,3) by (simp add: q_def)
qed

lemma evaluate_doubles:
  assumes "EvaluateScaling now1 now2 spec cur c = (c', desired)" and "\<not> unlimited spec"
    and "10 < d" "0 < cur" "cur * (d + 2) < 9007199254740992"
    and "mc_queue c (spec_metric_key spec) = Some d"
  shows "min (max_replicas spec) (2 * cur) \<le> desired"
proof -
  obtain c1 d1 where l: "eval_latency now1 spec (min_replicas spec) cur c = (c1, d1)" by (metis surj_pair)
  obtain c2 d2 where q: "eval_queue now2 spec cur d1 c1 = (c2, d2)" by (metis surj_pair)
  have "mc_queue c1 (spec_metric_key spec) = Some d" using eval_latency_queue [OF l] assms(6) by simp
  then have "2 * cur \<le> d2"
    using q queue_factor [OF assms(3-5)] assms(3)
    by (auto simp: eval_queue_def GetQueueDepth_def spec_metric_key_def Let_def split: if_splits)
  then show ?thesis using EvaluateScaling_limited [OF assms(2) l q] assms(1) by (auto simp: min_def max_def)
qed

lemma foldl_max_bounds:
  fixes a :: int
  shows "a \<le> foldl max a xs" and "a \<le> D \<Longrightarrow> list_all (\<lambda>x. x \<le> D) xs \<Longrightarrow> foldl max a xs \<le> D"
proof -
  show "a \<le> foldl max a xs" by (induction xs arbitrary: a) (auto intro: order_trans [OF max.cobounded1])
  show "a \<le> D \<Longrightarrow> list_all (\<lambda>x. x \<le> D) xs \<Longrightarrow> foldl max a xs \<le> D" by (induction xs arbitrary: a) auto
qed

text \<open>One peak of the queue ratchets a specification to its maximum.  After a queue depth
  above ten has been reported once, each evaluation at least doubles the replicas until the
  maximum is reached, and it never goes below it again, however many zero depths and low
  latencies are reported in between (the metrics are not cleaned up while a specification is
  evaluated).\<close>

lemma queue_peak_ratchets:
  assumes "10 < lookup_or 0 (mc_queue c) (spec_metric_key spec)" "lookup_or 0 (mc_queue c) (spec_metric_key spec) \<le> D"
    and "list_all (\<lambda>(ops, _). list_all (\<lambda>op. \<not> is_cleanup op) ops \<and>
           list_all (\<lambda>d. d \<le> D) (depths (spec_metric_key spec) ops)) rounds"
    and "\<not> unlimited spec" "0 < cur" "cur \<le> max_replicas spec" "min_replicas spec \<le> max_replicas spec"
    and "max_replicas spec * (D + 2) < 9007199254740992"
  shows "min (max_replicas spec) (cur * 2 ^ length rounds) \<le> eval_run spec rounds cur c"
  using assms(1-3,5,6)
proof (induction rounds arbitrary: cur c)
  case Nil
  then show ?case by simp
next
  case (Cons r rounds)
  obtain ops now1 now2 where r: "r = (ops, now1, now2)" by (cases r) auto
  let ?c = "fold metrics_exec ops c" and ?k = "spec_metric_key spec"
  let ?d = "lookup_or 0 (mc_queue ?c) ?k"
  have nc: "list_all (\<lambda>op. \<not> is_cleanup op) ops" "list_all (\<lambda>d. d \<le> D) (depths ?k ops)"
    using Cons.prems(3) r by simp_all
  have d: "10 < ?d" "?d \<le> D"
    using queue_run [OF nc(1), of c ?k] foldl_max_bounds [of "lookup_or 0 (mc_queue c) ?k"] nc(2) Cons.prems(1,2)
    by (fastforce intro: less_le_trans)+
  have "cur * (?d + 2) \<le> max_replicas spec * (D + 2)" using Cons.prems(4,5) d by (intro mult_mono) simp_all
  then have small: "cur * (?d + 2) < 9007199254740992" using assms(8) by (rule le_less_trans)
  have some: "mc_queue ?c ?k = Some ?d" using d(1) by (auto simp: lookup_or_def split: option.splits)
  obtain c' cur' where e: "EvaluateScaling now1 now2 spec cur ?c = (c', cur')" by (metis surj_pair)
  have dbl: "min (max_replicas spec) (2 * cur) \<le> cur'"
    by (rule evaluate_doubles [OF e assms(4) d(1) Cons.prems(4) small some])
  have le: "cur' \<le> max_replicas spec" using evaluate_within_bounds [OF e] assms(4,7) by simp
  have "0 < cur'" using dbl Cons.prems(4,5) by (auto simp: min_def split: if_splits)
  moreover have "lookup_or 0 (mc_queue c') ?k = ?d" using EvaluateScaling_queue [OF e] by (simp add: lookup_or_def)
  ultimately have "min (max_replicas spec) (cur' * 2 ^ length rounds) \<le> eval_run spec rounds cur' c'"
    using Cons.IH [of c' cur'] Cons.prems(3) d le by simp
  moreover have "min (max_replicas spec) (cur * 2 ^ length (r # rounds)) \<le> min (max_replicas spec) (cur' * 2 ^ length rounds)"
  proof (cases "2 * cur \<le> cur'")
    case True
    then have "2 * cur * 2 ^ length rounds \<le> cur' * 2 ^ length rounds" by (rule mult_right_mono) simp
    then have "cur * 2 ^ length (r # rounds) \<le> cur' * 2 ^ length rounds" by (simp add: mult.assoc mult.commute mult.left_commute)
    then show ?thesis by (rule min.mono [OF order_refl])
  next
    case False
    then have "cur' = max_replicas spec" using dbl le by (auto simp: min_def split: if_splits)
    moreover have "max_replicas spec * 1 \<le> max_replicas spec * 2 ^ length rounds"
      using Cons.prems(4,5) by (intro mult_left_mono) simp_all
    ultimately show ?thesis by (simp add: min_def)
  qed
  ultimately show ?case using e r by simp
qed

section \<open>What scaling does to the platform\<close>

lemma scale_up_one_cases:
  assumes "scale_up_one env spec w = (w', err)"
  obtains (cancelled) "w' = w_next w" "err = Some ScalingCancelled"
  | (unscheduled) e where "w' = w_next w" "err = Some (SchedulingFailed e)"
  | (unlaunched) e where "err = Some (LaunchFailed e)" "w_store w' = w_store w" "w_launcher w' = w_launcher w"
      "w_scheduler w' = reserve spec (w_scheduler w)" "w_tick w \<le> w_tick w'"
  | (launched) p w1 where "ap_ID p = we_uuid env (Suc (w_tick w))" "w_store w1 = w_store w"
      "w_launcher w1 = (w_launcher w)\<lparr>la_processes := (la_processes (w_launcher w))(ap_ID p \<mapsto> p),
         la_alive := ap_PID p # la_alive (w_launcher w)\<rparr>"
      "w_scheduler w1 = reserve spec (w_scheduler w)" "w_tick w1 = w_tick w + 3"
      "(\<exists>w2 e. w_Create env (scaled_drone spec (ap_ID p) (we_now env (w_tick w + 2))) w1 = (w2, Some e) \<and>
           w' = fst (w_Stop (ap_ID p) w2) \<and> err = Some (StoreDroneFailed e)) \<or>
       w_Create env (scaled_drone spec (ap_ID p) (we_now env (w_tick w + 2))) w1 = (w', None) \<and> err = None"
proof -
  let ?w0 = "w_next w"
  show ?thesis
  proof (cases "we_cancelled env (w_tick w)")
    case True
    then show ?thesis using assms cancelled by (simp add: scale_up_one_def)
  next
    case False
    note one = assms [unfolded scale_up_one_def, simplified, simplified False, simplified]
    obtain wa r where s: "w_Schedule spec ?w0 = (wa, r)" by (metis surj_pair)
    show ?thesis
    proof (cases r)
      case (Inl e)
      then show ?thesis using one s w_Schedule_Inl [of spec ?w0 wa e] by (intro unscheduled [of e]) auto
    next
      case (Inr d)
      have wa: "wa = ?w0\<lparr>w_scheduler := reserve spec (w_scheduler w)\<rparr>"
        using w_Schedule_Inr [of spec ?w0 wa d] s Inr by simp
      obtain wb q where l: "w_Launch env spec wa = (wb, q)" by (metis surj_pair)
      show ?thesis
      proof (cases q)
        case (Inl e)
        have "wb = w_next wa" using w_Launch_Inl [of env spec wa wb e] l Inl by simp
        then show ?thesis using one s \<open>r = Inr d\<close> l Inl wa by (intro unlaunched [of e]) auto
      next
        case (Inr p)
        note wb = w_Launch_Inr [OF l [unfolded Inr]]
        obtain w2 err2 where c: "w_Create env (scaled_drone spec (ap_ID p) (we_now env (w_tick w + 2))) (w_next wb) = (w2, err2)"
          by (metis surj_pair)
        have t: "w_tick wb = w_tick w + 2" "w_tick wa = Suc (w_tick w)" using wb wa by simp_all
        have "(w', err) = (case err2 of None \<Rightarrow> (w2, None) | Some e \<Rightarrow> (fst (w_Stop (ap_ID p) w2), Some (StoreDroneFailed e)))"
          using one s \<open>r = Inr d\<close> l Inr c t by (simp split: option.splits)
        then show ?thesis using c wb wa t
          by (intro launched [of p "w_next wb"]) (auto split: option.splits)
      qed
    qed
  qed
qed

text \<open>The books of the machine: what is reserved and how many processes run.\<close>

definition books :: "'d world \<Rightarrow> int \<times> int \<times> nat" where
  "books w = (sch_availableCPU (w_scheduler w), sch_availableMemory (w_scheduler w), length (la_alive (w_launcher w)))"

definition charged :: "agent_spec \<Rightarrow> nat \<Rightarrow> nat \<Rightarrow> int \<times> int \<times> nat \<Rightarrow> int \<times> int \<times> nat" where
  "charged spec n m b = (case b of (cpu, mem, procs) \<Rightarrow>
    (cpu - int n * rr_CPU (sched_required spec), mem - int n * rr_Memory (sched_required spec), procs + m))"

lemma charged_simps [simp]:
  "charged spec 0 0 b = b" "charged spec n m (charged spec n' m' b) = charged spec (n + n') (m + m') b"
  by (auto simp: charged_def algebra_simps split: prod.split)

lemma books_simps [simp]: "books (w_next w) = books w"
  by (simp add: books_def)

lemma books_frame: "w_scheduler w' = w_scheduler w \<Longrightarrow> la_alive (w_launcher w') = la_alive (w_launcher w) \<Longrightarrow>
    books w' = books w"
  by (simp add: books_def)

text \<open>What one pass reserves, and how many processes it leaves running.\<close>

fun reserved_by :: "scaling_error option \<Rightarrow> nat" where
  "reserved_by None = 1"
| "reserved_by (Some (LaunchFailed _)) = 1"
| "reserved_by (Some (StoreDroneFailed _)) = 1"
| "reserved_by _ = 0"

fun started_by :: "scaling_error option \<Rightarrow> nat" where
  "started_by None = 1"
| "started_by (Some (StoreDroneFailed _)) = 1"
| "started_by _ = 0"

lemma scale_up_one_books:
  assumes "scale_up_one env spec w = (w', err)"
  shows "w_tick w \<le> w_tick w' \<and> books w' = charged spec (reserved_by err) (started_by err) (books w)"
  using assms
proof (cases rule: scale_up_one_cases)
  case (unlaunched e)
  then show ?thesis by (simp add: books_def charged_def reserve_def)
next
  case (launched p w1)
  have b1: "books w1 = charged spec 1 1 (books w)" using launched(3,4) by (simp add: books_def charged_def reserve_def)
  define cr where "cr = w_Create env (scaled_drone spec (ap_ID p) (we_now env (w_tick w + 2))) w1"
  have c: "books (fst cr) = books w1" "w_tick (fst cr) = Suc (w_tick w1)"
    unfolding cr_def by (rule books_frame) simp_all
  have s: "books (fst (w_Stop i w2)) = books w2" for i and w2 :: "'a world" by (rule books_frame) simp_all
  from launched(6) show ?thesis
  proof
    assume "\<exists>w2 e. w_Create env (scaled_drone spec (ap_ID p) (we_now env (w_tick w + 2))) w1 = (w2, Some e) \<and>
        w' = fst (w_Stop (ap_ID p) w2) \<and> err = Some (StoreDroneFailed e)"
    then obtain w2 e where "cr = (w2, Some e)" "w' = fst (w_Stop (ap_ID p) w2)" "err = Some (StoreDroneFailed e)"
      unfolding cr_def by blast
    then show ?thesis using b1 c s launched(5) by simp
  next
    assume "w_Create env (scaled_drone spec (ap_ID p) (we_now env (w_tick w + 2))) w1 = (w', None) \<and> err = None"
    then have "cr = (w', None)" "err = None" unfolding cr_def by simp_all
    then show ?thesis using b1 c launched(5) by simp
  qed
qed simp_all

lemma scale_up_loop_books:
  "scale_up_loop env spec n w = (w', err) \<Longrightarrow> w_tick w \<le> w_tick w' \<and>
    (\<exists>k \<le> n. (err = None \<longrightarrow> k = n) \<and> (err \<noteq> None \<longrightarrow> k < n) \<and>
      books w' = charged spec (k + (if err = None then 0 else reserved_by err))
                              (k + (if err = None then 0 else started_by err)) (books w))"
proof (induction n arbitrary: w)
  case 0
  then show ?case by simp
next
  case (Suc n)
  obtain w1 e1 where one: "scale_up_one env spec w = (w1, e1)" by (metis surj_pair)
  note b1 = scale_up_one_books [OF one]
  show ?case
  proof (cases e1)
    case None
    then have "scale_up_loop env spec n w1 = (w', err)" using Suc.prems one by simp
    from Suc.IH [OF this] obtain k where "w_tick w1 \<le> w_tick w'" "k \<le> n" "err = None \<longrightarrow> k = n" "err \<noteq> None \<longrightarrow> k < n"
      "books w' = charged spec (k + (if err = None then 0 else reserved_by err))
                               (k + (if err = None then 0 else started_by err)) (books w1)" by blast
    then show ?thesis using b1 None by (intro conjI exI [of _ "Suc k"]) (simp_all add: add.commute)
  next
    case (Some e)
    then have "w' = w1" "err = Some e" using Suc.prems one by simp_all
    then show ?thesis using b1 Some by (intro conjI exI [of _ 0]) simp_all
  qed
qed

lemma scale_down_loop_books:
  "scale_down_loop env rs n deleted w = (w', err) \<Longrightarrow> w_tick w \<le> w_tick w' \<and> books w' = books w"
proof (induction rs arbitrary: deleted w)
  case Nil
  then show ?case by simp
next
  case (Cons r rs)
  show ?case
  proof (cases "\<not> deleted < n \<or> we_cancelled env (w_tick w)")
    case True
    then show ?thesis using Cons.prems by (auto split: if_splits)
  next
    case False
    show ?thesis
    proof (cases r)
      case (RDrone d)
      define w1 where "w1 = fst (w_Delete env ''Drone'' (GetName r) (GetNamespace r) (fst (w_Stop (GetUID r) (w_next w))))"
      obtain deleted' where "scale_down_loop env rs n deleted' w1 = (w', err)"
        using Cons.prems False RDrone by (auto simp: w1_def split_beta)
      moreover have "books w1 = books w" "w_tick w1 = Suc (w_tick w)"
        unfolding w1_def by (subst books_frame [of _ w]) simp_all
      ultimately show ?thesis using Cons.IH by fastforce
    qed (use Cons False in fastforce)+
  qed
qed

text \<open>Scaling up and down again is not neutral.  A successful scale-up by \<open>n\<close> followed by
  any scale-down leaves \<open>n\<close> more processes running and \<open>n\<close> more reservations held than before,
  because stopping a process does not stop it and the scheduler has no release; and a
  scale-up that fails at the launch or at the store has already reserved for the failed
  replica, in the second case with its process left running.\<close>

lemma scale_cycle_leaks:
  assumes "scaleUp env spec current desired w = (w1, err)"
    and "scaleDown env drones current' desired' w1 = (w2, err')"
  shows "(err = None \<longrightarrow> books w2 = charged spec (nat (desired - current)) (nat (desired - current)) (books w)) \<and>
    (\<forall>e. err = Some e \<longrightarrow> (\<exists>k < nat (desired - current).
      books w2 = charged spec (k + reserved_by (Some e)) (k + started_by (Some e)) (books w)))"
proof -
  have "books w2 = books w1" using scale_down_loop_books [OF assms(2) [unfolded scaleDown_def]] by simp
  then show ?thesis using scale_up_loop_books [OF assms(1) [unfolded scaleUp_def]] by auto
qed

definition sample_scaled_env :: "(string \<times> string) list world_env" where
  "sample_scaled_env = sample_world_env [(''d'', scaled_drone sample_spec ''p1'' 0)]"

section \<open>What scaling does to the store\<close>

text \<open>Identifiers and names the store keeps apart.\<close>

definition names_ok :: "'d world_env \<Rightarrow> agent_spec \<Rightarrow> bool" where
  "names_ok env spec \<longleftrightarrow> world_ok env \<and> plain (GetName (RAgentSpec spec)) \<and> plain (GetNamespace (RAgentSpec spec)) \<and>
    (\<forall>i. plain (we_uuid env i) \<and> we_uuid env i \<noteq> '''')"

lemma scaled_drone_simps [simp]:
  "GetKind (scaled_drone spec i t) = ''Drone''"
  "GetName (scaled_drone spec i t) = GetName (RAgentSpec spec) @ ''-'' @ i"
  "GetNamespace (scaled_drone spec i t) = GetNamespace (RAgentSpec spec)"
  "GetUID (scaled_drone spec i t) = i"
  "GetLabels (scaled_drone spec i t) = [(''agentspec'', GetName (RAgentSpec spec))]"
  by (simp_all add: scaled_drone_def GetName_def GetNamespace_def GetUID_def GetLabels_def)



text \<open>A successful pass adds one drone, under a key that was free, and keeps all others.\<close>

lemma scale_up_one_store:
  assumes "scale_up_one env spec w = (w', None)" and "names_ok env spec"
  shows "\<exists>p t. w_Get env ''Drone'' (GetName (RAgentSpec spec) @ ''-'' @ ap_ID p) (GetNamespace (RAgentSpec spec)) w = Inl ErrNotFound \<and>
    la_processes (w_launcher w') (ap_ID p) = Some p \<and> plain (ap_ID p) \<and>
    (\<forall>k n m. plain k \<longrightarrow> plain n \<longrightarrow> plain m \<longrightarrow> w_Get env k n m w' =
      (if (k, n, m) = resource_key (scaled_drone spec (ap_ID p) t) then Inr (scaled_drone spec (ap_ID p) t)
       else w_Get env k n m w))"
  using assms(1)
proof (cases rule: scale_up_one_cases)
  case (launched p w1)
  let ?d = "scaled_drone spec (ap_ID p) (we_now env (w_tick w + 2))"
  have c: "w_Create env ?d w1 = (w', None)" using launched(6) by simp
  have pl: "plain (ap_ID p)" "ap_ID p \<noteq> ''''" "plain (GetName ?d)" "plain (GetNamespace ?d)"
    using assms(2) launched(1) by (simp_all add: names_ok_def)
  have "world_ok env" using assms(2) by (simp add: names_ok_def)
  from w_Create_effect [OF this pl(3,4) c] pl(2) have e:
    "w_Get env ''Drone'' (GetName ?d) (GetNamespace ?d) w1 = Inl ErrNotFound"
    "\<forall>k n m. plain k \<longrightarrow> plain n \<longrightarrow> plain m \<longrightarrow>
      w_Get env k n m w' = (if (k, n, m) = resource_key ?d then Inr ?d else w_Get env k n m w1)"
    by (auto simp: ensureUID_def)
  have "w_launcher w' = w_launcher w1" using c w_store_ops(1) by (metis fst_conv)
  moreover have "w_Get env k n m w1 = w_Get env k n m w" for k n m using launched(2) by (simp add: w_Get_def)
  ultimately show ?thesis using e pl(1) launched(3) by (intro exI [of _ p] exI) auto
qed simp_all

text \<open>A scale-up that succeeds creates exactly the missing replicas: that many new drones,
  each readable under its own key with the identifier of a process of the launcher, under keys
  that were free before; every resource that could be read before is unchanged.\<close>

lemma scale_up_exact:
  assumes "scaleUp env spec current desired w = (w', None)" and "names_ok env spec"
  shows "\<exists>ds. length ds = nat (desired - current) \<and> distinct (map resource_key ds) \<and>
    (\<forall>d \<in> set ds. \<exists>i t. plain i \<and> d = scaled_drone spec i t \<and>
      w_Get env ''Drone'' (GetName d) (GetNamespace d) w = Inl ErrNotFound \<and>
      w_Get env ''Drone'' (GetName d) (GetNamespace d) w' = Inr d) \<and>
    (\<forall>k n m. plain k \<longrightarrow> plain n \<longrightarrow> plain m \<longrightarrow> (k, n, m) \<notin> resource_key ` set ds \<longrightarrow>
      w_Get env k n m w' = w_Get env k n m w)"
  using assms(1) unfolding scaleUp_def
proof (induction "nat (desired - current)" arbitrary: current w)
  case 0
  then show ?case by (intro exI [of _ "[]"]) simp
next
  case (Suc j)
  then have eq: "nat (desired - current) = Suc j" "j = nat (desired - (current + 1))" by simp_all
  obtain w1 e1 where one: "scale_up_one env spec w = (w1, e1)" by (metis surj_pair)
  have e1: "e1 = None" and rest: "scale_up_loop env spec (nat (desired - (current + 1))) w1 = (w', None)"
    using Suc.prems one unfolding eq(1) eq(2) [symmetric] by (auto split: option.splits)
  from scale_up_one_store [OF one [unfolded e1] assms(2)] obtain i t where
    d: "w_Get env ''Drone'' (GetName (RAgentSpec spec) @ ''-'' @ i) (GetNamespace (RAgentSpec spec)) w = Inl ErrNotFound"
      "plain i" "\<And>k n m. plain k \<Longrightarrow> plain n \<Longrightarrow> plain m \<Longrightarrow> w_Get env k n m w1 =
        (if (k, n, m) = resource_key (scaled_drone spec i t) then Inr (scaled_drone spec i t) else w_Get env k n m w)"
    by blast
  have pl: "plain (GetName (RAgentSpec spec))" "plain (GetNamespace (RAgentSpec spec))" "plain ''Drone''"
    using assms(2) by (simp_all add: names_ok_def plain_def)
  let ?d = "scaled_drone spec i t"
  have here: "w_Get env ''Drone'' (GetName ?d) (GetNamespace ?d) w1 = Inr ?d"
    using d(2,3) pl by (simp add: resource_key_def)
  from Suc.hyps(1) [OF eq(2) rest] obtain ds where ds: "length ds = nat (desired - (current + 1))"
    "distinct (map resource_key ds)"
    "\<And>d. d \<in> set ds \<Longrightarrow> \<exists>i t. plain i \<and> d = scaled_drone spec i t \<and>
      w_Get env ''Drone'' (GetName d) (GetNamespace d) w1 = Inl ErrNotFound \<and>
      w_Get env ''Drone'' (GetName d) (GetNamespace d) w' = Inr d"
    "\<And>k n m. plain k \<Longrightarrow> plain n \<Longrightarrow> plain m \<Longrightarrow> (k, n, m) \<notin> resource_key ` set ds \<Longrightarrow>
      w_Get env k n m w' = w_Get env k n m w1" by blast
  have key: "resource_key d = (''Drone'', GetName d, GetNamespace d)" if "d \<in> set ds" for d
    using ds(3) [OF that] by (auto simp: resource_key_def)
  have new: "resource_key ?d \<notin> resource_key ` set ds"
  proof
    assume "resource_key ?d \<in> resource_key ` set ds"
    then obtain d' where d': "d' \<in> set ds" "resource_key ?d = resource_key d'" by auto
    then have "GetName ?d = GetName d'" "GetNamespace ?d = GetNamespace d'" using key [OF d'(1)] by (auto simp: resource_key_def)
    then show False using ds(3) [OF d'(1)] here by auto
  qed
  have frame: "w_Get env k n m w' = w_Get env k n m w"
    if "plain k" "plain n" "plain m" "(k, n, m) \<notin> resource_key ` set (?d # ds)" for k n m
    using d(3) [OF that(1-3)] ds(4) [OF that(1-3)] that(4) by auto
  have old: "\<exists>i t. plain i \<and> e = scaled_drone spec i t \<and>
      w_Get env ''Drone'' (GetName e) (GetNamespace e) w = Inl ErrNotFound \<and>
      w_Get env ''Drone'' (GetName e) (GetNamespace e) w' = Inr e" if e: "e \<in> set ds" for e
  proof -
    obtain i' t' where it: "plain i'" "e = scaled_drone spec i' t'" using ds(3) [OF e] by blast
    have "resource_key e \<noteq> resource_key ?d" using new e by (metis image_eqI)
    then have "w_Get env ''Drone'' (GetName e) (GetNamespace e) w1 = w_Get env ''Drone'' (GetName e) (GetNamespace e) w"
      using d(3) [of "''Drone''" "GetName e" "GetNamespace e"] it pl key [OF e] by simp
    then show ?thesis using ds(3) [OF e] by auto
  qed
  have "w_Get env ''Drone'' (GetName ?d) (GetNamespace ?d) w' = Inr ?d"
    using ds(4) [of "''Drone''" "GetName ?d" "GetNamespace ?d"] new d(2) pl here by (simp add: resource_key_def)
  then have now: "\<exists>i t. plain i \<and> ?d = scaled_drone spec i t \<and>
      w_Get env ''Drone'' (GetName ?d) (GetNamespace ?d) w = Inl ErrNotFound \<and>
      w_Get env ''Drone'' (GetName ?d) (GetNamespace ?d) w' = Inr ?d"
    using d(1,2) by (intro exI [of _ i] exI [of _ t]) simp
  show ?case
  proof (intro exI [of _ "?d # ds"] conjI ballI)
    show "length (?d # ds) = nat (desired - current)" using ds(1) eq by simp
    show "distinct (map resource_key (?d # ds))" using ds(2) new by simp
  next
    fix e assume e: "e \<in> set (?d # ds)"
    show "\<exists>i t. plain i \<and> e = scaled_drone spec i t \<and>
        w_Get env ''Drone'' (GetName e) (GetNamespace e) w = Inl ErrNotFound \<and>
        w_Get env ''Drone'' (GetName e) (GetNamespace e) w' = Inr e"
    proof (cases "e = ?d")
      case True
      show ?thesis unfolding True by (rule now)
    next
      case False
      then show ?thesis using e old [of e] by simp
    qed
  qed (use frame in blast)
qed

text \<open>How many of a list of resources existed before and are gone afterwards.\<close>

definition drones_ok :: "'d world_env \<Rightarrow> resource list \<Rightarrow> bool" where
  "drones_ok env rs \<longleftrightarrow> world_ok env \<and> distinct (map resource_key rs) \<and>
    list_all (\<lambda>r. (\<exists>d. r = RDrone d) \<and> plain (GetName r) \<and> plain (GetNamespace r)) rs"

definition gone :: "'d world_env \<Rightarrow> resource list \<Rightarrow> 'd world \<Rightarrow> resource list" where
  "gone env rs w = filter (\<lambda>r. w_Get env (GetKind r) (GetName r) (GetNamespace r) w = Inl ErrNotFound) rs"

lemma scale_down_loop_frame:
  assumes "scale_down_loop env rs n deleted w = (w', err)" and "drones_ok env rs"
    and "plain k" "plain nm" "plain m" "(k, nm, m) \<notin> resource_key ` set rs"
  shows "w_Get env k nm m w' = w_Get env k nm m w"
  using assms
proof (induction rs arbitrary: deleted w)
  case Nil
  then show ?case by simp
next
  case (Cons r rs)
  obtain d where r: "r = RDrone d" and p: "plain (GetName r)" "plain (GetNamespace r)" "drones_ok env rs" "world_ok env"
    using Cons.prems(2) by (auto simp: drones_ok_def)
  show ?case
  proof (cases "\<not> deleted < n \<or> we_cancelled env (w_tick w)")
    case True
    then show ?thesis using Cons.prems(1) by (auto split: if_splits)
  next
    case False
    let ?w0 = "fst (w_Stop (GetUID r) (w_next w))"
    obtain w1 e where del: "w_Delete env ''Drone'' (GetName r) (GetNamespace r) ?w0 = (w1, e)" by (metis surj_pair)
    then have "scale_down_loop env rs n (if e = None then deleted + 1 else deleted) w1 = (w', err)"
      using Cons.prems(1) False r by (simp add: split_beta)
    then have "w_Get env k nm m w' = w_Get env k nm m w1"
      using Cons.IH [OF _ p(3)] Cons.prems(3-6) by simp
    also have "\<dots> = w_Get env k nm m ?w0"
      using ws.del_other [OF p(4) _ p(1,2) del] Cons.prems(3-6) r by (simp add: plain_def resource_key_def)
    finally show ?thesis by simp
  qed
qed

lemma scale_down_loop_gone:
  assumes "scale_down_loop env rs n deleted w = (w', None)" and "drones_ok env rs" and "gone env rs w = []"
  shows "\<exists>i. length (gone env rs w') = i \<and> (deleted \<le> n \<longrightarrow> deleted + int i \<le> n)"
  using assms
proof (induction rs arbitrary: deleted w)
  case Nil
  then show ?case by (simp add: gone_def)
next
  case (Cons r rs)
  obtain d where r: "r = RDrone d" and p: "plain (GetName r)" "plain (GetNamespace r)" "drones_ok env rs" "world_ok env"
      "resource_key r \<notin> resource_key ` set rs"
    using Cons.prems(2) by (auto simp: drones_ok_def)
  have pr: "plain (GetKind x)" "x \<in> set rs \<Longrightarrow> plain (GetName x) \<and> plain (GetNamespace x)" for x
    using Cons.prems(2) by (auto simp: drones_ok_def list_all_iff)
  show ?case
  proof (cases "deleted < n")
    case False
    then show ?thesis using Cons.prems by simp
  next
    case True
    let ?w0 = "fst (w_Stop (GetUID r) (w_next w))"
    obtain w1 e where del: "w_Delete env ''Drone'' (GetName r) (GetNamespace r) ?w0 = (w1, e)" by (metis surj_pair)
    then have rest: "scale_down_loop env rs n (if e = None then deleted + 1 else deleted) w1 = (w', None)"
      using Cons.prems(1) True r by (auto simp: split_beta split: if_splits)
    have other: "w_Get env (GetKind x) (GetName x) (GetNamespace x) w1 = w_Get env (GetKind x) (GetName x) (GetNamespace x) w"
      if "x \<in> set rs" for x
    proof -
      have "resource_key x \<noteq> resource_key r" using p(5) that by (metis image_eqI)
      then show ?thesis
        using ws.del_other [OF p(4) _ p(1,2) del, of "GetKind x" "GetName x" "GetNamespace x"] pr that r
        by (simp add: resource_key_def plain_def)
    qed
    have "gone env rs w1 = []" using Cons.prems(3) other by (auto simp: gone_def filter_empty_conv split: if_splits)
    from Cons.IH [OF rest p(3) this]
    have ih: "(if e = None then deleted + 1 else deleted) \<le> n \<Longrightarrow>
        (if e = None then deleted + 1 else deleted) + int (length (gone env rs w')) \<le> n" by blast
    have "w_Get env (GetKind r) (GetName r) (GetNamespace r) w' = w_Get env (GetKind r) (GetName r) (GetNamespace r) w1"
      using scale_down_loop_frame [OF rest p(3)] pr(1) p(1,2,5) by (simp add: resource_key_def)
    moreover have "w_Get env (GetKind r) (GetName r) (GetNamespace r) w1 \<noteq> Inl ErrNotFound" if "e \<noteq> None"
      using ws.del_fail [of env "''Drone''" "GetName r" "GetNamespace r" ?w0 w1] del that Cons.prems(3)
      by (auto simp: gone_def split: if_splits)
    ultimately have "length (gone env (r # rs) w') \<le> (if e = None then 1 else 0) + length (gone env rs w')"
      by (auto simp: gone_def)
    then show ?thesis using ih True by (auto split: if_splits)
  qed
qed

text \<open>Scaling down removes at most the surplus and nothing else: of the drones it is given,
  at most \<open>current - desired\<close> are deleted, and every other resource keeps its value.\<close>

lemma scale_down_bounded:
  assumes "scaleDown env rs current desired w = (w', None)" and "drones_ok env rs" and "gone env rs w = []"
  shows "length (gone env rs w') \<le> nat (current - desired) \<and>
    (\<forall>k n m. plain k \<longrightarrow> plain n \<longrightarrow> plain m \<longrightarrow> (k, n, m) \<notin> resource_key ` set rs \<longrightarrow>
      w_Get env k n m w' = w_Get env k n m w)"
proof -
  have f: "w_Get env k n m w' = w_Get env k n m w"
    if "plain k" "plain n" "plain m" "(k, n, m) \<notin> resource_key ` set rs" for k n m
    by (rule scale_down_loop_frame [OF assms(1) [unfolded scaleDown_def] assms(2) that])
  have "length (gone env rs w') \<le> nat (current - desired)"
  proof (cases "0 \<le> current - desired")
    case True
    then show ?thesis using scale_down_loop_gone [OF assms(1) [unfolded scaleDown_def] assms(2,3)] by auto
  next
    case False
    then have "w' = w" using assms(1) by (cases rs) (simp_all add: scaleDown_def)
    then show ?thesis using assms(3) by simp
  qed
  with f show ?thesis by blast
qed

section \<open>Cooldown\<close>

lemma ExecuteScaling_tick: "ExecuteScaling env d spec ops w = (ops', w', err) \<Longrightarrow> w_tick w \<le> w_tick w'"
proof -
  assume e: "ExecuteScaling env d spec ops w = (ops', w', err)"
  have u: "w_tick w1 \<le> w_tick (fst (scaleUp env spec c n w1))" for c n and w1 :: "'a world"
    using scale_up_loop_books [of env spec _ w1] unfolding scaleUp_def by (metis prod.collapse)
  have dn: "w_tick w1 \<le> w_tick (fst (scaleDown env rs c n w1))" for rs c n and w1 :: "'a world"
    using scale_down_loop_books [of env rs _ _ w1] unfolding scaleDown_def by (metis prod.collapse)
  have "w_tick w \<le> Suc (w_tick (fst (scaleUp env spec c n (w_next w))))" for c n
    using u [of "w_next w" c n] by simp
  moreover have "w_tick w \<le> Suc (w_tick (fst (scaleDown env rs c n (w_next w))))" for rs c n
    using dn [of "w_next w" rs c n] by simp
  ultimately show ?thesis using e
    by (auto simp: ExecuteScaling_def Let_def split_beta split: if_splits scaling_action.splits)
qed

lemma mark_completed_done: "\<not> (case mark_completed key now ops key of None \<Rightarrow> False | Some op \<Rightarrow> so_CompletedAt op = None)"
  by (simp add: mark_completed_def split: option.split)

text \<open>No scaling stays in progress: whatever happens in \<open>ExecuteScaling\<close>, a specification it was
  called for is free again, or was busy before.\<close>

lemma execute_scaling_releases:
  assumes "ExecuteScaling env d spec ops w = (ops', w', err)"
    and "\<not> IsScalingInProgress (sd_Namespace d) (sd_AgentSpec d) ops"
  shows "\<not> IsScalingInProgress (sd_Namespace d) (sd_AgentSpec d) ops' \<and>
    (\<forall>key. key \<noteq> scaling_key (sd_Namespace d) (sd_AgentSpec d) \<longrightarrow> ops' key = ops key)"
  using assms mark_completed_done
  by (auto simp: ExecuteScaling_def IsScalingInProgress_def mark_completed_def Let_def split_beta split: if_splits option.splits)

text \<open>Scalings of one specification are at least a cooldown period apart.  Within the
  period after a recorded scaling \<open>EvaluateAndScale\<close> does nothing but read the clock, the time
  it records next is a whole period later, and it never touches the record of another
  specification.\<close>

lemma cooldown_spaces_scalings:
  assumes "EvaluateAndScale env spec cur a c w = (a', c', w', err)"
    and "key = scaling_key (GetNamespace (RAgentSpec spec)) (GetName (RAgentSpec spec))"
    and "au_lastScaling a key = Some t" and "mono (we_now env)"
  shows "(we_now env (w_tick w) - t < au_cooldownPeriod a \<longrightarrow> a' = a \<and> c' = c \<and> w' = w_next w \<and> err = None) \<and>
    (\<exists>t'. au_lastScaling a' key = Some t' \<and> (t' = t \<or> t + au_cooldownPeriod a \<le> t')) \<and>
    (\<forall>key'. key' \<noteq> key \<longrightarrow> au_lastScaling a' key' = au_lastScaling a key')"
proof (cases "we_now env (w_tick w) - t < au_cooldownPeriod a")
  case True
  then show ?thesis using assms(1,2,3) by (auto simp: EvaluateAndScale_def in_cooldown_def Let_def)
next
  case False
  let ?w3 = "w_next (w_next (w_next (w_next w)))"
  let ?d = "snd (MakeDecision (we_now env (Suc (w_tick w))) (we_now env (Suc (Suc (w_tick w))))
    (we_now env (Suc (Suc (Suc (w_tick w))))) spec cur c)"
  obtain ops w4 e where x: "ExecuteScaling env ?d spec (au_ops a) ?w3 = (ops, w4, e)" by (metis surj_pair)
  have "w_tick w \<le> w_tick w4" using ExecuteScaling_tick [OF x] by simp
  then have late: "t + au_cooldownPeriod a \<le> we_now env (w_tick w4)"
    using False monoD [OF assms(4), of "w_tick w" "w_tick w4"] by simp
  have "a' = a \<or> a' = a\<lparr>au_ops := ops\<rparr> \<or>
      a' = a\<lparr>au_ops := ops, au_lastScaling := (au_lastScaling a)(key \<mapsto> we_now env (w_tick w4))\<rparr>"
    using assms(1-3) False x
    by (auto simp: EvaluateAndScale_def in_cooldown_def Let_def split_beta split: if_splits option.splits)
  then show ?thesis using assms(3) False late by auto
qed

end
