(* ===== verification/Warm_Pool.thy ===== *)
theory Warm_Pool
  imports Platform
begin

text \<open>
  Package \<open>internal/warmpool\<close>: pools of started drones per agent specification, their filling,
  the handing out and returning of drones, and the scaling down of idle pools.

  A pool's mutex protects each access to it, but filling gives it up while it starts a drone
  and sleeps; what other goroutines do to the pool in that time is the parameter
  \<open>meanwhile\<close> (the \<open>i\<close>-th sleep of the world's count of interactions).  The loop of
  \<open>fillPool\<close> therefore runs on fuel; \<open>fill_pool_returns\<close> gives the fuel that is enough when
  others take a bounded number of drones away.
\<close>

section \<open>State\<close>

record warm_pool =
  wp_AgentSpec :: string
  wp_Namespace :: string
  wp_MinSize :: int
  wp_CurrentSize :: int
  wp_WarmDrones :: "drone list"
  wp_LastUsed :: time

record warm_manager =
  wm_pools :: "(string \<times> warm_pool) list"
  wm_idleTimeout :: duration
  wm_checkInterval :: duration

definition NewWarmManager :: "duration \<Rightarrow> duration \<Rightarrow> warm_manager" where
  "NewWarmManager idle check =
    \<lparr>wm_pools = [], wm_idleTimeout = (if idle = 0 then 30 * minute else idle),
     wm_checkInterval = (if check = 0 then 5 * minute else check)\<rparr>"

definition pool_key :: "string \<Rightarrow> string \<Rightarrow> string" where
  "pool_key namespace agentspec = namespace @ ''/'' @ agentspec"

definition put_pool :: "string \<Rightarrow> warm_pool \<Rightarrow> warm_manager \<Rightarrow> warm_manager" where
  "put_pool key p m = m\<lparr>wm_pools := AList.update key p (wm_pools m)\<rparr>"

section \<open>Filling\<close>

datatype fill_error =
    FillCancelled
  | FillScheduling schedule_error
  | FillLaunch launch_error
  | FillStore store_error

definition warm_drone :: "agent_spec \<Rightarrow> string \<Rightarrow> time \<Rightarrow> drone" where
  "warm_drone spec processID now =
    \<lparr>dr_TypeMeta = \<lparr>tm_APIVersion = ''apiary.io/v1'', tm_Kind = ''Drone''\<rparr>,
     dr_Meta = \<lparr>om_Name = GetName (RAgentSpec spec) @ ''-warm-'' @ processID,
                om_Namespace = GetNamespace (RAgentSpec spec), om_UID = processID,
                om_Labels = [(''agentspec'', GetName (RAgentSpec spec)), (''warmpool'', ''true'')],
                om_Annotations = [], om_CreatedAt = now, om_UpdatedAt = now\<rparr>,
     dr_Status = \<lparr>dst_Phase = DronePhaseStarting, dst_Message = '''', dst_StartedAt = Some now,
                  dst_KeeperAddr = '''', dst_Health = None\<rparr>,
     dr_Spec = Some spec\<rparr>"

definition set_running :: "drone \<Rightarrow> drone" where
  "set_running d = d\<lparr>dr_Status := (dr_Status d)\<lparr>dst_Phase := DronePhaseRunning\<rparr>\<rparr>"

definition pool_add :: "drone \<Rightarrow> warm_pool \<Rightarrow> warm_pool" where
  "pool_add d p = (let ds = wp_WarmDrones p @ [d] in p\<lparr>wp_WarmDrones := ds, wp_CurrentSize := int (length ds)\<rparr>)"

text \<open>The drone after the sleep is set to running, stored, and pooled unless the pool has been
  filled meanwhile.  The result is \<open>None\<close> to go on, \<open>Some err\<close> to return.\<close>

definition admit_drone :: "'d world_env \<Rightarrow> int \<Rightarrow> drone \<Rightarrow> warm_pool \<Rightarrow> 'd world \<Rightarrow>
    warm_pool \<times> 'd world \<times> fill_error option option" where
  "admit_drone env minSize d pool w =
    (let d = set_running d;
         (w, _) = w_Update env (RDrone d) w
     in if wp_CurrentSize pool < minSize then (pool_add d pool, w, None)
        else
          (let (w, _) = w_Stop (GetUID (RDrone d)) w;
               (w, _) = w_Delete env ''Drone'' (GetName (RDrone d)) (GetNamespace (RDrone d)) w
           in (pool, w, Some None)))"

definition fill_one :: "'d world_env \<Rightarrow> (nat \<Rightarrow> warm_pool \<Rightarrow> warm_pool) \<Rightarrow> agent_spec \<Rightarrow> int \<Rightarrow> warm_pool \<Rightarrow>
    'd world \<Rightarrow> warm_pool \<times> 'd world \<times> fill_error option option" where
  "fill_one env meanwhile spec minSize pool w =
    (let (w, cancelled) = w_done env w
     in if cancelled then (pool, w, Some (Some FillCancelled))
        else if wp_CurrentSize pool \<ge> minSize then (pool, w, Some None)
        else
          (let (w, cancelled) = w_done env w
           in if cancelled then (pool, w, Some (Some FillCancelled))
              else case w_Schedule spec w of
                (w, Inl e) \<Rightarrow> (pool, w, Some (Some (FillScheduling e)))
              | (w, Inr _) \<Rightarrow>
                 (case w_Launch env spec w of
                    (w, Inl e) \<Rightarrow> (pool, w, Some (Some (FillLaunch e)))
                  | (w, Inr process) \<Rightarrow>
                     (let (w, now) = w_now env w;
                          d = warm_drone spec (ap_ID process) now
                      in case w_Create env (RDrone d) w of
                           (w, Some e) \<Rightarrow> (pool, fst (w_Stop (ap_ID process) w), Some (Some (FillStore e)))
                         | (w, None) \<Rightarrow> admit_drone env minSize d (meanwhile (w_tick w) pool) w))))"

fun fillPool :: "nat \<Rightarrow> 'd world_env \<Rightarrow> (nat \<Rightarrow> warm_pool \<Rightarrow> warm_pool) \<Rightarrow> agent_spec \<Rightarrow> int \<Rightarrow> warm_pool \<Rightarrow>
    'd world \<Rightarrow> (warm_pool \<times> 'd world \<times> fill_error option) option" where
  "fillPool 0 env meanwhile spec minSize pool w = None"
| "fillPool (Suc fuel) env meanwhile spec minSize pool w =
    (case fill_one env meanwhile spec minSize pool w of
       (pool, w, Some err) \<Rightarrow> Some (pool, w, err)
     | (pool, w, None) \<Rightarrow> fillPool fuel env meanwhile spec minSize pool w)"

definition EnsurePool :: "nat \<Rightarrow> 'd world_env \<Rightarrow> (nat \<Rightarrow> warm_pool \<Rightarrow> warm_pool) \<Rightarrow> agent_spec \<Rightarrow> int \<Rightarrow>
    warm_manager \<Rightarrow> 'd world \<Rightarrow> (warm_manager \<times> 'd world \<times> fill_error option) option" where
  "EnsurePool fuel env meanwhile spec minSize m w =
    (let key = pool_key (GetNamespace (RAgentSpec spec)) (GetName (RAgentSpec spec));
         (w, now) = w_now env w;
         pool = (case map_of (wm_pools m) key of
             None \<Rightarrow> \<lparr>wp_AgentSpec = GetName (RAgentSpec spec), wp_Namespace = GetNamespace (RAgentSpec spec),
                      wp_MinSize = minSize, wp_CurrentSize = 0, wp_WarmDrones = [], wp_LastUsed = now\<rparr>
           | Some p \<Rightarrow> p\<lparr>wp_MinSize := minSize, wp_LastUsed := now\<rparr>)
     in case fillPool fuel env meanwhile spec minSize pool w of
          None \<Rightarrow> None
        | Some (pool, w, err) \<Rightarrow> Some (put_pool key pool m, w, err))"

section \<open>Handing out and taking back\<close>

text \<open>The check of the stored drone; a resource of another kind does not occur under the key of
  a drone, where the code would dereference a nil pointer for its log message.\<close>

definition running_drone :: "store_error + resource \<Rightarrow> drone option" where
  "running_drone r = (case r of Inr (RDrone d) \<Rightarrow> if dst_Phase (dr_Status d) = DronePhaseRunning then Some d else None
                              | _ \<Rightarrow> None)"

definition GetWarmDrone :: "'d world_env \<Rightarrow> string \<Rightarrow> string \<Rightarrow> warm_manager \<Rightarrow> 'd world \<Rightarrow>
    warm_manager \<times> 'd world \<times> drone option" where
  "GetWarmDrone env namespace agentspec m w =
    (let key = pool_key namespace agentspec
     in case map_of (wm_pools m) key of
          None \<Rightarrow> (m, w, None)
        | Some pool \<Rightarrow>
           (case wp_WarmDrones pool of
              [] \<Rightarrow> (m, w, None)
            | d # ds \<Rightarrow>
               (let (w, now) = w_now env w;
                    pool = pool\<lparr>wp_WarmDrones := ds, wp_CurrentSize := int (length ds), wp_LastUsed := now\<rparr>
                in (put_pool key pool m, w,
                    running_drone (w_Get env ''Drone'' (GetName (RDrone d)) namespace w)))))"

definition ReturnDrone :: "'d world_env \<Rightarrow> drone \<Rightarrow> agent_spec \<Rightarrow> warm_manager \<Rightarrow> 'd world \<Rightarrow> warm_manager \<times> 'd world" where
  "ReturnDrone env d spec m w =
    (let key = pool_key (GetNamespace (RDrone d)) (GetName (RAgentSpec spec))
     in case map_of (wm_pools m) key of
          None \<Rightarrow> (m, w)
        | Some pool \<Rightarrow>
           (case running_drone (w_Get env ''Drone'' (GetName (RDrone d)) (GetNamespace (RDrone d)) w) of
              None \<Rightarrow> (m, w)
            | Some existing \<Rightarrow>
               (if wp_CurrentSize pool < wp_MinSize pool
                then (let pool = pool_add existing pool; (w, now) = w_now env w
                      in (put_pool key (pool\<lparr>wp_LastUsed := now\<rparr>) m, w))
                else (m, w))))"

section \<open>Maintenance\<close>

fun maintain_loop :: "nat \<Rightarrow> 'd world_env \<Rightarrow> (nat \<Rightarrow> warm_pool \<Rightarrow> warm_pool) \<Rightarrow> (string \<times> warm_pool) list \<Rightarrow>
    warm_manager \<Rightarrow> 'd world \<Rightarrow> (warm_manager \<times> 'd world) option" where
  "maintain_loop fuel env meanwhile [] m w = Some (m, w)"
| "maintain_loop fuel env meanwhile ((key, pool) # pools) m w =
    (case w_Get env ''AgentSpec'' (wp_AgentSpec pool) (wp_Namespace pool) w of
       Inr (RAgentSpec spec) \<Rightarrow>
         (if wp_CurrentSize pool < wp_MinSize pool
          then (case fillPool fuel env meanwhile spec (wp_MinSize pool) pool w of
                  None \<Rightarrow> None
                | Some (pool, w, _) \<Rightarrow> maintain_loop fuel env meanwhile pools (put_pool key pool m) w)
          else maintain_loop fuel env meanwhile pools m w)
     | _ \<Rightarrow> maintain_loop fuel env meanwhile pools m w)"

definition maintainPools :: "nat \<Rightarrow> 'd world_env \<Rightarrow> (nat \<Rightarrow> warm_pool \<Rightarrow> warm_pool) \<Rightarrow> warm_manager \<Rightarrow> 'd world \<Rightarrow>
    (warm_manager \<times> 'd world) option" where
  "maintainPools fuel env meanwhile m w = maintain_loop fuel env meanwhile (wm_pools m) m w"

fun remove_drones :: "'d world_env \<Rightarrow> drone list \<Rightarrow> 'd world \<Rightarrow> 'd world" where
  "remove_drones env [] w = w"
| "remove_drones env (d # ds) w =
    (let (w, cancelled) = w_done env w
     in if cancelled then w
        else
          (let (w, _) = w_Stop (GetUID (RDrone d)) w;
               (w, _) = w_Delete env ''Drone'' (GetName (RDrone d)) (GetNamespace (RDrone d)) w
           in remove_drones env ds w))"

definition scaleDownPool :: "'d world_env \<Rightarrow> int \<Rightarrow> warm_pool \<Rightarrow> 'd world \<Rightarrow> warm_pool \<times> 'd world" where
  "scaleDownPool env count pool w =
    (let (w, cancelled) = w_done env w
     in if cancelled then (pool, w)
        else
          (let count = (if count > int (length (wp_WarmDrones pool)) then int (length (wp_WarmDrones pool)) else count);
               ds = take (nat count) (wp_WarmDrones pool);
               rest = drop (nat count) (wp_WarmDrones pool)
           in (pool\<lparr>wp_WarmDrones := rest, wp_CurrentSize := int (length rest)\<rparr>, remove_drones env ds w)))"

text \<open>What one cleanup decides for a pool: how many drones to remove, and whether to forget it.\<close>

definition cleanup_plan :: "duration \<Rightarrow> time \<Rightarrow> string \<times> warm_pool \<Rightarrow> (string \<times> int \<times> bool) list" where
  "cleanup_plan idleTimeout now kp =
    (let (key, pool) = kp; idleTime = now - wp_LastUsed pool
     in (if idleTime > idleTimeout \<and> wp_CurrentSize pool > wp_MinSize pool
         then [(key, wp_CurrentSize pool - wp_MinSize pool, False)] else []) @
        (if idleTime > wrap64 (idleTimeout * 2) \<and> wp_MinSize pool = 0
         then [(key, wp_CurrentSize pool, True)] else []))"

fun cleanup_loop :: "'d world_env \<Rightarrow> (string \<times> int \<times> bool) list \<Rightarrow> warm_manager \<Rightarrow> 'd world \<Rightarrow> warm_manager \<times> 'd world" where
  "cleanup_loop env [] m w = (m, w)"
| "cleanup_loop env ((key, toRemove, remove) # infos) m w =
    (let (w, cancelled) = w_done env w
     in if cancelled then (m, w)
        else case map_of (wm_pools m) key of
          None \<Rightarrow> cleanup_loop env infos m w
        | Some pool \<Rightarrow>
           (let (pool, w) = scaleDownPool env toRemove pool w;
                m = (if remove then m\<lparr>wm_pools := AList.delete key (wm_pools m)\<rparr> else put_pool key pool m)
            in cleanup_loop env infos m w))"

definition cleanupIdlePools :: "'d world_env \<Rightarrow> warm_manager \<Rightarrow> 'd world \<Rightarrow> warm_manager \<times> 'd world" where
  "cleanupIdlePools env m w =
    (let (w, cancelled) = w_done env w
     in if cancelled then (m, w)
        else (let (w, now) = w_now env w
              in cleanup_loop env (concat (map (cleanup_plan (wm_idleTimeout m) now) (wm_pools m))) m w))"

section \<open>Filling ends, and fills\<close>

definition pool_ok :: "warm_pool \<Rightarrow> bool" where
  "pool_ok p \<longleftrightarrow> wp_CurrentSize p = int (length (wp_WarmDrones p))"

abbreviation alone :: "nat \<Rightarrow> warm_pool \<Rightarrow> warm_pool" where "alone \<equiv> \<lambda>_ p. p"

lemma pool_add_simps [simp]:
  "wp_WarmDrones (pool_add d p) = wp_WarmDrones p @ [d]" "pool_ok (pool_add d p)"
  "wp_CurrentSize (pool_add d p) = int (length (wp_WarmDrones p)) + 1" "wp_MinSize (pool_add d p) = wp_MinSize p"
  by (simp_all add: pool_add_def pool_ok_def Let_def)

lemma admit_drone_cases:
  assumes "admit_drone env minSize d pool w = (pool', w', r)"
  shows "(wp_CurrentSize pool < minSize \<longrightarrow> r = None \<and> pool' = pool_add (set_running d) pool) \<and>
    (minSize \<le> wp_CurrentSize pool \<longrightarrow> r = Some None \<and> pool' = pool)"
  using assms by (auto simp: admit_drone_def Let_def split: prod.splits if_splits)

lemma fill_one_cases:
  assumes "fill_one env meanwhile spec minSize pool w = (pool', w', r)"
  shows "(minSize \<le> wp_CurrentSize pool \<longrightarrow> pool' = pool \<and> r \<in> {Some None, Some (Some FillCancelled)}) \<and>
    (wp_CurrentSize pool < minSize \<longrightarrow> (pool' = pool \<and> (\<exists>e. r = Some (Some e))) \<or>
      (\<exists>i t j w1. admit_drone env minSize (warm_drone spec i t) (meanwhile j pool) w1 = (pool', w', r)))"
  using assms
  by (simp add: fill_one_def Let_def split: if_splits prod.splits sum.splits option.splits) blast+

lemma fill_one_alone:
  assumes "fill_one env alone spec minSize pool w = (pool', w', r)"
  shows "(r = None \<and> wp_CurrentSize pool < minSize \<and> (\<exists>i t. pool' = pool_add (set_running (warm_drone spec i t)) pool)) \<or>
    (r = Some None \<and> minSize \<le> wp_CurrentSize pool \<and> pool' = pool) \<or> (\<exists>e. r = Some (Some e) \<and> pool' = pool)"
proof (cases "minSize \<le> wp_CurrentSize pool")
  case True
  then show ?thesis using fill_one_cases [OF assms] by blast
next
  case False
  then consider "pool' = pool" "\<exists>e. r = Some (Some e)"
    | i t w1 where "admit_drone env minSize (warm_drone spec i t) pool w1 = (pool', w', r)"
    using fill_one_cases [OF assms] by auto
  then show ?thesis
  proof cases
    case 2
    then show ?thesis using admit_drone_cases [OF 2] False by auto
  qed simp
qed

text \<open>Filling alone: as many rounds as drones are missing (and one more) are enough.\<close>

lemma fill_pool_alone:
  assumes "pool_ok pool" and "nat (minSize - wp_CurrentSize pool) < fuel"
  shows "\<exists>pool' w' err ds. fillPool fuel env alone spec minSize pool w = Some (pool', w', err) \<and>
    pool_ok pool' \<and> wp_WarmDrones pool' = wp_WarmDrones pool @ ds \<and>
    (err = None \<longrightarrow> wp_CurrentSize pool' = max minSize (wp_CurrentSize pool)) \<and>
    wp_CurrentSize pool' \<le> max minSize (wp_CurrentSize pool) \<and>
    (\<forall>d \<in> set ds. \<exists>i t. d = set_running (warm_drone spec i t))"
  using assms
proof (induction fuel arbitrary: pool w)
  case 0
  then show ?case by simp
next
  case (Suc fuel)
  obtain pool1 w1 r where one: "fill_one env alone spec minSize pool w = (pool1, w1, r)" by (metis prod_cases3)
  from fill_one_alone [OF one] consider
    (add) i t where "r = None" "wp_CurrentSize pool < minSize" "pool1 = pool_add (set_running (warm_drone spec i t)) pool"
    | (full) "r = Some None" "minSize \<le> wp_CurrentSize pool" "pool1 = pool"
    | (err) e where "r = Some (Some e)" "pool1 = pool" by blast
  then show ?case
  proof cases
    case add
    have "pool_ok pool1" and size: "wp_CurrentSize pool1 = wp_CurrentSize pool + 1"
      using add(3) Suc.prems(1) by (simp_all add: pool_ok_def)
    moreover have "nat (minSize - wp_CurrentSize pool1) < fuel" using size add(2) Suc.prems(2) by linarith
    ultimately obtain pool' w' err ds where f: "fillPool fuel env alone spec minSize pool1 w1 = Some (pool', w', err)"
      "pool_ok pool'" "wp_WarmDrones pool' = wp_WarmDrones pool1 @ ds"
      "err = None \<longrightarrow> wp_CurrentSize pool' = max minSize (wp_CurrentSize pool1)"
      "wp_CurrentSize pool' \<le> max minSize (wp_CurrentSize pool1)"
      "\<forall>d \<in> set ds. \<exists>i t. d = set_running (warm_drone spec i t)" using Suc.IH by metis
    then have "fillPool (Suc fuel) env alone spec minSize pool w = Some (pool', w', err)" using one add(1) by simp
    moreover have "\<forall>d \<in> set (set_running (warm_drone spec i t) # ds). \<exists>i t. d = set_running (warm_drone spec i t)"
      using f(6) by auto
    moreover have "wp_WarmDrones pool' = wp_WarmDrones pool @ set_running (warm_drone spec i t) # ds"
      using f(3) add(3) by simp
    ultimately show ?thesis using f(2,4,5) size add(2)
      by (intro exI [of _ pool'] exI [of _ w'] exI [of _ err] exI [of _ "set_running (warm_drone spec i t) # ds"]) auto
  next
    case full
    then show ?thesis using one Suc.prems(1) by simp
  next
    case err
    then show ?thesis using one Suc.prems(1) by simp
  qed
qed

text \<open>The moments at which a round gives the pool away lie within the round.\<close>

lemma fill_one_moment:
  assumes "fill_one env meanwhile spec minSize pool w = (pool', w', r)" "wp_CurrentSize pool < minSize"
  shows "(pool' = pool \<and> (\<exists>e. r = Some (Some e))) \<or>
    (\<exists>j d w1. w_tick w < j \<and> j \<le> w_tick w' \<and> admit_drone env minSize d (meanwhile j pool) w1 = (pool', w', r))"
proof -
  have adm: "w_tick w1 \<le> w_tick w2" if "admit_drone env m d p w1 = (p2, w2, x)" for m d p w1 p2 w2 x
    using that by (auto simp: admit_drone_def w_Update_def w_Delete_def w_Stop_def Let_def split: prod.splits if_splits)
  have sch: "w_tick w1 = w_tick v" if "w_Schedule spec v = (w1, x)" for v w1 x
    using that by (auto simp: w_Schedule_def split: prod.splits)
  have lau: "w_tick w1 = Suc (w_tick v)" if "w_Launch env spec v = (w1, x)" for v w1 x
    using that by (auto simp: w_Launch_def split: prod.splits)
  have cre: "w_tick w1 = Suc (w_tick v)" if "w_Create env rs v = (w1, x)" for v w1 x rs
    using that by (auto simp: w_Create_def split: prod.splits)
  have step: "(pool' = pool \<and> (\<exists>e. r = Some (Some e))) \<or>
      (\<exists>wa x wb pr wc d. w_Schedule spec (w_next (w_next w)) = (wa, x) \<and> w_Launch env spec wa = (wb, pr) \<and>
        w_Create env (RDrone d) (w_next wb) = (wc, None) \<and>
        admit_drone env minSize d (meanwhile (w_tick wc) pool) wc = (pool', w', r))"
    using assms by (simp add: fill_one_def Let_def w_done_def w_now_def split: if_splits prod.splits sum.splits option.splits) blast+
  show ?thesis
  proof (cases "pool' = pool \<and> (\<exists>e. r = Some (Some e))")
    case False
    with step obtain wa x wb pr wc d where c: "w_Schedule spec (w_next (w_next w)) = (wa, x)"
      "w_Launch env spec wa = (wb, pr)" "w_Create env (RDrone d) (w_next wb) = (wc, None)"
      "admit_drone env minSize d (meanwhile (w_tick wc) pool) wc = (pool', w', r)" by blast
    have "w_tick w < w_tick wc" using sch [OF c(1)] lau [OF c(2)] cre [OF c(3)] by simp
    then show ?thesis using adm [OF c(4)] c(4) by blast
  qed simp
qed

text \<open>Others take \<open>taken j\<close> drones out of the pool at the moment \<open>j\<close>, and may add any number.\<close>

definition others_take :: "(nat \<Rightarrow> nat) \<Rightarrow> (nat \<Rightarrow> warm_pool \<Rightarrow> warm_pool) \<Rightarrow> bool" where
  "others_take taken meanwhile \<longleftrightarrow> (\<forall>j p. pool_ok p \<longrightarrow>
    pool_ok (meanwhile j p) \<and> wp_CurrentSize p \<le> wp_CurrentSize (meanwhile j p) + int (taken j))"

lemma fill_pool_others:
  assumes "others_take taken meanwhile" "\<forall>n. (\<Sum>j<n. taken j) \<le> K" "pool_ok pool"
    and "nat (minSize - wp_CurrentSize pool) + (K - (\<Sum>j<Suc (w_tick w). taken j)) < fuel"
  shows "\<exists>pool' w' err. fillPool fuel env meanwhile spec minSize pool w = Some (pool', w', err) \<and>
    pool_ok pool' \<and> (err = None \<longrightarrow> minSize \<le> wp_CurrentSize pool')"
  using assms(3,4)
proof (induction fuel arbitrary: pool w)
  case 0
  then show ?case by simp
next
  case (Suc fuel)
  obtain pool1 w1 r where one: "fill_one env meanwhile spec minSize pool w = (pool1, w1, r)" by (metis prod_cases3)
  show ?case
  proof (cases "wp_CurrentSize pool < minSize")
    case False
    then show ?thesis using fill_one_cases [OF one] one Suc.prems(1) by auto
  next
    case True
    from fill_one_moment [OF one True] consider (err) e where "pool1 = pool" "r = Some (Some e)"
      | (slept) j d w2 where "w_tick w < j" "j \<le> w_tick w1"
        "admit_drone env minSize d (meanwhile j pool) w2 = (pool1, w1, r)" by blast
    then show ?thesis
    proof cases
      case err
      then show ?thesis using one Suc.prems(1) by simp
    next
      case slept
      let ?p = "meanwhile j pool"
      have p: "pool_ok ?p" "wp_CurrentSize pool \<le> wp_CurrentSize ?p + int (taken j)"
        using assms(1) Suc.prems(1) unfolding others_take_def by blast+
      show ?thesis
      proof (cases "wp_CurrentSize ?p < minSize")
        case False
        then show ?thesis using admit_drone_cases [OF slept(3)] one p(1) by simp
      next
        case more: True
        then have a: "r = None" "pool1 = pool_add (set_running d) ?p" using admit_drone_cases [OF slept(3)] by auto
        have ok: "pool_ok pool1" and size: "wp_CurrentSize pool1 = wp_CurrentSize ?p + 1"
          using a(2) p(1) by (simp_all add: pool_ok_def)
        have "(\<Sum>i<Suc (w_tick w). taken i) + taken j \<le> (\<Sum>i<j. taken i) + taken j"
          using slept(1) by (intro add_right_mono sum_mono2) auto
        also have "\<dots> = (\<Sum>i<Suc j. taken i)" by simp
        also have "\<dots> \<le> (\<Sum>i<Suc (w_tick w1). taken i)" using slept(2) by (intro sum_mono2) auto
        finally have "(\<Sum>i<Suc (w_tick w). taken i) + taken j \<le> (\<Sum>i<Suc (w_tick w1). taken i)" .
        moreover have "(\<Sum>i<Suc (w_tick w1). taken i) \<le> K" using assms(2) by blast
        ultimately have "nat (minSize - wp_CurrentSize pool1) + (K - (\<Sum>i<Suc (w_tick w1). taken i)) < fuel"
          using Suc.prems(2) size p(2) more True by linarith
        from Suc.IH [OF ok this] show ?thesis using one a(1) by simp
      qed
    qed
  qed
qed

text \<open>C33: Filling a pool ends when others take a bounded number of drones out of the pool while it is being filled:
  if they take at most \<open>K\<close>, then \<open>K\<close> rounds more than drones are missing (and one) are enough,
  and filling returns without an error only with a pool of at least the requested size.  If nobody
  changes the pool in between, the drones it adds are running drones of the specification, behind the old ones, and without an
  error the pool has exactly the requested size, or its old one if that was larger.\<close>

theorem fill_pool_returns:
  assumes "pool_ok pool" and "others_take taken meanwhile" and "\<forall>n. (\<Sum>j<n. taken j) \<le> K"
    and "nat (minSize - wp_CurrentSize pool) + K < fuel"
  shows "\<exists>pool' w' err. fillPool fuel env meanwhile spec minSize pool w = Some (pool', w', err) \<and>
    pool_ok pool' \<and> (err = None \<longrightarrow> minSize \<le> wp_CurrentSize pool') \<and>
    ((\<forall>j p. meanwhile j p = p) \<longrightarrow>
      (\<exists>ds. wp_WarmDrones pool' = wp_WarmDrones pool @ ds \<and>
        (\<forall>d \<in> set ds. \<exists>i t. d = set_running (warm_drone spec i t))) \<and>
      (err = None \<longrightarrow> wp_CurrentSize pool' = max minSize (wp_CurrentSize pool)))"
proof (cases "\<forall>j p. meanwhile j p = p")
  case True
  then have m: "meanwhile = alone" by blast
  have "nat (minSize - wp_CurrentSize pool) < fuel" using assms(4) by simp
  from fill_pool_alone [OF assms(1) this] obtain pool' w' err ds
    where f: "fillPool fuel env alone spec minSize pool w = Some (pool', w', err)" "pool_ok pool'"
      "wp_WarmDrones pool' = wp_WarmDrones pool @ ds" "err = None \<longrightarrow> wp_CurrentSize pool' = max minSize (wp_CurrentSize pool)"
      "\<forall>d \<in> set ds. \<exists>i t. d = set_running (warm_drone spec i t)" by metis
  show ?thesis unfolding m by (intro exI conjI impI, rule f(1)) (use f(2-5) in auto)
next
  case False
  have "nat (minSize - wp_CurrentSize pool) + (K - (\<Sum>j<Suc (w_tick w). taken j)) < fuel" using assms(4) by simp
  from fill_pool_others [OF assms(2,3,1) this] show ?thesis using False by blast
qed

text \<open>Somebody takes the first drone out of the pool during the first sleep.\<close>

lemma fill_pool_returns_witness:
  "\<exists>pool' w' err. fillPool 4 (sample_world_env [])
     (\<lambda>j p. if j = 5 then p\<lparr>wp_WarmDrones := tl (wp_WarmDrones p), wp_CurrentSize := int (length (tl (wp_WarmDrones p)))\<rparr> else p)
     sample_spec 2
     \<lparr>wp_AgentSpec = ''worker'', wp_Namespace = ''prod'', wp_MinSize = 2, wp_CurrentSize = 0, wp_WarmDrones = [],
      wp_LastUsed = 0\<rparr> (NewWorld [] ''pw'') = Some (pool', w', err)"
proof -
  let ?p = "\<lparr>wp_AgentSpec = ''worker'', wp_Namespace = ''prod'', wp_MinSize = 2, wp_CurrentSize = 0, wp_WarmDrones = [],
      wp_LastUsed = 0\<rparr>"
  let ?m = "\<lambda>j p. if j = (5::nat) then p\<lparr>wp_WarmDrones := tl (wp_WarmDrones p),
      wp_CurrentSize := int (length (tl (wp_WarmDrones p)))\<rparr> else p"
  have "others_take (\<lambda>j. if j = 5 then 1 else 0) ?m" by (auto simp: others_take_def pool_ok_def)
  moreover have "\<forall>n. (\<Sum>j<n. if j = (5::nat) then 1 else 0) \<le> (1::nat)" by (simp add: sum.delta)
  moreover have "pool_ok ?p" by (simp add: pool_ok_def)
  ultimately show ?thesis using fill_pool_returns [of ?p "\<lambda>j. if j = 5 then 1 else 0" ?m 1 2 4 "sample_world_env []" sample_spec
      "NewWorld [] ''pw''"] by auto
qed

section \<open>Handing out\<close>

text \<open>What \<open>GetWarmDrone\<close> hands out.  It takes the first pooled drone off the pool, and returns
  the drone now stored under its name if that is running; a stale first drone makes it return
  nothing, however many running drones are behind it, and the caller starts a cold one.\<close>

lemma get_warm_drone_exact:
  assumes "map_of (wm_pools m) (pool_key ns spec) = Some pool" and "wp_WarmDrones pool = d # ds"
    and "GetWarmDrone env ns spec m w = (m', w', r)"
  shows "(\<exists>pool'. map_of (wm_pools m') (pool_key ns spec) = Some pool' \<and> wp_WarmDrones pool' = ds \<and> pool_ok pool') \<and>
    (\<forall>key. key \<noteq> pool_key ns spec \<longrightarrow> map_of (wm_pools m') key = map_of (wm_pools m) key) \<and>
    (r \<noteq> None \<longleftrightarrow> (\<exists>d'. w_Get env ''Drone'' (GetName (RDrone d)) ns w = Inr (RDrone d') \<and>
        dst_Phase (dr_Status d') = DronePhaseRunning \<and> r = Some d'))"
  using assms
  by (auto simp: GetWarmDrone_def put_pool_def pool_ok_def running_drone_def update_conv' Let_def
      split: sum.splits resource.splits if_splits)

text \<open>The same drone can be handed to two clients.  \<open>ReturnDrone\<close> does not look whether the
  drone is in the pool already: returned twice (by two requests that used it, say), it is
  pooled twice, and the next two callers of \<open>GetWarmDrone\<close> both get it.\<close>

lemma returned_twice_handed_twice:
  assumes "map_of (wm_pools m) (pool_key ns (GetName (RAgentSpec spec))) = Some pool"
    and "wp_WarmDrones pool = []" "pool_ok pool" "2 \<le> wp_MinSize pool"
    and "GetNamespace (RDrone d) = ns" "GetName (RDrone d') = GetName (RDrone d)"
    and "w_Get env ''Drone'' (GetName (RDrone d)) ns w = Inr (RDrone d')" "dst_Phase (dr_Status d') = DronePhaseRunning"
    and "ReturnDrone env d spec m w = (m1, w1)" "ReturnDrone env d spec m1 w1 = (m2, w2)"
    and "GetWarmDrone env ns (GetName (RAgentSpec spec)) m2 w2 = (m3, w3, r1)"
    and "GetWarmDrone env ns (GetName (RAgentSpec spec)) m3 w3 = (m4, w4, r2)"
  shows "r1 = Some d' \<and> r2 = Some d'"
proof -
  let ?k = "pool_key ns (GetName (RAgentSpec spec))"
  have run: "running_drone (Inr (RDrone d')) = Some d'" using assms(8) by (simp add: running_drone_def)
  have one: "m1 = put_pool ?k (pool_add d' pool\<lparr>wp_LastUsed := we_now env (w_tick w)\<rparr>) m \<and> w1 = w_next w"
    using assms(1-5,7,9) run by (auto simp: ReturnDrone_def pool_ok_def Let_def)
  have g: "w_Get env ''Drone'' (GetName (RDrone d)) ns w1 = Inr (RDrone d')" using one assms(7) by simp
  have two: "m2 = put_pool ?k (pool_add d' (pool_add d' pool\<lparr>wp_LastUsed := we_now env (w_tick w)\<rparr>)
      \<lparr>wp_LastUsed := we_now env (w_tick w1)\<rparr>) m1 \<and> w2 = w_next w1"
    using assms(2-5,10) one run g by (auto simp: ReturnDrone_def put_pool_def pool_ok_def update_conv' Let_def)
  then show ?thesis using assms(2,6,11,12) one run g
    by (auto simp: GetWarmDrone_def put_pool_def pool_add_def update_conv' Let_def)
qed

section \<open>The pools stay consistent\<close>

text \<open>The size the manager compares with is the number of pooled drones, in every pool and after
  every operation.\<close>

definition manager_ok :: "warm_manager \<Rightarrow> bool" where
  "manager_ok m \<longleftrightarrow> list_all (\<lambda>(_, p). pool_ok p) (wm_pools m)"

lemma manager_ok_lookup: "manager_ok m \<Longrightarrow> map_of (wm_pools m) key = Some p \<Longrightarrow> pool_ok p"
  by (auto simp: manager_ok_def list_all_iff dest!: map_of_SomeD)

lemma manager_ok_put [inv_intros]: "manager_ok m \<Longrightarrow> pool_ok p \<Longrightarrow> manager_ok (put_pool key p m)"
  by (auto simp: manager_ok_def put_pool_def list_all_iff dest!: in_update)

lemma manager_ok_delete [inv_intros]: "manager_ok m \<Longrightarrow> manager_ok (m\<lparr>wm_pools := AList.delete key (wm_pools m)\<rparr>)"
  by (auto simp: manager_ok_def list_all_iff AList.delete_eq)

lemma GetWarmDrone_ok: "manager_ok m \<Longrightarrow> manager_ok (fst (GetWarmDrone env ns spec m w))"
  by (auto simp: GetWarmDrone_def pool_ok_def Let_def intro!: inv_intros split: option.split list.split)

lemma ReturnDrone_ok: "manager_ok m \<Longrightarrow> manager_ok (fst (ReturnDrone env d spec m w))"
  by (auto simp: ReturnDrone_def pool_ok_def pool_add_def Let_def intro!: inv_intros split: option.split)

lemma cleanup_loop_ok: "manager_ok m \<Longrightarrow> manager_ok (fst (cleanup_loop env infos m w))"
proof (induction infos arbitrary: m w)
  case Nil
  then show ?case by simp
next
  case (Cons info infos)
  obtain key n r where info: "info = (key, n, r)" by (metis prod_cases3)
  have "pool_ok p \<Longrightarrow> pool_ok (fst (scaleDownPool env n p w))" for p w
    by (simp add: scaleDownPool_def pool_ok_def Let_def)
  then show ?case using Cons.prems
    by (auto simp: info split_beta intro!: inv_intros Cons.IH dest: manager_ok_lookup split: option.split)
qed

lemma cleanupIdlePools_ok: "manager_ok m \<Longrightarrow> manager_ok (fst (cleanupIdlePools env m w))"
  by (simp add: cleanupIdlePools_def cleanup_loop_ok)

end
