(* ===== verification/Session_Manager.thy ===== *)
theory Session_Manager
  imports Platform
begin

text \<open>
  Package \<open>internal/session\<close>: the life cycle of sessions.  The manager keeps a table of the
  sessions it knows, by the identifier they were asked for, and writes every change to the
  resource store, ignoring failures.

  The session a caller gets is the one in the table (a shared pointer), so a change of its
  phase is a change of the table's entry.
\<close>

section \<open>State\<close>

record session_entry =
  en_Session :: session
  en_LastActivity :: time

type_synonym session_table = "(string \<times> session_entry) list"

record session_request =
  sq_Namespace :: string
  sq_HiveName :: string
  sq_TimeoutMinutes :: int
  sq_MaxDurationMinutes :: int
  sq_PersistOnTerminate :: bool
  sq_PersistPath :: string
  sq_MaxMemoryMB :: int

definition set_phase :: "string \<Rightarrow> session \<Rightarrow> session" where
  "set_phase p s = s\<lparr>se_Status := (se_Status s)\<lparr>sst_Phase := p\<rparr>\<rparr>"

definition generateSessionID :: "string \<Rightarrow> string" where
  "generateSessionID uuid = ''sess-'' @ take 8 uuid"

section \<open>Operations\<close>

definition new_session :: "session_request \<Rightarrow> string \<Rightarrow> time \<Rightarrow> session" where
  "new_session cfg sessionID now =
    \<lparr>se_TypeMeta = \<lparr>tm_APIVersion = ''apiary.io/v1'', tm_Kind = ''Session''\<rparr>,
     se_Meta = \<lparr>om_Name = sessionID, om_Namespace = sq_Namespace cfg, om_UID = sessionID, om_Labels = [],
                om_Annotations = (if sq_HiveName cfg \<noteq> '''' then [(''apiary.io/hive'', sq_HiveName cfg)] else []),
                om_CreatedAt = now, om_UpdatedAt = now\<rparr>,
     se_Status = \<lparr>sst_Phase = SessionPhaseCreated, sst_LastActivity = now, sst_ActiveAgents = 0\<rparr>,
     se_Spec = \<lparr>sn_TimeoutMinutes = sq_TimeoutMinutes cfg, sn_MaxDurationMinutes = sq_MaxDurationMinutes cfg,
                sn_PersistOnTerminate = sq_PersistOnTerminate cfg, sn_PersistPath = sq_PersistPath cfg,
                sn_MaxMemoryMB = sq_MaxMemoryMB cfg\<rparr>\<rparr>"

definition CreateSession :: "'d world_env \<Rightarrow> session_request \<Rightarrow> session_table \<Rightarrow> 'd world \<Rightarrow>
    session_table \<times> 'd world \<times> (store_error + session)" where
  "CreateSession env cfg m w =
    (let sessionID = generateSessionID (we_uuid env (w_tick w));
         w = w_next w;
         (w, now) = w_now env w;
         s = new_session cfg sessionID now
     in case w_Create env (RSession s) w of
          (w, Some e) \<Rightarrow> (m, w, Inl e)
        | (w, None) \<Rightarrow>
            (AList.update sessionID \<lparr>en_Session = s, en_LastActivity = now\<rparr> m, w, Inr s))"

text \<open>The search of \<open>GetSession\<close> through the listed resources.\<close>

fun find_session :: "string \<Rightarrow> resource list \<Rightarrow> session option" where
  "find_session i [] = None"
| "find_session i (r # rs) =
    (if GetUID r = i \<or> GetName r = i
     then case r of RSession s \<Rightarrow> Some s | _ \<Rightarrow> find_session i rs
     else find_session i rs)"

definition GetSession :: "'d world_env \<Rightarrow> string \<Rightarrow> session_table \<Rightarrow> 'd world \<Rightarrow> session_table \<times> (store_error + session)" where
  "GetSession env i m w =
    (case map_of m i of
       Some e \<Rightarrow> (m, Inr (en_Session e))
     | None \<Rightarrow>
        (case find_session i (w_List env ''Session'' '''' None w) of
           None \<Rightarrow> (m, Inl ErrNotFound)
         | Some s \<Rightarrow>
            (AList.update i \<lparr>en_Session = s, en_LastActivity = sst_LastActivity (se_Status s)\<rparr> m, Inr s)))"

definition touch_session :: "time \<Rightarrow> session \<Rightarrow> session" where
  "touch_session now s = s\<lparr>se_Status := (se_Status s)\<lparr>sst_LastActivity := now, sst_Phase := SessionPhaseActive\<rparr>\<rparr>"

definition UpdateActivity :: "'d world_env \<Rightarrow> string \<Rightarrow> session_table \<Rightarrow> 'd world \<Rightarrow>
    session_table \<times> 'd world \<times> store_error option" where
  "UpdateActivity env i m w =
    (let (m, w, r) = (case map_of m i of
           Some e \<Rightarrow> (m, w, Inr (en_Session e))
         | None \<Rightarrow> (let (m, r) = GetSession env i m w in (m, (case r of Inl _ \<Rightarrow> w | Inr _ \<Rightarrow> w_next w), r)))
     in case r of
          Inl e \<Rightarrow> (m, w, Some e)
        | Inr s \<Rightarrow>
           (let (w, now) = w_now env w;
                s = touch_session now s;
                m = AList.update i \<lparr>en_Session = s, en_LastActivity = now\<rparr> m
            in (m, fst (w_Update env (RSession s) w), None)))"

text \<open>\<open>persistSession\<close> only logs.\<close>

definition TerminateSession :: "'d world_env \<Rightarrow> string \<Rightarrow> session_table \<Rightarrow> 'd world \<Rightarrow>
    session_table \<times> 'd world \<times> store_error option" where
  "TerminateSession env i m w =
    (let (m, r) = GetSession env i m w
     in case r of
          Inl e \<Rightarrow> (m, w, Some e)
        | Inr s \<Rightarrow>
           (let s = set_phase SessionPhaseTerminated s;
                (w, _) = w_Update env (RSession s) w
            in (AList.delete i m, w, None)))"

definition idle_expired :: "time \<Rightarrow> session_entry \<Rightarrow> bool" where
  "idle_expired now e \<longleftrightarrow>
    (let t = sn_TimeoutMinutes (se_Spec (en_Session e))
     in t > 0 \<and> now - en_LastActivity e > wrap64 (t * minute))"

definition duration_expired :: "time \<Rightarrow> session_entry \<Rightarrow> bool" where
  "duration_expired now e \<longleftrightarrow>
    (let t = sn_MaxDurationMinutes (se_Spec (en_Session e))
     in t > 0 \<and> now - om_CreatedAt (se_Meta (en_Session e)) > wrap64 (t * minute))"

text \<open>One state of the snapshot; the marking as idle is a change of the shared entry, if it is
  still in the table.\<close>

definition check_one :: "'d world_env \<Rightarrow> time \<Rightarrow> string \<times> session_entry \<Rightarrow> session_table \<times> 'd world \<Rightarrow>
    session_table \<times> 'd world" where
  "check_one env now ke mw =
    (let (m, w) = mw; (key, e) = ke; uid = om_UID (se_Meta (en_Session e))
     in if idle_expired now e \<or> duration_expired now e
        then (let (m, w, _) = TerminateSession env uid m w in (m, w))
        else if sst_Phase (se_Status (en_Session e)) = SessionPhaseActive \<and> now - en_LastActivity e > 5 * minute
        then (case map_of m key of
                None \<Rightarrow> (m, w)
              | Some e \<Rightarrow> (AList.update key (e\<lparr>en_Session := set_phase SessionPhaseIdle (en_Session e)\<rparr>) m, w))
        else (m, w))"

definition checkTimeouts :: "'d world_env \<Rightarrow> session_table \<Rightarrow> 'd world \<Rightarrow> session_table \<times> 'd world" where
  "checkTimeouts env m w = (let (w, now) = w_now env w in fold (check_one env now) m (m, w))"

section \<open>The table\<close>

text \<open>Every session is kept under its identifier.\<close>

definition table_ok :: "session_table \<Rightarrow> bool" where
  "table_ok m \<longleftrightarrow> distinct (map fst m) \<and> list_all (\<lambda>(k, e). om_UID (se_Meta (en_Session e)) = k) m"

lemma set_phase_simps [simp]:
  "se_Meta (set_phase p s) = se_Meta s" "se_Spec (set_phase p s) = se_Spec s"
  "sst_Phase (se_Status (set_phase p s)) = p"
  by (simp_all add: set_phase_def)

lemma TerminateSession_cached:
  "map_of m i = Some e \<Longrightarrow> fst (TerminateSession env i m w) = AList.delete i m"
  by (simp add: TerminateSession_def GetSession_def split_beta)

lemma fold_check_one:
  assumes "distinct (map fst es)" and "list_all (\<lambda>(k, e). om_UID (se_Meta (en_Session e)) = k \<and> map_of m k = Some e) es"
  shows "map_of (fst (fold (check_one env now) es (m, w))) k =
    (case map_of es k of
       None \<Rightarrow> map_of m k
     | Some e \<Rightarrow>
        (if idle_expired now e \<or> duration_expired now e then None
         else if sst_Phase (se_Status (en_Session e)) = SessionPhaseActive \<and> now - en_LastActivity e > 5 * minute
         then Some (e\<lparr>en_Session := set_phase SessionPhaseIdle (en_Session e)\<rparr>) else Some e))"
  using assms
proof (induction es arbitrary: m w)
  case Nil
  then show ?case by simp
next
  case (Cons ke es)
  obtain k0 e0 where ke: "ke = (k0, e0)" by (cases ke)
  have e0: "om_UID (se_Meta (en_Session e0)) = k0" "map_of m k0 = Some e0" using Cons.prems(2) ke by simp_all
  define m1 where "m1 = fst (check_one env now ke (m, w))"
  have m1: "map_of m1 k = (if k = k0 then
        (if idle_expired now e0 \<or> duration_expired now e0 then None
         else if sst_Phase (se_Status (en_Session e0)) = SessionPhaseActive \<and> now - en_LastActivity e0 > 5 * minute
         then Some (e0\<lparr>en_Session := set_phase SessionPhaseIdle (en_Session e0)\<rparr>) else Some e0)
      else map_of m k)" for k
    using e0 by (auto simp: m1_def check_one_def ke TerminateSession_cached split_beta Let_def delete_conv' update_conv')
  have "list_all (\<lambda>(k, e). om_UID (se_Meta (en_Session e)) = k \<and> map_of m1 k = Some e) es"
    using Cons.prems ke by (auto simp: list_all_iff m1 image_iff) force+
  moreover have "fold (check_one env now) (ke # es) (m, w) = fold (check_one env now) es (m1, snd (check_one env now ke (m, w)))"
    by (simp add: m1_def)
  moreover have "k0 \<notin> fst ` set es" using Cons.prems(1) ke by simp
  then have "map_of es k0 = None" by (simp add: map_of_eq_None_iff)
  ultimately show ?case using Cons.IH [of m1] Cons.prems(1) ke m1 by (simp split: option.split)
qed

text \<open>A timeout check ends exactly the overdue sessions.  Of the sessions in the table those
  idle for longer than their timeout or older than their maximal duration are removed; the
  others stay, with their phase set to idle when they were active and nothing happened for
  five minutes, and unchanged otherwise.\<close>

lemma timeout_check_exact:
  assumes "table_ok m"
  shows "map_of (fst (checkTimeouts env m w)) k =
    (case map_of m k of
       None \<Rightarrow> None
     | Some e \<Rightarrow>
        (let now = we_now env (w_tick w) in
         if idle_expired now e \<or> duration_expired now e then None
         else if sst_Phase (se_Status (en_Session e)) = SessionPhaseActive \<and> now - en_LastActivity e > 5 * minute
         then Some (e\<lparr>en_Session := set_phase SessionPhaseIdle (en_Session e)\<rparr>) else Some e))"
proof -
  have d: "distinct (map fst m)" and "list_all (\<lambda>(k, e). om_UID (se_Meta (en_Session e)) = k \<and> map_of m k = Some e) m"
    using assms by (auto simp: table_ok_def list_all_iff)
  from fold_check_one [OF this, of env "we_now env (w_tick w)" "w_next w" k] show ?thesis
    by (cases "map_of m k") (simp_all add: checkTimeouts_def Let_def)
qed

definition sample_request :: session_request where
  "sample_request = \<lparr>sq_Namespace = ''prod'', sq_HiveName = '''', sq_TimeoutMinutes = 1, sq_MaxDurationMinutes = 0,
     sq_PersistOnTerminate = False, sq_PersistPath = '''', sq_MaxMemoryMB = 0\<rparr>"

section \<open>The table and the store\<close>

lemma find_session_Some: "find_session i rs = Some s \<Longrightarrow> RSession s \<in> set rs \<and> (om_UID (se_Meta s) = i \<or> om_Name (se_Meta s) = i)"
  by (induction i rs rule: find_session.induct)
     (auto simp: GetUID_def GetName_def split: if_splits resource.splits)

lemma find_session_found: "RSession s \<in> set rs \<Longrightarrow> om_UID (se_Meta s) = i \<Longrightarrow> find_session i rs \<noteq> None"
  by (induction rs) (auto simp: GetUID_def split: resource.splits)

text \<open>A session that is not in the table can only be found outside all namespaces.\<close>

lemma GetSession_uncached:
  assumes "world_ok env" and "map_of m i = None" and "GetSession env i m w = (m', Inr s)"
  shows "\<exists>n. w_Get env ''Session'' n '''' w = Inr (RSession s) \<and> (om_UID (se_Meta s) = i \<or> om_Name (se_Meta s) = i)"
proof -
  have f: "find_session i (w_List env ''Session'' '''' None w) = Some s"
    using assms(2,3) by (auto simp: GetSession_def split: option.splits)
  note s = find_session_Some [OF f]
  then show ?thesis using ws.listing_get [OF assms(1), of "''Session''" "RSession s" "''''" w] by auto
qed

text \<open>The sessions of a cell do not survive a restart of the manager.  A session created in a
  namespace is in the store and can be read there, but a manager that does not have it in its
  table never finds it, since it lists the sessions without namespace: getting it, recording
  activity and terminating it all report that it does not exist.\<close>

lemma namespaced_session_lost_on_restart:
  assumes "world_ok env" "plain (sq_Namespace cfg)" "sq_Namespace cfg \<noteq> ''''" "plain (we_uuid env (w_tick w))"
    and "CreateSession env cfg m w = (m', w', Inr s)" "i = om_UID (se_Meta s)"
    and "\<forall>n s'. w_Get env ''Session'' n '''' w' = Inr (RSession s') \<longrightarrow> om_UID (se_Meta s') \<noteq> i \<and> om_Name (se_Meta s') \<noteq> i"
  shows "w_Get env ''Session'' i (sq_Namespace cfg) w' = Inr (RSession s) \<and> map_of m' i \<noteq> None \<and>
    snd (GetSession env i [] w') = Inl ErrNotFound \<and>
    snd (snd (UpdateActivity env i [] w')) = Some ErrNotFound \<and>
    snd (snd (TerminateSession env i [] w')) = Some ErrNotFound"
proof -
  let ?i = "generateSessionID (we_uuid env (w_tick w))"
  have c: "w_Create env (RSession s) (w_next (w_next w)) = (w', None)"
    and s: "s = new_session cfg ?i (we_now env (Suc (w_tick w)))" and m': "map_of m' ?i \<noteq> None"
    using assms(5) by (auto simp: CreateSession_def Let_def update_conv' split: prod.splits option.splits)
  have i: "i = ?i" using assms(6) s by (simp add: new_session_def)
  have p: "plain (take 8 u)" if "plain u" for u using that by (auto simp: plain_def dest: in_set_takeD)
  have key: "GetKind (RSession s) = ''Session''" "GetName (RSession s) = i" "GetNamespace (RSession s) = sq_Namespace cfg"
    "GetUID (RSession s) = i" "i \<noteq> ''''"
    using i s by (simp_all add: new_session_def GetName_def GetNamespace_def GetUID_def generateSessionID_def)
  have pl: "plain i" "plain ''Session''" using i p [OF assms(4)] by (simp_all add: generateSessionID_def plain_def)
  obtain u where "\<forall>k n m. plain k \<longrightarrow> plain n \<longrightarrow> plain m \<longrightarrow> w_Get env k n m w' =
      (if (k, n, m) = resource_key (RSession s) then Inr (ensureUID u (RSession s)) else w_Get env k n m (w_next (w_next w)))"
    using w_Create_effect [OF assms(1) _ _ c] pl assms(2) key by auto
  then have stored: "w_Get env ''Session'' i (sq_Namespace cfg) w' = Inr (RSession s)"
    using pl assms(2) key by (simp add: resource_key_def ensureUID_def)
  have lost: "GetSession env i [] w' = ([], Inl ErrNotFound)"
  proof (cases "find_session i (w_List env ''Session'' '''' None w')")
    case None
    then show ?thesis by (simp add: GetSession_def)
  next
    case (Some s')
    then have "snd (GetSession env i [] w') = Inr s'" by (simp add: GetSession_def)
    then have "GetSession env i [] w' = (fst (GetSession env i [] w'), Inr s')" by (metis prod.collapse)
    from GetSession_uncached [OF assms(1) _ this] assms(7) show ?thesis by auto
  qed
  then show ?thesis using stored m' i by (simp add: UpdateActivity_def TerminateSession_def split_beta)
qed

text \<open>A terminated session comes back to life.  Terminating removes a session from the table
  and stores it as terminated; a later activity report loads it again and makes it active, in
  the table and in the store, without looking at its phase.\<close>

lemma terminated_session_revived:
  assumes "world_ok env" "table_ok m" "map_of m i = Some e" "om_Name (se_Meta (en_Session e)) = i"
    and "om_Namespace (se_Meta (en_Session e)) = ''''" "plain i"
    and "TerminateSession env i m w = (m1, w1, None)"
    and "w_Update env (RSession (set_phase SessionPhaseTerminated (en_Session e))) w = (w1, None)"
    and "UpdateActivity env i m1 w1 = (m2, w2, r)"
  shows "map_of m1 i = None \<and> w_Get env ''Session'' i '''' w1 = Inr (RSession (set_phase SessionPhaseTerminated (en_Session e))) \<and>
    r = None \<and> (\<exists>e2. map_of m2 i = Some e2 \<and> sst_Phase (se_Status (en_Session e2)) = SessionPhaseActive)"
proof -
  let ?s = "set_phase SessionPhaseTerminated (en_Session e)"
  have uid: "om_UID (se_Meta (en_Session e)) = i"
    using assms(2,3) by (auto simp: table_ok_def list_all_iff dest: map_of_SomeD)
  have m1: "m1 = AList.delete i m" using TerminateSession_cached [OF assms(3), of env w] assms(7) by simp
  have n: "GetName (RSession ?s) = i" "GetNamespace (RSession ?s) = ''''" "GetKind (RSession ?s) = ''Session''"
    using assms(4,5) by (simp_all add: GetName_def GetNamespace_def)
  have pl: "plain ''Session''" "plain ''''" by (simp_all add: plain_def)
  have get1: "w_Get env ''Session'' i '''' w1 = Inr (RSession ?s)"
    using ws.upd_effect [OF assms(1) _ _ assms(8)] n pl assms(6) by (simp add: resource_key_def)
  then have "RSession ?s \<in> set (w_List env ''Session'' '''' None w1)"
    using ws.get_listing [OF assms(1), of "''Session''" i "''''" w1] pl assms(6) by simp
  then have "find_session i (w_List env ''Session'' '''' None w1) \<noteq> None"
    using uid by (intro find_session_found [of ?s]) (simp_all add: n)
  then obtain s' where f: "find_session i (w_List env ''Session'' '''' None w1) = Some s'" by blast
  then show ?thesis using m1 get1 assms(9)
    by (auto simp: UpdateActivity_def GetSession_def Let_def touch_session_def update_conv' delete_conv' split_beta)
qed

definition sample_session_env :: "string \<Rightarrow> (string \<times> string) list world_env" where
  "sample_session_env ns =
    (let s = new_session (sample_request\<lparr>sq_Namespace := ns\<rparr>) ''sess-p0'' 0
     in sample_world_env [(''c'', RSession s), (''t'', RSession (set_phase SessionPhaseTerminated s)),
          (''a'', RSession (touch_session 0 s))])"

end
