(* ===== verification/Keeper_Cache.thy ===== *)
theory Keeper_Cache
  imports Comb Platform
begin

text \<open>
  The caches of the keeper, \<open>internal/keeper/keeper.go\<close>: the first-in-first-out cache in front
  of the session memory with the HTTP proxy \<open>handleComb\<close> that fills and invalidates it, and the
  cache of the hive a session belongs to with the lookup behind it.

  A request is what the handler reads of it; a body that cannot be decoded is \<open>None\<close>.  The
  cache, the session memory and the store have their own locks, so \<open>handleComb\<close> is several
  critical sections: \<open>cache_get\<close>, the operation on the session memory, and \<open>cache_set\<close> or
  \<open>cache_invalidate\<close>.
\<close>

section \<open>The cache of the session memory\<close>

record cache_entry =
  ce_value :: string
  ce_expiresAt :: time
  ce_insertedAt :: time

record comb_cache =
  cc_data :: "(string \<times> cache_entry) list"
  cc_maxSize :: int
  cc_insertOrder :: "string list"

definition newCombCache :: "int \<Rightarrow> comb_cache" where
  "newCombCache maxSize = \<lparr>cc_data = [], cc_maxSize = maxSize, cc_insertOrder = []\<rparr>"

text \<open>The deletion of an expired entry takes the write lock and looks again, with a second
  reading of the clock.\<close>

definition cache_get :: "time \<Rightarrow> time \<Rightarrow> string \<Rightarrow> comb_cache \<Rightarrow> comb_cache \<times> string option" where
  "cache_get now1 now2 key c =
    (case map_of (cc_data c) key of
       None \<Rightarrow> (c, None)
     | Some e \<Rightarrow>
        (if ce_expiresAt e < now1 then
           (if ce_expiresAt e < now2
            then (c\<lparr>cc_data := AList.delete key (cc_data c),
                    cc_insertOrder := remove_first (\<lambda>k. k = key) (cc_insertOrder c)\<rparr>, None)
            else (c, None))
         else (c, Some (ce_value e))))"

definition cache_evict :: "comb_cache \<Rightarrow> comb_cache" where
  "cache_evict c =
    (case cc_insertOrder c of
       [] \<Rightarrow> c
     | oldest # order \<Rightarrow> c\<lparr>cc_data := AList.delete oldest (cc_data c), cc_insertOrder := order\<rparr>)"

definition cache_set :: "time \<Rightarrow> string \<Rightarrow> string \<Rightarrow> duration \<Rightarrow> comb_cache \<Rightarrow> comb_cache" where
  "cache_set now key value ttl c =
    (let expiresAt = (if ttl = 0 then now + 5 * minute else now + ttl);
         exists = (map_of (cc_data c) key \<noteq> None);
         c = (if \<not> exists \<and> int (length (cc_data c)) \<ge> cc_maxSize c then cache_evict c
              else if exists then c\<lparr>cc_insertOrder := remove_first (\<lambda>k. k = key) (cc_insertOrder c)\<rparr>
              else c);
         c = c\<lparr>cc_data := AList.update key
                \<lparr>ce_value = value, ce_expiresAt = expiresAt, ce_insertedAt = now\<rparr> (cc_data c)\<rparr>
     in if \<not> exists then c\<lparr>cc_insertOrder := cc_insertOrder c @ [key]\<rparr> else c)"

definition cache_invalidate :: "string \<Rightarrow> comb_cache \<Rightarrow> comb_cache" where
  "cache_invalidate key c =
    c\<lparr>cc_data := AList.delete key (cc_data c),
      cc_insertOrder := remove_first (\<lambda>k. k = key) (cc_insertOrder c)\<rparr>"

definition cache_clear :: "comb_cache \<Rightarrow> comb_cache" where
  "cache_clear c = c\<lparr>cc_data := [], cc_insertOrder := []\<rparr>"

section \<open>The proxy of the session memory\<close>

datatype comb_method = CombGet | CombPut | CombDelete | CombOther

record comb_request =
  cr_Method :: comb_method
  cr_Key :: string
  cr_Body :: "(string \<times> duration) option"

datatype comb_response =
    CombValue string
  | CombBadRequest
  | CombNotFound comb_error
  | CombServerError comb_error
  | CombOK
  | CombNoContent
  | CombNotAllowed

definition comb_sid :: "string \<Rightarrow> string \<Rightarrow> string" where
  "comb_sid namespace sessionID = namespace @ '':'' @ sessionID"

text \<open>\<open>now i\<close> and \<open>ctx i\<close> are the readings of the clock and of the context within one request.\<close>

definition handleComb :: "(nat \<Rightarrow> ctx_error option) \<Rightarrow> (nat \<Rightarrow> time) \<Rightarrow> string \<Rightarrow> comb_request \<Rightarrow>
    comb_cache \<times> comb_store \<Rightarrow> (comb_cache \<times> comb_store) \<times> comb_response" where
  "handleComb ctx now sid rq cs =
    (let (c, s) = cs; key = cr_Key rq
     in if key = '''' then ((c, s), CombBadRequest)
        else case cr_Method rq of
          CombGet \<Rightarrow>
            (let (c, cached) = cache_get (now 0) (now 1) key c
             in case cached of
                  Some v \<Rightarrow> ((c, s), CombValue v)
                | None \<Rightarrow>
                   (let (s, r) = comb_Get (ctx 0) (now 2) sid key s
                    in case r of
                         Inl e \<Rightarrow> ((c, s), CombNotFound e)
                       | Inr v \<Rightarrow> ((cache_set (now 3) key v 0 c, s), CombValue v)))
        | CombPut \<Rightarrow>
            (case cr_Body rq of
               None \<Rightarrow> ((c, s), CombBadRequest)
             | Some (value, ttl) \<Rightarrow>
                (let (s, e) = comb_Set (ctx 0) (ctx 1) (now 0) sid key value ttl s
                 in case e of
                      Some e \<Rightarrow> ((c, s), CombServerError e)
                    | None \<Rightarrow> ((cache_invalidate key c, s), CombOK)))
        | CombDelete \<Rightarrow>
            (let (s, e) = comb_Delete (ctx 0) (ctx 1) sid key s
             in case e of
                  Some e \<Rightarrow> ((c, s), CombNotFound e)
                | None \<Rightarrow> ((cache_invalidate key c, s), CombNoContent))
        | CombOther \<Rightarrow> ((c, s), CombNotAllowed))"

text \<open>The same proxy without a cache, as the reference.\<close>

definition direct_comb :: "(nat \<Rightarrow> time) \<Rightarrow> string \<Rightarrow> comb_request \<Rightarrow> comb_store \<Rightarrow> comb_store \<times> comb_response" where
  "direct_comb now sid rq s =
    (let key = cr_Key rq
     in if key = '''' then (s, CombBadRequest)
        else case cr_Method rq of
          CombGet \<Rightarrow>
            (let (s, r) = comb_Get None (now 2) sid key s
             in (s, case r of Inl e \<Rightarrow> CombNotFound e | Inr v \<Rightarrow> CombValue v))
        | CombPut \<Rightarrow>
            (case cr_Body rq of
               None \<Rightarrow> (s, CombBadRequest)
             | Some (value, ttl) \<Rightarrow>
                (let (s, e) = comb_Set None None (now 0) sid key value ttl s
                 in (s, case e of Some e \<Rightarrow> CombServerError e | None \<Rightarrow> CombOK)))
        | CombDelete \<Rightarrow>
            (let (s, e) = comb_Delete None None sid key s
             in (s, case e of Some e \<Rightarrow> CombNotFound e | None \<Rightarrow> CombNoContent))
        | CombOther \<Rightarrow> (s, CombNotAllowed))"

section \<open>The hive of a session\<close>

record hive_cache =
  hc_data :: "(string \<times> string) list"
  hc_maxSize :: int

definition newHiveCache :: "int \<Rightarrow> hive_cache" where
  "newHiveCache maxSize = \<lparr>hc_data = [], hc_maxSize = maxSize\<rparr>"

text \<open>The entry that a full cache gives up is the first one Go's iteration visits.\<close>

definition hive_cache_set :: "string \<Rightarrow> string \<Rightarrow> hive_cache \<Rightarrow> hive_cache" where
  "hive_cache_set sessionID hiveName c =
    (let d = (if int (length (hc_data c)) \<ge> hc_maxSize c \<and> hc_data c \<noteq> []
              then AList.delete (fst (hd (hc_data c))) (hc_data c) else hc_data c)
     in c\<lparr>hc_data := AList.update sessionID hiveName d\<rparr>)"

text \<open>\<open>store\<close> is \<open>None\<close> for a keeper without a store; a failed lookup is cached as no hive.\<close>

definition getHiveNameFromSession :: "(string \<Rightarrow> string \<Rightarrow> string \<Rightarrow> store_error + resource) option \<Rightarrow> string \<Rightarrow>
    string \<Rightarrow> hive_cache \<Rightarrow> hive_cache \<times> string" where
  "getHiveNameFromSession store namespace sessionID c =
    (if sessionID = '''' then (c, '''')
     else case map_of (hc_data c) sessionID of
       Some hiveName \<Rightarrow> (c, hiveName)
     | None \<Rightarrow>
        (case store of
           None \<Rightarrow> (c, '''')
         | Some get \<Rightarrow>
            (case get ''Session'' sessionID namespace of
               Inr (RSession s) \<Rightarrow>
                 (let hiveName = (case map_of (om_Annotations (se_Meta s)) ''apiary.io/hive-name'' of
                        None \<Rightarrow> '''' | Some h \<Rightarrow> h)
                  in (hive_cache_set sessionID hiveName c, hiveName))
             | _ \<Rightarrow> (hive_cache_set sessionID '''' c, ''''))))"

definition getHiveWebhookConfig :: "(string \<Rightarrow> string \<Rightarrow> string \<Rightarrow> store_error + resource) option \<Rightarrow> string \<Rightarrow>
    string \<Rightarrow> string \<times> string" where
  "getHiveWebhookConfig store namespace hiveName =
    (case store of
       None \<Rightarrow> ('''', '''')
     | Some get \<Rightarrow>
        (if hiveName = '''' then ('''', '''')
         else case get ''Hive'' hiveName namespace of
           Inr (RHive h) \<Rightarrow> (wh_URL (hi_Webhook (hv_Spec h)), wh_AuthHeader (hi_Webhook (hv_Spec h)))
         | _ \<Rightarrow> ('''', '''')))"

section \<open>The cache as a bounded queue\<close>

text \<open>What the cache should keep: its order lists exactly the keys it holds, once each, and it
  never holds more than it may.\<close>

definition cache_ok :: "comb_cache \<Rightarrow> bool" where
  "cache_ok c \<longleftrightarrow> distinct (map fst (cc_data c)) \<and> distinct (cc_insertOrder c) \<and>
    set (cc_insertOrder c) = fst ` set (cc_data c) \<and> int (length (cc_data c)) \<le> cc_maxSize c"

lemma cache_ok_length: "cache_ok c \<Longrightarrow> length (cc_insertOrder c) = length (cc_data c)"
  by (metis cache_ok_def distinct_card length_map set_map)

lemma cache_ok_delete [inv_intros]:
  assumes "cache_ok c"
  shows "cache_ok (c\<lparr>cc_data := AList.delete key (cc_data c),
    cc_insertOrder := remove_first (\<lambda>k. k = key) (cc_insertOrder c)\<rparr>)"
proof -
  have "length (AList.delete key (cc_data c)) \<le> length (cc_data c)" by (simp add: AList.delete_eq)
  then show ?thesis using assms distinct_delete [of "cc_data c" key]
    by (simp add: cache_ok_def remove_first_eq_remove1 delete_keys set_remove1_eq keys_of_delete)
qed

lemma cache_ok_invalidate: "cache_ok c \<Longrightarrow> cache_ok (cache_invalidate key c)"
  unfolding cache_invalidate_def by (rule cache_ok_delete)

lemma cache_ok_get: "cache_ok c \<Longrightarrow> cache_ok (fst (cache_get now1 now2 key c))"
  by (auto simp: cache_get_def intro!: inv_intros split: option.split)

lemma cache_ok_evict:
  assumes "cache_ok c" and "cc_data c \<noteq> []"
  shows "cache_ok (cache_evict c)" and "Suc (length (cc_data (cache_evict c))) = length (cc_data c)"
    and "cc_maxSize (cache_evict c) = cc_maxSize c"
proof -
  obtain k ks where o: "cc_insertOrder c = k # ks"
    using assms cache_ok_length [OF assms(1)] by (cases "cc_insertOrder c") auto
  have k: "k \<in> keys_of (cc_data c)" using assms(1) o by (auto simp: cache_ok_def)
  have e: "cache_evict c = c\<lparr>cc_data := AList.delete k (cc_data c),
      cc_insertOrder := remove_first (\<lambda>x. x = k) (cc_insertOrder c)\<rparr>" by (simp add: cache_evict_def o)
  show "cache_ok (cache_evict c)" unfolding e by (rule cache_ok_delete [OF assms(1)])
  show "Suc (length (cc_data (cache_evict c))) = length (cc_data c)"
    using length_delete [OF _ k] assms(1) by (simp add: e cache_ok_def)
qed (simp add: cache_evict_def split: list.split)

lemma cache_evict_keys: "keys_of (cc_data (cache_evict c)) \<subseteq> keys_of (cc_data c)"
  by (auto simp: cache_evict_def keys_of_delete split: list.split)

lemma cache_ok_set:
  assumes "cache_ok c" and "key \<notin> keys_of (cc_data c)" and "0 < cc_maxSize c"
  shows "cache_ok (cache_set now key value ttl c)"
proof -
  define c1 where "c1 = (if int (length (cc_data c)) \<ge> cc_maxSize c then cache_evict c else c)"
  have c1: "cache_ok c1" "int (length (cc_data c1)) < cc_maxSize c1" "key \<notin> keys_of (cc_data c1)"
    "cc_maxSize c1 = cc_maxSize c"
  proof -
    have "cc_data c \<noteq> []" if "int (length (cc_data c)) \<ge> cc_maxSize c" using that assms(3) by auto
    moreover have "int (length (cc_data c)) \<le> cc_maxSize c" using assms(1) by (simp add: cache_ok_def)
    ultimately show "cache_ok c1" "int (length (cc_data c1)) < cc_maxSize c1" "key \<notin> keys_of (cc_data c1)"
      "cc_maxSize c1 = cc_maxSize c"
      using cache_ok_evict [OF assms(1)] assms(1,2) cache_evict_keys [of c] by (auto simp: c1_def)
  qed
  have none: "map_of (cc_data c) key = None" using assms(2) by (simp add: map_of_eq_None_iff)
  have "cache_set now key value ttl c = c1\<lparr>cc_data := AList.update key
      \<lparr>ce_value = value, ce_expiresAt = (if ttl = 0 then now + 5 * minute else now + ttl), ce_insertedAt = now\<rparr> (cc_data c1),
      cc_insertOrder := cc_insertOrder c1 @ [key]\<rparr>"
    by (simp add: cache_set_def none c1_def Let_def)
  then show ?thesis using c1(1-3)
    by (auto simp: cache_ok_def distinct_update length_update dom_update)
qed

text \<open>Storing a key the cache already holds takes it out of the order and does not put it back.\<close>

lemma cache_set_twice:
  assumes "cc_insertOrder c = []" and "key \<notin> keys_of (cc_data c)"
  shows "cc_insertOrder (cache_set now key v ttl (cache_set now key v ttl c)) = [] \<and>
    length (cc_data (cache_set now key v ttl (cache_set now key v ttl c))) = Suc (length (cc_data c)) \<and>
    keys_of (cc_data (cache_set now key v ttl (cache_set now key v ttl c))) = insert key (keys_of (cc_data c))"
proof -
  have none: "map_of (cc_data c) key = None" using assms(2) by (simp add: map_of_eq_None_iff)
  have ev: "cache_evict c = c" by (simp add: cache_evict_def assms(1))
  have one: "cache_set now key v ttl c = c\<lparr>cc_data := AList.update key
      \<lparr>ce_value = v, ce_expiresAt = (if ttl = 0 then now + 5 * minute else now + ttl), ce_insertedAt = now\<rparr> (cc_data c),
      cc_insertOrder := [key]\<rparr>"
    by (simp add: cache_set_def none ev assms(1) Let_def)
  show ?thesis unfolding one by (simp add: cache_set_def Let_def length_update dom_update assms(2))
qed

text \<open>The cache of the keeper is not bounded.  Its limit holds as long as no key is stored that
  the cache already holds (each such store keeps the first-in-first-out order and the limit
  intact); but two requests for the same missing key, both answered from the session memory,
  store it twice, and then it can never be evicted: storing any list of keys like that keeps them
  all, whatever the limit.\<close>

lemma cache_grows_beyond_limit:
  assumes "distinct keys"
  shows "length (cc_data (fold (\<lambda>k c. cache_set now k v ttl (cache_set now k v ttl c)) keys (newCombCache m))) = length keys \<and>
    (cache_ok c \<longrightarrow> 0 < cc_maxSize c \<longrightarrow> key \<notin> keys_of (cc_data c) \<longrightarrow> cache_ok (cache_set now key v ttl c))"
proof -
  let ?f = "\<lambda>k c. cache_set now k v ttl (cache_set now k v ttl c)"
  have "cc_insertOrder (fold ?f keys c) = [] \<and> length (cc_data (fold ?f keys c)) = length (cc_data c) + length keys"
    if "cc_insertOrder c = []" "set keys \<inter> keys_of (cc_data c) = {}" for c
    using assms that
  proof (induction keys arbitrary: c)
    case (Cons k ks)
    note two = cache_set_twice [of c k now v ttl]
    show ?case using Cons.IH [of "?f k c"] Cons.prems two by auto
  qed simp
  from this [of "newCombCache m"] show ?thesis by (simp add: newCombCache_def cache_ok_set)
qed

section \<open>The cache is transparent\<close>

text \<open>Nothing in the session expires, and what the cache holds is what the session holds.\<close>

definition permanent :: "string \<Rightarrow> comb_store \<Rightarrow> bool" where
  "permanent sid s \<longleftrightarrow> (\<forall>t t'. comb_live t s sid = comb_live t' s sid)"

definition coherent :: "string \<Rightarrow> comb_cache \<Rightarrow> comb_store \<Rightarrow> bool" where
  "coherent sid c s \<longleftrightarrow> (\<forall>key e t. map_of (cc_data c) key = Some e \<longrightarrow> comb_live t s sid key = Some (ce_value e))"

definition no_ttl :: "comb_request \<Rightarrow> bool" where
  "no_ttl rq \<longleftrightarrow> (case cr_Body rq of None \<Rightarrow> True | Some (_, ttl) \<Rightarrow> ttl \<le> 0)"

lemma permanent_Get:
  assumes "permanent sid s"
  shows "fst (comb_Get None now sid key s) = s"
proof -
  have "comb_read now sid key s \<noteq> Inr (True, v)" for v
  proof
    assume r: "comb_read now sid key s = Inr (True, v)"
    then obtain ent where ent: "comb_entry_at s sid key = Some ent" "entry_expired now ent"
      by (auto simp: comb_read_def comb_entry_at_def session_entries_def Let_def split: option.splits)
    then obtain x where x: "ent_expiresAt ent = Some x" "x < now" by (auto simp: entry_expired_def split: option.splits)
    have "comb_live now s sid key = None" "comb_live x s sid key = Some (ent_value ent)"
      using ent x by (simp_all add: comb_live_def entry_expired_def)
    then show False using assms by (metis permanent_def option.distinct(1))
  qed
  then show ?thesis by (simp add: fst_comb_Get)
qed

lemma comb_Set_error_live:
  "comb_Set None None now sid key v ttl s = (s', Some e) \<Longrightarrow> comb_live t s' = comb_live t s"
  by (auto simp: comb_live_def fun_eq_iff comb_Set_error_entry_at)

lemma comb_live_Delete:
  "comb_Delete None None sid key s = (s', None) \<Longrightarrow> comb_live t s' = (comb_live t s)(sid := (comb_live t s sid)(key := None))"
  by (auto simp: comb_Delete_eq comb_live_drop split: if_splits)

lemma cache_get_sub: "map_of (cc_data (fst (cache_get n1 n2 k c))) key = Some e \<Longrightarrow> map_of (cc_data c) key = Some e"
  by (auto simp: cache_get_def delete_conv' split: option.splits if_splits)

lemma cache_set_sub:
  "map_of (cc_data (cache_set now k v ttl c)) key = Some e \<Longrightarrow>
    (key = k \<and> ce_value e = v) \<or> (key \<noteq> k \<and> map_of (cc_data c) key = Some e)"
  by (auto simp: cache_set_def cache_evict_def Let_def delete_conv' split: if_splits list.splits)

lemma handleComb_step:
  assumes "permanent sid s" "coherent sid c s" "no_ttl rq"
    and "handleComb (\<lambda>_. None) now sid rq (c, s) = ((c', s'), r)"
  shows "direct_comb now sid rq s = (s', r) \<and> permanent sid s' \<and> coherent sid c' s'"
proof (cases "cr_Key rq = ''''")
  case True
  then show ?thesis using assms by (simp add: handleComb_def direct_comb_def)
next
  case False
  let ?k = "cr_Key rq"
  show ?thesis
  proof (cases "cr_Method rq")
    case CombGet
    obtain c1 cached where g: "cache_get (now 0) (now 1) ?k c = (c1, cached)" by (metis surj_pair)
    have c1: "coherent sid c1 s" using assms(2) cache_get_sub [of "now 0" "now 1" ?k c] g by (simp add: coherent_def)
    obtain r2 where d: "comb_Get None (now 2) sid ?k s = (s, r2)"
      using permanent_Get [OF assms(1)] by (metis prod.collapse)
    show ?thesis
    proof (cases cached)
      case (Some v)
      then have "\<exists>e. map_of (cc_data c) ?k = Some e \<and> ce_value e = v"
        using g by (auto simp: cache_get_def split: option.splits if_splits)
      then have "comb_live (now 2) s sid ?k = Some v" using assms(2) by (auto simp: coherent_def)
      then have "r2 = Inr v" using comb_Get_live d by (metis snd_conv)
      then show ?thesis using assms(1,4) Some c1 g d False CombGet by (simp add: handleComb_def direct_comb_def)
    next
      case None
      show ?thesis
      proof (cases r2)
        case (Inl e)
        then show ?thesis using assms(1,4) None c1 g d False CombGet by (simp add: handleComb_def direct_comb_def)
      next
        case (Inr v)
        then have "comb_live (now 2) s sid ?k = Some v" using comb_Get_live d by (metis snd_conv)
        then have live: "comb_live t s sid ?k = Some v" for t using assms(1) by (metis permanent_def)
        have "coherent sid (cache_set (now 3) ?k v 0 c1) s"
          using c1 live by (auto simp: coherent_def dest!: cache_set_sub)
        then show ?thesis using assms(1,4) None Inr g d False CombGet by (auto simp: handleComb_def direct_comb_def)
      qed
    qed
  next
    case CombPut
    show ?thesis
    proof (cases "cr_Body rq")
      case None
      then show ?thesis using assms False CombPut by (simp add: handleComb_def direct_comb_def)
    next
      case (Some vt)
      obtain v ttl where vt: "vt = (v, ttl)" "\<not> 0 < ttl" using assms(3) Some by (cases vt) (auto simp: no_ttl_def)
      obtain s1 e where set: "comb_Set None None (now 0) sid ?k v ttl s = (s1, e)" by (metis surj_pair)
      show ?thesis
      proof (cases e)
        case (Some x)
        then have "comb_live t s1 = comb_live t s" for t using set comb_Set_error_live by blast
        then have "permanent sid s1" "coherent sid c s1" using assms(1,2) by (simp_all add: permanent_def coherent_def)
        then show ?thesis using assms(4) set Some \<open>cr_Body rq = Some vt\<close> vt False CombPut
          by (auto simp: handleComb_def direct_comb_def)
      next
        case None
        then have l: "comb_live t s1 = (comb_live t s)(sid := (comb_live t s sid)(?k \<mapsto> v))" for t
          using comb_live_Set [OF set [unfolded None]] vt(2) by simp
        have "permanent sid s1" using assms(1) by (simp add: permanent_def l) metis
        moreover have "coherent sid (cache_invalidate ?k c) s1"
          using assms(2) by (auto simp: coherent_def l cache_invalidate_def delete_conv')
        ultimately show ?thesis using assms(4) set None \<open>cr_Body rq = Some vt\<close> vt False CombPut
          by (auto simp: handleComb_def direct_comb_def)
      qed
    qed
  next
    case CombDelete
    obtain s1 e where del: "comb_Delete None None sid ?k s = (s1, e)" by (metis surj_pair)
    show ?thesis
    proof (cases e)
      case (Some x)
      then have "s1 = s" using del by (auto simp: comb_Delete_eq split: if_splits)
      then show ?thesis using assms Some del False CombDelete by (auto simp: handleComb_def direct_comb_def)
    next
      case None
      then have l: "comb_live t s1 = (comb_live t s)(sid := (comb_live t s sid)(?k := None))" for t
        using comb_live_Delete del by blast
      have "permanent sid s1" using assms(1) by (simp add: permanent_def l) metis
      moreover have "coherent sid (cache_invalidate ?k c) s1"
        using assms(2) by (auto simp: coherent_def l cache_invalidate_def delete_conv')
      ultimately show ?thesis using assms(4) None del False CombDelete by (auto simp: handleComb_def direct_comb_def)
    qed
  next
    case CombOther
    then show ?thesis using assms False by (simp add: handleComb_def direct_comb_def)
  qed
qed

fun cached_run :: "string \<Rightarrow> ((nat \<Rightarrow> time) \<times> comb_request) list \<Rightarrow> comb_cache \<times> comb_store \<Rightarrow>
    (comb_cache \<times> comb_store) \<times> comb_response list" where
  "cached_run sid [] cs = (cs, [])"
| "cached_run sid ((now, rq) # rqs) cs =
    (let (cs, r) = handleComb (\<lambda>_. None) now sid rq cs; (cs, rs) = cached_run sid rqs cs in (cs, r # rs))"

fun direct_run :: "string \<Rightarrow> ((nat \<Rightarrow> time) \<times> comb_request) list \<Rightarrow> comb_store \<Rightarrow> comb_store \<times> comb_response list" where
  "direct_run sid [] s = (s, [])"
| "direct_run sid ((now, rq) # rqs) s =
    (let (s, r) = direct_comb now sid rq s; (s, rs) = direct_run sid rqs s in (s, r # rs))"

text \<open>C34: Seen by one client at a time, the cache is invisible.  For any sequence of requests that
  store values without expiry, on a session nothing else writes to and in which nothing expires,
  the keeper answers every request exactly as a proxy without a cache would, and leaves the
  session memory in the same state.\<close>

theorem cache_transparent:
  assumes "permanent sid s" and "list_all (\<lambda>(_, rq). no_ttl rq) rqs"
    and "cached_run sid rqs (newCombCache m, s) = ((c', s'), rs)"
  shows "direct_run sid rqs s = (s', rs)"
proof -
  have "direct_run sid rqs s = (s', rs)"
    if "permanent sid s" "coherent sid c s" "list_all (\<lambda>(_, rq). no_ttl rq) rqs"
      "cached_run sid rqs (c, s) = ((c', s'), rs)" for c s rqs rs
    using that
  proof (induction rqs arbitrary: c s rs)
    case Nil
    then show ?case by simp
  next
    case (Cons nr rqs)
    obtain now rq where nr: "nr = (now, rq)" by (cases nr)
    obtain c1 s1 r where h: "handleComb (\<lambda>_. None) now sid rq (c, s) = ((c1, s1), r)" by (metis prod_cases3 surj_pair)
    obtain rs1 where rest: "cached_run sid rqs (c1, s1) = ((c', s'), rs1)" "rs = r # rs1"
      using Cons.prems(4) h nr by (auto split: prod.splits)
    have "no_ttl rq" using Cons.prems(3) nr by simp
    from handleComb_step [OF Cons.prems(1,2) this h] Cons.IH [OF _ _ _ rest(1)] Cons.prems(3) rest(2) nr
    show ?case by simp
  qed
  moreover have "coherent sid (newCombCache m) s" by (simp add: coherent_def newCombCache_def)
  ultimately show ?thesis using assms by blast
qed

definition sample_requests :: "((nat \<Rightarrow> time) \<times> comb_request) list" where
  "sample_requests =
    [(int, \<lparr>cr_Method = CombPut, cr_Key = ''k'', cr_Body = Some (''v'', 0)\<rparr>),
     (\<lambda>i. 10 + int i, \<lparr>cr_Method = CombGet, cr_Key = ''k'', cr_Body = None\<rparr>),
     (\<lambda>i. 20 + int i, \<lparr>cr_Method = CombGet, cr_Key = ''k'', cr_Body = None\<rparr>)]"

lemma cache_transparent_witness:
  "snd (cached_run ''prod:s'' sample_requests (newCombCache 10, NewStore)) = [CombOK, CombValue ''v'', CombValue ''v''] \<and>
   snd (direct_run ''prod:s'' sample_requests NewStore) = [CombOK, CombValue ''v'', CombValue ''v'']"
proof
  let ?run = "cached_run ''prod:s'' sample_requests (newCombCache 10, NewStore)"
  show r: "snd ?run = [CombOK, CombValue ''v'', CombValue ''v'']" by code_simp
  have "permanent ''prod:s'' NewStore"
    by (simp add: permanent_def comb_live_def comb_entry_at_def session_entries_def NewStore_def fun_eq_iff)
  moreover have "list_all (\<lambda>(_, rq). no_ttl rq) sample_requests" by (simp add: sample_requests_def no_ttl_def)
  moreover have "?run = ((fst (fst ?run), snd (fst ?run)), snd ?run)" by simp
  ultimately have "direct_run ''prod:s'' sample_requests NewStore = (snd (fst ?run), snd ?run)"
    by (rule cache_transparent)
  then show "snd (direct_run ''prod:s'' sample_requests NewStore) = [CombOK, CombValue ''v'', CombValue ''v'']"
    using r by simp
qed

text \<open>The cache serves values that are gone.  A value that is read is served from the cache
  for five minutes: after its expiry in the session memory, where a read then reports an error,
  and after it has been overwritten by another keeper of the same session.\<close>

lemma cache_serves_stale_values:
  assumes "rq = \<lparr>cr_Method = CombGet, cr_Key = key, cr_Body = None\<rparr>" and "key \<noteq> ''''"
    and "map_of (cc_data c) key = None"
    and "handleComb (\<lambda>_. None) now sid rq (c, s) = ((c1, s1), CombValue v)"
    and "now2 0 \<le> now 3 + 5 * minute"
  shows "handleComb (\<lambda>_. None) now2 sid rq (c1, s2) = ((c1, s2), CombValue v)"
proof -
  have "cache_get (now 0) (now 1) key c = (c, None)" using assms(3) by (simp add: cache_get_def)
  then have "c1 = cache_set (now 3) key v 0 c"
    using assms(1,2,4) by (auto simp: handleComb_def split: prod.splits sum.splits)
  then have "\<exists>e. map_of (cc_data c1) key = Some e \<and> ce_value e = v \<and> ce_expiresAt e = now 3 + 5 * minute"
    by (simp add: cache_set_def Let_def)
  then have "cache_get (now2 0) (now2 1) key c1 = (c1, Some v)" using assms(5) by (auto simp: cache_get_def)
  then show ?thesis using assms(1,2) by (simp add: handleComb_def)
qed

section \<open>Hives\<close>

text \<open>The session manager files the hive of a session under another annotation than the keeper
  reads, so for the sessions it creates the keeper finds no hive, and no webhook is configured.\<close>

lemma session_manager_hive_not_found:
  assumes "get ''Session'' sid ns = Inr (RSession s)" and "om_Annotations (se_Meta s) = [(''apiary.io/hive'', h)]"
    and "map_of (hc_data c) sid = None"
  shows "snd (getHiveNameFromSession (Some get) ns sid c) = ''''"
  using assms by (simp add: getHiveNameFromSession_def Let_def)

end
