(* ===== verification/Notifications.thy ===== *)
theory Notifications
  imports Metrics Apiary_Types
begin

text \<open>
  What the platform reports to the outside: the structured audit log (\<open>internal/audit\<close>), whose
  entries are the fields passed to the logging library, and the webhooks of
  \<open>internal/webhook\<close> with their bounded retry.  The outcome of one HTTP request is a
  parameter: the response status, or \<open>None\<close> when the request fails.
\<close>

section \<open>Audit log\<close>

datatype audit_type =
    EventTypeAgentInput
  | EventTypeAgentOutput
  | EventTypeResourceCreate
  | EventTypeResourceUpdate
  | EventTypeResourceDelete
  | EventTypeScalingUp
  | EventTypeScalingDown
  | EventTypeGuardrailViolation

fun audit_type_string :: "audit_type \<Rightarrow> string" where
  "audit_type_string EventTypeAgentInput = ''agent_input''"
| "audit_type_string EventTypeAgentOutput = ''agent_output''"
| "audit_type_string EventTypeResourceCreate = ''resource_create''"
| "audit_type_string EventTypeResourceUpdate = ''resource_update''"
| "audit_type_string EventTypeResourceDelete = ''resource_delete''"
| "audit_type_string EventTypeScalingUp = ''scaling_up''"
| "audit_type_string EventTypeScalingDown = ''scaling_down''"
| "audit_type_string EventTypeGuardrailViolation = ''guardrail_violation''"

datatype detail = DStr string | DInt int | DBool bool

record audit_event =
  ae_Type :: audit_type
  ae_Timestamp :: time
  ae_Namespace :: string
  ae_HiveName :: string
  ae_AgentSpec :: string
  ae_DroneID :: string
  ae_SessionID :: string
  ae_MessageID :: string
  ae_ResourceType :: string
  ae_ResourceName :: string
  ae_GuardrailType :: string
  ae_Details :: "(string \<times> detail) list"

definition blank_event :: "audit_type \<Rightarrow> audit_event" where
  "blank_event t = \<lparr>ae_Type = t, ae_Timestamp = zero_time, ae_Namespace = '''', ae_HiveName = '''', ae_AgentSpec = '''',
     ae_DroneID = '''', ae_SessionID = '''', ae_MessageID = '''', ae_ResourceType = '''', ae_ResourceName = '''',
     ae_GuardrailType = '''', ae_Details = []\<rparr>"

datatype audit_field = FStr string string | FTime string time | FDetails "(string \<times> detail) list"

definition opt_field :: "string \<Rightarrow> string \<Rightarrow> audit_field list" where
  "opt_field name v = (if v \<noteq> '''' then [FStr name v] else [])"

text \<open>The fields of one log entry; \<open>None\<close> is a nil event, for which nothing is logged.\<close>

definition LogEvent :: "time \<Rightarrow> audit_event option \<Rightarrow> audit_field list option" where
  "LogEvent now event =
    (case event of
       None \<Rightarrow> None
     | Some e \<Rightarrow>
        (let e = (if ae_Timestamp e = zero_time then e\<lparr>ae_Timestamp := now\<rparr> else e)
         in Some ([FStr ''audit_type'' (audit_type_string (ae_Type e)), FTime ''audit_timestamp'' (ae_Timestamp e)] @
              opt_field ''audit_namespace'' (ae_Namespace e) @ opt_field ''audit_hiveName'' (ae_HiveName e) @
              opt_field ''audit_agentSpec'' (ae_AgentSpec e) @ opt_field ''audit_droneID'' (ae_DroneID e) @
              opt_field ''audit_sessionID'' (ae_SessionID e) @ opt_field ''audit_messageID'' (ae_MessageID e) @
              opt_field ''audit_resourceType'' (ae_ResourceType e) @ opt_field ''audit_resourceName'' (ae_ResourceName e) @
              opt_field ''audit_guardrailType'' (ae_GuardrailType e) @
              (if ae_Details e \<noteq> [] then [FDetails (ae_Details e)] else []))))"

definition LogAgentInput :: "string \<Rightarrow> string \<Rightarrow> string \<Rightarrow> string \<Rightarrow> string \<Rightarrow> (string \<times> detail) list \<Rightarrow> audit_event" where
  "LogAgentInput namespace agentSpec droneID sessionID messageID details =
    (blank_event EventTypeAgentInput)\<lparr>ae_Namespace := namespace, ae_AgentSpec := agentSpec, ae_DroneID := droneID,
      ae_SessionID := sessionID, ae_MessageID := messageID, ae_Details := details\<rparr>"

definition LogAgentOutput :: "string \<Rightarrow> string \<Rightarrow> string \<Rightarrow> string \<Rightarrow> string \<Rightarrow> (string \<times> detail) list \<Rightarrow> audit_event" where
  "LogAgentOutput namespace agentSpec droneID sessionID messageID details =
    (blank_event EventTypeAgentOutput)\<lparr>ae_Namespace := namespace, ae_AgentSpec := agentSpec, ae_DroneID := droneID,
      ae_SessionID := sessionID, ae_MessageID := messageID, ae_Details := details\<rparr>"

definition LogResource :: "audit_type \<Rightarrow> string \<Rightarrow> string \<Rightarrow> string \<Rightarrow> (string \<times> detail) list \<Rightarrow> audit_event" where
  "LogResource t resourceType resourceName namespace details =
    (blank_event t)\<lparr>ae_ResourceType := resourceType, ae_ResourceName := resourceName,
      ae_Namespace := namespace, ae_Details := details\<rparr>"

definition LogScaling :: "audit_type \<Rightarrow> string \<Rightarrow> string \<Rightarrow> int \<Rightarrow> int \<Rightarrow> (string \<times> detail) list \<Rightarrow> audit_event" where
  "LogScaling t namespace agentSpec fromReplicas toReplicas details =
    (blank_event t)\<lparr>ae_Namespace := namespace, ae_AgentSpec := agentSpec,
      ae_Details := AList.update ''toReplicas'' (DInt toReplicas)
        (AList.update ''fromReplicas'' (DInt fromReplicas) details)\<rparr>"

definition LogGuardrailViolation :: "string \<Rightarrow> string \<Rightarrow> string \<Rightarrow> string \<Rightarrow> string \<Rightarrow> string \<Rightarrow> string \<Rightarrow> string \<Rightarrow>
    (string \<times> detail) list \<Rightarrow> audit_event" where
  "LogGuardrailViolation guardrailType namespace hiveName agentSpec droneID sessionID messageID errorMsg details =
    (blank_event EventTypeGuardrailViolation)\<lparr>ae_GuardrailType := guardrailType, ae_Namespace := namespace,
      ae_HiveName := hiveName, ae_AgentSpec := agentSpec, ae_DroneID := droneID, ae_SessionID := sessionID,
      ae_MessageID := messageID,
      ae_Details := (if errorMsg \<noteq> '''' then AList.update ''error'' (DStr errorMsg) details else details)\<rparr>"

section \<open>Webhooks\<close>

record webhook_event =
  we_Type :: string
  we_Timestamp :: time
  we_Namespace :: string
  we_HiveName :: string
  we_AgentSpec :: string
  we_DroneID :: string
  we_SessionID :: string
  we_MessageID :: string
  we_Error :: string
  we_Details :: "(string \<times> detail) list"

record webhook_client =
  wc_timeout :: duration
  wc_maxRetries :: int
  wc_retryDelay :: duration

definition NewClient :: "duration \<Rightarrow> int \<Rightarrow> duration \<Rightarrow> webhook_client" where
  "NewClient timeout maxRetries retryDelay =
    \<lparr>wc_timeout = (if timeout = 0 then 10 * second else timeout),
     wc_maxRetries = (if maxRetries = 0 then 3 else maxRetries),
     wc_retryDelay = (if retryDelay = 0 then second else retryDelay)\<rparr>"

datatype send_error =
    URLRequired
  | EventMarshalFailed
  | SendCancelled
  | RequestInvalid
  | RetriesExhausted "int option"

text \<open>What one attempt sees: the context is done while it waits for its turn, the request cannot
  be built, the request fails, or a response arrives.\<close>

datatype attempt = AttemptCancelled | AttemptInvalid | AttemptFailed | AttemptStatus int

text \<open>The attempts from number \<open>i\<close> on; \<open>last_err\<close> is the status of the last answer.  The first
  attempt does not wait, so it is not cancelled.\<close>

fun send_loop :: "(nat \<Rightarrow> attempt) \<Rightarrow> nat \<Rightarrow> nat \<Rightarrow> int option \<Rightarrow> nat \<times> send_error option" where
  "send_loop out i 0 last_err = (i, Some (RetriesExhausted last_err))"
| "send_loop out i (Suc n) last_err =
    (case out i of
       AttemptCancelled \<Rightarrow> (if i > 0 then (i, Some SendCancelled) else send_loop out (Suc i) n None)
     | AttemptInvalid \<Rightarrow> (i, Some RequestInvalid)
     | AttemptFailed \<Rightarrow> send_loop out (Suc i) n None
     | AttemptStatus s \<Rightarrow>
        (if 200 \<le> s \<and> s < 300 then (Suc i, None) else send_loop out (Suc i) n (Some s)))"

text \<open>The number of requests made, and the error.\<close>

definition webhook_Send :: "(webhook_event \<Rightarrow> string option) \<Rightarrow> (nat \<Rightarrow> attempt) \<Rightarrow> string \<Rightarrow> webhook_event \<Rightarrow>
    webhook_client \<Rightarrow> nat \<times> send_error option" where
  "webhook_Send marshal out url event c =
    (if url = '''' then (0, Some URLRequired)
     else case marshal event of
       None \<Rightarrow> (0, Some EventMarshalFailed)
     | Some payload \<Rightarrow> send_loop out 0 (nat (if wc_maxRetries c = 0 then 3 else wc_maxRetries c)) None)"

text \<open>\<open>SendEvent\<close> with the goroutine it starts, run to its end; the metrics collector is optional
  (\<open>None\<close>), and a result \<open>None\<close> is a panic in it.\<close>

definition SendEvent :: "(webhook_event \<Rightarrow> string option) \<Rightarrow> (nat \<Rightarrow> attempt) \<Rightarrow> time \<Rightarrow> string \<Rightarrow> webhook_event \<Rightarrow>
    webhook_client \<Rightarrow> collector option \<Rightarrow> collector option option" where
  "SendEvent marshal out now url event c m =
    (if url = '''' then Some m
     else
      (let event = (if we_Timestamp event = zero_time then event\<lparr>we_Timestamp := now\<rparr> else event)
       in case m of
            None \<Rightarrow> Some None
          | Some col \<Rightarrow>
             (case snd (webhook_Send marshal out url event c) of
                None \<Rightarrow> map_option Some (RecordWebhookSent (we_Namespace event) (we_HiveName event) (we_Type event) col)
              | Some _ \<Rightarrow> map_option Some (RecordWebhookFailed (we_Namespace event) (we_HiveName event) (we_Type event) col))))"

section \<open>Properties\<close>

text \<open>A first attempt is never cancelled.\<close>

definition attempts_ok :: "(nat \<Rightarrow> attempt) \<Rightarrow> bool" where
  "attempts_ok out \<longleftrightarrow> out 0 \<noteq> AttemptCancelled"

lemma send_loop_count: "i \<le> fst (send_loop out i n l) \<and> fst (send_loop out i n l) \<le> i + n"
proof (induction n arbitrary: i l)
  case 0
  then show ?case by simp
next
  case (Suc n)
  show ?case using Suc [of "Suc i" None] Suc [of "Suc i" "Some _"]
    by (auto split: attempt.splits) (meson Suc Suc_leD le_SucI order_trans add_Suc)+
qed

lemma send_loop_ok:
  "snd (send_loop out i n l) = None \<Longrightarrow>
    \<exists>k s. i \<le> k \<and> k < i + n \<and> out k = AttemptStatus s \<and> 200 \<le> s \<and> s < 300 \<and> fst (send_loop out i n l) = Suc k"
proof (induction n arbitrary: i l)
  case 0
  then show ?case by simp
next
  case (Suc n)
  have step: ?case if "send_loop out i (Suc n) l = send_loop out (Suc i) n l'" for l'
  proof -
    from Suc.IH [of "Suc i" l'] Suc.prems that obtain k s where "Suc i \<le> k" "k < Suc i + n" "out k = AttemptStatus s"
      "200 \<le> s" "s < 300" "fst (send_loop out (Suc i) n l') = Suc k" by auto
    then show ?thesis using that by (intro exI [of _ k] exI [of _ s]) auto
  qed
  show ?case
  proof (cases "out i")
    case (AttemptStatus s)
    then show ?thesis using step [of "Some s"] by (cases "200 \<le> s \<and> s < 300") auto
  qed (use Suc.prems step [of None] in \<open>auto split: if_splits\<close>)
qed

text \<open>An attempt after which the loop goes on, and an accepted one.\<close>

definition attempt_lost :: "attempt \<Rightarrow> bool" where
  "attempt_lost a \<longleftrightarrow> a = AttemptFailed \<or> (\<exists>s. a = AttemptStatus s \<and> \<not> (200 \<le> s \<and> s < 300))"

definition attempt_accepted :: "attempt \<Rightarrow> bool" where
  "attempt_accepted a \<longleftrightarrow> (\<exists>s. a = AttemptStatus s \<and> 200 \<le> s \<and> s < 300)"

lemma send_loop_iff:
  assumes "attempts_ok out"
  shows "snd (send_loop out i n l) = None \<longleftrightarrow>
    (\<exists>k. i \<le> k \<and> k < i + n \<and> attempt_accepted (out k) \<and> (\<forall>j. i \<le> j \<and> j < k \<longrightarrow> attempt_lost (out j)))"
proof (induction n arbitrary: i l)
  case 0
  then show ?case by simp
next
  case (Suc n)
  have split: "(\<exists>k. i \<le> k \<and> k < i + Suc n \<and> attempt_accepted (out k) \<and> (\<forall>j. i \<le> j \<and> j < k \<longrightarrow> attempt_lost (out j)))
      \<longleftrightarrow> attempt_accepted (out i) \<or> attempt_lost (out i) \<and>
        (\<exists>k. Suc i \<le> k \<and> k < Suc i + n \<and> attempt_accepted (out k) \<and> (\<forall>j. Suc i \<le> j \<and> j < k \<longrightarrow> attempt_lost (out j)))"
    (is "?l \<longleftrightarrow> ?r")
  proof
    assume ?l
    then obtain k where k: "i \<le> k" "k < i + Suc n" "attempt_accepted (out k)" "\<forall>j. i \<le> j \<and> j < k \<longrightarrow> attempt_lost (out j)"
      by blast
    show ?r
    proof (cases "k = i")
      case True
      then show ?thesis using k by simp
    next
      case False
      then show ?thesis using k by (intro disjI2 conjI exI [of _ k]) auto
    qed
  next
    assume ?r
    then show ?l
    proof
      assume "attempt_accepted (out i)"
      then show ?l by (intro exI [of _ i]) auto
    next
      assume "attempt_lost (out i) \<and>
        (\<exists>k. Suc i \<le> k \<and> k < Suc i + n \<and> attempt_accepted (out k) \<and> (\<forall>j. Suc i \<le> j \<and> j < k \<longrightarrow> attempt_lost (out j)))"
      then obtain k where k: "attempt_lost (out i)" "Suc i \<le> k" "k < Suc i + n" "attempt_accepted (out k)"
        "\<forall>j. Suc i \<le> j \<and> j < k \<longrightarrow> attempt_lost (out j)" by blast
      have "attempt_lost (out j)" if "i \<le> j" "j < k" for j
        using k that by (cases "j = i") auto
      then show ?l using k by (intro exI [of _ k]) auto
    qed
  qed
  have pos: "out i = AttemptCancelled \<Longrightarrow> i > 0" using assms by (auto simp: attempts_ok_def intro: gr0I)
  show ?case unfolding split
    by (cases "out i") (use Suc.IH pos in \<open>auto simp: attempt_lost_def attempt_accepted_def\<close>)
qed

text \<open>Delivery of webhooks.  With a URL, an event that can be encoded and \<open>n\<close> retries
  configured, a webhook makes at most \<open>n\<close> requests and is delivered exactly if one of the
  attempts is answered with a status in 200..299 and every attempt before it has failed or
  was answered with another status.  Whatever the outcome, its report panics: the platform
  counts it with a collector made by \<open>NewCollector\<close>, whose webhook counters are nil after
  any history of metrics, so the goroutine of \<open>SendEvent\<close> dereferences a nil pointer.\<close>

lemma webhook_delivery_exact:
  assumes out: "attempts_ok out" and url: "url \<noteq> ''''" and p: "\<And>e. marshal e \<noteq> None" and n: "0 < wc_maxRetries c"
  shows "fst (webhook_Send marshal out url event c) \<le> nat (wc_maxRetries c) \<and>
    (snd (webhook_Send marshal out url event c) = None \<longleftrightarrow>
      (\<exists>k < nat (wc_maxRetries c). attempt_accepted (out k) \<and> (\<forall>j < k. attempt_lost (out j)))) \<and>
    SendEvent marshal out now url event c (Some (fold metrics_exec ops NewCollector)) = None"
proof (intro conjI)
  obtain payload where m: "marshal event = Some payload" using p by blast
  have send: "webhook_Send marshal out url event c = send_loop out 0 (nat (wc_maxRetries c)) None"
    using url n m by (simp add: webhook_Send_def)
  show "fst (webhook_Send marshal out url event c) \<le> nat (wc_maxRetries c)"
    using send_loop_count [of 0 out "nat (wc_maxRetries c)" None] by (simp add: send)
  show "snd (webhook_Send marshal out url event c) = None \<longleftrightarrow>
      (\<exists>k < nat (wc_maxRetries c). attempt_accepted (out k) \<and> (\<forall>j < k. attempt_lost (out j)))"
    by (simp add: send send_loop_iff [OF out])
  show "SendEvent marshal out now url event c (Some (fold metrics_exec ops NewCollector)) = None"
    using url webhook_counters_unset [OF refl]
    by (simp add: SendEvent_def Let_def split: option.splits)
qed

end
