(* ===== verification/Waggle.thy ===== *)
theory Waggle
  imports Prelude
begin

text \<open>
  Package \<open>pkg/waggle\<close>: the messages agents exchange, their validation, encoding and the pairing
  of requests and responses.  encoding/json is a parameter: \<open>marshal\<close> for payloads, \<open>enc\<close> and
  \<open>dec\<close> for whole messages; so are the fresh identifier and the clock of \<open>NewMessage\<close>.  The
  metadata is an association list, empty for a nil map, which reads alike and which
  \<open>SetMetadata\<close> replaces by a fresh map.
\<close>

section \<open>Messages\<close>

record wmsg =
  wg_ID :: string
  wg_Version :: string
  wg_Type :: string
  wg_Payload :: string
  wg_Metadata :: "(string \<times> string) list"
  wg_Timestamp :: time
  wg_SourceAgentID :: string
  wg_DestAgentID :: string
  wg_SessionID :: string
  wg_CorrelationID :: string

abbreviation MessageTypeTask :: string where "MessageTypeTask \<equiv> ''task''"
abbreviation MessageTypeResult :: string where "MessageTypeResult \<equiv> ''result''"
abbreviation MessageTypeRequest :: string where "MessageTypeRequest \<equiv> ''request''"
abbreviation MessageTypeResponse :: string where "MessageTypeResponse \<equiv> ''response''"
abbreviation MessageTypeEvent :: string where "MessageTypeEvent \<equiv> ''event''"
abbreviation MessageTypeError :: string where "MessageTypeError \<equiv> ''error''"

definition ProtocolVersion :: string where
  "ProtocolVersion = ''1.0''"

definition valid_types :: "string list" where
  "valid_types = [MessageTypeTask, MessageTypeResult, MessageTypeRequest, MessageTypeResponse,
     MessageTypeEvent, MessageTypeError]"

datatype invalid_message =
    IDRequired
  | VersionRequired
  | TypeRequired
  | TimestampRequired
  | UnsupportedVersion string
  | InvalidType string

definition wg_Validate :: "wmsg \<Rightarrow> invalid_message option" where
  "wg_Validate m =
    (if wg_ID m = '''' then Some IDRequired
     else if wg_Version m = '''' then Some VersionRequired
     else if wg_Type m = '''' then Some TypeRequired
     else if wg_Timestamp m = zero_time then Some TimestampRequired
     else if wg_Version m \<noteq> ProtocolVersion then Some (UnsupportedVersion (wg_Version m))
     else if wg_Type m \<notin> set valid_types then Some (InvalidType (wg_Type m))
     else None)"

section \<open>Encoding\<close>

datatype decode_error = DecodeFailed | InvalidMessage invalid_message

definition EncodeMessage :: "(wmsg \<Rightarrow> string option) \<Rightarrow> wmsg \<Rightarrow> string option" where
  "EncodeMessage enc msg = enc msg"

definition DecodeMessage :: "(string \<Rightarrow> wmsg option) \<Rightarrow> string \<Rightarrow> decode_error + wmsg" where
  "DecodeMessage dec data =
    (case dec data of
       None \<Rightarrow> Inl DecodeFailed
     | Some msg \<Rightarrow>
        (case wg_Validate msg of
           Some e \<Rightarrow> Inl (InvalidMessage e)
         | None \<Rightarrow> Inr msg))"

definition UnmarshalPayload :: "(string \<Rightarrow> 'v option) \<Rightarrow> wmsg \<Rightarrow> 'v option" where
  "UnmarshalPayload unmarshal m = unmarshal (wg_Payload m)"

section \<open>Construction\<close>

definition NewMessage :: "('p \<Rightarrow> string option) \<Rightarrow> string \<Rightarrow> time \<Rightarrow> string \<Rightarrow> 'p \<Rightarrow> wmsg option" where
  "NewMessage marshal uuid now msgType payload =
    (case marshal payload of
       None \<Rightarrow> None
     | Some payloadBytes \<Rightarrow>
        Some \<lparr>wg_ID = uuid, wg_Version = ProtocolVersion, wg_Type = msgType, wg_Payload = payloadBytes,
              wg_Metadata = [], wg_Timestamp = now, wg_SourceAgentID = '''', wg_DestAgentID = '''',
              wg_SessionID = '''', wg_CorrelationID = ''''\<rparr>)"

definition SetMetadata :: "string \<Rightarrow> string \<Rightarrow> wmsg \<Rightarrow> wmsg" where
  "SetMetadata key v m = m\<lparr>wg_Metadata := AList.update key v (wg_Metadata m)\<rparr>"

definition GetMetadata :: "string \<Rightarrow> wmsg \<Rightarrow> string" where
  "GetMetadata key m = (case map_of (wg_Metadata m) key of None \<Rightarrow> '''' | Some v \<Rightarrow> v)"

text \<open>The closure keeps the correlation identifier of the request as it was made, and reads the
  source agent from the request when it is called: its argument \<open>req\<close> is the request then.\<close>

definition create_response :: "('p \<Rightarrow> string option) \<Rightarrow> string \<Rightarrow> string \<Rightarrow> time \<Rightarrow> wmsg \<Rightarrow> 'p \<Rightarrow> wmsg option" where
  "create_response marshal correlationID uuid now req responsePayload =
    map_option (\<lambda>resp. resp\<lparr>wg_CorrelationID := correlationID, wg_DestAgentID := wg_SourceAgentID req\<rparr>)
      (NewMessage marshal uuid now MessageTypeResponse responsePayload)"

definition NewRequestResponsePair :: "('p \<Rightarrow> string option) \<Rightarrow> string \<Rightarrow> time \<Rightarrow> string \<Rightarrow> 'p \<Rightarrow>
    (wmsg \<times> (string \<Rightarrow> time \<Rightarrow> wmsg \<Rightarrow> 'p \<Rightarrow> wmsg option)) option" where
  "NewRequestResponsePair marshal uuid now requestType payload =
    (case NewMessage marshal uuid now requestType payload of
       None \<Rightarrow> None
     | Some req \<Rightarrow>
        (let correlationID = wg_ID req
         in Some (req\<lparr>wg_CorrelationID := correlationID\<rparr>, create_response marshal correlationID)))"

section \<open>Properties\<close>

text \<open>encoding/json reads back a message it has written, when its payload was itself written by
  \<open>Marshal\<close> (a payload from elsewhere may be reformatted).\<close>

definition message_json :: "('p \<Rightarrow> string option) \<Rightarrow> (wmsg \<Rightarrow> string option) \<Rightarrow> (string \<Rightarrow> wmsg option) \<Rightarrow> bool" where
  "message_json marshal enc dec \<longleftrightarrow>
    (\<forall>m d p. marshal p = Some (wg_Payload m) \<longrightarrow> enc m = Some d \<longrightarrow> dec d = Some m)"

lemma GetMetadata_SetMetadata [simp]:
  "GetMetadata key (SetMetadata key' v m) = (if key = key' then v else GetMetadata key m)"
  by (simp add: GetMetadata_def SetMetadata_def update_conv')

lemma wg_Validate_None:
  "wg_Validate m = None \<longleftrightarrow>
    wg_ID m \<noteq> '''' \<and> wg_Version m = ''1.0'' \<and> wg_Type m \<in> set valid_types \<and> wg_Timestamp m \<noteq> zero_time"
  by (auto simp: wg_Validate_def valid_types_def ProtocolVersion_def)

lemma DecodeMessage_Inr:
  "DecodeMessage dec data = Inr m \<longleftrightarrow> dec data = Some m \<and> wg_Validate m = None"
  by (auto simp: DecodeMessage_def split: option.splits)

text \<open>Messages survive the wire.  A message made by \<open>NewMessage\<close> with a known type, and then
  addressed and annotated in any way (\<open>f\<close> keeps identifier, version, type, payload and time),
  is encoded to bytes that decode to exactly it; and nothing else decodes: whatever
  \<open>DecodeMessage\<close> accepts has an identifier, version 1.0, a known type and a time.\<close>

lemma waggle_round_trip:
  assumes "message_json marshal enc dec" and "NewMessage marshal uuid now msgType payload = Some m0"
    and "uuid \<noteq> ''''" and "now \<noteq> zero_time" and "msgType \<in> set valid_types"
    and "wg_ID m = wg_ID m0" "wg_Version m = wg_Version m0" "wg_Type m = wg_Type m0"
    and "wg_Payload m = wg_Payload m0" "wg_Timestamp m = wg_Timestamp m0"
    and "EncodeMessage enc m = Some data"
  shows "DecodeMessage dec data = Inr m \<and>
    (\<forall>bytes m'. DecodeMessage dec bytes = Inr m' \<longrightarrow>
      wg_ID m' \<noteq> '''' \<and> wg_Version m' = ''1.0'' \<and> wg_Type m' \<in> set valid_types \<and> wg_Timestamp m' \<noteq> zero_time)"
proof -
  obtain p where p: "marshal payload = Some p" and m0: "wg_ID m0 = uuid" "wg_Version m0 = ''1.0''"
    "wg_Type m0 = msgType" "wg_Payload m0 = p" "wg_Timestamp m0 = now"
    using assms(2) by (auto simp: NewMessage_def ProtocolVersion_def split: option.splits)
  have "dec data = Some m"
    using assms(1,9,11) p m0 unfolding message_json_def EncodeMessage_def by metis
  moreover have "wg_Validate m = None" using assms(3-8,10) m0 by (simp add: wg_Validate_None)
  ultimately show ?thesis by (simp add: DecodeMessage_Inr wg_Validate_None)
qed

text \<open>A codec for one message, for the instances below.\<close>

definition one_message :: wmsg where
  "one_message = \<lparr>wg_ID = ''u1'', wg_Version = ''1.0'', wg_Type = ''task'', wg_Payload = ''{}'', wg_Metadata = [],
     wg_Timestamp = 7, wg_SourceAgentID = '''', wg_DestAgentID = '''', wg_SessionID = '''', wg_CorrelationID = ''''\<rparr>"

text \<open>A response goes back to the agent that sent the request, correlated with it.\<close>

lemma response_correlates:
  assumes "NewRequestResponsePair marshal uuid now t p = Some (req, respond)"
    and "respond uuid' now' (req\<lparr>wg_SourceAgentID := a\<rparr>) p' = Some resp"
  shows "wg_CorrelationID req = uuid \<and> wg_CorrelationID resp = uuid \<and> wg_DestAgentID resp = a \<and>
    wg_Type resp = MessageTypeResponse"
  using assms
  by (auto simp: NewRequestResponsePair_def create_response_def NewMessage_def Let_def split: option.splits)

end
