(* ===== verification/Output_Validation.thy ===== *)
theory Output_Validation
  imports Apiary_Types
begin

text \<open>
  \<open>internal/guardrails/outputvalidation.go\<close>: the validation of an agent's output against the JSON
  schema of its specification.  encoding/json and the schema package are parameters:
  \<open>marshal\<close> and \<open>unmarshal\<close> with their error messages, \<open>add_resource\<close> and \<open>compile\<close> for the
  schema compiler, \<open>check\<close> for the validation of a value against a compiled schema.
\<close>

datatype schema_error = SchemaMarshalFailed | SchemaResourceFailed | SchemaCompileFailed

record 's output_validator =
  ov_schema :: "'s option"

definition NewOutputValidator :: "((string \<times> go_value) list \<Rightarrow> string option) \<Rightarrow> (string \<Rightarrow> bool) \<Rightarrow>
    (string \<Rightarrow> 's option) \<Rightarrow> (string \<times> go_value) list \<Rightarrow> schema_error + 's output_validator" where
  "NewOutputValidator marshal add_resource compile schema =
    (if schema = [] then Inr \<lparr>ov_schema = None\<rparr>
     else case marshal schema of
       None \<Rightarrow> Inl SchemaMarshalFailed
     | Some schemaBytes \<Rightarrow>
        (if \<not> add_resource schemaBytes then Inl SchemaResourceFailed
         else case compile schemaBytes of
           None \<Rightarrow> Inl SchemaCompileFailed
         | Some compiledSchema \<Rightarrow> Inr \<lparr>ov_schema = Some compiledSchema\<rparr>))"

record validation_error =
  ve_Message :: string
  ve_Invalid :: bool
  ve_Details :: "string option"

definition ve_Error :: "validation_error \<Rightarrow> string" where
  "ve_Error e =
    (if ve_Invalid e then ''output validation failed: '' @ ve_Message e
     else ''output validation error: '' @ ve_Message e)"

definition ve_Unwrap :: "validation_error \<Rightarrow> string option" where
  "ve_Unwrap e = ve_Details e"

definition ov_Validate :: "(string \<Rightarrow> string + go_value) \<Rightarrow> ('s \<Rightarrow> go_value \<Rightarrow> string option) \<Rightarrow>
    's output_validator \<Rightarrow> string \<Rightarrow> validation_error option" where
  "ov_Validate unmarshal check v output =
    (case ov_schema v of
       None \<Rightarrow> None
     | Some schema \<Rightarrow>
        (case unmarshal output of
           Inl err \<Rightarrow> Some \<lparr>ve_Message = ''failed to unmarshal output: '' @ err, ve_Invalid = False, ve_Details = None\<rparr>
         | Inr data \<Rightarrow>
            (case check schema data of
               Some err \<Rightarrow> Some \<lparr>ve_Message = err, ve_Invalid = True, ve_Details = Some err\<rparr>
             | None \<Rightarrow> None)))"

definition HasSchema :: "'s output_validator \<Rightarrow> bool" where
  "HasSchema v \<longleftrightarrow> ov_schema v \<noteq> None"

text \<open>An output passes exactly if there is no schema, or it is JSON the schema accepts; an error
  without details is one of the output's encoding.\<close>

lemma ov_Validate_None:
  "ov_Validate unmarshal check v output = None \<longleftrightarrow>
    (\<forall>schema. ov_schema v = Some schema \<longrightarrow> (\<exists>data. unmarshal output = Inr data \<and> check schema data = None))"
  by (auto simp: ov_Validate_def split: option.splits sum.splits)

lemma ov_Validate_Invalid:
  "ov_Validate unmarshal check v output = Some e \<Longrightarrow>
    ve_Invalid e = (\<exists>data. unmarshal output = Inr data) \<and> (ve_Unwrap e = None \<longleftrightarrow> \<not> ve_Invalid e)"
  by (auto simp: ov_Validate_def ve_Unwrap_def split: option.splits sum.splits)

lemma NewOutputValidator_HasSchema:
  "NewOutputValidator marshal add_resource compile schema = Inr v \<Longrightarrow> HasSchema v \<longleftrightarrow> schema \<noteq> []"
  by (auto simp: NewOutputValidator_def HasSchema_def split: if_splits option.splits)

end
