(* ===== verification/Keeper_Relay.thy ===== *)
theory Keeper_Relay
  imports Keeper_Cache Guardrails Messaging Metrics Notifications Waggle Output_Validation Launcher
begin

text \<open>
  The keeper of an agent process, \<open>internal/keeper/keeper.go\<close> and \<open>relay.go\<close>: its construction
  from the guardrails of a specification, the relay of messages between the bus and the agent
  with rate limit, output validation, token budget, audit and webhooks, the retries, and the
  health check.

  What a keeper writes to the outside is kept as lists: the lines written to the agent, the
  calls of the bus with their outcome, the audit events and the webhook events handed to
  \<open>SendEvent\<close>; \<open>kp_sends\<close> counts the calls of \<open>SendMessage\<close>.  One reading of the environment
  (the clock, the context, the outcome of a write or of a call of the bus) is an element of a
  stream, indexed by \<open>kp_tick\<close>.  A write to the agent's pipe can block for ever, when the agent
  does not read: then the call that writes does not return, which is \<open>None\<close>.  The
  specification is not nil (the keeper dereferences it everywhere).  The goroutines of the
  relay are steps; a message taken from a queue is processed in one step.
\<close>

section \<open>State\<close>

record queued_message =
  qm_msg :: wmsg
  qm_attempts :: int
  qm_nextTry :: time

record message_queue =
  mq_queue :: "queued_message list"
  mq_maxSize :: nat

definition newMessageQueue :: "nat \<Rightarrow> message_queue" where
  "newMessageQueue maxSize = \<lparr>mq_queue = [], mq_maxSize = maxSize\<rparr>"

text \<open>\<open>None\<close> is the error of a full queue.\<close>

definition enqueue :: "wmsg \<Rightarrow> message_queue \<Rightarrow> message_queue option" where
  "enqueue msg q =
    (if length (mq_queue q) < mq_maxSize q
     then Some (q\<lparr>mq_queue := mq_queue q @ [\<lparr>qm_msg = msg, qm_attempts = 0, qm_nextTry = zero_time\<rparr>]\<rparr>)
     else None)"

text \<open>A blocked \<open>dequeue\<close> is \<open>None\<close>.\<close>

definition dequeue :: "message_queue \<Rightarrow> (queued_message \<times> message_queue) option" where
  "dequeue q = (case mq_queue q of [] \<Rightarrow> None | m # ms \<Rightarrow> Some (m, q\<lparr>mq_queue := ms\<rparr>))"

record keeper_health =
  kh_Healthy :: bool
  kh_Message :: string
  kh_Timestamp :: time

record 's keeper =
  kp_spec :: agent_spec
  kp_sessionID :: string
  kp_agentID :: string
  kp_process :: "int option"
  kp_stdin :: bool
  kp_health :: keeper_health
  kp_cache :: comb_cache
  kp_hiveCache :: hive_cache
  kp_metrics :: collector
  kp_tokens :: "token_budget option"
  kp_timeouts :: "timeout_tracker option"
  kp_validator :: "'s output_validator option"
  kp_limiter :: "rate_limiter option"
  kp_webhookMgr :: bool
  kp_inbound :: "message_queue option"
  kp_outbound :: "message_queue option"
  kp_tick :: nat
  kp_sends :: nat
  kp_delivered :: "wmsg list"
  kp_bus :: "(string \<times> message \<times> bool) list"
  kp_audit :: "audit_event list"
  kp_webhooks :: "(string \<times> string \<times> webhook_event) list"

datatype write_outcome = Written | WriteFails | WriteBlocks

record 's keeper_env =
  ke_clock :: "nat \<Rightarrow> time"
  ke_done :: "nat \<Rightarrow> bool"
  ke_write :: "nat \<Rightarrow> write_outcome"
  ke_publish :: "nat \<Rightarrow> bool"
  ke_store :: store_get
  ke_enc :: "wmsg \<Rightarrow> string option"
  ke_dec :: "string \<Rightarrow> wmsg option"
  ke_unmarshal :: "string \<Rightarrow> string + go_value"
  ke_check :: "'s \<Rightarrow> go_value \<Rightarrow> string option"

definition k_now :: "'s keeper_env \<Rightarrow> 's keeper \<Rightarrow> 's keeper \<times> time" where
  "k_now env k = (k\<lparr>kp_tick := Suc (kp_tick k)\<rparr>, ke_clock env (kp_tick k))"

definition k_done :: "'s keeper_env \<Rightarrow> 's keeper \<Rightarrow> 's keeper \<times> bool" where
  "k_done env k = (k\<lparr>kp_tick := Suc (kp_tick k)\<rparr>, ke_done env (kp_tick k))"

definition k_write :: "'s keeper_env \<Rightarrow> 's keeper \<Rightarrow> 's keeper \<times> write_outcome" where
  "k_write env k = (k\<lparr>kp_tick := Suc (kp_tick k)\<rparr>, ke_write env (kp_tick k))"

definition k_publish :: "'s keeper_env \<Rightarrow> 's keeper \<Rightarrow> 's keeper \<times> bool" where
  "k_publish env k = (k\<lparr>kp_tick := Suc (kp_tick k)\<rparr>, ke_publish env (kp_tick k))"

abbreviation k_name :: "'s keeper \<Rightarrow> string" where "k_name k \<equiv> GetName (RAgentSpec (kp_spec k))"
abbreviation k_ns :: "'s keeper \<Rightarrow> string" where "k_ns k \<equiv> GetNamespace (RAgentSpec (kp_spec k))"

definition log_event :: "audit_event \<Rightarrow> 's keeper \<Rightarrow> 's keeper" where
  "log_event e k = k\<lparr>kp_audit := kp_audit k @ [e]\<rparr>"

section \<open>Construction and start\<close>

text \<open>\<open>t0\<close> and \<open>t1\<close> are the readings of the clock for the minute window and the rate limiter;
  a schema that does not compile is only logged.\<close>

definition NewKeeper :: "((string \<times> go_value) list \<Rightarrow> schema_error + 's output_validator) \<Rightarrow> time \<Rightarrow> time \<Rightarrow> time \<Rightarrow>
    agent_spec \<Rightarrow> string \<Rightarrow> bool \<Rightarrow> 's keeper" where
  "NewKeeper new_validator t0 t1 t2 spec sessionID webhookMgr =
    (let g = ss_Guardrails (as_Spec spec);
         legacy = rs_TokenBudgetPerRequest (ss_Resources (as_Spec spec));
         perRequest = (if gc_TokenBudgetPerRequest g = 0 \<and> legacy > 0 then legacy else gc_TokenBudgetPerRequest g);
         perSession = gc_TokenBudgetPerSession g;
         perMinute = gc_TokenBudgetPerMinute g
     in \<lparr>kp_spec = spec, kp_sessionID = sessionID, kp_agentID = '''', kp_process = None, kp_stdin = False,
         kp_health = \<lparr>kh_Healthy = False, kh_Message = '''', kh_Timestamp = t2\<rparr>,
         kp_cache = newCombCache 1000, kp_hiveCache = newHiveCache 1000, kp_metrics = NewCollector,
         kp_tokens = (if perRequest > 0 \<or> perSession > 0 \<or> perMinute > 0
                      then Some (NewTokenBudgetTracker t0 perRequest perSession perMinute) else None),
         kp_timeouts = (if gc_ResponseTimeoutSeconds g > 0 then NewTimeoutTracker (gc_ResponseTimeoutSeconds g) else None),
         kp_validator = (if gc_OutputSchema g \<noteq> []
                         then (case new_validator (gc_OutputSchema g) of Inl _ \<Rightarrow> None | Inr v \<Rightarrow> Some v) else None),
         kp_limiter = (if gc_RateLimitPerMinute g > 0 then NewRateLimiter t1 (gc_RateLimitPerMinute g) 0 else None),
         kp_webhookMgr = webhookMgr, kp_inbound = None, kp_outbound = None, kp_tick = 0, kp_sends = 0,
         kp_delivered = [], kp_bus = [], kp_audit = [], kp_webhooks = []\<rparr>)"

text \<open>\<open>build_env\<close> and the resolution of secrets are, line for line, those of the launcher;
  \<open>pipe_ok\<close> and \<open>start\<close> are the outcomes of creating the pipe and of starting the process.\<close>

datatype start_error = KCommandRequired | KSecretFailed launch_error | KPipeFailed | KStartFailed string

definition launchAgent :: "(string list \<Rightarrow> string \<Rightarrow> string list \<Rightarrow> string + int) \<Rightarrow> bool \<Rightarrow> string list \<Rightarrow>
    's keeper_env \<Rightarrow> 's keeper \<Rightarrow> 's keeper \<times> start_error option" where
  "launchAgent start pipe_ok environ env k =
    (let rt = ss_Runtime (as_Spec (kp_spec k))
     in if rc_Command rt = [] then (k, Some KCommandRequired)
        else case build_env (ke_store env) (k_ns k) environ (rc_Env rt) of
          Inl e \<Rightarrow> (k, Some (KSecretFailed e))
        | Inr cmd_env \<Rightarrow>
           (let stdin = (ic_Type (ss_Interface (as_Spec (kp_spec k))) = ''stdin'')
            in if stdin \<and> \<not> pipe_ok then (k, Some KPipeFailed)
               else
                 (let k = (if stdin then k\<lparr>kp_stdin := True\<rparr> else k)
                  in case start (rc_Command rt) (rc_WorkingDir rt) cmd_env of
                       Inl e \<Rightarrow> (k, Some (KStartFailed e))
                     | Inr pid \<Rightarrow> (k\<lparr>kp_process := Some pid\<rparr>, None))))"

text \<open>The topic the relay subscribes to.  The subscription may fail; the queues are there then.\<close>

definition inbound_topic :: "string \<Rightarrow> string \<Rightarrow> string" where
  "inbound_topic namespace agentID = PrefixTopic namespace (''agent.'' @ agentID @ ''.inbound'')"

definition StartMessageRelay :: "(string \<Rightarrow> bool) option \<Rightarrow> string \<Rightarrow> 's keeper \<Rightarrow> 's keeper \<times> bool" where
  "StartMessageRelay bus agentID k =
    (case bus of
       None \<Rightarrow> (k, False)
     | Some subscribe \<Rightarrow>
        (k\<lparr>kp_agentID := agentID, kp_inbound := Some (newMessageQueue 1000), kp_outbound := Some (newMessageQueue 1000)\<rparr>,
         subscribe (inbound_topic (k_ns k) agentID)))"

section \<open>Reports of violations\<close>

definition hive_of :: "'s keeper_env \<Rightarrow> string \<Rightarrow> 's keeper \<Rightarrow> 's keeper \<times> string" where
  "hive_of env sessionID k =
    (let (c, hive) = getHiveNameFromSession (ke_store env) (k_ns k) sessionID (kp_hiveCache k)
     in (k\<lparr>kp_hiveCache := c\<rparr>, hive))"

definition fireWebhook :: "'s keeper_env \<Rightarrow> string \<Rightarrow> string \<Rightarrow> string \<Rightarrow> 's keeper \<Rightarrow> 's keeper" where
  "fireWebhook env eventType messageID err k =
    (if \<not> kp_webhookMgr k then k
     else
      (let (k, hive) = hive_of env (kp_sessionID k) k
       in if hive = '''' then k
          else
           (let (url, auth) = getHiveWebhookConfig (ke_store env) (k_ns k) hive
            in if url = '''' then k
               else
                (let (k, now) = k_now env k;
                     details = (if eventType = ''rate_limit''
                       then (if kp_limiter k \<noteq> None
                             then [(''requestsPerMinute'', DInt (rl_RequestsPerMinute (kp_limiter k)))] else [])
                       else if eventType = ''token_budget''
                       then (if kp_tokens k \<noteq> None then [(''budgetExceeded'', DBool True)] else [])
                       else if eventType = ''timeout''
                       then (if kp_timeouts k \<noteq> None
                             then [(''activeRequests'', DInt (int (tt_GetActiveRequestCount (kp_timeouts k))))] else [])
                       else if eventType = ''output_validation'' then [(''validationFailed'', DBool True)]
                       else []);
                     event = \<lparr>we_Type = eventType, we_Timestamp = now, we_Namespace = k_ns k, we_HiveName = hive,
                       we_AgentSpec = k_name k, we_DroneID = kp_agentID k, we_SessionID = kp_sessionID k,
                       we_MessageID = messageID, we_Error = err, we_Details = details\<rparr>
                 in k\<lparr>kp_webhooks := kp_webhooks k @ [(url, auth, event)]\<rparr>))))"

text \<open>The audit entry of a violation and the webhook for it, as every guard reports them.\<close>

definition report_violation :: "'s keeper_env \<Rightarrow> string \<Rightarrow> string \<Rightarrow> string \<Rightarrow> string \<Rightarrow> string \<Rightarrow>
    (string \<times> detail) list \<Rightarrow> 's keeper \<Rightarrow> 's keeper" where
  "report_violation env guard hive_session sessionID messageID err details k =
    (let (k, hive) = hive_of env hive_session k;
         k = log_event (LogGuardrailViolation guard (k_ns k) hive (k_name k) (kp_agentID k) sessionID messageID err details) k
     in fireWebhook env guard messageID err k)"

section \<open>From the bus to the agent\<close>

datatype relay_error =
    RelayRateLimited int
  | RelayDecode decode_error
  | RelayQueueFull
  | RelayEncode
  | RelayNotStdin
  | RelayNoPipe
  | RelayWriteFailed
  | RelayInvalidOutput validation_error
  | RelayBudget budget_error
  | RelayPublishFailed
  | RelayCancelled
  | RelayRetriesExceeded "relay_error option"
  | RelayPanic

definition rate_limit_text :: "int \<Rightarrow> string" where
  "rate_limit_text rpm = ''rate limit exceeded: '' @ int_str rpm @ '' requests per minute''"

definition reject_limited :: "'s keeper_env \<Rightarrow> message \<Rightarrow> 's keeper \<Rightarrow> 's keeper \<times> relay_error option" where
  "reject_limited env bm k =
    (case RecordRateLimitExceeded (k_name k) (k_ns k) (kp_agentID k) (kp_metrics k) of
       None \<Rightarrow> (k, Some RelayPanic)
     | Some mc \<Rightarrow>
        (let k = k\<lparr>kp_metrics := mc\<rparr>;
             rpm = rl_RequestsPerMinute (kp_limiter k);
             sessionID = (if msg_SessionID bm = '''' then kp_sessionID k else msg_SessionID bm);
             k = report_violation env ''rate_limit'' sessionID sessionID (msg_ID bm) (rate_limit_text rpm)
                   [(''requestsPerMinute'', DInt rpm)] k
         in (k, Some (RelayRateLimited rpm))))"

definition payload_detail :: "string \<Rightarrow> (string \<times> detail) list" where
  "payload_detail p = (if p \<noteq> '''' then [(''payloadSize'', DInt (int (length p)))] else [])"

definition rate_check :: "'s keeper_env \<Rightarrow> 's keeper \<Rightarrow> 's keeper \<times> bool" where
  "rate_check env k =
    (case kp_limiter k of
       None \<Rightarrow> (k, True)
     | Some l \<Rightarrow> (let (k, now) = k_now env k; (l, ok) = rl_Allow now (Some l) in (k\<lparr>kp_limiter := l\<rparr>, ok)))"

definition accept_inbound :: "'s keeper_env \<Rightarrow> message \<Rightarrow> 's keeper \<Rightarrow> 's keeper \<times> relay_error option" where
  "accept_inbound env bm k =
    (case DecodeMessage (ke_dec env) (msg_Payload bm) of
       Inl e \<Rightarrow> (k, Some (RelayDecode e))
     | Inr m \<Rightarrow>
        (let m = m\<lparr>wg_DestAgentID := kp_agentID k\<rparr>;
             k = log_event (LogAgentInput (k_ns k) (k_name k) (kp_agentID k) (wg_SessionID m) (wg_ID m)
                   ([(''messageType'', DStr (wg_Type m)), (''sourceAgentID'', DStr (wg_SourceAgentID m)),
                     (''correlationID'', DStr (wg_CorrelationID m))] @ payload_detail (wg_Payload m))) k
         in case kp_inbound k of
              None \<Rightarrow> (k, Some RelayPanic)
            | Some q \<Rightarrow>
               (case enqueue m q of
                  None \<Rightarrow> (k, Some RelayQueueFull)
                | Some q \<Rightarrow>
                   (let (k, now) = k_now env (k\<lparr>kp_inbound := Some q\<rparr>)
                    in (k\<lparr>kp_metrics := SetQueueDepth now (k_name k) (k_ns k) (int (length (mq_queue q))) (kp_metrics k)\<rparr>,
                        None)))))"

definition handleInboundMessage :: "'s keeper_env \<Rightarrow> message \<Rightarrow> 's keeper \<Rightarrow> 's keeper \<times> relay_error option" where
  "handleInboundMessage env bm k =
    (let (k, allowed) = rate_check env k
     in if \<not> allowed then reject_limited env bm k else accept_inbound env bm k)"

definition SendMessage :: "'s keeper_env \<Rightarrow> wmsg \<Rightarrow> 's keeper \<Rightarrow> ('s keeper \<times> relay_error option) option" where
  "SendMessage env msg k =
    (let (k, start) = k_now env (k\<lparr>kp_sends := Suc (kp_sends k)\<rparr>)
     in if ic_Type (ss_Interface (as_Spec (kp_spec k))) \<noteq> ''stdin'' then Some (k, Some RelayNotStdin)
        else if \<not> kp_stdin k then Some (k, Some RelayNoPipe)
        else case EncodeMessage (ke_enc env) msg of
          None \<Rightarrow> Some (k, Some RelayEncode)
        | Some data \<Rightarrow>
           (case k_write env k of
              (k, WriteBlocks) \<Rightarrow> None
            | (k, WriteFails) \<Rightarrow> Some (k, Some RelayWriteFailed)
            | (k, Written) \<Rightarrow>
                (let (k, finish) = k_now env (k\<lparr>kp_delivered := kp_delivered k @ [msg]\<rparr>);
                     (k, t1) = k_now env k;
                     (k, t2) = k_now env k
                 in Some (k\<lparr>kp_metrics := RecordRequest t2 (k_name k) (k_ns k)
                       (RecordLatency t1 (k_name k) (k_ns k) (finish - start) (kp_metrics k))\<rparr>, None))))"

section \<open>Retries\<close>

text \<open>The loop that \<open>deliverMessageWithRetry\<close> and \<open>publishMessageWithRetry\<close> share: \<open>attempt\<close> is
  the body of one attempt, which returns from the function, asks for another attempt or never
  ends.\<close>

datatype attempt_result = Returned "relay_error option" | Again relay_error | Blocked

fun retry_loop :: "nat \<Rightarrow> 's keeper_env \<Rightarrow> (wmsg \<Rightarrow> 's keeper \<Rightarrow> 's keeper \<times> attempt_result) \<Rightarrow> queued_message \<Rightarrow>
    's keeper \<Rightarrow> ('s keeper \<times> queued_message \<times> relay_error option) option" where
  "retry_loop 0 env body q k = None"
| "retry_loop (Suc fuel) env body q k =
    (if qm_attempts q \<ge> 3 then Some (k, q, Some (RelayRetriesExceeded None))
     else
      (let (k, early) = (if qm_attempts q > 0 then (let (k, now) = k_now env k in (k, now < qm_nextTry q)) else (k, False))
       in if early then retry_loop fuel env body q k
          else case body (qm_msg q) k of
            (k, Blocked) \<Rightarrow> None
          | (k, Returned r) \<Rightarrow> Some (k, q, r)
          | (k, Again e) \<Rightarrow>
             (let q = q\<lparr>qm_attempts := qm_attempts q + 1\<rparr>
              in if qm_attempts q \<ge> 3 then Some (k, q, Some (RelayRetriesExceeded (Some e)))
                 else
                  (let delay = 100 * millisecond * 2 ^ nat (qm_attempts q - 1);
                       (k, now) = k_now env k;
                       q = q\<lparr>qm_nextTry := now + delay\<rparr>;
                       (k, cancelled) = k_done env k
                   in if cancelled then Some (k, q, Some RelayCancelled) else retry_loop fuel env body q k))))"

definition deliver_attempt :: "'s keeper_env \<Rightarrow> wmsg \<Rightarrow> 's keeper \<Rightarrow> 's keeper \<times> attempt_result" where
  "deliver_attempt env msg k =
    (case SendMessage env msg k of
       None \<Rightarrow> (k, Blocked)
     | Some (k, None) \<Rightarrow>
         (if kp_timeouts k = None then (k, Returned None)
          else (let (k, now) = k_now env k
                in (k\<lparr>kp_timeouts := tt_StartRequest now (wg_ID msg) (kp_timeouts k)\<rparr>, Returned None)))
     | Some (k, Some e) \<Rightarrow> (k, Again e))"

definition deliverMessageWithRetry :: "nat \<Rightarrow> 's keeper_env \<Rightarrow> queued_message \<Rightarrow> 's keeper \<Rightarrow>
    ('s keeper \<times> queued_message \<times> relay_error option) option" where
  "deliverMessageWithRetry fuel env = retry_loop fuel env (deliver_attempt env)"

text \<open>One round of \<open>deliverMessages\<close>; a message that could not be delivered is dropped.  A round that
  does not end is \<open>None\<close>.\<close>

definition deliver_next :: "nat \<Rightarrow> 's keeper_env \<Rightarrow> 's keeper \<Rightarrow> 's keeper option" where
  "deliver_next fuel env k =
    (case Option.bind (kp_inbound k) dequeue of
       None \<Rightarrow> Some k
     | Some (qm, q) \<Rightarrow> map_option fst (deliverMessageWithRetry fuel env qm (k\<lparr>kp_inbound := Some q\<rparr>)))"

section \<open>From the agent to the bus\<close>

definition determineTopic :: "'s keeper \<Rightarrow> wmsg \<Rightarrow> string" where
  "determineTopic k msg =
    (if wg_DestAgentID msg \<noteq> '''' then PrefixTopic (k_ns k) (''agent.'' @ wg_DestAgentID msg @ ''.inbound'')
     else if wg_CorrelationID msg \<noteq> '''' then PrefixTopic (k_ns k) (''agent.'' @ wg_SourceAgentID msg @ ''.response'')
     else if wg_SessionID msg \<noteq> '''' then PrefixTopic (k_ns k) (''session.'' @ wg_SessionID msg)
     else PrefixTopic (k_ns k) (''agent.'' @ kp_agentID k @ ''.outbound''))"

definition check_output :: "'s keeper_env \<Rightarrow> wmsg \<Rightarrow> 's keeper \<Rightarrow> 's keeper \<times> relay_error option" where
  "check_output env msg k =
    (case Option.bind (kp_validator k) (\<lambda>v. ov_Validate (ke_unmarshal env) (ke_check env) v (wg_Payload msg)) of
       None \<Rightarrow> (k, None)
     | Some err \<Rightarrow>
        (case RecordOutputValidationFailure (k_name k) (k_ns k) (kp_agentID k) (kp_metrics k) of
           None \<Rightarrow> (k, Some RelayPanic)
         | Some mc \<Rightarrow>
            (report_violation env ''output_validation'' (kp_sessionID k) (wg_SessionID msg) (wg_ID msg) (ve_Error err)
               [(''payloadSize'', DInt (int (length (wg_Payload msg))))] (k\<lparr>kp_metrics := mc\<rparr>),
             Some (RelayInvalidOutput err))))"

definition budget_text :: "budget_error \<Rightarrow> string" where
  "budget_text e = ''token budget exceeded: '' @ be_type e @ '' limit '' @ int_str (be_limit e) @ '', used '' @ int_str (be_used e)"

definition charge_tokens :: "'s keeper_env \<Rightarrow> wmsg \<Rightarrow> 's keeper \<Rightarrow> 's keeper \<times> relay_error option" where
  "charge_tokens env msg k =
    (case kp_tokens k of
       None \<Rightarrow> (k, None)
     | Some t \<Rightarrow>
        (let tokenCount = ExtractTokenCount (map_of (wg_Metadata msg))
         in if tokenCount > 0 then
              (let (k, now) = k_now env k; (t, e) = tb_RecordUsage now tokenCount t; k = k\<lparr>kp_tokens := Some t\<rparr>
               in case e of
                    None \<Rightarrow> (k, None)
                  | Some e \<Rightarrow>
                     (report_violation env ''token_budget'' (kp_sessionID k) (wg_SessionID msg) (wg_ID msg) (budget_text e)
                        [(''tokenCount'', DInt tokenCount)] k,
                      Some (RelayBudget e)))
            else (k, None)))"

definition bus_message :: "'s keeper \<Rightarrow> string \<Rightarrow> wmsg \<Rightarrow> message" where
  "bus_message k payload msg =
    \<lparr>msg_ID = wg_ID msg, msg_Type = wg_Type msg, msg_Payload = payload, msg_Metadata = wg_Metadata msg,
     msg_Timestamp = wg_Timestamp msg, msg_Source = kp_agentID k, msg_SessionID = wg_SessionID msg\<rparr>"

definition complete_output :: "string \<Rightarrow> wmsg \<Rightarrow> 's keeper \<Rightarrow> 's keeper" where
  "complete_output topic msg k =
    (let tokenCount = ExtractTokenCount (map_of (wg_Metadata msg));
         k = log_event (LogAgentOutput (k_ns k) (k_name k) (kp_agentID k) (wg_SessionID msg) (wg_ID msg)
               ([(''messageType'', DStr (wg_Type msg)), (''topic'', DStr topic),
                 (''correlationID'', DStr (wg_CorrelationID msg))] @ payload_detail (wg_Payload msg) @
                (if tokenCount > 0 then [(''tokenCount'', DInt tokenCount)] else []))) k
     in k\<lparr>kp_timeouts := tt_CompleteRequest
            (if wg_CorrelationID msg \<noteq> '''' then wg_CorrelationID msg else wg_ID msg) (kp_timeouts k)\<rparr>)"

definition publish_attempt :: "'s keeper_env \<Rightarrow> wmsg \<Rightarrow> 's keeper \<Rightarrow> 's keeper \<times> attempt_result" where
  "publish_attempt env msg k =
    (let topic = determineTopic k msg
     in case EncodeMessage (ke_enc env) msg of
          None \<Rightarrow> (k, Returned (Some RelayEncode))
        | Some payload \<Rightarrow>
           (case check_output env msg k of
              (k, Some e) \<Rightarrow> (k, Returned (Some e))
            | (k, None) \<Rightarrow>
               (case charge_tokens env msg k of
                  (k, Some e) \<Rightarrow> (k, Returned (Some e))
                | (k, None) \<Rightarrow>
                   (let bm = bus_message k payload msg;
                        (k, ok) = k_publish env k;
                        k = k\<lparr>kp_bus := kp_bus k @ [(topic, bm, ok)]\<rparr>
                    in if ok then (complete_output topic msg k, Returned None)
                       else (k, Again RelayPublishFailed)))))"

definition publishMessageWithRetry :: "nat \<Rightarrow> 's keeper_env \<Rightarrow> queued_message \<Rightarrow> 's keeper \<Rightarrow>
    ('s keeper \<times> queued_message \<times> relay_error option) option" where
  "publishMessageWithRetry fuel env = retry_loop fuel env (publish_attempt env)"

definition publish_next :: "nat \<Rightarrow> 's keeper_env \<Rightarrow> 's keeper \<Rightarrow> 's keeper option" where
  "publish_next fuel env k =
    (case Option.bind (kp_outbound k) dequeue of
       None \<Rightarrow> Some k
     | Some (qm, q) \<Rightarrow> map_option fst (publishMessageWithRetry fuel env qm (k\<lparr>kp_outbound := Some q\<rparr>)))"

definition PublishAgentMessage :: "wmsg \<Rightarrow> 's keeper \<Rightarrow> 's keeper \<times> relay_error option" where
  "PublishAgentMessage msg k =
    (let msg = msg\<lparr>wg_SourceAgentID := kp_agentID k\<rparr>
     in case kp_outbound k of
          None \<Rightarrow> (k, Some RelayPanic)
        | Some q \<Rightarrow>
           (case enqueue msg q of
              None \<Rightarrow> (k, Some RelayQueueFull)
            | Some q \<Rightarrow> (k\<lparr>kp_outbound := Some q\<rparr>, None)))"

section \<open>Health\<close>

definition set_health :: "'s keeper_env \<Rightarrow> bool \<Rightarrow> string \<Rightarrow> 's keeper \<Rightarrow> 's keeper" where
  "set_health env healthy text k =
    (let (k, now) = k_now env k
     in k\<lparr>kp_health := \<lparr>kh_Healthy = healthy, kh_Message = text, kh_Timestamp = now\<rparr>\<rparr>)"

definition report_timeout :: "'s keeper_env \<Rightarrow> string \<Rightarrow> 's keeper \<Rightarrow> 's keeper" where
  "report_timeout env msgID k =
    report_violation env ''timeout'' (kp_sessionID k) (kp_sessionID k) msgID ''request timed out''
      [(''timeoutSeconds'', DInt (tt_GetTimeoutSeconds (kp_timeouts k)))] k"

text \<open>The processes of the machine are those of \<open>Launcher\<close>; \<open>signal_error\<close> is the text of the
  error of \<open>Signal\<close>.  The check of an HTTP endpoint is a TODO of the source.\<close>

definition checkHealth :: "string \<Rightarrow> 's keeper_env \<Rightarrow> launcher \<Rightarrow> 's keeper \<Rightarrow> 's keeper" where
  "checkHealth signal_error env l k =
    (case kp_process k of
       None \<Rightarrow> set_health env False ''process not running'' k
     | Some pid \<Rightarrow>
        (if \<not> proc_signal NilSignal pid l then set_health env False (''process check failed: '' @ signal_error) k
         else
          (let k = set_health env True ''process running'' k
           in case kp_timeouts k of
                None \<Rightarrow> k
              | Some t \<Rightarrow>
                 (let (k, now) = k_now env k;
                      (t, timedOut) = tt_CheckTimeouts now (Some t);
                      k = k\<lparr>kp_timeouts := t\<rparr>
                  in if timedOut = [] then k
                     else fold (report_timeout env) timedOut
                       (k\<lparr>kp_health := (kp_health k)\<lparr>kh_Healthy := False,
                            kh_Message := int_str (int (length timedOut)) @ '' request(s) timed out''\<rparr>\<rparr>)))))"

end
