(* ===== verification/Relay_Properties.thy ===== *)
theory Relay_Properties
  imports Keeper_Relay
begin

text \<open>
  The properties of the keeper's relay: its retries end after at most three attempts, what a
  delivery and a publication have done when they return, the tokens they are charged, the
  addresses of messages, the health check, and what every reachable state of a started relay
  guarantees of the agent's and the bus's messages.
\<close>

section \<open>What the steps leave alone\<close>

text \<open>The part of a keeper that reports do not touch.\<close>

definition same_core :: "'s keeper \<Rightarrow> 's keeper \<Rightarrow> bool" where
  "same_core k k' \<longleftrightarrow> kp_spec k' = kp_spec k \<and> kp_sessionID k' = kp_sessionID k \<and> kp_agentID k' = kp_agentID k \<and>
    kp_process k' = kp_process k \<and> kp_stdin k' = kp_stdin k \<and> kp_validator k' = kp_validator k \<and>
    kp_webhookMgr k' = kp_webhookMgr k \<and> kp_cache k' = kp_cache k"

definition same_traffic :: "'s keeper \<Rightarrow> 's keeper \<Rightarrow> bool" where
  "same_traffic k k' \<longleftrightarrow> kp_inbound k' = kp_inbound k \<and> kp_outbound k' = kp_outbound k \<and>
    kp_delivered k' = kp_delivered k \<and> kp_bus k' = kp_bus k"

definition same_guards :: "'s keeper \<Rightarrow> 's keeper \<Rightarrow> bool" where
  "same_guards k k' \<longleftrightarrow> kp_tokens k' = kp_tokens k \<and> kp_timeouts k' = kp_timeouts k \<and> kp_limiter k' = kp_limiter k"

lemmas same_defs = same_core_def same_traffic_def same_guards_def

lemma same_trans [trans]:
  "same_core k k' \<Longrightarrow> same_core k' k'' \<Longrightarrow> same_core k k''"
  "same_traffic k k' \<Longrightarrow> same_traffic k' k'' \<Longrightarrow> same_traffic k k''"
  "same_guards k k' \<Longrightarrow> same_guards k' k'' \<Longrightarrow> same_guards k k''"
  by (simp_all add: same_defs)

lemma k_tick_simps [simp]:
  "k_now env k = (k\<lparr>kp_tick := Suc (kp_tick k)\<rparr>, ke_clock env (kp_tick k))"
  "k_done env k = (k\<lparr>kp_tick := Suc (kp_tick k)\<rparr>, ke_done env (kp_tick k))"
  "k_write env k = (k\<lparr>kp_tick := Suc (kp_tick k)\<rparr>, ke_write env (kp_tick k))"
  "k_publish env k = (k\<lparr>kp_tick := Suc (kp_tick k)\<rparr>, ke_publish env (kp_tick k))"
  by (simp_all add: k_now_def k_done_def k_write_def k_publish_def)

lemma hive_of_fst: "fst (hive_of env i k) = k\<lparr>kp_hiveCache := fst (getHiveNameFromSession (ke_store env) (k_ns k) i (kp_hiveCache k))\<rparr>"
  by (simp add: hive_of_def split_beta)

lemma fireWebhook_same:
  "same_core k (fireWebhook env t i e k)" "same_traffic k (fireWebhook env t i e k)"
  "same_guards k (fireWebhook env t i e k)" "kp_metrics (fireWebhook env t i e k) = kp_metrics k"
  "kp_health (fireWebhook env t i e k) = kp_health k"
  unfolding fireWebhook_def Let_def split_beta k_tick_simps hive_of_fst same_defs by simp_all

lemma report_violation_same:
  "same_core k (report_violation env g h s i e d k)" "same_traffic k (report_violation env g h s i e d k)"
  "same_guards k (report_violation env g h s i e d k)" "kp_metrics (report_violation env g h s i e d k) = kp_metrics k"
  "kp_health (report_violation env g h s i e d k) = kp_health k"
  unfolding report_violation_def Let_def split_beta hive_of_fst log_event_def same_defs
  by (simp_all add: fireWebhook_same [unfolded same_defs])

lemmas report_violation_simps [simp] = report_violation_same [unfolded same_defs]

lemma SendMessage_cases:
  assumes "SendMessage env msg k = Some (k', r)"
  shows "same_core k k'" and "same_guards k k'" and "kp_inbound k' = kp_inbound k" and "kp_outbound k' = kp_outbound k"
    and "kp_bus k' = kp_bus k" and "kp_delivered k' = kp_delivered k @ (if r = None then [msg] else [])"
    and "ic_Type (ss_Interface (as_Spec (kp_spec k))) \<noteq> ''stdin'' \<Longrightarrow> r = Some RelayNotStdin"
    and "kp_sends k' = Suc (kp_sends k)"
  using assms by (auto simp: SendMessage_def same_defs Let_def split: if_splits option.splits write_outcome.splits)

text \<open>It does not return only if the write to the agent blocks.\<close>

lemma SendMessage_None: "SendMessage env msg k = None \<Longrightarrow> ke_write env (Suc (kp_tick k)) = WriteBlocks"
  by (auto simp: SendMessage_def Let_def split: if_splits option.splits write_outcome.splits)

lemma deliver_attempt_cases:
  assumes "deliver_attempt env msg k = (k', r)" and "r \<noteq> Blocked"
  shows "same_core k k'" and "kp_inbound k' = kp_inbound k" and "kp_outbound k' = kp_outbound k"
    and "kp_bus k' = kp_bus k" and "kp_tokens k' = kp_tokens k"
    and "(r = Returned None \<and> kp_delivered k' = kp_delivered k @ [msg]) \<or> (\<exists>e. r = Again e \<and> kp_delivered k' = kp_delivered k)"
    and "ic_Type (ss_Interface (as_Spec (kp_spec k))) \<noteq> ''stdin'' \<Longrightarrow> r = Again RelayNotStdin"
    and "kp_sends k' = Suc (kp_sends k)"
proof -
  obtain k1 e where s: "SendMessage env msg k = Some (k1, e)"
    using assms by (cases "SendMessage env msg k") (auto simp: deliver_attempt_def)
  note c = SendMessage_cases [OF s]
  have a: "deliver_attempt env msg k = (if e = None
      then (if kp_timeouts k1 = None then (k1, Returned None)
            else (k1\<lparr>kp_tick := Suc (kp_tick k1),
                     kp_timeouts := tt_StartRequest (ke_clock env (kp_tick k1)) (wg_ID msg) (kp_timeouts k1)\<rparr>, Returned None))
      else (k1, Again (the e)))"
    by (cases e) (simp_all add: deliver_attempt_def s)
  show "same_core k k'" "kp_inbound k' = kp_inbound k" "kp_outbound k' = kp_outbound k" "kp_bus k' = kp_bus k"
    "kp_tokens k' = kp_tokens k"
    "(r = Returned None \<and> kp_delivered k' = kp_delivered k @ [msg]) \<or> (\<exists>e. r = Again e \<and> kp_delivered k' = kp_delivered k)"
    "ic_Type (ss_Interface (as_Spec (kp_spec k))) \<noteq> ''stdin'' \<Longrightarrow> r = Again RelayNotStdin" "kp_sends k' = Suc (kp_sends k)"
    using assms c unfolding a by (auto simp: same_defs split: if_splits)
qed

lemma check_output_cases:
  assumes "check_output env msg k = (k', r)"
  shows "same_core k k'" and "same_traffic k k'" and "same_guards k k'"
    and "r = None \<Longrightarrow> k' = k \<and> (\<forall>v. kp_validator k = Some v \<longrightarrow>
      ov_Validate (ke_unmarshal env) (ke_check env) v (wg_Payload msg) = None)"
  using assms by (auto simp: check_output_def same_defs bind_eq_None_conv split: option.splits)

lemma charge_tokens_cases:
  assumes "charge_tokens env msg k = (k', r)"
  shows "same_core k k'" and "same_traffic k k'" and "kp_timeouts k' = kp_timeouts k \<and> kp_limiter k' = kp_limiter k"
    and "kp_tokens k = None \<Longrightarrow> kp_tokens k' = None \<and> r = None"
    and "kp_tokens k = Some t \<Longrightarrow> ExtractTokenCount (map_of (wg_Metadata msg)) \<le> 0 \<Longrightarrow> kp_tokens k' = Some t \<and> r = None"
    and "kp_tokens k = Some t \<Longrightarrow> 0 < ExtractTokenCount (map_of (wg_Metadata msg)) \<Longrightarrow>
      kp_tokens k' = Some (fst (tb_RecordUsage (ke_clock env (kp_tick k)) (ExtractTokenCount (map_of (wg_Metadata msg))) t)) \<and>
      r = map_option RelayBudget (snd (tb_RecordUsage (ke_clock env (kp_tick k)) (ExtractTokenCount (map_of (wg_Metadata msg))) t))"
  using assms by (auto simp: charge_tokens_def same_defs Let_def split: option.splits prod.splits if_splits)

lemma complete_output_same:
  "same_core k (complete_output topic msg k)" "same_traffic k (complete_output topic msg k)"
  "kp_tokens (complete_output topic msg k) = kp_tokens k"
  by (simp_all add: complete_output_def log_event_def same_defs Let_def)

text \<open>One attempt to publish either returns an error without calling the bus, or it has a
  payload that passes the validation and tokens within the budget, and calls the bus once.\<close>

definition publish_outcome :: "'s keeper_env \<Rightarrow> wmsg \<Rightarrow> 's keeper \<Rightarrow> 's keeper \<Rightarrow> attempt_result \<Rightarrow> bool" where
  "publish_outcome env msg k k' r \<longleftrightarrow>
    (\<exists>e. r = Returned (Some e) \<and> kp_bus k' = kp_bus k \<and>
      (kp_tokens k' = kp_tokens k \<or> (\<exists>k1 e1. charge_tokens env msg k = (k1, Some e1) \<and> kp_tokens k' = kp_tokens k1))) \<or>
    (\<exists>payload b. ke_enc env msg = Some payload \<and>
      (\<forall>v. kp_validator k = Some v \<longrightarrow> ov_Validate (ke_unmarshal env) (ke_check env) v (wg_Payload msg) = None) \<and>
      kp_bus k' = kp_bus k @ [(determineTopic k msg, bus_message k payload msg, b)] \<and>
      r = (if b then Returned None else Again RelayPublishFailed) \<and>
      (\<exists>k1. charge_tokens env msg k = (k1, None) \<and> kp_tokens k' = kp_tokens k1))"

lemma publish_attempt_cases:
  assumes "publish_attempt env msg k = (k', r)"
  shows "same_core k k' \<and> kp_inbound k' = kp_inbound k \<and> kp_outbound k' = kp_outbound k \<and>
    kp_delivered k' = kp_delivered k \<and> publish_outcome env msg k k' r"
proof (cases "ke_enc env msg")
  case None
  then show ?thesis using assms
    by (auto simp: publish_attempt_def EncodeMessage_def Let_def publish_outcome_def same_defs)
next
  case (Some payload)
  obtain k1 e1 where o: "check_output env msg k = (k1, e1)" by (metis surj_pair)
  note oc = check_output_cases [OF o]
  show ?thesis
  proof (cases e1)
    case (Some e)
    then show ?thesis using assms \<open>ke_enc env msg = Some payload\<close> o oc
      by (auto simp: publish_attempt_def EncodeMessage_def Let_def publish_outcome_def same_defs)
  next
    case None
    then have k1: "k1 = k" using oc(4) by simp
    obtain k2 e2 where t: "charge_tokens env msg k = (k2, e2)" by (metis surj_pair)
    note tc = charge_tokens_cases(1-3) [OF t]
    show ?thesis
    proof (cases e2)
      case (Some e)
      then show ?thesis using assms \<open>ke_enc env msg = Some payload\<close> o t \<open>e1 = None\<close> k1 tc
        by (auto simp: publish_attempt_def EncodeMessage_def Let_def publish_outcome_def same_defs)
    next
      case None
      define b where "b = ke_publish env (kp_tick k2)"
      define k3 where "k3 = k2\<lparr>kp_tick := Suc (kp_tick k2),
        kp_bus := kp_bus k2 @ [(determineTopic k msg, bus_message k2 payload msg, b)]\<rparr>"
      have r: "(k', r) = (if b then (complete_output (determineTopic k msg) msg k3, Returned None)
          else (k3, Again RelayPublishFailed))"
        using assms \<open>ke_enc env msg = Some payload\<close> o t \<open>e1 = None\<close> k1 None
        by (cases "ke_publish env (kp_tick k2)") (simp_all add: publish_attempt_def EncodeMessage_def Let_def k3_def b_def)
      have bm: "bus_message k2 payload msg = bus_message k payload msg"
        using tc(1) by (simp add: bus_message_def same_defs)
      have k3: "same_core k k3" "kp_inbound k3 = kp_inbound k" "kp_outbound k3 = kp_outbound k"
        "kp_delivered k3 = kp_delivered k" "kp_tokens k3 = kp_tokens k2"
        "kp_bus k3 = kp_bus k @ [(determineTopic k msg, bus_message k payload msg, b)]"
        using tc(1,2) bm by (simp_all add: same_defs k3_def)
      have "same_core k3 k' \<and> kp_inbound k' = kp_inbound k3 \<and> kp_outbound k' = kp_outbound k3 \<and>
          kp_delivered k' = kp_delivered k3 \<and> kp_tokens k' = kp_tokens k3 \<and> kp_bus k' = kp_bus k3 \<and>
          r = (if b then Returned None else Again RelayPublishFailed)"
        using r complete_output_same [where topic = "determineTopic k msg" and msg = msg and k = k3] by (cases b) (simp_all add: same_defs)
      then have rest: "same_core k k'" "kp_inbound k' = kp_inbound k" "kp_outbound k' = kp_outbound k"
        "kp_delivered k' = kp_delivered k" "kp_tokens k' = kp_tokens k2"
        "kp_bus k' = kp_bus k @ [(determineTopic k msg, bus_message k payload msg, b)]"
        "r = (if b then Returned None else Again RelayPublishFailed)"
        using k3 same_trans(1) [OF k3(1)] by simp_all
      have "publish_outcome env msg k k' r"
        unfolding publish_outcome_def
        using \<open>ke_enc env msg = Some payload\<close> oc(4) \<open>e1 = None\<close> t None rest(5-7)
        by (intro disjI2 exI [of _ payload] exI [of _ b]) simp
      then show ?thesis using rest by simp
    qed
  qed
qed

section \<open>Retries end, after at most three attempts\<close>

text \<open>A property \<open>I\<close> of the number of attempts made and the keeper, kept by readings of the
  environment and by failed attempts, holds before the attempt that returns, or at the end of
  a loop that gives up.\<close>

lemma retry_rule_strong:
  assumes "retry_loop fuel env body q k = Some (k', q', r)" and "I (qm_attempts q) k" and "0 \<le> qm_attempts q"
    and tick: "\<And>a k n. I a k \<Longrightarrow> I a (k\<lparr>kp_tick := n\<rparr>)"
    and again: "\<And>a k k1 e. 0 \<le> a \<Longrightarrow> a < 3 \<Longrightarrow> I a k \<Longrightarrow> body (qm_msg q) k = (k1, Again e) \<Longrightarrow> I (a + 1) k1"
  shows "(\<exists>a k0. 0 \<le> a \<and> a < 3 \<and> I a k0 \<and> body (qm_msg q) k0 = (k', Returned r)) \<or>
    (\<exists>a. I a k' \<and> a \<le> max 3 (qm_attempts q) \<and> r \<noteq> None \<and> (3 \<le> a \<or> r = Some RelayCancelled))"
  using assms(1-3) again
proof (induction fuel arbitrary: q k)
  case 0
  then show ?case by simp
next
  case (Suc fuel)
  show ?case
  proof (cases "qm_attempts q \<ge> 3")
    case True
    then show ?thesis using Suc.prems by auto
  next
    case False
    define k1 where "k1 = (if qm_attempts q > 0 then k\<lparr>kp_tick := Suc (kp_tick k)\<rparr> else k)"
    define early where "early \<longleftrightarrow> qm_attempts q > 0 \<and> ke_clock env (kp_tick k) < qm_nextTry q"
    have I1: "I (qm_attempts q) k1" using Suc.prems(2) tick by (simp add: k1_def)
    have "retry_loop (Suc fuel) env body q k = (if early then retry_loop fuel env body q k1
          else case body (qm_msg q) k1 of
            (k, Blocked) \<Rightarrow> None
          | (k, Returned r) \<Rightarrow> Some (k, q, r)
          | (k, Again e) \<Rightarrow>
             (let q = q\<lparr>qm_attempts := qm_attempts q + 1\<rparr>
              in if qm_attempts q \<ge> 3 then Some (k, q, Some (RelayRetriesExceeded (Some e)))
                 else
                  (let delay = 100 * millisecond * 2 ^ nat (qm_attempts q - 1);
                       (k, now) = k_now env k;
                       q = q\<lparr>qm_nextTry := now + delay\<rparr>;
                       (k, cancelled) = k_done env k
                   in if cancelled then Some (k, q, Some RelayCancelled) else retry_loop fuel env body q k)))"
      using False unfolding k1_def early_def by (cases "qm_attempts q > 0") (simp_all del: k_tick_simps(2), simp_all add: k_now_def)
    note loop = trans [OF this [symmetric] Suc.prems(1)]
    show ?thesis
    proof (cases early)
      case True
      then show ?thesis using Suc.IH [OF _ I1 Suc.prems(3)] Suc.prems(4) loop by auto
    next
      case not_early: False
      obtain k2 res where b: "body (qm_msg q) k1 = (k2, res)" by (metis surj_pair)
      show ?thesis
      proof (cases res)
        case (Returned r')
        then have "k' = k2" "r = r'" using loop not_early b by simp_all
        then show ?thesis using b Returned I1 False Suc.prems(3) by force
      next
        case Blocked
        then show ?thesis using loop not_early b by simp
      next
        case (Again e)
        then have I2: "I (qm_attempts q + 1) k2" using Suc.prems(3,4) I1 b False by force
        let ?q = "q\<lparr>qm_attempts := qm_attempts q + 1, qm_nextTry :=
          ke_clock env (kp_tick k2) + 100 * millisecond * 2 ^ nat (qm_attempts q)\<rparr>"
        have I3: "I (qm_attempts ?q) (k2\<lparr>kp_tick := n\<rparr>)" for n using tick [OF I2] by simp
        show ?thesis
        proof (cases "qm_attempts q = 2")
          case True
          then have "k' = k2" "r \<noteq> None" using loop not_early b Again by auto
          then show ?thesis using I2 True by (intro disjI2 exI [of _ "qm_attempts q + 1"]) simp
        next
          case not_two: False
          have l: "(if ke_done env (Suc (kp_tick k2)) then Some (k2\<lparr>kp_tick := Suc (Suc (kp_tick k2))\<rparr>, ?q, Some RelayCancelled)
              else retry_loop fuel env body ?q (k2\<lparr>kp_tick := Suc (Suc (kp_tick k2))\<rparr>)) = Some (k', q', r)"
            using loop not_early b Again not_two False by (auto simp: Let_def split: if_splits)
          show ?thesis
          proof (cases "ke_done env (Suc (kp_tick k2))")
            case True
            then have "k' = k2\<lparr>kp_tick := Suc (Suc (kp_tick k2))\<rparr>" "r = Some RelayCancelled" using l by auto
            then show ?thesis using I3 False by force
          next
            case go_on: False
            then have run: "retry_loop fuel env body ?q (k2\<lparr>kp_tick := Suc (Suc (kp_tick k2))\<rparr>) = Some (k', q', r)"
              using l by simp
            have "(\<exists>a k0. 0 \<le> a \<and> a < 3 \<and> I a k0 \<and> body (qm_msg ?q) k0 = (k', Returned r)) \<or>
                (\<exists>a. I a k' \<and> a \<le> max 3 (qm_attempts ?q) \<and> r \<noteq> None \<and> (3 \<le> a \<or> r = Some RelayCancelled))"
              by (rule Suc.IH [OF run I3]) (use Suc.prems(3,4) in simp_all)
            then show ?thesis using False by auto
          qed
        qed
      qed
    qed
  qed
qed

lemma retry_rule:
  assumes "retry_loop fuel env body q k = Some (k', q', r)" and "I (qm_attempts q) k" and "0 \<le> qm_attempts q"
    and "\<And>a k n. I a k \<Longrightarrow> I a (k\<lparr>kp_tick := n\<rparr>)"
    and "\<And>a k k1 e. 0 \<le> a \<Longrightarrow> a < 3 \<Longrightarrow> I a k \<Longrightarrow> body (qm_msg q) k = (k1, Again e) \<Longrightarrow> I (a + 1) k1"
  shows "(\<exists>a k0. 0 \<le> a \<and> a < 3 \<and> I a k0 \<and> body (qm_msg q) k0 = (k', Returned r)) \<or>
    (\<exists>a. I a k' \<and> a \<le> max 3 (qm_attempts q) \<and> r \<noteq> None)"
proof -
  have "(\<exists>a k0. 0 \<le> a \<and> a < 3 \<and> I a k0 \<and> body (qm_msg q) k0 = (k', Returned r)) \<or>
      (\<exists>a. I a k' \<and> a \<le> max 3 (qm_attempts q) \<and> r \<noteq> None \<and> (3 \<le> a \<or> r = Some RelayCancelled))"
    by (rule retry_rule_strong [where I = I, OF assms(1-3)]) (erule assms(4), rule assms(5))
  then show ?thesis by blast
qed

text \<open>The clock passes every time, and stays past it.\<close>

definition clock_advances :: "'s keeper_env \<Rightarrow> bool" where
  "clock_advances env \<longleftrightarrow> (\<forall>t. \<exists>n. \<forall>m\<ge>n. t \<le> ke_clock env m)"

text \<open>One round that does not sleep.\<close>

lemma retry_round:
  assumes "\<not> (qm_attempts q > 0 \<and> ke_clock env (kp_tick k) < qm_nextTry q)" and "0 \<le> qm_attempts q"
    and next_ok: "\<And>q' k'. qm_attempts q' = qm_attempts q + 1 \<Longrightarrow> \<exists>fuel. retry_loop fuel env body q' k' \<noteq> None"
    and ends: "\<And>m k. snd (body m k) \<noteq> Blocked"
  shows "\<exists>fuel. retry_loop fuel env body q k \<noteq> None"
proof (cases "qm_attempts q \<ge> 3")
  case True
  then have "retry_loop (Suc 0) env body q k \<noteq> None" by simp
  then show ?thesis by blast
next
  case False
  define k1 where "k1 = (if qm_attempts q > 0 then k\<lparr>kp_tick := Suc (kp_tick k)\<rparr> else k)"
  obtain k2 res where b: "body (qm_msg q) k1 = (k2, res)" by (metis surj_pair)
  show ?thesis
  proof (cases res)
    case (Returned r)
    then have "retry_loop (Suc 0) env body q k \<noteq> None" using False assms(1) b by (auto simp: k1_def Let_def)
    then show ?thesis by blast
  next
    case Blocked
    then show ?thesis using ends [of "qm_msg q" k1] b by simp
  next
    case (Again e)
    let ?q = "q\<lparr>qm_attempts := qm_attempts q + 1, qm_nextTry :=
      ke_clock env (kp_tick k2) + 100 * millisecond * 2 ^ nat (qm_attempts q)\<rparr>"
    have "\<exists>fuel. retry_loop fuel env body ?q (k2\<lparr>kp_tick := Suc (Suc (kp_tick k2))\<rparr>) \<noteq> None"
      by (rule next_ok) simp
    then obtain fuel where "retry_loop fuel env body ?q (k2\<lparr>kp_tick := Suc (Suc (kp_tick k2))\<rparr>) \<noteq> None" by blast
    then have "retry_loop (Suc fuel) env body q k \<noteq> None"
      using False assms(1) b Again by (auto simp: k1_def Let_def)
    then show ?thesis by blast
  qed
qed

lemma retry_returns:
  assumes clock: "clock_advances env" and ends: "\<And>m k. snd (body m k) \<noteq> Blocked"
  shows "0 \<le> qm_attempts q \<Longrightarrow> \<exists>fuel. retry_loop fuel env body q k \<noteq> None"
proof (induction "nat (3 - qm_attempts q)" arbitrary: q k rule: less_induct)
  case less
  obtain n where n: "\<forall>m\<ge>n. qm_nextTry q \<le> ke_clock env m" using clock by (auto simp: clock_advances_def)
  have next_ok: "\<exists>fuel. retry_loop fuel env body q' k' \<noteq> None"
    if "qm_attempts q' = qm_attempts q + 1" "qm_attempts q < 3" for q' k'
    using less.hyps [of q' k'] less.prems that by simp
  show ?case
  proof (cases "qm_attempts q \<ge> 3")
    case True
    then have "retry_loop (Suc 0) env body q k \<noteq> None" by simp
    then show ?thesis by blast
  next
    case False
    then show ?thesis
    proof (induction "n - kp_tick k" arbitrary: k)
      case 0
      have "\<not> (qm_attempts q > 0 \<and> ke_clock env (kp_tick k) < qm_nextTry q)" using n 0 by (auto simp: not_less)
      then show ?case by (rule retry_round [OF _ less.prems]) (use next_ok 0 ends in simp_all)
    next
      case (Suc i)
      show ?case
      proof (cases "qm_attempts q > 0 \<and> ke_clock env (kp_tick k) < qm_nextTry q")
        case True
        have "\<exists>fuel. retry_loop fuel env body q (k\<lparr>kp_tick := Suc (kp_tick k)\<rparr>) \<noteq> None"
          by (rule Suc.hyps(1)) (use Suc.hyps(2) Suc.prems in simp_all)
        then obtain fuel where "retry_loop fuel env body q (k\<lparr>kp_tick := Suc (kp_tick k)\<rparr>) \<noteq> None" by blast
        then have "retry_loop (Suc fuel) env body q k \<noteq> None" using True Suc.prems by simp
        then show ?thesis by blast
      next
        case False
        show ?thesis by (rule retry_round [OF False less.prems]) (use next_ok Suc.prems ends in simp_all)
      qed
    qed
  qed
qed

text \<open>What a finished delivery and a finished publication have done.\<close>

lemma deliver_result:
  assumes "deliverMessageWithRetry fuel env q k = Some (k', q', r)" and "0 \<le> qm_attempts q"
  shows "kp_delivered k' = kp_delivered k @ (if r = None then [qm_msg q] else []) \<and>
    same_core k k' \<and> kp_inbound k' = kp_inbound k \<and> kp_outbound k' = kp_outbound k \<and> kp_bus k' = kp_bus k"
proof -
  define I :: "int \<Rightarrow> 'a keeper \<Rightarrow> bool" where
    "I a k1 \<longleftrightarrow> kp_delivered k1 = kp_delivered k \<and> same_core k k1 \<and> kp_inbound k1 = kp_inbound k \<and>
      kp_outbound k1 = kp_outbound k \<and> kp_bus k1 = kp_bus k" for a k1
  have "(\<exists>a k0. 0 \<le> a \<and> a < 3 \<and> I a k0 \<and> deliver_attempt env (qm_msg q) k0 = (k', Returned r)) \<or>
      (\<exists>a. I a k' \<and> a \<le> max 3 (qm_attempts q) \<and> r \<noteq> None)"
  proof (rule retry_rule)
    show "retry_loop fuel env (deliver_attempt env) q k = Some (k', q', r)"
      using assms(1) by (simp add: deliverMessageWithRetry_def)
    show "I (qm_attempts q) k" by (simp add: I_def same_core_def)
    show "I a k1 \<Longrightarrow> I a (k1\<lparr>kp_tick := n\<rparr>)" for a k1 n by (simp add: I_def same_core_def)
    show "I (a + 1) k2" if "I a k1" "deliver_attempt env (qm_msg q) k1 = (k2, Again e)" for a k1 k2 e
      using that(1) deliver_attempt_cases [OF that(2) attempt_result.distinct(5)] same_trans(1) [of k k1 k2] by (auto simp: I_def)
  qed (rule assms(2))
  then show ?thesis
  proof
    assume "\<exists>a k0. 0 \<le> a \<and> a < 3 \<and> I a k0 \<and> deliver_attempt env (qm_msg q) k0 = (k', Returned r)"
    then obtain a k0 where k0: "I a k0" "deliver_attempt env (qm_msg q) k0 = (k', Returned r)" by blast
    then show ?thesis using deliver_attempt_cases [OF k0(2) attempt_result.distinct(3)] same_trans(1) [of k k0 k'] by (auto simp: I_def)
  qed (auto simp: I_def)
qed

lemma deliver_sends:
  assumes "deliverMessageWithRetry fuel env q k = Some (k', q', r)" and "qm_attempts q = 0"
  shows "kp_sends k' \<le> kp_sends k + 3 \<and> (r \<noteq> None \<longrightarrow> r \<noteq> Some RelayCancelled \<longrightarrow> kp_sends k' = kp_sends k + 3)"
proof -
  define I :: "int \<Rightarrow> 'a keeper \<Rightarrow> bool" where "I a k1 \<longleftrightarrow> 0 \<le> a \<and> int (kp_sends k1) = int (kp_sends k) + a" for a k1
  have "(\<exists>a k0. 0 \<le> a \<and> a < 3 \<and> I a k0 \<and> deliver_attempt env (qm_msg q) k0 = (k', Returned r)) \<or>
      (\<exists>a. I a k' \<and> a \<le> max 3 (qm_attempts q) \<and> r \<noteq> None \<and> (3 \<le> a \<or> r = Some RelayCancelled))"
  proof (rule retry_rule_strong)
    show "retry_loop fuel env (deliver_attempt env) q k = Some (k', q', r)"
      using assms(1) by (simp add: deliverMessageWithRetry_def)
    show "I (a + 1) k2" if "I a k1" "deliver_attempt env (qm_msg q) k1 = (k2, Again e)" for a k1 k2 e
      using that(1) deliver_attempt_cases(8) [OF that(2) attempt_result.distinct(5)] by (simp add: I_def)
  qed (use assms(2) in \<open>simp_all add: I_def\<close>)
  then show ?thesis
  proof
    assume "\<exists>a k0. 0 \<le> a \<and> a < 3 \<and> I a k0 \<and> deliver_attempt env (qm_msg q) k0 = (k', Returned r)"
    then obtain a k0 where k0: "a < 3" "I a k0" "deliver_attempt env (qm_msg q) k0 = (k', Returned r)" by blast
    have "r = None" using deliver_attempt_cases(6) [OF k0(3) attempt_result.distinct(3)] by simp
    then show ?thesis using k0(1,2) deliver_attempt_cases(8) [OF k0(3) attempt_result.distinct(3)] by (simp add: I_def)
  qed (use assms(2) in \<open>auto simp: I_def\<close>)
qed

text \<open>An attempt ends when the agent reads what is written to it, and a call of the bus returns.\<close>

definition agent_reads :: "'s keeper_env \<Rightarrow> bool" where
  "agent_reads env \<longleftrightarrow> (\<forall>n. ke_write env n \<noteq> WriteBlocks)"

lemma deliver_attempt_ends: "agent_reads env \<Longrightarrow> snd (deliver_attempt env msg k) \<noteq> Blocked"
  using SendMessage_None [of env msg k]
  by (cases "SendMessage env msg k") (auto simp: deliver_attempt_def agent_reads_def split: option.split prod.split)

lemma publish_attempt_ends: "snd (publish_attempt env msg k) \<noteq> Blocked"
  by (simp add: publish_attempt_def Let_def split: option.split prod.split)

text \<open>An agent that does not read stops its delivery: when the first write blocks, the delivery never returns.\<close>

lemma blocked_delivery:
  assumes "ke_write env (Suc (kp_tick k)) = WriteBlocks" "ic_Type (ss_Interface (as_Spec (kp_spec k))) = ''stdin''" "kp_stdin k"
    and "EncodeMessage (ke_enc env) (qm_msg q) \<noteq> None" "qm_attempts q = 0"
  shows "deliverMessageWithRetry fuel env q k = None"
proof (cases fuel)
  case 0
  then show ?thesis by (simp add: deliverMessageWithRetry_def)
next
  case (Suc n)
  have "SendMessage env (qm_msg q) k = None" using assms(1-4) by (auto simp: SendMessage_def)
  then show ?thesis using Suc assms(5) by (simp add: deliverMessageWithRetry_def deliver_attempt_def)
qed

abbreviation msg_tokens :: "wmsg \<Rightarrow> int" where
  "msg_tokens msg \<equiv> ExtractTokenCount (map_of (wg_Metadata msg))"

text \<open>\<open>n\<close> charges of \<open>c\<close> tokens separate the session budgets of two keepers.\<close>

definition session_charged :: "int \<Rightarrow> int \<Rightarrow> 's keeper \<Rightarrow> 's keeper \<Rightarrow> bool" where
  "session_charged c n k k1 \<longleftrightarrow>
    (\<forall>t. kp_tokens k = Some t \<and> tb_wf t \<and> tb_perSessionBudget t > 0 \<and> 0 < c \<and> c \<le> 4611686018427387903 \<longrightarrow>
      (\<exists>t1. kp_tokens k1 = Some t1 \<and> tb_wf t1 \<and> tb_perSessionBudget t1 = tb_perSessionBudget t \<and>
        tb_sessionTokens t1 = tb_sessionTokens t + c * n))"

lemma session_charged_refl: "session_charged c 0 k k"
  by (simp add: session_charged_def)

lemma session_charged_cong: "kp_tokens k2 = kp_tokens k1 \<Longrightarrow> session_charged c n k k2 = session_charged c n k k1"
  by (simp add: session_charged_def)

lemma session_charged_step:
  assumes "session_charged c n k k1" and "charge_tokens env msg k1 = (k2, e)" and "c = msg_tokens msg"
  shows "session_charged c (n + (if e = None then 1 else 0)) k k2"
  unfolding session_charged_def
proof (intro allI impI)
  fix t assume t: "kp_tokens k = Some t \<and> tb_wf t \<and> tb_perSessionBudget t > 0 \<and> 0 < c \<and> c \<le> 4611686018427387903"
  then obtain t1 where t1: "kp_tokens k1 = Some t1" "tb_wf t1" "tb_perSessionBudget t1 = tb_perSessionBudget t"
    "tb_sessionTokens t1 = tb_sessionTokens t + c * n" using assms(1) by (auto simp: session_charged_def)
  define u where "u = tb_RecordUsage (ke_clock env (kp_tick k1)) c t1"
  have k2: "kp_tokens k2 = Some (fst u)" "e = map_option RelayBudget (snd u)"
    using charge_tokens_cases(6) [OF assms(2) t1(1)] t assms(3) by (simp_all add: u_def)
  have "tb_wf (fst u)" "tb_perSessionBudget (fst u) = tb_perSessionBudget t"
    "tb_sessionTokens (fst u) = tb_sessionTokens t1 + (if snd u = None then c else 0)"
    using tb_RecordUsage_wf [OF t1(2)] tb_RecordUsage_session [OF t1(2)] t t1(3) by (simp_all add: u_def)
  then show "\<exists>t1. kp_tokens k2 = Some t1 \<and> tb_wf t1 \<and> tb_perSessionBudget t1 = tb_perSessionBudget t \<and>
      tb_sessionTokens t1 = tb_sessionTokens t + c * (n + (if e = None then 1 else 0))"
    using k2 t1(4) by (cases "snd u") (simp_all add: algebra_simps)
qed

text \<open>The calls of the bus for one message: \<open>n\<close> that failed, and the one that succeeded.\<close>

definition calls :: "'s keeper \<Rightarrow> wmsg \<Rightarrow> string \<Rightarrow> nat \<Rightarrow> bool \<Rightarrow> (string \<times> message \<times> bool) list" where
  "calls k msg payload n ok =
    replicate n (determineTopic k msg, bus_message k payload msg, False) @
    (if ok then [(determineTopic k msg, bus_message k payload msg, True)] else [])"

definition publishable :: "'s keeper_env \<Rightarrow> 's keeper \<Rightarrow> wmsg \<Rightarrow> string \<Rightarrow> bool" where
  "publishable env k msg payload \<longleftrightarrow> ke_enc env msg = Some payload \<and>
    (\<forall>v. kp_validator k = Some v \<longrightarrow> ov_Validate (ke_unmarshal env) (ke_check env) v (wg_Payload msg) = None)"

lemma same_core_publish:
  assumes "same_core k k1"
  shows "determineTopic k1 msg = determineTopic k msg" "bus_message k1 p msg = bus_message k p msg"
    "publishable env k1 msg p = publishable env k msg p"
  using assms by (simp_all add: same_core_def determineTopic_def bus_message_def publishable_def)

text \<open>The state of a publication after \<open>a\<close> failed calls of the bus.\<close>

definition publish_progress :: "'s keeper_env \<Rightarrow> 's keeper \<Rightarrow> wmsg \<Rightarrow> int \<Rightarrow> 's keeper \<Rightarrow> bool" where
  "publish_progress env k msg a k1 \<longleftrightarrow> same_core k k1 \<and> kp_inbound k1 = kp_inbound k \<and> kp_outbound k1 = kp_outbound k \<and>
    kp_delivered k1 = kp_delivered k \<and> 0 \<le> a \<and> session_charged (msg_tokens msg) a k k1 \<and>
    (\<exists>p. kp_bus k1 = kp_bus k @ calls k msg p (nat a) False \<and> (0 < a \<longrightarrow> publishable env k msg p))"

lemma publish_call:
  assumes I: "publish_progress env k msg a k1" and o: "publish_outcome env msg k1 k2 res"
    and b: "kp_bus k2 = kp_bus k1 @ [x]" "b = snd (snd x)"
  shows "\<exists>p. publishable env k msg p \<and>
    kp_bus k2 = kp_bus k @ calls k msg p (nat a) False @ [(determineTopic k msg, bus_message k p msg, b)] \<and>
    session_charged (msg_tokens msg) (a + 1) k k2 \<and> res = (if b then Returned None else Again RelayPublishFailed)"
proof -
  obtain payload k3 where p: "ke_enc env msg = Some payload" "publishable env k1 msg payload"
    "x = (determineTopic k1 msg, bus_message k1 payload msg, b)" "charge_tokens env msg k1 = (k3, None)"
    "kp_tokens k2 = kp_tokens k3" "res = (if b then Returned None else Again RelayPublishFailed)"
    using o b by (auto simp: publish_outcome_def publishable_def)
  have core: "same_core k k1" and ch: "session_charged (msg_tokens msg) a k k1" using I by (simp_all add: publish_progress_def)
  note s = same_core_publish [OF core]
  obtain p' where p': "kp_bus k1 = kp_bus k @ calls k msg p' (nat a) False" "0 < a \<longrightarrow> publishable env k msg p'"
    using I by (auto simp: publish_progress_def)
  have "calls k msg p' (nat a) False = calls k msg payload (nat a) False"
    using p' p(1) by (cases "0 < a") (auto simp: publishable_def calls_def)
  moreover have "session_charged (msg_tokens msg) (a + 1) k k2"
    using session_charged_step [OF ch p(4) refl] session_charged_cong [OF p(5)] by simp
  ultimately show ?thesis using p' p b(1) s by auto
qed

lemma publish_again:
  assumes I: "publish_progress env k msg a k1" "0 \<le> a" and at: "publish_attempt env msg k1 = (k2, Again e)"
  shows "publish_progress env k msg (a + 1) k2"
proof -
  note c = publish_attempt_cases [OF at]
  then obtain x where x: "kp_bus k2 = kp_bus k1 @ [x]" by (auto simp: publish_outcome_def)
  from publish_call [OF I(1) _ x refl] c obtain p where "publishable env k msg p" "\<not> snd (snd x)"
    "kp_bus k2 = kp_bus k @ calls k msg p (nat a) False @ [(determineTopic k msg, bus_message k p msg, snd (snd x))]"
    "session_charged (msg_tokens msg) (a + 1) k k2" by (metis attempt_result.distinct(1))
  then show ?thesis using I c same_trans(1) [of k k1 k2]
    by (auto simp: publish_progress_def calls_def nat_add_distrib replicate_append_same intro!: exI [of _ p])
qed

text \<open>What a finished publication has done: \<open>n\<close> calls that failed, one that succeeded exactly if
  there is no error, all of them for a message that may be published, and as many charges.\<close>

definition publish_done :: "'s keeper_env \<Rightarrow> 's keeper \<Rightarrow> wmsg \<Rightarrow> relay_error option \<Rightarrow> 's keeper \<Rightarrow> bool" where
  "publish_done env k msg r k' \<longleftrightarrow>
    same_core k k' \<and> kp_inbound k' = kp_inbound k \<and> kp_outbound k' = kp_outbound k \<and> kp_delivered k' = kp_delivered k \<and>
    (\<exists>n payload. n + (if r = None then 1 else 0) \<le> 3 \<and> kp_bus k' = kp_bus k @ calls k msg payload n (r = None) \<and>
      (0 < n \<or> r = None \<longrightarrow> publishable env k msg payload) \<and>
      session_charged (msg_tokens msg) (int n + (if r = None then 1 else 0)) k k')"

lemma publish_progress_done:
  assumes "publish_progress env k msg a k'" "a \<le> 3" "r \<noteq> None"
  shows "publish_done env k msg r k'"
proof -
  obtain p where "kp_bus k' = kp_bus k @ calls k msg p (nat a) False" "0 < a \<longrightarrow> publishable env k msg p"
    using assms(1) by (auto simp: publish_progress_def)
  moreover obtain e where "r = Some e" using assms(3) by blast
  ultimately show ?thesis unfolding publish_done_def using assms
    by (intro conjI exI [of _ "nat a"] exI [of _ p]) (simp_all add: publish_progress_def)
qed

lemma publish_returned:
  assumes k0: "publish_progress env k msg a k0" "a < 3" and at: "publish_attempt env msg k0 = (k', Returned r)"
  shows "publish_done env k msg r k'"
proof -
  note c = publish_attempt_cases [OF at]
  have core: "same_core k k'" "kp_inbound k' = kp_inbound k" "kp_outbound k' = kp_outbound k" "kp_delivered k' = kp_delivered k"
    and a: "0 \<le> a"
    using c k0(1) same_trans(1) [of k k0 k'] by (auto simp: publish_progress_def)
  show ?thesis
  proof (cases r)
    case None
    then obtain x where x: "kp_bus k' = kp_bus k0 @ [x]" using c by (auto simp: publish_outcome_def split: if_splits)
    from publish_call [OF k0(1) _ x refl] c None obtain p where p: "publishable env k msg p" "snd (snd x)"
      "kp_bus k' = kp_bus k @ calls k msg p (nat a) False @ [(determineTopic k msg, bus_message k p msg, snd (snd x))]"
      "session_charged (msg_tokens msg) (a + 1) k k'" by (metis attempt_result.distinct(1))
    have "nat a + 1 \<le> 3" using k0 by simp
    then show ?thesis unfolding publish_done_def using core p None a
      by (intro conjI exI [of _ "nat a"] exI [of _ p]) (simp_all add: calls_def)
  next
    case (Some e)
    have "publish_progress env k msg a k'"
    proof -
      have o: "publish_outcome env msg k0 k' (Returned (Some e))" using c Some by simp
      then have bus: "kp_bus k' = kp_bus k0" by (auto simp: publish_outcome_def split: if_splits)
      have ch: "session_charged (msg_tokens msg) a k k0" using k0(1) by (simp add: publish_progress_def)
      from o consider "kp_tokens k' = kp_tokens k0"
        | k1 e1 where "charge_tokens env msg k0 = (k1, Some e1)" "kp_tokens k' = kp_tokens k1"
        by (auto simp: publish_outcome_def split: if_splits)
      then have "session_charged (msg_tokens msg) a k k'"
      proof cases
        case 1
        then show ?thesis using ch session_charged_cong [of k' k0] by simp
      next
        case 2
        from session_charged_step [OF ch 2(1) refl] show ?thesis using session_charged_cong [OF 2(2)] by simp
      qed
      then show ?thesis using k0(1) core bus by (simp add: publish_progress_def)
    qed
    then show ?thesis using publish_progress_done k0(2) Some by fastforce
  qed
qed

lemma publish_result:
  assumes run: "publishMessageWithRetry fuel env q k = Some (k', q', r)" and "qm_attempts q = 0"
  shows "publish_done env k (qm_msg q) r k'"
proof -
  have "(\<exists>a k0. 0 \<le> a \<and> a < 3 \<and> publish_progress env k (qm_msg q) a k0 \<and>
        publish_attempt env (qm_msg q) k0 = (k', Returned r)) \<or>
      (\<exists>a. publish_progress env k (qm_msg q) a k' \<and> a \<le> max 3 (qm_attempts q) \<and> r \<noteq> None)"
  proof (rule retry_rule)
    show "retry_loop fuel env (publish_attempt env) q k = Some (k', q', r)"
      using run by (simp add: publishMessageWithRetry_def)
    show "publish_progress env k (qm_msg q) (qm_attempts q) k"
      using assms(2) by (simp add: publish_progress_def same_core_def session_charged_refl calls_def)
    show "publish_progress env k (qm_msg q) a (k1\<lparr>kp_tick := n\<rparr>)" if "publish_progress env k (qm_msg q) a k1" for a k1 n
      using that session_charged_cong [of "k1\<lparr>kp_tick := n\<rparr>" k1] by (simp add: publish_progress_def same_core_def)
  qed (use publish_again assms(2) in auto)
  then show ?thesis using publish_returned publish_progress_done assms(2) by fastforce
qed

section \<open>Properties of the relay\<close>

text \<open>C29: Retries end.  When the clock passes every time, no write to the agent blocks for ever and the calls of the bus
  return, delivering and publishing a message return.  A delivery calls \<open>SendMessage\<close> at most three times,
  hands the message to the agent once if it returns without error and not at all otherwise, and gives up
  only after three calls or when it is cancelled; a publication calls the bus at most three times, and succeeds exactly
  if its last call does.\<close>

theorem relay_retries_end:
  assumes "clock_advances env" and "agent_reads env" and "qm_attempts q = 0"
  shows "(\<exists>fuel k' q' r. deliverMessageWithRetry fuel env q k = Some (k', q', r) \<and>
      kp_delivered k' = kp_delivered k @ (if r = None then [qm_msg q] else []) \<and>
      kp_sends k' \<le> kp_sends k + 3 \<and> (r \<noteq> None \<longrightarrow> kp_sends k' = kp_sends k + 3 \<or> r = Some RelayCancelled)) \<and>
    (\<exists>fuel k' q' r ok. publishMessageWithRetry fuel env q k = Some (k', q', r) \<and>
      map (snd \<circ> snd) (kp_bus k') = map (snd \<circ> snd) (kp_bus k) @ ok \<and> length ok \<le> 3 \<and>
      (r = None \<longleftrightarrow> True \<in> set ok) \<and> True \<notin> set (butlast ok))"
proof
  obtain fuel where "deliverMessageWithRetry fuel env q k \<noteq> None"
    using retry_returns [OF assms(1), of "deliver_attempt env" q k] deliver_attempt_ends [OF assms(2)] assms(3)
    unfolding deliverMessageWithRetry_def by (metis order_refl)
  then obtain k' q' r where "deliverMessageWithRetry fuel env q k = Some (k', q', r)"
    by (metis not_None_eq prod_cases3)
  then show "\<exists>fuel k' q' r. deliverMessageWithRetry fuel env q k = Some (k', q', r) \<and>
      kp_delivered k' = kp_delivered k @ (if r = None then [qm_msg q] else []) \<and>
      kp_sends k' \<le> kp_sends k + 3 \<and> (r \<noteq> None \<longrightarrow> kp_sends k' = kp_sends k + 3 \<or> r = Some RelayCancelled)"
    using deliver_result deliver_sends assms(3) by (metis order_refl)
next
  obtain fuel where "publishMessageWithRetry fuel env q k \<noteq> None"
    using retry_returns [OF assms(1), of "publish_attempt env" q k] publish_attempt_ends assms(3)
    unfolding publishMessageWithRetry_def by (metis order_refl)
  then obtain k' q' r where run: "publishMessageWithRetry fuel env q k = Some (k', q', r)"
    by (metis not_None_eq prod_cases3)
  from publish_result [OF this assms(3)] obtain n p where n: "n + (if r = None then 1 else 0) \<le> 3"
    "kp_bus k' = kp_bus k @ calls k (qm_msg q) p n (r = None)" by (auto simp: publish_done_def)
  let ?ok = "replicate n False @ (if r = None then [True] else [])"
  have "map (snd \<circ> snd) (kp_bus k') = map (snd \<circ> snd) (kp_bus k) @ ?ok" "length ?ok \<le> 3"
    "r = None \<longleftrightarrow> True \<in> set ?ok" "True \<notin> set (butlast ?ok)"
    using n by (auto simp: calls_def butlast_append dest: in_set_butlastD)
  then show "\<exists>fuel k' q' r ok. publishMessageWithRetry fuel env q k = Some (k', q', r) \<and>
      map (snd \<circ> snd) (kp_bus k') = map (snd \<circ> snd) (kp_bus k) @ ok \<and> length ok \<le> 3 \<and>
      (r = None \<longleftrightarrow> True \<in> set ok) \<and> True \<notin> set (butlast ok)"
    using run by blast
qed

text \<open>Retries charge a message again.  The token budget is charged before every call of the
  bus, so a message of \<open>c\<close> tokens that is published at the third call has cost \<open>3 * c\<close> tokens
  of the session: the budget of the session sinks by \<open>c\<close> for every call.\<close>

lemma retries_charge_tokens_again:
  assumes "publishMessageWithRetry fuel env q k = Some (k', q', r)" and "qm_attempts q = 0"
    and "kp_tokens k = Some t" "tb_wf t" "tb_perSessionBudget t > 0"
    and "c = ExtractTokenCount (map_of (wg_Metadata (qm_msg q)))" "0 < c" "c \<le> 4611686018427387903"
  shows "\<exists>t'. kp_tokens k' = Some t' \<and>
    tb_sessionTokens t' = tb_sessionTokens t + c * (int (length (kp_bus k')) - int (length (kp_bus k)))"
proof -
  from publish_result [OF assms(1,2)] obtain n p where n:
    "kp_bus k' = kp_bus k @ calls k (qm_msg q) p n (r = None)"
    "session_charged c (int n + (if r = None then 1 else 0)) k k'" using assms(6) by (auto simp: publish_done_def)
  then show ?thesis using assms(3-5,7,8) by (auto simp: session_charged_def calls_def)
qed

text \<open>The relay addresses agents exactly.  A message is published on the topic that agent \<open>a\<close>
  of cell \<open>ns\<close> subscribes to exactly if it names \<open>a\<close> as its destination and the keeper is of
  that cell, whatever else it contains.  In particular a response without destination never
  reaches the agent that asked: it goes to the response topic of the agent that answers.\<close>

lemma relay_addresses_exactly:
  assumes "validateNamespace (k_ns k) = None" and "validateNamespace ns = None" and "a \<noteq> ''''"
  shows "(determineTopic k msg = inbound_topic ns a \<longleftrightarrow> ns = k_ns k \<and> wg_DestAgentID msg = a) \<and>
    (wg_DestAgentID msg = '''' \<and> wg_CorrelationID msg \<noteq> '''' \<longrightarrow>
      determineTopic k (msg\<lparr>wg_SourceAgentID := kp_agentID k\<rparr>) =
        PrefixTopic (k_ns k) (''agent.'' @ kp_agentID k @ ''.response''))"
proof -
  have resp: "s @ ''.response'' \<noteq> t @ ''.inbound''" for s t
  proof
    assume "s @ ''.response'' = t @ ''.inbound''"
    from arg_cong [OF this, of rev] show False by simp
  qed
  have outb: "s @ ''.outbound'' \<noteq> t @ ''.inbound''" for s t
  proof
    assume "s @ ''.outbound'' = t @ ''.inbound''"
    from arg_cong [OF this, of rev] show False by simp
  qed
  show ?thesis using assms(3)
    by (auto simp: determineTopic_def inbound_topic_def prefix_topic_inj [OF assms(1,2)] resp [simplified] outb [simplified])
qed

text \<open>A keeper and an environment for the instances: the clock counts seconds, and the bus accepts
  nothing before the tick \<open>up\<close>.\<close>

definition sample_keeper :: "nat keeper" where
  "sample_keeper =
    (fst (StartMessageRelay (Some (\<lambda>_. True)) ''a1'' (NewKeeper (\<lambda>_. Inl SchemaCompileFailed) 0 0 0 sample_spec ''s'' False)))
      \<lparr>kp_stdin := True, kp_tokens := Some (NewTokenBudgetTracker 0 0 100 0)\<rparr>"

definition sample_keeper_env :: "nat \<Rightarrow> nat keeper_env" where
  "sample_keeper_env up =
    \<lparr>ke_clock = (\<lambda>n. int n * second), ke_done = (\<lambda>_. False), ke_write = (\<lambda>_. Written), ke_publish = (\<lambda>n. up \<le> n),
     ke_store = None, ke_enc = (\<lambda>_. Some ''{}''), ke_dec = (\<lambda>_. Some one_message),
     ke_unmarshal = (\<lambda>_. Inr (GString '''')), ke_check = (\<lambda>_ _. None)\<rparr>"

definition sample_queued :: queued_message where
  "sample_queued = \<lparr>qm_msg = one_message\<lparr>wg_Metadata := [(''token-count'', ''5'')]\<rparr>, qm_attempts = 0, qm_nextTry = 0\<rparr>"

lemma sample_clock: "clock_advances (sample_keeper_env up)"
  unfolding clock_advances_def
proof (intro allI)
  fix t :: int
  show "\<exists>n. \<forall>m\<ge>n. t \<le> ke_clock (sample_keeper_env up) m"
  proof (rule exI [of _ "nat t"], intro allI impI)
    fix m assume "nat t \<le> m"
    then have "t \<le> int m" by linarith
    then show "t \<le> ke_clock (sample_keeper_env up) m" by (simp add: sample_keeper_env_def)
  qed
qed

lemma relay_retries_end_witness:
  "\<exists>fuel k' q' r. deliverMessageWithRetry fuel (sample_keeper_env 0) sample_queued sample_keeper = Some (k', q', r) \<and>
    kp_delivered k' = kp_delivered sample_keeper @ (if r = None then [qm_msg sample_queued] else []) \<and>
    kp_sends k' \<le> kp_sends sample_keeper + 3 \<and>
    (r \<noteq> None \<longrightarrow> kp_sends k' = kp_sends sample_keeper + 3 \<or> r = Some RelayCancelled)"
  by (rule relay_retries_end [THEN conjunct1], rule sample_clock)
    (simp_all add: sample_queued_def agent_reads_def sample_keeper_env_def)

subsection \<open>Health\<close>

text \<open>A keeper is never healthy, and times out nothing.  The check whether the process runs
  sends a nil signal, which fails for every process; so whatever checks are made, whether the
  process lives or not, the health endpoint reports a failure, overdue requests are never
  looked for, and no timeout is reported.\<close>

lemma keeper_never_healthy:
  assumes "k' = fold (\<lambda>(l, err). checkHealth err env l) (c # checks) k"
  shows "\<not> kh_Healthy (kp_health k') \<and> kp_timeouts k' = kp_timeouts k \<and> kp_audit k' = kp_audit k \<and>
    kp_webhooks k' = kp_webhooks k \<and>
    (kp_process k \<noteq> None \<longrightarrow> kh_Message (kp_health k') \<noteq> ''process running'')"
proof -
  have one: "\<not> kh_Healthy (kp_health (checkHealth err env l k)) \<and> kp_timeouts (checkHealth err env l k) = kp_timeouts k \<and>
      kp_audit (checkHealth err env l k) = kp_audit k \<and> kp_webhooks (checkHealth err env l k) = kp_webhooks k \<and>
      kp_process (checkHealth err env l k) = kp_process k \<and>
      kh_Message (kp_health (checkHealth err env l k)) \<noteq> ''process running''" for err l k
    by (simp add: checkHealth_def set_health_def proc_signal_def split: option.splits)
  have "\<not> kh_Healthy (kp_health (fold (\<lambda>(l, err). checkHealth err env l) (c # checks) k)) \<and>
      kp_timeouts (fold (\<lambda>(l, err). checkHealth err env l) (c # checks) k) = kp_timeouts k \<and>
      kp_audit (fold (\<lambda>(l, err). checkHealth err env l) (c # checks) k) = kp_audit k \<and>
      kp_webhooks (fold (\<lambda>(l, err). checkHealth err env l) (c # checks) k) = kp_webhooks k \<and>
      kh_Message (kp_health (fold (\<lambda>(l, err). checkHealth err env l) (c # checks) k)) \<noteq> ''process running''"
  proof (induction checks arbitrary: c k)
    case Nil
    then show ?case using one by (cases c) simp
  next
    case (Cons c' checks)
    show ?case
    proof (cases c)
      case (Pair l err)
      then show ?thesis using Cons.IH [of c' "checkHealth err env l k"] one [of err l k] by simp
    qed
  qed
  then show ?thesis by (simp add: assms)
qed

text \<open>An agent with another interface than \<open>stdin\<close> receives nothing: every delivery fails, and the
  message is dropped after three attempts.\<close>

lemma only_stdin_receives:
  assumes "ic_Type (ss_Interface (as_Spec (kp_spec k))) \<noteq> ''stdin''" and "qm_attempts q = 0"
    and "deliverMessageWithRetry fuel env q k = Some (k', q', r)"
  shows "r \<noteq> None \<and> kp_delivered k' = kp_delivered k"
proof -
  define I :: "int \<Rightarrow> 'a keeper \<Rightarrow> bool" where "I a k1 \<longleftrightarrow> same_core k k1" for a k1
  have at: "res = Again RelayNotStdin" if "I a k1" "deliver_attempt env (qm_msg q) k1 = (k2, res)" "res \<noteq> Blocked" for a k1 k2 res
    using that deliver_attempt_cases(7) [OF that(2,3)] assms(1) by (simp add: I_def same_core_def)
  have "(\<exists>a k0. 0 \<le> a \<and> a < 3 \<and> I a k0 \<and> deliver_attempt env (qm_msg q) k0 = (k', Returned r)) \<or>
      (\<exists>a. I a k' \<and> a \<le> max 3 (qm_attempts q) \<and> r \<noteq> None)"
  proof (rule retry_rule)
    show "retry_loop fuel env (deliver_attempt env) q k = Some (k', q', r)"
      using assms(3) by (simp add: deliverMessageWithRetry_def)
    show "I (a + 1) k2" if "I a k1" "deliver_attempt env (qm_msg q) k1 = (k2, Again e)" for a k1 k2 e
      using that(1) deliver_attempt_cases(1) [OF that(2) attempt_result.distinct(5)] same_trans(1) [of k k1 k2] by (auto simp: I_def)
  qed (use assms(2) in \<open>auto simp: I_def same_core_def\<close>)
  then have "r \<noteq> None" using at by blast
  then show ?thesis using deliver_result [OF assms(3)] assms(2) by simp
qed

subsection \<open>What reaches the agent and the bus\<close>

text \<open>The states of a started relay: messages from the bus and from the agent, rounds of the two
  relaying goroutines, and health checks, in any order.\<close>

inductive relay_reachable :: "'s keeper_env \<Rightarrow> 's keeper \<Rightarrow> 's keeper \<Rightarrow> bool" for env :: "'s keeper_env" and k0 :: "'s keeper" where
  relay_start: "relay_reachable env k0 k0"
| relay_inbound: "relay_reachable env k0 k \<Longrightarrow> relay_reachable env k0 (fst (handleInboundMessage env bm k))"
| relay_agent: "relay_reachable env k0 k \<Longrightarrow> relay_reachable env k0 (fst (PublishAgentMessage msg k))"
| relay_deliver: "relay_reachable env k0 k \<Longrightarrow> deliver_next fuel env k = Some k' \<Longrightarrow> relay_reachable env k0 k'"
| relay_publish: "relay_reachable env k0 k \<Longrightarrow> publish_next fuel env k = Some k' \<Longrightarrow> relay_reachable env k0 k'"
| relay_health: "relay_reachable env k0 k \<Longrightarrow> relay_reachable env k0 (checkHealth err env l k)"

definition queue_ok :: "(wmsg \<Rightarrow> bool) \<Rightarrow> message_queue option \<Rightarrow> bool" where
  "queue_ok P q \<longleftrightarrow> (\<exists>q'. q = Some q' \<and> mq_maxSize q' = 1000 \<and> length (mq_queue q') \<le> 1000 \<and>
    (\<forall>x \<in> set (mq_queue q'). qm_attempts x = 0 \<and> P (qm_msg x)))"

definition agent_message :: "'s keeper \<Rightarrow> wmsg \<Rightarrow> bool" where
  "agent_message k m \<longleftrightarrow> wg_Validate m = None \<and> wg_DestAgentID m = kp_agentID k"

definition published_ok :: "'s keeper_env \<Rightarrow> 's keeper \<Rightarrow> string \<times> message \<times> bool \<Rightarrow> bool" where
  "published_ok env k c \<longleftrightarrow> (\<exists>m p b. wg_SourceAgentID m = kp_agentID k \<and> publishable env k m p \<and>
    c = (determineTopic k m, bus_message k p m, b))"

definition relay_inv :: "'s keeper_env \<Rightarrow> 's keeper \<Rightarrow> 's keeper \<Rightarrow> bool" where
  "relay_inv env k0 k \<longleftrightarrow> same_core k0 k \<and> queue_ok (agent_message k0) (kp_inbound k) \<and>
    queue_ok (\<lambda>m. wg_SourceAgentID m = kp_agentID k0) (kp_outbound k) \<and>
    (\<forall>m \<in> set (kp_delivered k). agent_message k0 m) \<and> (\<forall>c \<in> set (kp_bus k). published_ok env k0 c)"

lemma queue_ok_enqueue: "queue_ok P (Some q) \<Longrightarrow> enqueue m q = Some q' \<Longrightarrow> P m \<Longrightarrow> queue_ok P (Some q')"
  by (auto simp: queue_ok_def enqueue_def split: if_splits)

lemma queue_ok_dequeue:
  "queue_ok P (Some q) \<Longrightarrow> dequeue q = Some (x, q') \<Longrightarrow> queue_ok P (Some q') \<and> qm_attempts x = 0 \<and> P (qm_msg x)"
  by (auto simp: queue_ok_def dequeue_def split: list.splits)

lemma relay_inv_traffic:
  assumes "relay_inv env k0 k" and "same_core k k'" and "same_traffic k k'"
  shows "relay_inv env k0 k'"
  using assms same_trans(1) [of k0 k k'] by (simp add: relay_inv_def same_traffic_def)

lemma rate_check_same:
  "rate_check env k = (k1, ok) \<Longrightarrow> same_core k k1 \<and> same_traffic k k1"
  by (auto simp: rate_check_def same_defs Let_def split: option.splits prod.splits)

lemma reject_limited_same:
  "reject_limited env bm k = (k1, e) \<Longrightarrow> same_core k k1 \<and> same_traffic k k1 \<and> e \<noteq> None"
  by (auto simp: reject_limited_def same_defs Let_def split: option.splits)

lemma accept_inbound_cases:
  assumes "accept_inbound env bm k = (k', r)"
  shows "same_core k k' \<and>
    ((same_traffic k k' \<and> r \<noteq> None) \<or>
     (\<exists>m q q'. DecodeMessage (ke_dec env) (msg_Payload bm) = Inr m \<and> kp_inbound k = Some q \<and>
       enqueue (m\<lparr>wg_DestAgentID := kp_agentID k\<rparr>) q = Some q' \<and> kp_inbound k' = Some q' \<and>
       kp_outbound k' = kp_outbound k \<and> kp_delivered k' = kp_delivered k \<and> kp_bus k' = kp_bus k \<and> r = None))"
proof (cases "DecodeMessage (ke_dec env) (msg_Payload bm)")
  case (Inl e)
  then show ?thesis using assms by (auto simp: accept_inbound_def same_defs)
next
  case (Inr m)
  show ?thesis
  proof (cases "kp_inbound k")
    case None
    then show ?thesis using assms Inr by (auto simp: accept_inbound_def same_defs log_event_def Let_def)
  next
    case (Some q)
    then show ?thesis using assms Inr
      by (cases "enqueue (m\<lparr>wg_DestAgentID := kp_agentID k\<rparr>) q")
        (auto simp: accept_inbound_def same_defs log_event_def Let_def)
  qed
qed

lemma relay_inv_inbound:
  assumes "relay_inv env k0 k"
  shows "relay_inv env k0 (fst (handleInboundMessage env bm k))"
proof -
  obtain k1 ok where r: "rate_check env k = (k1, ok)" by (metis surj_pair)
  have k1: "relay_inv env k0 k1" using relay_inv_traffic [OF assms] rate_check_same [OF r] by blast
  show ?thesis
  proof (cases ok)
    case False
    obtain k2 e where j: "reject_limited env bm k1 = (k2, e)" by (metis surj_pair)
    show ?thesis using relay_inv_traffic [OF k1] reject_limited_same [OF j] False r j
      by (simp add: handleInboundMessage_def)
  next
    case True
    obtain k2 e where a: "accept_inbound env bm k1 = (k2, e)" by (metis surj_pair)
    note c = accept_inbound_cases [OF a]
    have "relay_inv env k0 k2"
    proof (cases "e = None")
      case False
      then show ?thesis using c relay_inv_traffic [OF k1] by blast
    next
      case True
      then obtain m q q' where m: "DecodeMessage (ke_dec env) (msg_Payload bm) = Inr m" "kp_inbound k1 = Some q"
        "enqueue (m\<lparr>wg_DestAgentID := kp_agentID k1\<rparr>) q = Some q'" "kp_inbound k2 = Some q'"
        "kp_outbound k2 = kp_outbound k1" "kp_delivered k2 = kp_delivered k1" "kp_bus k2 = kp_bus k1" "same_core k1 k2"
        using c by auto
      have "agent_message k0 (m\<lparr>wg_DestAgentID := kp_agentID k1\<rparr>)"
        using m(1) k1 by (simp add: agent_message_def DecodeMessage_Inr wg_Validate_None relay_inv_def same_core_def)
      from queue_ok_enqueue [where P = "agent_message k0", OF _ m(3) this] show ?thesis
        using k1 m same_trans(1) [of k0 k1 k2] by (auto simp: relay_inv_def)
    qed
    then show ?thesis using True r a by (simp add: handleInboundMessage_def)
  qed
qed

lemma relay_inv_agent:
  assumes "relay_inv env k0 k"
  shows "relay_inv env k0 (fst (PublishAgentMessage msg k))"
proof -
  obtain q where q: "kp_outbound k = Some q" using assms by (auto simp: relay_inv_def queue_ok_def)
  show ?thesis
  proof (cases "enqueue (msg\<lparr>wg_SourceAgentID := kp_agentID k\<rparr>) q")
    case None
    then show ?thesis using assms q by (simp add: PublishAgentMessage_def)
  next
    case (Some q')
    have "queue_ok (\<lambda>m. wg_SourceAgentID m = kp_agentID k0) (Some q')"
      by (rule queue_ok_enqueue [OF _ Some]) (use assms q in \<open>simp_all add: relay_inv_def same_core_def\<close>)
    then show ?thesis using assms q Some by (simp add: PublishAgentMessage_def relay_inv_def same_core_def)
  qed
qed

lemma relay_inv_deliver:
  assumes "relay_inv env k0 k" and "deliver_next fuel env k = Some k'"
  shows "relay_inv env k0 k'"
proof (cases "Option.bind (kp_inbound k) dequeue")
  case None
  then show ?thesis using assms by (simp add: deliver_next_def)
next
  case (Some xq)
  then obtain x q q0 where x: "xq = (x, q)" "kp_inbound k = Some q0" "dequeue q0 = Some (x, q)"
    by (cases xq) (auto simp: bind_eq_Some_conv)
  have ok: "queue_ok (agent_message k0) (Some q)" "qm_attempts x = 0" "agent_message k0 (qm_msg x)"
    using queue_ok_dequeue [OF _ x(3)] assms(1) x(2) by (auto simp: relay_inv_def)
  obtain q' r where d: "deliverMessageWithRetry fuel env x (k\<lparr>kp_inbound := Some q\<rparr>) = Some (k', q', r)"
    using assms(2) Some x(1) by (auto simp: deliver_next_def)
  show ?thesis using deliver_result [OF d] ok assms(1)
    by (auto simp: relay_inv_def same_core_def)
qed

lemma relay_inv_publish:
  assumes "relay_inv env k0 k" and "publish_next fuel env k = Some k'"
  shows "relay_inv env k0 k'"
proof (cases "Option.bind (kp_outbound k) dequeue")
  case None
  then show ?thesis using assms by (simp add: publish_next_def)
next
  case (Some xq)
  then obtain x q q0 where x: "xq = (x, q)" "kp_outbound k = Some q0" "dequeue q0 = Some (x, q)"
    by (cases xq) (auto simp: bind_eq_Some_conv)
  let ?k = "k\<lparr>kp_outbound := Some q\<rparr>"
  have ok: "queue_ok (\<lambda>m. wg_SourceAgentID m = kp_agentID k0) (Some q)" "qm_attempts x = 0"
    "wg_SourceAgentID (qm_msg x) = kp_agentID k0"
    using queue_ok_dequeue [OF _ x(3)] assms(1) x(2) by (auto simp: relay_inv_def)
  obtain q' r where d: "publishMessageWithRetry fuel env x ?k = Some (k', q', r)"
    using assms(2) Some x(1) by (auto simp: publish_next_def)
  have core: "same_core k0 ?k" using assms(1) by (simp add: relay_inv_def same_core_def)
  from publish_result [OF d ok(2)] obtain n p where r: "same_core ?k k'" "kp_inbound k' = kp_inbound k"
    "kp_outbound k' = Some q" "kp_delivered k' = kp_delivered k"
    "kp_bus k' = kp_bus k @ calls ?k (qm_msg x) p n (r = None)" "0 < n \<or> r = None \<longrightarrow> publishable env ?k (qm_msg x) p"
    by (auto simp: publish_done_def)
  have "published_ok env k0 c" if "c \<in> set (calls ?k (qm_msg x) p n (r = None))" for c
  proof -
    have "0 < n \<or> r = None" using that by (auto simp: calls_def split: if_splits)
    then have "publishable env k0 (qm_msg x) p" using r(6) same_core_publish(3) [OF core] by simp
    moreover have "\<exists>b. c = (determineTopic k0 (qm_msg x), bus_message k0 p (qm_msg x), b)"
      using that same_core_publish(1,2) [OF core] by (auto simp: calls_def split: if_splits)
    ultimately show ?thesis using ok(3) by (auto simp: published_ok_def)
  qed
  then show ?thesis using assms(1) r(2-5) ok(1) same_trans(1) [OF core r(1)] by (auto simp: relay_inv_def)
qed

lemma checkHealth_same: "same_core k (checkHealth err env l k)" "same_traffic k (checkHealth err env l k)"
proof -
  have one: "checkHealth err env l k = (case kp_process k of None \<Rightarrow> set_health env False ''process not running'' k
      | Some pid \<Rightarrow> set_health env False (''process check failed: '' @ err) k)"
    by (simp add: checkHealth_def proc_signal_def split: option.splits)
  show "same_core k (checkHealth err env l k)" "same_traffic k (checkHealth err env l k)"
    unfolding one by (auto simp: set_health_def same_defs split: option.splits)
qed

lemma relay_reachable_inv:
  assumes "relay_reachable env k0 k" and "relay_inv env k0 k0"
  shows "relay_inv env k0 k"
  using assms(1)
proof induction
  case (relay_health k err l)
  then show ?case using relay_inv_traffic checkHealth_same by blast
qed (use assms(2) relay_inv_inbound relay_inv_agent relay_inv_deliver relay_inv_publish in blast)+

text \<open>C9: What a relay lets through.  From the start of a relay, whatever messages come from the bus
  and from the agent, and however the relaying goroutines and the health checks interleave:
  its two queues never hold more than a thousand messages; the agent is only handed messages
  that are valid and addressed to it; and whatever the bus is called with is a message of the
  agent that the output schema accepts, with the agent as its source, on a topic of the
  agent's own cell.\<close>

theorem relay_lets_through:
  assumes start: "k0 = fst (StartMessageRelay (Some subscribe) agentID k00)" "kp_delivered k00 = []" "kp_bus k00 = []"
    and run: "relay_reachable env k0 k"
  shows "(\<exists>q. kp_inbound k = Some q \<and> length (mq_queue q) \<le> 1000) \<and>
    (\<exists>q. kp_outbound k = Some q \<and> length (mq_queue q) \<le> 1000) \<and>
    (\<forall>m \<in> set (kp_delivered k). wg_Validate m = None \<and> wg_DestAgentID m = agentID) \<and>
    (\<forall>(topic, bm, ok) \<in> set (kp_bus k). (\<exists>base. topic = PrefixTopic (k_ns k00) base) \<and> msg_Source bm = agentID \<and>
      (\<exists>m. ke_enc env m = Some (msg_Payload bm) \<and> wg_SourceAgentID m = agentID \<and> wg_ID m = msg_ID bm \<and>
        (\<forall>v. kp_validator k00 = Some v \<longrightarrow> ov_Validate (ke_unmarshal env) (ke_check env) v (wg_Payload m) = None)))"
proof -
  have k0: "kp_agentID k0 = agentID" "k_ns k0 = k_ns k00" "kp_validator k0 = kp_validator k00"
    by (simp_all add: start(1) StartMessageRelay_def)
  have "relay_inv env k0 k0"
    by (simp add: start StartMessageRelay_def relay_inv_def same_core_def queue_ok_def newMessageQueue_def)
  then have inv: "relay_inv env k0 k" by (rule relay_reachable_inv [OF run])
  have bus: "(\<exists>base. topic = PrefixTopic (k_ns k00) base) \<and> msg_Source bm = agentID \<and>
      (\<exists>m. ke_enc env m = Some (msg_Payload bm) \<and> wg_SourceAgentID m = agentID \<and> wg_ID m = msg_ID bm \<and>
        (\<forall>v. kp_validator k00 = Some v \<longrightarrow> ov_Validate (ke_unmarshal env) (ke_check env) v (wg_Payload m) = None))"
    if b: "(topic, bm, ok) \<in> set (kp_bus k)" for topic bm ok
  proof -
    obtain m p where m: "wg_SourceAgentID m = agentID" "publishable env k0 m p" "topic = determineTopic k0 m"
      "bm = bus_message k0 p m"
    proof -
      have "published_ok env k0 (topic, bm, ok)" using inv b by (simp add: relay_inv_def)
      then show thesis using k0 by (auto simp: published_ok_def intro: that)
    qed
    have "\<exists>base. topic = PrefixTopic (k_ns k00) base" using m(3) k0(2) by (auto simp: determineTopic_def)
    then show ?thesis using m k0 by (auto simp: publishable_def bus_message_def intro!: exI [of _ m])
  qed
  show ?thesis using inv bus k0 by (auto simp: relay_inv_def queue_ok_def agent_message_def)
qed

lemma relay_lets_through_witness:
  "\<exists>k. relay_reachable (sample_keeper_env 0) sample_keeper k \<and> length (kp_bus k) = 1 \<and>
    (\<forall>(topic, bm, ok) \<in> set (kp_bus k). msg_Source bm = ''a1'')"
proof -
  let ?env = "sample_keeper_env 0"
  define k1 where "k1 = fst (PublishAgentMessage one_message sample_keeper)"
  define out where "out = publish_next 2 ?env k1"
  have "map_option (\<lambda>k. length (kp_bus k)) out = Some 1" unfolding out_def k1_def by code_simp
  then obtain k where k: "out = Some k" "length (kp_bus k) = 1" by auto
  have r: "relay_reachable ?env sample_keeper k"
    by (rule relay_publish [OF relay_agent [OF relay_start]]) (use k(1) in \<open>simp add: out_def k1_def\<close>)
  have start: "sample_keeper = fst (StartMessageRelay (Some (\<lambda>_. True)) ''a1'' sample_keeper)"
    by (simp add: sample_keeper_def StartMessageRelay_def)
  have "kp_delivered sample_keeper = []" "kp_bus sample_keeper = []"
    by (simp_all add: sample_keeper_def StartMessageRelay_def NewKeeper_def Let_def)
  from relay_lets_through [OF start this r] show ?thesis using k(2) r by blast
qed

end
