(* ===== verification/Queen.thy ===== *)
theory Queen
  imports Autoscaler Warm_Pool Circuit_Breaker Notifications
begin

text \<open>
  Package \<open>internal/queen\<close>: the orchestrator that reconciles agent specifications with drones, over
  the store, scheduler and launcher of \<open>Platform\<close>, the autoscaler, the warm pools and the
  table of circuit breakers; and the leader election, which is a stub in the source.

  The channel that triggers a reconciliation holds one element: \<open>qn_trigger\<close>.  Filling warm
  pools is the fuelled loop of \<open>Warm_Pool\<close>, so a pass returns an option.
\<close>

section \<open>State\<close>

record queen =
  qn_autoscaler :: "autoscaler option"
  qn_metrics :: collector
  qn_warmPool :: "warm_manager option"
  qn_droneReg :: "string \<rightharpoonup> agent_process"
  qn_breakers :: cb_manager
  qn_trigger :: bool
  qn_audit :: "audit_event list"

definition NewQueen :: "autoscaler option \<Rightarrow> collector \<Rightarrow> warm_manager option \<Rightarrow> queen" where
  "NewQueen autoscaler metrics warmPool =
    \<lparr>qn_autoscaler = autoscaler, qn_metrics = metrics, qn_warmPool = warmPool, qn_droneReg = Map.empty,
     qn_breakers = cbm_NewManager \<lparr>FailureThreshold = 0, ResetTimeout = 0, MaxFailures = 0\<rparr>,
     qn_trigger = False, qn_audit = []\<rparr>"

datatype queen_error =
    QuotaExceeded int string
  | QSchedulingFailed schedule_error
  | QLaunchFailed launch_error
  | QStoreFailed store_error
  | QNotDrone
  | QNilSpec

definition queen_log :: "audit_event \<Rightarrow> queen \<Rightarrow> queen" where
  "queen_log e q = q\<lparr>qn_audit := qn_audit q @ [e]\<rparr>"

section \<open>Creating and deleting drones\<close>

text \<open>The cell is looked up by the name of the namespace, without a namespace of its own.\<close>

definition quota_reached :: "'d world_env \<Rightarrow> string \<Rightarrow> 'd world \<Rightarrow> int option" where
  "quota_reached env namespace w =
    (case w_Get env ''Cell'' namespace '''' w of
       Inr (RCell cell) \<Rightarrow>
         (let limit = rq_MaxTotalDrones (ce_ResourceQuota (cl_Spec cell))
          in if limit > 0 \<and> int (length (w_List env ''Drone'' namespace None w)) \<ge> limit then Some limit else None)
     | _ \<Rightarrow> None)"

text \<open>The drone has the fields of the autoscaler's \<open>scaled_drone\<close>.\<close>

definition createDrone :: "'d world_env \<Rightarrow> agent_spec \<Rightarrow> queen \<Rightarrow> 'd world \<Rightarrow> queen \<times> 'd world \<times> queen_error option" where
  "createDrone env spec q w =
    (case quota_reached env (GetNamespace (RAgentSpec spec)) w of
       Some limit \<Rightarrow> (q, w, Some (QuotaExceeded limit (GetNamespace (RAgentSpec spec))))
     | None \<Rightarrow>
        (case w_Schedule spec w of
           (w, Inl e) \<Rightarrow> (q, w, Some (QSchedulingFailed e))
         | (w, Inr _) \<Rightarrow>
            (case w_Launch env spec w of
               (w, Inl e) \<Rightarrow> (q, w, Some (QLaunchFailed e))
             | (w, Inr process) \<Rightarrow>
                (let (w, now) = w_now env w;
                     drone = scaled_drone spec (ap_ID process) now
                 in case w_Create env drone w of
                      (w, Some e) \<Rightarrow> (q, fst (w_Stop (ap_ID process) w), Some (QStoreFailed e))
                    | (w, None) \<Rightarrow>
                       (queen_log (LogResource EventTypeResourceCreate ''Drone'' (GetName drone) (GetNamespace drone)
                          [(''agentSpec'', DStr (GetName (RAgentSpec spec))), (''uid'', DStr (GetUID drone))])
                          (q\<lparr>qn_droneReg := (qn_droneReg q)(GetUID drone \<mapsto> process)\<rparr>), w, None)))))"

text \<open>A drone stored without a specification makes the audit entry dereference nil, after the
  drone has been deleted: \<open>QNilSpec\<close>.\<close>

definition deleteDrone :: "'d world_env \<Rightarrow> drone \<Rightarrow> queen \<Rightarrow> 'd world \<Rightarrow> queen \<times> 'd world \<times> queen_error option" where
  "deleteDrone env d q w =
    (let uid = GetUID (RDrone d);
         (q, w) = (case qn_droneReg q uid of
             None \<Rightarrow> (q, w)
           | Some process \<Rightarrow> (q\<lparr>qn_droneReg := (qn_droneReg q)(uid := None)\<rparr>, fst (w_Stop (ap_ID process) w)));
         q = q\<lparr>qn_breakers := cbm_Remove uid (qn_breakers q)\<rparr>
     in case w_Delete env ''Drone'' (GetName (RDrone d)) (GetNamespace (RDrone d)) w of
          (w, Some e) \<Rightarrow> (q, w, Some (QStoreFailed e))
        | (w, None) \<Rightarrow>
           (case dr_Spec d of
              None \<Rightarrow> (q, w, Some QNilSpec)
            | Some spec \<Rightarrow>
               (queen_log (LogResource EventTypeResourceDelete ''Drone'' (GetName (RDrone d)) (GetNamespace (RDrone d))
                  [(''agentSpec'', DStr (GetName (RAgentSpec spec))), (''uid'', DStr uid)]) q, w, None)))"

fun create_drones :: "'d world_env \<Rightarrow> agent_spec \<Rightarrow> nat \<Rightarrow> queen \<Rightarrow> 'd world \<Rightarrow> queen \<times> 'd world" where
  "create_drones env spec 0 q w = (q, w)"
| "create_drones env spec (Suc n) q w =
    (let (q, w, _) = createDrone env spec q w in create_drones env spec n q w)"

text \<open>A resource that is not a drone is skipped, though it counts.\<close>

fun delete_drones :: "'d world_env \<Rightarrow> resource list \<Rightarrow> queen \<Rightarrow> 'd world \<Rightarrow> queen \<times> 'd world" where
  "delete_drones env [] q w = (q, w)"
| "delete_drones env (r # rs) q w =
    (case r of
       RDrone d \<Rightarrow> (let (q, w, _) = deleteDrone env d q w in delete_drones env rs q w)
     | _ \<Rightarrow> delete_drones env rs q w)"

section \<open>Reconciliation\<close>

definition drones_of :: "'d world_env \<Rightarrow> agent_spec \<Rightarrow> 'd world \<Rightarrow> resource list" where
  "drones_of env spec w =
    w_List env ''Drone'' (GetNamespace (RAgentSpec spec)) (Some [(''agentspec'', GetName (RAgentSpec spec))]) w"

definition uses_autoscaler :: "agent_spec \<Rightarrow> bool" where
  "uses_autoscaler spec \<longleftrightarrow>
    (let s = ss_Scaling (as_Spec spec) in sc_MinReplicas s > 0 \<or> sc_MaxReplicas s > 0 \<or> sc_TargetLatencyMs s > 0)"

definition scaling_detail :: "(string \<times> detail) list" where
  "scaling_detail = [(''reason'', DStr ''reconciliation'')]"

text \<open>What is done when the numbers of drones, current and desired, are known.\<close>

definition adjust_drones :: "'d world_env \<Rightarrow> agent_spec \<Rightarrow> resource list \<Rightarrow> int \<Rightarrow> queen \<Rightarrow> 'd world \<Rightarrow> queen \<times> 'd world" where
  "adjust_drones env spec drones desired q w =
    (let current = int (length drones); ns = GetNamespace (RAgentSpec spec); name = GetName (RAgentSpec spec);
         (q, w) = (if current < desired
           then create_drones env spec (nat (desired - current))
                  (queen_log (LogScaling EventTypeScalingUp ns name current desired scaling_detail) q) w
           else (q, w))
     in if current > desired
        then delete_drones env (take (nat (current - desired)) drones)
               (queen_log (LogScaling EventTypeScalingDown ns name current desired scaling_detail) q) w
        else (q, w))"

definition reconcileAgentSpec :: "'d world_env \<Rightarrow> agent_spec \<Rightarrow> queen \<Rightarrow> 'd world \<Rightarrow> queen \<times> 'd world" where
  "reconcileAgentSpec env spec q w =
    (let drones = drones_of env spec w
     in case (if uses_autoscaler spec then qn_autoscaler q else None) of
          Some a \<Rightarrow>
            (let (a, c, w, _) = EvaluateAndScale env spec (int (length drones)) a (qn_metrics q) w;
                 drones = drones_of env spec w
             in adjust_drones env spec drones (int (length drones))
                  (q\<lparr>qn_autoscaler := Some a, qn_metrics := c\<rparr>) w)
        | None \<Rightarrow>
            (let minReplicas = sc_MinReplicas (ss_Scaling (as_Spec spec))
             in adjust_drones env spec drones (if minReplicas > 0 then minReplicas else 1) q w))"

fun ensure_stages :: "nat \<Rightarrow> 'd world_env \<Rightarrow> (nat \<Rightarrow> warm_pool \<Rightarrow> warm_pool) \<Rightarrow> string \<Rightarrow> int \<Rightarrow> stage list \<Rightarrow>
    warm_manager \<Rightarrow> 'd world \<Rightarrow> (warm_manager \<times> 'd world) option" where
  "ensure_stages fuel env meanwhile ns minSize [] m w = Some (m, w)"
| "ensure_stages fuel env meanwhile ns minSize (st # sts) m w =
    (case w_Get env ''AgentSpec'' (st_AgentRef st) ns w of
       Inr (RAgentSpec spec) \<Rightarrow>
         (case EnsurePool fuel env meanwhile spec minSize m w of
            None \<Rightarrow> None
          | Some (m, w, _) \<Rightarrow> ensure_stages fuel env meanwhile ns minSize sts m w)
     | _ \<Rightarrow> ensure_stages fuel env meanwhile ns minSize sts m w)"

definition reconcileHiveWarmPool :: "nat \<Rightarrow> 'd world_env \<Rightarrow> (nat \<Rightarrow> warm_pool \<Rightarrow> warm_pool) \<Rightarrow> hive \<Rightarrow>
    warm_manager \<Rightarrow> 'd world \<Rightarrow> (warm_manager \<times> 'd world) option" where
  "reconcileHiveWarmPool fuel env meanwhile h m w =
    (if hi_PoolMode (hv_Spec h) \<noteq> ''warm'' \<and> hi_PoolMode (hv_Spec h) \<noteq> ''hybrid'' then Some (m, w)
     else ensure_stages fuel env meanwhile (GetNamespace (RHive h))
       (if hi_WarmPoolSize (hv_Spec h) = 0 then 1 else hi_WarmPoolSize (hv_Spec h)) (hi_Stages (hv_Spec h)) m w)"

fun reconcile_hives :: "nat \<Rightarrow> 'd world_env \<Rightarrow> (nat \<Rightarrow> warm_pool \<Rightarrow> warm_pool) \<Rightarrow> resource list \<Rightarrow>
    warm_manager \<Rightarrow> 'd world \<Rightarrow> (warm_manager \<times> 'd world) option" where
  "reconcile_hives fuel env meanwhile [] m w = Some (m, w)"
| "reconcile_hives fuel env meanwhile (r # rs) m w =
    (case r of
       RHive h \<Rightarrow>
         (case reconcileHiveWarmPool fuel env meanwhile h m w of
            None \<Rightarrow> None
          | Some (m, w) \<Rightarrow> reconcile_hives fuel env meanwhile rs m w)
     | _ \<Rightarrow> reconcile_hives fuel env meanwhile rs m w)"

fun reconcile_specs :: "'d world_env \<Rightarrow> resource list \<Rightarrow> queen \<Rightarrow> 'd world \<Rightarrow> queen \<times> 'd world" where
  "reconcile_specs env [] q w = (q, w)"
| "reconcile_specs env (r # rs) q w =
    (case r of
       RAgentSpec spec \<Rightarrow> (let (q, w) = reconcileAgentSpec env spec q w in reconcile_specs env rs q w)
     | _ \<Rightarrow> reconcile_specs env rs q w)"

definition performReconciliation :: "nat \<Rightarrow> 'd world_env \<Rightarrow> (nat \<Rightarrow> warm_pool \<Rightarrow> warm_pool) \<Rightarrow> queen \<Rightarrow> 'd world \<Rightarrow>
    (queen \<times> 'd world) option" where
  "performReconciliation fuel env meanwhile q w =
    (case (case qn_warmPool q of
             None \<Rightarrow> Some (q, w)
           | Some m \<Rightarrow> map_option (\<lambda>(m, w). (q\<lparr>qn_warmPool := Some m\<rparr>, w))
               (reconcile_hives fuel env meanwhile (w_List env ''Hive'' '''' None w) m w)) of
       None \<Rightarrow> None
     | Some (q, w) \<Rightarrow> Some (reconcile_specs env (w_List env ''AgentSpec'' '''' None w) q w))"

section \<open>Queries, triggers and breakers\<close>

definition GetDroneStatus :: "'d world_env \<Rightarrow> string \<Rightarrow> 'd world \<Rightarrow> queen_error + drone_status" where
  "GetDroneStatus env droneID w =
    (case w_Get env ''Drone'' droneID '''' w of
       Inl e \<Rightarrow> Inl (QStoreFailed e)
     | Inr (RDrone d) \<Rightarrow> Inr (dr_Status d)
     | Inr _ \<Rightarrow> Inl QNotDrone)"

definition ListDrones :: "'d world_env \<Rightarrow> string \<Rightarrow> labels option \<Rightarrow> queen \<Rightarrow> 'd world \<Rightarrow> drone list" where
  "ListDrones env namespace selector q w =
    concat (map (\<lambda>r. case r of
        RDrone d \<Rightarrow> if cbm_IsOpen (GetUID r) (qn_breakers q) then [] else [d]
      | _ \<Rightarrow> []) (w_List env ''Drone'' namespace selector w))"

definition GetAvailableDrones :: "'d world_env \<Rightarrow> string \<Rightarrow> labels option \<Rightarrow> queen \<Rightarrow> 'd world \<Rightarrow> drone list" where
  "GetAvailableDrones env namespace selector q w = ListDrones env namespace selector q w"

definition RecordDroneFailure :: "time \<Rightarrow> string \<Rightarrow> queen \<Rightarrow> queen" where
  "RecordDroneFailure now droneID q = q\<lparr>qn_breakers := cbm_RecordFailure now droneID (qn_breakers q)\<rparr>"

definition RecordDroneSuccess :: "string \<Rightarrow> queen \<Rightarrow> queen" where
  "RecordDroneSuccess droneID q = q\<lparr>qn_breakers := cbm_RecordSuccess droneID (qn_breakers q)\<rparr>"

text \<open>An event of the watch triggers without blocking; \<open>Reconcile\<close> blocks while a trigger is
  pending: it returns \<open>None\<close> then, and the caller waits.  A round of the loop takes the trigger.\<close>

definition watch_event :: "queen \<Rightarrow> queen" where
  "watch_event q = q\<lparr>qn_trigger := True\<rparr>"

definition Reconcile :: "queen \<Rightarrow> queen option" where
  "Reconcile q = (if qn_trigger q then None else Some (q\<lparr>qn_trigger := True\<rparr>))"

definition reconciliation_round :: "nat \<Rightarrow> 'd world_env \<Rightarrow> (nat \<Rightarrow> warm_pool \<Rightarrow> warm_pool) \<Rightarrow> bool \<Rightarrow> queen \<Rightarrow> 'd world \<Rightarrow>
    (queen \<times> 'd world) option" where
  "reconciliation_round fuel env meanwhile tick q w =
    (if qn_trigger q \<and> \<not> tick then performReconciliation fuel env meanwhile (q\<lparr>qn_trigger := False\<rparr>) w
     else if tick then performReconciliation fuel env meanwhile q w
     else Some (q, w))"

section \<open>Leader election\<close>

record etcd_elector =
  le_endpoints :: "string list"
  le_key :: string
  le_leaseTTL :: int
  le_isLeader :: bool
  le_stopped :: bool

datatype elector = NoOpElector bool | EtcdElector etcd_elector

definition NewLeaderElector :: "string list \<Rightarrow> string \<Rightarrow> int \<Rightarrow> elector" where
  "NewLeaderElector endpoints key leaseTTL =
    (if endpoints = [] then NoOpElector True
     else EtcdElector \<lparr>le_endpoints = endpoints, le_key = (if key = '''' then ''/apiary/leader'' else key),
       le_leaseTTL = (if leaseTTL = 0 then 30 else leaseTTL), le_isLeader = False, le_stopped = False\<rparr>)"

text \<open>\<open>True\<close> when it starts; with etcd it always fails.\<close>

fun elector_Start :: "elector \<Rightarrow> bool" where
  "elector_Start (NoOpElector b) = True"
| "elector_Start (EtcdElector e) = False"

fun elector_Stop :: "elector \<Rightarrow> elector" where
  "elector_Stop (NoOpElector b) = NoOpElector b"
| "elector_Stop (EtcdElector e) = EtcdElector (e\<lparr>le_stopped := True\<rparr>)"

fun IsLeader :: "elector \<Rightarrow> bool" where
  "IsLeader (NoOpElector b) = b"
| "IsLeader (EtcdElector e) = le_isLeader e"

lemma leader_iff_no_endpoints:
  "IsLeader ((elector_Stop ^^ n) (NewLeaderElector endpoints key ttl)) \<longleftrightarrow> endpoints = []"
  "elector_Start (NewLeaderElector endpoints key ttl) \<longleftrightarrow> endpoints = []"
proof -
  have "IsLeader ((elector_Stop ^^ n) e) = IsLeader e" for e
  proof (induction n)
    case (Suc n)
    have "IsLeader (elector_Stop x) = IsLeader x" for x by (cases x) simp_all
    then show ?case using Suc by simp
  qed simp
  then show "IsLeader ((elector_Stop ^^ n) (NewLeaderElector endpoints key ttl)) \<longleftrightarrow> endpoints = []"
    by (simp add: NewLeaderElector_def)
qed (simp add: NewLeaderElector_def)

section \<open>What the queen never sees\<close>

lemma create_global_list:
  assumes "world_ok env" and "plain (GetNamespace r)" "GetNamespace r \<noteq> ''''" "plain kind" "GetNamespace r \<noteq> kind"
    and "w_List env kind '''' None w = []"
  shows "w_List env kind '''' None (fst (w_Create env r w)) = []"
proof -
  obtain w' e where c: "w_Create env r w = (w', e)" by (metis surj_pair)
  then obtain r' s' where s: "store_Create (we_store env) (we_uuid env (w_tick w)) (we_now env (w_tick w))
      (we_rnd env (w_tick w)) r (w_store w) = (r', s', e)" "w_store w' = s'" by (rule w_Create_cases)
  have "set (store_List (we_store env) kind '''' None s') = set (store_List (we_store env) kind '''' None (w_store w))"
  proof (cases e)
    case None
    show ?thesis using create_keeps_global_list [OF _ s(1) [unfolded None]] assms(1-5) by (simp add: world_ok_def)
  next
    case (Some x)
    then show ?thesis using store_Create_fail [OF s(1) [unfolded Some]] by (simp add: store_List_def)
  qed
  then show ?thesis using assms(6) c s(2) by (simp add: w_List_def)
qed

definition create_all :: "'d world_env \<Rightarrow> resource list \<Rightarrow> 'd world \<Rightarrow> 'd world" where
  "create_all env rs w = fold (\<lambda>r w. fst (w_Create env r w)) rs w"

text \<open>Namespaces of cells, as the API accepts them, are never those of the store's own kinds.\<close>

definition in_cell :: "resource \<Rightarrow> bool" where
  "in_cell r \<longleftrightarrow> plain (GetNamespace r) \<and> GetNamespace r \<noteq> '''' \<and> GetNamespace r \<notin> {''Hive'', ''AgentSpec''}"

text \<open>C35: The queen reconciles nothing that lives in a cell.  From a store without hives and agent
  specifications outside all cells, whatever resources are created in cells, a pass of the
  queen changes neither the queen nor the world: no drone is started, stopped or counted.  It
  lists with an empty namespace, which it takes for all of them.\<close>

theorem queen_ignores_cells:
  assumes "world_ok env" and "\<forall>r \<in> set rs. in_cell r"
    and "w_List env ''Hive'' '''' None w = []" and "w_List env ''AgentSpec'' '''' None w = []"
  shows "performReconciliation fuel env meanwhile q (create_all env rs w) = Some (q, create_all env rs w)"
proof -
  have p: "plain ''Hive''" "plain ''AgentSpec''" by (simp_all add: plain_def)
  have "w_List env ''Hive'' '''' None (create_all env rs w) = [] \<and>
      w_List env ''AgentSpec'' '''' None (create_all env rs w) = []"
    using assms(2-4) unfolding create_all_def
  proof (induction rs arbitrary: w)
    case (Cons r rs)
    have "w_List env ''Hive'' '''' None (fst (w_Create env r w)) = []"
      "w_List env ''AgentSpec'' '''' None (fst (w_Create env r w)) = []"
      using Cons.prems p by (intro create_global_list [OF assms(1)]; simp add: in_cell_def)+
    then show ?case using Cons.IH [of "fst (w_Create env r w)"] Cons.prems(1) by simp
  qed simp
  then show ?thesis by (simp add: performReconciliation_def split: option.split)
qed

definition sample_queen :: queen where
  "sample_queen = NewQueen None NewCollector None"

lemma queen_ignores_cells_witness:
  "let env = sample_world_env [(''s'', RAgentSpec sample_spec)];
       w = create_all env [RAgentSpec sample_spec] (NewWorld [] ''pass'')
   in w_Get env ''AgentSpec'' ''worker'' ''prod'' w = Inr (RAgentSpec sample_spec) \<and>
      performReconciliation 1 env alone sample_queen w = Some (sample_queen, w)"
proof -
  let ?env = "sample_world_env [(''s'', RAgentSpec sample_spec)]"
  let ?w = "create_all ?env [RAgentSpec sample_spec] (NewWorld [] ''pass'')"
  have ok: "world_ok ?env" by (rule sample_world_ok) simp
  have cell: "\<forall>r \<in> set [RAgentSpec sample_spec]. in_cell r"
    by (simp add: in_cell_def sample_spec_def GetNamespace_def plain_def)
  have empty: "w_List ?env ''Hive'' '''' None (NewWorld [] ''pass'') = []"
    "w_List ?env ''AgentSpec'' '''' None (NewWorld [] ''pass'') = []" by code_simp+
  have "w_Get ?env ''AgentSpec'' ''worker'' ''prod'' ?w = Inr (RAgentSpec sample_spec)" by code_simp
  then show ?thesis using queen_ignores_cells [OF ok cell empty, of 1 alone sample_queen] by (simp add: Let_def)
qed

section \<open>Creating a drone\<close>

text \<open>C16: Creating a drone.  If the cell's limit of drones is reached nothing happens at all.  A
  creation that succeeds stays within the limit, adds exactly one drone, under a key that was
  free and with the identifier of a new process that the queen registers, and leaves every
  other resource alone.  One that fails changes no resource and registers nothing.\<close>

theorem create_drone_exact:
  assumes "names_ok env spec" and "createDrone env spec q w = (q', w', err)"
  defines "ns \<equiv> GetNamespace (RAgentSpec spec)"
  shows "(\<forall>limit cell. w_Get env ''Cell'' ns '''' w = Inr (RCell cell) \<longrightarrow>
      limit = rq_MaxTotalDrones (ce_ResourceQuota (cl_Spec cell)) \<longrightarrow> limit > 0 \<longrightarrow>
      limit \<le> int (length (w_List env ''Drone'' ns None w)) \<longrightarrow> (q', w', err) = (q, w, Some (QuotaExceeded limit ns))) \<and>
    (err = None \<longrightarrow> quota_reached env ns w = None \<and>
      (\<exists>p t. w_Get env ''Drone'' (GetName (scaled_drone spec (ap_ID p) t)) ns w = Inl ErrNotFound \<and>
        qn_droneReg q' = (qn_droneReg q)(ap_ID p \<mapsto> p) \<and> la_processes (w_launcher w') (ap_ID p) = Some p \<and>
        (\<forall>k n m. plain k \<longrightarrow> plain n \<longrightarrow> plain m \<longrightarrow> w_Get env k n m w' =
          (if (k, n, m) = resource_key (scaled_drone spec (ap_ID p) t) then Inr (scaled_drone spec (ap_ID p) t)
           else w_Get env k n m w)))) \<and>
    (err \<noteq> None \<longrightarrow> q' = q \<and> (\<forall>k n m. w_Get env k n m w' = w_Get env k n m w))"
proof (cases "quota_reached env ns w")
  case (Some l)
  then show ?thesis using assms(2)
    by (auto simp: createDrone_def ns_def quota_reached_def Let_def split: sum.splits resource.splits if_splits)
next
  case quota: None
  have no_limit: "\<not> limit \<le> int (length (w_List env ''Drone'' ns None w))"
    if "w_Get env ''Cell'' ns '''' w = Inr (RCell cell)" "limit = rq_MaxTotalDrones (ce_ResourceQuota (cl_Spec cell))" "limit > 0"
    for limit cell using quota that by (auto simp: quota_reached_def Let_def split: if_splits)
  obtain w1 r1 where s: "w_Schedule spec w = (w1, r1)" by (metis surj_pair)
  show ?thesis
  proof (cases r1)
    case (Inl e)
    then have "(q', w', err) = (q, w, Some (QSchedulingFailed e))"
      using assms(2) quota s w_Schedule_Inl [of spec w w1 e] by (simp add: createDrone_def ns_def)
    then show ?thesis using no_limit by auto
  next
    case (Inr dec)
    have w1: "w1 = w\<lparr>w_scheduler := reserve spec (w_scheduler w)\<rparr>" using w_Schedule_Inr s Inr by blast
    obtain w2 r2 where l: "w_Launch env spec w1 = (w2, r2)" by (metis surj_pair)
    show ?thesis
    proof (cases r2)
      case (Inl e)
      then have "(q', w', err) = (q, w2, Some (QLaunchFailed e))" and "w2 = w_next w1"
        using assms(2) quota s \<open>r1 = Inr dec\<close> l w_Launch_Inl [of env spec w1 w2 e] by (simp_all add: createDrone_def ns_def)
      then show ?thesis using no_limit w1 by auto
    next
      case (Inr p)
      note w2 = w_Launch_Inr [OF l [unfolded Inr]]
      define t where "t = we_now env (w_tick w2)"
      let ?d = "scaled_drone spec (ap_ID p) t"
      have g2: "w_Get env k n m (w_next w2) = w_Get env k n m w" for k n m using w2 w1 by simp
      obtain w3 e3 where c: "w_Create env ?d (w_next w2) = (w3, e3)" by (metis surj_pair)
      show ?thesis
      proof (cases e3)
        case (Some e)
        then have r: "(q', w', err) = (q, fst (w_Stop (ap_ID p) w3), Some (QStoreFailed e))"
          using assms(2) quota s \<open>r1 = Inr dec\<close> l Inr c by (simp add: createDrone_def ns_def t_def Let_def)
        have "w_Get env k n m w3 = w_Get env k n m w" for k n m
          using ws.create_fail [OF c [unfolded Some]] g2 by simp
        then show ?thesis using r no_limit by auto
      next
        case None
        then have r: "w' = w3" "err = None" "qn_droneReg q' = (qn_droneReg q)(ap_ID p \<mapsto> p)"
          using assms(2) quota s \<open>r1 = Inr dec\<close> l Inr c by (auto simp: createDrone_def ns_def t_def Let_def queen_log_def)
        have id: "ap_ID p = we_uuid env (w_tick w1)" using w2 by simp
        have pl: "plain (ap_ID p)" "ap_ID p \<noteq> ''''" "plain (GetName ?d)" "plain (GetNamespace ?d)" "world_ok env"
          using assms(1) id by (simp_all add: names_ok_def)
        from w_Create_effect [OF pl(5,3,4) c [unfolded None]] pl(2) g2 have e:
          "w_Get env ''Drone'' (GetName ?d) ns w = Inl ErrNotFound"
          "\<forall>k n m. plain k \<longrightarrow> plain n \<longrightarrow> plain m \<longrightarrow>
            w_Get env k n m w3 = (if (k, n, m) = resource_key ?d then Inr ?d else w_Get env k n m w)"
          by (auto simp: ensureUID_def ns_def)
        have "w_launcher w3 = w_launcher (w_next w2)" using c w_store_ops(1) by (metis fst_conv)
        then have "la_processes (w_launcher w3) (ap_ID p) = Some p" using w2 by simp
        then show ?thesis using r e quota no_limit by blast
      qed
    qed
  qed
qed

definition sample_start :: "(string \<times> string) list world" where
  "sample_start = w_next (NewWorld [] ''pass'')"

lemma create_drone_exact_witness:
  "\<exists>q w p t. createDrone sample_scaled_env sample_spec sample_queen sample_start = (q, w, None) \<and>
    qn_droneReg q (ap_ID p) = Some p \<and>
    w_Get sample_scaled_env ''Drone'' (GetName (scaled_drone sample_spec (ap_ID p) t)) ''prod'' sample_start = Inl ErrNotFound"
proof -
  let ?c = "createDrone sample_scaled_env sample_spec sample_queen sample_start"
  have "snd (snd ?c) = None" by code_simp
  then have c: "?c = (fst ?c, fst (snd ?c), None)" by (metis prod.collapse)
  have n: "names_ok sample_scaled_env sample_spec"
    unfolding names_ok_def sample_scaled_env_def
    by (intro conjI allI sample_world_ok sample_uuid) (simp_all add: sample_spec_def GetName_def GetNamespace_def plain_def)
  have "GetNamespace (RAgentSpec sample_spec) = ''prod''" by (simp add: sample_spec_def GetNamespace_def)
  then obtain p t where "qn_droneReg (fst ?c) = (qn_droneReg sample_queen)(ap_ID p \<mapsto> p)"
    "w_Get sample_scaled_env ''Drone'' (GetName (scaled_drone sample_spec (ap_ID p) t)) ''prod'' sample_start = Inl ErrNotFound"
    using create_drone_exact [OF n c, THEN conjunct2, THEN conjunct1] by auto
  then show ?thesis using c by (intro exI [of _ "fst ?c"] exI [of _ "fst (snd ?c)"] exI [of _ p] exI [of _ t]) simp
qed

section \<open>Removing the surplus\<close>

lemma deleteDrone_frame:
  assumes "world_ok env" "plain (GetName (RDrone d))" "plain (GetNamespace (RDrone d))" and "deleteDrone env d q w = (q', w', e)"
  shows "qn_warmPool q' = qn_warmPool q \<and> la_alive (w_launcher w') = la_alive (w_launcher w) \<and>
    (\<forall>k n m. plain k \<longrightarrow> plain n \<longrightarrow> plain m \<longrightarrow> (k, n, m) \<noteq> resource_key (RDrone d) \<longrightarrow>
      w_Get env k n m w' = w_Get env k n m w) \<and>
    w_Get env ''Drone'' (GetName (RDrone d)) (GetNamespace (RDrone d)) w' \<in>
      {Inl ErrNotFound, w_Get env ''Drone'' (GetName (RDrone d)) (GetNamespace (RDrone d)) w}"
proof -
  define w1 where "w1 = (case qn_droneReg q (GetUID (RDrone d)) of None \<Rightarrow> w | Some p \<Rightarrow> fst (w_Stop (ap_ID p) w))"
  have g1: "w_Get env k n m w1 = w_Get env k n m w" for k n m by (simp add: w1_def split: option.split)
  have a1: "la_alive (w_launcher w1) = la_alive (w_launcher w)" by (simp add: w1_def split: option.split)
  obtain w2 e2 where del: "w_Delete env ''Drone'' (GetName (RDrone d)) (GetNamespace (RDrone d)) w1 = (w2, e2)"
    by (metis surj_pair)
  have r: "w' = w2" "qn_warmPool q' = qn_warmPool q"
    using assms(4) del by (auto simp: deleteDrone_def w1_def Let_def queen_log_def split: option.splits)
  have a2: "la_alive (w_launcher w2) = la_alive (w_launcher w1)" using del w_store_ops(7) by (metis fst_conv)
  have p: "plain ''Drone''" by (simp add: plain_def)
  have other: "w_Get env k n m w2 = w_Get env k n m w1"
    if "plain k" "plain n" "plain m" "(k, n, m) \<noteq> resource_key (RDrone d)" for k n m
    by (rule ws.del_other [OF assms(1) p assms(2,3) del]) (use that in \<open>simp_all add: resource_key_def\<close>)
  have here: "w_Get env ''Drone'' (GetName (RDrone d)) (GetNamespace (RDrone d)) w2 \<in>
      {Inl ErrNotFound, w_Get env ''Drone'' (GetName (RDrone d)) (GetNamespace (RDrone d)) w1}"
    using ws.del_effect [OF assms(1) p assms(2,3), of w1 w2] ws.del_fail [of env "''Drone''" _ _ w1 w2] del p assms(2,3)
    by (cases e2) auto
  show ?thesis using r g1 a1 a2 other here by simp
qed

lemma delete_drones_frame:
  assumes "drones_ok env rs" and "delete_drones env rs q w = (q', w')"
  shows "qn_warmPool q' = qn_warmPool q \<and> la_alive (w_launcher w') = la_alive (w_launcher w) \<and>
    (\<forall>k n m. plain k \<longrightarrow> plain n \<longrightarrow> plain m \<longrightarrow> (k, n, m) \<notin> resource_key ` set rs \<longrightarrow>
      w_Get env k n m w' = w_Get env k n m w) \<and>
    (\<forall>r \<in> set rs. w_Get env ''Drone'' (GetName r) (GetNamespace r) w' \<in>
      {Inl ErrNotFound, w_Get env ''Drone'' (GetName r) (GetNamespace r) w})"
  using assms
proof (induction rs arbitrary: q w)
  case Nil
  then show ?case by simp
next
  case (Cons r rs)
  obtain d where r: "r = RDrone d" and p: "world_ok env" "plain (GetName (RDrone d))" "plain (GetNamespace (RDrone d))"
    and ok: "drones_ok env rs" and new: "resource_key r \<notin> resource_key ` set rs"
    using Cons.prems(1) by (auto simp: drones_ok_def)
  obtain q1 w1 e where one: "deleteDrone env d q w = (q1, w1, e)" by (metis prod_cases3)
  then have rest: "delete_drones env rs q1 w1 = (q', w')" using Cons.prems(2) r by simp
  note f = deleteDrone_frame [OF p one] and ih = Cons.IH [OF ok rest]
  have key: "resource_key x = (''Drone'', GetName x, GetNamespace x)" if "x \<in> set (r # rs)" for x
    using Cons.prems(1) that by (auto simp: drones_ok_def list_all_iff resource_key_def)
  have pl: "plain ''Drone''" "plain (GetName x) \<and> plain (GetNamespace x)" if "x \<in> set (r # rs)" for x
    using Cons.prems(1) that by (auto simp: drones_ok_def list_all_iff plain_def)
  have "w_Get env ''Drone'' (GetName x) (GetNamespace x) w' \<in>
      {Inl ErrNotFound, w_Get env ''Drone'' (GetName x) (GetNamespace x) w}" if x: "x \<in> set (r # rs)" for x
  proof (cases "x = r")
    case True
    have "w_Get env ''Drone'' (GetName r) (GetNamespace r) w' = w_Get env ''Drone'' (GetName r) (GetNamespace r) w1"
      using ih new key [of r] pl [of r] by simp
    then show ?thesis using f True r by simp
  next
    case False
    then have xs: "x \<in> set rs" using x by simp
    then have "resource_key x \<noteq> resource_key r" using new by (metis image_eqI)
    then have "w_Get env ''Drone'' (GetName x) (GetNamespace x) w1 = w_Get env ''Drone'' (GetName x) (GetNamespace x) w"
      using f pl [OF x] key [OF x] r by simp
    then show ?thesis using ih xs by auto
  qed
  then show ?case using f ih r by auto
qed

text \<open>The store after some drones are deleted one after the other; a deletion that the database refuses changes nothing.\<close>

definition delete_all :: "'d world_env \<Rightarrow> resource list \<Rightarrow> 'd world \<Rightarrow> 'd world" where
  "delete_all env rs w = fold (\<lambda>r w. fst (w_Delete env ''Drone'' (GetName r) (GetNamespace r) w)) rs w"

lemma w_Delete_store_only:
  assumes "w_store w1 = w_store w2"
  shows "snd (w_Delete env k n m w1) = snd (w_Delete env k n m w2)"
    and "w_store (fst (w_Delete env k n m w1)) = w_store (fst (w_Delete env k n m w2))"
  using assms by (simp_all add: w_Delete_def split_beta)

lemma deleteDrone_store:
  "w_store (fst (snd (deleteDrone env d q w))) =
    w_store (fst (w_Delete env ''Drone'' (GetName (RDrone d)) (GetNamespace (RDrone d)) w))"
proof -
  define w1 where "w1 = (case qn_droneReg q (GetUID (RDrone d)) of None \<Rightarrow> w | Some p \<Rightarrow> fst (w_Stop (ap_ID p) w))"
  have "w_store w1 = w_store w" by (simp add: w1_def w_Stop_def split_beta split: option.split)
  moreover have "fst (snd (deleteDrone env d q w)) = fst (w_Delete env ''Drone'' (GetName (RDrone d)) (GetNamespace (RDrone d)) w1)"
    by (simp add: deleteDrone_def w1_def Let_def split: option.split prod.split)
  ultimately show ?thesis using w_Delete_store_only(2) by metis
qed

lemma delete_all_store: "w_store w1 = w_store w2 \<Longrightarrow> w_store (delete_all env rs w1) = w_store (delete_all env rs w2)"
proof (induction rs arbitrary: w1 w2)
  case (Cons r rs)
  from Cons.IH [OF w_Delete_store_only(2) [OF Cons.prems]] show ?case by (simp add: delete_all_def)
qed (simp add: delete_all_def)

text \<open>Each of the drones is gone if its deletion succeeds after those before it, and unchanged otherwise.\<close>

lemma delete_drones_each:
  assumes "drones_ok env rs" "delete_drones env rs q w = (q', w')" "i < length rs"
  shows "w_Get env ''Drone'' (GetName (rs ! i)) (GetNamespace (rs ! i)) w' =
    (if snd (w_Delete env ''Drone'' (GetName (rs ! i)) (GetNamespace (rs ! i)) (delete_all env (take i rs) w)) = None
     then Inl ErrNotFound else w_Get env ''Drone'' (GetName (rs ! i)) (GetNamespace (rs ! i)) w)"
  using assms
proof (induction rs arbitrary: q w i)
  case Nil
  then show ?case by simp
next
  case (Cons r rs)
  obtain d where r: "r = RDrone d" and p: "world_ok env" "plain (GetName (RDrone d))" "plain (GetNamespace (RDrone d))"
    and ok: "drones_ok env rs" and new: "resource_key r \<notin> resource_key ` set rs"
    using Cons.prems(1) by (auto simp: drones_ok_def)
  have dr: "plain ''Drone''" by (simp add: plain_def)
  obtain q1 w1 e where one: "deleteDrone env d q w = (q1, w1, e)" by (metis prod_cases3)
  then have rest: "delete_drones env rs q1 w1 = (q', w')" using Cons.prems(2) r by simp
  let ?D = "w_Delete env ''Drone'' (GetName r) (GetNamespace r) w"
  have st: "w_store w1 = w_store (fst ?D)" using deleteDrone_store [of env d q w] one r by simp
  then have same: "w_Get env k n m w1 = w_Get env k n m (fst ?D)" for k n m by (simp add: w_Get_def)
  have key: "resource_key x = (''Drone'', GetName x, GetNamespace x)" "plain (GetName x)" "plain (GetNamespace x)"
    if "x \<in> set (r # rs)" for x
    using Cons.prems(1) that by (auto simp: drones_ok_def list_all_iff resource_key_def plain_def)
  show ?case
  proof (cases i)
    case 0
    have "w_Get env ''Drone'' (GetName r) (GetNamespace r) w' = w_Get env ''Drone'' (GetName r) (GetNamespace r) (fst ?D)"
      using delete_drones_frame [OF ok rest] new key [of r] dr same by simp
    also have "\<dots> = (if snd ?D = None then Inl ErrNotFound else w_Get env ''Drone'' (GetName r) (GetNamespace r) w)"
      using ws.del_effect [OF p(1) dr p(2,3), of w "fst ?D"] ws.del_fail [of env "''Drone''" "GetName r" "GetNamespace r" w "fst ?D"]
        p dr r by (cases "snd ?D") (auto simp: prod_eq_iff)
    finally show ?thesis by (simp add: 0 delete_all_def)
  next
    case (Suc j)
    then have j: "j < length rs" "rs ! j \<in> set rs" using Cons.prems(3) by auto
    let ?x = "rs ! j"
    have ne: "resource_key ?x \<noteq> resource_key r" using new j(2) by (metis image_eqI)
    have fr: "w_Get env ''Drone'' (GetName ?x) (GetNamespace ?x) w1 = w_Get env ''Drone'' (GetName ?x) (GetNamespace ?x) w"
      using deleteDrone_frame [OF p one] key [of ?x] j(2) ne dr r by simp
    have "w_store (delete_all env (take j rs) w1) = w_store (delete_all env (take (Suc j) (r # rs)) w)"
      using delete_all_store [OF st, of env "take j rs"] by (simp add: delete_all_def)
    from w_Delete_store_only(1) [OF this] Cons.IH [OF ok rest j(1)] fr show ?thesis by (simp add: Suc)
  qed
qed

text \<open>C17: What a reconciliation removes.  Without the autoscaler, a pass over a specification with
  more drones than its replicas deletes the first surplus drones of the list: each of them is gone,
  unless the database refuses its deletion, in which case it is unchanged; every other resource is
  unchanged.  All drones with the label of the specification count, the drones of its warm
  pool among them: the pools are not told of the deletions, and no process is stopped.\<close>

theorem reconcile_removes_surplus:
  assumes "\<not> uses_autoscaler spec \<or> qn_autoscaler q = None" and "ds = drones_of env spec w" and "drones_ok env ds"
    and "desired = (if sc_MinReplicas (ss_Scaling (as_Spec spec)) > 0 then sc_MinReplicas (ss_Scaling (as_Spec spec)) else 1)"
    and "desired \<le> int (length ds)" and "reconcileAgentSpec env spec q w = (q', w')"
    and "surplus = take (nat (int (length ds) - desired)) ds"
  shows "(\<forall>k n m. plain k \<longrightarrow> plain n \<longrightarrow> plain m \<longrightarrow> (k, n, m) \<notin> resource_key ` set surplus \<longrightarrow>
      w_Get env k n m w' = w_Get env k n m w) \<and>
    (\<forall>i < length surplus. w_Get env ''Drone'' (GetName (surplus ! i)) (GetNamespace (surplus ! i)) w' =
      (if snd (w_Delete env ''Drone'' (GetName (surplus ! i)) (GetNamespace (surplus ! i)) (delete_all env (take i surplus) w)) = None
       then Inl ErrNotFound else w_Get env ''Drone'' (GetName (surplus ! i)) (GetNamespace (surplus ! i)) w)) \<and>
    qn_warmPool q' = qn_warmPool q \<and> la_alive (w_launcher w') = la_alive (w_launcher w)"
proof -
  let ?rs = surplus
  have ok: "drones_ok env ?rs"
    using assms(3) by (auto simp: assms(7) drones_ok_def list_all_iff distinct_take take_map [symmetric] dest: in_set_takeD)
  moreover have "(if uses_autoscaler spec then qn_autoscaler q else None) = None" using assms(1) by auto
  then have "adjust_drones env spec ds desired q w = (q', w')"
    using assms(6) by (simp add: reconcileAgentSpec_def assms(2,4) Let_def)
  then have "delete_drones env ?rs (queen_log (LogScaling EventTypeScalingDown (GetNamespace (RAgentSpec spec))
        (GetName (RAgentSpec spec)) (int (length ds)) desired scaling_detail) q) w = (q', w') \<or> ?rs = [] \<and> q' = q \<and> w' = w"
    using assms(5) by (auto simp: adjust_drones_def Let_def assms(7) split: if_splits)
  ultimately obtain q1 where d: "delete_drones env ?rs q1 w = (q', w')" "qn_warmPool q1 = qn_warmPool q"
    by (auto simp: queen_log_def)
  show ?thesis using delete_drones_frame [OF ok d(1)] delete_drones_each [OF ok d(1)] d(2) by simp
qed

text \<open>Two drones of one specification, the second of a warm pool; one is wanted.\<close>

definition sample_pair :: "resource list" where
  "sample_pair = [scaled_drone sample_spec ''p1'' 0, RDrone (warm_drone sample_spec ''p2'' 0)]"

definition sample_pair_env :: "(string \<times> string) list world_env" where
  "sample_pair_env = sample_world_env [(''a'', sample_pair ! 0), (''b'', sample_pair ! 1)]"

definition sample_pair_world :: "(string \<times> string) list world" where
  "sample_pair_world = create_all sample_pair_env sample_pair (NewWorld [] ''pass'')"

lemma reconcile_removes_surplus_witness:
  "\<exists>q w. reconcileAgentSpec sample_pair_env sample_spec sample_queen sample_pair_world = (q, w) \<and>
    w_Get sample_pair_env ''Drone'' ''worker-p1'' ''prod'' w = Inl ErrNotFound \<and>
    w_Get sample_pair_env ''Drone'' ''worker-warm-p2'' ''prod'' w = Inr (sample_pair ! 1)"
proof -
  obtain q w where r: "reconcileAgentSpec sample_pair_env sample_spec sample_queen sample_pair_world = (q, w)"
    by (metis surj_pair)
  have ds: "drones_of sample_pair_env sample_spec sample_pair_world = sample_pair" by code_simp
  have "world_ok sample_pair_env" unfolding sample_pair_env_def by (rule sample_world_ok) simp
  then have ok: "drones_ok sample_pair_env sample_pair"
    by (simp add: drones_ok_def sample_pair_def resource_key_def scaled_drone_def warm_drone_def GetName_def GetNamespace_def
        sample_spec_def plain_def)
  have c: "\<not> uses_autoscaler sample_spec \<or> qn_autoscaler sample_queen = None"
    by (simp add: sample_queen_def NewQueen_def)
  have d: "1 = (if sc_MinReplicas (ss_Scaling (as_Spec sample_spec)) > 0 then sc_MinReplicas (ss_Scaling (as_Spec sample_spec)) else 1)"
    by (simp add: sample_spec_def)
  have "w_Get sample_pair_env ''Drone'' ''worker-warm-p2'' ''prod'' w =
      w_Get sample_pair_env ''Drone'' ''worker-warm-p2'' ''prod'' sample_pair_world"
    using reconcile_removes_surplus [OF c ds [symmetric] ok d _ r refl, THEN conjunct1]
    by (simp add: sample_pair_def resource_key_def scaled_drone_def GetName_def GetNamespace_def sample_spec_def plain_def)
  also have "\<dots> = Inr (sample_pair ! 1)" by code_simp
  finally have "w_Get sample_pair_env ''Drone'' ''worker-warm-p2'' ''prod'' w = Inr (sample_pair ! 1)" .
  moreover have "snd (w_Delete sample_pair_env ''Drone'' ''worker-p1'' ''prod'' sample_pair_world) = None" by code_simp
  then have "w_Get sample_pair_env ''Drone'' ''worker-p1'' ''prod'' w = Inl ErrNotFound"
    using reconcile_removes_surplus [OF c ds [symmetric] ok d _ r refl, THEN conjunct2, THEN conjunct1]
    by (simp add: sample_pair_def delete_all_def scaled_drone_def GetName_def GetNamespace_def sample_spec_def)
  ultimately show ?thesis using r by blast
qed

end
