(* ===== verification/Patterns.thy ===== *)
theory Patterns
  imports Messaging Waggle Apiary_Types
begin

text \<open>
  The orchestration patterns of \<open>internal/patterns\<close> that keep no tasks of their own: the bus as
  they use it, \<open>pipeline.go\<close>, \<open>swarm.go\<close> and \<open>event_driven.go\<close>.

  What a pattern does on the bus is kept in \<open>bus_io\<close>: the live subscriptions with their topics,
  and every message handed to \<open>Publish\<close> with its outcome.  The outcomes of the calls, the
  clock and what arrives while a stage is waited for are streams indexed by \<open>io_tick\<close>.  The
  tick of a subscription identifies it.  A context that a pattern made is \<open>Some c\<close>, with \<open>c\<close>
  telling whether it has been cancelled; \<open>None\<close> is the nil cancel function.  A handler runs as
  one step.
\<close>

section \<open>The bus of a pattern\<close>

record pattern_env =
  pe_clock :: "nat \<Rightarrow> time"
  pe_subscribe :: "nat \<Rightarrow> bool"
  pe_publish :: "nat \<Rightarrow> bool"
  pe_wait :: "nat \<Rightarrow> string list \<times> bool"
  pe_enc :: "wmsg \<Rightarrow> string option"
  pe_dec :: "string \<Rightarrow> wmsg option"

record bus_io =
  io_tick :: nat
  io_subs :: "(nat \<times> string) list"
  io_sent :: "(string \<times> message \<times> bool) list"

definition io_now :: "pattern_env \<Rightarrow> bus_io \<Rightarrow> bus_io \<times> time" where
  "io_now env io = (io\<lparr>io_tick := Suc (io_tick io)\<rparr>, pe_clock env (io_tick io))"

definition io_wait :: "pattern_env \<Rightarrow> bus_io \<Rightarrow> bus_io \<times> string list \<times> bool" where
  "io_wait env io = (io\<lparr>io_tick := Suc (io_tick io)\<rparr>, pe_wait env (io_tick io))"

definition io_subscribe :: "pattern_env \<Rightarrow> string \<Rightarrow> bus_io \<Rightarrow> bus_io \<times> nat option" where
  "io_subscribe env topic io =
    (let io' = io\<lparr>io_tick := Suc (io_tick io)\<rparr>
     in if pe_subscribe env (io_tick io)
        then (io'\<lparr>io_subs := io_subs io @ [(io_tick io, topic)]\<rparr>, Some (io_tick io))
        else (io', None))"

definition io_unsubscribe :: "nat \<Rightarrow> bus_io \<Rightarrow> bus_io" where
  "io_unsubscribe sub io = io\<lparr>io_subs := filter (\<lambda>(i, _). i \<noteq> sub) (io_subs io)\<rparr>"

definition io_publish :: "pattern_env \<Rightarrow> string \<Rightarrow> message \<Rightarrow> bus_io \<Rightarrow> bus_io \<times> bool" where
  "io_publish env topic m io =
    (let ok = pe_publish env (io_tick io)
     in (io\<lparr>io_tick := Suc (io_tick io), io_sent := io_sent io @ [(topic, m, ok)]\<rparr>, ok))"

text \<open>The identifiers in use lie in the past, so a new subscription is a different one.\<close>

definition io_ok :: "bus_io \<Rightarrow> bool" where
  "io_ok io \<longleftrightarrow> (\<forall>(i, t) \<in> set (io_subs io). i < io_tick io)"

datatype pattern_error =
    WrongPattern string
  | NoStages
  | AlreadyStarted
  | SubscribeError
  | EncodeError
  | PublishError
  | DecodeError decode_error
  | StageTimedOut nat
  | ContextCancelled
  | UnknownPattern string
  | NoSegments
  | SegmentCreate string pattern_error
  | RoutingError string
  | SegmentStart string pattern_error

text \<open>The bus message that carries a waggle message; pipelines and hierarchies leave \<open>Source\<close>
  empty.\<close>

definition to_bus :: "string \<Rightarrow> string \<Rightarrow> wmsg \<Rightarrow> message" where
  "to_bus source payload m =
    \<lparr>msg_ID = wg_ID m, msg_Type = wg_Type m, msg_Payload = payload, msg_Metadata = wg_Metadata m,
     msg_Timestamp = wg_Timestamp m, msg_Source = source, msg_SessionID = wg_SessionID m\<rparr>"

abbreviation hive_name :: "hive \<Rightarrow> string" where "hive_name h \<equiv> GetName (RHive h)"
abbreviation hive_ns :: "hive \<Rightarrow> string" where "hive_ns h \<equiv> GetNamespace (RHive h)"

definition send_waggle :: "pattern_env \<Rightarrow> string \<Rightarrow> string \<Rightarrow> wmsg \<Rightarrow> bus_io \<Rightarrow> bus_io \<times> pattern_error option" where
  "send_waggle env topic source m io =
    (case EncodeMessage (pe_enc env) m of
       None \<Rightarrow> (io, Some EncodeError)
     | Some payload \<Rightarrow>
        (let (io, ok) = io_publish env topic (to_bus source payload m) io
         in (io, if ok then None else Some PublishError)))"

lemma io_ok_steps [simp]:
  "io_ok io \<Longrightarrow> io_ok (fst (io_now env io))"
  "io_ok io \<Longrightarrow> io_ok (fst (io_wait env io))"
  "io_ok io \<Longrightarrow> io_ok (fst (io_subscribe env t io))"
  "io_ok io \<Longrightarrow> io_ok (io_unsubscribe i io)"
  "io_ok io \<Longrightarrow> io_ok (fst (io_publish env t m io))"
  by (auto simp: io_ok_def io_now_def io_wait_def io_subscribe_def io_unsubscribe_def io_publish_def Let_def)

lemma unsubscribe_subscribe:
  assumes "io_ok io" and "io_subscribe env t io = (io', Some i)"
  shows "io_subs (io_unsubscribe i io') = io_subs io" and "i = io_tick io" and "io_subs io' = io_subs io @ [(i, t)]"
  using assms
  by (auto simp: io_subscribe_def io_unsubscribe_def io_ok_def filter_id_conv Let_def split: if_splits)

section \<open>Pipeline\<close>

record pipeline_stage =
  pg_Name :: string
  pg_AgentRef :: string
  pg_Replicas :: int
  pg_StageNum :: nat
  pg_droneIDs :: "string list"
  pg_completed :: bool

abbreviation PipelineStatusPending :: string where "PipelineStatusPending \<equiv> ''pending''"
abbreviation PipelineStatusRunning :: string where "PipelineStatusRunning \<equiv> ''running''"
abbreviation PipelineStatusCompleted :: string where "PipelineStatusCompleted \<equiv> ''completed''"
abbreviation PipelineStatusFailed :: string where "PipelineStatusFailed \<equiv> ''failed''"
abbreviation PipelineStatusAborted :: string where "PipelineStatusAborted \<equiv> ''aborted''"

record pipeline_state =
  pi_CurrentStage :: nat
  pi_Status :: string
  pi_Error :: "pattern_error option"
  pi_StartedAt :: time
  pi_CompletedAt :: "time option"

record pipeline =
  pp_hive :: hive
  pp_stages :: "pipeline_stage list"
  pp_state :: pipeline_state
  pp_cancel :: "bool option"

definition NewPipeline :: "time \<Rightarrow> hive \<Rightarrow> pipeline" where
  "NewPipeline now h =
    \<lparr>pp_hive = h, pp_stages = [],
     pp_state = \<lparr>pi_CurrentStage = 0, pi_Status = PipelineStatusPending, pi_Error = None, pi_StartedAt = now,
                 pi_CompletedAt = None\<rparr>,
     pp_cancel = None\<rparr>"

definition new_stage :: "nat \<times> stage \<Rightarrow> pipeline_stage" where
  "new_stage = (\<lambda>(i, s). \<lparr>pg_Name = st_Name s, pg_AgentRef = st_AgentRef s, pg_Replicas = st_Replicas s,
     pg_StageNum = i, pg_droneIDs = [], pg_completed = False\<rparr>)"

definition Pipeline_Initialize :: "pipeline \<Rightarrow> pipeline \<times> pattern_error option" where
  "Pipeline_Initialize p =
    (let spec = hv_Spec (pp_hive p)
     in if hi_Pattern spec \<noteq> ''pipeline'' then (p, Some (WrongPattern (hi_Pattern spec)))
        else if hi_Stages spec = [] then (p, Some NoStages)
        else (p\<lparr>pp_stages := map new_stage (enumerate 0 (hi_Stages spec))\<rparr>, None))"

definition stage_topic :: "hive \<Rightarrow> nat \<Rightarrow> string \<Rightarrow> string" where
  "stage_topic h n dir =
    PrefixTopic (hive_ns h) (''pipeline.'' @ hive_name h @ ''.stage.'' @ nat_str n @ ''.'' @ dir)"

text \<open>The handler of the output subscription puts a message that decodes into a channel with room
  for one; the others are dropped.\<close>

fun first_decoded :: "(string \<Rightarrow> wmsg option) \<Rightarrow> string list \<Rightarrow> wmsg option" where
  "first_decoded dec [] = None"
| "first_decoded dec (data # rest) =
    (case DecodeMessage dec data of Inr m \<Rightarrow> Some m | Inl _ \<Rightarrow> first_decoded dec rest)"

definition set_status :: "string \<Rightarrow> pattern_error option \<Rightarrow> pipeline \<Rightarrow> pipeline" where
  "set_status status err p =
    p\<lparr>pp_state := (pp_state p)\<lparr>pi_Status := status, pi_Error := (if err = None then pi_Error (pp_state p) else err)\<rparr>\<rparr>"

text \<open>One stage up to the answer of its agents.  What arrives before the timeout or the end of the
  context is \<open>arrived\<close>; \<open>cancelled\<close> tells which of the two came first, when nothing usable
  did.  The subscription, if made, is the third component.\<close>

definition run_stage :: "pattern_env \<Rightarrow> nat \<Rightarrow> wmsg \<Rightarrow> pipeline \<Rightarrow> bus_io \<Rightarrow>
    pipeline \<times> bus_io \<times> nat option \<times> (pattern_error + wmsg)" where
  "run_stage env n input p io =
    (let p = p\<lparr>pp_state := (pp_state p)\<lparr>pi_CurrentStage := n\<rparr>\<rparr>;
         (io, sub) = io_subscribe env (stage_topic (pp_hive p) n ''output'') io
     in case sub of
       None \<Rightarrow> (p, io, None, Inl SubscribeError)
     | Some i \<Rightarrow>
        (case send_waggle env (stage_topic (pp_hive p) n ''input'') '''' input io of
           (io, Some e) \<Rightarrow> (p, io, Some i, Inl e)
         | (io, None) \<Rightarrow>
            (let (io, arrived, cancelled) = io_wait env io
             in case first_decoded (pe_dec env) arrived of
                  Some output \<Rightarrow>
                    (p\<lparr>pp_stages := (pp_stages p)[n := (pp_stages p ! n)\<lparr>pg_completed := True\<rparr>]\<rparr>, io, Some i, Inr output)
                | None \<Rightarrow>
                    (if cancelled then (set_status PipelineStatusAborted None p, io, Some i, Inl ContextCancelled)
                     else (set_status PipelineStatusFailed (Some (StageTimedOut n)) p, io, Some i,
                           Inl (StageTimedOut n))))))"

text \<open>The deferred \<open>Unsubscribe\<close>, which runs when the stages after this one have returned.\<close>

definition deferred :: "nat option \<Rightarrow> bus_io \<Rightarrow> bus_io" where
  "deferred sub io = (case sub of None \<Rightarrow> io | Some i \<Rightarrow> io_unsubscribe i io)"

lemma run_stage_stages: "run_stage env n input p io = (p', r) \<Longrightarrow> length (pp_stages p') = length (pp_stages p)"
  by (auto simp: run_stage_def set_status_def Let_def split: prod.splits option.splits if_splits)

function executeStage :: "pattern_env \<Rightarrow> nat \<Rightarrow> wmsg \<Rightarrow> pipeline \<Rightarrow> bus_io \<Rightarrow> pipeline \<times> bus_io \<times> pattern_error option" where
  "executeStage env n input p io =
    (if n \<ge> length (pp_stages p)
     then (let (io, now) = io_now env io
           in (p\<lparr>pp_state := (pp_state p)\<lparr>pi_Status := PipelineStatusCompleted, pi_CompletedAt := Some now\<rparr>\<rparr>, io, None))
     else case run_stage env n input p io of
       (p, io, sub, Inl e) \<Rightarrow> (p, deferred sub io, Some e)
     | (p, io, sub, Inr output) \<Rightarrow>
        (let (p, io, err) = executeStage env (n + 1) output p io in (p, deferred sub io, err)))"
  by pat_completeness auto
termination
  by (relation "measure (\<lambda>(env, n, input, p, io). length (pp_stages p) - n)")
    (auto dest!: run_stage_stages [OF sym])

declare executeStage.simps [simp del]

definition Pipeline_Start :: "pattern_env \<Rightarrow> wmsg \<Rightarrow> pipeline \<Rightarrow> bus_io \<Rightarrow> pipeline \<times> bus_io \<times> pattern_error option" where
  "Pipeline_Start env input p io =
    (if pi_Status (pp_state p) \<noteq> PipelineStatusPending then (p, io, Some AlreadyStarted)
     else executeStage env 0 input
            (p\<lparr>pp_state := (pp_state p)\<lparr>pi_Status := PipelineStatusRunning, pi_CurrentStage := 0\<rparr>, pp_cancel := Some False\<rparr>) io)"

definition Pipeline_GetState :: "pipeline \<Rightarrow> pipeline_state" where
  "Pipeline_GetState p = pp_state p"

definition Pipeline_Stop :: "pipeline \<Rightarrow> pipeline" where
  "Pipeline_Stop p =
    p\<lparr>pp_state := (if pi_Status (pp_state p) = PipelineStatusRunning
                   then (pp_state p)\<lparr>pi_Status := PipelineStatusAborted\<rparr> else pp_state p),
      pp_cancel := map_option (\<lambda>_. True) (pp_cancel p)\<rparr>"

text \<open>What one stage does, as the induction over the stages needs it.\<close>

definition status_after :: "string \<Rightarrow> pattern_error option \<Rightarrow> string" where
  "status_after status err =
    (case err of
       None \<Rightarrow> PipelineStatusCompleted
     | Some (StageTimedOut _) \<Rightarrow> PipelineStatusFailed
     | Some ContextCancelled \<Rightarrow> PipelineStatusAborted
     | Some _ \<Rightarrow> status)"

definition stage_input :: "hive \<Rightarrow> (wmsg \<Rightarrow> string option) \<Rightarrow> bool \<Rightarrow> nat \<times> wmsg \<Rightarrow> string \<times> message \<times> bool" where
  "stage_input h enc ok = (\<lambda>(n, m). (stage_topic h n ''input'', to_bus '''' (the (enc m)) m, ok))"

lemma send_waggle_cases:
  assumes "send_waggle env topic source m io = (io', err)"
  shows "io_subs io' = io_subs io" and "io_ok io \<Longrightarrow> io_ok io'"
    and "err = None \<Longrightarrow> \<exists>d. pe_enc env m = Some d"
    and "io_sent io' = io_sent io \<or> (\<exists>ok. io_sent io' = io_sent io @ [(topic, to_bus source (the (pe_enc env m)) m, ok)] \<and>
        (ok \<longleftrightarrow> err = None))"
    and "err = None \<Longrightarrow> io_sent io' \<noteq> io_sent io" and "err \<in> {None, Some EncodeError, Some PublishError}"
  using assms
  by (fastforce simp: send_waggle_def EncodeMessage_def io_publish_def io_ok_def Let_def
      split: option.splits if_splits)+

definition stage_done :: "pattern_env \<Rightarrow> nat \<Rightarrow> wmsg \<Rightarrow> pipeline \<Rightarrow> bus_io \<Rightarrow>
    pipeline \<times> bus_io \<times> nat option \<times> (pattern_error + wmsg) \<Rightarrow> bool" where
  "stage_done env n input p io = (\<lambda>(p', io', sub, r).
    io_ok io' \<and> pp_hive p' = pp_hive p \<and>
    (\<forall>io''. io_subs io'' = io_subs io' \<longrightarrow> io_subs (deferred sub io'') = io_subs io) \<and>
    (case r of
       Inr output \<Rightarrow>
         io_sent io' = io_sent io @ [stage_input (pp_hive p) (pe_enc env) True (n, input)] \<and>
         (\<exists>t. first_decoded (pe_dec env) (fst (pe_wait env t)) = Some output) \<and>
         pi_Status (pp_state p') = pi_Status (pp_state p) \<and>
         pp_stages p' = (pp_stages p)[n := (pp_stages p ! n)\<lparr>pg_completed := True\<rparr>]
     | Inl e \<Rightarrow>
         (io_sent io' = io_sent io \<or> (\<exists>ok. io_sent io' = io_sent io @ [stage_input (pp_hive p) (pe_enc env) ok (n, input)])) \<and>
         pi_Status (pp_state p') = status_after (pi_Status (pp_state p)) (Some e) \<and> pp_stages p' = pp_stages p \<and>
         (\<forall>k. e = StageTimedOut k \<longrightarrow> k = n)))"

lemma run_stage_done:
  assumes "io_ok io"
  shows "stage_done env n input p io (run_stage env n input p io)"
proof -
  obtain io1 s where s: "io_subscribe env (stage_topic (pp_hive p) n ''output'') io = (io1, s)" by fastforce
  have ok1: "io_ok io1" using io_ok_steps(3) [OF assms] s by (metis fst_conv)
  show ?thesis
  proof (cases s)
    case None
    with s have "io_subs io1 = io_subs io" "io_sent io1 = io_sent io"
      by (auto simp: io_subscribe_def Let_def split: if_splits)
    with None ok1 show ?thesis
      by (simp add: stage_done_def run_stage_def s status_after_def deferred_def)
  next
    case (Some i)
    have i: "i = io_tick io" "io_subs io1 = io_subs io @ [(i, stage_topic (pp_hive p) n ''output'')]"
      using unsubscribe_subscribe [OF assms s [unfolded Some]] by simp_all
    have sent1: "io_sent io1 = io_sent io" using s by (auto simp: io_subscribe_def Let_def split: if_splits)
    have released: "io_subs (io_unsubscribe i j) = io_subs io" if "io_subs j = io_subs io1" for j
      using assms that by (auto simp: i io_unsubscribe_def io_ok_def filter_id_conv)
    obtain io2 e where w: "send_waggle env (stage_topic (pp_hive p) n ''input'') '''' input io1 = (io2, e)" by fastforce
    note w2 = send_waggle_cases [OF w]
    have sent2: "io_sent io2 = io_sent io \<or>
        (\<exists>ok. io_sent io2 = io_sent io @ [stage_input (pp_hive p) (pe_enc env) ok (n, input)] \<and> (ok \<longleftrightarrow> e = None))"
      using w2(4) by (simp add: sent1 stage_input_def)
    show ?thesis
    proof (cases e)
      case (Some err)
      then have "err = EncodeError \<or> err = PublishError" using w2(6) by auto
      then show ?thesis using \<open>s = Some i\<close> Some w2(1) w2(2) [OF ok1] sent2 released
        by (auto simp: stage_done_def run_stage_def s w status_after_def deferred_def)
    next
      case None
      have sent3: "io_sent io2 = io_sent io @ [stage_input (pp_hive p) (pe_enc env) True (n, input)]"
        using sent2 w2(5) [OF None] None by (auto simp: sent1)
      have wait: "io_wait env io2 = (io2\<lparr>io_tick := Suc (io_tick io2)\<rparr>, pe_wait env (io_tick io2))"
        by (simp add: io_wait_def)
      have ok3: "io_ok (io2\<lparr>io_tick := Suc (io_tick io2)\<rparr>)" using w2(2) [OF ok1] by (auto simp: io_ok_def)
      obtain arrived cancelled where a: "pe_wait env (io_tick io2) = (arrived, cancelled)" by fastforce
      show ?thesis
      proof (cases "first_decoded (pe_dec env) arrived")
        case None
        then show ?thesis using \<open>s = Some i\<close> \<open>e = None\<close> w2(1) ok3 sent3 released
          by (auto simp: stage_done_def run_stage_def s w wait a status_after_def deferred_def set_status_def Let_def)
      next
        case (Some ans)
        moreover have "\<exists>t. first_decoded (pe_dec env) (fst (pe_wait env t)) = Some ans"
          using a Some by (metis fst_conv)
        ultimately show ?thesis using \<open>s = Some i\<close> \<open>e = None\<close> w2(1) ok3 sent3 released
          by (simp add: stage_done_def run_stage_def s w wait a deferred_def Let_def)
      qed
    qed
  qed
qed

lemma executeStage_run:
  assumes "executeStage env n input p io = (p', io', err)" and "io_ok io" and "n \<le> length (pp_stages p)"
  shows "\<exists>outs attempt.
    io_sent io' = io_sent io @
      map (stage_input (pp_hive p) (pe_enc env) True) (enumerate n (butlast (input # outs))) @ attempt \<and>
    (if err = None then attempt = [] \<and> n + length outs = length (pp_stages p)
     else n + length outs < length (pp_stages p) \<and>
      (attempt = [] \<or> (\<exists>ok. attempt = [stage_input (pp_hive p) (pe_enc env) ok (n + length outs, last (input # outs))]))) \<and>
    (\<forall>ans \<in> set outs. \<exists>t. first_decoded (pe_dec env) (fst (pe_wait env t)) = Some ans) \<and>
    (\<forall>k. err = Some (StageTimedOut k) \<longrightarrow> k = n + length outs) \<and>
    (\<forall>i < length (pp_stages p). pg_completed (pp_stages p' ! i) \<longleftrightarrow>
      pg_completed (pp_stages p ! i) \<or> n \<le> i \<and> i < n + length outs) \<and>
    length (pp_stages p') = length (pp_stages p) \<and>
    pi_Status (pp_state p') = status_after (pi_Status (pp_state p)) err \<and> io_subs io' = io_subs io"
  using assms
proof (induction env n input p io arbitrary: p' io' err rule: executeStage.induct)
  case (1 env n input p io)
  show ?case
  proof (cases "n \<ge> length (pp_stages p)")
    case True
    then show ?thesis using 1(2-) by (intro exI [of _ "[]"]) (auto simp: executeStage.simps io_now_def Let_def status_after_def)
  next
    case False
    obtain p1 io1 sub r where s: "run_stage env n input p io = (p1, io1, sub, r)" by (metis prod_cases4)
    note d = run_stage_done [OF 1(3), of env n input p, unfolded s stage_done_def prod.case]
    show ?thesis
    proof (cases r)
      case (Inl e)
      have res: "p' = p1" "io' = deferred sub io1" "err = Some e" using 1(2) False s Inl
        by (simp_all add: executeStage.simps [of env n])
      have sent: "io_sent (deferred sub io1) = io_sent io1"
        by (simp add: deferred_def io_unsubscribe_def split: option.splits)
      have d': "io_sent io1 = io_sent io \<or> (\<exists>ok. io_sent io1 = io_sent io @ [stage_input (pp_hive p) (pe_enc env) ok (n, input)])"
        "pi_Status (pp_state p1) = status_after (pi_Status (pp_state p)) (Some e)" "pp_stages p1 = pp_stages p"
        "\<forall>k. e = StageTimedOut k \<longrightarrow> k = n" "io_subs (deferred sub io1) = io_subs io"
        using d Inl by simp_all
      obtain attempt where "io_sent io1 = io_sent io @ attempt"
        "attempt = [] \<or> (\<exists>ok. attempt = [stage_input (pp_hive p) (pe_enc env) ok (n, input)])"
        using d'(1) by (metis append.right_neutral)
      then show ?thesis using d'(2-5) False
        by - (rule exI [where x = "[]"], rule exI [where x = attempt], auto simp: res sent)
    next
      case (Inr ans)
      obtain p2 io2 e where r: "executeStage env (n + 1) ans p1 io1 = (p2, io2, e)" by (metis prod_cases3)
      have res: "p' = p2" "io' = deferred sub io2" "err = e" using 1(2) False s Inr r
        by (auto simp: executeStage.simps [of env n] Let_def)
      have d': "io_ok io1" "pp_hive p1 = pp_hive p" "pi_Status (pp_state p1) = pi_Status (pp_state p)"
        "pp_stages p1 = (pp_stages p)[n := (pp_stages p ! n)\<lparr>pg_completed := True\<rparr>]"
        "io_sent io1 = io_sent io @ [stage_input (pp_hive p) (pe_enc env) True (n, input)]"
        "\<exists>t. first_decoded (pe_dec env) (fst (pe_wait env t)) = Some ans"
        "io_subs io2 = io_subs io1 \<Longrightarrow> io_subs (deferred sub io2) = io_subs io"
        using d Inr by auto
      have "n + 1 \<le> length (pp_stages p1)" using False d'(4) by simp
      from 1(1) [OF False s [symmetric], OF refl, OF refl, OF Inr r d'(1) this]
      obtain outs attempt where IH: "io_sent io2 = io_sent io1 @
          map (stage_input (pp_hive p1) (pe_enc env) True) (enumerate (n + 1) (butlast (ans # outs))) @ attempt"
        "if e = None then attempt = [] \<and> n + 1 + length outs = length (pp_stages p1)
         else n + 1 + length outs < length (pp_stages p1) \<and>
          (attempt = [] \<or> (\<exists>ok. attempt = [stage_input (pp_hive p1) (pe_enc env) ok (n + 1 + length outs, last (ans # outs))]))"
        "\<forall>ans \<in> set outs. \<exists>t. first_decoded (pe_dec env) (fst (pe_wait env t)) = Some ans"
        "\<forall>k. e = Some (StageTimedOut k) \<longrightarrow> k = n + 1 + length outs"
        "\<forall>i < length (pp_stages p1). pg_completed (pp_stages p2 ! i) \<longleftrightarrow>
          pg_completed (pp_stages p1 ! i) \<or> n + 1 \<le> i \<and> i < n + 1 + length outs"
        "length (pp_stages p2) = length (pp_stages p1)"
        "pi_Status (pp_state p2) = status_after (pi_Status (pp_state p1)) e" "io_subs io2 = io_subs io1"
        by blast
      have sent: "io_sent (deferred sub io2) = io_sent io2"
        by (simp add: deferred_def io_unsubscribe_def split: option.splits)
      have flags: "pg_completed (pp_stages p2 ! i) \<longleftrightarrow>
          pg_completed (pp_stages p ! i) \<or> n \<le> i \<and> i < n + length (ans # outs)"
        if "i < length (pp_stages p)" for i
        using IH(5) that by (cases "i = n") (auto simp: d'(4))
      have "(if err = None then attempt = [] \<and> n + length (ans # outs) = length (pp_stages p)
         else n + length (ans # outs) < length (pp_stages p) \<and>
          (attempt = [] \<or> (\<exists>ok. attempt = [stage_input (pp_hive p) (pe_enc env) ok (n + length (ans # outs), last (input # ans # outs))])))"
        using IH(2) by (cases e) (auto simp: d' res)
      moreover have "io_sent io' = io_sent io @
          map (stage_input (pp_hive p) (pe_enc env) True) (enumerate n (butlast (input # ans # outs))) @ attempt"
        using IH(1) by (simp add: res sent d' enumerate_Suc_eq)
      ultimately show ?thesis using IH(3,4,6-8) d'(6,7) flags
        by - (rule exI [where x = "ans # outs"], rule exI [where x = attempt], simp add: res d')
    qed
  qed
qed

text \<open>C18: A pipeline passes each stage's answer to the next stage.  Starting an initialized
  pipeline sends, in order, the input to the first stage and to every further stage the first
  answer that decoded at the stage before; it returns without error exactly when all stages
  answered, and marks exactly those stages completed that did.  A timeout leaves it failed, a
  cancelled context aborted, but a failure of the bus or the encoding leaves it running; in
  no case can it be started again, and no subscription remains.\<close>

theorem pipeline_chains_stages:
  assumes "Pipeline_Initialize (NewPipeline t0 h) = (p, None)" and "io_ok io"
    and "Pipeline_Start env input p io = (p', io', err)"
  shows "\<exists>outs attempt.
    io_sent io' = io_sent io @ map (stage_input h (pe_enc env) True) (enumerate 0 (butlast (input # outs))) @ attempt \<and>
    (if err = None then attempt = [] \<and> length outs = length (hi_Stages (hv_Spec h))
     else length outs < length (hi_Stages (hv_Spec h)) \<and>
      (attempt = [] \<or> (\<exists>ok. attempt = [stage_input h (pe_enc env) ok (length outs, last (input # outs))]))) \<and>
    (\<forall>ans \<in> set outs. \<exists>t. first_decoded (pe_dec env) (fst (pe_wait env t)) = Some ans) \<and>
    (\<forall>k. err = Some (StageTimedOut k) \<longrightarrow> k = length outs) \<and>
    map pg_completed (pp_stages p') = map (\<lambda>i. i < length outs) [0..<length (hi_Stages (hv_Spec h))] \<and>
    pi_Status (pp_state p') = status_after PipelineStatusRunning err \<and>
    Pipeline_Start env' input' p' io2 = (p', io2, Some AlreadyStarted) \<and> io_subs io' = io_subs io"
proof -
  have p: "pp_stages p = map new_stage (enumerate 0 (hi_Stages (hv_Spec h)))" "pp_hive p = h"
    "pi_Status (pp_state p) = PipelineStatusPending"
    using assms(1) by (auto simp: Pipeline_Initialize_def NewPipeline_def Let_def split: if_splits)
  have flags: "\<not> pg_completed (pp_stages p ! i)" if "i < length (pp_stages p)" for i
    using that by (simp add: p new_stage_def split_beta)
  define p1 where "p1 = p\<lparr>pp_state := (pp_state p)\<lparr>pi_Status := PipelineStatusRunning, pi_CurrentStage := 0\<rparr>, pp_cancel := Some False\<rparr>"
  have p1: "pp_stages p1 = pp_stages p" "pp_hive p1 = h" "pi_Status (pp_state p1) = PipelineStatusRunning"
    by (simp_all add: p1_def p)
  have run: "executeStage env 0 input p1 io = (p', io', err)"
    using assms(3) p(3) by (simp add: Pipeline_Start_def p1_def)
  obtain outs attempt where o:
    "io_sent io' = io_sent io @ map (stage_input h (pe_enc env) True) (enumerate 0 (butlast (input # outs))) @ attempt"
    "if err = None then attempt = [] \<and> length outs = length (pp_stages p)
     else length outs < length (pp_stages p) \<and>
      (attempt = [] \<or> (\<exists>ok. attempt = [stage_input h (pe_enc env) ok (length outs, last (input # outs))]))"
    "\<forall>ans \<in> set outs. \<exists>t. first_decoded (pe_dec env) (fst (pe_wait env t)) = Some ans"
    "\<forall>k. err = Some (StageTimedOut k) \<longrightarrow> k = length outs"
    "\<forall>i < length (pp_stages p). pg_completed (pp_stages p' ! i) \<longleftrightarrow>
      pg_completed (pp_stages p ! i) \<or> 0 \<le> i \<and> i < length outs"
    "length (pp_stages p') = length (pp_stages p)"
    "pi_Status (pp_state p') = status_after PipelineStatusRunning err" "io_subs io' = io_subs io"
    using executeStage_run [OF run assms(2), unfolded p1 add_0, OF le0] by blast
  have "map pg_completed (pp_stages p') = map (\<lambda>i. i < length outs) [0..<length (pp_stages p)]"
    using o(5,6) flags by (auto intro: nth_equalityI)
  moreover have "Pipeline_Start env' input' p' io2 = (p', io2, Some AlreadyStarted)"
    using o(7) by (auto simp: Pipeline_Start_def status_after_def split: option.splits pattern_error.splits)
  moreover have len: "length (pp_stages p) = length (hi_Stages (hv_Spec h))" by (simp add: p)
  ultimately show ?thesis using o(1-4,7,8) unfolding len by blast
qed

text \<open>A hive with two stages, and an environment in which only the first stage answers.\<close>

definition two_stages :: hive where
  "two_stages =
    \<lparr>hv_TypeMeta = \<lparr>tm_APIVersion = ''v1'', tm_Kind = ''Hive''\<rparr>,
     hv_Meta = \<lparr>om_Name = ''h'', om_Namespace = ''prod'', om_UID = ''u'', om_Labels = [],
                om_Annotations = [], om_CreatedAt = 1, om_UpdatedAt = 1\<rparr>,
     hv_Spec = \<lparr>hi_PoolMode = '''', hi_WarmPoolSize = 0,
       hi_Session = \<lparr>sn_TimeoutMinutes = 0, sn_MaxDurationMinutes = 0, sn_PersistOnTerminate = False,
         sn_PersistPath = '''', sn_MaxMemoryMB = 0\<rparr>,
       hi_Pattern = ''pipeline'',
       hi_Stages = [\<lparr>st_Name = ''a'', st_AgentRef = ''x'', st_Replicas = 1, st_Parallel = False, st_WaitForAll = False\<rparr>,
                    \<lparr>st_Name = ''b'', st_AgentRef = ''y'', st_Replicas = 1, st_Parallel = False, st_WaitForAll = False\<rparr>],
       hi_Routing = \<lparr>ro_DeadLetterTopic = '''', ro_RetryPolicy = \<lparr>rp_MaxRetries = 0, rp_BackoffMultiplier = 0, rp_InitialDelayMs = 0\<rparr>\<rparr>,
       hi_Guardrails = ss_Guardrails (as_Spec sample_spec), hi_Webhook = \<lparr>wh_URL = '''', wh_AuthHeader = ''''\<rparr>,
       hi_PatternSegments = []\<rparr>,
     hv_Status = \<lparr>hst_Phase = '''', hst_Message = '''', hst_ActiveDrones = 0\<rparr>\<rparr>"

definition quiet_env :: pattern_env where
  "quiet_env = \<lparr>pe_clock = int, pe_subscribe = (\<lambda>_. True), pe_publish = (\<lambda>_. True),
     pe_wait = (\<lambda>t. if t = 3 then ([''?'', ''x''], False) else ([''?''], False)),
     pe_enc = (\<lambda>m. Some (wg_ID m)), pe_dec = (\<lambda>d. if d = ''x'' then Some (one_message\<lparr>wg_ID := ''x''\<rparr>) else None)\<rparr>"

definition quiet_io :: bus_io where
  "quiet_io = \<lparr>io_tick = 1, io_subs = [(0, ''k'')], io_sent = []\<rparr>"

lemma quiet_io_ok [simp]: "io_ok quiet_io" "io_subs quiet_io = [(0, ''k'')]"
  by (simp_all add: io_ok_def quiet_io_def)

lemma pipeline_chains_stages_witness:
  "let (p, io, err) = Pipeline_Start quiet_env one_message (fst (Pipeline_Initialize (NewPipeline 0 two_stages))) quiet_io
   in err = Some (StageTimedOut 1) \<and> pi_Status (pp_state p) = ''failed'' \<and> io_subs io = [(0, ''k'')]"
proof -
  let ?p = "fst (Pipeline_Initialize (NewPipeline 0 two_stages))"
  obtain p io err where s: "Pipeline_Start quiet_env one_message ?p quiet_io = (p, io, err)" by (metis prod_cases3)
  have i: "Pipeline_Initialize (NewPipeline 0 two_stages) = (?p, None)" by code_simp
  have "snd (snd (Pipeline_Start quiet_env one_message ?p quiet_io)) = Some (StageTimedOut 1)" by code_simp
  then have err: "err = Some (StageTimedOut 1)" by (simp add: s)
  have "pi_Status (pp_state p) = status_after PipelineStatusRunning err \<and> io_subs io = io_subs quiet_io"
    using pipeline_chains_stages [OF i quiet_io_ok(1) s] by blast
  then show ?thesis by (simp add: s err status_after_def)
qed

section \<open>Patterns that are started and stopped\<close>

text \<open>The contract that hierarchies, swarms and event-driven patterns share: starting one adds the
  subscriptions it then owns, or none when it fails, and stopping it cancels those it owns.\<close>

locale started_pattern =
  fixes subs :: "'p \<Rightarrow> nat list"
    and start :: "pattern_env \<Rightarrow> 'p \<Rightarrow> bus_io \<Rightarrow> 'p \<times> bus_io \<times> pattern_error option"
    and stop :: "'p \<Rightarrow> bus_io \<Rightarrow> 'p \<times> bus_io"
  assumes start_owns: "\<lbrakk>start env p io = (p', io', err); io_ok io; subs p = []\<rbrakk> \<Longrightarrow>
      io_ok io' \<and> io_tick io \<le> io_tick io' \<and> (\<exists>new. io_subs io' = io_subs io @ new \<and> map fst new = subs p' \<and>
        (\<forall>i \<in> set (subs p'). io_tick io \<le> i) \<and> (err \<noteq> None \<longrightarrow> new = []))"
    and stop_io: "snd (stop p io) = fold io_unsubscribe (subs p) io"
    and stop_subs: "subs (fst (stop p io)) = []"
begin

lemma fold_unsubscribe: "io_subs (fold io_unsubscribe is io) = filter (\<lambda>(i, _). i \<notin> set is) (io_subs io)"
  by (induction "is" arbitrary: io) (auto simp: io_unsubscribe_def intro: filter_cong)

lemma stop_releases: "io_subs (snd (stop p io)) = filter (\<lambda>(i, _). i \<notin> set (subs p)) (io_subs io)"
  by (simp add: stop_io fold_unsubscribe)

lemma start_stop:
  assumes "start env p io = (p', io', err)" and "io_ok io" and "subs p = []"
  shows "io_subs (snd (stop p' io')) = io_subs io"
proof -
  obtain new where new: "io_subs io' = io_subs io @ new" "map fst new = subs p'"
    and later: "\<forall>i \<in> set (subs p'). io_tick io \<le> i"
    using start_owns [OF assms] by blast
  have owned: "set (subs p') = fst ` set new" using new(2) by (metis set_map)
  have "filter (\<lambda>(i, _). i \<notin> set (subs p')) new = []" by (force simp: owned filter_empty_conv)
  moreover have "filter (\<lambda>(i, _). i \<notin> set (subs p')) (io_subs io) = io_subs io"
    using later assms(2) by (intro filter_True) (fastforce simp: io_ok_def)
  ultimately show ?thesis by (simp add: stop_releases new(1))
qed

lemma stop_twice: "stop p io = (p', io') \<Longrightarrow> snd (stop p' io'') = io''"
  using stop_subs [of p io] by (simp add: stop_io)

end

end
