(* ===== verification/Event_Patterns.thy ===== *)
theory Event_Patterns
  imports Patterns Keeper_Relay
begin

text \<open>
  \<open>internal/patterns/swarm.go\<close> and \<open>event_driven.go\<close>: a shared topic for all agents of a hive, and
  events routed to the agents whose filter they match.  A Go map of subscribers is an association
  list in the order of the iteration; the nil map of a filter is the empty list.
\<close>

section \<open>Swarm\<close>

record swarm =
  sw_hive :: hive
  sw_agentIDs :: "string list"
  sw_subs :: "nat list"
  sw_cancel :: "bool option"

definition NewSwarm :: "hive \<Rightarrow> swarm" where
  "NewSwarm h = \<lparr>sw_hive = h, sw_agentIDs = [], sw_subs = [], sw_cancel = None\<rparr>"

definition Swarm_Initialize :: "string list \<Rightarrow> swarm \<Rightarrow> swarm \<times> pattern_error option" where
  "Swarm_Initialize agentIDs s =
    (if hi_Pattern (hv_Spec (sw_hive s)) \<noteq> ''swarm'' then (s, Some (WrongPattern (hi_Pattern (hv_Spec (sw_hive s)))))
     else (s\<lparr>sw_agentIDs := agentIDs\<rparr>, None))"

definition shared_topic :: "hive \<Rightarrow> string" where
  "shared_topic h = PrefixTopic (hive_ns h) (''swarm.'' @ hive_name h)"

definition Swarm_Start :: "pattern_env \<Rightarrow> swarm \<Rightarrow> bus_io \<Rightarrow> swarm \<times> bus_io \<times> pattern_error option" where
  "Swarm_Start env s io =
    (let s = s\<lparr>sw_cancel := Some False\<rparr>
     in case io_subscribe env (shared_topic (sw_hive s)) io of
          (io, None) \<Rightarrow> (s\<lparr>sw_cancel := Some True\<rparr>, io, Some SubscribeError)
        | (io, Some sub) \<Rightarrow> (s\<lparr>sw_subs := sw_subs s @ [sub]\<rparr>, io, None))"

text \<open>The handler only logs: every agent sees the messages of the shared topic itself.\<close>

definition handleSwarmMessage :: "pattern_env \<Rightarrow> message \<Rightarrow> swarm \<Rightarrow> swarm \<times> pattern_error option" where
  "handleSwarmMessage env bm s =
    (case DecodeMessage (pe_dec env) (msg_Payload bm) of
       Inl e \<Rightarrow> (s, Some (DecodeError e))
     | Inr m \<Rightarrow> (s, None))"

definition Swarm_Publish :: "pattern_env \<Rightarrow> wmsg \<Rightarrow> swarm \<Rightarrow> bus_io \<Rightarrow> bus_io \<times> pattern_error option" where
  "Swarm_Publish env m s io = send_waggle env (shared_topic (sw_hive s)) (wg_SourceAgentID m) m io"

definition Swarm_Stop :: "swarm \<Rightarrow> bus_io \<Rightarrow> swarm \<times> bus_io" where
  "Swarm_Stop s io =
    (s\<lparr>sw_subs := [], sw_cancel := map_option (\<lambda>_. True) (sw_cancel s)\<rparr>, fold io_unsubscribe (sw_subs s) io)"

lemma io_subscribe_cases:
  assumes "io_subscribe env t io = (io', r)" and "io_ok io"
  shows "io_ok io'" and "r = None \<Longrightarrow> io_subs io' = io_subs io"
    and "\<And>i. r = Some i \<Longrightarrow> io_subs io' = io_subs io @ [(i, t)] \<and> i = io_tick io"
    and "io_sent io' = io_sent io" and "io_tick io' = Suc (io_tick io)"
  using assms io_ok_steps(3) [OF assms(2), of env t]
  by (auto simp: io_subscribe_def Let_def split: if_splits)

lemma one_subscription:
  assumes "io_subscribe env t io = (io', r)" and "io_ok io"
  shows "io_ok io' \<and> io_tick io \<le> io_tick io' \<and> (\<exists>new. io_subs io' = io_subs io @ new \<and>
    map fst new = (case r of None \<Rightarrow> [] | Some i \<Rightarrow> [i]) \<and> (\<forall>i \<in> set (map fst new). io_tick io \<le> i) \<and>
    (r = None \<longrightarrow> new = []))"
  using io_subscribe_cases [OF assms] by (cases r) auto

interpretation swarm: started_pattern sw_subs Swarm_Start Swarm_Stop
proof unfold_locales
  fix env s io s' io' err
  assume "Swarm_Start env s io = (s', io', err)" and "io_ok io" and "sw_subs s = []"
  moreover obtain r where "io_subscribe env (shared_topic (sw_hive s)) io = (io', r)"
    "sw_subs s' = (case r of None \<Rightarrow> [] | Some i \<Rightarrow> [i])" "err \<noteq> None \<longleftrightarrow> r = None"
    using calculation by (auto simp: Swarm_Start_def Let_def split: prod.splits option.splits)
  ultimately show "io_ok io' \<and> io_tick io \<le> io_tick io' \<and> (\<exists>new. io_subs io' = io_subs io @ new \<and> map fst new = sw_subs s' \<and>
        (\<forall>i \<in> set (sw_subs s'). io_tick io \<le> i) \<and> (err \<noteq> None \<longrightarrow> new = []))"
    using one_subscription by metis
qed (simp_all add: Swarm_Stop_def)

section \<open>Event-driven\<close>

record event_filter =
  ef_Type :: string
  ef_Priority :: string
  ef_Metadata :: "(string \<times> string) list"

record subscriber_config =
  sb_AgentID :: string
  sb_Filter :: event_filter

record event_driven =
  ed_hive :: hive
  ed_eventSource :: string
  ed_subscribers :: "(string \<times> subscriber_config) list"
  ed_subs :: "(string \<times> nat) list"
  ed_cancel :: "bool option"

definition NewEventDriven :: "hive \<Rightarrow> event_driven" where
  "NewEventDriven h = \<lparr>ed_hive = h, ed_eventSource = '''', ed_subscribers = [], ed_subs = [], ed_cancel = None\<rparr>"

definition EventDriven_Initialize :: "string \<Rightarrow> subscriber_config list \<Rightarrow> event_driven \<Rightarrow>
    event_driven \<times> pattern_error option" where
  "EventDriven_Initialize source subscribers e =
    (if hi_Pattern (hv_Spec (ed_hive e)) \<noteq> ''event-driven''
     then (e, Some (WrongPattern (hi_Pattern (hv_Spec (ed_hive e)))))
     else (e\<lparr>ed_eventSource := source,
             ed_subscribers := fold (\<lambda>sub. AList.update (sb_AgentID sub) sub) subscribers (ed_subscribers e)\<rparr>, None))"

definition event_topic :: "event_driven \<Rightarrow> string" where
  "event_topic e = PrefixTopic (hive_ns (ed_hive e)) (''events.'' @ hive_name (ed_hive e) @ ''.'' @ ed_eventSource e)"

definition EventDriven_Start :: "pattern_env \<Rightarrow> event_driven \<Rightarrow> bus_io \<Rightarrow> event_driven \<times> bus_io \<times> pattern_error option" where
  "EventDriven_Start env e io =
    (let e = e\<lparr>ed_cancel := Some False\<rparr>
     in case io_subscribe env (event_topic e) io of
          (io, None) \<Rightarrow> (e\<lparr>ed_cancel := Some True\<rparr>, io, Some SubscribeError)
        | (io, Some sub) \<Rightarrow> (e\<lparr>ed_subs := AList.update (event_topic e) sub (ed_subs e)\<rparr>, io, None))"

definition matchesFilter :: "wmsg \<Rightarrow> event_filter \<Rightarrow> bool" where
  "matchesFilter msg flt =
    (if ef_Type flt = '''' \<and> ef_Priority flt = '''' \<and> ef_Metadata flt = [] then True
     else if ef_Type flt \<noteq> '''' \<and> wg_Type msg \<noteq> ef_Type flt then False
     else if ef_Priority flt \<noteq> '''' \<and> GetMetadata ''priority'' msg \<noteq> ef_Priority flt then False
     else if list_ex (\<lambda>(key, v). GetMetadata key msg \<noteq> v) (ef_Metadata flt) then False
     else True)"

text \<open>The loop over the subscribers; a failure for one of them is only logged.\<close>

fun route_event :: "pattern_env \<Rightarrow> hive \<Rightarrow> wmsg \<Rightarrow> subscriber_config list \<Rightarrow> bus_io \<Rightarrow> bus_io" where
  "route_event env h msg [] io = io"
| "route_event env h msg (config # rest) io =
    (if matchesFilter msg (sb_Filter config)
     then route_event env h msg rest
            (fst (send_waggle env (inbound_topic (hive_ns h) (sb_AgentID config)) (wg_SourceAgentID msg) msg io))
     else route_event env h msg rest io)"

definition handleEvent :: "pattern_env \<Rightarrow> message \<Rightarrow> event_driven \<Rightarrow> bus_io \<Rightarrow> bus_io \<times> pattern_error option" where
  "handleEvent env bm e io =
    (case DecodeMessage (pe_dec env) (msg_Payload bm) of
       Inl err \<Rightarrow> (io, Some (DecodeError err))
     | Inr m \<Rightarrow> (route_event env (ed_hive e) m (map snd (ed_subscribers e)) io, None))"

definition PublishEvent :: "pattern_env \<Rightarrow> wmsg \<Rightarrow> event_driven \<Rightarrow> bus_io \<Rightarrow> bus_io \<times> pattern_error option" where
  "PublishEvent env m e io = send_waggle env (event_topic e) (wg_SourceAgentID m) m io"

definition AddSubscriber :: "string \<Rightarrow> event_filter \<Rightarrow> event_driven \<Rightarrow> event_driven" where
  "AddSubscriber agentID flt e =
    e\<lparr>ed_subscribers := AList.update agentID \<lparr>sb_AgentID = agentID, sb_Filter = flt\<rparr> (ed_subscribers e)\<rparr>"

definition RemoveSubscriber :: "string \<Rightarrow> event_driven \<Rightarrow> event_driven" where
  "RemoveSubscriber agentID e = e\<lparr>ed_subscribers := AList.delete agentID (ed_subscribers e)\<rparr>"

definition EventDriven_Stop :: "event_driven \<Rightarrow> bus_io \<Rightarrow> event_driven \<times> bus_io" where
  "EventDriven_Stop e io =
    (e\<lparr>ed_subs := [], ed_cancel := map_option (\<lambda>_. True) (ed_cancel e)\<rparr>,
     fold io_unsubscribe (map snd (ed_subs e)) io)"

interpretation events: started_pattern "\<lambda>e. map snd (ed_subs e)" EventDriven_Start EventDriven_Stop
proof unfold_locales
  fix env e io e' io' err
  assume "EventDriven_Start env e io = (e', io', err)" and "io_ok io" and "map snd (ed_subs e) = []"
  moreover obtain t r where "io_subscribe env t io = (io', r)"
    "map snd (ed_subs e') = (case r of None \<Rightarrow> [] | Some i \<Rightarrow> [i])" "err \<noteq> None \<longleftrightarrow> r = None"
    using calculation by (auto simp: EventDriven_Start_def Let_def split: prod.splits option.splits)
  ultimately show "io_ok io' \<and> io_tick io \<le> io_tick io' \<and> (\<exists>new. io_subs io' = io_subs io @ new \<and> map fst new = map snd (ed_subs e') \<and>
        (\<forall>i \<in> set (map snd (ed_subs e')). io_tick io \<le> i) \<and> (err \<noteq> None \<longrightarrow> new = []))"
    using one_subscription by metis
qed (simp_all add: EventDriven_Stop_def)

section \<open>Properties\<close>

text \<open>The reference reading of a filter: every part that is given has to agree, a missing metadata
  entry counting as empty.\<close>

definition accepts :: "event_filter \<Rightarrow> wmsg \<Rightarrow> bool" where
  "accepts flt m \<longleftrightarrow>
    (ef_Type flt = '''' \<or> wg_Type m = ef_Type flt) \<and>
    (ef_Priority flt = '''' \<or> GetMetadata ''priority'' m = ef_Priority flt) \<and>
    list_all (\<lambda>(k, v). GetMetadata k m = v) (ef_Metadata flt)"

lemma matchesFilter_accepts: "matchesFilter m flt = accepts flt m"
proof -
  have "list_ex (\<lambda>(k, v). GetMetadata k m \<noteq> v) l \<longleftrightarrow> \<not> list_all (\<lambda>(k, v). GetMetadata k m = v) l" for l
    by (induction l) auto
  then show ?thesis by (simp add: matchesFilter_def accepts_def)
qed

inductive event_reachable :: "event_driven \<Rightarrow> bool" where
  er_new: "event_reachable (NewEventDriven h)"
| er_init: "event_reachable e \<Longrightarrow> event_reachable (fst (EventDriven_Initialize source subscribers e))"
| er_add: "event_reachable e \<Longrightarrow> event_reachable (AddSubscriber a flt e)"
| er_remove: "event_reachable e \<Longrightarrow> event_reachable (RemoveSubscriber a e)"
| er_start: "event_reachable e \<Longrightarrow> event_reachable (fst (EventDriven_Start env e io))"
| er_stop: "event_reachable e \<Longrightarrow> event_reachable (fst (EventDriven_Stop e io))"

definition subscribers_ok :: "(string \<times> subscriber_config) list \<Rightarrow> bool" where
  "subscribers_ok cs \<longleftrightarrow> distinct (map fst cs) \<and> (\<forall>(a, c) \<in> set cs. sb_AgentID c = a)"

lemma subscribers_ok_update:
  "subscribers_ok cs \<Longrightarrow> sb_AgentID c = a \<Longrightarrow> subscribers_ok (AList.update a c cs)"
  using Ball_update [of cs "\<lambda>(a, c). sb_AgentID c = a" a c] by (simp add: subscribers_ok_def distinct_update)

lemma subscribers_ok_fold:
  "subscribers_ok cs \<Longrightarrow> subscribers_ok (fold (\<lambda>sub. AList.update (sb_AgentID sub) sub) subs cs)"
  by (induction subs arbitrary: cs) (simp_all add: subscribers_ok_update)

lemma event_reachable_ok: "event_reachable e \<Longrightarrow> subscribers_ok (ed_subscribers e)"
proof (induction rule: event_reachable.induct)
  case (er_remove e a)
  then show ?case
    by (auto simp: RemoveSubscriber_def subscribers_ok_def distinct_delete AList.delete_eq)
next
  case (er_start e env io)
  then show ?case by (simp add: EventDriven_Start_def Let_def split: prod.splits option.splits)
qed (simp_all add: NewEventDriven_def EventDriven_Initialize_def AddSubscriber_def EventDriven_Stop_def
      subscribers_ok_update subscribers_ok_fold, simp add: subscribers_ok_def)

lemma route_event_sent:
  assumes "pe_enc env m = Some d"
  shows "\<exists>oks. length oks = length (filter (\<lambda>c. accepts (sb_Filter c) m) cs) \<and>
    io_sent (route_event env h m cs io) = io_sent io @
      map2 (\<lambda>c ok. (inbound_topic (hive_ns h) (sb_AgentID c), to_bus (wg_SourceAgentID m) d m, ok))
        (filter (\<lambda>c. accepts (sb_Filter c) m) cs) oks"
proof (induction cs arbitrary: io)
  case (Cons c cs)
  show ?case
  proof (cases "accepts (sb_Filter c) m")
    case True
    let ?t = "inbound_topic (hive_ns h) (sb_AgentID c)"
    obtain ok where "io_sent (fst (send_waggle env ?t (wg_SourceAgentID m) m io)) =
        io_sent io @ [(?t, to_bus (wg_SourceAgentID m) d m, ok)]"
      using assms by (simp add: send_waggle_def EncodeMessage_def io_publish_def Let_def)
    moreover obtain oks where "length oks = length (filter (\<lambda>c. accepts (sb_Filter c) m) cs)"
      "io_sent (route_event env h m cs (fst (send_waggle env ?t (wg_SourceAgentID m) m io))) =
        io_sent (fst (send_waggle env ?t (wg_SourceAgentID m) m io)) @
        map2 (\<lambda>c ok. (inbound_topic (hive_ns h) (sb_AgentID c), to_bus (wg_SourceAgentID m) d m, ok))
          (filter (\<lambda>c. accepts (sb_Filter c) m) cs) oks"
      using Cons by blast
    ultimately show ?thesis using True by (intro exI [of _ "ok # oks"]) (simp add: matchesFilter_accepts)
  qed (use Cons in \<open>simp add: matchesFilter_accepts\<close>)
qed simp

lemma inbound_topic_inj:
  assumes "validateNamespace ns = None" and "validateNamespace ns' = None"
  shows "inbound_topic ns a = inbound_topic ns' a' \<longleftrightarrow> ns = ns' \<and> a = a'"
  by (simp add: inbound_topic_def prefix_topic_inj [OF assms])

lemma count_subscribers:
  assumes "subscribers_ok cs"
  shows "length (filter (\<lambda>c. sb_AgentID c = a \<and> P c) (map snd cs)) =
    (case map_of cs a of Some c \<Rightarrow> if P c then 1 else 0 | None \<Rightarrow> 0)"
  using assms
proof (induction cs)
  case (Cons x cs)
  obtain b c where x: "x = (b, c)" by fastforce
  have ok: "subscribers_ok cs" "sb_AgentID c = b" "b \<notin> fst ` set cs" using Cons.prems by (auto simp: subscribers_ok_def x)
  have "map_of cs b = None" using ok(3) by (simp add: map_of_eq_None_iff)
  then show ?case using Cons.IH [OF ok(1)] ok(2) by (cases "a = b") (auto simp: x)
qed simp

text \<open>C19: An event goes exactly once to every agent that asked for it.  Whatever subscribers were
  configured, added and removed, a decodable event is handed to the bus once for each agent
  whose filter accepts it, on the topic that agent's keeper listens to in the cell of the hive,
  and for no other agent and no agent of another cell; the filter means what its parts say.
  A failure to publish to one agent does not keep it from the others.\<close>

theorem events_routed_exactly:
  assumes "event_reachable e" and "handleEvent env bm e io = (io', err)"
    and "DecodeMessage (pe_dec env) (msg_Payload bm) = Inr m" and "pe_enc env m = Some d"
    and "validateNamespace (hive_ns (ed_hive e)) = None" and "validateNamespace ns = None"
  shows "err = None \<and> (\<exists>new. io_sent io' = io_sent io @ new \<and>
    (\<forall>(t, bm', ok) \<in> set new. bm' = to_bus (wg_SourceAgentID m) d m \<and>
      (\<exists>a'. t = inbound_topic (hive_ns (ed_hive e)) a')) \<and>
    length (filter (\<lambda>(t, _). t = inbound_topic ns a) new) =
      (case map_of (ed_subscribers e) a of
         Some c \<Rightarrow> if ns = hive_ns (ed_hive e) \<and> accepts (sb_Filter c) m then 1 else 0
       | None \<Rightarrow> 0))"
proof -
  let ?ns = "hive_ns (ed_hive e)" and ?cs = "map snd (ed_subscribers e)"
  let ?hits = "filter (\<lambda>c. accepts (sb_Filter c) m) ?cs"
  let ?f = "\<lambda>c (ok :: bool). (inbound_topic ?ns (sb_AgentID c), to_bus (wg_SourceAgentID m) d m, ok)"
  have res: "io' = route_event env (ed_hive e) m ?cs io" "err = None"
    using assms(2,3) by (simp_all add: handleEvent_def)
  obtain oks where oks: "length oks = length ?hits" and sent: "io_sent io' = io_sent io @ map2 ?f ?hits oks"
    using route_event_sent [OF assms(4), of ?cs "ed_hive e" io] res by blast
  have same: "inbound_topic ?ns a' = inbound_topic ns a \<longleftrightarrow> ns = ?ns \<and> a' = a" for a'
    using inbound_topic_inj [OF assms(5,6), of a' a] by auto
  have zip: "length (filter (\<lambda>(t, _). t = inbound_topic ns a) (map2 ?f cs bs)) =
      length (filter (\<lambda>c. ns = ?ns \<and> sb_AgentID c = a) cs)" if "length bs = length cs" for cs :: "subscriber_config list" and bs
    using that [symmetric] by (induction cs bs rule: list_induct2) (auto simp: same)
  have "length (filter (\<lambda>(t, _). t = inbound_topic ns a) (map2 ?f ?hits oks)) =
      length (filter (\<lambda>c. sb_AgentID c = a \<and> (ns = ?ns \<and> accepts (sb_Filter c) m)) ?cs)"
    using zip [OF oks] by (simp add: filter_filter conj_ac)
  also have "\<dots> = (case map_of (ed_subscribers e) a of
         Some c \<Rightarrow> if ns = ?ns \<and> accepts (sb_Filter c) m then 1 else 0 | None \<Rightarrow> 0)"
    by (rule count_subscribers [OF event_reachable_ok [OF assms(1)]])
  finally show ?thesis using sent res(2) by (auto simp: set_zip)
qed

lemma events_routed_exactly_witness:
  "let e = AddSubscriber ''a'' \<lparr>ef_Type = ''task'', ef_Priority = '''', ef_Metadata = [(''region'', '''')]\<rparr> (NewEventDriven two_stages);
       bm = sample_message\<lparr>msg_Payload := ''x''\<rparr>
   in snd (handleEvent quiet_env bm e quiet_io) = None \<and>
      (\<exists>new. io_sent (fst (handleEvent quiet_env bm e quiet_io)) = io_sent quiet_io @ new \<and>
        length (filter (\<lambda>(t, _). t = inbound_topic ''prod'' ''a'') new) = 1)"
proof -
  let ?e = "AddSubscriber ''a'' \<lparr>ef_Type = ''task'', ef_Priority = '''', ef_Metadata = [(''region'', '''')]\<rparr> (NewEventDriven two_stages)"
  let ?bm = "sample_message\<lparr>msg_Payload := ''x''\<rparr>" and ?m = "one_message\<lparr>wg_ID := ''x''\<rparr>"
  have r: "event_reachable ?e" by (intro event_reachable.intros)
  have h: "handleEvent quiet_env ?bm ?e quiet_io =
      (fst (handleEvent quiet_env ?bm ?e quiet_io), snd (handleEvent quiet_env ?bm ?e quiet_io))" by simp
  have d: "DecodeMessage (pe_dec quiet_env) (msg_Payload ?bm) = Inr ?m" by code_simp
  have c: "pe_enc quiet_env ?m = Some ''x''" by code_simp
  have ns: "validateNamespace (hive_ns (ed_hive ?e)) = None" "validateNamespace ''prod'' = None"
    "''prod'' = hive_ns (ed_hive ?e)" by code_simp+
  have f: "map_of (ed_subscribers ?e) ''a'' =
      Some \<lparr>sb_AgentID = ''a'', sb_Filter = \<lparr>ef_Type = ''task'', ef_Priority = '''', ef_Metadata = [(''region'', '''')]\<rparr>\<rparr>"
    "accepts \<lparr>ef_Type = ''task'', ef_Priority = '''', ef_Metadata = [(''region'', '''')]\<rparr> ?m" by code_simp+
  show ?thesis
    using events_routed_exactly [OF r h d c ns(1,2), of "''a''"] unfolding Let_def f(1) using ns(3) f(2) by auto
qed

text \<open>Starting twice subscribes twice but remembers only the second subscription, so every event is
  then routed twice, and stopping leaves the first subscription in place.\<close>

lemma second_start_leaks_subscription:
  assumes "EventDriven_Start env e io = (e1, io1, None)" and "EventDriven_Start env' e1 io1 = (e2, io2, None)"
    and "io_ok io" and "ed_subs e = []"
  shows "io_subs io2 = io_subs io @ [(io_tick io, event_topic e), (io_tick io1, event_topic e)] \<and>
    io_subs (snd (EventDriven_Stop e2 io2)) = io_subs io @ [(io_tick io, event_topic e)]"
proof -
  have topic: "event_topic (e\<lparr>ed_cancel := c\<rparr>) = event_topic e" "event_topic (e\<lparr>ed_subs := s\<rparr>) = event_topic e" for c s e
    by (simp_all add: event_topic_def)
  obtain i where i: "io_subscribe env (event_topic e) io = (io1, Some i)"
    "e1 = e\<lparr>ed_cancel := Some False, ed_subs := [(event_topic e, i)]\<rparr>"
    using assms(1,4) by (auto simp: EventDriven_Start_def Let_def topic split: prod.splits option.splits)
  note f = io_subscribe_cases [OF i(1) assms(3)]
  have e1: "event_topic e1 = event_topic e" by (simp add: i(2) event_topic_def)
  obtain j where j: "io_subscribe env' (event_topic e) io1 = (io2, Some j)" "map snd (ed_subs e2) = [j]"
    using assms(2) i(2) e1 by (auto simp: EventDriven_Start_def Let_def topic split: prod.splits option.splits)
  note g = io_subscribe_cases [OF j(1) f(1)]
  have subs: "io_subs io2 = io_subs io @ [(i, event_topic e), (j, event_topic e)]" and ij: "i = io_tick io" "j = io_tick io1"
    using f(3) g(3) by auto
  have "(i, event_topic e) \<in> set (io_subs io1)" using f(3) by simp
  then have "i < j" using f(1) unfolding io_ok_def ij(2) by blast
  moreover have "filter (\<lambda>(k, _). k \<noteq> j) (io_subs io) = io_subs io"
    using assms(3) \<open>i < j\<close> unfolding filter_id_conv io_ok_def ij(1) by fastforce
  ultimately show ?thesis by (simp add: subs ij [symmetric] events.stop_releases j(2))
qed

end
