(* ===== verification/Hierarchical.thy ===== *)
theory Hierarchical
  imports Event_Patterns
begin

text \<open>
  \<open>internal/patterns/hierarchical.go\<close>: a supervisor's tasks, queued, handed to workers in turn,
  and their results.

  The channel of tasks is the list \<open>hh_queue\<close> with room for 100; a handler that blocks on the
  full channel stands in \<open>hh_waiting\<close>, and moves up when a task is taken.  The index of the
  delegating goroutine is \<open>hh_index\<close>.  The results are an association list, since the cleanup
  iterates over them.  What an operation does for its task is its \<open>outcome\<close>.
\<close>

section \<open>State and operations\<close>

record task =
  tk_ID :: string
  tk_Payload :: wmsg
  tk_WorkerID :: string
  tk_AssignedAt :: time

record task_result =
  ts_TaskID :: string
  ts_WorkerID :: string
  ts_Result :: wmsg
  ts_CompletedAt :: time

abbreviation HierarchicalStatusPending :: string where "HierarchicalStatusPending \<equiv> ''pending''"
abbreviation HierarchicalStatusRunning :: string where "HierarchicalStatusRunning \<equiv> ''running''"
abbreviation HierarchicalStatusFailed :: string where "HierarchicalStatusFailed \<equiv> ''failed''"

record hierarchical_state =
  hs_Status :: string
  hs_ActiveTasks :: int
  hs_CompletedTasks :: int
  hs_FailedTasks :: int
  hs_StartedAt :: time

record hierarchical =
  hh_hive :: hive
  hh_supervisorID :: string
  hh_workerIDs :: "string list"
  hh_state :: hierarchical_state
  hh_cancel :: "bool option"
  hh_queue :: "task list"
  hh_waiting :: "task list"
  hh_index :: nat
  hh_results :: "(string \<times> task_result) list"
  hh_subs :: "nat list"
  hh_resultExpiry :: duration
  hh_lastCleanup :: time

definition NewHierarchical :: "time \<Rightarrow> time \<Rightarrow> hive \<Rightarrow> hierarchical" where
  "NewHierarchical now1 now2 h =
    \<lparr>hh_hive = h, hh_supervisorID = '''', hh_workerIDs = [],
     hh_state = \<lparr>hs_Status = HierarchicalStatusPending, hs_ActiveTasks = 0, hs_CompletedTasks = 0,
                 hs_FailedTasks = 0, hs_StartedAt = now2\<rparr>,
     hh_cancel = None, hh_queue = [], hh_waiting = [], hh_index = 0, hh_results = [], hh_subs = [],
     hh_resultExpiry = hour, hh_lastCleanup = now1\<rparr>"

definition Hierarchical_Initialize :: "string \<Rightarrow> string list \<Rightarrow> hierarchical \<Rightarrow> hierarchical \<times> pattern_error option" where
  "Hierarchical_Initialize supervisorID workerIDs h =
    (if hi_Pattern (hv_Spec (hh_hive h)) \<noteq> ''hierarchical''
     then (h, Some (WrongPattern (hi_Pattern (hv_Spec (hh_hive h)))))
     else (h\<lparr>hh_supervisorID := supervisorID, hh_workerIDs := workerIDs\<rparr>, None))"

definition hier_topic :: "hive \<Rightarrow> string \<Rightarrow> string" where
  "hier_topic h part = PrefixTopic (hive_ns h) (''hierarchical.'' @ hive_name h @ ''.'' @ part)"

definition Hierarchical_Start :: "pattern_env \<Rightarrow> hierarchical \<Rightarrow> bus_io \<Rightarrow> hierarchical \<times> bus_io \<times> pattern_error option" where
  "Hierarchical_Start env h io =
    (if hs_Status (hh_state h) \<noteq> HierarchicalStatusPending then (h, io, Some AlreadyStarted)
     else
      (let h = h\<lparr>hh_state := (hh_state h)\<lparr>hs_Status := HierarchicalStatusRunning\<rparr>, hh_cancel := Some False\<rparr>
       in case io_subscribe env (hier_topic (hh_hive h) ''supervisor.input'') io of
            (io, None) \<Rightarrow> (h\<lparr>hh_cancel := Some True\<rparr>, io, Some SubscribeError)
          | (io, Some sub1) \<Rightarrow>
             (case io_subscribe env (hier_topic (hh_hive h) ''worker.output'') io of
                (io, None) \<Rightarrow> (h\<lparr>hh_cancel := Some True\<rparr>, io_unsubscribe sub1 io, Some SubscribeError)
              | (io, Some sub2) \<Rightarrow> (h\<lparr>hh_subs := hh_subs h @ [sub1, sub2]\<rparr>, io, None))))"

datatype outcome =
    Accepted wmsg
  | Refused pattern_error
  | Withdrawn
  | Delegated string wmsg
  | Undelivered string wmsg pattern_error
  | NoWorkers wmsg
  | Answered string "pattern_error option"
  | Nothing

definition add_active :: "int \<Rightarrow> hierarchical \<Rightarrow> hierarchical" where
  "add_active n h = h\<lparr>hh_state := (hh_state h)\<lparr>hs_ActiveTasks := hs_ActiveTasks (hh_state h) + n\<rparr>\<rparr>"

text \<open>\<open>cancelled\<close> tells whether the context is done when the handler gets to its \<open>select\<close>, and
  \<open>ctx_first\<close> which branch Go picks when both are ready.  A handler that blocks has accepted
  its task unless the context ends later (\<open>cancel_waiting\<close>).\<close>

definition handleSupervisorInput :: "pattern_env \<Rightarrow> time \<Rightarrow> bool \<Rightarrow> bool \<Rightarrow> message \<Rightarrow> hierarchical \<Rightarrow> hierarchical \<times> outcome" where
  "handleSupervisorInput env now cancelled ctx_first bm h =
    (case DecodeMessage (pe_dec env) (msg_Payload bm) of
       Inl e \<Rightarrow> (h, Refused (DecodeError e))
     | Inr m \<Rightarrow>
        (let t = \<lparr>tk_ID = wg_ID m, tk_Payload = m, tk_WorkerID = '''', tk_AssignedAt = now\<rparr>;
             h = add_active 1 h;
             full = length (hh_queue h) \<ge> 100
         in if cancelled \<and> (full \<or> ctx_first) then (add_active (- 1) h, Refused ContextCancelled)
            else if full then (h\<lparr>hh_waiting := hh_waiting h @ [t]\<rparr>, Accepted m)
            else (h\<lparr>hh_queue := hh_queue h @ [t]\<rparr>, Accepted m)))"

definition cancel_waiting :: "nat \<Rightarrow> hierarchical \<Rightarrow> hierarchical \<times> outcome" where
  "cancel_waiting i h =
    (if i < length (hh_waiting h)
     then (add_active (- 1) (h\<lparr>hh_waiting := take i (hh_waiting h) @ drop (Suc i) (hh_waiting h)\<rparr>), Withdrawn)
     else (h, Nothing))"

text \<open>A receive from the channel: the first blocked sender takes the place that becomes free.\<close>

definition receive_task :: "hierarchical \<Rightarrow> (task \<times> hierarchical) option" where
  "receive_task h =
    (case hh_queue h of
       [] \<Rightarrow> None
     | t # ts \<Rightarrow> Some (t, h\<lparr>hh_queue := ts @ take 1 (hh_waiting h), hh_waiting := drop 1 (hh_waiting h)\<rparr>))"

text \<open>One round of \<open>delegateTasks\<close>; the identifier of a task is that of its payload.\<close>

definition delegate_one :: "pattern_env \<Rightarrow> hierarchical \<Rightarrow> bus_io \<Rightarrow> hierarchical \<times> bus_io \<times> outcome" where
  "delegate_one env h io =
    (case receive_task h of
       None \<Rightarrow> (h, io, Nothing)
     | Some (t, h) \<Rightarrow>
        (if hh_workerIDs h = [] then (h, io, NoWorkers (tk_Payload t))
         else
          (let worker = hh_workerIDs h ! (hh_index h mod length (hh_workerIDs h));
               h = h\<lparr>hh_index := hh_index h + 1\<rparr>
           in case send_waggle env (inbound_topic (hive_ns (hh_hive h)) worker) '''' (tk_Payload t) io of
                (io, None) \<Rightarrow> (h, io, Delegated worker (tk_Payload t))
              | (io, Some e) \<Rightarrow>
                 (add_active (- 1) (h\<lparr>hh_state := (hh_state h)\<lparr>hs_FailedTasks := hs_FailedTasks (hh_state h) + 1\<rparr>\<rparr>), io,
                  Undelivered worker (tk_Payload t) e))))"

definition handleWorkerOutput :: "pattern_env \<Rightarrow> time \<Rightarrow> message \<Rightarrow> hierarchical \<Rightarrow> bus_io \<Rightarrow> hierarchical \<times> bus_io \<times> outcome" where
  "handleWorkerOutput env now bm h io =
    (case DecodeMessage (pe_dec env) (msg_Payload bm) of
       Inl e \<Rightarrow> (h, io, Refused (DecodeError e))
     | Inr m \<Rightarrow>
        (let taskID = (if wg_CorrelationID m = '''' then wg_ID m else wg_CorrelationID m);
             r = \<lparr>ts_TaskID = taskID, ts_WorkerID = wg_SourceAgentID m, ts_Result = m, ts_CompletedAt = now\<rparr>;
             h = add_active (- 1) (h\<lparr>hh_results := AList.update taskID r (hh_results h),
                   hh_state := (hh_state h)\<lparr>hs_CompletedTasks := hs_CompletedTasks (hh_state h) + 1\<rparr>\<rparr>);
             (io, e) = send_waggle env (inbound_topic (hive_ns (hh_hive h)) (hh_supervisorID h)) '''' m io
         in (h, io, Answered taskID e)))"

definition Hierarchical_GetState :: "hierarchical \<Rightarrow> hierarchical_state" where
  "Hierarchical_GetState h = hh_state h"

definition GetResult :: "string \<Rightarrow> hierarchical \<Rightarrow> task_result option" where
  "GetResult taskID h = map_of (hh_results h) taskID"

definition Hierarchical_Stop :: "hierarchical \<Rightarrow> bus_io \<Rightarrow> hierarchical \<times> bus_io" where
  "Hierarchical_Stop h io =
    (h\<lparr>hh_subs := [], hh_cancel := map_option (\<lambda>_. True) (hh_cancel h),
       hh_state := (if hs_Status (hh_state h) = HierarchicalStatusRunning
                    then (hh_state h)\<lparr>hs_Status := HierarchicalStatusFailed\<rparr> else hh_state h)\<rparr>,
     fold io_unsubscribe (hh_subs h) io)"

text \<open>One tick of \<open>cleanupResults\<close>.\<close>

definition cleanup_tick :: "time \<Rightarrow> hierarchical \<Rightarrow> hierarchical" where
  "cleanup_tick now h =
    h\<lparr>hh_results := filter (\<lambda>(_, r). \<not> now - ts_CompletedAt r > hh_resultExpiry h) (hh_results h),
      hh_lastCleanup := now\<rparr>"

interpretation hier: started_pattern hh_subs Hierarchical_Start Hierarchical_Stop
proof unfold_locales
  fix env h io h' io' err
  assume s: "Hierarchical_Start env h io = (h', io', err)" and ok: "io_ok io" and none: "hh_subs h = []"
  let ?t1 = "hier_topic (hh_hive h) ''supervisor.input''" and ?t2 = "hier_topic (hh_hive h) ''worker.output''"
  show "io_ok io' \<and> io_tick io \<le> io_tick io' \<and> (\<exists>new. io_subs io' = io_subs io @ new \<and> map fst new = hh_subs h' \<and>
        (\<forall>i \<in> set (hh_subs h'). io_tick io \<le> i) \<and> (err \<noteq> None \<longrightarrow> new = []))"
  proof (cases "hs_Status (hh_state h) = HierarchicalStatusPending")
    case False
    then show ?thesis using s ok none by (auto simp: Hierarchical_Start_def)
  next
    case True
    obtain io1 r1 where c1: "io_subscribe env ?t1 io = (io1, r1)" by fastforce
    note f1 = io_subscribe_cases [OF c1 ok]
    show ?thesis
    proof (cases r1)
      case None
      then show ?thesis using s f1 none True by (auto simp: Hierarchical_Start_def Let_def c1)
    next
      case (Some i)
      obtain io2 r2 where c2: "io_subscribe env ?t2 io1 = (io2, r2)" by fastforce
      note f2 = io_subscribe_cases [OF c2 f1(1)]
      have i: "io_subs io1 = io_subs io @ [(i, ?t1)]" "i = io_tick io" using f1(3) Some by auto
      show ?thesis
      proof (cases r2)
        case None
        have "io_subs io2 = io_subs io1" using f2(2) None by simp
        then have "io_subs (io_unsubscribe i io2) = io_subs io"
          using ok by (auto simp: io_unsubscribe_def i io_ok_def filter_id_conv)
        moreover have "io_ok (io_unsubscribe i io2)" "io_tick io \<le> io_tick (io_unsubscribe i io2)"
          using io_ok_steps(4) [OF f2(1)] f2(5) f1(5) by (simp_all add: io_unsubscribe_def)
        ultimately show ?thesis using s none True Some None by (auto simp: Hierarchical_Start_def Let_def c1 c2)
      next
        case (Some j)
        have "io_subs io2 = io_subs io @ [(i, ?t1), (j, ?t2)]" "j = io_tick io1" using f2(3) Some i by auto
        then show ?thesis using s none True \<open>r1 = Some i\<close> Some f2(1,5) f1(5) i(2)
          by (auto simp: Hierarchical_Start_def Let_def c1 c2)
      qed
    qed
  qed
qed (simp_all add: Hierarchical_Stop_def)

section \<open>Runs\<close>

datatype hier_event =
    SupervisorInput time bool bool message
  | WaiterCancelled nat
  | DelegationRound
  | WorkerOutput time message
  | CleanupTick time

fun hier_step :: "pattern_env \<Rightarrow> hier_event \<Rightarrow> hierarchical \<Rightarrow> bus_io \<Rightarrow> hierarchical \<times> bus_io \<times> outcome" where
  "hier_step env (SupervisorInput now c f bm) h io = (let (h, r) = handleSupervisorInput env now c f bm h in (h, io, r))"
| "hier_step env (WaiterCancelled i) h io = (let (h, r) = cancel_waiting i h in (h, io, r))"
| "hier_step env DelegationRound h io = delegate_one env h io"
| "hier_step env (WorkerOutput now bm) h io = handleWorkerOutput env now bm h io"
| "hier_step env (CleanupTick now) h io = (cleanup_tick now h, io, Nothing)"

fun hier_run :: "pattern_env \<Rightarrow> hier_event list \<Rightarrow> hierarchical \<Rightarrow> bus_io \<Rightarrow> hierarchical \<times> bus_io \<times> outcome list" where
  "hier_run env [] h io = (h, io, [])"
| "hier_run env (ev # evs) h io =
    (let (h, io, r) = hier_step env ev h io; (h, io, rs) = hier_run env evs h io in (h, io, r # rs))"

text \<open>What the outcomes of a run add up to.\<close>

definition count :: "(outcome \<Rightarrow> bool) \<Rightarrow> outcome list \<Rightarrow> int" where
  "count P rs = int (length (filter P rs))"

fun is_answered :: "outcome \<Rightarrow> bool" where "is_answered (Answered _ _) = True" | "is_answered _ = False"
fun is_delegated :: "outcome \<Rightarrow> bool" where "is_delegated (Delegated _ _) = True" | "is_delegated _ = False"
fun is_undelivered :: "outcome \<Rightarrow> bool" where "is_undelivered (Undelivered _ _ _) = True" | "is_undelivered _ = False"
fun is_dropped :: "outcome \<Rightarrow> bool" where "is_dropped (NoWorkers _) = True" | "is_dropped _ = False"

fun accepted_task :: "outcome \<Rightarrow> wmsg list" where
  "accepted_task (Accepted m) = [m]" | "accepted_task _ = []"

fun taken_task :: "outcome \<Rightarrow> (string option \<times> wmsg) list" where
  "taken_task (Delegated w m) = [(Some w, m)]"
| "taken_task (Undelivered w m _) = [(Some w, m)]"
| "taken_task (NoWorkers m) = [(None, m)]"
| "taken_task _ = []"

lemma count_Nil [simp]: "count P [] = 0"
  and count_Cons [simp]: "count P (r # rs) = (if P r then 1 else 0) + count P rs"
  by (simp_all add: count_def)

text \<open>One step of the accounting.\<close>

definition backlog :: "hierarchical \<Rightarrow> int" where
  "backlog h = int (length (hh_queue h)) + int (length (hh_waiting h))"

lemma add_active_simps [simp]:
  "hs_ActiveTasks (hh_state (add_active n h)) = hs_ActiveTasks (hh_state h) + n"
  "hs_CompletedTasks (hh_state (add_active n h)) = hs_CompletedTasks (hh_state h)"
  "hs_FailedTasks (hh_state (add_active n h)) = hs_FailedTasks (hh_state h)"
  "hh_queue (add_active n h) = hh_queue h" "hh_waiting (add_active n h) = hh_waiting h"
  "hh_workerIDs (add_active n h) = hh_workerIDs h" "hh_index (add_active n h) = hh_index h"
  "hh_hive (add_active n h) = hh_hive h"
  by (simp_all add: add_active_def)

lemma receive_task_Some:
  assumes "receive_task h = Some (t, h')"
  shows "hh_queue h @ hh_waiting h = t # hh_queue h' @ hh_waiting h'" and "hh_state h' = hh_state h"
    and "hh_workerIDs h' = hh_workerIDs h" and "hh_index h' = hh_index h" and "hh_hive h' = hh_hive h"
  using assms by (cases "hh_waiting h"; auto simp: receive_task_def split: list.splits)+

lemma hier_step_counts:
  assumes "hier_step env ev h io = (h', io', r)"
  shows "hs_ActiveTasks (hh_state h') - backlog h' =
      hs_ActiveTasks (hh_state h) - backlog h + count is_delegated [r] + count is_dropped [r] - count is_answered [r]"
    and "hs_CompletedTasks (hh_state h') = hs_CompletedTasks (hh_state h) + count is_answered [r]"
    and "hs_FailedTasks (hh_state h') = hs_FailedTasks (hh_state h) + count is_undelivered [r]"
proof -
  have "hs_ActiveTasks (hh_state h') - backlog h' =
      hs_ActiveTasks (hh_state h) - backlog h + count is_delegated [r] + count is_dropped [r] - count is_answered [r] \<and>
    hs_CompletedTasks (hh_state h') = hs_CompletedTasks (hh_state h) + count is_answered [r] \<and>
    hs_FailedTasks (hh_state h') = hs_FailedTasks (hh_state h) + count is_undelivered [r]"
  proof (cases ev)
    case (SupervisorInput now c f bm)
    then show ?thesis using assms
      by (auto simp: handleSupervisorInput_def backlog_def Let_def split: sum.splits if_splits)
  next
    case (WaiterCancelled i)
    then show ?thesis using assms
      by (auto simp: cancel_waiting_def backlog_def Let_def split: if_splits)
  next
    case DelegationRound
    show ?thesis
    proof (cases "receive_task h")
      case None
      then show ?thesis using assms DelegationRound by (simp add: delegate_one_def)
    next
      case (Some p)
      obtain t h1 where p: "p = (t, h1)" by fastforce
      note t = receive_task_Some [OF Some [unfolded p]]
      have "backlog h = backlog h1 + 1" using arg_cong [OF t(1), of length] by (simp add: backlog_def)
      then show ?thesis using assms DelegationRound Some p t(2,3)
        by (auto simp: delegate_one_def backlog_def Let_def split: if_splits prod.splits option.splits)
    qed
  next
    case (WorkerOutput now bm)
    then show ?thesis using assms
      by (auto simp: handleWorkerOutput_def backlog_def Let_def split: sum.splits prod.splits)
  next
    case (CleanupTick now)
    then show ?thesis using assms by (auto simp: cleanup_tick_def backlog_def)
  qed
  then show "hs_ActiveTasks (hh_state h') - backlog h' =
      hs_ActiveTasks (hh_state h) - backlog h + count is_delegated [r] + count is_dropped [r] - count is_answered [r]"
    and "hs_CompletedTasks (hh_state h') = hs_CompletedTasks (hh_state h) + count is_answered [r]"
    and "hs_FailedTasks (hh_state h') = hs_FailedTasks (hh_state h) + count is_undelivered [r]"
    by blast+
qed

lemma hier_run_counts:
  assumes "hier_run env evs h io = (h', io', rs)"
  shows "hs_ActiveTasks (hh_state h') - backlog h' =
      hs_ActiveTasks (hh_state h) - backlog h + count is_delegated rs + count is_dropped rs - count is_answered rs \<and>
    hs_CompletedTasks (hh_state h') = hs_CompletedTasks (hh_state h) + count is_answered rs \<and>
    hs_FailedTasks (hh_state h') = hs_FailedTasks (hh_state h) + count is_undelivered rs"
  using assms
proof (induction evs arbitrary: h io rs)
  case (Cons ev evs)
  obtain h1 io1 r where s: "hier_step env ev h io = (h1, io1, r)" by (metis prod_cases3)
  obtain rs1 where "hier_run env evs h1 io1 = (h', io', rs1)" and rs: "rs = r # rs1"
    using Cons.prems by (auto simp: s Let_def split: prod.splits)
  from Cons.IH [OF this(1)] hier_step_counts [OF s] show ?case by (simp add: rs)
qed simp

section \<open>Properties\<close>

lemma hier_started:
  assumes "Hierarchical_Start env (fst (Hierarchical_Initialize boss ws (NewHierarchical t1 t2 hv))) io = (h, io', None)"
    and "hi_Pattern (hv_Spec hv) = ''hierarchical''"
  shows "hs_ActiveTasks (hh_state h) = 0" "hs_CompletedTasks (hh_state h) = 0" "hs_FailedTasks (hh_state h) = 0"
    and "hh_queue h = []" "hh_waiting h = []" "hh_index h = 0" "hh_workerIDs h = ws" "hh_hive h = hv" "backlog h = 0"
  using assms
  by (auto simp: Hierarchical_Start_def Hierarchical_Initialize_def NewHierarchical_def Let_def backlog_def
      split: if_splits prod.splits option.splits)

text \<open>C20: What the counters of a hierarchy count.  In every run, \<open>CompletedTasks\<close> is the number of
  worker outputs, whether they answer a task or not, \<open>FailedTasks\<close> that of the tasks which
  could not be sent, and \<open>ActiveTasks\<close> is the number of tasks that are queued or wait for the
  queue, plus the delegated ones, minus all worker outputs, plus the tasks dropped because
  there were no workers: those are never taken off again, and outputs nobody asked for make
  the count too small, even negative.\<close>

theorem hierarchical_accounting:
  assumes "Hierarchical_Start env0 (fst (Hierarchical_Initialize boss ws (NewHierarchical t1 t2 hv))) io0 = (h0, io1, None)"
    and "hi_Pattern (hv_Spec hv) = ''hierarchical''"
    and "hier_run env evs h0 io1 = (h, io, rs)"
  shows "hs_CompletedTasks (hh_state h) = count is_answered rs \<and>
    hs_FailedTasks (hh_state h) = count is_undelivered rs \<and>
    hs_ActiveTasks (hh_state h) =
      int (length (hh_queue h) + length (hh_waiting h)) + count is_delegated rs - count is_answered rs + count is_dropped rs"
  using hier_run_counts [OF assms(3)] hier_started [OF assms(1,2)] by (simp add: backlog_def)

text \<open>Tasks leave in the order in which they came, and workers take turns.\<close>

definition pending_tasks :: "hierarchical \<Rightarrow> wmsg list" where
  "pending_tasks h = map tk_Payload (hh_queue h @ hh_waiting h)"

lemma hier_step_order:
  assumes "hier_step env ev h io = (h', io', r)" and "\<And>i. ev \<noteq> WaiterCancelled i"
    and "hh_waiting h = [] \<or> length (hh_queue h) \<ge> 100"
  shows "map snd (taken_task r) @ pending_tasks h' = pending_tasks h @ accepted_task r \<and>
    map fst (taken_task r) =
      (if hh_workerIDs h = [] then replicate (length (taken_task r)) None
       else map (\<lambda>i. Some (hh_workerIDs h ! (i mod length (hh_workerIDs h)))) [hh_index h..<hh_index h + length (taken_task r)]) \<and>
    hh_workerIDs h' = hh_workerIDs h \<and>
    (hh_workerIDs h \<noteq> [] \<longrightarrow> hh_index h' = hh_index h + length (taken_task r)) \<and>
    (hh_waiting h' = [] \<or> length (hh_queue h') \<ge> 100)"
proof (cases ev)
  case (SupervisorInput now c f bm)
  then show ?thesis using assms(1,3)
    by (auto simp: handleSupervisorInput_def pending_tasks_def add_active_def Let_def split: sum.splits if_splits)
next
  case DelegationRound
  show ?thesis
  proof (cases "receive_task h")
    case None
    then show ?thesis using assms(1,3) DelegationRound by (auto simp: delegate_one_def)
  next
    case (Some p)
    obtain t h1 where p: "p = (t, h1)" by fastforce
    note t = receive_task_Some [OF Some [unfolded p]]
    have pend: "pending_tasks h = tk_Payload t # pending_tasks h1"
      using arg_cong [OF t(1), of "map tk_Payload"] by (simp add: pending_tasks_def)
    have wait: "hh_waiting h1 = [] \<or> length (hh_queue h1) \<ge> 100"
      using Some [unfolded p] assms(3) by (cases "hh_waiting h") (auto simp: receive_task_def split: list.splits)
    show ?thesis using assms(1) DelegationRound Some p t(3,4) pend wait
      by (auto simp: delegate_one_def pending_tasks_def add_active_def Let_def split: if_splits prod.splits option.splits)
  qed
next
  case (WorkerOutput now bm)
  then show ?thesis using assms(1,3)
    by (auto simp: handleWorkerOutput_def pending_tasks_def add_active_def Let_def split: sum.splits prod.splits)
qed (use assms in \<open>auto simp: cleanup_tick_def pending_tasks_def\<close>)

lemma hier_run_order:
  assumes "hier_run env evs h io = (h', io', rs)" and "\<forall>i. WaiterCancelled i \<notin> set evs"
    and "hh_waiting h = [] \<or> length (hh_queue h) \<ge> 100"
  shows "map snd (concat (map taken_task rs)) @ pending_tasks h' = pending_tasks h @ concat (map accepted_task rs) \<and>
    map fst (concat (map taken_task rs)) =
      (if hh_workerIDs h = [] then replicate (length (concat (map taken_task rs))) None
       else map (\<lambda>i. Some (hh_workerIDs h ! (i mod length (hh_workerIDs h))))
              [hh_index h..<hh_index h + length (concat (map taken_task rs))])"
  using assms
proof (induction evs arbitrary: h io rs)
  case (Cons ev evs)
  obtain h1 io1 r where s: "hier_step env ev h io = (h1, io1, r)" by (metis prod_cases3)
  obtain rs1 where rest: "hier_run env evs h1 io1 = (h', io', rs1)" and rs: "rs = r # rs1"
    using Cons.prems by (auto simp: s Let_def split: prod.splits)
  have ev: "\<And>i. ev \<noteq> WaiterCancelled i" using Cons.prems(2) by auto
  have step: "map snd (taken_task r) @ pending_tasks h1 = pending_tasks h @ accepted_task r"
    "map fst (taken_task r) =
      (if hh_workerIDs h = [] then replicate (length (taken_task r)) None
       else map (\<lambda>i. Some (hh_workerIDs h ! (i mod length (hh_workerIDs h)))) [hh_index h..<hh_index h + length (taken_task r)])"
    "hh_workerIDs h1 = hh_workerIDs h" "hh_workerIDs h \<noteq> [] \<Longrightarrow> hh_index h1 = hh_index h + length (taken_task r)"
    "hh_waiting h1 = [] \<or> length (hh_queue h1) \<ge> 100"
    using hier_step_order [OF s ev Cons.prems(3)] by blast+
  let ?n = "length (concat (map taken_task rs1))"
  have IH: "map snd (concat (map taken_task rs1)) @ pending_tasks h' = pending_tasks h1 @ concat (map accepted_task rs1)"
    "map fst (concat (map taken_task rs1)) =
      (if hh_workerIDs h1 = [] then replicate ?n None
       else map (\<lambda>i. Some (hh_workerIDs h1 ! (i mod length (hh_workerIDs h1)))) [hh_index h1..<hh_index h1 + ?n])"
    using Cons.IH [OF rest _ step(5)] Cons.prems(2) by auto
  have "map snd (concat (map taken_task rs)) @ pending_tasks h' = pending_tasks h @ concat (map accepted_task rs)"
    using IH(1) step(1) by (simp add: rs)
  moreover have "map fst (concat (map taken_task rs)) =
      (if hh_workerIDs h = [] then replicate (length (concat (map taken_task rs))) None
       else map (\<lambda>i. Some (hh_workerIDs h ! (i mod length (hh_workerIDs h))))
              [hh_index h..<hh_index h + length (concat (map taken_task rs))])"
  proof (cases "hh_workerIDs h = []")
    case True
    then show ?thesis using step(2) IH(2) by (simp add: rs step(3) replicate_add)
  next
    case False
    have "[hh_index h..<hh_index h + length (concat (map taken_task rs))] =
        [hh_index h..<hh_index h + length (taken_task r)] @ [hh_index h1..<hh_index h1 + ?n]"
      using upt_add_eq_append [of "hh_index h" "hh_index h + length (taken_task r)" ?n]
      by (simp add: rs step(4) [OF False] add.assoc del: upt_add_eq_append)
    then show ?thesis using False step(2) IH(2) by (simp add: rs step(3))
  qed
  ultimately show ?case by blast
qed simp

text \<open>Tasks are delegated in order and in turn.  As long as no supervisor gives up waiting for
  the queue, the tasks taken from it, followed by those still in it, are the accepted tasks in
  their order; and the k-th task taken goes to worker k modulo the number of workers, or is
  dropped if there are none.\<close>

lemma tasks_round_robin:
  assumes "Hierarchical_Start env0 (fst (Hierarchical_Initialize boss ws (NewHierarchical t1 t2 hv))) io0 = (h0, io1, None)"
    and "hi_Pattern (hv_Spec hv) = ''hierarchical''"
    and "hier_run env evs h0 io1 = (h, io, rs)" and "\<forall>i. WaiterCancelled i \<notin> set evs"
  shows "map snd (concat (map taken_task rs)) @ map tk_Payload (hh_queue h @ hh_waiting h) = concat (map accepted_task rs) \<and>
    map fst (concat (map taken_task rs)) =
      map (\<lambda>k. if ws = [] then None else Some (ws ! (k mod length ws))) [0..<length (concat (map taken_task rs))]"
  using hier_run_order [OF assms(3,4)] hier_started [OF assms(1,2)]
  by (auto simp: pending_tasks_def map_replicate_const)

definition sample_hier :: hive where
  "sample_hier = two_stages\<lparr>hv_Spec := (hv_Spec two_stages)\<lparr>hi_Pattern := ''hierarchical''\<rparr>\<rparr>"

definition started_hier :: "hierarchical \<times> bus_io \<times> pattern_error option" where
  "started_hier = Hierarchical_Start quiet_env
     (fst (Hierarchical_Initialize ''boss'' [''w1'', ''w2''] (NewHierarchical 0 0 sample_hier))) quiet_io"

lemma started_hier_ok:
  "Hierarchical_Start quiet_env (fst (Hierarchical_Initialize ''boss'' [''w1'', ''w2''] (NewHierarchical 0 0 sample_hier))) quiet_io =
    (fst started_hier, fst (snd started_hier), None)"
  "hi_Pattern (hv_Spec sample_hier) = ''hierarchical''"
  by code_simp+

text \<open>One unsolicited answer, and the counter of active tasks is negative.\<close>

lemma hierarchical_accounting_witness:
  "let (h, io, rs) = hier_run quiet_env [WorkerOutput 5 (sample_message\<lparr>msg_Payload := ''x''\<rparr>)]
       (fst started_hier) (fst (snd started_hier))
   in hs_ActiveTasks (hh_state h) = -1 \<and> hs_CompletedTasks (hh_state h) = 1"
proof -
  let ?run = "hier_run quiet_env [WorkerOutput 5 (sample_message\<lparr>msg_Payload := ''x''\<rparr>)]
       (fst started_hier) (fst (snd started_hier))"
  obtain h io rs where r: "?run = (h, io, rs)" by (metis prod_cases3)
  have "snd (snd ?run) = [Answered ''x'' None]" "hh_queue (fst ?run) = []" "hh_waiting (fst ?run) = []"
    by code_simp+
  then have "rs = [Answered ''x'' None]" "hh_queue h = []" "hh_waiting h = []" by (simp_all only: r fst_conv snd_conv)
  then show ?thesis using hierarchical_accounting [OF started_hier_ok r] unfolding r by simp
qed

end
