(* ===== verification/Composed.thy ===== *)
theory Composed
  imports Hierarchical Float64
begin

text \<open>
  \<open>internal/patterns/composed.go\<close> and \<open>orchestrator.go\<close>: a chain of patterns whose topics are
  connected by forwarding subscriptions, and the choice of the orchestrator for a hive.

  The nil elements that a failed initialization leaves in \<open>c.segments\<close> are \<open>None\<close>; an operation
  that dereferences one panics, and its result is \<open>None\<close>.  A configuration is an association list
  of \<open>go_value\<close>s, empty for a nil map; a JSON list is a \<open>GList\<close> and a JSON object a \<open>GMap\<close>.
\<close>

section \<open>Reading the configuration of a segment\<close>

definition getStringFromConfig :: "(string \<times> go_value) list \<Rightarrow> string \<Rightarrow> string \<Rightarrow> string" where
  "getStringFromConfig config key defaultValue =
    (case map_of config key of Some (GString s) \<Rightarrow> s | _ \<Rightarrow> defaultValue)"

fun string_elements :: "go_value list \<Rightarrow> string list" where
  "string_elements [] = []"
| "string_elements (GString s # vs) = s # string_elements vs"
| "string_elements (_ # vs) = string_elements vs"

definition getStringSliceFromConfig :: "(string \<times> go_value) list \<Rightarrow> string \<Rightarrow> string list \<Rightarrow> string list" where
  "getStringSliceFromConfig config key defaultValue =
    (case map_of config key of Some (GList vs) \<Rightarrow> string_elements vs | _ \<Rightarrow> defaultValue)"

definition get_bool :: "(string \<times> go_value) list \<Rightarrow> string \<Rightarrow> bool" where
  "get_bool m key = (case map_of m key of Some (GBool b) \<Rightarrow> b | _ \<Rightarrow> False)"

definition stage_of_map :: "(string \<times> go_value) list \<Rightarrow> stage" where
  "stage_of_map m =
    \<lparr>st_Name = getStringFromConfig m ''name'' '''', st_AgentRef = getStringFromConfig m ''agentRef'' '''',
     st_Replicas = (case map_of m ''replicas'' of Some (GFloat r) \<Rightarrow> int64_of_float r | _ \<Rightarrow> 0),
     st_Parallel = get_bool m ''parallel'', st_WaitForAll = get_bool m ''waitForAll''\<rparr>"

fun map_elements :: "go_value list \<Rightarrow> (string \<times> go_value) list list" where
  "map_elements [] = []"
| "map_elements (GMap m # vs) = m # map_elements vs"
| "map_elements (_ # vs) = map_elements vs"

definition extractStagesFromConfig :: "(string \<times> go_value) list \<Rightarrow> stage list" where
  "extractStagesFromConfig config =
    (case map_of config ''stages'' of Some (GList vs) \<Rightarrow> map stage_of_map (map_elements vs) | _ \<Rightarrow> [])"

fun string_entries :: "(string \<times> go_value) list \<Rightarrow> (string \<times> string) list" where
  "string_entries [] = []"
| "string_entries ((k, GString s) # m) = (k, s) # string_entries m"
| "string_entries (_ # m) = string_entries m"

definition filter_of_map :: "(string \<times> go_value) list \<Rightarrow> event_filter" where
  "filter_of_map m =
    \<lparr>ef_Type = getStringFromConfig m ''type'' '''', ef_Priority = getStringFromConfig m ''priority'' '''',
     ef_Metadata = (case map_of m ''metadata'' of Some (GMap mm) \<Rightarrow> string_entries mm | _ \<Rightarrow> [])\<rparr>"

definition extractSubscribersFromConfig :: "(string \<times> go_value) list \<Rightarrow> subscriber_config list" where
  "extractSubscribersFromConfig config =
    (case map_of config ''subscribers'' of
       Some (GList vs) \<Rightarrow>
         map (\<lambda>m. \<lparr>sb_AgentID = getStringFromConfig m ''agentID'' '''',
                   sb_Filter = (case map_of m ''filter'' of
                       Some (GMap f) \<Rightarrow> filter_of_map f
                     | _ \<Rightarrow> \<lparr>ef_Type = '''', ef_Priority = '''', ef_Metadata = []\<rparr>)\<rparr>) (map_elements vs)
     | _ \<Rightarrow> [])"

section \<open>State\<close>

datatype pattern_instance =
    PPipeline pipeline
  | PHierarchical hierarchical
  | PSwarm swarm
  | PEventDriven event_driven

record segment_instance =
  si_Segment :: pattern_segment
  si_Pattern :: pattern_instance
  si_InputSub :: "nat option"
  si_OutputSub :: "nat option"
  si_Index :: nat

record composed_state =
  cs_Status :: string
  cs_CurrentSegment :: nat
  cs_StartedAt :: time
  cs_CompletedAt :: "time option"
  cs_Error :: "pattern_error option"

record composed =
  cp_hive :: hive
  cp_segments :: "segment_instance option list"
  cp_state :: composed_state
  cp_cancel :: "bool option"

definition NewComposedPattern :: "time \<Rightarrow> hive \<Rightarrow> composed" where
  "NewComposedPattern now h =
    \<lparr>cp_hive = h, cp_segments = [],
     cp_state = \<lparr>cs_Status = ''pending'', cs_CurrentSegment = 0, cs_StartedAt = now, cs_CompletedAt = None, cs_Error = None\<rparr>,
     cp_cancel = None\<rparr>"

section \<open>Initialization\<close>

definition createPatternForSegment :: "pattern_env \<Rightarrow> hive \<Rightarrow> string \<Rightarrow> bus_io \<Rightarrow> bus_io \<times> (pattern_error + pattern_instance)" where
  "createPatternForSegment env h pattern io =
    (if pattern = ''pipeline'' then (let (io, now) = io_now env io in (io, Inr (PPipeline (NewPipeline now h))))
     else if pattern = ''hierarchical''
     then (let (io, t1) = io_now env io; (io, t2) = io_now env io in (io, Inr (PHierarchical (NewHierarchical t1 t2 h))))
     else if pattern = ''swarm'' then (io, Inr (PSwarm (NewSwarm h)))
     else if pattern = ''event-driven'' then (io, Inr (PEventDriven (NewEventDriven h)))
     else (io, Inl (UnknownPattern pattern)))"

text \<open>The hive made for a segment: the names of the composed hive, the pattern and stages of the
  segment, and nothing else.\<close>

definition segment_hive :: "hive \<Rightarrow> pattern_segment \<Rightarrow> hive" where
  "segment_hive h s = h\<lparr>hv_Spec :=
     \<lparr>hi_PoolMode = '''', hi_WarmPoolSize = 0,
      hi_Session = \<lparr>sn_TimeoutMinutes = 0, sn_MaxDurationMinutes = 0, sn_PersistOnTerminate = False,
        sn_PersistPath = '''', sn_MaxMemoryMB = 0\<rparr>,
      hi_Pattern = ps_Pattern s, hi_Stages = extractStagesFromConfig (ps_Config s),
      hi_Routing = \<lparr>ro_DeadLetterTopic = '''', ro_RetryPolicy = \<lparr>rp_MaxRetries = 0, rp_BackoffMultiplier = 0, rp_InitialDelayMs = 0\<rparr>\<rparr>,
      hi_Guardrails = \<lparr>gc_ResponseTimeoutSeconds = 0, gc_RateLimitPerMinute = 0, gc_OutputSchema = [],
        gc_TokenBudgetPerRequest = 0, gc_TokenBudgetPerSession = 0, gc_TokenBudgetPerMinute = 0\<rparr>,
      hi_Webhook = \<lparr>wh_URL = '''', wh_AuthHeader = ''''\<rparr>, hi_PatternSegments = []\<rparr>,
    hv_Status := \<lparr>hst_Phase = '''', hst_Message = '''', hst_ActiveDrones = 0\<rparr>\<rparr>"

definition composed_topic :: "hive \<Rightarrow> string \<Rightarrow> string \<Rightarrow> string" where
  "composed_topic h name dir = PrefixTopic (hive_ns h) (''composed.'' @ hive_name h @ ''.'' @ name @ ''.'' @ dir)"

text \<open>\<open>prev\<close> is the output topic of the previous segment, which has one unless this is the first.\<close>

definition segment_topics :: "hive \<Rightarrow> string option \<Rightarrow> pattern_segment \<Rightarrow> pattern_segment" where
  "segment_topics h prev s =
    (let input = ps_InputTopic s;
         input = (if input = '''' then (case prev of None \<Rightarrow> input | Some t \<Rightarrow> t) else input);
         input = (if input = '''' then composed_topic h (ps_Name s) ''input'' else input);
         out = (if ps_OutputTopic s = '''' then composed_topic h (ps_Name s) ''output'' else ps_OutputTopic s)
     in s\<lparr>ps_InputTopic := input, ps_OutputTopic := out\<rparr>)"

fun init_segments :: "pattern_env \<Rightarrow> hive \<Rightarrow> string option \<Rightarrow> nat \<Rightarrow> pattern_segment list \<Rightarrow> bus_io \<Rightarrow>
    bus_io \<times> segment_instance option list \<times> pattern_error option" where
  "init_segments env h prev i [] io = (io, [], None)"
| "init_segments env h prev i (s # ss) io =
    (case createPatternForSegment env (segment_hive h s) (ps_Pattern s) io of
       (io, Inl e) \<Rightarrow> (io, replicate (Suc (length ss)) None, Some (SegmentCreate (ps_Name s) e))
     | (io, Inr p) \<Rightarrow>
        (let s' = segment_topics h prev s;
             seg = \<lparr>si_Segment = s', si_Pattern = p, si_InputSub = None, si_OutputSub = None, si_Index = i\<rparr>;
             (io, segs, e) = init_segments env h (Some (ps_OutputTopic s')) (Suc i) ss io
         in (io, Some seg # segs, e)))"

definition Composed_Initialize :: "pattern_env \<Rightarrow> composed \<Rightarrow> bus_io \<Rightarrow> composed \<times> bus_io \<times> pattern_error option" where
  "Composed_Initialize env c io =
    (let specs = hi_PatternSegments (hv_Spec (cp_hive c))
     in if specs = [] then (c, io, Some NoSegments)
        else (let (io, segs, e) = init_segments env (cp_hive c) None 0 specs io
              in (c\<lparr>cp_segments := segs\<rparr>, io, e)))"

section \<open>Start\<close>

text \<open>The handler of a forwarding subscription.\<close>

definition forward :: "pattern_env \<Rightarrow> string \<Rightarrow> message \<Rightarrow> bus_io \<Rightarrow> bus_io \<times> pattern_error option" where
  "forward env inputTopic m io =
    (let (io, ok) = io_publish env inputTopic m io in (io, if ok then None else Some PublishError))"

fun setupRouting :: "pattern_env \<Rightarrow> segment_instance list \<Rightarrow> bus_io \<Rightarrow> segment_instance list \<times> bus_io \<times> pattern_error option" where
  "setupRouting env (s # s2 # segs) io =
    (case io_subscribe env (ps_OutputTopic (si_Segment s)) io of
       (io, None) \<Rightarrow> (s # s2 # segs, io, Some (RoutingError (ps_Name (si_Segment s))))
     | (io, Some sub) \<Rightarrow>
        (let (rest, io, e) = setupRouting env (s2 # segs) io in (s\<lparr>si_OutputSub := Some sub\<rparr> # rest, io, e)))"
| "setupRouting env segs io = (segs, io, None)"

definition startSegment :: "pattern_env \<Rightarrow> nat \<Rightarrow> segment_instance \<Rightarrow> bus_io \<Rightarrow>
    segment_instance \<times> bus_io \<times> pattern_error option" where
  "startSegment env index s io =
    (let config = ps_Config (si_Segment s)
     in case si_Pattern s of
       PPipeline p \<Rightarrow>
         (let (io, sub, failed) =
            (if index = 0
             then (case io_subscribe env (ps_InputTopic (si_Segment s)) io of
                     (io, None) \<Rightarrow> (io, None, True) | (io, Some i) \<Rightarrow> (io, Some i, False))
             else (io, None, False))
          in if failed then (s, io, Some SubscribeError)
             else (let (p, e) = Pipeline_Initialize p
                   in (s\<lparr>si_InputSub := (if sub = None then si_InputSub s else sub), si_Pattern := PPipeline p\<rparr>, io, e)))
     | PHierarchical h \<Rightarrow>
         (case Hierarchical_Initialize (getStringFromConfig config ''supervisorID'' '''')
                 (getStringSliceFromConfig config ''workerIDs'' []) h of
            (h, Some e) \<Rightarrow> (s\<lparr>si_Pattern := PHierarchical h\<rparr>, io, Some e)
          | (h, None) \<Rightarrow>
             (let (h, io, e) = Hierarchical_Start env h io in (s\<lparr>si_Pattern := PHierarchical h\<rparr>, io, e)))
     | PSwarm w \<Rightarrow>
         (case Swarm_Initialize (getStringSliceFromConfig config ''agentIDs'' []) w of
            (w, Some e) \<Rightarrow> (s\<lparr>si_Pattern := PSwarm w\<rparr>, io, Some e)
          | (w, None) \<Rightarrow> (let (w, io, e) = Swarm_Start env w io in (s\<lparr>si_Pattern := PSwarm w\<rparr>, io, e)))
     | PEventDriven d \<Rightarrow>
         (case EventDriven_Initialize (getStringFromConfig config ''eventSource'' '''')
                 (extractSubscribersFromConfig config) d of
            (d, Some e) \<Rightarrow> (s\<lparr>si_Pattern := PEventDriven d\<rparr>, io, Some e)
          | (d, None) \<Rightarrow> (let (d, io, e) = EventDriven_Start env d io in (s\<lparr>si_Pattern := PEventDriven d\<rparr>, io, e))))"

fun start_segments :: "pattern_env \<Rightarrow> nat \<Rightarrow> segment_instance list \<Rightarrow> bus_io \<Rightarrow>
    segment_instance list \<times> bus_io \<times> pattern_error option" where
  "start_segments env i [] io = ([], io, None)"
| "start_segments env i (s # segs) io =
    (case startSegment env i s io of
       (s, io, Some e) \<Rightarrow> (s # segs, io, Some (SegmentStart (ps_Name (si_Segment s)) e))
     | (s, io, None) \<Rightarrow> (let (segs, io, e) = start_segments env (Suc i) segs io in (s # segs, io, e)))"

definition fail_composed :: "pattern_error \<Rightarrow> composed \<Rightarrow> composed" where
  "fail_composed e c =
    c\<lparr>cp_state := (cp_state c)\<lparr>cs_Status := ''failed'', cs_Error := Some e\<rparr>, cp_cancel := Some True\<rparr>"

text \<open>\<open>Start\<close> initializes in any case, also when \<open>Initialize\<close> has been called before; a
  successful initialization leaves no nil segment.\<close>

definition Composed_Start :: "pattern_env \<Rightarrow> composed \<Rightarrow> bus_io \<Rightarrow> composed \<times> bus_io \<times> pattern_error option" where
  "Composed_Start env c io =
    (if cs_Status (cp_state c) \<noteq> ''pending'' then (c, io, Some AlreadyStarted)
     else
      (let c = c\<lparr>cp_state := (cp_state c)\<lparr>cs_Status := ''running'', cs_CurrentSegment := 0\<rparr>, cp_cancel := Some False\<rparr>
       in case Composed_Initialize env c io of
            (c, io, Some e) \<Rightarrow> (fail_composed e c, io, Some e)
          | (c, io, None) \<Rightarrow>
             (case setupRouting env (map the (cp_segments c)) io of
                (segs, io, Some e) \<Rightarrow> (fail_composed e (c\<lparr>cp_segments := map Some segs\<rparr>), io, Some e)
              | (segs, io, None) \<Rightarrow>
                 (case start_segments env 0 segs io of
                    (segs, io, Some e) \<Rightarrow> (fail_composed e (c\<lparr>cp_segments := map Some segs\<rparr>), io, Some e)
                  | (segs, io, None) \<Rightarrow> (c\<lparr>cp_segments := map Some segs\<rparr>, io, None)))))"

text \<open>The handler on the input topic of a first pipeline segment, on the pipeline.\<close>

definition pipeline_input :: "pattern_env \<Rightarrow> message \<Rightarrow> pipeline \<Rightarrow> bus_io \<Rightarrow> pipeline \<times> bus_io \<times> pattern_error option" where
  "pipeline_input env bm p io =
    (case DecodeMessage (pe_dec env) (msg_Payload bm) of
       Inl e \<Rightarrow> (p, io, Some (DecodeError e))
     | Inr m \<Rightarrow> Pipeline_Start env m p io)"

section \<open>Stop\<close>

definition stopSegment :: "segment_instance \<Rightarrow> bus_io \<Rightarrow> segment_instance \<times> bus_io" where
  "stopSegment s io =
    (case si_Pattern s of
       PPipeline p \<Rightarrow> (s\<lparr>si_Pattern := PPipeline (Pipeline_Stop p)\<rparr>, io)
     | PHierarchical h \<Rightarrow> (let (h, io) = Hierarchical_Stop h io in (s\<lparr>si_Pattern := PHierarchical h\<rparr>, io))
     | PSwarm w \<Rightarrow> (let (w, io) = Swarm_Stop w io in (s\<lparr>si_Pattern := PSwarm w\<rparr>, io))
     | PEventDriven d \<Rightarrow> (let (d, io) = EventDriven_Stop d io in (s\<lparr>si_Pattern := PEventDriven d\<rparr>, io)))"

fun stop_segments :: "segment_instance list \<Rightarrow> bus_io \<Rightarrow> segment_instance list \<times> bus_io" where
  "stop_segments [] io = ([], io)"
| "stop_segments (s # segs) io =
    (let (s, io) = stopSegment s io; (segs, io) = stop_segments segs io in (s # segs, io))"

definition release_segment :: "segment_instance \<Rightarrow> bus_io \<Rightarrow> bus_io" where
  "release_segment s io = deferred (si_OutputSub s) (deferred (si_InputSub s) io)"

definition Composed_Stop :: "pattern_env \<Rightarrow> composed \<Rightarrow> bus_io \<Rightarrow> (composed \<times> bus_io) option" where
  "Composed_Stop env c io =
    (if None \<in> set (cp_segments c) then None
     else
      (let (segs, io) = stop_segments (map the (cp_segments c)) io;
           io = fold release_segment segs io;
           (io, now) = io_now env io
       in Some (c\<lparr>cp_cancel := map_option (\<lambda>_. True) (cp_cancel c), cp_segments := map Some segs,
                  cp_state := (cp_state c)\<lparr>cs_Status := ''completed'', cs_CompletedAt := Some now\<rparr>\<rparr>, io)))"

section \<open>The choice of an orchestrator\<close>

datatype orchestrator = Single pattern_instance | Chain composed

definition NewOrchestrator :: "pattern_env \<Rightarrow> hive \<Rightarrow> bus_io \<Rightarrow> bus_io \<times> (pattern_error + orchestrator)" where
  "NewOrchestrator env h io =
    (if hi_PatternSegments (hv_Spec h) \<noteq> []
     then (let (io, now) = io_now env io in (io, Inr (Chain (NewComposedPattern now h))))
     else (case createPatternForSegment env h (hi_Pattern (hv_Spec h)) io of
             (io, Inl e) \<Rightarrow> (io, Inl e) | (io, Inr p) \<Rightarrow> (io, Inr (Single p))))"

section \<open>What a composed pattern subscribes to\<close>

text \<open>The subscriptions a segment knows of, and the relation between two states of the bus and of
  the known subscriptions when everything new is known.\<close>

definition pattern_subs :: "pattern_instance \<Rightarrow> nat set" where
  "pattern_subs p =
    (case p of PPipeline _ \<Rightarrow> {} | PHierarchical h \<Rightarrow> set (hh_subs h) | PSwarm w \<Rightarrow> set (sw_subs w)
     | PEventDriven d \<Rightarrow> set (map snd (ed_subs d)))"

definition link_subs :: "segment_instance \<Rightarrow> nat set" where
  "link_subs s = set_option (si_InputSub s) \<union> set_option (si_OutputSub s)"

definition segment_subs :: "segment_instance \<Rightarrow> nat set" where
  "segment_subs s = pattern_subs (si_Pattern s) \<union> link_subs s"

definition acquires :: "bus_io \<Rightarrow> nat set \<Rightarrow> bus_io \<Rightarrow> nat set \<Rightarrow> bool" where
  "acquires io own io' own' \<longleftrightarrow>
    io_ok io' \<and> io_tick io \<le> io_tick io' \<and>
    (\<exists>new. io_subs io' = io_subs io @ new \<and> own' = own \<union> fst ` set new \<and> (\<forall>i \<in> fst ` set new. io_tick io \<le> i))"

lemma acquires_refl [simp]: "io_ok io \<Longrightarrow> acquires io own io own"
  by (simp add: acquires_def)

lemma acquires_trans:
  assumes "acquires io own io' own'" and "acquires io' own' io'' own''"
  shows "acquires io own io'' own''"
proof -
  obtain new new' where "io_subs io' = io_subs io @ new" "own' = own \<union> fst ` set new" "\<forall>i \<in> fst ` set new. io_tick io \<le> i"
    "io_subs io'' = io_subs io' @ new'" "own'' = own' \<union> fst ` set new'" "\<forall>i \<in> fst ` set new'. io_tick io' \<le> i"
    using assms unfolding acquires_def by blast
  then show ?thesis using assms unfolding acquires_def
    by (intro conjI exI [of _ "new @ new'"]) (auto simp: image_Un)
qed

lemma acquires_frame: "acquires io own io' own' \<Longrightarrow> acquires io (own \<union> x) io' (own' \<union> x)"
  unfolding acquires_def by blast

lemma acquires_seq:
  assumes "acquires io {} io1 x" and "acquires io1 a io2 b"
  shows "acquires io (y \<union> a) io2 (x \<union> y \<union> b)"
proof -
  have "acquires io (y \<union> a) io1 (x \<union> y \<union> a)" using acquires_frame [OF assms(1), of "y \<union> a"] by (simp add: Un_ac)
  moreover have "acquires io1 (x \<union> y \<union> a) io2 (x \<union> y \<union> b)"
    using acquires_frame [OF assms(2), of "x \<union> y"] by (simp add: Un_ac)
  ultimately show ?thesis by (rule acquires_trans)
qed

lemma acquires_ok: "acquires io own io' own' \<Longrightarrow> io_ok io'"
  by (simp add: acquires_def)

lemma acquires_subscribe:
  assumes "io_subscribe env t io = (io', r)" and "io_ok io"
  shows "acquires io {} io' (set_option r)"
  using one_subscription [OF assms] unfolding acquires_def by (cases r) (auto simp flip: set_map)

text \<open>The contract of the started patterns, as one fact.\<close>

lemma acquires_start:
  assumes "started_pattern subs start stop" and "start env p io = (p', io', err)" and "io_ok io" and "subs p = []"
  shows "acquires io {} io' (set (subs p'))"
  using started_pattern.start_owns [OF assms] unfolding acquires_def by (auto simp flip: set_map)

lemmas acquires_patterns =
  acquires_start [OF hier.started_pattern_axioms] acquires_start [OF swarm.started_pattern_axioms]
  acquires_start [OF events.started_pattern_axioms]

definition all_subs :: "segment_instance list \<Rightarrow> nat set" where
  "all_subs segs = (\<Union>s \<in> set segs. segment_subs s)"

lemma all_subs_simps [simp]: "all_subs [] = {}" "all_subs (s # segs) = segment_subs s \<union> all_subs segs"
  by (simp_all add: all_subs_def)

lemma setupRouting_acquires:
  assumes "setupRouting env segs io = (segs', io', e)" and "io_ok io"
    and "\<forall>s \<in> set segs. si_OutputSub s = None"
  shows "acquires io (all_subs segs) io' (all_subs segs')"
  using assms
proof (induction env segs io arbitrary: segs' io' e rule: setupRouting.induct)
  case (1 env s s2 segs io)
  obtain io1 r where c: "io_subscribe env (ps_OutputTopic (si_Segment s)) io = (io1, r)" by fastforce
  note a = acquires_subscribe [OF c 1(3)]
  show ?case
  proof (cases r)
    case None
    then show ?thesis using 1(2) c acquires_frame [OF a, of "all_subs (s # s2 # segs)"] by auto
  next
    case (Some i)
    obtain rest io2 e2 where r: "setupRouting env (s2 # segs) io1 = (rest, io2, e2)" by (metis prod_cases3)
    have res: "segs' = s\<lparr>si_OutputSub := Some i\<rparr> # rest" "io' = io2" using 1(2) c Some r by (auto simp: Let_def)
    have "acquires io1 (all_subs (s2 # segs)) io2 (all_subs rest)"
      using 1(1) [OF c [symmetric] Some r acquires_ok [OF a]] 1(4) by simp
    from acquires_seq [OF a this, of "segment_subs s"] show ?thesis using Some 1(4)
      by (simp add: res segment_subs_def link_subs_def Un_ac)
  qed
qed auto

text \<open>A segment before it is started.\<close>

definition unstarted :: "segment_instance \<Rightarrow> bool" where
  "unstarted s \<longleftrightarrow> pattern_subs (si_Pattern s) = {} \<and> si_InputSub s = None"

lemma startSegment_acquires:
  assumes "startSegment env i s io = (s', io', e)" and "io_ok io" and "unstarted s"
  shows "acquires io (segment_subs s) io' (segment_subs s')"
proof -
  have own: "segment_subs s = set_option (si_OutputSub s)"
    using assms(3) by (auto simp: segment_subs_def link_subs_def unstarted_def)
  have goal: "acquires io (segment_subs s) io' (segment_subs s')"
    if "acquires io {} io' (pattern_subs (si_Pattern s') \<union> set_option (si_InputSub s'))" "si_OutputSub s' = si_OutputSub s"
    using acquires_frame [OF that(1), of "set_option (si_OutputSub s)"] that(2)
    by (simp only: own) (simp add: segment_subs_def link_subs_def Un_ac)
  have none: "si_InputSub s = None" "pattern_subs (si_Pattern s) = {}" using assms(3) by (simp_all add: unstarted_def)
  show ?thesis
  proof (cases "si_Pattern s")
    case (PPipeline p)
    obtain io1 r where c: "io_subscribe env (ps_InputTopic (si_Segment s)) io = (io1, r)" by fastforce
    show ?thesis
      by (rule goal; use assms(1,2) PPipeline none c acquires_subscribe [OF c assms(2)] in
          \<open>auto simp: startSegment_def Let_def pattern_subs_def split: if_splits prod.splits option.splits\<close>)
  next
    case (PHierarchical h)
    let ?init = "Hierarchical_Initialize (getStringFromConfig (ps_Config (si_Segment s)) ''supervisorID'' '''')
                 (getStringSliceFromConfig (ps_Config (si_Segment s)) ''workerIDs'' []) h"
    have h: "hh_subs h = []" "hh_subs (fst ?init) = []" using none PHierarchical
      by (simp_all add: pattern_subs_def Hierarchical_Initialize_def)
    obtain h1 io1 e1 where st: "Hierarchical_Start env (fst ?init) io = (h1, io1, e1)" by (metis prod_cases3)
    show ?thesis
      by (rule goal; use assms(1,2) PHierarchical none h st acquires_patterns(1) [OF st assms(2) h(2)] in
          \<open>auto simp: startSegment_def Let_def pattern_subs_def split: prod.splits option.splits\<close>)
  next
    case (PSwarm w)
    let ?init = "Swarm_Initialize (getStringSliceFromConfig (ps_Config (si_Segment s)) ''agentIDs'' []) w"
    have h: "sw_subs w = []" "sw_subs (fst ?init) = []" using none PSwarm
      by (simp_all add: pattern_subs_def Swarm_Initialize_def)
    obtain h1 io1 e1 where st: "Swarm_Start env (fst ?init) io = (h1, io1, e1)" by (metis prod_cases3)
    show ?thesis
      by (rule goal; use assms(1,2) PSwarm none h st acquires_patterns(2) [OF st assms(2) h(2)] in
          \<open>auto simp: startSegment_def Let_def pattern_subs_def split: prod.splits option.splits\<close>)
  next
    case (PEventDriven d)
    let ?init = "EventDriven_Initialize (getStringFromConfig (ps_Config (si_Segment s)) ''eventSource'' '''')
                 (extractSubscribersFromConfig (ps_Config (si_Segment s))) d"
    have h: "ed_subs d = []" "ed_subs (fst ?init) = []" using none PEventDriven
      by (simp_all add: pattern_subs_def EventDriven_Initialize_def)
    obtain h1 io1 e1 where st: "EventDriven_Start env (fst ?init) io = (h1, io1, e1)" by (metis prod_cases3)
    have "acquires io {} io1 (set (map snd (ed_subs h1)))" using acquires_patterns(3) [OF st assms(2)] h(2) by simp
    then show ?thesis
      by - (rule goal; use assms(1,2) PEventDriven none h st in
          \<open>auto simp: startSegment_def Let_def pattern_subs_def split: prod.splits option.splits\<close>)
  qed
qed

lemma start_segments_acquires:
  assumes "start_segments env i segs io = (segs', io', e)" and "io_ok io" and "\<forall>s \<in> set segs. unstarted s"
  shows "acquires io (all_subs segs) io' (all_subs segs')"
  using assms
proof (induction env i segs io arbitrary: segs' io' e rule: start_segments.induct)
  case (2 env i s segs io)
  obtain s1 io1 r where c: "startSegment env i s io = (s1, io1, r)" by (metis prod_cases3)
  have a: "acquires io (segment_subs s) io1 (segment_subs s1)"
    using startSegment_acquires [OF c 2(3)] 2(4) by simp
  from acquires_frame [OF this, of "all_subs segs"]
  have a': "acquires io (all_subs (s # segs)) io1 (all_subs (s1 # segs))" by simp
  show ?case
  proof (cases r)
    case (Some err)
    then show ?thesis using 2(2) c a' by auto
  next
    case None
    obtain rest io2 e2 where r: "start_segments env (Suc i) segs io1 = (rest, io2, e2)" by (metis prod_cases3)
    have "acquires io1 (all_subs segs) io2 (all_subs rest)"
      using 2(1) [OF c [symmetric] _ None r acquires_ok [OF a]] 2(4) by simp
    from acquires_trans [OF a' acquires_frame [OF this, of "segment_subs s1", unfolded Un_commute [of _ "segment_subs s1"], folded all_subs_simps(2)]]
    show ?thesis using 2(2) c None r by (auto simp: Let_def)
  qed
qed simp

lemma stopSegment_releases:
  assumes "stopSegment s io = (s', io')"
  shows "io_subs io' = filter (\<lambda>(i, _). i \<notin> pattern_subs (si_Pattern s)) (io_subs io)"
    and "link_subs s' = link_subs s" "si_InputSub s' = si_InputSub s" "si_OutputSub s' = si_OutputSub s"
  using assms
  by (cases "si_Pattern s"; auto simp: stopSegment_def pattern_subs_def link_subs_def split_beta Let_def
      hier.stop_releases swarm.stop_releases events.stop_releases)+

lemma stop_segments_releases:
  assumes "stop_segments segs io = (segs', io')"
  shows "io_subs io' = filter (\<lambda>(i, _). i \<notin> (\<Union>s \<in> set segs. pattern_subs (si_Pattern s))) (io_subs io)"
    and "map link_subs segs' = map link_subs segs"
proof -
  have "io_subs io' = filter (\<lambda>(i, _). i \<notin> (\<Union>s \<in> set segs. pattern_subs (si_Pattern s))) (io_subs io) \<and>
      map link_subs segs' = map link_subs segs"
    using assms
  proof (induction segs arbitrary: io segs')
    case (Cons s segs)
    obtain s1 io1 where s: "stopSegment s io = (s1, io1)" by fastforce
    obtain rest where r: "stop_segments segs io1 = (rest, io')" and segs': "segs' = s1 # rest"
      using Cons.prems by (auto simp: s split: prod.splits)
    show ?case using Cons.IH [OF r] stopSegment_releases(1,2) [OF s]
      by (auto simp: segs' intro: filter_cong)
  qed simp
  then show "io_subs io' = filter (\<lambda>(i, _). i \<notin> (\<Union>s \<in> set segs. pattern_subs (si_Pattern s))) (io_subs io)"
    and "map link_subs segs' = map link_subs segs" by blast+
qed

lemma release_segments:
  "io_subs (fold release_segment segs io) = filter (\<lambda>(i, _). i \<notin> (\<Union>s \<in> set segs. link_subs s)) (io_subs io)"
proof (induction segs arbitrary: io)
  case (Cons s segs)
  have "io_subs (release_segment s io) = filter (\<lambda>(i, _). i \<notin> link_subs s) (io_subs io)"
    by (cases "si_InputSub s"; cases "si_OutputSub s")
      (auto simp: release_segment_def deferred_def link_subs_def io_unsubscribe_def intro: filter_cong)
  then show ?case using Cons by (auto intro: filter_cong)
qed simp

lemma stop_all_releases:
  assumes "acquires io {} io' (all_subs segs)" and "io_ok io" and "stop_segments segs io' = (segs', io'')"
  shows "io_subs (fold release_segment segs' io'') = io_subs io"
proof -
  have links: "(\<Union>s \<in> set segs'. link_subs s) = (\<Union>s \<in> set segs. link_subs s)"
    using stop_segments_releases(2) [OF assms(3)] by (metis list.set_map)
  have "io_subs (fold release_segment segs' io'') = filter (\<lambda>(i, _). i \<notin> all_subs segs) (io_subs io')"
    unfolding release_segments links stop_segments_releases(1) [OF assms(3)] filter_filter
    by (rule filter_cong) (auto simp: all_subs_def segment_subs_def)
  moreover obtain new where new: "io_subs io' = io_subs io @ new" "all_subs segs = fst ` set new"
    "\<forall>i \<in> fst ` set new. io_tick io \<le> i" using assms(1) unfolding acquires_def by blast
  moreover have "filter (\<lambda>(i, _). i \<notin> fst ` set new) new = []" by (force simp: filter_empty_conv)
  moreover have "filter (\<lambda>(i, _). i \<notin> fst ` set new) (io_subs io) = io_subs io"
    using new(3) assms(2) unfolding filter_id_conv io_ok_def by fastforce
  ultimately show ?thesis by simp
qed

section \<open>Initialization connects the segments\<close>

definition fresh_segment :: "segment_instance \<Rightarrow> bool" where
  "fresh_segment s \<longleftrightarrow> unstarted s \<and> si_OutputSub s = None"

lemma createPattern_cases:
  assumes "createPatternForSegment env h pattern io = (io', r)"
  shows "io_subs io' = io_subs io" and "io_tick io \<le> io_tick io'" and "io_ok io \<Longrightarrow> io_ok io'"
    and "\<And>p. r = Inr p \<Longrightarrow> pattern_subs p = {}"
    and "\<And>q. r = Inr (PPipeline q) \<Longrightarrow> pi_Status (pp_state q) = PipelineStatusPending"
proof -
  show "io_ok io \<Longrightarrow> io_ok io'"
    using assms by (auto simp: createPatternForSegment_def Let_def split_beta split: if_splits)
qed (use assms in \<open>auto simp: createPatternForSegment_def io_now_def pattern_subs_def NewPipeline_def NewHierarchical_def
      NewSwarm_def NewEventDriven_def Let_def split: if_splits\<close>)

text \<open>The topics a list of specifications is given.\<close>

fun chain_topics :: "hive \<Rightarrow> string option \<Rightarrow> pattern_segment list \<Rightarrow> pattern_segment list" where
  "chain_topics h prev [] = []"
| "chain_topics h prev (s # ss) =
    segment_topics h prev s # chain_topics h (Some (ps_OutputTopic (segment_topics h prev s))) ss"

lemma init_segments_rule:
  assumes "init_segments env h prev i specs io = (io', segs, e)" and "io_ok io"
  shows "io_subs io' = io_subs io \<and> io_tick io \<le> io_tick io' \<and> io_ok io' \<and> length segs = length specs \<and>
    (case e of
       None \<Rightarrow> None \<notin> set segs \<and> map (\<lambda>s. si_Segment (the s)) segs = chain_topics h prev specs \<and>
         (\<forall>s \<in> set segs. fresh_segment (the s) \<and>
           (\<forall>q. si_Pattern (the s) = PPipeline q \<longrightarrow> pi_Status (pp_state q) = PipelineStatusPending))
     | Some err \<Rightarrow> None \<in> set segs \<and> (\<exists>s \<in> set specs. \<exists>e'. err = SegmentCreate (ps_Name s) e'))"
  using assms
proof (induction env h prev i specs io arbitrary: io' segs e rule: init_segments.induct)
  case (2 env h prev i s ss io)
  obtain io1 r where c: "createPatternForSegment env (segment_hive h s) (ps_Pattern s) io = (io1, r)" by fastforce
  note f = createPattern_cases [OF c]
  show ?case
  proof (cases r)
    case (Inl err)
    then show ?thesis using 2(2,3) c f by auto
  next
    case (Inr p)
    obtain io2 rest e2 where rest: "init_segments env h (Some (ps_OutputTopic (segment_topics h prev s))) (Suc i) ss io1 = (io2, rest, e2)"
      by (metis prod_cases3)
    note IH = 2(1) [OF c [symmetric] Inr refl refl rest f(3) [OF 2(3)]]
    show ?thesis using 2(2) c Inr rest IH f
      by (auto simp: Let_def fresh_segment_def unstarted_def split: option.splits)
  qed
qed simp

lemma setupRouting_rule:
  assumes "setupRouting env segs io = (segs', io', e)" and "io_ok io"
  shows "map si_Segment segs' = map si_Segment segs \<and> map si_Pattern segs' = map si_Pattern segs \<and>
    map si_InputSub segs' = map si_InputSub segs \<and> (\<forall>err. e = Some err \<longrightarrow> (\<exists>n. err = RoutingError n)) \<and>
    set (io_subs io) \<subseteq> set (io_subs io') \<and>
    (e = None \<longrightarrow> (\<forall>i. Suc i < length segs' \<longrightarrow>
      (\<exists>sub. si_OutputSub (segs' ! i) = Some sub \<and> (sub, ps_OutputTopic (si_Segment (segs' ! i))) \<in> set (io_subs io'))))"
  using assms
proof (induction env segs io arbitrary: segs' io' e rule: setupRouting.induct)
  case (1 env s s2 segs io)
  obtain io1 r where c: "io_subscribe env (ps_OutputTopic (si_Segment s)) io = (io1, r)" by fastforce
  note f = io_subscribe_cases [OF c 1(3)]
  show ?case
  proof (cases r)
    case None
    then show ?thesis using 1(2) c f(2) by auto
  next
    case (Some i)
    obtain rest io2 e2 where r: "setupRouting env (s2 # segs) io1 = (rest, io2, e2)" by (metis prod_cases3)
    have res: "segs' = s\<lparr>si_OutputSub := Some i\<rparr> # rest" "io' = io2" "e = e2" using 1(2) c Some r by (auto simp: Let_def)
    note IH = 1(1) [OF c [symmetric] Some r f(1)]
    have "(i, ps_OutputTopic (si_Segment s)) \<in> set (io_subs io1)" "set (io_subs io) \<subseteq> set (io_subs io1)"
      using f(3) Some by auto
    then show ?thesis using IH by (auto simp: res nth_Cons split: nat.splits)
  qed
qed auto

lemma startSegment_keeps:
  assumes "startSegment env i s io = (s', io', e)"
  shows "si_Segment s' = si_Segment s" and "si_OutputSub s' = si_OutputSub s"
    and "\<And>q. \<lbrakk>si_Pattern s' = PPipeline q; 0 < i; si_InputSub s = None;
      \<And>q. si_Pattern s = PPipeline q \<Longrightarrow> pi_Status (pp_state q) = PipelineStatusPending\<rbrakk> \<Longrightarrow>
      si_InputSub s' = None \<and> pi_Status (pp_state q) = PipelineStatusPending"
  using assms
  by (auto simp: startSegment_def Pipeline_Initialize_def Let_def
      split: pattern_instance.splits prod.splits option.splits if_splits)

lemma start_segments_keeps:
  assumes "start_segments env i segs io = (segs', io', e)"
    and "\<forall>s \<in> set segs. unstarted s \<and> (\<forall>q. si_Pattern s = PPipeline q \<longrightarrow> pi_Status (pp_state q) = PipelineStatusPending)"
  shows "map si_Segment segs' = map si_Segment segs \<and> map si_OutputSub segs' = map si_OutputSub segs \<and>
    (\<forall>err. e = Some err \<longrightarrow> (\<exists>n e'. err = SegmentStart n e')) \<and>
    (\<forall>k < length segs'. 0 < i + k \<longrightarrow> (\<forall>q. si_Pattern (segs' ! k) = PPipeline q \<longrightarrow>
      si_InputSub (segs' ! k) = None \<and> pi_Status (pp_state q) = PipelineStatusPending))"
  using assms
proof (induction env i segs io arbitrary: segs' io' e rule: start_segments.induct)
  case (2 env i s segs io)
  obtain s1 io1 r where c: "startSegment env i s io = (s1, io1, r)" by (metis prod_cases3)
  have s: "si_InputSub s = None" "\<And>q. si_Pattern s = PPipeline q \<Longrightarrow> pi_Status (pp_state q) = PipelineStatusPending"
    using 2(3) by (simp_all add: unstarted_def)
  have s1: "si_InputSub s1 = None \<and> pi_Status (pp_state q) = PipelineStatusPending" if "si_Pattern s1 = PPipeline q" "0 < i" for q
    using startSegment_keeps(3) [OF c that s] by blast
  show ?case
  proof (cases r)
    case (Some err)
    have "segs' = s1 # segs" "e = Some (SegmentStart (ps_Name (si_Segment s1)) err)" using 2(2) c Some by auto
    then show ?thesis using startSegment_keeps(1,2) [OF c] s1 2(3) by (auto simp: nth_Cons unstarted_def split: nat.splits)
  next
    case None
    obtain rest io2 e2 where r: "start_segments env (Suc i) segs io1 = (rest, io2, e2)" by (metis prod_cases3)
    have res: "segs' = s1 # rest" "e = e2" using 2(2) c None r by (auto simp: Let_def)
    have IH: "map si_Segment rest = map si_Segment segs \<and> map si_OutputSub rest = map si_OutputSub segs \<and>
      (\<forall>err. e2 = Some err \<longrightarrow> (\<exists>n e'. err = SegmentStart n e')) \<and>
      (\<forall>k < length rest. 0 < Suc i + k \<longrightarrow> (\<forall>q. si_Pattern (rest ! k) = PPipeline q \<longrightarrow>
        si_InputSub (rest ! k) = None \<and> pi_Status (pp_state q) = PipelineStatusPending))"
      using 2(1) [OF c [symmetric] refl None r] 2(3) by simp
    then show ?thesis using startSegment_keeps(1,2) [OF c] s1 by (auto simp: res nth_Cons split: nat.splits)
  qed
qed simp

section \<open>Properties\<close>

text \<open>A message that arrives on a topic is published by each forwarding subscription of that topic
  on the topic behind it: one round of forwarding for the topics of the messages in flight.\<close>

definition routes :: "segment_instance list \<Rightarrow> (string \<times> string) list" where
  "routes segs = map (\<lambda>(s, s2). (ps_OutputTopic (si_Segment s), ps_InputTopic (si_Segment s2))) (zip segs (tl segs))"

definition forwarded :: "(string \<times> string) list \<Rightarrow> string list \<Rightarrow> string list" where
  "forwarded rs topics = concat (map (\<lambda>t. map snd (filter (\<lambda>(src, _). src = t) rs)) topics)"

lemma Composed_Start_cases:
  assumes "Composed_Start env (NewComposedPattern now h) io = (c, io', e)" and "io_ok io"
  defines "segs \<equiv> map the (cp_segments c)"
  shows "(if None \<in> set (cp_segments c) then \<exists>n e'. e = Some (SegmentCreate n e')
     else acquires io {} io' (all_subs segs) \<and> (\<forall>n e'. e \<noteq> Some (SegmentCreate n e'))) \<and>
    (e = None \<longrightarrow> map si_Segment segs = chain_topics h None (hi_PatternSegments (hv_Spec h)) \<and>
      (\<forall>i. Suc i < length segs \<longrightarrow>
        (\<exists>sub. si_OutputSub (segs ! i) = Some sub \<and> (sub, ps_OutputTopic (si_Segment (segs ! i))) \<in> set (io_subs io'))) \<and>
      (\<forall>i q. 0 < i \<longrightarrow> i < length segs \<longrightarrow> si_Pattern (segs ! i) = PPipeline q \<longrightarrow>
        si_InputSub (segs ! i) = None \<and> pi_Status (pp_state q) = PipelineStatusPending))"
proof -
  let ?specs = "hi_PatternSegments (hv_Spec h)"
  define c0 where "c0 = NewComposedPattern now h"
  define c1 where "c1 = c0\<lparr>cp_state := (cp_state c0)\<lparr>cs_Status := ''running'', cs_CurrentSegment := 0\<rparr>, cp_cancel := Some False\<rparr>"
  have c1: "cp_hive c1 = h" "cp_segments c1 = []" by (simp_all add: c1_def c0_def NewComposedPattern_def)
  have start: "Composed_Start env c0 io = (case Composed_Initialize env c1 io of
            (c, io, Some e) \<Rightarrow> (fail_composed e c, io, Some e)
          | (c, io, None) \<Rightarrow>
             (case setupRouting env (map the (cp_segments c)) io of
                (segs, io, Some e) \<Rightarrow> (fail_composed e (c\<lparr>cp_segments := map Some segs\<rparr>), io, Some e)
              | (segs, io, None) \<Rightarrow>
                 (case start_segments env 0 segs io of
                    (segs, io, Some e) \<Rightarrow> (fail_composed e (c\<lparr>cp_segments := map Some segs\<rparr>), io, Some e)
                  | (segs, io, None) \<Rightarrow> (c\<lparr>cp_segments := map Some segs\<rparr>, io, None))))"
    by (simp add: Composed_Start_def c1_def c0_def NewComposedPattern_def)
  have keep: "cp_segments (fail_composed e c) = cp_segments c" for e c by (simp add: fail_composed_def)
  show ?thesis
  proof (cases "?specs = []")
    case True
    then have "c = fail_composed NoSegments c1 \<and> io' = io \<and> e = Some NoSegments"
      using assms(1) start by (simp add: Composed_Initialize_def c1 c0_def [symmetric])
    then show ?thesis using assms(2) by (simp add: segs_def keep c1)
  next
    case False
    obtain io1 segs0 e0 where i: "init_segments env h None 0 ?specs io = (io1, segs0, e0)" by (metis prod_cases3)
    note I = init_segments_rule [OF i assms(2)]
    have init: "Composed_Initialize env c1 io = (c1\<lparr>cp_segments := segs0\<rparr>, io1, e0)"
      using False i by (simp add: Composed_Initialize_def c1)
    show ?thesis
    proof (cases e0)
      case (Some err)
      then have "cp_segments c = segs0" "e = Some err"
        using assms(1) start init by (simp_all add: c0_def [symmetric] keep) (auto simp: keep)
      then show ?thesis using I Some by auto
    next
      case None
      let ?segs = "map the segs0"
      have fresh: "\<forall>s \<in> set ?segs. fresh_segment s \<and>
          (\<forall>q. si_Pattern s = PPipeline q \<longrightarrow> pi_Status (pp_state q) = PipelineStatusPending)"
        and chain: "map si_Segment ?segs = chain_topics h None ?specs" and ok1: "io_ok io1"
        using I None by (auto simp: comp_def)
      have base: "acquires io {} io1 (all_subs ?segs)"
        using I fresh by (auto simp: acquires_def all_subs_def segment_subs_def link_subs_def fresh_segment_def unstarted_def)
      obtain segs1 io2 e1 where r: "setupRouting env ?segs io1 = (segs1, io2, e1)" by (metis prod_cases3)
      note R = setupRouting_rule [OF r ok1]
      have acq1: "acquires io {} io2 (all_subs segs1)"
        using acquires_trans [OF base setupRouting_acquires [OF r ok1]] fresh by (simp add: fresh_segment_def)
      have uns: "\<forall>s \<in> set segs1. unstarted s \<and>
          (\<forall>q. si_Pattern s = PPipeline q \<longrightarrow> pi_Status (pp_state q) = PipelineStatusPending)"
      proof
        fix s assume "s \<in> set segs1"
        then obtain k where "k < length segs1" "s = segs1 ! k" by (auto simp: in_set_conv_nth)
        moreover have "length segs1 = length ?segs" using R by (metis length_map)
        ultimately have "k < length ?segs" "si_Pattern s = si_Pattern (?segs ! k)" "si_InputSub s = si_InputSub (?segs ! k)"
          using R by (metis nth_map)+
        moreover from this(1) have "fresh_segment (?segs ! k) \<and>
            (\<forall>q. si_Pattern (?segs ! k) = PPipeline q \<longrightarrow> pi_Status (pp_state q) = PipelineStatusPending)"
          using fresh nth_mem by blast
        ultimately show "unstarted s \<and> (\<forall>q. si_Pattern s = PPipeline q \<longrightarrow> pi_Status (pp_state q) = PipelineStatusPending)"
          by (metis fresh_segment_def unstarted_def)
      qed
      show ?thesis
      proof (cases e1)
        case (Some err)
        then have "cp_segments c = map Some segs1" "e = Some err" "io' = io2"
          using assms(1) start init None r by (auto simp: c0_def [symmetric] keep)
        then show ?thesis using acq1 R Some by (auto simp: segs_def comp_def)
      next
        case none1: None
        obtain segs2 io3 e2 where s: "start_segments env 0 segs1 io2 = (segs2, io3, e2)" by (metis prod_cases3)
        have res: "cp_segments c = map Some segs2" "e = map_option id e2" "io' = io3"
          using assms(1) start init None r none1 s by (auto simp: c0_def [symmetric] keep split: option.splits)
        note S = start_segments_keeps [OF s uns]
        have step: "acquires io2 (all_subs segs1) io3 (all_subs segs2)"
          by (rule start_segments_acquires [OF s acquires_ok [OF acq1]]) (use uns in blast)
        then have "set (io_subs io2) \<subseteq> set (io_subs io3)" by (auto simp: acquires_def)
        moreover have "length segs2 = length segs1" using S by (metis length_map)
        moreover have "si_OutputSub (segs2 ! i) = si_OutputSub (segs1 ! i) \<and> si_Segment (segs2 ! i) = si_Segment (segs1 ! i)"
          if "i < length segs2" for i
          using S that calculation(2) by (metis nth_map)
        ultimately have links: "\<exists>sub. si_OutputSub (segs2 ! i) = Some sub \<and> (sub, ps_OutputTopic (si_Segment (segs2 ! i))) \<in> set (io_subs io3)"
          if "Suc i < length segs2" for i
          using R none1 that by (metis Suc_lessD subsetD)
        have "map si_Segment segs2 = chain_topics h None ?specs" using S R chain by simp
        moreover have "segs = segs2" by (simp add: segs_def res comp_def)
        ultimately show ?thesis using acquires_trans [OF acq1 step] S links
          by (auto simp: res)
      qed
    qed
  qed
qed

text \<open>Stopping a composed pattern releases everything it has subscribed to.  However far
  \<open>Start\<close> got, \<open>Stop\<close> cancels the subscriptions of all segments, the forwarding ones and the
  input of a first pipeline, and no others, and marks the pattern completed even when it had
  failed; except that after a segment could not be created, \<open>Stop\<close> panics on a nil segment.\<close>

lemma composed_stop_releases:
  assumes "Composed_Start env (NewComposedPattern now h) io = (c, io', e)" and "io_ok io"
  shows "case Composed_Stop env' c io' of
      None \<Rightarrow> \<exists>n e'. e = Some (SegmentCreate n e')
    | Some (c', io'') \<Rightarrow> io_subs io'' = io_subs io \<and> cs_Status (cp_state c') = ''completed'' \<and>
        (\<forall>n e'. e \<noteq> Some (SegmentCreate n e'))"
proof (cases "None \<in> set (cp_segments c)")
  case True
  then show ?thesis using Composed_Start_cases [OF assms] by (simp add: Composed_Stop_def)
next
  case False
  obtain segs' io2 where s: "stop_segments (map the (cp_segments c)) io' = (segs', io2)" by fastforce
  have "io_subs (fst (io_now env' (fold release_segment segs' io2))) = io_subs io"
    using stop_all_releases [OF _ assms(2) s] Composed_Start_cases [OF assms] False by (simp add: io_now_def)
  then show ?thesis using Composed_Start_cases [OF assms] False s
    by (simp add: Composed_Stop_def split_beta Let_def)
qed

definition sample_chain :: hive where
  "sample_chain = two_stages\<lparr>hv_Spec := (hv_Spec two_stages)\<lparr>hi_PatternSegments :=
     [\<lparr>ps_Name = ''a'', ps_Pattern = ''swarm'', ps_Config = [], ps_InputTopic = '''', ps_OutputTopic = ''''\<rparr>,
      \<lparr>ps_Name = ''b'', ps_Pattern = ''pipeline'',
       ps_Config = [(''stages'', GList [GMap [(''name'', GString ''s''), (''replicas'', GFloat 2)]])],
       ps_InputTopic = '''', ps_OutputTopic = ''''\<rparr>]\<rparr>\<rparr>"

definition started_chain :: "composed \<times> bus_io \<times> pattern_error option" where
  "started_chain = Composed_Start quiet_env (NewComposedPattern 0 sample_chain) quiet_io"

lemma started_chain_ok:
  "Composed_Start quiet_env (NewComposedPattern 0 sample_chain) quiet_io = (fst started_chain, fst (snd started_chain), None)"
  by code_simp

text \<open>How the segments of a started composition are connected.  Each segment has the topics of
  its specification, or the previous output as its input and a topic of its own hive as its
  output; a live subscription on every output but the last forwards to the next segment's
  input.  A pipeline after the first segment has no subscription to its input and is never
  started, so no forwarded message ever reaches its stages.\<close>

lemma composed_connects:
  assumes "Composed_Start env (NewComposedPattern now h) io = (c, io', None)" and "io_ok io"
    and "segs = map the (cp_segments c)"
  shows "map si_Segment segs = chain_topics h None (hi_PatternSegments (hv_Spec h)) \<and>
    (\<forall>i. Suc i < length segs \<longrightarrow>
      (\<exists>sub. si_OutputSub (segs ! i) = Some sub \<and> (sub, fst (routes segs ! i)) \<in> set (io_subs io')) \<and>
      snd (routes segs ! i) = ps_InputTopic (si_Segment (segs ! Suc i))) \<and>
    (\<forall>i q. 0 < i \<longrightarrow> i < length segs \<longrightarrow> si_Pattern (segs ! i) = PPipeline q \<longrightarrow>
      si_InputSub (segs ! i) = None \<and> pi_Status (pp_state q) = PipelineStatusPending)"
proof -
  have "routes segs ! i = (ps_OutputTopic (si_Segment (segs ! i)), ps_InputTopic (si_Segment (segs ! Suc i)))"
    if "Suc i < length segs" for i
    using that by (simp add: routes_def nth_tl)
  then show ?thesis using Composed_Start_cases [OF assms(1,2)] by (auto simp: assms(3))
qed

lemma output_topic_not_empty: "ps_OutputTopic (segment_topics h prev s) \<noteq> ''''"
  by (simp add: segment_topics_def composed_topic_def PrefixTopic_def Let_def)

lemma chain_topics_length [simp]: "length (chain_topics h prev ss) = length ss"
  by (induction ss arbitrary: prev) simp_all

lemma chain_topics_default:
  "Suc i < length ss \<Longrightarrow> ps_InputTopic (ss ! Suc i) = '''' \<Longrightarrow>
    ps_InputTopic (chain_topics h prev ss ! Suc i) = ps_OutputTopic (chain_topics h prev ss ! i)"
proof (induction ss arbitrary: prev i)
  case (Cons s ss)
  show ?case
  proof (cases i)
    case 0
    then obtain s2 ss2 where "ss = s2 # ss2" using Cons.prems(1) by (cases ss) auto
    then show ?thesis using 0 Cons.prems(2) output_topic_not_empty [of h prev s] by (simp add: segment_topics_def)
  next
    case (Suc j)
    then show ?thesis using Cons.IH Cons.prems by simp
  qed
qed simp

text \<open>Default topics make a composition forward its messages for ever.  A segment whose input
  topic is left to its default takes the output topic of the segment before it, and the
  forwarding subscription on that topic publishes what arrives there on the same topic again:
  a message on it is still being forwarded after any number of rounds.\<close>

lemma default_topics_loop:
  assumes "Composed_Start env (NewComposedPattern now h) io = (c, io', None)" and "io_ok io"
    and "segs = map the (cp_segments c)"
    and "Suc i < length (hi_PatternSegments (hv_Spec h))"
    and "ps_InputTopic (hi_PatternSegments (hv_Spec h) ! Suc i) = ''''"
    and "t = ps_OutputTopic (si_Segment (segs ! i))"
  shows "(\<exists>sub. (sub, t) \<in> set (io_subs io')) \<and> routes segs ! i = (t, t) \<and>
    t \<in> set ((forwarded (routes segs) ^^ n) [t])"
proof -
  have chain: "map si_Segment segs = chain_topics h None (hi_PatternSegments (hv_Spec h))"
    and sub: "\<And>i. Suc i < length segs \<Longrightarrow> \<exists>sub. (sub, ps_OutputTopic (si_Segment (segs ! i))) \<in> set (io_subs io')"
    using Composed_Start_cases [OF assms(1,2)] by (auto simp: assms(3))
  have len: "Suc i < length segs" using assms(4) by (metis chain chain_topics_length length_map)
  have "ps_InputTopic (si_Segment (segs ! Suc i)) = t"
    using chain_topics_default [OF assms(4,5), of h None] len
    by (simp add: chain [symmetric] assms(6))
  then have r: "routes segs ! i = (t, t)" using len by (simp add: routes_def nth_tl assms(6))
  moreover have "i < length (routes segs)" using len by (simp add: routes_def)
  ultimately have "(t, t) \<in> set (routes segs)" by (metis nth_mem)
  then have step: "t \<in> set topics \<Longrightarrow> t \<in> set (forwarded (routes segs) topics)" for topics
    by (force simp: forwarded_def)
  have "t \<in> set ((forwarded (routes segs) ^^ n) [t])" by (induction n) (simp_all add: step)
  then show ?thesis using sub [OF len] r assms(6) by simp
qed

end
