(* ===== verification/Quota.thy ===== *)
theory Quota
  imports Platform
begin

text \<open>
  \<open>internal/api/quota.go\<close>: the resource quota of a cell, checked before a resource is created,
  and the usage the API reports.  The cell is looked up by the name of the namespace and has no
  namespace itself.  \<open>List\<close> of the BadgerDB store returns no error, so the branches on
  its error are not reached.
\<close>

section \<open>Checks\<close>

datatype quota_error =
    QNamespaceRequired
  | QCellFailed store_error
  | QNotCell
  | QHives int string
  | QDrones int string
  | QMemory int string

text \<open>The loop that adds the memory of the drones, in bytes.  The cast of a resource that is not a
  drone fails and skips it.\<close>

fun total_memory :: "resource list \<Rightarrow> int \<Rightarrow> int" where
  "total_memory [] acc = acc"
| "total_memory (r # rs) acc =
    (case r of
       RDrone d \<Rightarrow>
         (case dr_Spec d of
            None \<Rightarrow> total_memory rs acc
          | Some spec \<Rightarrow>
             (let memory = rr_Memory (rs_Requests (ss_Resources (as_Spec spec)));
                  memory = (if memory = 0 then 512 * 1024 * 1024 else memory)
              in total_memory rs (wrap64 (acc + memory))))
     | _ \<Rightarrow> total_memory rs acc)"

definition memory_gb :: "resource list \<Rightarrow> int" where
  "memory_gb drones = go_div (total_memory drones 0) (1024 * 1024 * 1024)"

definition checkResourceQuota :: "'d world_env \<Rightarrow> string \<Rightarrow> string \<Rightarrow> 'd world \<Rightarrow> quota_error option" where
  "checkResourceQuota env namespace kind w =
    (if namespace = '''' then None
     else case w_Get env ''Cell'' namespace '''' w of
       Inl ErrNotFound \<Rightarrow> None
     | Inl e \<Rightarrow> Some (QCellFailed e)
     | Inr (RCell cell) \<Rightarrow>
        (let quota = ce_ResourceQuota (cl_Spec cell)
         in if kind = ''Hive''
            then (if rq_MaxHives quota > 0 \<and> int (length (w_List env ''Hive'' namespace None w)) \<ge> rq_MaxHives quota
                  then Some (QHives (rq_MaxHives quota) namespace) else None)
            else if kind = ''Drone''
            then (let drones = w_List env ''Drone'' namespace None w
                  in if rq_MaxTotalDrones quota > 0 \<and> int (length drones) \<ge> rq_MaxTotalDrones quota
                     then Some (QDrones (rq_MaxTotalDrones quota) namespace)
                     else if rq_MaxMemoryGB quota > 0 \<and> memory_gb drones \<ge> rq_MaxMemoryGB quota
                     then Some (QMemory (rq_MaxMemoryGB quota) namespace)
                     else None)
            else None)
     | Inr _ \<Rightarrow> Some QNotCell)"

definition getQuotaUsage :: "'d world_env \<Rightarrow> string \<Rightarrow> 'd world \<Rightarrow> quota_error + quota_usage" where
  "getQuotaUsage env namespace w =
    (if namespace = '''' then Inl QNamespaceRequired
     else case w_Get env ''Cell'' namespace '''' w of
       Inl ErrNotFound \<Rightarrow> Inr \<lparr>qu_Hives = 0, qu_TotalDrones = 0, qu_MemoryUsedGB = 0, qu_MemoryLimitGB = 0\<rparr>
     | Inl e \<Rightarrow> Inl (QCellFailed e)
     | Inr (RCell cell) \<Rightarrow>
        (let quota = ce_ResourceQuota (cl_Spec cell);
             hives = w_List env ''Hive'' namespace None w;
             drones = w_List env ''Drone'' namespace None w
         in Inr \<lparr>qu_Hives = int (length hives), qu_TotalDrones = int (length drones),
                 qu_MemoryUsedGB = memory_gb drones, qu_MemoryLimitGB = rq_MaxMemoryGB quota\<rparr>)
     | Inr _ \<Rightarrow> Inl QNotCell)"

section \<open>What the checks mean\<close>

text \<open>The cell whose quota applies to a namespace.\<close>

definition cell_of :: "'d world_env \<Rightarrow> string \<Rightarrow> 'd world \<Rightarrow> cell option" where
  "cell_of env namespace w =
    (case w_Get env ''Cell'' namespace '''' w of Inr (RCell cell) \<Rightarrow> Some cell | _ \<Rightarrow> None)"

definition quota_of :: "'d world_env \<Rightarrow> string \<Rightarrow> 'd world \<Rightarrow> resource_quota option" where
  "quota_of env namespace w = map_option (\<lambda>c. ce_ResourceQuota (cl_Spec c)) (cell_of env namespace w)"

lemma Get_Cell_is_cell:
  assumes "world_ok env" and "w_Get env ''Cell'' n m w = Inr r"
  shows "\<exists>c. r = RCell c"
proof -
  obtain data r0 where d: "unmarshalResource (we_store env) ''Cell'' data = Inr r0"
      "decryptSecretData (be_crypto (we_store env)) (bs_passphrase (w_store w)) r0 = Inr r"
    using assms(2) by (auto simp: w_Get_def store_Get_def split: sum.splits kv_error.splits)
  have "GetKind r0 = ''Cell''" using unmarshal_kind [OF _ d(1)] assms(1) by (simp add: world_ok_def)
  then obtain c where "r0 = RCell c" by (cases r0) auto
  then show ?thesis using d(2) by (auto simp: decryptSecretData_def)
qed

text \<open>A drone's memory request as the quota counts it.\<close>

definition counted_memory :: "resource \<Rightarrow> int" where
  "counted_memory r =
    (case r of
       RDrone d \<Rightarrow>
         (case dr_Spec d of
            None \<Rightarrow> 0
          | Some spec \<Rightarrow>
             (let memory = rr_Memory (rs_Requests (ss_Resources (as_Spec spec)))
              in if memory = 0 then 536870912 else memory))
     | _ \<Rightarrow> 0)"

lemma wrap64_cong: "wrap64 (wrap64 a + b) = wrap64 (a + b)"
proof -
  have "wrap64 a + b + 9223372036854775808 = (a + 9223372036854775808) mod 18446744073709551616 + b"
    by (simp add: wrap64_def)
  then show ?thesis by (simp add: wrap64_def mod_simps ac_simps)
qed

text \<open>The sum is the sum of the requests, reduced to 64 bits.\<close>

lemma total_memory_wrap: "in64 acc \<Longrightarrow> total_memory rs acc = wrap64 (acc + (\<Sum>r\<leftarrow>rs. counted_memory r))"
proof (induction rs arbitrary: acc)
  case Nil
  then show ?case by simp
next
  case (Cons r rs)
  have c: "total_memory (r # rs) acc = total_memory rs (wrap64 (acc + counted_memory r))"
    using Cons.prems by (auto simp: counted_memory_def Let_def split: resource.split option.split)
  show ?case unfolding c by (simp add: Cons.IH wrap64_cong add.assoc)
qed

lemma total_memory_sum:
  "in64 (\<Sum>r\<leftarrow>rs. counted_memory r) \<Longrightarrow> total_memory rs 0 = (\<Sum>r\<leftarrow>rs. counted_memory r)"
  by (simp add: total_memory_wrap in64_def)

lemma memory_gb_sum:
  assumes "\<And>r. r \<in> set rs \<Longrightarrow> 0 \<le> counted_memory r" and "in64 (\<Sum>r\<leftarrow>rs. counted_memory r)"
  shows "memory_gb rs = (\<Sum>r\<leftarrow>rs. counted_memory r) div 1073741824"
proof -
  have "0 \<le> (\<Sum>r\<leftarrow>rs. counted_memory r)" by (rule sum_list_nonneg) (use assms(1) in auto)
  then show ?thesis using assms(2) by (simp add: memory_gb_def total_memory_sum)
qed

lemma check_iff:
  assumes "world_ok env" and "namespace \<noteq> ''''"
  shows "checkResourceQuota env namespace kind w = None \<longleftrightarrow>
    w_Get env ''Cell'' namespace '''' w = Inl ErrNotFound \<or>
    (\<exists>q. quota_of env namespace w = Some q \<and>
      (kind = ''Hive'' \<longrightarrow> 0 < rq_MaxHives q \<longrightarrow> int (length (w_List env ''Hive'' namespace None w)) < rq_MaxHives q) \<and>
      (kind = ''Drone'' \<longrightarrow>
        (0 < rq_MaxTotalDrones q \<longrightarrow> int (length (w_List env ''Drone'' namespace None w)) < rq_MaxTotalDrones q) \<and>
        (0 < rq_MaxMemoryGB q \<longrightarrow> memory_gb (w_List env ''Drone'' namespace None w) < rq_MaxMemoryGB q)))"
proof (cases "w_Get env ''Cell'' namespace '''' w")
  case (Inl e)
  then show ?thesis using assms(2) by (cases e) (auto simp: checkResourceQuota_def quota_of_def cell_of_def)
next
  case (Inr r)
  then obtain c where "r = RCell c" using Get_Cell_is_cell [OF assms(1)] by blast
  then show ?thesis using Inr assms(2) by (auto simp: checkResourceQuota_def quota_of_def cell_of_def Let_def)
qed

text \<open>A limit of zero is no limit, and nothing limits the drones of a single hive.\<close>

lemma no_limit:
  assumes "quota_of env namespace w = Some q"
    and "rq_MaxHives q \<le> 0" "rq_MaxTotalDrones q \<le> 0" "rq_MaxMemoryGB q \<le> 0"
  shows "checkResourceQuota env namespace kind w = None"
  using assms by (auto simp: checkResourceQuota_def quota_of_def cell_of_def Let_def split: sum.splits resource.splits)

end
