(* ===== verification/Typed_Store.thy ===== *)
theory Typed_Store
  imports Platform
begin

text \<open>
  The type invariant of the resource store: the data under a key that is not a version key
  decodes, by the kind in the key, to the resource with the kind, name and namespace of the key.  The
  operations of the store keep it for plain names, and it gives the types of what
  \<open>Get\<close> and \<open>List\<close> return, which the handlers rely on when they write back
  what they have read.
\<close>

section \<open>The invariant\<close>

lemma plain_names [simp]:
  "plain ''''" "plain ''Drone''" "plain ''AgentSpec''" "plain ''Hive''" "plain ''Cell''" "plain ''Session''" "plain ''Secret''"
  by (simp_all add: plain_def)

text \<open>A namespace that cannot be confused with a kind: those of the API are lower-case.\<close>

definition namespace_ok :: "string \<Rightarrow> bool" where
  "namespace_ok m \<longleftrightarrow> plain m \<and> m \<notin> {''AgentSpec'', ''Drone'', ''Hive'', ''Cell'', ''Session'', ''Secret''}"

lemma namespace_ok_plain [simp]: "namespace_ok m \<Longrightarrow> plain m"
  by (simp add: namespace_ok_def)

lemma namespace_ok_Nil [simp]: "namespace_ok ''''"
  by (simp add: namespace_ok_def)

definition key_typed :: "'d badger_env \<Rightarrow> string \<Rightarrow> string \<Rightarrow> bool" where
  "key_typed env key data \<longleftrightarrow>
    (\<exists>k n m v. key = versionKey k n m v) \<or>
    (\<exists>r. plain (GetName r) \<and> namespace_ok (GetNamespace r) \<and> key = store_key (GetKind r) (GetName r) (GetNamespace r) \<and>
      unmarshalResource env (GetKind r) data = Inr r)"

definition typed :: "'d badger_env \<Rightarrow> 'd badger_store \<Rightarrow> bool" where
  "typed env s \<longleftrightarrow> (\<forall>key data. be_get env key (bs_db s) = Inr data \<longrightarrow> key_typed env key data)"

lemma typedD: "typed env s \<Longrightarrow> be_get env key (bs_db s) = Inr data \<Longrightarrow> key_typed env key data"
  by (simp add: typed_def)

lemma typed_cong: "bs_db s' = bs_db s \<Longrightarrow> typed env s' = typed env s"
  by (simp add: typed_def)

lemma store_write_typed:
  assumes "env_ok env" and "store_write env now rnd ev v r s = (r', s', None)"
    and "plain (GetName r)" "namespace_ok (GetNamespace r)" and "typed env s"
  shows "typed env s'"
  unfolding typed_def
proof (intro allI impI)
  fix key d assume d: "be_get env key (bs_db s') = Inr d"
  obtain data vdata where w: "encryptSecretData (be_crypto env) rnd (bs_passphrase s) r = Inr r'"
    "be_marshal env r' = Some data"
    "\<And>k. be_get env k (bs_db s') =
      (if k = versionKey (GetKind r) (GetName r) (GetNamespace r) v then Inr vdata
       else if k = store_key (GetKind r) (GetName r) (GetNamespace r) then Inr data
       else be_get env k (bs_db s))"
    using store_write_effect [OF assms(1,2)] by blast
  note id = encrypt_keeps_identity [OF w(1)]
  have "unmarshalResource env (GetKind r') data = Inr r'" by (rule json_resource [OF assms(1) w(2)])
  then have new: "key_typed env (store_key (GetKind r) (GetName r) (GetNamespace r)) data"
    unfolding key_typed_def using assms(3,4) id by metis
  show "key_typed env key d" using d new typedD [OF assms(5), of key d]
    by (auto simp: w(3) key_typed_def split: if_splits)
qed

lemma store_Delete_typed:
  assumes "env_ok env" and "store_Delete env kind name ns s = (s', None)" and "typed env s"
  shows "typed env s'"
  using store_Delete_ok [OF assms(1,2)] assms(3) by (auto simp: typed_def split: if_splits)

section \<open>The operations of the platform keep it\<close>

abbreviation world_typed :: "'d world_env \<Rightarrow> 'd world \<Rightarrow> bool" where
  "world_typed env w \<equiv> typed (we_store env) (w_store w)"

lemma w_Create_typed:
  assumes "world_ok env" "world_typed env w" "plain (GetName r)" "namespace_ok (GetNamespace r)" "w_Create env r w = (w', e)"
  shows "world_typed env w'"
proof -
  obtain r' s' where c: "store_Create (we_store env) (we_uuid env (w_tick w)) (we_now env (w_tick w))
      (we_rnd env (w_tick w)) r (w_store w) = (r', s', e)" "w_store w' = s'"
    using assms(5) by (rule w_Create_cases)
  show ?thesis
  proof (cases e)
    case None
    have ok: "env_ok (we_store env)" using assms(1) by (simp add: world_ok_def)
    show ?thesis unfolding c(2)
      by (rule store_write_typed [OF ok store_Create_ok(1) [OF c(1) [unfolded None]]]) (use assms in \<open>simp_all add: ensureUID_def\<close>)
  next
    case (Some x)
    then show ?thesis using store_Create_fail [of "we_store env"] c assms(2) typed_cong by metis
  qed
qed

lemma w_Update_typed:
  assumes "world_ok env" "world_typed env w" "plain (GetName r)" "namespace_ok (GetNamespace r)" "w_Update env r w = (w', e)"
  shows "world_typed env w'"
proof -
  obtain r' s' where c: "store_Update (we_store env) (we_now env (w_tick w)) (we_rnd env (w_tick w)) r
      (w_store w) = (r', s', e)" "w_store w' = s'"
    using assms(5) by (rule w_Update_cases)
  show ?thesis
  proof (cases e)
    case None
    have ok: "env_ok (we_store env)" using assms(1) by (simp add: world_ok_def)
    show ?thesis unfolding c(2)
      by (rule store_write_typed [OF ok store_Update_ok(1) [OF c(1) [unfolded None]]]) (use assms in simp_all)
  next
    case (Some x)
    then show ?thesis using store_Update_fail [of "we_store env"] c assms(2) typed_cong by metis
  qed
qed

lemma w_Delete_typed:
  assumes "world_ok env" "world_typed env w" "w_Delete env k n m w = (w', e)"
  shows "world_typed env w'"
proof -
  obtain s' where c: "store_Delete (we_store env) k n m (w_store w) = (s', e)" "w' = w\<lparr>w_store := s'\<rparr>"
    using assms(3) by (rule w_Delete_cases)
  have ok: "env_ok (we_store env)" using assms(1) by (simp add: world_ok_def)
  show ?thesis
  proof (cases e)
    case None
    then show ?thesis using store_Delete_typed [OF ok] c assms(2) by auto
  next
    case (Some x)
    then show ?thesis using store_Delete_fail [of "we_store env"] c assms(2) typed_cong
      by (metis world.select_convs(1) world.surjective world.update_convs(1))
  qed
qed

section \<open>What it gives to the readers\<close>

lemma contains_v_append: "contains_v (s @ '':v'' @ t)"
proof (induction s)
  case Nil
  then show ?case by simp
next
  case (Cons a s)
  then show ?case by (cases s) auto
qed

lemma typed_Get:
  assumes "world_ok env" "world_typed env w" "plain k" "plain n" "plain m" "w_Get env k n m w = Inr r"
  shows "resource_key r = (k, n, m)"
proof -
  have ok: "env_ok (we_store env)" using assms(1) by (simp add: world_ok_def)
  obtain data r0 where d: "be_get (we_store env) (store_key k n m) (bs_db (w_store w)) = Inr data"
      "unmarshalResource (we_store env) k data = Inr r0"
      "decryptSecretData (be_crypto (we_store env)) (bs_passphrase (w_store w)) r0 = Inr r"
    using assms(6) by (auto simp: w_Get_def store_Get_def split: sum.splits kv_error.splits)
  have "store_key k n m \<noteq> versionKey k' n' m' v" for k' n' m' v using versionKey_neq_plain [OF assms(3-5)] by metis
  then obtain r1 where r1: "plain (GetName r1)" "namespace_ok (GetNamespace r1)"
      "store_key k n m = store_key (GetKind r1) (GetName r1) (GetNamespace r1)"
      "unmarshalResource (we_store env) (GetKind r1) data = Inr r1"
    using typedD [OF assms(2) d(1)] by (auto simp: key_typed_def)
  then have key: "resource_key r1 = (k, n, m)" using store_key_inject [OF assms(3-5)] by (simp add: resource_key_def)
  then have "r0 = r1" using d(2) r1(4) by (simp add: resource_key_def)
  moreover have "resource_key r = resource_key r0"
    using d(3) by (cases r0) (auto simp: decryptSecretData_def resource_key_def GetName_def GetNamespace_def split: sum.splits)
  ultimately show ?thesis using key by simp
qed

lemma slash_inject:
  assumes "plain a" "plain b" "a @ CHR ''/'' # x = b @ CHR ''/'' # y"
  shows "a = b \<and> x = y"
  using assms(1,2) by (intro append_sep_inject [OF assms(3)]) (simp_all add: plain_def)

text \<open>The names of listed resources need not be assumed plain: the keys are.\<close>

lemma GetKind_cases: "GetKind r \<in> {''AgentSpec'', ''Drone'', ''Hive'', ''Cell'', ''Session'', ''Secret''}"
  by (cases r) simp_all

lemma typed_List:
  assumes "world_ok env" "world_typed env w" "plain m" "r \<in> set (w_List env k m sel w)"
  shows "plain (GetName r) \<and> resource_key r = (k, GetName r, m)"
proof -
  have ok: "env_ok (we_store env)" using assms(1) by (simp add: world_ok_def)
  obtain n data where d: "be_get (we_store env) (store_key k n m) (bs_db (w_store w)) = Inr data"
      "\<not> contains_v (store_key k n m)" "unmarshalResource (we_store env) k data = Inr r"
    using assms(4) by (auto simp: w_List_def store_List_iff [OF ok])
  have "store_key k n m \<noteq> versionKey k' n' m' v" for k' n' m' v
    using d(2) contains_v_append by (auto simp: versionKey_def)
  then obtain r1 where r1: "plain (GetName r1)" "namespace_ok (GetNamespace r1)"
      "store_key k n m = store_key (GetKind r1) (GetName r1) (GetNamespace r1)"
      "unmarshalResource (we_store env) (GetKind r1) data = Inr r1"
    using typedD [OF assms(2) d(1)] by (auto simp: key_typed_def)
  have k: "GetKind r = k" using unmarshal_kind [OF ok d(3)] .
  have pk: "plain k" using plain_kind [of r] by (simp add: k)
  have "m = GetNamespace r1 \<and> k = GetKind r1"
  proof (cases "m = ''''"; cases "GetNamespace r1 = ''''")
    assume "m = ''''" "GetNamespace r1 = ''''"
    moreover from this have "k @ CHR ''/'' # n = GetKind r1 @ CHR ''/'' # GetName r1" using r1(3) by (simp add: store_key_def)
    from slash_inject [OF pk plain_kind this] have "k = GetKind r1" ..
    ultimately show ?thesis by simp
  next
    assume "m = ''''" "GetNamespace r1 \<noteq> ''''"
    then have "k @ CHR ''/'' # n = GetNamespace r1 @ CHR ''/'' # (GetKind r1 @ ''/'' @ GetName r1)"
      using r1(3) by (simp add: store_key_def)
    from slash_inject [OF pk namespace_ok_plain [OF r1(2)] this] have "k = GetNamespace r1" ..
    then show ?thesis using r1(2) GetKind_cases [of r] unfolding k namespace_ok_def by blast
  next
    assume "m \<noteq> ''''" "GetNamespace r1 = ''''"
    then have "m @ CHR ''/'' # (k @ ''/'' @ n) = GetKind r1 @ CHR ''/'' # GetName r1"
      using r1(3) by (simp add: store_key_def)
    from slash_inject [OF assms(3) plain_kind this] have "GetName r1 = k @ ''/'' @ n" by simp
    then show ?thesis using r1(1) by (simp add: plain_def)
  next
    assume "m \<noteq> ''''" "GetNamespace r1 \<noteq> ''''"
    then have "m @ CHR ''/'' # (k @ CHR ''/'' # n) = GetNamespace r1 @ CHR ''/'' # (GetKind r1 @ CHR ''/'' # GetName r1)"
      using r1(3) by (simp add: store_key_def)
    from slash_inject [OF assms(3) namespace_ok_plain [OF r1(2)] this]
    have m: "m = GetNamespace r1" and e: "k @ CHR ''/'' # n = GetKind r1 @ CHR ''/'' # GetName r1" by simp_all
    from slash_inject [OF pk plain_kind e] m show ?thesis by simp
  qed
  then have m: "m = GetNamespace r1" and k1: "k = GetKind r1" by simp_all
  have "r1 = r" using r1(4) d(3) unfolding k1 by simp
  then show ?thesis using r1(1) m k unfolding resource_key_def by blast
qed

section \<open>Counting what is listed\<close>

definition listed_keys :: "'d badger_env \<Rightarrow> string \<Rightarrow> string \<Rightarrow> 'd badger_store \<Rightarrow> string set" where
  "listed_keys env kind ns s =
    {key. \<not> contains_v key \<and> has_prefix (listPrefix kind ns) key \<and>
      (\<exists>data r. be_get env key (bs_db s) = Inr data \<and> unmarshalResource env kind data = Inr r)}"

lemma length_list_loop:
  "distinct (map fst items) \<Longrightarrow> length (list_loop env kind None items) =
    card {key. \<exists>data r. (key, data) \<in> set items \<and> \<not> contains_v key \<and> unmarshalResource env kind data = Inr r}"
proof (induction items)
  case Nil
  then show ?case by simp
next
  case (Cons p items)
  obtain key data where p: "p = (key, data)" by (cases p)
  let ?S = "\<lambda>xs. {key. \<exists>data r. (key, data) \<in> set xs \<and> \<not> contains_v key \<and> unmarshalResource env kind data = Inr r}"
  have new: "key \<notin> ?S items" using Cons.prems p by force
  have fin: "finite (?S items)" by (rule finite_subset [of _ "fst ` set items"]) force+
  have eq: "?S (p # items) = (if \<not> contains_v key \<and> (\<exists>r. unmarshalResource env kind data = Inr r)
      then insert key (?S items) else ?S items)" unfolding p by auto
  show ?case
  proof (cases "\<not> contains_v key \<and> (\<exists>r. unmarshalResource env kind data = Inr r)")
    case True
    then show ?thesis unfolding eq using Cons new fin p by (auto split: sum.splits)
  next
    case False
    then show ?thesis unfolding eq using Cons p by (auto split: sum.splits)
  qed
qed

lemma length_store_List:
  assumes "env_ok env"
  shows "length (store_List env kind ns None s) = card (listed_keys env kind ns s) \<and> finite (listed_keys env kind ns s)"
proof -
  let ?items = "be_iterate env (listPrefix kind ns) (bs_db s)"
  have eq: "listed_keys env kind ns s =
      {key. \<exists>data r. (key, data) \<in> set ?items \<and> \<not> contains_v key \<and> unmarshalResource env kind data = Inr r}"
    unfolding listed_keys_def by (auto simp: kv_iterate(2) [OF assms])
  have "finite {key. \<exists>data r. (key, data) \<in> set ?items \<and> \<not> contains_v key \<and> unmarshalResource env kind data = Inr r}"
    by (rule finite_subset [of _ "fst ` set ?items"]) force+
  then show ?thesis unfolding store_List_def eq using length_list_loop [OF kv_iterate(1) [OF assms]] by blast
qed

lemma create_length:
  assumes "world_ok env" "plain (GetName r)" "plain (GetNamespace r)" "w_Create env r w = (w', None)"
  shows "length (w_List env (GetKind r) (GetNamespace r) None w') =
    Suc (length (w_List env (GetKind r) (GetNamespace r) None w))"
proof -
  have ok: "env_ok (we_store env)" using assms(1) by (simp add: world_ok_def)
  obtain r' s' where c: "store_Create (we_store env) (we_uuid env (w_tick w)) (we_now env (w_tick w))
      (we_rnd env (w_tick w)) r (w_store w) = (r', s', None)" "w_store w' = s'"
    using assms(4) by (rule w_Create_cases)
  let ?r = "ensureUID (we_uuid env (w_tick w)) r" and ?k = "GetKind r" and ?n = "GetName r" and ?m = "GetNamespace r"
  have id: "GetKind ?r = ?k" "GetName ?r = ?n" "GetNamespace ?r = ?m" by (simp_all add: ensureUID_def)
  obtain data vdata where w: "encryptSecretData (be_crypto (we_store env)) (we_rnd env (w_tick w)) (bs_passphrase (w_store w)) ?r = Inr r'"
    "be_marshal (we_store env) r' = Some data"
    "\<And>k. be_get (we_store env) k (bs_db s') =
      (if k = versionKey ?k ?n ?m 1 then Inr vdata
       else if k = store_key ?k ?n ?m then Inr data
       else be_get (we_store env) k (bs_db (w_store w)))"
    using store_write_effect [OF ok store_Create_ok(1) [OF c(1)]] unfolding id by blast
  have u: "unmarshalResource (we_store env) ?k data = Inr r'"
    using json_resource [OF ok w(2)] encrypt_keeps_identity(1) [OF w(1)] id by simp
  have v: "contains_v (versionKey ?k ?n ?m 1)" unfolding versionKey_def by (rule contains_v_append)
  have nv: "\<not> contains_v (store_key ?k ?n ?m)" by (rule plain_no_v) (simp add: key_colon assms(2,3))
  have pre: "has_prefix (listPrefix ?k ?m) (store_key ?k ?n ?m)" by (simp add: listPrefix_key [symmetric] has_prefix_iff)
  have out: "store_key ?k ?n ?m \<notin> listed_keys (we_store env) ?k ?m (w_store w)"
    using store_Create_ok(2) [OF c(1)] by (simp add: listed_keys_def)
  have neq: "store_key ?k ?n ?m \<noteq> versionKey ?k ?n ?m 1" using versionKey_neq_key by metis
  have "listed_keys (we_store env) ?k ?m s' = insert (store_key ?k ?n ?m) (listed_keys (we_store env) ?k ?m (w_store w))"
  proof (rule set_eqI)
    fix x
    show "x \<in> listed_keys (we_store env) ?k ?m s' \<longleftrightarrow>
      x \<in> insert (store_key ?k ?n ?m) (listed_keys (we_store env) ?k ?m (w_store w))"
      using u v nv pre neq by (cases "x = versionKey ?k ?n ?m 1"; cases "x = store_key ?k ?n ?m") (auto simp: listed_keys_def w(3))
  qed
  then show ?thesis using length_store_List [OF ok] out unfolding w_List_def c(2) by (simp add: card_insert_if)
qed

section \<open>Operations confined to a namespace\<close>

text \<open>From a typed world, the next one is typed and differs only in the resources of the
  namespace.\<close>

definition keeps :: "'d world_env \<Rightarrow> string \<Rightarrow> 'd world \<Rightarrow> 'd world \<Rightarrow> bool" where
  "keeps env ns w w' \<longleftrightarrow> (world_typed env w \<longrightarrow> world_typed env w' \<and>
    (\<forall>k n m. plain k \<longrightarrow> plain n \<longrightarrow> plain m \<longrightarrow> m \<noteq> ns \<longrightarrow> w_Get env k n m w' = w_Get env k n m w))"

named_theorems keeps_intros \<open>operations confined to a namespace\<close>

lemma keepsI:
  assumes "world_typed env w \<Longrightarrow> world_typed env w'"
    and "\<And>k n m. world_typed env w \<Longrightarrow> plain k \<Longrightarrow> plain n \<Longrightarrow> plain m \<Longrightarrow> m \<noteq> ns \<Longrightarrow> w_Get env k n m w' = w_Get env k n m w"
  shows "keeps env ns w w'"
  using assms by (simp add: keeps_def)

lemma keeps_refl [simp, intro]: "keeps env ns w w"
  by (simp add: keeps_def)

lemma keeps_trans: "keeps env ns w w1 \<Longrightarrow> keeps env ns w1 w2 \<Longrightarrow> keeps env ns w w2"
  by (simp add: keeps_def)

lemma keeps_when_typed: "(world_typed env w \<Longrightarrow> keeps env ns w w') \<Longrightarrow> keeps env ns w w'"
  by (simp add: keeps_def)

lemma keeps_typed: "keeps env ns w w' \<Longrightarrow> world_typed env w \<Longrightarrow> world_typed env w'"
  by (simp add: keeps_def)

lemma keeps_Get:
  "keeps env ns w w' \<Longrightarrow> world_typed env w \<Longrightarrow> plain k \<Longrightarrow> plain n \<Longrightarrow> plain m \<Longrightarrow> m \<noteq> ns \<Longrightarrow>
    w_Get env k n m w' = w_Get env k n m w"
  by (simp add: keeps_def)

lemma keeps_next [simp]: "keeps env ns w (w_next w)"
  by (rule keepsI) simp_all

lemma keeps_Create [keeps_intros]:
  assumes "world_ok env" "plain (GetName r)" "namespace_ok (GetNamespace r)" "w_Create env r w = (w', e)"
  shows "keeps env (GetNamespace r) w w'"
  by (rule keepsI) (use w_Create_typed [OF assms(1) _ assms(2-4)] ws.create_other [OF assms(1,2) _ assms(4)] assms(3) in
    \<open>auto simp: resource_key_def\<close>)

lemma keeps_Update [keeps_intros]:
  assumes "world_ok env" "plain (GetName r)" "namespace_ok (GetNamespace r)" "w_Update env r w = (w', e)"
  shows "keeps env (GetNamespace r) w w'"
  by (rule keepsI) (use w_Update_typed [OF assms(1) _ assms(2-4)] ws.upd_other [OF assms(1,2) _ assms(4)] assms(3) in
    \<open>auto simp: resource_key_def\<close>)

lemma keeps_Delete [keeps_intros]:
  assumes "world_ok env" "plain k" "plain n" "plain ns" "w_Delete env k n ns w = (w', e)"
  shows "keeps env ns w w'"
  by (rule keepsI) (use w_Delete_typed [OF assms(1) _ assms(5)] ws.del_other [OF assms] in auto)


end
