(* ===== verification/API_Resources.thy ===== *)
theory API_Resources
  imports Quota Typed_Store Messaging Access_Control
begin

text \<open>
  \<open>internal/api/server.go\<close>, first half: the responses of the REST server and its handlers of
  cells, agent specifications, hives, secrets and drones, with \<open>quota_handlers.go\<close>.

  A handler takes what the web framework gives it (the path parameters and the result of
  \<open>Bind\<close>, the decoded body or the text of the decoding error) and returns the
  new world and the response.  A response is its status and a description of its body; the message of
  an error is the error value itself.  \<open>List\<close> of the BadgerDB store returns no error, so
  the branches on its error are not reached.
\<close>

section \<open>Responses\<close>

datatype message_text =
    Text string
  | BindMsg string
  | NamespaceMsg namespace_error
  | StoreMsg store_error
  | QuotaMsg quota_error
  | RoleMsg rbac_error
  | DLQMsg dlq_error

datatype drain_error = MarkFailed string store_error | DeleteFailed string store_error

datatype 'b body =
    NoBody
  | ErrorBody string message_text
  | ResourceBody resource
  | ResourcesBody "resource list"
  | UsageBody quota_usage
  | MessageBody string
  | ScaledBody string int
  | DrainedBody string nat "drain_error list"
  | StreamBody "string option" string
  | OtherBody 'b

record 'b response =
  rsp_Status :: int
  rsp_Body :: "'b body"

definition errorResponse :: "int \<Rightarrow> string \<Rightarrow> message_text \<Rightarrow> 'b response" where
  "errorResponse status err msg = \<lparr>rsp_Status = status, rsp_Body = ErrorBody err msg\<rparr>"

text \<open>The errors \<open>handleError\<close> tells apart.\<close>

datatype api_error = ApiNotFound | ApiAlreadyExists | ApiInvalidInput | ApiOther

fun store_api_error :: "store_error \<Rightarrow> api_error" where
  "store_api_error ErrNotFound = ApiNotFound"
| "store_api_error ErrAlreadyExists = ApiAlreadyExists"
| "store_api_error _ = ApiOther"

fun handleError :: "api_error \<Rightarrow> 'b response" where
  "handleError ApiNotFound = errorResponse 404 ''not_found'' (Text ''resource not found'')"
| "handleError ApiAlreadyExists = errorResponse 409 ''already_exists'' (Text ''resource already exists'')"
| "handleError ApiInvalidInput = errorResponse 400 ''invalid_input'' (Text ''invalid input'')"
| "handleError ApiOther = errorResponse 500 ''internal_error'' (Text ''An internal error occurred'')"

definition bad_request :: "string \<Rightarrow> 'b response" where
  "bad_request msg = errorResponse 400 ''invalid_request'' (Text msg)"

definition bind_failed :: "string \<Rightarrow> 'b response" where
  "bind_failed e = errorResponse 400 ''invalid_request'' (BindMsg e)"

definition bad_namespace :: "namespace_error \<Rightarrow> 'b response" where
  "bad_namespace e = errorResponse 400 ''invalid_namespace'' (NamespaceMsg e)"

definition success :: "'b response \<Rightarrow> bool" where
  "success rsp \<longleftrightarrow> 200 \<le> rsp_Status rsp \<and> rsp_Status rsp < 300"

text \<open>The middleware around every handler: a cancelled request is answered at once.\<close>

definition contextValidationMiddleware :: "bool \<Rightarrow> ('s \<Rightarrow> 's \<times> 'b response) \<Rightarrow> 's \<Rightarrow> 's \<times> 'b response" where
  "contextValidationMiddleware cancelled next s =
    (if cancelled then (s, errorResponse 408 ''request_timeout'' (Text ''Request context was cancelled'')) else next s)"

section \<open>The store behind the handlers\<close>

text \<open>\<open>Create\<close> and \<open>Update\<close> get a pointer, so the handler's variable is changed with the
  resource: it gets the new identifier, and a secret's data is replaced by its encryption.\<close>

definition ptr_Create :: "'d world_env \<Rightarrow> resource \<Rightarrow> 'd world \<Rightarrow> resource \<times> 'd world \<times> store_error option" where
  "ptr_Create env r w =
    (fst (store_Create (we_store env) (we_uuid env (w_tick w)) (we_now env (w_tick w)) (we_rnd env (w_tick w)) r (w_store w)),
     w_Create env r w)"

definition ptr_Update :: "'d world_env \<Rightarrow> resource \<Rightarrow> 'd world \<Rightarrow> resource \<times> 'd world \<times> store_error option" where
  "ptr_Update env r w =
    (fst (store_Update (we_store env) (we_now env (w_tick w)) (we_rnd env (w_tick w)) r (w_store w)),
     w_Update env r w)"

text \<open>The ends of the handlers that create, update and delete.\<close>

definition reply_Create :: "'d world_env \<Rightarrow> resource \<Rightarrow> 'd world \<Rightarrow> 'd world \<times> 'b response" where
  "reply_Create env r w =
    (case ptr_Create env r w of
       (_, w, Some e) \<Rightarrow> (w, handleError (store_api_error e))
     | (r, w, None) \<Rightarrow> (w, \<lparr>rsp_Status = 201, rsp_Body = ResourceBody r\<rparr>))"

definition reply_Update :: "'d world_env \<Rightarrow> resource \<Rightarrow> 'd world \<Rightarrow> 'd world \<times> 'b response" where
  "reply_Update env r w =
    (case ptr_Update env r w of
       (_, w, Some e) \<Rightarrow> (w, handleError (store_api_error e))
     | (r, w, None) \<Rightarrow> (w, \<lparr>rsp_Status = 200, rsp_Body = ResourceBody r\<rparr>))"

definition reply_Delete :: "'d world_env \<Rightarrow> string \<Rightarrow> string \<Rightarrow> string \<Rightarrow> 'd world \<Rightarrow> 'd world \<times> 'b response" where
  "reply_Delete env kind name namespace w =
    (case w_Delete env kind name namespace w of
       (w, Some e) \<Rightarrow> (w, handleError (store_api_error e))
     | (w, None) \<Rightarrow> (w, \<lparr>rsp_Status = 204, rsp_Body = NoBody\<rparr>))"

definition reply_Get :: "'d world_env \<Rightarrow> string \<Rightarrow> string \<Rightarrow> string \<Rightarrow> 'd world \<Rightarrow> 'b response" where
  "reply_Get env kind name namespace w =
    (case w_Get env kind name namespace w of
       Inl e \<Rightarrow> handleError (store_api_error e)
     | Inr r \<Rightarrow> \<lparr>rsp_Status = 200, rsp_Body = ResourceBody r\<rparr>)"

text \<open>The listed resources that have the Go type of their kind.\<close>

definition reply_List :: "'d world_env \<Rightarrow> string \<Rightarrow> string \<Rightarrow> 'd world \<Rightarrow> 'b response" where
  "reply_List env kind namespace w =
    \<lparr>rsp_Status = 200, rsp_Body = ResourcesBody (filter (\<lambda>r. GetKind r = kind) (w_List env kind namespace None w))\<rparr>"

section \<open>Cells\<close>

definition listCells :: "'d world_env \<Rightarrow> 'd world \<Rightarrow> 'b response" where
  "listCells env w = reply_List env ''Cell'' '''' w"

definition getCell :: "'d world_env \<Rightarrow> string \<Rightarrow> 'd world \<Rightarrow> 'b response" where
  "getCell env name w = reply_Get env ''Cell'' name '''' w"

definition createCell :: "'d world_env \<Rightarrow> string + cell \<Rightarrow> 'd world \<Rightarrow> 'd world \<times> 'b response" where
  "createCell env bind w =
    (case bind of
       Inl e \<Rightarrow> (w, bind_failed e)
     | Inr cell \<Rightarrow>
        (case validateNamespace (GetName (RCell cell)) of
           Some e \<Rightarrow> (w, bad_namespace e)
         | None \<Rightarrow> reply_Create env (RCell cell) w))"

definition updateCell :: "'d world_env \<Rightarrow> string \<Rightarrow> string + cell \<Rightarrow> 'd world \<Rightarrow> 'd world \<times> 'b response" where
  "updateCell env name bind w =
    (case bind of
       Inl e \<Rightarrow> (w, bind_failed e)
     | Inr cell \<Rightarrow>
        (if GetName (RCell cell) \<noteq> name then (w, bad_request ''name in URL does not match name in body'')
         else reply_Update env (RCell cell) w))"

definition deleteCell :: "'d world_env \<Rightarrow> string \<Rightarrow> 'd world \<Rightarrow> 'd world \<times> 'b response" where
  "deleteCell env name w = reply_Delete env ''Cell'' name '''' w"

section \<open>Agent specifications\<close>

definition listAgentSpecs :: "'d world_env \<Rightarrow> string \<Rightarrow> 'd world \<Rightarrow> 'b response" where
  "listAgentSpecs env namespace w = reply_List env ''AgentSpec'' namespace w"

definition getAgentSpec :: "'d world_env \<Rightarrow> string \<Rightarrow> string \<Rightarrow> 'd world \<Rightarrow> 'b response" where
  "getAgentSpec env namespace name w =
    (case validateNamespace namespace of
       Some e \<Rightarrow> bad_namespace e
     | None \<Rightarrow> reply_Get env ''AgentSpec'' name namespace w)"

definition createAgentSpec :: "'d world_env \<Rightarrow> string \<Rightarrow> string + agent_spec \<Rightarrow> 'd world \<Rightarrow> 'd world \<times> 'b response" where
  "createAgentSpec env namespace bind w =
    (case bind of
       Inl e \<Rightarrow> (w, bind_failed e)
     | Inr spec \<Rightarrow>
        (if rc_Command (ss_Runtime (as_Spec spec)) = [] then (w, bad_request ''spec.runtime.command is required'')
         else if ic_Type (ss_Interface (as_Spec spec)) = '''' then (w, bad_request ''spec.interface.type is required'')
         else if om_Namespace (as_Meta spec) \<noteq> '''' \<and> om_Namespace (as_Meta spec) \<noteq> namespace
         then (w, bad_request ''namespace in URL does not match namespace in body'')
         else (let spec = spec\<lparr>as_Meta := (as_Meta spec)\<lparr>om_Namespace := namespace\<rparr>\<rparr>
               in case checkResourceQuota env namespace ''AgentSpec'' w of
                    Some e \<Rightarrow> (w, errorResponse 403 ''quota_exceeded'' (QuotaMsg e))
                  | None \<Rightarrow> reply_Create env (RAgentSpec spec) w)))"

definition updateAgentSpec :: "'d world_env \<Rightarrow> string \<Rightarrow> string \<Rightarrow> string + agent_spec \<Rightarrow> 'd world \<Rightarrow>
    'd world \<times> 'b response" where
  "updateAgentSpec env namespace name bind w =
    (case validateNamespace namespace of
       Some e \<Rightarrow> (w, bad_namespace e)
     | None \<Rightarrow>
        (case bind of
           Inl e \<Rightarrow> (w, bind_failed e)
         | Inr spec \<Rightarrow>
            (case validateResourceNamespace (GetNamespace (RAgentSpec spec)) namespace of
               Some e \<Rightarrow> (w, bad_namespace e)
             | None \<Rightarrow>
                (if rc_Command (ss_Runtime (as_Spec spec)) = [] then (w, bad_request ''spec.runtime.command is required'')
                 else if ic_Type (ss_Interface (as_Spec spec)) = '''' then (w, bad_request ''spec.interface.type is required'')
                 else if GetName (RAgentSpec spec) \<noteq> name
                 then (w, bad_request ''name in URL does not match name in body'')
                 else reply_Update env (RAgentSpec spec) w))))"

definition deleteAgentSpec :: "'d world_env \<Rightarrow> string \<Rightarrow> string \<Rightarrow> 'd world \<Rightarrow> 'd world \<times> 'b response" where
  "deleteAgentSpec env namespace name w = reply_Delete env ''AgentSpec'' name namespace w"

section \<open>Hives\<close>

definition listHives :: "'d world_env \<Rightarrow> string \<Rightarrow> 'd world \<Rightarrow> 'b response" where
  "listHives env namespace w = reply_List env ''Hive'' namespace w"

definition getHive :: "'d world_env \<Rightarrow> string \<Rightarrow> string \<Rightarrow> 'd world \<Rightarrow> 'b response" where
  "getHive env namespace name w = reply_Get env ''Hive'' name namespace w"

text \<open>Here the quota is checked before the body is read.  Handlers are atomic in the model.  The
  server holds no lock between the check and the creation, so two creations at the same time
  can pass the check of one free place and exceed the limit; this is outside the model.\<close>

definition createHive :: "'d world_env \<Rightarrow> string \<Rightarrow> string + hive \<Rightarrow> 'd world \<Rightarrow> 'd world \<times> 'b response" where
  "createHive env namespace bind w =
    (case checkResourceQuota env namespace ''Hive'' w of
       Some e \<Rightarrow> (w, errorResponse 403 ''quota_exceeded'' (QuotaMsg e))
     | None \<Rightarrow>
        (case bind of
           Inl e \<Rightarrow> (w, bind_failed e)
         | Inr hive \<Rightarrow>
            (if om_Namespace (hv_Meta hive) \<noteq> '''' \<and> om_Namespace (hv_Meta hive) \<noteq> namespace
             then (w, bad_request ''namespace in URL does not match namespace in body'')
             else reply_Create env (RHive (hive\<lparr>hv_Meta := (hv_Meta hive)\<lparr>om_Namespace := namespace\<rparr>\<rparr>)) w)))"

definition updateHive :: "'d world_env \<Rightarrow> string \<Rightarrow> string \<Rightarrow> string + hive \<Rightarrow> 'd world \<Rightarrow> 'd world \<times> 'b response" where
  "updateHive env namespace name bind w =
    (case bind of
       Inl e \<Rightarrow> (w, bind_failed e)
     | Inr hive \<Rightarrow>
        (if GetName (RHive hive) \<noteq> name then (w, bad_request ''name in URL does not match name in body'')
         else if om_Namespace (hv_Meta hive) \<noteq> namespace
         then (w, bad_request ''namespace in URL does not match namespace in body'')
         else reply_Update env (RHive hive) w))"

definition deleteHive :: "'d world_env \<Rightarrow> string \<Rightarrow> string \<Rightarrow> 'd world \<Rightarrow> 'd world \<times> 'b response" where
  "deleteHive env namespace name w = reply_Delete env ''Hive'' name namespace w"

section \<open>Secrets\<close>

definition listSecrets :: "'d world_env \<Rightarrow> string \<Rightarrow> 'd world \<Rightarrow> 'b response" where
  "listSecrets env namespace w = reply_List env ''Secret'' namespace w"

definition getSecret :: "'d world_env \<Rightarrow> string \<Rightarrow> string \<Rightarrow> 'd world \<Rightarrow> 'b response" where
  "getSecret env namespace name w = reply_Get env ''Secret'' name namespace w"

definition createSecret :: "'d world_env \<Rightarrow> string \<Rightarrow> string + secret \<Rightarrow> 'd world \<Rightarrow> 'd world \<times> 'b response" where
  "createSecret env namespace bind w =
    (case validateNamespace namespace of
       Some e \<Rightarrow> (w, bad_namespace e)
     | None \<Rightarrow>
        (case bind of
           Inl e \<Rightarrow> (w, bind_failed e)
         | Inr secret \<Rightarrow>
            (if om_Namespace (sec_Meta secret) \<noteq> '''' \<and> om_Namespace (sec_Meta secret) \<noteq> namespace
             then (w, bad_request ''namespace in URL does not match namespace in body'')
             else (let secret = secret\<lparr>sec_Meta := (sec_Meta secret)\<lparr>om_Namespace := namespace\<rparr>\<rparr>
                   in if sec_Data secret = [] then (w, bad_request ''secret data cannot be empty'')
                      else case validateResourceNamespace (om_Namespace (sec_Meta secret)) namespace of
                             Some e \<Rightarrow> (w, errorResponse 400 ''namespace_mismatch'' (NamespaceMsg e))
                           | None \<Rightarrow> reply_Create env (RSecret secret) w))))"

definition updateSecret :: "'d world_env \<Rightarrow> string \<Rightarrow> string \<Rightarrow> string + secret \<Rightarrow> 'd world \<Rightarrow> 'd world \<times> 'b response" where
  "updateSecret env namespace name bind w =
    (case validateNamespace namespace of
       Some e \<Rightarrow> (w, bad_namespace e)
     | None \<Rightarrow>
        (case bind of
           Inl e \<Rightarrow> (w, bind_failed e)
         | Inr secret \<Rightarrow>
            (if GetName (RSecret secret) \<noteq> name then (w, bad_request ''name in URL does not match name in body'')
             else if om_Namespace (sec_Meta secret) \<noteq> namespace
             then (w, bad_request ''namespace in URL does not match namespace in body'')
             else if sec_Data secret = [] then (w, bad_request ''secret data cannot be empty'')
             else case validateResourceNamespace (om_Namespace (sec_Meta secret)) namespace of
                    Some e \<Rightarrow> (w, errorResponse 400 ''namespace_mismatch'' (NamespaceMsg e))
                  | None \<Rightarrow> reply_Update env (RSecret secret) w)))"

definition deleteSecret :: "'d world_env \<Rightarrow> string \<Rightarrow> string \<Rightarrow> 'd world \<Rightarrow> 'd world \<times> 'b response" where
  "deleteSecret env namespace name w =
    (case validateNamespace namespace of
       Some e \<Rightarrow> (w, bad_namespace e)
     | None \<Rightarrow> reply_Delete env ''Secret'' name namespace w)"

section \<open>Drones\<close>

definition listDrones :: "'d world_env \<Rightarrow> string \<Rightarrow> 'd world \<Rightarrow> 'b response" where
  "listDrones env namespace w = reply_List env ''Drone'' namespace w"

definition getDrone :: "'d world_env \<Rightarrow> string \<Rightarrow> string \<Rightarrow> 'd world \<Rightarrow> 'b response" where
  "getDrone env namespace i w = reply_Get env ''Drone'' i namespace w"

definition deleteDrone_api :: "'d world_env \<Rightarrow> string \<Rightarrow> string \<Rightarrow> 'd world \<Rightarrow> 'd world \<times> 'b response" where
  "deleteDrone_api env namespace i w = reply_Delete env ''Drone'' i namespace w"

section \<open>Quota\<close>

text \<open>Every error of \<open>getQuotaUsage\<close> wraps another or is new, so \<open>handleError\<close> answers 500.\<close>

definition getQuotaUsageHandler :: "'d world_env \<Rightarrow> string \<Rightarrow> 'd world \<Rightarrow> 'b response" where
  "getQuotaUsageHandler env namespace w =
    (case validateNamespace namespace of
       Some e \<Rightarrow> bad_namespace e
     | None \<Rightarrow>
        (case getQuotaUsage env namespace w of
           Inl _ \<Rightarrow> handleError ApiOther
         | Inr usage \<Rightarrow> \<lparr>rsp_Status = 200, rsp_Body = UsageBody usage\<rparr>))"


section \<open>Where the handlers write\<close>

lemma keeps_reply_Create [keeps_intros]:
  assumes "world_ok env" "plain (GetName r)" "namespace_ok ns" "GetNamespace r = ns"
  shows "keeps env ns w (fst (reply_Create env r w))"
  using keeps_Create [OF assms(1,2), of w] assms(3,4)
  by (auto simp: reply_Create_def ptr_Create_def split: prod.splits option.splits)

lemma keeps_reply_Update [keeps_intros]:
  assumes "world_ok env" "plain (GetName r)" "namespace_ok ns" "GetNamespace r = ns"
  shows "keeps env ns w (fst (reply_Update env r w))"
  using keeps_Update [OF assms(1,2), of w] assms(3,4)
  by (auto simp: reply_Update_def ptr_Update_def split: prod.splits option.splits)

lemma keeps_reply_Delete [keeps_intros]:
  assumes "world_ok env" "plain k" "plain n" "namespace_ok ns"
  shows "keeps env ns w (fst (reply_Delete env k n ns w))"
  using keeps_Delete [OF assms(1-3) namespace_ok_plain [OF assms(4)], of w] by (auto simp: reply_Delete_def split: prod.splits option.splits)

text \<open>The namespaces the API accepts are lower-case.\<close>

lemma valid_namespace_ok:
  assumes "validateNamespace ns = None"
  shows "namespace_ok ns"
proof -
  have "namespaceRegex ns" using assms by (simp add: validateNamespace_def split: if_splits)
  then have "ns_alnum (hd ns)" by (simp add: namespaceRegex_def)
  moreover have "\<not> ns_alnum CHR ''A''" "\<not> ns_alnum CHR ''D''" "\<not> ns_alnum CHR ''H''" "\<not> ns_alnum CHR ''C''"
      "\<not> ns_alnum CHR ''S''"
    by (simp_all add: ns_alnum_def)
  ultimately have "hd ns \<notin> {CHR ''A'', CHR ''D'', CHR ''H'', CHR ''C'', CHR ''S''}"
    by (intro notI) (elim insertE emptyE; metis)
  then have "ns \<notin> {''AgentSpec'', ''Drone'', ''Hive'', ''Cell'', ''Session'', ''Secret''}" by force
  then show ?thesis using validNamespace_chars [OF assms] by (simp add: namespace_ok_def plain_def)
qed

text \<open>The name in a decoded body.\<close>

definition plain_body :: "('a \<Rightarrow> resource) \<Rightarrow> string + 'a \<Rightarrow> bool" where
  "plain_body res bind \<longleftrightarrow> (case bind of Inl _ \<Rightarrow> True | Inr b \<Rightarrow> plain (GetName (res b)))"

lemmas names = GetName_def GetNamespace_def

lemma keeps_createCell [keeps_intros]:
  assumes "world_ok env" "plain_body RCell bind"
  shows "keeps env '''' w (fst (createCell env bind w))"
  using assms by (auto simp: createCell_def plain_body_def names split: sum.split option.split
    intro!: keeps_reply_Create)

lemma keeps_updateCell [keeps_intros]:
  assumes "world_ok env" "plain_body RCell bind"
  shows "keeps env '''' w (fst (updateCell env name bind w))"
  using assms by (auto simp: updateCell_def plain_body_def names split: sum.split option.split
    intro!: keeps_reply_Update)

lemma keeps_deletes [keeps_intros]:
  assumes "world_ok env" "plain n"
  shows "keeps env '''' w (fst (deleteCell env n w))"
    and "namespace_ok ns \<Longrightarrow> keeps env ns w (fst (deleteAgentSpec env ns n w))"
    and "namespace_ok ns \<Longrightarrow> keeps env ns w (fst (deleteHive env ns n w))"
    and "namespace_ok ns \<Longrightarrow> keeps env ns w (fst (deleteSecret env ns n w))"
    and "namespace_ok ns \<Longrightarrow> keeps env ns w (fst (deleteDrone_api env ns n w))"
  using assms by (auto simp: deleteCell_def deleteAgentSpec_def deleteHive_def deleteSecret_def deleteDrone_api_def
    plain_def split: option.split intro!: keeps_reply_Delete)

lemma keeps_createAgentSpec [keeps_intros]:
  assumes "world_ok env" "namespace_ok ns" "plain_body RAgentSpec bind"
  shows "keeps env ns w (fst (createAgentSpec env ns bind w))"
  using assms by (auto simp: createAgentSpec_def plain_body_def names Let_def split: sum.split option.split
    intro!: keeps_reply_Create)

lemma keeps_updateAgentSpec [keeps_intros]:
  assumes "world_ok env" "namespace_ok ns" "plain_body RAgentSpec bind"
  shows "keeps env ns w (fst (updateAgentSpec env ns name bind w))"
  using assms by (auto simp: updateAgentSpec_def plain_body_def names validateResourceNamespace_def
    split: sum.split option.split intro!: keeps_reply_Update)

lemma keeps_createHive [keeps_intros]:
  assumes "world_ok env" "namespace_ok ns" "plain_body RHive bind"
  shows "keeps env ns w (fst (createHive env ns bind w))"
  using assms by (auto simp: createHive_def plain_body_def names split: sum.split option.split
    intro!: keeps_reply_Create)

lemma keeps_updateHive [keeps_intros]:
  assumes "world_ok env" "namespace_ok ns" "plain_body RHive bind"
  shows "keeps env ns w (fst (updateHive env ns name bind w))"
  using assms by (auto simp: updateHive_def plain_body_def names split: sum.split option.split
    intro!: keeps_reply_Update)

lemma keeps_createSecret [keeps_intros]:
  assumes "world_ok env" "namespace_ok ns" "plain_body RSecret bind"
  shows "keeps env ns w (fst (createSecret env ns bind w))"
  using assms by (auto simp: createSecret_def plain_body_def names Let_def split: sum.split option.split
    intro!: keeps_reply_Create)

lemma keeps_updateSecret [keeps_intros]:
  assumes "world_ok env" "namespace_ok ns" "plain_body RSecret bind"
  shows "keeps env ns w (fst (updateSecret env ns name bind w))"
  using assms by (auto simp: updateSecret_def plain_body_def names split: sum.split option.split
    intro!: keeps_reply_Update)


section \<open>What a successful answer means\<close>

lemma success_codes [simp]:
  "\<not> success (errorResponse 400 e m)" "\<not> success (errorResponse 403 e m)" "\<not> success (errorResponse 404 e m)"
  "\<not> success (errorResponse 409 e m)" "\<not> success (errorResponse 500 e m)" "\<not> success (errorResponse 501 e m)"
  "\<not> success (errorResponse 502 e m)" "\<not> success (handleError x)"
  "\<not> success (bad_request t)" "\<not> success (bind_failed t)" "\<not> success (bad_namespace ne)"
  "200 \<le> c \<Longrightarrow> c < 300 \<Longrightarrow> success \<lparr>rsp_Status = c, rsp_Body = b\<rparr>"
  by (cases x; simp add: success_def errorResponse_def bad_request_def bind_failed_def bad_namespace_def)+

text \<open>An operation that is refused leaves every resource as it was.\<close>

lemma reply_Create_refused: "\<not> success (snd (reply_Create env r w)) \<Longrightarrow> w_Get env k n m (fst (reply_Create env r w)) = w_Get env k n m w"
  using ws.create_fail [of env r w] by (auto simp: reply_Create_def ptr_Create_def split: prod.splits option.splits)

lemma reply_Update_refused: "\<not> success (snd (reply_Update env r w)) \<Longrightarrow> w_Get env k n m (fst (reply_Update env r w)) = w_Get env k n m w"
  using ws.upd_fail [of env r w] by (auto simp: reply_Update_def ptr_Update_def split: prod.splits option.splits)

lemma reply_Delete_refused:
  "\<not> success (snd (reply_Delete env k' n' m' w)) \<Longrightarrow> w_Get env k n m (fst (reply_Delete env k' n' m' w)) = w_Get env k n m w"
  using ws.del_fail [of env k' n' m' w] by (auto simp: reply_Delete_def split: prod.splits option.splits)

lemma reply_Create_success:
  assumes "world_ok env" "plain (GetName r)" "plain (GetNamespace r)" "reply_Create env r w = (w', rsp)" "success rsp"
  shows "w_Get env (GetKind r) (GetName r) (GetNamespace r) w = Inl ErrNotFound \<and>
    (\<exists>u. w_Get env (GetKind r) (GetName r) (GetNamespace r) w' = Inr (ensureUID u r)) \<and> rsp_Status rsp = 201 \<and>
    w_Create env r w = (w', None)"
proof -
  have c: "w_Create env r w = (w', None) \<and> rsp_Status rsp = 201"
    using assms(4,5) by (auto simp: reply_Create_def ptr_Create_def split: prod.splits option.splits)
  then show ?thesis using ws.create_effect [OF assms(1-3), of w w'] assms(2,3) by (auto simp: resource_key_def)
qed

lemma reply_Update_success:
  assumes "world_ok env" "plain (GetName r)" "plain (GetNamespace r)" "reply_Update env r w = (w', rsp)" "success rsp"
  shows "w_Get env (GetKind r) (GetName r) (GetNamespace r) w \<noteq> Inl ErrNotFound \<and>
    w_Get env (GetKind r) (GetName r) (GetNamespace r) w' = Inr r \<and> rsp_Status rsp = 200"
proof -
  have c: "w_Update env r w = (w', None) \<and> rsp_Status rsp = 200"
    using assms(4,5) by (auto simp: reply_Update_def ptr_Update_def split: prod.splits option.splits)
  then show ?thesis using ws.upd_effect [OF assms(1-3), of w w'] assms(2,3) by (auto simp: resource_key_def)
qed

lemma reply_Delete_success:
  assumes "world_ok env" "plain k" "plain n" "plain m" "reply_Delete env k n m w = (w', rsp)" "success rsp"
  shows "w_Get env k n m w \<noteq> Inl ErrNotFound \<and> w_Get env k n m w' = Inl ErrNotFound \<and> rsp_Status rsp = 204"
proof -
  have c: "w_Delete env k n m w = (w', None) \<and> rsp_Status rsp = 204"
    using assms(5,6) by (auto simp: reply_Delete_def split: prod.splits option.splits)
  then show ?thesis using ws.del_effect [OF assms(1-4), of w w'] assms(2-4) by auto
qed

text \<open>A new secret is answered with its encrypted data; reading it gives the data back.\<close>

lemma createSecret_success:
  assumes "world_ok env" "plain_body RSecret (Inr sec)" "createSecret env ns (Inr sec) w = (w', rsp)" "success rsp"
  shows "\<exists>u s. ensureUID u (RSecret (sec\<lparr>sec_Meta := (sec_Meta sec)\<lparr>om_Namespace := ns\<rparr>\<rparr>)) = RSecret s \<and>
    getSecret env ns (om_Name (sec_Meta sec)) w' = \<lparr>rsp_Status = 200, rsp_Body = ResourceBody (RSecret s)\<rparr> \<and>
    sec_Data s = sec_Data sec"
proof -
  let ?r = "RSecret (sec\<lparr>sec_Meta := (sec_Meta sec)\<lparr>om_Namespace := ns\<rparr>\<rparr>)"
  have v: "validateNamespace ns = None" and r: "reply_Create env ?r w = (w', rsp)"
    using assms(3,4) by (auto simp: createSecret_def Let_def split: option.splits if_splits)
  have p: "namespace_ok ns" by (rule valid_namespace_ok [OF v])
  have "\<exists>u. w_Get env ''Secret'' (om_Name (sec_Meta sec)) ns w' = Inr (ensureUID u ?r)"
    using reply_Create_success [OF assms(1) _ _ r assms(4)] assms(2) p by (simp add: plain_body_def names)
  then show ?thesis by (auto simp: getSecret_def reply_Get_def ensureUID_def)
qed

text \<open>A hive is created only below the limit of its cell, so the limit holds afterwards.\<close>

lemma createHive_success:
  assumes "world_ok env" "namespace_ok ns" "plain_body RHive bind" "createHive env ns bind w = (w', rsp)" "success rsp"
  shows "\<exists>hive u. bind = Inr hive \<and> checkResourceQuota env ns ''Hive'' w = None \<and>
    w_Create env (RHive (hive\<lparr>hv_Meta := (hv_Meta hive)\<lparr>om_Namespace := ns\<rparr>\<rparr>)) w = (w', None) \<and>
    w_Get env ''Hive'' (om_Name (hv_Meta hive)) ns w = Inl ErrNotFound \<and>
    w_Get env ''Hive'' (om_Name (hv_Meta hive)) ns w' =
      Inr (ensureUID u (RHive (hive\<lparr>hv_Meta := (hv_Meta hive)\<lparr>om_Namespace := ns\<rparr>\<rparr>)))"
proof -
  obtain hive where b: "bind = Inr hive" and q: "checkResourceQuota env ns ''Hive'' w = None"
      and r: "reply_Create env (RHive (hive\<lparr>hv_Meta := (hv_Meta hive)\<lparr>om_Namespace := ns\<rparr>\<rparr>)) w = (w', rsp)"
    using assms(4,5) by (auto simp: createHive_def split: option.splits sum.splits if_splits)
  show ?thesis using reply_Create_success [OF assms(1) _ _ r assms(5)] b q assms(2,3)
    by (auto simp: plain_body_def names)
qed

lemma createHive_length:
  assumes "world_ok env" "namespace_ok ns" "plain_body RHive bind" "createHive env ns bind w = (w', rsp)" "success rsp"
  shows "length (w_List env ''Hive'' ns None w') = Suc (length (w_List env ''Hive'' ns None w))"
proof -
  obtain hive where "bind = Inr hive" and
      c: "w_Create env (RHive (hive\<lparr>hv_Meta := (hv_Meta hive)\<lparr>om_Namespace := ns\<rparr>\<rparr>)) w = (w', None)"
    using createHive_success [OF assms] by blast
  then show ?thesis using create_length [OF assms(1) _ _ c] assms(2,3) by (simp add: plain_body_def names)
qed


end
