(* ===== verification/API_Operations.thy ===== *)
theory API_Operations
  imports API_Resources
begin

text \<open>
  \<open>internal/api/server.go\<close>, the operations on existing resources: scaling, draining, and the
  logs and commands that are passed on to the keeper of a drone.

  The keeper's HTTP interface is a parameter.  The annotation with the time of a drain request is the
  formatted clock reading, an argument.  Between two ticks of the drain loop the other
  parts of the platform act on the world: the loop takes what they do as a list of functions,
  one for every tick before its context ends.
\<close>

section \<open>Scaling\<close>

definition set_replicas :: "int \<Rightarrow> agent_spec \<Rightarrow> agent_spec" where
  "set_replicas n spec =
    spec\<lparr>as_Spec := (as_Spec spec)\<lparr>ss_Scaling := (ss_Scaling (as_Spec spec))\<lparr>sc_MinReplicas := n, sc_MaxReplicas := n\<rparr>\<rparr>\<rparr>"

definition cast_failed :: "string \<Rightarrow> 'b response" where
  "cast_failed kind = errorResponse 500 ''internal_error'' (Text (''failed to cast resource to '' @ kind))"

definition scaleAgentSpec :: "'d world_env \<Rightarrow> string \<Rightarrow> string \<Rightarrow> string + int \<Rightarrow> 'd world \<Rightarrow> 'd world \<times> 'b response" where
  "scaleAgentSpec env namespace name bind w =
    (case w_Get env ''AgentSpec'' name namespace w of
       Inl e \<Rightarrow> (w, handleError (store_api_error e))
     | Inr (RAgentSpec spec) \<Rightarrow>
        (case bind of
           Inl e \<Rightarrow> (w, bind_failed e)
         | Inr replicas \<Rightarrow>
            (let s = ss_Scaling (as_Spec spec)
             in if sc_MinReplicas s > 0 \<and> replicas < sc_MinReplicas s
                then (w, bad_request (''replicas ('' @ int_str replicas @ '') must be >= minReplicas ('' @
                  int_str (sc_MinReplicas s) @ '')''))
                else if sc_MaxReplicas s > 0 \<and> replicas > sc_MaxReplicas s
                then (w, bad_request (''replicas ('' @ int_str replicas @ '') must be <= maxReplicas ('' @
                  int_str (sc_MaxReplicas s) @ '')''))
                else case w_Update env (RAgentSpec (set_replicas replicas spec)) w of
                       (w, Some e) \<Rightarrow> (w, handleError (store_api_error e))
                     | (w, None) \<Rightarrow>
                        (w, \<lparr>rsp_Status = 200, rsp_Body =
                           ScaledBody (''AgentSpec '' @ name @ '' scaled to '' @ int_str replicas @ '' replicas'') replicas\<rparr>)))
     | Inr _ \<Rightarrow> (w, cast_failed ''AgentSpec''))"

text \<open>The loop over the stages that stops at the first of the name; \<open>None\<close> when there is none.\<close>

fun scale_stage :: "string \<Rightarrow> int \<Rightarrow> stage list \<Rightarrow> stage list option" where
  "scale_stage n k [] = None"
| "scale_stage n k (st # sts) =
    (if st_Name st = n then Some (st\<lparr>st_Replicas := k\<rparr> # sts)
     else map_option (\<lambda>sts. st # sts) (scale_stage n k sts))"

definition scaleHive :: "'d world_env \<Rightarrow> string \<Rightarrow> string \<Rightarrow> string + (string \<times> int) \<Rightarrow> 'd world \<Rightarrow>
    'd world \<times> 'b response" where
  "scaleHive env namespace name bind w =
    (case w_Get env ''Hive'' name namespace w of
       Inl e \<Rightarrow> (w, handleError (store_api_error e))
     | Inr (RHive hive) \<Rightarrow>
        (case bind of
           Inl e \<Rightarrow> (w, bind_failed e)
         | Inr (stage, replicas) \<Rightarrow>
            (if replicas < 0 then (w, bad_request ''replicas must be >= 0'')
             else
              (let stages = hi_Stages (hv_Spec hive)
               in case (if stage \<noteq> '''' then scale_stage stage replicas stages
                        else Some (map (\<lambda>st. st\<lparr>st_Replicas := replicas\<rparr>) stages)) of
                    None \<Rightarrow> (w, errorResponse 404 ''not_found'' (Text (''stage '' @ stage @ '' not found'')))
                  | Some stages \<Rightarrow>
                     (case w_Update env (RHive (hive\<lparr>hv_Spec := (hv_Spec hive)\<lparr>hi_Stages := stages\<rparr>\<rparr>)) w of
                        (w, Some e) \<Rightarrow> (w, handleError (store_api_error e))
                      | (w, None) \<Rightarrow>
                         (w, \<lparr>rsp_Status = 200, rsp_Body = ScaledBody
                            (if stage \<noteq> ''''
                             then ''Hive '' @ name @ '' stage '' @ stage @ '' scaled to '' @ int_str replicas @ '' replicas''
                             else ''Hive '' @ name @ '' scaled to '' @ int_str replicas @ '' replicas'') replicas\<rparr>)))))
     | Inr _ \<Rightarrow> (w, cast_failed ''Hive''))"

section \<open>Draining\<close>

record drain_request =
  dq_Force :: bool
  dq_Timeout :: string

text \<open>A body that cannot be decoded is replaced by the defaults.\<close>

definition drain_bind :: "string + drain_request \<Rightarrow> drain_request" where
  "drain_bind bind = (case bind of Inl _ \<Rightarrow> \<lparr>dq_Force = False, dq_Timeout = ''30s''\<rparr> | Inr rq \<Rightarrow> rq)"

definition mark_draining :: "string \<Rightarrow> drone \<Rightarrow> drone" where
  "mark_draining now d =
    d\<lparr>dr_Meta := (dr_Meta d)\<lparr>om_Annotations :=
        AList.update ''drain-requested-at'' now (AList.update ''draining'' ''true'' (om_Annotations (dr_Meta d)))\<rparr>,
      dr_Status := (dr_Status d)\<lparr>dst_Phase := DronePhaseStopping\<rparr>\<rparr>"

definition drain_delete :: "'d world_env \<Rightarrow> string \<Rightarrow> string \<Rightarrow> string \<Rightarrow> 'd world \<Rightarrow> 'd world \<times> 'b response" where
  "drain_delete env i namespace msg w =
    (case w_Delete env ''Drone'' i namespace w of
       (w, Some e) \<Rightarrow> (w, handleError (store_api_error e))
     | (w, None) \<Rightarrow> (w, \<lparr>rsp_Status = 200, rsp_Body = MessageBody msg\<rparr>))"

text \<open>The polling loop: at each tick what the others have done, then the check of the drone; the
  empty list is the end of the context.\<close>

fun drain_loop :: "'d world_env \<Rightarrow> string \<Rightarrow> string \<Rightarrow> ('d world \<Rightarrow> 'd world) list \<Rightarrow> 'd world \<Rightarrow>
    'd world \<times> 'b response" where
  "drain_loop env i namespace [] w =
    drain_delete env i namespace (''Drone '' @ i @ '' drained (timeout reached) and deleted'') w"
| "drain_loop env i namespace (act # acts) w =
    (let w = act w
     in case w_Get env ''Drone'' i namespace w of
          Inl _ \<Rightarrow> (w, \<lparr>rsp_Status = 200, rsp_Body = MessageBody (''Drone '' @ i @ '' drained and deleted'')\<rparr>)
        | Inr (RDrone d) \<Rightarrow>
           (if dst_Phase (dr_Status d) = DronePhaseStopped \<or> dst_Phase (dr_Status d) = DronePhaseFailed
            then drain_delete env i namespace (''Drone '' @ i @ '' gracefully drained and deleted'') w
            else drain_loop env i namespace acts w)
        | Inr _ \<Rightarrow> (w, cast_failed ''Drone''))"

text \<open>\<open>parseDuration\<close> is \<open>time.ParseDuration\<close>; \<open>acts\<close> gives, for a timeout, what happens before the
  ticks within it.\<close>

definition drainDrone :: "(string \<Rightarrow> duration option) \<Rightarrow> (duration \<Rightarrow> ('d world \<Rightarrow> 'd world) list) \<Rightarrow> 'd world_env \<Rightarrow>
    string \<Rightarrow> string \<Rightarrow> string + drain_request \<Rightarrow> string \<Rightarrow> 'd world \<Rightarrow> 'd world \<times> 'b response" where
  "drainDrone parseDuration acts env namespace i bind now w =
    (case w_Get env ''Drone'' i namespace w of
       Inl e \<Rightarrow> (w, handleError (store_api_error e))
     | Inr (RDrone d) \<Rightarrow>
        (let rq = drain_bind bind
         in case (if dq_Timeout rq \<noteq> '''' then parseDuration (dq_Timeout rq) else Some (30 * second)) of
              None \<Rightarrow> (w, bad_request ''invalid timeout format'')
            | Some timeout \<Rightarrow>
               (case w_Update env (RDrone (mark_draining now d)) w of
                  (w, Some e) \<Rightarrow> (w, handleError (store_api_error e))
                | (w, None) \<Rightarrow>
                   (if dq_Force rq
                    then drain_delete env i namespace (''Drone '' @ i @ '' force drained and deleted'') w
                    else drain_loop env i namespace (acts timeout) w)))
     | Inr _ \<Rightarrow> (w, cast_failed ''Drone''))"

text \<open>The loop of \<open>drainAgentSpec\<close>; \<open>errs\<close> are the drones that could not be marked or deleted.\<close>

fun drain_all :: "'d world_env \<Rightarrow> string \<Rightarrow> bool \<Rightarrow> (nat \<Rightarrow> string) \<Rightarrow> resource list \<Rightarrow> nat \<Rightarrow>
    drain_error list \<Rightarrow> 'd world \<Rightarrow> 'd world \<times> nat \<times> drain_error list" where
  "drain_all env namespace force now [] drained errs w = (w, drained, errs)"
| "drain_all env namespace force now (r # rs) drained errs w =
    (case r of
       RDrone d \<Rightarrow>
         (case w_Update env (RDrone (mark_draining (now 0) d)) w of
            (w, Some e) \<Rightarrow> drain_all env namespace force (\<lambda>k. now (Suc k)) rs drained (errs @ [MarkFailed (GetName r) e]) w
          | (w, None) \<Rightarrow>
             (if force
              then (case w_Delete env ''Drone'' (GetName r) namespace w of
                      (w, Some e) \<Rightarrow> drain_all env namespace force (\<lambda>k. now (Suc k)) rs drained (errs @ [DeleteFailed (GetName r) e]) w
                    | (w, None) \<Rightarrow> drain_all env namespace force (\<lambda>k. now (Suc k)) rs (Suc drained) errs w)
              else drain_all env namespace force (\<lambda>k. now (Suc k)) rs (Suc drained) errs w))
     | _ \<Rightarrow> drain_all env namespace force now rs drained errs w)"

definition drainAgentSpec :: "'d world_env \<Rightarrow> string \<Rightarrow> string \<Rightarrow> string + drain_request \<Rightarrow> (nat \<Rightarrow> string) \<Rightarrow>
    'd world \<Rightarrow> 'd world \<times> 'b response" where
  "drainAgentSpec env namespace name bind now w =
    (case w_Get env ''AgentSpec'' name namespace w of
       Inl e \<Rightarrow> (w, handleError (store_api_error e))
     | Inr _ \<Rightarrow>
        (let rq = drain_bind bind;
             drones = w_List env ''Drone'' namespace (Some [(''agentspec'', name)]) w;
             (w, drained, errs) = drain_all env namespace (dq_Force rq) now drones 0 [] w
         in (w, \<lparr>rsp_Status = 200, rsp_Body = DrainedBody
             (''Drained '' @ nat_str drained @ '' Drone(s) for AgentSpec '' @ name @
              (if errs \<noteq> [] then '' ('' @ nat_str (length errs) @ '' errors)'' else '''')) drained errs\<rparr>)))"

section \<open>Requests passed on to the keeper\<close>

definition bad_gateway :: "string \<Rightarrow> 'b response" where
  "bad_gateway msg = errorResponse 502 ''bad_gateway'' (Text msg)"

fun join_amp :: "string list \<Rightarrow> string" where
  "join_amp [] = ''''"
| "join_amp [p] = p"
| "join_amp (p # ps) = p @ ''&'' @ join_amp ps"

definition logs_url :: "string \<Rightarrow> string \<Rightarrow> string \<Rightarrow> string" where
  "logs_url keeperAddr tail since =
    (let params = (if tail \<noteq> '''' then [''tail='' @ tail] else []) @ (if since \<noteq> '''' then [''since='' @ since] else [])
     in ''http://'' @ keeperAddr @ ''/logs'' @ (if params \<noteq> [] then ''?'' @ join_amp params else ''''))"

text \<open>\<open>fetch\<close> is the request to the keeper: an error, or the status and the body.  \<open>mkreq\<close> says whether
  the URL can be parsed.\<close>

definition getDroneLogs :: "(string \<Rightarrow> bool) \<Rightarrow> (string \<Rightarrow> string + (int \<times> string)) \<Rightarrow> 'd world_env \<Rightarrow>
    string \<Rightarrow> string \<Rightarrow> string \<Rightarrow> string \<Rightarrow> string \<Rightarrow> 'd world \<Rightarrow> 'b response" where
  "getDroneLogs mkreq fetch env namespace i tail since follow w =
    (case w_Get env ''Drone'' i namespace w of
       Inl e \<Rightarrow> handleError (store_api_error e)
     | Inr (RDrone d) \<Rightarrow>
        (let keeperAddr = dst_KeeperAddr (dr_Status d)
         in if keeperAddr = '''' then errorResponse 404 ''not_found'' (Text ''Keeper address not found for drone'')
            else if follow = ''true''
            then errorResponse 501 ''not_implemented''
              (Text ''Streaming logs not yet implemented. Use Keeper address directly for now.'')
            else if \<not> mkreq (logs_url keeperAddr tail since)
            then errorResponse 500 ''internal_error'' (Text ''failed to create request'')
            else case fetch (logs_url keeperAddr tail since) of
                   Inl e \<Rightarrow> bad_gateway (''failed to fetch logs from Keeper: '' @ e)
                 | Inr (status, text) \<Rightarrow>
                    (if status \<noteq> 200 then bad_gateway (''Keeper returned status '' @ int_str status @ '': '' @ text)
                     else \<lparr>rsp_Status = 200, rsp_Body = StreamBody None text\<rparr>))
     | Inr _ \<Rightarrow> cast_failed ''Drone'')"

record exec_request =
  xr_Command :: "string list"
  xr_Stdin :: bool
  xr_TTY :: bool

text \<open>With \<open>stdin\<close> the body sent to the keeper is the request's own, which \<open>Bind\<close> has read to its end.\<close>

datatype exec_body = JsonBody exec_request | ConsumedBody

definition execDrone :: "(string \<Rightarrow> bool) \<Rightarrow> (string \<Rightarrow> exec_body \<Rightarrow> string + (int \<times> string \<times> string)) \<Rightarrow> 'd world_env \<Rightarrow>
    string \<Rightarrow> string \<Rightarrow> string + exec_request \<Rightarrow> 'd world \<Rightarrow> 'b response" where
  "execDrone mkreq post env namespace i bind w =
    (case w_Get env ''Drone'' i namespace w of
       Inl e \<Rightarrow> handleError (store_api_error e)
     | Inr (RDrone d) \<Rightarrow>
        (let keeperAddr = dst_KeeperAddr (dr_Status d)
         in if keeperAddr = '''' then errorResponse 404 ''not_found'' (Text ''Keeper address not found for drone'')
            else case bind of
              Inl e \<Rightarrow> bind_failed e
            | Inr rq \<Rightarrow>
               (if xr_Command rq = [] then bad_request ''command is required''
                else
                 (let execURL = ''http://'' @ keeperAddr @ ''/exec''
                  in if \<not> mkreq execURL then errorResponse 500 ''internal_error'' (Text ''failed to create request'')
                     else case post execURL (if xr_Stdin rq then ConsumedBody else JsonBody rq) of
                            Inl e \<Rightarrow> bad_gateway (''failed to execute command in Keeper: '' @ e)
                          | Inr (status, exitCode, text) \<Rightarrow>
                             \<lparr>rsp_Status = status,
                              rsp_Body = StreamBody (if exitCode \<noteq> '''' then Some exitCode else None) text\<rparr>)))
     | Inr _ \<Rightarrow> cast_failed ''Drone'')"

section \<open>Where the operations write\<close>

lemma typed_key:
  assumes "world_ok env" "world_typed env w" "plain k" "plain n" "plain m" "w_Get env k n m w = Inr r"
  shows "GetName r = n" "GetNamespace r = m" "GetKind r = k"
  using typed_Get [OF assms] by (simp_all add: resource_key_def)

lemma set_replicas_meta [simp]: "as_Meta (set_replicas n spec) = as_Meta spec"
  by (simp add: set_replicas_def)

lemma mark_draining_key [simp]:
  "GetName (RDrone (mark_draining now d)) = GetName (RDrone d)"
  "GetNamespace (RDrone (mark_draining now d)) = GetNamespace (RDrone d)"
  by (simp_all add: mark_draining_def names)

lemma keeps_scaleAgentSpec [keeps_intros]:
  assumes "world_ok env" "namespace_ok ns" "plain name"
  shows "keeps env ns w (fst (scaleAgentSpec env ns name bind w))"
proof (rule keeps_when_typed)
  assume t: "world_typed env w"
  have "keeps env ns w w1" if "w_Get env ''AgentSpec'' name ns w = Inr (RAgentSpec spec)"
      "w_Update env (RAgentSpec (set_replicas n spec)) w = (w1, e)" for spec n w1 e
  proof -
    have "GetName (RAgentSpec spec) = name" "GetNamespace (RAgentSpec spec) = ns"
      using typed_key [OF assms(1) t _ assms(3) namespace_ok_plain [OF assms(2)] that(1)] by simp_all
    then show ?thesis using keeps_Update [OF assms(1) _ _ that(2)] assms(2,3) by (simp add: names)
  qed
  then show "keeps env ns w (fst (scaleAgentSpec env ns name bind w))"
    by (auto simp: scaleAgentSpec_def Let_def split: sum.split resource.split prod.split option.split)
qed

lemma keeps_scaleHive [keeps_intros]:
  assumes "world_ok env" "namespace_ok ns" "plain name"
  shows "keeps env ns w (fst (scaleHive env ns name bind w))"
proof (rule keeps_when_typed)
  assume t: "world_typed env w"
  have "keeps env ns w w1" if "w_Get env ''Hive'' name ns w = Inr (RHive hive)"
      "w_Update env (RHive (hive\<lparr>hv_Spec := s\<rparr>)) w = (w1, e)" for hive s w1 e
  proof -
    have "GetName (RHive hive) = name" "GetNamespace (RHive hive) = ns"
      using typed_key [OF assms(1) t _ assms(3) namespace_ok_plain [OF assms(2)] that(1)] by simp_all
    then show ?thesis using keeps_Update [OF assms(1) _ _ that(2)] assms(2,3) by (simp add: names)
  qed
  then show "keeps env ns w (fst (scaleHive env ns name bind w))"
    by (auto simp: scaleHive_def Let_def split: sum.split resource.split prod.split option.split)
qed

lemma keeps_drain_delete [keeps_intros]:
  assumes "world_ok env" "namespace_ok ns" "plain i"
  shows "keeps env ns w (fst (drain_delete env i ns msg w))"
  using keeps_Delete [OF assms(1) _ assms(3) namespace_ok_plain [OF assms(2)], of "''Drone''" w]
  by (auto simp: drain_delete_def split: prod.split option.split)

text \<open>The drain is confined if what happens meanwhile is.\<close>

lemma keeps_drain_loop:
  assumes "world_ok env" "namespace_ok ns" "plain i" "\<forall>f \<in> set acts. \<forall>w. keeps env ns w (f w)"
  shows "keeps env ns w (fst (drain_loop env i ns acts w))"
  using assms(4)
proof (induction acts arbitrary: w)
  case Nil
  then show ?case using assms(1-3) by (simp add: keeps_drain_delete)
next
  case (Cons f acts)
  have f: "keeps env ns w (f w)" using Cons.prems by simp
  note k = keeps_trans [OF f Cons.IH] keeps_trans [OF f keeps_drain_delete [OF assms(1-3)]]
  show ?case using f k Cons.prems by (auto simp: Let_def split: sum.split resource.split)
qed

lemma keeps_drainDrone:
  fixes env :: "'a world_env"
  assumes "world_ok env" "namespace_ok ns" "plain i" "\<forall>t. \<forall>f \<in> set (acts t). \<forall>w. keeps env ns w (f w)"
  shows "keeps env ns w (fst (drainDrone pd acts env ns i bind now w))"
proof (rule keeps_when_typed)
  assume t: "world_typed env w"
  have u: "keeps env ns w w1" if "w_Get env ''Drone'' i ns w = Inr (RDrone d)"
      "w_Update env (RDrone (mark_draining now d)) w = (w1, e)" for d w1 e
  proof -
    have "GetName (RDrone d) = i" "GetNamespace (RDrone d) = ns"
      using typed_key [OF assms(1) t _ assms(3) namespace_ok_plain [OF assms(2)] that(1)] by simp_all
    then show ?thesis using keeps_Update [OF assms(1) _ _ that(2)] assms(2,3) by simp
  qed
  note m = keeps_trans [OF u keeps_drain_delete [OF assms(1-3)]] keeps_trans [OF u keeps_drain_loop [OF assms(1-3) spec [OF assms(4)]]]
  show "keeps env ns w (fst (drainDrone pd acts env ns i bind now w))"
    by (auto simp: drainDrone_def Let_def split: sum.split resource.split prod.split option.split intro: u m)
qed

lemma keeps_drain_all:
  assumes "world_ok env" "namespace_ok ns" "\<And>r. r \<in> set rs \<Longrightarrow> plain (GetName r) \<and> GetNamespace r = ns"
  shows "keeps env ns w (fst (drain_all env ns force now rs n errs w))"
  using assms(3)
proof (induction rs arbitrary: now n errs w)
  case Nil
  then show ?case by simp
next
  case (Cons r rs)
  have IH: "keeps env ns w1 (fst (drain_all env ns force now' rs n' errs' w1))" for now' n' errs' w1
    by (rule Cons.IH) (use Cons.prems in simp)
  show ?case
  proof (cases r)
    case (RDrone d)
    have key: "plain (GetName r)" "GetNamespace (RDrone d) = ns" using Cons.prems [of r] RDrone by simp_all
    obtain w1 e where u: "w_Update env (RDrone (mark_draining (now 0) d)) w = (w1, e)" by fastforce
    have k1: "keeps env ns w w1" using keeps_Update [OF assms(1) _ _ u] key RDrone assms(2) by simp
    obtain w2 e2 where d: "w_Delete env ''Drone'' (GetName r) ns w1 = (w2, e2)" by fastforce
    have k2: "keeps env ns w1 w2" using keeps_Delete [OF assms(1) _ key(1) namespace_ok_plain [OF assms(2)] d] by simp
    note k = keeps_trans [OF k1 IH] keeps_trans [OF keeps_trans [OF k1 k2] IH]
    show ?thesis using k u d RDrone by (auto split: option.split)
  qed (use IH in simp_all)
qed

lemma keeps_drainAgentSpec [keeps_intros]:
  assumes "world_ok env" "namespace_ok ns"
  shows "keeps env ns w (fst (drainAgentSpec env ns name bind now w))"
proof (rule keeps_when_typed)
  assume t: "world_typed env w"
  have "plain (GetName r) \<and> GetNamespace r = ns" if "r \<in> set (w_List env ''Drone'' ns sel w)" for r sel
    using typed_List [OF assms(1) t namespace_ok_plain [OF assms(2)] that] by (simp add: resource_key_def)
  then have "keeps env ns w (fst (drain_all env ns force now (w_List env ''Drone'' ns sel w) n errs w))" for force sel n errs
    by (intro keeps_drain_all [OF assms(1,2)])
  then show "keeps env ns w (fst (drainAgentSpec env ns name bind now w))"
    by (auto simp: drainAgentSpec_def Let_def split: sum.split prod.split) (metis fst_conv)
qed

section \<open>What they achieve\<close>

lemma drain_delete_gone:
  assumes "world_ok env" "namespace_ok ns" "plain i" "drain_delete env i ns msg w = (w', rsp)" "success rsp"
  shows "w_Get env ''Drone'' i ns w' = Inl ErrNotFound"
proof -
  have "w_Delete env ''Drone'' i ns w = (w', None)"
    using assms(4,5) by (auto simp: drain_delete_def split: prod.splits option.splits)
  then show ?thesis using ws.del_effect [OF assms(1) _ assms(3) namespace_ok_plain [OF assms(2)], of "''Drone''" w w'] assms(2,3) by simp
qed

lemma drain_loop_gone:
  assumes "world_ok env" "namespace_ok ns" "plain i" "drain_loop env i ns acts w = (w', rsp)" "success rsp"
  shows "\<exists>e. w_Get env ''Drone'' i ns w' = Inl e"
  using assms(4)
proof (induction acts arbitrary: w)
  case Nil
  then show ?case using drain_delete_gone [OF assms(1-3) _ assms(5)] by auto
next
  case (Cons f acts)
  show ?case
  proof (cases "w_Get env ''Drone'' i ns (f w)")
    case (Inl e)
    then show ?thesis using Cons.prems by auto
  next
    case (Inr r)
    show ?thesis
    proof (cases r)
      case (RDrone d)
      then show ?thesis using Cons Inr drain_delete_gone [OF assms(1-3) _ assms(5)]
        by (auto simp: Let_def split: if_splits)
    qed (use Cons.prems Inr assms(5) in \<open>auto simp: cast_failed_def\<close>)
  qed
qed

lemma drain_all_accounts:
  "drain_all env ns force now rs n errs w = (w', n', errs') \<Longrightarrow>
    n' + length errs' = n + length errs + length (filter (\<lambda>r. GetKind r = ''Drone'') rs)"
proof (induction rs arbitrary: now n errs w)
  case Nil
  then show ?case by simp
next
  case (Cons r rs)
  then show ?case
    by (cases r) (auto split: prod.splits option.splits if_splits dest!: Cons.IH)
qed

text \<open>After a scaling to a positive number the bounds are that number.\<close>

lemma scaleAgentSpec_success:
  assumes "world_ok env" "world_typed env w" "namespace_ok ns" "plain name"
    and "scaleAgentSpec env ns name bind w = (w', rsp)" "success rsp"
  shows "\<exists>spec n. bind = Inr n \<and> w_Get env ''AgentSpec'' name ns w = Inr (RAgentSpec spec) \<and>
    w_Get env ''AgentSpec'' name ns w' = Inr (RAgentSpec (set_replicas n spec))"
proof -
  obtain spec n where g: "w_Get env ''AgentSpec'' name ns w = Inr (RAgentSpec spec)" "bind = Inr n"
      "w_Update env (RAgentSpec (set_replicas n spec)) w = (w', None)"
    using assms(5,6)
    by (auto simp: scaleAgentSpec_def cast_failed_def Let_def split: sum.splits resource.splits prod.splits option.splits if_splits)
  have key: "GetName (RAgentSpec spec) = name" "GetNamespace (RAgentSpec spec) = ns"
    using typed_key [OF assms(1,2) _ assms(4) namespace_ok_plain [OF assms(3)] g(1)] by simp_all
  then show ?thesis using ws.upd_effect [OF assms(1) _ _ g(3)] assms(3,4) g(1,2)
    by (auto simp: names resource_key_def)
qed

lemma scale_stage_Some: "scale_stage n k sts = Some sts' \<Longrightarrow>
    \<exists>ys st zs. sts = ys @ st # zs \<and> st_Name st = n \<and> (\<forall>y \<in> set ys. st_Name y \<noteq> n) \<and>
      sts' = ys @ st\<lparr>st_Replicas := k\<rparr> # zs"
proof (induction sts arbitrary: sts')
  case Nil
  then show ?case by simp
next
  case (Cons st sts)
  show ?case
  proof (cases "st_Name st = n")
    case True
    then show ?thesis using Cons.prems by (intro exI [of _ "[]"]) auto
  next
    case False
    then obtain t where t: "scale_stage n k sts = Some t" "sts' = st # t" using Cons.prems by auto
    from Cons.IH [OF t(1)] obtain ys x zs where
      "sts = ys @ x # zs \<and> st_Name x = n \<and> (\<forall>y \<in> set ys. st_Name y \<noteq> n) \<and> t = ys @ x\<lparr>st_Replicas := k\<rparr> # zs" by blast
    then show ?thesis using False t(2) by (intro exI [of _ "st # ys"]) auto
  qed
qed


end
