(* ===== verification/API_Sessions.thy ===== *)
theory API_Sessions
  imports API_Operations Session_Manager Comb_Structured Metrics
begin

text \<open>
  \<open>internal/api/server.go\<close>, sessions, dead letter queue and probes, with \<open>rbac_handlers.go\<close> and
  \<open>metrics.go\<close>.  The session memory is optional in the server; when there is one it is the
  store of \<open>Comb\<close>, so the type assertions succeed.

  A handler that calls the session memory takes, for the \<open>i\<close>-th call, the values of
  \<open>ctx.Err()\<close> and of the clock at the successive checks and readings of that call.
\<close>

section \<open>Sessions\<close>

datatype extra =
    SessionBody session
  | MemoryBody "string list" "(string \<times> string) list"
  | SentBody string
  | DLQListBody "dlq_message list"
  | DLQBody dlq_message
  | ReplayBody dlq_message
  | RolesBody "(string \<times> role) list"
  | NamespaceMetricsBody string "(string \<times> ((int \<times> int \<times> int) option \<times> int option \<times> int option)) list"
  | MetricsBody string string int int rat "(int \<times> int \<times> int \<times> int) option"
  | StatusBody string

type_synonym answer = "extra response"

record 'd session_api =
  sa_table :: session_table
  sa_comb :: "comb_store option"
  sa_world :: "'d world"

definition listSessions :: "'d world_env \<Rightarrow> string \<Rightarrow> 'd world \<Rightarrow> answer" where
  "listSessions env namespace w = reply_List env ''Session'' namespace w"

definition getSession_api :: "'d world_env \<Rightarrow> string \<Rightarrow> string \<Rightarrow> 'd world \<Rightarrow> answer" where
  "getSession_api env namespace i w = reply_Get env ''Session'' i namespace w"

definition namespacedSessionID :: "string \<Rightarrow> string \<Rightarrow> string" where
  "namespacedSessionID namespace sessionID = namespace @ '':'' @ sessionID"

text \<open>The decoded body has no namespace and no hive: those come from the path.  The session manager
  wraps the error of the store, so that the handler knows none of them and answers 500.\<close>

definition createSession_api :: "'d world_env \<Rightarrow> string \<Rightarrow> string \<Rightarrow> string + session_request \<Rightarrow> 'd session_api \<Rightarrow>
    'd session_api \<times> answer" where
  "createSession_api env namespace hiveName bind st =
    (case w_Get env ''Hive'' hiveName namespace (sa_world st) of
       Inl e \<Rightarrow> (st, handleError (store_api_error e))
     | Inr _ \<Rightarrow>
        (case bind of
           Inl e \<Rightarrow> (st, bind_failed e)
         | Inr req \<Rightarrow>
            (case CreateSession env (req\<lparr>sq_Namespace := namespace, sq_HiveName := hiveName\<rparr>) (sa_table st) (sa_world st) of
               (m, w, Inl _) \<Rightarrow> (st\<lparr>sa_table := m, sa_world := w\<rparr>, handleError ApiOther)
             | (m, w, Inr s) \<Rightarrow>
                (let comb = (if sq_MaxMemoryMB req > 0
                       then map_option (comb_SetMemoryLimit (namespacedSessionID namespace (om_UID (se_Meta s)))
                              (sq_MaxMemoryMB req)) (sa_comb st)
                       else sa_comb st)
                 in (\<lparr>sa_table = m, sa_comb = comb, sa_world = w\<rparr>,
                     \<lparr>rsp_Status = 201, rsp_Body = OtherBody (SessionBody s)\<rparr>)))))"

text \<open>What the handlers of one session begin with: the namespace is valid, the session exists and is
  of the namespace.\<close>

definition find_owned :: "'d world_env \<Rightarrow> string \<Rightarrow> string \<Rightarrow> 'd session_api \<Rightarrow> 'd session_api \<times> (answer + session)" where
  "find_owned env namespace i st =
    (case validateNamespace namespace of
       Some e \<Rightarrow> (st, Inl (bad_namespace e))
     | None \<Rightarrow>
        (let (m, r) = GetSession env i (sa_table st) (sa_world st); st = st\<lparr>sa_table := m\<rparr>
         in case r of
              Inl e \<Rightarrow> (st, Inl (handleError (store_api_error e)))
            | Inr s \<Rightarrow>
               (case validateResourceNamespace (GetNamespace (RSession s)) namespace of
                  Some _ \<Rightarrow> (st, Inl (errorResponse 403 ''namespace_mismatch''
                     (Text (''session namespace ('' @ GetNamespace (RSession s) @
                       '') does not match URL namespace ('' @ namespace @ '')''))))
                | None \<Rightarrow> (st, Inr s))))"

record message_request =
  mq_Type :: string
  mq_Content :: string
  mq_AgentID :: string

definition request_message :: "'j \<Rightarrow> message_request \<Rightarrow> 'j conversation_message" where
  "request_message nil req =
    \<lparr>cm_ID = '''', cm_Timestamp = zero_time, cm_AgentID = mq_AgentID req, cm_Type = mq_Type req,
     cm_Content = mq_Content req, cm_Metadata = nil\<rparr>"

text \<open>The message is recorded under the session's identifier, without the namespace.\<close>

definition sendMessage :: "'j conversation_message marshal \<Rightarrow> 'j conversation_message unmarshal \<Rightarrow> 'j \<Rightarrow>
    'd world_env \<Rightarrow> (nat \<Rightarrow> ctx_error option) \<Rightarrow> (nat \<Rightarrow> time) \<Rightarrow> time \<Rightarrow> string \<Rightarrow> string \<Rightarrow> string + message_request \<Rightarrow>
    'd session_api \<Rightarrow> 'd session_api \<times> answer" where
  "sendMessage enc dec nil env ctx now clock namespace sessionID bind st =
    (case find_owned env namespace sessionID st of
       (st, Inl rsp) \<Rightarrow> (st, rsp)
     | (st, Inr sess) \<Rightarrow>
        (if sst_Phase (se_Status sess) = SessionPhaseTerminated
         then (st, errorResponse 400 ''session_terminated'' (Text ''Session is terminated''))
         else case bind of
           Inl e \<Rightarrow> (st, bind_failed e)
         | Inr req \<Rightarrow>
            (case UpdateActivity env sessionID (sa_table st) (sa_world st) of
               (m, w, Some e) \<Rightarrow> (st\<lparr>sa_table := m, sa_world := w\<rparr>, handleError (store_api_error e))
             | (m, w, None) \<Rightarrow>
                (\<lparr>sa_table = m,
                  sa_comb = map_option (\<lambda>c. fst (comb_AppendConversation enc dec ctx now sessionID (request_message nil req) c))
                    (sa_comb st),
                  sa_world = w\<rparr>,
                 \<lparr>rsp_Status = 200, rsp_Body = OtherBody (SentBody (''msg-'' @ int_str clock))\<rparr>))))"

text \<open>The loop that reads the keys found; a key that cannot be read is left out of the memory.\<close>

fun read_keys :: "(nat \<Rightarrow> ctx_error option) \<Rightarrow> (nat \<Rightarrow> time) \<Rightarrow> string \<Rightarrow> string list \<Rightarrow> (string \<times> string) list \<Rightarrow>
    comb_store \<Rightarrow> comb_store \<times> (string \<times> string) list" where
  "read_keys ctx now sid [] memory c = (c, memory)"
| "read_keys ctx now sid (key # keys) memory c =
    (case comb_Get (ctx 0) (now 0) sid key c of
       (c, Inl _) \<Rightarrow> read_keys (\<lambda>i. ctx (Suc i)) (\<lambda>i. now (Suc i)) sid keys memory c
     | (c, Inr v) \<Rightarrow> read_keys (\<lambda>i. ctx (Suc i)) (\<lambda>i. now (Suc i)) sid keys (AList.update key v memory) c)"

definition session_snapshot :: "ctx_error option \<Rightarrow> (nat \<Rightarrow> ctx_error option) \<Rightarrow> time \<Rightarrow> (nat \<Rightarrow> ctx_error option) \<Rightarrow>
    (nat \<Rightarrow> time) \<Rightarrow> string \<Rightarrow> comb_store \<Rightarrow> comb_store \<times> answer" where
  "session_snapshot kctx kctxs know ctx now sid c =
    (case comb_Keys kctx kctxs know sid ''*'' c of
       Inl _ \<Rightarrow> (c, handleError ApiOther)
     | Inr keys \<Rightarrow>
        (let (c, memory) = read_keys ctx now sid keys [] c
         in (c, \<lparr>rsp_Status = 200, rsp_Body = OtherBody (MemoryBody keys memory)\<rparr>)))"

definition getSessionMemory :: "'d world_env \<Rightarrow> ctx_error option \<Rightarrow> (nat \<Rightarrow> ctx_error option) \<Rightarrow> time \<Rightarrow>
    (nat \<Rightarrow> ctx_error option) \<Rightarrow> (nat \<Rightarrow> time) \<Rightarrow> string \<Rightarrow> string \<Rightarrow> 'd session_api \<Rightarrow> 'd session_api \<times> answer" where
  "getSessionMemory env kctx kctxs know ctx now namespace sessionID st =
    (case find_owned env namespace sessionID st of
       (st, Inl rsp) \<Rightarrow> (st, rsp)
     | (st, Inr _) \<Rightarrow>
        (case sa_comb st of
           None \<Rightarrow> (st, \<lparr>rsp_Status = 200, rsp_Body = OtherBody (MemoryBody [] [])\<rparr>)
         | Some c \<Rightarrow>
            (let (c, rsp) = session_snapshot kctx kctxs know ctx now (namespacedSessionID namespace sessionID) c
             in (st\<lparr>sa_comb := Some c\<rparr>, rsp))))"

definition deleteSession_api :: "'d world_env \<Rightarrow> ctx_error option \<Rightarrow> (nat \<Rightarrow> ctx_error option) \<Rightarrow> string \<Rightarrow> string \<Rightarrow>
    'd session_api \<Rightarrow> 'd session_api \<times> answer" where
  "deleteSession_api env ctx ctxs namespace sessionID st =
    (case find_owned env namespace sessionID st of
       (st, Inl rsp) \<Rightarrow> (st, rsp)
     | (st, Inr _) \<Rightarrow>
        (case TerminateSession env sessionID (sa_table st) (sa_world st) of
           (m, w, Some e) \<Rightarrow> (st\<lparr>sa_table := m, sa_world := w\<rparr>, handleError (store_api_error e))
         | (m, w, None) \<Rightarrow>
            (\<lparr>sa_table = m,
              sa_comb = map_option (\<lambda>c. fst (comb_Clear ctx ctxs (namespacedSessionID namespace sessionID) c)) (sa_comb st),
              sa_world = w\<rparr>,
             \<lparr>rsp_Status = 204, rsp_Body = NoBody\<rparr>)))"

section \<open>Dead letter queue\<close>

text \<open>What its handlers begin with: the namespace is valid, there is a queue manager, the hive exists.\<close>

definition with_dlq :: "'d world_env \<Rightarrow> string \<Rightarrow> string \<Rightarrow> dlq_manager option \<Rightarrow> 'd world \<Rightarrow> answer + dlq_manager" where
  "with_dlq env namespace hiveName dlqMgr w =
    (case validateNamespace namespace of
       Some e \<Rightarrow> Inl (bad_namespace e)
     | None \<Rightarrow>
        (case dlqMgr of
           None \<Rightarrow> Inl (errorResponse 503 ''service_unavailable'' (Text ''DLQ service is not available''))
         | Some m \<Rightarrow>
            (case w_Get env ''Hive'' hiveName namespace w of
               Inl e \<Rightarrow> Inl (handleError (store_api_error e))
             | Inr _ \<Rightarrow> Inr m)))"

text \<open>Both errors of the manager have the texts that the handlers compare with.\<close>

definition dlq_not_found :: "dlq_error \<Rightarrow> answer" where
  "dlq_not_found e = errorResponse 404 ''not_found'' (DLQMsg e)"

definition listDLQMessages :: "'d world_env \<Rightarrow> string \<Rightarrow> string \<Rightarrow> dlq_manager option \<Rightarrow> 'd world \<Rightarrow> answer" where
  "listDLQMessages env namespace hiveName dlqMgr w =
    (case with_dlq env namespace hiveName dlqMgr w of
       Inl rsp \<Rightarrow> rsp
     | Inr m \<Rightarrow> \<lparr>rsp_Status = 200, rsp_Body = OtherBody (DLQListBody (dlq_ListMessages namespace hiveName m))\<rparr>)"

definition getDLQMessage :: "'d world_env \<Rightarrow> string \<Rightarrow> string \<Rightarrow> string \<Rightarrow> dlq_manager option \<Rightarrow> 'd world \<Rightarrow> answer" where
  "getDLQMessage env namespace hiveName messageID dlqMgr w =
    (case with_dlq env namespace hiveName dlqMgr w of
       Inl rsp \<Rightarrow> rsp
     | Inr m \<Rightarrow>
        (case dlq_GetMessage namespace hiveName messageID m of
           Inl e \<Rightarrow> dlq_not_found e
         | Inr msg \<Rightarrow> \<lparr>rsp_Status = 200, rsp_Body = OtherBody (DLQBody msg)\<rparr>))"

definition replayDLQMessage :: "'d world_env \<Rightarrow> string \<Rightarrow> string \<Rightarrow> string \<Rightarrow> dlq_manager option \<Rightarrow> 'd world \<Rightarrow> answer" where
  "replayDLQMessage env namespace hiveName messageID dlqMgr w =
    (case with_dlq env namespace hiveName dlqMgr w of
       Inl rsp \<Rightarrow> rsp
     | Inr m \<Rightarrow>
        (case dlq_GetMessage namespace hiveName messageID m of
           Inl e \<Rightarrow> dlq_not_found e
         | Inr msg \<Rightarrow> \<lparr>rsp_Status = 200, rsp_Body = OtherBody (ReplayBody msg)\<rparr>))"

definition deleteDLQMessage :: "'d world_env \<Rightarrow> string \<Rightarrow> string \<Rightarrow> string \<Rightarrow> dlq_manager option \<Rightarrow> 'd world \<Rightarrow>
    dlq_manager option \<times> answer" where
  "deleteDLQMessage env namespace hiveName messageID dlqMgr w =
    (case with_dlq env namespace hiveName dlqMgr w of
       Inl rsp \<Rightarrow> (dlqMgr, rsp)
     | Inr m \<Rightarrow>
        (case dlq_DeleteMessage namespace hiveName messageID m of
           (m, Some e) \<Rightarrow> (Some m, dlq_not_found e)
         | (m, None) \<Rightarrow> (Some m, \<lparr>rsp_Status = 204, rsp_Body = NoBody\<rparr>)))"

definition clearDLQ :: "'d world_env \<Rightarrow> string \<Rightarrow> string \<Rightarrow> dlq_manager option \<Rightarrow> 'd world \<Rightarrow>
    dlq_manager option \<times> answer" where
  "clearDLQ env namespace hiveName dlqMgr w =
    (case with_dlq env namespace hiveName dlqMgr w of
       Inl rsp \<Rightarrow> (dlqMgr, rsp)
     | Inr m \<Rightarrow> (Some (dlq_ClearMessages namespace hiveName m), \<lparr>rsp_Status = 204, rsp_Body = NoBody\<rparr>))"

section \<open>Roles\<close>

definition with_rbac :: "string \<Rightarrow> rbac option \<Rightarrow> answer + rbac" where
  "with_rbac namespace r =
    (case validateNamespace namespace of
       Some e \<Rightarrow> Inl (bad_namespace e)
     | None \<Rightarrow>
        (case r of
           None \<Rightarrow> Inl (errorResponse 501 ''rbac_not_enabled'' (Text ''RBAC is not enabled''))
         | Some r \<Rightarrow> Inr r))"

definition assignRoleHandler :: "string \<Rightarrow> string + (string \<times> role) \<Rightarrow> rbac option \<Rightarrow> rbac option \<times> answer" where
  "assignRoleHandler namespace bind rb =
    (case with_rbac namespace rb of
       Inl rsp \<Rightarrow> (rb, rsp)
     | Inr r \<Rightarrow>
        (case bind of
           Inl e \<Rightarrow> (rb, bind_failed e)
         | Inr (userID, role) \<Rightarrow>
            (case AssignRole namespace userID role r of
               (r, Some e) \<Rightarrow> (Some r, errorResponse 400 ''invalid_request'' (RoleMsg e))
             | (r, None) \<Rightarrow> (Some r, \<lparr>rsp_Status = 201, rsp_Body = NoBody\<rparr>))))"

definition listRolesHandler :: "string \<Rightarrow> rbac option \<Rightarrow> answer" where
  "listRolesHandler namespace rb =
    (case with_rbac namespace rb of
       Inl rsp \<Rightarrow> rsp
     | Inr r \<Rightarrow> \<lparr>rsp_Status = 200, rsp_Body = OtherBody (RolesBody (ListCellRoles namespace r))\<rparr>)"

definition removeRoleHandler :: "string \<Rightarrow> string \<Rightarrow> rbac option \<Rightarrow> rbac option \<times> answer" where
  "removeRoleHandler namespace userID rb =
    (case with_rbac namespace rb of
       Inl rsp \<Rightarrow> (rb, rsp)
     | Inr r \<Rightarrow> (Some (RemoveRole namespace userID r), \<lparr>rsp_Status = 204, rsp_Body = NoBody\<rparr>))"

section \<open>Metrics and probes\<close>

definition not_collected :: answer where
  "not_collected = errorResponse 501 ''not_implemented'' (Text ''Metrics collection not enabled'')"

definition latency_ms :: "latency_stats \<Rightarrow> int \<times> int \<times> int" where
  "latency_ms l = (go_div (ls_P50 l) millisecond, go_div (ls_P95 l) millisecond, go_div (ls_P99 l) millisecond)"

text \<open>The loop over the agent specifications of a namespace; \<open>now\<close> gives the clock at each access.\<close>

fun namespace_metrics :: "(nat \<Rightarrow> time) \<Rightarrow> string \<Rightarrow> resource list \<Rightarrow>
    (string \<times> ((int \<times> int \<times> int) option \<times> int option \<times> int option)) list \<Rightarrow> collector \<Rightarrow>
    collector \<times> (string \<times> ((int \<times> int \<times> int) option \<times> int option \<times> int option)) list" where
  "namespace_metrics now namespace [] acc c = (c, acc)"
| "namespace_metrics now namespace (r # rs) acc c =
    (case r of
       RAgentSpec spec \<Rightarrow>
         (let agentspec = GetName r;
              (c, latency) = GetLatencyStats (now 0) namespace agentspec c;
              (c, tokens) = GetTokenUsage (now 1) namespace agentspec c;
              (c, depth) = GetQueueDepth (now 2) namespace agentspec c
          in namespace_metrics (\<lambda>i. now (i + 3)) namespace rs
               (AList.update agentspec (map_option latency_ms latency, tokens, depth) acc) c)
     | _ \<Rightarrow> namespace_metrics now namespace rs acc c)"

definition getNamespaceMetrics :: "'d world_env \<Rightarrow> (nat \<Rightarrow> time) \<Rightarrow> string \<Rightarrow> collector option \<Rightarrow> 'd world \<Rightarrow>
    collector option \<times> answer" where
  "getNamespaceMetrics env now namespace metrics w =
    (case metrics of
       None \<Rightarrow> (None, not_collected)
     | Some c \<Rightarrow>
        (let (c, ms) = namespace_metrics now namespace (w_List env ''AgentSpec'' namespace None w) [] c
         in (Some c, \<lparr>rsp_Status = 200, rsp_Body = OtherBody (NamespaceMetricsBody namespace ms)\<rparr>)))"

definition getAgentSpecMetrics :: "(nat \<Rightarrow> time) \<Rightarrow> string \<Rightarrow> string \<Rightarrow> collector option \<Rightarrow> collector option \<times> answer" where
  "getAgentSpecMetrics now namespace agentspec metrics =
    (case metrics of
       None \<Rightarrow> (None, not_collected)
     | Some c \<Rightarrow>
        (let (c, latency) = GetLatencyStats (now 0) namespace agentspec c;
             (c, tokens) = GetTokenUsage (now 1) namespace agentspec c;
             (c, depth) = GetQueueDepth (now 2) namespace agentspec c;
             (c, rate) = GetRequestRate (now 3) namespace agentspec c
         in (Some c, \<lparr>rsp_Status = 200, rsp_Body = OtherBody
              (MetricsBody namespace agentspec
                 (case tokens of None \<Rightarrow> 0 | Some t \<Rightarrow> t) (case depth of None \<Rightarrow> 0 | Some d \<Rightarrow> d)
                 (case rate of None \<Rightarrow> 0 | Some q \<Rightarrow> q)
                 (map_option (\<lambda>l. let (p50, p95, p99) = latency_ms l in (p50, p95, p99, ls_Count l)) latency))\<rparr>)))"

definition healthz :: answer where
  "healthz = \<lparr>rsp_Status = 200, rsp_Body = OtherBody (StatusBody ''ok'')\<rparr>"

text \<open>The store is asked for a list, which does not fail.\<close>

definition ready :: "'d world_env \<Rightarrow> 'd world \<Rightarrow> answer" where
  "ready env w = (let _ = w_List env ''Cell'' '''' None w in \<lparr>rsp_Status = 200, rsp_Body = OtherBody (StatusBody ''ready'')\<rparr>)"

section \<open>Messages and the memory of a session\<close>

text \<open>Appending to a conversation changes the data of its session only.\<close>

lemma comb_Get_other: "sid' \<noteq> sid \<Longrightarrow> map_of (cs_data (fst (comb_Get ctx now sid key c))) sid' = map_of (cs_data c) sid'"
  by (auto simp: comb_Get_def comb_drop_def split: option.split sum.split)

lemma comb_Set_other:
  "sid' \<noteq> sid \<Longrightarrow> map_of (cs_data (fst (comb_Set ctx1 ctx2 now sid key v ttl c))) sid' = map_of (cs_data c) sid'"
  by (auto simp: comb_Set_def comb_init_session_def Let_def split: option.split)

lemma comb_AppendConversation_other:
  "sid' \<noteq> sid \<Longrightarrow>
    map_of (cs_data (fst (comb_AppendConversation enc dec ctx now sid msg c))) sid' = map_of (cs_data c) sid'"
  using comb_Get_other [of sid' sid "ctx 0" "now 0" "conversationKey sid" c]
  by (auto simp: comb_AppendConversation_def Let_def comb_Set_other split: prod.splits option.splits)
    (metis comb_Set_other fst_conv)+

text \<open>What a snapshot answers depends on the data of its session only.\<close>

lemma comb_Keys_cong:
  "map_of (cs_data c) sid = map_of (cs_data c') sid \<Longrightarrow> comb_Keys kctx kctxs know sid p c = comb_Keys kctx kctxs know sid p c'"
  by (auto simp: comb_Keys_def split: option.split)

lemma comb_Get_cong:
  assumes "map_of (cs_data c) sid = map_of (cs_data c') sid"
  shows "snd (comb_Get ctx now sid key c) = snd (comb_Get ctx now sid key c') \<and>
    map_of (cs_data (fst (comb_Get ctx now sid key c))) sid = map_of (cs_data (fst (comb_Get ctx now sid key c'))) sid"
  using assms by (auto simp: comb_Get_def comb_read_def comb_drop_def Let_def split: option.splits)

lemma read_keys_cong:
  "map_of (cs_data c) sid = map_of (cs_data c') sid \<Longrightarrow>
    snd (read_keys ctx now sid keys memory c) = snd (read_keys ctx now sid keys memory c')"
proof (induction keys arbitrary: ctx now memory c c')
  case Nil
  then show ?case by simp
next
  case (Cons key keys)
  obtain d r where g: "comb_Get (ctx 0) (now 0) sid key c = (d, r)" by fastforce
  obtain d' r' where g': "comb_Get (ctx 0) (now 0) sid key c' = (d', r')" by fastforce
  have r: "r = r'" and d: "map_of (cs_data d) sid = map_of (cs_data d') sid"
    using comb_Get_cong [OF Cons.prems, of "ctx 0" "now 0" key] g g' by simp_all
  show ?case
    by (cases r') (simp_all only: read_keys.simps g g' r prod.case sum.case Cons.IH [OF d])
qed

lemma session_snapshot_cong:
  assumes "map_of (cs_data c) sid = map_of (cs_data c') sid"
  shows "snd (session_snapshot kctx kctxs know ctx now sid c) = snd (session_snapshot kctx kctxs know ctx now sid c')"
proof (cases "comb_Keys kctx kctxs know sid ''*'' c'")
  case (Inl e)
  then show ?thesis using comb_Keys_cong [OF assms, of kctx kctxs know "''*''"] by (simp add: session_snapshot_def)
next
  case (Inr keys)
  have "snd (read_keys ctx now sid keys [] c) = snd (read_keys ctx now sid keys [] c')" by (rule read_keys_cong [OF assms])
  then show ?thesis using Inr comb_Keys_cong [OF assms, of kctx kctxs know "''*''"]
    by (simp add: session_snapshot_def Let_def case_prod_beta)
qed

lemma find_owned_comb:
  "find_owned env ns i (st\<lparr>sa_comb := c\<rparr>) = (let (st', r) = find_owned env ns i st in (st'\<lparr>sa_comb := c\<rparr>, r))"
  by (auto simp: find_owned_def Let_def split: option.split prod.split sum.split)

lemma find_owned_keeps: "find_owned env ns i st = (st', r) \<Longrightarrow> sa_comb st' = sa_comb st \<and> sa_world st' = sa_world st"
  by (auto simp: find_owned_def Let_def split: option.splits prod.splits sum.splits)

lemma getSessionMemory_cong:
  assumes "sa_comb st = Some c" and "map_of (cs_data c) (namespacedSessionID ns i) = map_of (cs_data c') (namespacedSessionID ns i)"
  shows "snd (getSessionMemory env kctx kctxs know ctx now ns i (st\<lparr>sa_comb := Some c'\<rparr>)) =
    snd (getSessionMemory env kctx kctxs know ctx now ns i st)"
proof -
  obtain st' r where f: "find_owned env ns i st = (st', r)" by fastforce
  have c: "sa_comb st' = Some c" using find_owned_keeps [OF f] assms(1) by simp
  have "snd (session_snapshot kctx kctxs know ctx now (namespacedSessionID ns i) c) =
      snd (session_snapshot kctx kctxs know ctx now (namespacedSessionID ns i) c')" by (rule session_snapshot_cong [OF assms(2)])
  then show ?thesis using f c
    by (cases r) (simp_all add: getSessionMemory_def find_owned_comb Let_def case_prod_beta)
qed


section \<open>Where the session handlers write\<close>

definition table_plain :: "session_table \<Rightarrow> bool" where
  "table_plain m \<longleftrightarrow> (\<forall>i e. map_of m i = Some e \<longrightarrow> plain (om_Name (se_Meta (en_Session e))))"

text \<open>Identifiers of the platform (UUIDs) have none of the characters of the keys.\<close>

definition uuids_plain :: "'d world_env \<Rightarrow> bool" where
  "uuids_plain env \<longleftrightarrow> (\<forall>i. plain (we_uuid env i))"

definition sessions_keep :: "'d world_env \<Rightarrow> string \<Rightarrow> 'd session_api \<Rightarrow> 'd session_api \<Rightarrow> bool" where
  "sessions_keep env ns st st' \<longleftrightarrow>
    (table_plain (sa_table st) \<longrightarrow> world_typed env (sa_world st) \<longrightarrow>
      table_plain (sa_table st') \<and> keeps env ns (sa_world st) (sa_world st'))"

lemma sessions_keepI:
  "(table_plain (sa_table st) \<Longrightarrow> world_typed env (sa_world st) \<Longrightarrow>
      table_plain (sa_table st') \<and> keeps env ns (sa_world st) (sa_world st')) \<Longrightarrow> sessions_keep env ns st st'"
  by (simp add: sessions_keep_def)

lemma table_plain_update: "table_plain m \<Longrightarrow> plain (om_Name (se_Meta (en_Session e))) \<Longrightarrow> table_plain (AList.update i e m)"
  by (simp add: table_plain_def)

lemma table_plain_delete: "table_plain m \<Longrightarrow> table_plain (AList.delete i m)"
  by (simp add: table_plain_def)

lemma GetSession_ok:
  assumes "world_ok env" "world_typed env w" "table_plain m" "GetSession env i m w = (m', r)"
  shows "table_plain m' \<and> (\<forall>s. r = Inr s \<longrightarrow> plain (om_Name (se_Meta s)) \<and> (\<exists>e. map_of m' i = Some e \<and> en_Session e = s))"
proof (cases "map_of m i")
  case None
  show ?thesis
  proof (cases "find_session i (w_List env ''Session'' '''' None w)")
    case None
    then show ?thesis using assms(3,4) \<open>map_of m i = None\<close> by (auto simp: GetSession_def)
  next
    case (Some s)
    then have "RSession s \<in> set (w_List env ''Session'' '''' None w)" using find_session_Some by blast
    then have "plain (om_Name (se_Meta s))" using typed_List [OF assms(1,2) plain_names(1)] by (force simp: names)
    then show ?thesis using assms(3,4) \<open>map_of m i = None\<close> Some
      by (auto simp: GetSession_def intro: table_plain_update)
  qed
next
  case (Some e)
  then show ?thesis using assms(3,4) by (auto simp: GetSession_def table_plain_def)
qed

lemma find_owned_ok:
  assumes "world_ok env" "world_typed env (sa_world st)" "table_plain (sa_table st)" "find_owned env ns i st = (st', r)"
  shows "table_plain (sa_table st') \<and> sa_world st' = sa_world st \<and>
    (\<forall>s. r = Inr s \<longrightarrow> namespace_ok ns \<and> om_Namespace (se_Meta s) = ns \<and> plain (om_Name (se_Meta s)) \<and>
      (\<exists>e. map_of (sa_table st') i = Some e \<and> en_Session e = s))"
proof -
  obtain m g where g: "GetSession env i (sa_table st) (sa_world st) = (m, g)" by fastforce
  note ok = GetSession_ok [OF assms(1-3) g]
  show ?thesis
  proof (cases "validateNamespace ns")
    case None
    then show ?thesis using assms(3,4) ok g valid_namespace_ok [OF None]
      by (auto simp: find_owned_def Let_def names validateResourceNamespace_def split: sum.splits option.splits if_splits)
  qed (use assms(3,4) in \<open>auto simp: find_owned_def\<close>)
qed

lemma touch_session_meta [simp]: "se_Meta (touch_session now s) = se_Meta s"
  by (simp add: touch_session_def)

lemma keeps_UpdateActivity:
  assumes "world_ok env" "table_plain m" "map_of m i = Some e" "om_Namespace (se_Meta (en_Session e)) = ns" "namespace_ok ns"
    and "UpdateActivity env i m w = (m', w', x)"
  shows "table_plain m' \<and> keeps env ns w w'"
proof -
  let ?s = "touch_session (we_now env (w_tick w)) (en_Session e)"
  obtain w1 x1 where u: "w_Update env (RSession ?s) (w_next w) = (w1, x1)" by fastforce
  have "keeps env ns (w_next w) w1"
    using keeps_Update [OF assms(1) _ _ u] assms(2-5) by (auto simp: names table_plain_def)
  then have "keeps env ns w w1" using keeps_trans [OF keeps_next] by blast
  moreover have "m' = AList.update i \<lparr>en_Session = ?s, en_LastActivity = we_now env (w_tick w)\<rparr> m" "w' = w1"
    using assms(3,6) u by (auto simp: UpdateActivity_def w_now_def Let_def)
  ultimately show ?thesis using assms(2,3) by (auto simp: table_plain_def)
qed

lemma keeps_TerminateSession:
  assumes "world_ok env" "table_plain m" "map_of m i = Some e" "om_Namespace (se_Meta (en_Session e)) = ns" "namespace_ok ns"
    and "TerminateSession env i m w = (m', w', x)"
  shows "table_plain m' \<and> keeps env ns w w'"
proof -
  obtain w1 x1 where u: "w_Update env (RSession (set_phase SessionPhaseTerminated (en_Session e))) w = (w1, x1)" by fastforce
  have "keeps env ns w w1"
    using keeps_Update [OF assms(1) _ _ u] assms(2-5) by (auto simp: names table_plain_def)
  moreover have "m' = AList.delete i m" "w' = w1"
    using assms(3,6) u by (auto simp: TerminateSession_def GetSession_def Let_def)
  ultimately show ?thesis using assms(2) by (simp add: table_plain_delete)
qed

lemma sessions_keep_sendMessage:
  assumes "world_ok env"
  shows "sessions_keep env ns st (fst (sendMessage enc dec nil env ctx now clock ns i bind st))"
proof (rule sessions_keepI)
  assume t: "table_plain (sa_table st)" "world_typed env (sa_world st)"
  obtain st1 r where f: "find_owned env ns i st = (st1, r)" by fastforce
  note ok = find_owned_ok [OF assms t(2,1) f]
  obtain m w x where u: "UpdateActivity env i (sa_table st1) (sa_world st1) = (m, w, x)" by (metis prod_cases3)
  have k: "table_plain m \<and> keeps env ns (sa_world st) w" if "r = Inr s" for s
    using keeps_UpdateActivity [OF assms _ _ _ _ u] ok that by auto
  show "table_plain (sa_table (fst (sendMessage enc dec nil env ctx now clock ns i bind st))) \<and>
      keeps env ns (sa_world st) (sa_world (fst (sendMessage enc dec nil env ctx now clock ns i bind st)))"
    using ok k f u by (auto simp: sendMessage_def split: sum.split option.split)
qed

lemma sessions_keep_getSessionMemory:
  assumes "world_ok env"
  shows "sessions_keep env ns st (fst (getSessionMemory env kctx kctxs know ctx now ns i st))"
proof (rule sessions_keepI)
  assume t: "table_plain (sa_table st)" "world_typed env (sa_world st)"
  obtain st1 r where f: "find_owned env ns i st = (st1, r)" by fastforce
  show "table_plain (sa_table (fst (getSessionMemory env kctx kctxs know ctx now ns i st))) \<and>
      keeps env ns (sa_world st) (sa_world (fst (getSessionMemory env kctx kctxs know ctx now ns i st)))"
    using find_owned_ok [OF assms t(2,1) f] f
    by (auto simp: getSessionMemory_def Let_def case_prod_beta split: sum.split option.split)
qed

lemma sessions_keep_deleteSession:
  assumes "world_ok env"
  shows "sessions_keep env ns st (fst (deleteSession_api env ctx ctxs ns i st))"
proof (rule sessions_keepI)
  assume t: "table_plain (sa_table st)" "world_typed env (sa_world st)"
  obtain st1 r where f: "find_owned env ns i st = (st1, r)" by fastforce
  note ok = find_owned_ok [OF assms t(2,1) f]
  obtain m w x where u: "TerminateSession env i (sa_table st1) (sa_world st1) = (m, w, x)" by (metis prod_cases3)
  have k: "table_plain m \<and> keeps env ns (sa_world st) w" if "r = Inr s" for s
    using keeps_TerminateSession [OF assms _ _ _ _ u] ok that by auto
  show "table_plain (sa_table (fst (deleteSession_api env ctx ctxs ns i st))) \<and>
      keeps env ns (sa_world st) (sa_world (fst (deleteSession_api env ctx ctxs ns i st)))"
    using ok k f u by (auto simp: deleteSession_api_def split: sum.split option.split)
qed

lemma plain_take: "plain s \<Longrightarrow> plain (take n s)"
  by (auto simp: plain_def dest: in_set_takeD)

lemma plain_sessionID: "plain u \<Longrightarrow> plain (generateSessionID u)"
  using plain_take [of u 8] by (auto simp: generateSessionID_def plain_def)

lemma sessions_keep_createSession:
  assumes "world_ok env" "uuids_plain env" "namespace_ok ns"
  shows "sessions_keep env ns st (fst (createSession_api env ns hiveName bind st))"
proof (rule sessions_keepI)
  assume t: "table_plain (sa_table st)" "world_typed env (sa_world st)"
  have c: "table_plain m \<and> keeps env ns (sa_world st) w"
    if "CreateSession env (req\<lparr>sq_Namespace := ns, sq_HiveName := h\<rparr>) (sa_table st) (sa_world st) = (m, w, r)" for req h m w r
  proof -
    let ?w = "sa_world st" and ?u = "generateSessionID (we_uuid env (w_tick (sa_world st)))"
    let ?s = "new_session (req\<lparr>sq_Namespace := ns, sq_HiveName := h\<rparr>) ?u (we_now env (Suc (w_tick ?w)))"
    obtain w1 x where w1: "w_Create env (RSession ?s) (w_next (w_next ?w)) = (w1, x)" by fastforce
    have p: "plain ?u" using assms(2) by (simp add: plain_sessionID uuids_plain_def)
    have "keeps env ns (w_next (w_next ?w)) w1"
      using keeps_Create [OF assms(1) _ _ w1] p assms(3) by (simp add: names new_session_def)
    then have "keeps env ns ?w w1" using keeps_trans keeps_next by blast
    moreover have "w = w1 \<and> table_plain m" using that w1 t(1) p
      by (auto simp: CreateSession_def Let_def w_now_def new_session_def split: option.splits intro: table_plain_update)
    ultimately show ?thesis by simp
  qed
  show "table_plain (sa_table (fst (createSession_api env ns hiveName bind st))) \<and>
      keeps env ns (sa_world st) (sa_world (fst (createSession_api env ns hiveName bind st)))"
    using t(1) c by (auto simp: createSession_api_def Let_def split: sum.split prod.split)
qed


end
