(* ===== verification/API_Server.thy ===== *)
theory API_Server
  imports API_Sessions
begin

text \<open>
  \<open>internal/api/server.go\<close>, the server: its state, the table of routes, and the chain of
  middleware in front of the handlers.  Echo's router and body decoding are parameters: a request has its
  path in segments, and \<open>api_env\<close> holds the decoders of the bodies and the other things a handler
  calls outside the repository.  Tracing, logging and recovery do not change the server's state or
  its answer and are left out; of CORS only the answer to \<open>OPTIONS\<close> is modelled.
\<close>

section \<open>State and requests\<close>

record 'd server =
  sv_world :: "'d world"
  sv_sessions :: session_table
  sv_comb :: "comb_store option"
  sv_rbac :: "rbac option"
  sv_requireAuth :: bool
  sv_dlq :: "dlq_manager option"
  sv_metrics :: "collector option"

record 'd api_env =
  ae_world :: "'d world_env"
  ae_unrouted :: "string \<Rightarrow> string list \<Rightarrow> string"
  ae_cell :: "string \<Rightarrow> string + cell"
  ae_spec :: "string \<Rightarrow> string + agent_spec"
  ae_hive :: "string \<Rightarrow> string + hive"
  ae_secret :: "string \<Rightarrow> string + secret"
  ae_scale :: "string \<Rightarrow> string + int"
  ae_scaleHive :: "string \<Rightarrow> string + (string \<times> int)"
  ae_drain :: "string \<Rightarrow> string + drain_request"
  ae_exec :: "string \<Rightarrow> string + exec_request"
  ae_session :: "string \<Rightarrow> string + session_request"
  ae_message :: "string \<Rightarrow> string + message_request"
  ae_role :: "string \<Rightarrow> string + (string \<times> role)"
  ae_parseDuration :: "string \<Rightarrow> duration option"
  ae_mkreq :: "string \<Rightarrow> bool"
  ae_prom :: "collector \<Rightarrow> string"
  ae_enc :: "unit conversation_message marshal"
  ae_dec :: "unit conversation_message unmarshal"

text \<open>A request: what the client sent, and what its handler reads while it runs (the context, the clock,
  the keeper's answers, and what the others do during a drain).\<close>

record 'd http_request =
  hr_Method :: string
  hr_Path :: "string list"
  hr_Query :: "string \<Rightarrow> string"
  hr_Header :: "string \<Rightarrow> string"
  hr_Body :: string
  hr_Cancelled :: bool
  hr_ctx :: "nat \<Rightarrow> ctx_error option"
  hr_now :: "nat \<Rightarrow> time"
  hr_stamp :: "nat \<Rightarrow> string"
  hr_fetch :: "string \<Rightarrow> string + (int \<times> string)"
  hr_post :: "string \<Rightarrow> exec_body \<Rightarrow> string + (int \<times> string \<times> string)"
  hr_acts :: "duration \<Rightarrow> ('d world \<Rightarrow> 'd world) list"

text \<open>The pointer \<open>RequireAuth\<close> of the configuration may be nil, which means \<open>true\<close>.  \<open>sv_requireAuth\<close>
  is the setting of the middleware that is installed when there is an RBAC.\<close>

definition NewServer :: "'d world \<Rightarrow> comb_store option \<Rightarrow> rbac option \<Rightarrow> bool option \<Rightarrow> dlq_manager option \<Rightarrow>
    collector option \<Rightarrow> 'd server" where
  "NewServer w comb rbac requireAuth dlq metrics =
    \<lparr>sv_world = w, sv_sessions = [], sv_comb = comb, sv_rbac = rbac,
     sv_requireAuth = (case requireAuth of None \<Rightarrow> True | Some b \<Rightarrow> b), sv_dlq = dlq, sv_metrics = metrics\<rparr>"

section \<open>Routes\<close>

datatype endpoint =
    Healthz | Ready
  | ListCells | GetCell string | CreateCell | UpdateCell string | DeleteCell string
  | ListAgentSpecs string | GetAgentSpec string string | CreateAgentSpec string
  | UpdateAgentSpec string string | DeleteAgentSpec string string
  | ListHives string | GetHive string string | CreateHive string | UpdateHive string string | DeleteHive string string
  | ListSecrets string | GetSecret string string | CreateSecret string
  | UpdateSecret string string | DeleteSecret string string
  | ListDrones string | GetDrone string string | DeleteDrone string string
  | ListSessions string | GetSessionE string string | CreateSessionE string string
  | SendMessage string string | GetSessionMemory string string | DeleteSession string string
  | GetMetrics | GetNamespaceMetrics string | GetAgentSpecMetrics string string
  | GetQuota string
  | ListRoles string | AssignRoleE string | RemoveRoleE string string
  | ListDLQ string string | GetDLQ string string string | ReplayDLQ string string string
  | DeleteDLQ string string string | ClearDLQ string string
  | DroneLogs string string | ExecDroneE string string
  | ScaleAgentSpec string string | ScaleHive string string
  | DrainDrone string string | DrainAgentSpec string string

definition route_cell :: "string \<Rightarrow> string \<Rightarrow> string list \<Rightarrow> endpoint option" where
  "route_cell m ns p =
    (case p of
       [] \<Rightarrow> map_of [(''GET'', GetCell ns), (''PUT'', UpdateCell ns), (''DELETE'', DeleteCell ns)] m
     | [k] \<Rightarrow>
        (if k = ''agentspecs'' then map_of [(''GET'', ListAgentSpecs ns), (''POST'', CreateAgentSpec ns)] m
         else if k = ''hives'' then map_of [(''GET'', ListHives ns), (''POST'', CreateHive ns)] m
         else if k = ''secrets'' then map_of [(''GET'', ListSecrets ns), (''POST'', CreateSecret ns)] m
         else if k = ''drones'' then map_of [(''GET'', ListDrones ns)] m
         else if k = ''sessions'' then map_of [(''GET'', ListSessions ns)] m
         else if k = ''metrics'' then map_of [(''GET'', GetNamespaceMetrics ns)] m
         else if k = ''quota'' then map_of [(''GET'', GetQuota ns)] m
         else if k = ''roles'' then map_of [(''GET'', ListRoles ns), (''POST'', AssignRoleE ns)] m
         else None)
     | [k, n] \<Rightarrow>
        (if k = ''agentspecs''
         then map_of [(''GET'', GetAgentSpec ns n), (''PUT'', UpdateAgentSpec ns n), (''DELETE'', DeleteAgentSpec ns n)] m
         else if k = ''hives'' then map_of [(''GET'', GetHive ns n), (''PUT'', UpdateHive ns n), (''DELETE'', DeleteHive ns n)] m
         else if k = ''secrets''
         then map_of [(''GET'', GetSecret ns n), (''PUT'', UpdateSecret ns n), (''DELETE'', DeleteSecret ns n)] m
         else if k = ''drones'' then map_of [(''GET'', GetDrone ns n), (''DELETE'', DeleteDrone ns n)] m
         else if k = ''sessions'' then map_of [(''GET'', GetSessionE ns n), (''DELETE'', DeleteSession ns n)] m
         else if k = ''metrics'' then map_of [(''GET'', GetAgentSpecMetrics ns n)] m
         else if k = ''roles'' then map_of [(''DELETE'', RemoveRoleE ns n)] m
         else None)
     | [k, n, x] \<Rightarrow>
        (if k = ''hives'' \<and> x = ''sessions'' then map_of [(''POST'', CreateSessionE ns n)] m
         else if k = ''hives'' \<and> x = ''dlq'' then map_of [(''GET'', ListDLQ ns n), (''DELETE'', ClearDLQ ns n)] m
         else if k = ''hives'' \<and> x = ''scale'' then map_of [(''PUT'', ScaleHive ns n)] m
         else if k = ''agentspecs'' \<and> x = ''scale'' then map_of [(''PUT'', ScaleAgentSpec ns n)] m
         else if k = ''agentspecs'' \<and> x = ''drain'' then map_of [(''POST'', DrainAgentSpec ns n)] m
         else if k = ''sessions'' \<and> x = ''messages'' then map_of [(''POST'', SendMessage ns n)] m
         else if k = ''sessions'' \<and> x = ''memory'' then map_of [(''GET'', GetSessionMemory ns n)] m
         else if k = ''drones'' \<and> x = ''logs'' then map_of [(''GET'', DroneLogs ns n)] m
         else if k = ''drones'' \<and> x = ''exec'' then map_of [(''POST'', ExecDroneE ns n)] m
         else if k = ''drones'' \<and> x = ''drain'' then map_of [(''POST'', DrainDrone ns n)] m
         else None)
     | [k, n, x, i] \<Rightarrow>
        (if k = ''hives'' \<and> x = ''dlq'' then map_of [(''GET'', GetDLQ ns n i), (''DELETE'', DeleteDLQ ns n i)] m else None)
     | [k, n, x, i, y] \<Rightarrow>
        (if k = ''hives'' \<and> x = ''dlq'' \<and> y = ''replay'' then map_of [(''POST'', ReplayDLQ ns n i)] m else None)
     | _ \<Rightarrow> None)"

text \<open>A parameter at the end of a path does not match nothing, though one in the middle does.\<close>

definition setupRoutes :: "string \<Rightarrow> string list \<Rightarrow> endpoint option" where
  "setupRoutes m p =
    (if p \<noteq> [] \<and> last p = '''' then None
     else case p of
       [x] \<Rightarrow> (if m = ''GET'' \<and> x = ''healthz'' then Some Healthz else if m = ''GET'' \<and> x = ''ready'' then Some Ready else None)
     | [a, v, x] \<Rightarrow>
        (if a = ''api'' \<and> v = ''v1'' \<and> x = ''cells'' then map_of [(''GET'', ListCells), (''POST'', CreateCell)] m
         else if a = ''api'' \<and> v = ''v1'' \<and> x = ''metrics'' \<and> m = ''GET'' then Some GetMetrics
         else None)
     | a # v # x # ns # rest \<Rightarrow> (if a = ''api'' \<and> v = ''v1'' \<and> x = ''cells'' then route_cell m ns rest else None)
     | _ \<Rightarrow> None)"

text \<open>The paths that have a route for some method.\<close>

definition known_path :: "string list \<Rightarrow> bool" where
  "known_path p \<longleftrightarrow> list_ex (\<lambda>m. setupRoutes m p \<noteq> None) [''GET'', ''POST'', ''PUT'', ''DELETE'']"

text \<open>The path parameter \<open>namespace\<close>, as the middleware sees it; the routes of cells call theirs
  \<open>name\<close>.\<close>

fun param_namespace :: "endpoint \<Rightarrow> string" where
  "param_namespace (ListAgentSpecs ns) = ns"
| "param_namespace (GetAgentSpec ns n) = ns"
| "param_namespace (CreateAgentSpec ns) = ns"
| "param_namespace (UpdateAgentSpec ns n) = ns"
| "param_namespace (DeleteAgentSpec ns n) = ns"
| "param_namespace (ListHives ns) = ns"
| "param_namespace (GetHive ns n) = ns"
| "param_namespace (CreateHive ns) = ns"
| "param_namespace (UpdateHive ns n) = ns"
| "param_namespace (DeleteHive ns n) = ns"
| "param_namespace (ListSecrets ns) = ns"
| "param_namespace (GetSecret ns n) = ns"
| "param_namespace (CreateSecret ns) = ns"
| "param_namespace (UpdateSecret ns n) = ns"
| "param_namespace (DeleteSecret ns n) = ns"
| "param_namespace (ListDrones ns) = ns"
| "param_namespace (GetDrone ns n) = ns"
| "param_namespace (DeleteDrone ns n) = ns"
| "param_namespace (ListSessions ns) = ns"
| "param_namespace (GetSessionE ns n) = ns"
| "param_namespace (CreateSessionE ns n) = ns"
| "param_namespace (SendMessage ns n) = ns"
| "param_namespace (GetSessionMemory ns n) = ns"
| "param_namespace (DeleteSession ns n) = ns"
| "param_namespace (GetNamespaceMetrics ns) = ns"
| "param_namespace (GetAgentSpecMetrics ns n) = ns"
| "param_namespace (GetQuota ns) = ns"
| "param_namespace (ListRoles ns) = ns"
| "param_namespace (AssignRoleE ns) = ns"
| "param_namespace (RemoveRoleE ns n) = ns"
| "param_namespace (ListDLQ ns n) = ns"
| "param_namespace (GetDLQ ns n i) = ns"
| "param_namespace (ReplayDLQ ns n i) = ns"
| "param_namespace (DeleteDLQ ns n i) = ns"
| "param_namespace (ClearDLQ ns n) = ns"
| "param_namespace (DroneLogs ns n) = ns"
| "param_namespace (ExecDroneE ns n) = ns"
| "param_namespace (ScaleAgentSpec ns n) = ns"
| "param_namespace (ScaleHive ns n) = ns"
| "param_namespace (DrainDrone ns n) = ns"
| "param_namespace (DrainAgentSpec ns n) = ns"
| "param_namespace _ = ''''"

section \<open>Handlers\<close>

definition on_world :: "'d server \<Rightarrow> 'd world \<times> answer \<Rightarrow> 'd server \<times> answer" where
  "on_world sv r = (sv\<lparr>sv_world := fst r\<rparr>, snd r)"

definition session_part :: "'d server \<Rightarrow> 'd session_api" where
  "session_part sv = \<lparr>sa_table = sv_sessions sv, sa_comb = sv_comb sv, sa_world = sv_world sv\<rparr>"

definition on_sessions :: "'d server \<Rightarrow> 'd session_api \<times> answer \<Rightarrow> 'd server \<times> answer" where
  "on_sessions sv r =
    (sv\<lparr>sv_sessions := sa_table (fst r), sv_comb := sa_comb (fst r), sv_world := sa_world (fst r)\<rparr>, snd r)"

definition on_rbac :: "'d server \<Rightarrow> rbac option \<times> answer \<Rightarrow> 'd server \<times> answer" where
  "on_rbac sv r = (sv\<lparr>sv_rbac := fst r\<rparr>, snd r)"

definition on_dlq :: "'d server \<Rightarrow> dlq_manager option \<times> answer \<Rightarrow> 'd server \<times> answer" where
  "on_dlq sv r = (sv\<lparr>sv_dlq := fst r\<rparr>, snd r)"

definition on_metrics :: "'d server \<Rightarrow> collector option \<times> answer \<Rightarrow> 'd server \<times> answer" where
  "on_metrics sv r = (sv\<lparr>sv_metrics := fst r\<rparr>, snd r)"

definition getMetrics :: "'d api_env \<Rightarrow> 'd server \<Rightarrow> answer" where
  "getMetrics env sv =
    (case sv_metrics sv of
       None \<Rightarrow> not_collected
     | Some c \<Rightarrow> \<lparr>rsp_Status = 200, rsp_Body = StreamBody None (ae_prom env c)\<rparr>)"

text \<open>The handler of each endpoint.\<close>

fun handle :: "'d api_env \<Rightarrow> 'd http_request \<Rightarrow> endpoint \<Rightarrow> 'd server \<Rightarrow> 'd server \<times> answer" where
  "handle env rq Healthz sv = (sv, healthz)"
| "handle env rq Ready sv = (sv, ready (ae_world env) (sv_world sv))"
| "handle env rq ListCells sv = (sv, listCells (ae_world env) (sv_world sv))"
| "handle env rq (GetCell n) sv = (sv, getCell (ae_world env) n (sv_world sv))"
| "handle env rq CreateCell sv = on_world sv (createCell (ae_world env) (ae_cell env (hr_Body rq)) (sv_world sv))"
| "handle env rq (UpdateCell n) sv = on_world sv (updateCell (ae_world env) n (ae_cell env (hr_Body rq)) (sv_world sv))"
| "handle env rq (DeleteCell n) sv = on_world sv (deleteCell (ae_world env) n (sv_world sv))"
| "handle env rq (ListAgentSpecs ns) sv = (sv, listAgentSpecs (ae_world env) ns (sv_world sv))"
| "handle env rq (GetAgentSpec ns n) sv = (sv, getAgentSpec (ae_world env) ns n (sv_world sv))"
| "handle env rq (CreateAgentSpec ns) sv =
    on_world sv (createAgentSpec (ae_world env) ns (ae_spec env (hr_Body rq)) (sv_world sv))"
| "handle env rq (UpdateAgentSpec ns n) sv =
    on_world sv (updateAgentSpec (ae_world env) ns n (ae_spec env (hr_Body rq)) (sv_world sv))"
| "handle env rq (DeleteAgentSpec ns n) sv = on_world sv (deleteAgentSpec (ae_world env) ns n (sv_world sv))"
| "handle env rq (ListHives ns) sv = (sv, listHives (ae_world env) ns (sv_world sv))"
| "handle env rq (GetHive ns n) sv = (sv, getHive (ae_world env) ns n (sv_world sv))"
| "handle env rq (CreateHive ns) sv = on_world sv (createHive (ae_world env) ns (ae_hive env (hr_Body rq)) (sv_world sv))"
| "handle env rq (UpdateHive ns n) sv = on_world sv (updateHive (ae_world env) ns n (ae_hive env (hr_Body rq)) (sv_world sv))"
| "handle env rq (DeleteHive ns n) sv = on_world sv (deleteHive (ae_world env) ns n (sv_world sv))"
| "handle env rq (ListSecrets ns) sv = (sv, listSecrets (ae_world env) ns (sv_world sv))"
| "handle env rq (GetSecret ns n) sv = (sv, getSecret (ae_world env) ns n (sv_world sv))"
| "handle env rq (CreateSecret ns) sv =
    on_world sv (createSecret (ae_world env) ns (ae_secret env (hr_Body rq)) (sv_world sv))"
| "handle env rq (UpdateSecret ns n) sv =
    on_world sv (updateSecret (ae_world env) ns n (ae_secret env (hr_Body rq)) (sv_world sv))"
| "handle env rq (DeleteSecret ns n) sv = on_world sv (deleteSecret (ae_world env) ns n (sv_world sv))"
| "handle env rq (ListDrones ns) sv = (sv, listDrones (ae_world env) ns (sv_world sv))"
| "handle env rq (GetDrone ns i) sv = (sv, getDrone (ae_world env) ns i (sv_world sv))"
| "handle env rq (DeleteDrone ns i) sv = on_world sv (deleteDrone_api (ae_world env) ns i (sv_world sv))"
| "handle env rq (ListSessions ns) sv = (sv, listSessions (ae_world env) ns (sv_world sv))"
| "handle env rq (GetSessionE ns i) sv = (sv, getSession_api (ae_world env) ns i (sv_world sv))"
| "handle env rq (CreateSessionE ns h) sv =
    on_sessions sv (createSession_api (ae_world env) ns h (ae_session env (hr_Body rq)) (session_part sv))"
| "handle env rq (SendMessage ns i) sv =
    on_sessions sv (sendMessage (ae_enc env) (ae_dec env) () (ae_world env) (hr_ctx rq) (\<lambda>k. hr_now rq (Suc k)) (hr_now rq 0)
      ns i (ae_message env (hr_Body rq)) (session_part sv))"
| "handle env rq (GetSessionMemory ns i) sv =
    on_sessions sv (getSessionMemory (ae_world env) (hr_ctx rq 0) (\<lambda>k. hr_ctx rq (2 * k + 1)) (hr_now rq 0)
      (\<lambda>k. hr_ctx rq (2 * k + 2)) (\<lambda>k. hr_now rq (Suc k)) ns i (session_part sv))"
| "handle env rq (DeleteSession ns i) sv =
    on_sessions sv (deleteSession_api (ae_world env) (hr_ctx rq 0) (\<lambda>k. hr_ctx rq (Suc k)) ns i (session_part sv))"
| "handle env rq GetMetrics sv = (sv, getMetrics env sv)"
| "handle env rq (GetNamespaceMetrics ns) sv =
    on_metrics sv (getNamespaceMetrics (ae_world env) (hr_now rq) ns (sv_metrics sv) (sv_world sv))"
| "handle env rq (GetAgentSpecMetrics ns a) sv = on_metrics sv (getAgentSpecMetrics (hr_now rq) ns a (sv_metrics sv))"
| "handle env rq (GetQuota ns) sv = (sv, getQuotaUsageHandler (ae_world env) ns (sv_world sv))"
| "handle env rq (ListRoles ns) sv = (sv, listRolesHandler ns (sv_rbac sv))"
| "handle env rq (AssignRoleE ns) sv = on_rbac sv (assignRoleHandler ns (ae_role env (hr_Body rq)) (sv_rbac sv))"
| "handle env rq (RemoveRoleE ns u) sv = on_rbac sv (removeRoleHandler ns u (sv_rbac sv))"
| "handle env rq (ListDLQ ns h) sv = (sv, listDLQMessages (ae_world env) ns h (sv_dlq sv) (sv_world sv))"
| "handle env rq (GetDLQ ns h i) sv = (sv, getDLQMessage (ae_world env) ns h i (sv_dlq sv) (sv_world sv))"
| "handle env rq (ReplayDLQ ns h i) sv = (sv, replayDLQMessage (ae_world env) ns h i (sv_dlq sv) (sv_world sv))"
| "handle env rq (DeleteDLQ ns h i) sv = on_dlq sv (deleteDLQMessage (ae_world env) ns h i (sv_dlq sv) (sv_world sv))"
| "handle env rq (ClearDLQ ns h) sv = on_dlq sv (clearDLQ (ae_world env) ns h (sv_dlq sv) (sv_world sv))"
| "handle env rq (DroneLogs ns i) sv =
    (sv, getDroneLogs (ae_mkreq env) (hr_fetch rq) (ae_world env) ns i (hr_Query rq ''tail'') (hr_Query rq ''since'')
       (hr_Query rq ''follow'') (sv_world sv))"
| "handle env rq (ExecDroneE ns i) sv =
    (sv, execDrone (ae_mkreq env) (hr_post rq) (ae_world env) ns i (ae_exec env (hr_Body rq)) (sv_world sv))"
| "handle env rq (ScaleAgentSpec ns n) sv =
    on_world sv (scaleAgentSpec (ae_world env) ns n (ae_scale env (hr_Body rq)) (sv_world sv))"
| "handle env rq (ScaleHive ns n) sv =
    on_world sv (scaleHive (ae_world env) ns n (ae_scaleHive env (hr_Body rq)) (sv_world sv))"
| "handle env rq (DrainDrone ns i) sv =
    on_world sv (drainDrone (ae_parseDuration env) (hr_acts rq) (ae_world env) ns i (ae_drain env (hr_Body rq))
      (hr_stamp rq 0) (sv_world sv))"
| "handle env rq (DrainAgentSpec ns n) sv =
    on_world sv (drainAgentSpec (ae_world env) ns n (ae_drain env (hr_Body rq)) (hr_stamp rq) (sv_world sv))"

section \<open>Middleware\<close>

text \<open>The middleware of the roles is installed when the server has an RBAC.  Without a route the
  parameter it reads is what echo has left in it, \<open>ae_unrouted\<close>, and behind it CORS answers
  \<open>OPTIONS\<close> with 204, for which there is no route, and echo anything else with 405 for a path that
  has a route for another method, and with 404 for all others.\<close>

definition authorize :: "'d api_env \<Rightarrow> 'd http_request \<Rightarrow> endpoint option \<Rightarrow> 'd server \<Rightarrow> decision" where
  "authorize env rq e sv =
    (case sv_rbac sv of
       None \<Rightarrow> CallNext
     | Some r \<Rightarrow>
        AuthorizationMiddleware (sv_requireAuth sv) r
          (PrincipalMiddleware (hr_Header rq)
            \<lparr>rq_namespace = (case e of None \<Rightarrow> ae_unrouted env (hr_Method rq) (hr_Path rq) | Some e \<Rightarrow> param_namespace e),
             rq_method = hr_Method rq,
             rq_principal = None\<rparr>))"

definition refused :: "int \<Rightarrow> answer" where
  "refused code = \<lparr>rsp_Status = code, rsp_Body = NoBody\<rparr>"

definition no_route :: "string \<Rightarrow> string list \<Rightarrow> answer" where
  "no_route m p = refused (if m = ''OPTIONS'' then 204 else if known_path p then 405 else 404)"

definition serve :: "'d api_env \<Rightarrow> 'd http_request \<Rightarrow> 'd server \<Rightarrow> 'd server \<times> answer" where
  "serve env rq sv =
    (let e = setupRoutes (hr_Method rq) (hr_Path rq)
     in contextValidationMiddleware (hr_Cancelled rq)
          (\<lambda>sv. case authorize env rq e sv of
             Respond code \<Rightarrow> (sv, refused code)
           | CallNext \<Rightarrow> (case e of None \<Rightarrow> (sv, no_route (hr_Method rq) (hr_Path rq)) | Some e \<Rightarrow> handle env rq e sv)) sv)"

fun serve_all :: "'d api_env \<Rightarrow> 'd http_request list \<Rightarrow> 'd server \<Rightarrow> 'd server \<times> answer list" where
  "serve_all env [] sv = (sv, [])"
| "serve_all env (rq # rqs) sv =
    (let (sv, a) = serve env rq sv; (sv, as) = serve_all env rqs sv in (sv, a # as))"


end
