(* ===== verification/API_Properties.thy ===== *)
theory API_Properties
  imports API_Server
begin

text \<open>
  What the REST server guarantees: the invariant of its state, the confinement of a request to
  its cell, the authority it needs, and the behaviour of the operations that span components.
\<close>

section \<open>Requests are confined to their cell\<close>

definition server_ok :: "'d api_env \<Rightarrow> 'd server \<Rightarrow> bool" where
  "server_ok env sv \<longleftrightarrow> table_plain (sv_sessions sv) \<and> world_typed (ae_world env) (sv_world sv)"

definition server_keeps :: "'d api_env \<Rightarrow> string \<Rightarrow> 'd server \<Rightarrow> 'd server \<Rightarrow> bool" where
  "server_keeps env ns sv sv' \<longleftrightarrow>
    (server_ok env sv \<longrightarrow> table_plain (sv_sessions sv') \<and> keeps (ae_world env) ns (sv_world sv) (sv_world sv'))"

lemma server_keeps_refl [simp]: "server_keeps env ns sv sv"
  by (simp add: server_keeps_def server_ok_def)

lemma server_keeps_on_world:
  "keeps (ae_world env) ns (sv_world sv) (fst r) \<Longrightarrow> server_keeps env ns sv (fst (on_world sv r))"
  by (simp add: server_keeps_def server_ok_def on_world_def)

lemma server_keeps_on_sessions:
  "sessions_keep (ae_world env) ns (session_part sv) (fst r) \<Longrightarrow> server_keeps env ns sv (fst (on_sessions sv r))"
  by (simp add: server_keeps_def server_ok_def on_sessions_def sessions_keep_def session_part_def)

lemma server_keeps_other [simp]:
  "server_keeps env ns sv (fst (on_rbac sv r))" "server_keeps env ns sv (fst (on_dlq sv d))"
  "server_keeps env ns sv (fst (on_metrics sv c))"
  by (simp_all add: server_keeps_def server_ok_def on_rbac_def on_dlq_def on_metrics_def)

text \<open>The names a request gives in its path, besides the namespace.\<close>

fun endpoint_names :: "endpoint \<Rightarrow> string list" where
  "endpoint_names (UpdateCell n) = [n]"
| "endpoint_names (DeleteCell n) = [n]"
| "endpoint_names (DeleteAgentSpec ns n) = [n]"
| "endpoint_names (DeleteHive ns n) = [n]"
| "endpoint_names (DeleteSecret ns n) = [n]"
| "endpoint_names (DeleteDrone ns n) = [n]"
| "endpoint_names (ScaleAgentSpec ns n) = [n]"
| "endpoint_names (ScaleHive ns n) = [n]"
| "endpoint_names (DrainDrone ns n) = [n]"
| "endpoint_names _ = []"

definition plain_request :: "'d api_env \<Rightarrow> 'd http_request \<Rightarrow> endpoint \<Rightarrow> bool" where
  "plain_request env rq e \<longleftrightarrow>
    list_all plain (endpoint_names e) \<and> namespace_ok (param_namespace e) \<and>
    plain_body RCell (ae_cell env (hr_Body rq)) \<and> plain_body RAgentSpec (ae_spec env (hr_Body rq)) \<and>
    plain_body RHive (ae_hive env (hr_Body rq)) \<and> plain_body RSecret (ae_secret env (hr_Body rq))"

text \<open>What the other parts of the platform do during a drain stays in the cell as well.\<close>

definition acts_keep :: "'d api_env \<Rightarrow> 'd http_request \<Rightarrow> string \<Rightarrow> bool" where
  "acts_keep env rq ns \<longleftrightarrow> (\<forall>t. \<forall>f \<in> set (hr_acts rq t). \<forall>w. keeps (ae_world env) ns w (f w))"

lemma handle_keeps:
  assumes "world_ok (ae_world env)" "uuids_plain (ae_world env)" "plain_request env rq e" "acts_keep env rq (param_namespace e)"
  shows "server_keeps env (param_namespace e) sv (fst (handle env rq e sv))"
proof -
  have acts: "\<forall>t. \<forall>f \<in> set (hr_acts rq t). \<forall>w. keeps (ae_world env) (param_namespace e) w (f w)"
    using assms(4) by (simp add: acts_keep_def)
  note w = server_keeps_on_world [OF keeps_createCell [OF assms(1)]] server_keeps_on_world [OF keeps_updateCell [OF assms(1)]]
    server_keeps_on_world [OF keeps_deletes(1) [OF assms(1)]] server_keeps_on_world [OF keeps_deletes(2) [OF assms(1)]]
    server_keeps_on_world [OF keeps_deletes(3) [OF assms(1)]] server_keeps_on_world [OF keeps_deletes(4) [OF assms(1)]]
    server_keeps_on_world [OF keeps_deletes(5) [OF assms(1)]]
    server_keeps_on_world [OF keeps_createAgentSpec [OF assms(1)]] server_keeps_on_world [OF keeps_updateAgentSpec [OF assms(1)]]
    server_keeps_on_world [OF keeps_createHive [OF assms(1)]] server_keeps_on_world [OF keeps_updateHive [OF assms(1)]]
    server_keeps_on_world [OF keeps_createSecret [OF assms(1)]] server_keeps_on_world [OF keeps_updateSecret [OF assms(1)]]
    server_keeps_on_world [OF keeps_scaleAgentSpec [OF assms(1)]] server_keeps_on_world [OF keeps_scaleHive [OF assms(1)]]
    server_keeps_on_world [OF keeps_drainAgentSpec [OF assms(1)]] server_keeps_on_world [OF keeps_drainDrone [OF assms(1)]]
  note s = server_keeps_on_sessions [OF sessions_keep_createSession [OF assms(1,2)]]
    server_keeps_on_sessions [OF sessions_keep_sendMessage [OF assms(1)]]
    server_keeps_on_sessions [OF sessions_keep_getSessionMemory [OF assms(1)]]
    server_keeps_on_sessions [OF sessions_keep_deleteSession [OF assms(1)]]
  show ?thesis using assms(3) acts unfolding plain_request_def
    by (cases e) (simp_all add: w s)
qed

definition request_ok :: "'d api_env \<Rightarrow> 'd http_request \<Rightarrow> bool" where
  "request_ok env rq \<longleftrightarrow>
    (case setupRoutes (hr_Method rq) (hr_Path rq) of
       None \<Rightarrow> True | Some e \<Rightarrow> plain_request env rq e \<and> acts_keep env rq (param_namespace e))"

definition request_cell :: "'d http_request \<Rightarrow> string" where
  "request_cell rq = (case setupRoutes (hr_Method rq) (hr_Path rq) of None \<Rightarrow> '''' | Some e \<Rightarrow> param_namespace e)"

lemma serve_keeps:
  assumes "world_ok (ae_world env)" "uuids_plain (ae_world env)" "request_ok env rq"
  shows "server_keeps env (request_cell rq) sv (fst (serve env rq sv))"
proof (cases "setupRoutes (hr_Method rq) (hr_Path rq)")
  case None
  then show ?thesis by (simp add: serve_def contextValidationMiddleware_def Let_def split: decision.split)
next
  case (Some e)
  then have "server_keeps env (param_namespace e) sv (fst (handle env rq e sv))"
    using assms(3) by (intro handle_keeps [OF assms(1,2)]) (simp_all add: request_ok_def)
  then show ?thesis using Some
    by (simp add: serve_def contextValidationMiddleware_def request_cell_def Let_def split: decision.split)
qed

section \<open>Roles of other cells\<close>

definition role_in :: "'d server \<Rightarrow> string \<Rightarrow> string \<Rightarrow> role option" where
  "role_in sv cell user = (case sv_rbac sv of None \<Rightarrow> None | Some r \<Rightarrow> GetRole cell user r)"

lemma AssignRole_other: "cell' \<noteq> cell \<Longrightarrow> GetRole cell' u (fst (AssignRole cell user role r)) = GetRole cell' u r"
  by (simp add: AssignRole_def GetRole_def Let_def)

lemma RemoveRole_other: "cell' \<noteq> cell \<Longrightarrow> GetRole cell' u (RemoveRole cell user r) = GetRole cell' u r"
  by (simp add: RemoveRole_def GetRole_def Let_def split: option.split)

lemma assign_other: "c \<noteq> ns \<Longrightarrow>
    (case fst (assignRoleHandler ns b rb) of None \<Rightarrow> None | Some r \<Rightarrow> GetRole c u r) =
    (case rb of None \<Rightarrow> None | Some r \<Rightarrow> GetRole c u r)"
  using AssignRole_other [of c ns u]
  by (auto simp: assignRoleHandler_def with_rbac_def split: option.split sum.split prod.split) (metis fst_conv)+

lemma remove_other: "c \<noteq> ns \<Longrightarrow>
    (case fst (removeRoleHandler ns x rb) of None \<Rightarrow> None | Some r \<Rightarrow> GetRole c u r) =
    (case rb of None \<Rightarrow> None | Some r \<Rightarrow> GetRole c u r)"
  by (auto simp: removeRoleHandler_def with_rbac_def RemoveRole_other split: option.split sum.split)

lemma handle_roles:
  assumes "cell \<noteq> param_namespace e"
  shows "role_in (fst (handle env rq e sv)) cell u = role_in sv cell u"
  using assms by (cases e) (simp_all add: role_in_def on_world_def on_sessions_def on_rbac_def on_dlq_def on_metrics_def
      assign_other remove_other)

lemma serve_cases:
  assumes "P (sv, errorResponse 408 ''request_timeout'' (Text ''Request context was cancelled''))"
    and "\<And>code. P (sv, refused code)"
    and "\<And>e. setupRoutes (hr_Method rq) (hr_Path rq) = Some e \<Longrightarrow> authorize env rq (Some e) sv = CallNext \<Longrightarrow>
      \<not> hr_Cancelled rq \<Longrightarrow> P (handle env rq e sv)"
  shows "P (serve env rq sv)"
  using assms by (cases "setupRoutes (hr_Method rq) (hr_Path rq)")
    (simp_all add: serve_def contextValidationMiddleware_def no_route_def Let_def split: decision.split)

section \<open>Reading changes nothing\<close>

fun reads :: "endpoint \<Rightarrow> bool" where
  "reads CreateCell = False"
| "reads (UpdateCell n) = False"
| "reads (DeleteCell n) = False"
| "reads (CreateAgentSpec ns) = False"
| "reads (UpdateAgentSpec ns n) = False"
| "reads (DeleteAgentSpec ns n) = False"
| "reads (CreateHive ns) = False"
| "reads (UpdateHive ns n) = False"
| "reads (DeleteHive ns n) = False"
| "reads (CreateSecret ns) = False"
| "reads (UpdateSecret ns n) = False"
| "reads (DeleteSecret ns n) = False"
| "reads (DeleteDrone ns n) = False"
| "reads (CreateSessionE ns h) = False"
| "reads (SendMessage ns i) = False"
| "reads (DeleteSession ns i) = False"
| "reads (AssignRoleE ns) = False"
| "reads (RemoveRoleE ns u) = False"
| "reads (DeleteDLQ ns h i) = False"
| "reads (ClearDLQ ns h) = False"
| "reads (ScaleAgentSpec ns n) = False"
| "reads (ScaleHive ns n) = False"
| "reads (DrainDrone ns i) = False"
| "reads (DrainAgentSpec ns n) = False"
| "reads _ = True"

lemma getSessionMemory_world: "sa_world (fst (getSessionMemory env kctx kctxs know ctx now ns i st)) = sa_world st"
proof -
  obtain st1 r where f: "find_owned env ns i st = (st1, r)" by fastforce
  show ?thesis using find_owned_keeps [OF f] f
    by (auto simp: getSessionMemory_def Let_def case_prod_beta split: sum.split option.split)
qed

lemma handle_reads:
  "reads e \<Longrightarrow> sv_world (fst (handle env rq e sv)) = sv_world sv \<and> sv_rbac (fst (handle env rq e sv)) = sv_rbac sv \<and>
    sv_dlq (fst (handle env rq e sv)) = sv_dlq sv"
  by (cases e) (simp_all add: on_metrics_def on_sessions_def getSessionMemory_world session_part_def)

text \<open>The method of a route, by rules that follow the shape of the table.\<close>

definition method_ok :: "string \<Rightarrow> endpoint option \<Rightarrow> bool" where
  "method_ok m e \<longleftrightarrow>
    (case e of None \<Rightarrow> True | Some e \<Rightarrow> m \<in> {''GET'', ''POST'', ''PUT'', ''DELETE''} \<and> (m = ''GET'' \<longrightarrow> reads e))"

lemma method_ok_intros:
  "method_ok m None"
  "(b \<Longrightarrow> method_ok m x) \<Longrightarrow> method_ok m y \<Longrightarrow> method_ok m (if b then x else y)"
  "method_ok m n \<Longrightarrow> (\<And>a l. method_ok m (f a l)) \<Longrightarrow> method_ok m (case xs of [] \<Rightarrow> n | a # l \<Rightarrow> f a l)"
  "(\<And>k e. (k, e) \<in> set tbl \<Longrightarrow> method_ok k (Some e)) \<Longrightarrow> method_ok m (map_of tbl m)"
  by (auto simp: method_ok_def split: list.split option.split dest: map_of_SomeD)

lemma route_cell_method: "method_ok m (route_cell m ns p)"
  unfolding route_cell_def by (intro method_ok_intros; auto simp: method_ok_def)

lemma setupRoutes_method:
  assumes "setupRoutes m p = Some e"
  shows "m \<in> {''GET'', ''POST'', ''PUT'', ''DELETE''} \<and> (m = ''GET'' \<longrightarrow> reads e)"
proof -
  have "method_ok m (setupRoutes m p)"
    unfolding setupRoutes_def by (intro method_ok_intros route_cell_method; auto simp: method_ok_def)
  then show ?thesis using assms by (simp add: method_ok_def)
qed

section \<open>Concrete servers\<close>

definition quota_cell :: cell where
  "quota_cell =
    \<lparr>cl_TypeMeta = \<lparr>tm_APIVersion = ''v1'', tm_Kind = ''Cell''\<rparr>,
     cl_Meta = \<lparr>om_Name = ''prod'', om_Namespace = '''', om_UID = ''u'', om_Labels = [], om_Annotations = [],
                om_CreatedAt = 1, om_UpdatedAt = 1\<rparr>,
     cl_Spec = \<lparr>ce_ResourceQuota = \<lparr>rq_MaxHives = 1, rq_MaxDronesPerHive = 0, rq_MaxTotalDrones = 0, rq_MaxMemoryGB = 0\<rparr>,
                ce_DefaultGuardrails = ss_Guardrails (as_Spec sample_spec)\<rparr>\<rparr>"

definition quota_hive :: hive where
  "quota_hive =
    \<lparr>hv_TypeMeta = \<lparr>tm_APIVersion = ''v1'', tm_Kind = ''Hive''\<rparr>,
     hv_Meta = \<lparr>om_Name = ''main'', om_Namespace = ''prod'', om_UID = ''u'', om_Labels = [], om_Annotations = [],
                om_CreatedAt = 1, om_UpdatedAt = 1\<rparr>,
     hv_Spec = \<lparr>hi_PoolMode = '''', hi_WarmPoolSize = 0,
       hi_Session = \<lparr>sn_TimeoutMinutes = 0, sn_MaxDurationMinutes = 0, sn_PersistOnTerminate = False,
         sn_PersistPath = '''', sn_MaxMemoryMB = 0\<rparr>,
       hi_Pattern = ''pipeline'', hi_Stages = [],
       hi_Routing = \<lparr>ro_DeadLetterTopic = '''', ro_RetryPolicy = \<lparr>rp_MaxRetries = 0, rp_BackoffMultiplier = 0, rp_InitialDelayMs = 0\<rparr>\<rparr>,
       hi_Guardrails = ss_Guardrails (as_Spec sample_spec), hi_Webhook = \<lparr>wh_URL = '''', wh_AuthHeader = ''''\<rparr>,
       hi_PatternSegments = []\<rparr>,
     hv_Status = \<lparr>hst_Phase = '''', hst_Message = '''', hst_ActiveDrones = 0\<rparr>\<rparr>"

definition idle_drone :: drone where
  "idle_drone =
    \<lparr>dr_TypeMeta = \<lparr>tm_APIVersion = ''v1'', tm_Kind = ''Drone''\<rparr>,
     dr_Meta = \<lparr>om_Name = ''d'', om_Namespace = ''prod'', om_UID = ''u'', om_Labels = [], om_Annotations = [],
                om_CreatedAt = 1, om_UpdatedAt = 1\<rparr>,
     dr_Status = \<lparr>dst_Phase = DronePhaseRunning, dst_Message = '''', dst_StartedAt = None, dst_KeeperAddr = '''', dst_Health = None\<rparr>,
     dr_Spec = None\<rparr>"

definition api_table :: resource_table where
  "api_table = [(''c'', RCell quota_cell), (''h'', RHive quota_hive), (''a'', RAgentSpec sample_spec),
    (''b'', RAgentSpec (set_replicas 2 sample_spec)), (''d'', RDrone idle_drone), (''e'', RDrone (mark_draining ''t'' idle_drone)),
    (''s'', RSecret \<lparr>sec_TypeMeta = \<lparr>tm_APIVersion = ''v1'', tm_Kind = ''Secret''\<rparr>,
       sec_Meta = \<lparr>om_Name = ''s'', om_Namespace = ''prod'', om_UID = ''u'', om_Labels = [], om_Annotations = [],
                om_CreatedAt = 1, om_UpdatedAt = 1\<rparr>, sec_Data = []\<rparr>)]"

abbreviation table_world_env :: "(string \<times> string) list world_env" where
  "table_world_env \<equiv> sample_world_env api_table"

lemma table_world_ok: "world_ok table_world_env"
  by (rule sample_world_ok) (simp add: api_table_def)

lemma table_world_uuids: "uuids_plain table_world_env"
proof -
  have "plain (nat_str i)" for i using int_str_plain [of "int i"] by (simp add: plain_def int_str_def)
  then show ?thesis by (simp add: uuids_plain_def sample_world_env_def plain_def)
qed

definition sample_api_env :: "(string \<times> string) list api_env" where
  "sample_api_env =
    \<lparr>ae_world = table_world_env, ae_unrouted = (\<lambda>_ _. ''''), ae_cell = (\<lambda>_. Inr quota_cell), ae_spec = (\<lambda>_. Inr sample_spec),
     ae_hive = (\<lambda>_. Inr quota_hive), ae_secret = (\<lambda>_. Inl ''''), ae_scale = (\<lambda>_. Inr 2), ae_scaleHive = (\<lambda>_. Inl ''''),
     ae_drain = (\<lambda>_. Inl ''''), ae_exec = (\<lambda>_. Inl ''''), ae_session = (\<lambda>_. Inl ''''), ae_message = (\<lambda>_. Inl ''''),
     ae_role = (\<lambda>_. Inr (''dev'', RoleAdmin)), ae_parseDuration = (\<lambda>_. Some (30 * second)), ae_mkreq = (\<lambda>_. True),
     ae_prom = (\<lambda>_. ''''), ae_enc = (\<lambda>_. Some ''x''), ae_dec = (\<lambda>_. ([], True))\<rparr>"

definition sample_http :: "string \<Rightarrow> string list \<Rightarrow> string \<Rightarrow> (string \<times> string) list http_request" where
  "sample_http m p user =
    \<lparr>hr_Method = m, hr_Path = p, hr_Query = (\<lambda>_. ''''), hr_Header = (\<lambda>h. if h = ''X-User-ID'' then user else ''''),
     hr_Body = '''', hr_Cancelled = False, hr_ctx = (\<lambda>_. None), hr_now = (\<lambda>_. 0), hr_stamp = (\<lambda>_. ''t''),
     hr_fetch = (\<lambda>_. Inl ''''), hr_post = (\<lambda>_ _. Inl ''''), hr_acts = (\<lambda>_. [])\<rparr>"

abbreviation empty_world :: "(string \<times> string) list world" where
  "empty_world \<equiv> NewWorld [] ''''"

definition sample_server :: "(string \<times> string) list server" where
  "sample_server = NewServer empty_world (Some NewStore) (Some [(''prod'', [(''dev'', RoleDeveloper), (''eve'', RoleViewer)])]) None
    (Some dlq_NewManager) None"

lemma empty_world_typed: "world_typed table_world_env empty_world"
  by (simp add: typed_def NewWorld_def NewStore_badger_def sample_world_env_def table_env_def sample_env_def)

lemma sample_server_ok: "server_ok sample_api_env sample_server"
  using empty_world_typed by (simp add: server_ok_def sample_server_def NewServer_def sample_api_env_def table_plain_def)


section \<open>Properties\<close>

lemma serve_roles: "cell \<noteq> request_cell rq \<Longrightarrow> role_in (fst (serve env rq sv)) cell u = role_in sv cell u"
  by (rule serve_cases) (simp_all add: handle_roles request_cell_def)

text \<open>C2: A request to a cell changes no resource and no role of another cell, whatever its method and the resource in its
  body, as long as the names in path and body are plain: every kind of resource reads the same afterwards.  (Requests about cells themselves change only
  resources without a namespace.)  It also keeps the state well typed, so that this holds for the next request.\<close>

theorem requests_stay_in_their_cell:
  assumes "world_ok (ae_world env)" "uuids_plain (ae_world env)" "server_ok env sv" "request_ok env rq"
    and "serve env rq sv = (sv', a)"
  shows "server_ok env sv' \<and>
    (\<forall>k n m. plain k \<and> plain n \<and> plain m \<and> m \<noteq> request_cell rq \<longrightarrow>
      w_Get (ae_world env) k n m (sv_world sv') = w_Get (ae_world env) k n m (sv_world sv)) \<and>
    (\<forall>cell u. cell \<noteq> request_cell rq \<longrightarrow> role_in sv' cell u = role_in sv cell u)"
proof (intro conjI allI impI)
  have sv': "sv' = fst (serve env rq sv)" using assms(5) by simp
  have k: "table_plain (sv_sessions sv') \<and> keeps (ae_world env) (request_cell rq) (sv_world sv) (sv_world sv')"
    using serve_keeps [OF assms(1,2,4), of sv] assms(3) unfolding sv' by (simp add: server_keeps_def)
  have t: "world_typed (ae_world env) (sv_world sv)" using assms(3) by (simp add: server_ok_def)
  show "server_ok env sv'" using k keeps_typed [OF conjunct2 [OF k] t] by (simp add: server_ok_def)
  show "w_Get (ae_world env) k n m (sv_world sv') = w_Get (ae_world env) k n m (sv_world sv)"
    if "plain k \<and> plain n \<and> plain m \<and> m \<noteq> request_cell rq" for k n m
    using keeps_Get [OF _ t] k that by blast
  show "role_in sv' cell u = role_in sv cell u" if "cell \<noteq> request_cell rq" for cell u
    using serve_roles [OF that] unfolding sv' .
qed

lemma request_ok_hive: "request_ok sample_api_env (sample_http ''POST'' [''api'', ''v1'', ''cells'', ''prod'', ''hives''] ''dev'')"
  by (simp add: request_ok_def setupRoutes_def route_cell_def sample_http_def plain_request_def namespace_ok_def plain_def
      plain_body_def sample_api_env_def quota_cell_def quota_hive_def sample_spec_def names acts_keep_def)

lemma requests_stay_in_their_cell_witness:
  "server_ok sample_api_env (fst (serve sample_api_env
      (sample_http ''POST'' [''api'', ''v1'', ''cells'', ''prod'', ''hives''] ''dev'') sample_server)) \<and>
   rsp_Status (snd (serve sample_api_env
      (sample_http ''POST'' [''api'', ''v1'', ''cells'', ''prod'', ''hives''] ''dev'') sample_server)) = 201"
proof
  obtain sv' a where s: "serve sample_api_env (sample_http ''POST'' [''api'', ''v1'', ''cells'', ''prod'', ''hives''] ''dev'')
      sample_server = (sv', a)" by fastforce
  have w: "ae_world sample_api_env = table_world_env" by (simp add: sample_api_env_def)
  show "server_ok sample_api_env (fst (serve sample_api_env
      (sample_http ''POST'' [''api'', ''v1'', ''cells'', ''prod'', ''hives''] ''dev'') sample_server))"
    using requests_stay_in_their_cell [OF _ _ sample_server_ok request_ok_hive s] table_world_ok table_world_uuids s
    unfolding w by simp
  show "rsp_Status (snd (serve sample_api_env
      (sample_http ''POST'' [''api'', ''v1'', ''cells'', ''prod'', ''hives''] ''dev'') sample_server)) = 201"
    by code_simp
qed



text \<open>What each role of a cell permits, by the method of a request: an administrator everything, a developer
  everything but deletion, a viewer to read.\<close>

definition role_permits :: "role \<Rightarrow> string \<Rightarrow> bool" where
  "role_permits role m \<longleftrightarrow> role = ''admin'' \<or> (role = ''developer'' \<and> m \<in> {''GET'', ''POST'', ''PUT''}) \<or>
    (role = ''viewer'' \<and> m = ''GET'')"

lemma CheckPermission_permits:
  assumes "method_permission m = Some q" "m \<in> {''GET'', ''POST'', ''PUT'', ''DELETE''}"
  shows "CheckPermission (Some p) cell q r \<longleftrightarrow> (\<exists>role. GetRole cell (pr_ID p) r = Some role \<and> role_permits role m)"
  using assms by (auto simp: CheckPermission_def role_permits_def hasPermission_def method_permission_def split: option.split if_splits)

lemma authorize_iff:
  assumes "sv_rbac sv = Some r" "sv_requireAuth sv" "setupRoutes (hr_Method rq) (hr_Path rq) = Some e" "param_namespace e \<noteq> ''''"
  shows "authorize env rq (Some e) sv =
    (case ExtractPrincipalFromHeader (hr_Header rq) of
       None \<Rightarrow> Respond 401
     | Some p \<Rightarrow> if \<exists>role. GetRole (param_namespace e) (pr_ID p) r = Some role \<and> role_permits role (hr_Method rq)
                then CallNext else Respond 403)"
proof -
  have m: "hr_Method rq \<in> {''GET'', ''POST'', ''PUT'', ''DELETE''}" using setupRoutes_method [OF assms(3)] by blast
  then obtain q where q: "method_permission (hr_Method rq) = Some q" by (auto simp: method_permission_def)
  show ?thesis using assms(1,2,4) q CheckPermission_permits [OF q m]
    by (simp add: authorize_def AuthorizationMiddleware_def PrincipalMiddleware_def split: option.split) blast
qed

text \<open>C4: Where authentication is required, a request to a path inside a cell is refused with 401 or 403 (or 408, when it is
  cancelled) and changes nothing, unless it names a user whose role in that cell permits its method.\<close>

theorem changes_need_a_role:
  assumes "sv_rbac sv = Some r" and "sv_requireAuth sv" and "request_cell rq \<noteq> ''''"
    and "\<forall>p role. ExtractPrincipalFromHeader (hr_Header rq) = Some p \<and> GetRole (request_cell rq) (pr_ID p) r = Some role \<longrightarrow>
      \<not> role_permits role (hr_Method rq)"
    and "serve env rq sv = (sv', a)"
  shows "sv' = sv \<and> rsp_Status a \<in> {401, 403, 408}"
proof -
  obtain e where e: "setupRoutes (hr_Method rq) (hr_Path rq) = Some e" "param_namespace e = request_cell rq"
    using assms(3) by (cases "setupRoutes (hr_Method rq) (hr_Path rq)") (simp_all add: request_cell_def)
  have "authorize env rq (Some e) sv \<in> {Respond 401, Respond 403}"
    using authorize_iff [OF assms(1,2) e(1), of env] assms(3,4) e(2) by (auto split: option.split)
  then show ?thesis using assms(5) e(1)
    by (auto simp: serve_def contextValidationMiddleware_def errorResponse_def refused_def Let_def split: if_splits)
qed

text \<open>A developer may not delete.\<close>

lemma changes_need_a_role_witness:
  "fst (serve sample_api_env (sample_http ''DELETE'' [''api'', ''v1'', ''cells'', ''prod'', ''hives'', ''main''] ''dev'')
      sample_server) = sample_server"
proof -
  let ?rq = "sample_http ''DELETE'' [''api'', ''v1'', ''cells'', ''prod'', ''hives'', ''main''] ''dev''"
  obtain sv' a where s: "serve sample_api_env ?rq sample_server = (sv', a)" by fastforce
  have c: "request_cell ?rq = ''prod''" by (simp add: request_cell_def setupRoutes_def route_cell_def sample_http_def)
  have r: "sv_rbac sample_server = Some [(''prod'', [(''dev'', RoleDeveloper), (''eve'', RoleViewer)])]"
    by (simp add: sample_server_def NewServer_def)
  have q: "sv_requireAuth sample_server" by (simp add: sample_server_def NewServer_def)
  have ne: "request_cell ?rq \<noteq> ''''" by (simp add: c)
  have p: "\<forall>p role. ExtractPrincipalFromHeader (hr_Header ?rq) = Some p \<and>
      GetRole (request_cell ?rq) (pr_ID p) [(''prod'', [(''dev'', RoleDeveloper), (''eve'', RoleViewer)])] = Some role \<longrightarrow>
      \<not> role_permits role (hr_Method ?rq)"
    unfolding c by (auto simp: ExtractPrincipalFromHeader_def sample_http_def GetRole_def role_permits_def Let_def)
  show ?thesis using changes_need_a_role [OF r q ne p s] s by simp
qed


text \<open>C22: A developer of a cell can make himself its administrator: the permission to create, which is all a
  POST needs, covers the assignment of roles.\<close>

theorem developer_becomes_admin:
  assumes "sv_rbac sv = Some r" and "validateNamespace ns = None" and "user \<noteq> ''''"
    and "GetRole ns user r = Some RoleDeveloper"
    and "hr_Method rq = ''POST''" "hr_Path rq = [''api'', ''v1'', ''cells'', ns, ''roles'']" "hr_Header rq ''X-User-ID'' = user"
    and "ae_role env (hr_Body rq) = Inr (user, RoleAdmin)" "\<not> hr_Cancelled rq" and "serve env rq sv = (sv', a)"
  shows "rsp_Status a = 201 \<and> role_in sv' ns user = Some RoleAdmin \<and> (\<forall>q. \<exists>r'. sv_rbac sv' = Some r' \<and>
    CheckPermission (Some \<lparr>pr_ID = user, pr_Name = user\<rparr>) ns q r')"
proof -
  have ns: "ns \<noteq> ''''" using assms(2) by (auto simp: validateNamespace_def)
  have e: "setupRoutes (hr_Method rq) (hr_Path rq) = Some (AssignRoleE ns)"
    using assms(5,6) by (simp add: setupRoutes_def route_cell_def)
  have auth: "authorize env rq (Some (AssignRoleE ns)) sv = CallNext"
    using assms(1,3,4,5,7) ns by (simp add: authorize_def AuthorizationMiddleware_def PrincipalMiddleware_def
        ExtractPrincipalFromHeader_def method_permission_def CheckPermission_def hasPermission_def Let_def)
  have h: "handle env rq (AssignRoleE ns) sv =
      (sv\<lparr>sv_rbac := Some (fst (AssignRole ns user RoleAdmin r))\<rparr>, \<lparr>rsp_Status = 201, rsp_Body = NoBody\<rparr>)"
    using assms(1,2,3,8) ns by (simp add: on_rbac_def assignRoleHandler_def with_rbac_def AssignRole_def isValidRole_def Let_def)
  have "serve env rq sv = handle env rq (AssignRoleE ns) sv"
    using e auth assms(9) by (simp add: serve_def contextValidationMiddleware_def)
  then show ?thesis using h assms(3,10) ns
    by (auto simp: role_in_def AssignRole_def GetRole_def isValidRole_def CheckPermission_def hasPermission_def Let_def)
qed

lemma developer_becomes_admin_witness:
  "role_in (fst (serve sample_api_env (sample_http ''POST'' [''api'', ''v1'', ''cells'', ''prod'', ''roles''] ''dev'') sample_server))
     ''prod'' ''dev'' = Some RoleAdmin"
proof -
  let ?rq = "sample_http ''POST'' [''api'', ''v1'', ''cells'', ''prod'', ''roles''] ''dev''"
  obtain sv' a where s: "serve sample_api_env ?rq sample_server = (sv', a)" by fastforce
  have v: "validateNamespace ''prod'' = None" by code_simp
  show ?thesis
    using developer_becomes_admin [OF _ v _ _ _ _ _ _ _ s, of "[(''prod'', [(''dev'', RoleDeveloper), (''eve'', RoleViewer)])]" "''dev''"] s
    by (simp add: sample_server_def NewServer_def sample_http_def sample_api_env_def GetRole_def)
qed

text \<open>The data the session memory holds under an identifier.\<close>

definition memory_of :: "string \<Rightarrow> 'd session_api \<Rightarrow> session_data option" where
  "memory_of sid st = (case sa_comb st of None \<Rightarrow> None | Some c \<Rightarrow> map_of (cs_data c) sid)"

lemma namespaced_neq: "CHR '':'' \<notin> set sid \<Longrightarrow> namespacedSessionID ns i \<noteq> sid"
  by (auto simp: namespacedSessionID_def)

lemma comb_Clear_other: "sid' \<noteq> sid \<Longrightarrow> map_of (cs_data (fst (comb_Clear ctx ctxs sid c))) sid' = map_of (cs_data c) sid'"
  by (simp add: comb_Clear_def Let_def split: option.split prod.split)

lemma sendMessage_comb:
  assumes "sendMessage enc dec nil env ctx now clock ns sid bind st = (st', rsp)" and "sa_comb st = Some c" and "sid' \<noteq> sid"
  shows "\<exists>c'. sa_comb st' = Some c' \<and> map_of (cs_data c') sid' = map_of (cs_data c) sid'"
proof -
  obtain st1 r where f: "find_owned env ns sid st = (st1, r)" by fastforce
  have c: "sa_comb st1 = Some c" using find_owned_keeps [OF f] assms(2) by simp
  show ?thesis using assms(1) f c comb_AppendConversation_other [OF assms(3)]
    by (auto simp: sendMessage_def split: sum.splits if_splits prod.splits option.splits)
qed

text \<open>C24: The messages sent to sessions are kept where no request looks for them: what the memory of any
  session reads as does not depend on a message sent, and deleting any session leaves the messages behind.\<close>

theorem sent_messages_never_read:
  assumes "sa_comb st = Some c" and "CHR '':'' \<notin> set sid"
    and "sendMessage enc dec nil env ctx now clock ns sid bind st = (st', rsp)"
  shows "snd (getSessionMemory env2 kctx kctxs know gctx gnow ns2 i st') =
      snd (getSessionMemory env2 kctx kctxs know gctx gnow ns2 i (st'\<lparr>sa_comb := Some c\<rparr>)) \<and>
    memory_of sid (fst (deleteSession_api env2 dctx dctxs ns2 i st')) = memory_of sid st'"
proof
  obtain c' where c': "sa_comb st' = Some c'"
      "map_of (cs_data c') (namespacedSessionID ns2 i) = map_of (cs_data c) (namespacedSessionID ns2 i)"
    using sendMessage_comb [OF assms(3,1) namespaced_neq [OF assms(2)]] by blast
  show "snd (getSessionMemory env2 kctx kctxs know gctx gnow ns2 i st') =
      snd (getSessionMemory env2 kctx kctxs know gctx gnow ns2 i (st'\<lparr>sa_comb := Some c\<rparr>))"
    using getSessionMemory_cong [OF c'] by metis
  obtain st1 r where f: "find_owned env2 ns2 i st' = (st1, r)" by fastforce
  show "memory_of sid (fst (deleteSession_api env2 dctx dctxs ns2 i st')) = memory_of sid st'"
    using find_owned_keeps [OF f] f c'(1) namespaced_neq [OF assms(2), of ns2 i, symmetric]
    by (auto simp: deleteSession_api_def memory_of_def comb_Clear_other split: sum.split option.split prod.split)
qed

definition sample_sessions :: "(string \<times> string) list session_api" where
  "sample_sessions =
    \<lparr>sa_table = [(''s'', \<lparr>en_Session = new_session \<lparr>sq_Namespace = ''prod'', sq_HiveName = '''', sq_TimeoutMinutes = 0,
        sq_MaxDurationMinutes = 0, sq_PersistOnTerminate = False, sq_PersistPath = '''', sq_MaxMemoryMB = 0\<rparr> ''s'' 0,
        en_LastActivity = 0\<rparr>)],
     sa_comb = Some NewStore, sa_world = empty_world\<rparr>"

lemma sent_messages_never_read_witness:
  "\<exists>st' rsp. sendMessage (\<lambda>_. Some ''x'') (\<lambda>_. ([], True)) () table_world_env (\<lambda>_. None) (\<lambda>_. 0) 0 ''prod'' ''s''
      (Inr \<lparr>mq_Type = ''t'', mq_Content = ''hello'', mq_AgentID = ''''\<rparr>) sample_sessions = (st', rsp) \<and>
    rsp_Status rsp = 200 \<and>
    rsp_Body (snd (getSessionMemory table_world_env None (\<lambda>_. None) 0 (\<lambda>_. None) (\<lambda>_. 0) ''prod'' ''s'' st')) =
      OtherBody (MemoryBody [] []) \<and>
    memory_of ''s'' (fst (deleteSession_api table_world_env None (\<lambda>_. None) ''prod'' ''s'' st')) =
      Some [(''_conversation:s'', \<lparr>ent_value = ''x'', ent_expiresAt = None\<rparr>)]"
proof -
  let ?send = "sendMessage (\<lambda>_. Some ''x'') (\<lambda>_. ([], True)) () table_world_env (\<lambda>_. None) (\<lambda>_. 0) 0 ''prod'' ''s''
      (Inr \<lparr>mq_Type = ''t'', mq_Content = ''hello'', mq_AgentID = ''''\<rparr>) sample_sessions"
  obtain st' rsp where s: "?send = (st', rsp)" by fastforce
  have "rsp_Status (snd ?send) = 200 \<and>
      memory_of ''s'' (fst ?send) = Some [(''_conversation:s'', \<lparr>ent_value = ''x'', ent_expiresAt = None\<rparr>)] \<and>
      rsp_Body (snd (getSessionMemory table_world_env None (\<lambda>_. None) 0 (\<lambda>_. None) (\<lambda>_. 0) ''prod'' ''s''
        ((fst ?send)\<lparr>sa_comb := Some NewStore\<rparr>))) = OtherBody (MemoryBody [] [])"
    by code_simp
  moreover have "sa_comb sample_sessions = Some NewStore" by (simp add: sample_sessions_def)
  ultimately show ?thesis using sent_messages_never_read [OF _ _ s, of NewStore] s by simp
qed


definition world_with_cell :: "(string \<times> string) list world" where
  "world_with_cell = fst (createCell table_world_env (Inr quota_cell) empty_world :: _ \<times> answer)"



text \<open>C37: A drain that is answered with success leaves no readable drone of the name, whatever the other
  parts of the platform did meanwhile and however the wait ended; a forced one leaves none at all.\<close>

theorem drained_drone_is_gone:
  assumes "world_ok env" "world_typed env w" "namespace_ok ns" "plain i"
    and "drainDrone pd acts env ns i bind now w = (w', rsp)" and "success rsp"
  shows "\<exists>e. w_Get env ''Drone'' i ns w' = Inl e \<and> (dq_Force (drain_bind bind) \<longrightarrow> e = ErrNotFound)"
proof -
  obtain d w1 t where d: "w_Get env ''Drone'' i ns w = Inr (RDrone d)"
      "w_Update env (RDrone (mark_draining now d)) w = (w1, None)"
      "(if dq_Force (drain_bind bind) then drain_delete env i ns (''Drone '' @ i @ '' force drained and deleted'') w1
        else drain_loop env i ns (acts t) w1) = (w', rsp)"
    using assms(5,6)
    by (auto simp: drainDrone_def cast_failed_def Let_def split: sum.splits resource.splits option.splits prod.splits
        simp del: if_split)
  show ?thesis
  proof (cases "dq_Force (drain_bind bind)")
    case True
    then show ?thesis using d(3) drain_delete_gone [OF assms(1,3,4) _ assms(6)] by auto
  next
    case False
    then show ?thesis using d(3) drain_loop_gone [OF assms(1,3,4) _ assms(6)] by auto
  qed
qed

definition world_with_drone :: "(string \<times> string) list world" where
  "world_with_drone = fst (w_Create table_world_env (RDrone idle_drone) empty_world)"

lemma world_with_drone_typed: "world_typed table_world_env world_with_drone"
  unfolding world_with_drone_def
  by (rule w_Create_typed [OF table_world_ok empty_world_typed _ _ prod.collapse [symmetric]])
    (simp_all add: idle_drone_def names plain_def namespace_ok_def)

lemma drained_drone_is_gone_witness:
  "\<exists>w' rsp. drainDrone (\<lambda>_. Some second) (\<lambda>_. [id, id]) table_world_env ''prod'' ''d'' (Inr \<lparr>dq_Force = False, dq_Timeout = ''1s''\<rparr>) ''t''
      world_with_drone = (w', rsp :: answer) \<and> rsp_Status rsp = 200 \<and> (\<exists>e. w_Get table_world_env ''Drone'' ''d'' ''prod'' w' = Inl e)"
proof -
  let ?d = "drainDrone (\<lambda>_. Some second) (\<lambda>_. [id, id]) table_world_env ''prod'' ''d'' (Inr \<lparr>dq_Force = False, dq_Timeout = ''1s''\<rparr>) ''t''
      world_with_drone"
  obtain w' and rsp :: answer where s: "?d = (w', rsp)" by fastforce
  have "rsp_Status (snd ?d :: answer) = 200" by code_simp
  then have st: "rsp_Status rsp = 200" by (simp only: s snd_conv)
  then have "success rsp" by (simp add: success_def)
  then show ?thesis using drained_drone_is_gone [OF table_world_ok world_with_drone_typed _ _ s] s st
    by (auto simp: plain_def namespace_ok_def)
qed

text \<open>Scaling an agent specification pins it: after a successful scaling to a positive number, every later
  scaling to another number is refused, because the request overwrites the limits it is checked against.\<close>

lemma scaling_pins_replicas:
  assumes "world_ok env" "world_typed env w" "namespace_ok ns" "plain name"
    and "scaleAgentSpec env ns name (Inr n) w = (w1, rsp1)" "success rsp1" "0 < n" "k \<noteq> n"
    and "scaleAgentSpec env ns name (Inr k) w1 = (w2, rsp2)"
  shows "w2 = w1 \<and> rsp_Status rsp2 = 400"
proof -
  obtain spec where "w_Get env ''AgentSpec'' name ns w1 = Inr (RAgentSpec (set_replicas n spec))"
    using scaleAgentSpec_success [OF assms(1-6)] by auto
  then show ?thesis using assms(7-9)
    by (auto simp: scaleAgentSpec_def set_replicas_def bad_request_def errorResponse_def Let_def split: if_splits)
qed

end
