(* ===== verification/Proto_Convert.thy ===== *)
theory Proto_Convert
  imports Apiary_Types "HOL-Library.Word"
begin

text \<open>
  \<open>internal/api/grpc_convert.go\<close>: the conversions between the messages of the gRPC interface and the
  resources.  The messages are those of \<open>api/proto/v1\<close>, reduced to the fields the conversions
  touch: a pointer is an option (a getter of a nil message gives the zero value), an \<open>int32\<close> is a
  32-bit word, read with \<open>sint\<close>, and a timestamp is the time it stands for.

  \<open>encoding/json\<close> is the record \<open>json\<close> of functions, of which the last says how a value of a dynamic
  type that the model does not name is read back.  An empty and a nil map are both the empty
  list, so an empty output schema is converted like a missing one.
\<close>

section \<open>Messages\<close>

type_synonym int32 = "32 word"

record json =
  js_encMap :: "(string \<times> go_value) list \<Rightarrow> string option"
  js_decMap :: "string \<Rightarrow> (string \<times> go_value) list option"
  js_enc :: "go_value \<Rightarrow> string option"
  js_dec :: "string \<Rightarrow> go_value option"
  js_other :: "string \<Rightarrow> go_value"

record p_object_meta =
  po_name :: string
  po_namespace :: string
  po_uid :: string
  po_labels :: labels
  po_annotations :: labels
  po_createdAt :: "time option"
  po_updatedAt :: "time option"

record p_env_var =
  pv_name :: string
  pv_value :: string
  pv_valueFrom :: "secret_key_selector option option"

record p_runtime =
  pr_command :: "string list"
  pr_workingDir :: string
  pr_env :: "p_env_var option list"

record p_interface =
  pi_type :: string
  pi_port :: int32
  pi_healthPath :: string
  pi_messagePath :: string

record p_resources =
  ps_requests :: "resource_requirements option"
  ps_limits :: "resource_requirements option"
  ps_tokenBudget :: int

record p_scaling =
  pc_minReplicas :: int32
  pc_maxReplicas :: int32
  pc_targetLatencyMs :: int32
  pc_scaleUpThreshold :: rat
  pc_scaleDownThreshold :: rat
  pc_cooldownSeconds :: int32

record p_guardrails =
  pg_responseTimeoutSeconds :: int32
  pg_rateLimitPerMinute :: int32
  pg_outputSchema :: string
  pg_tokenBudgetPerRequest :: int
  pg_tokenBudgetPerSession :: int
  pg_tokenBudgetPerMinute :: int

record p_spec_spec =
  px_runtime :: "p_runtime option"
  px_interface :: "p_interface option"
  px_resources :: "p_resources option"
  px_scaling :: "p_scaling option"
  px_taskTier :: string
  px_guardrails :: "p_guardrails option"

record p_agent_spec =
  pa_typeMeta :: "type_meta option"
  pa_metadata :: "p_object_meta option"
  pa_spec :: "p_spec_spec option"

record p_health =
  ph_healthy :: bool
  ph_message :: string
  ph_timestamp :: "time option"
  ph_details :: "(string \<times> string) list"

datatype p_drone_phase = PDUnspecified | PDPending | PDStarting | PDRunning | PDStopping | PDStopped | PDFailed

record p_drone_status =
  pd_phase :: p_drone_phase
  pd_message :: string
  pd_startedAt :: "time option"
  pd_keeperAddr :: string
  pd_health :: "p_health option"

record p_drone =
  pn_typeMeta :: "type_meta option"
  pn_metadata :: "p_object_meta option"
  pn_status :: "p_drone_status option"
  pn_spec :: "p_agent_spec option"

record p_retry =
  py_maxRetries :: int32
  py_backoffMultiplier :: int32
  py_initialDelayMs :: int32

record p_session_config =
  pq_timeoutMinutes :: int32
  pq_maxDurationMinutes :: int32
  pq_persistOnTerminate :: bool
  pq_persistPath :: string
  pq_maxMemoryMb :: int32

record p_stage =
  pt_name :: string
  pt_agentRef :: string

record p_routing =
  pu_deadLetterTopic :: string
  pu_retryPolicy :: "p_retry option"

record p_hive_spec =
  pw_poolMode :: string
  pw_warmPoolSize :: int32
  pw_session :: "p_session_config option"
  pw_pattern :: string
  pw_stages :: "p_stage option list"
  pw_routing :: "p_routing option"
  pw_guardrails :: "p_guardrails option"
  pw_webhook :: "webhook_config option"

datatype p_hive_phase = PHUnspecified | PHPending | PHActive | PHPaused | PHFailed

record p_hive_status =
  pz_phase :: p_hive_phase
  pz_message :: string
  pz_activeDrones :: int32

record p_hive =
  pk_typeMeta :: "type_meta option"
  pk_metadata :: "p_object_meta option"
  pk_spec :: "p_hive_spec option"
  pk_status :: "p_hive_status option"

record p_quota =
  pl_maxHives :: int32
  pl_maxDronesPerHive :: int32
  pl_maxTotalDrones :: int32
  pl_maxMemoryGb :: int32

text \<open>The defaults of a cell hold guardrails only.\<close>

record p_cell_spec =
  pj_quota :: "p_quota option"
  pj_defaults :: "p_guardrails option option"

record p_cell =
  pb_typeMeta :: "type_meta option"
  pb_metadata :: "p_object_meta option"
  pb_spec :: "p_cell_spec option"

record p_secret =
  pf_typeMeta :: "type_meta option"
  pf_metadata :: "p_object_meta option"
  pf_data :: "(string \<times> string) list"

section \<open>Zero values\<close>

definition zero_type_meta :: type_meta where
  "zero_type_meta = \<lparr>tm_APIVersion = '''', tm_Kind = ''''\<rparr>"

definition zero_object_meta :: object_meta where
  "zero_object_meta = \<lparr>om_Name = '''', om_Namespace = '''', om_UID = '''', om_Labels = [], om_Annotations = [],
     om_CreatedAt = zero_time, om_UpdatedAt = zero_time\<rparr>"

definition zero_requirements :: resource_requirements where
  "zero_requirements = \<lparr>rr_CPU = 0, rr_Memory = 0\<rparr>"

definition zero_runtime :: runtime_config where
  "zero_runtime = \<lparr>rc_Command = [], rc_WorkingDir = '''', rc_Env = []\<rparr>"

definition zero_interface :: interface_config where
  "zero_interface = \<lparr>ic_Type = '''', ic_Port = 0, ic_HealthPath = '''', ic_MessagePath = ''''\<rparr>"

definition zero_resources :: resource_config where
  "zero_resources = \<lparr>rs_Requests = zero_requirements, rs_Limits = zero_requirements, rs_TokenBudgetPerRequest = 0\<rparr>"

definition zero_scaling :: scaling_config where
  "zero_scaling = \<lparr>sc_MinReplicas = 0, sc_MaxReplicas = 0, sc_TargetLatencyMs = 0, sc_ScaleUpThreshold = 0,
     sc_ScaleDownThreshold = 0, sc_CooldownSeconds = 0\<rparr>"

definition zero_guardrails :: guardrail_config where
  "zero_guardrails = \<lparr>gc_ResponseTimeoutSeconds = 0, gc_RateLimitPerMinute = 0, gc_OutputSchema = [],
     gc_TokenBudgetPerRequest = 0, gc_TokenBudgetPerSession = 0, gc_TokenBudgetPerMinute = 0\<rparr>"

definition zero_spec :: agent_spec_spec where
  "zero_spec = \<lparr>ss_Runtime = zero_runtime, ss_Interface = zero_interface, ss_Resources = zero_resources,
     ss_Scaling = zero_scaling, ss_TaskTier = '''', ss_Guardrails = zero_guardrails\<rparr>"

definition zero_retry :: retry_policy where
  "zero_retry = \<lparr>rp_MaxRetries = 0, rp_BackoffMultiplier = 0, rp_InitialDelayMs = 0\<rparr>"

definition zero_session :: session_config where
  "zero_session = \<lparr>sn_TimeoutMinutes = 0, sn_MaxDurationMinutes = 0, sn_PersistOnTerminate = False,
     sn_PersistPath = '''', sn_MaxMemoryMB = 0\<rparr>"

definition zero_routing :: routing_config where
  "zero_routing = \<lparr>ro_DeadLetterTopic = '''', ro_RetryPolicy = zero_retry\<rparr>"

definition zero_webhook :: webhook_config where
  "zero_webhook = \<lparr>wh_URL = '''', wh_AuthHeader = ''''\<rparr>"

definition zero_hive_spec :: hive_spec where
  "zero_hive_spec = \<lparr>hi_PoolMode = '''', hi_WarmPoolSize = 0, hi_Session = zero_session, hi_Pattern = '''',
     hi_Stages = [], hi_Routing = zero_routing, hi_Guardrails = zero_guardrails, hi_Webhook = zero_webhook,
     hi_PatternSegments = []\<rparr>"

definition zero_quota :: resource_quota where
  "zero_quota = \<lparr>rq_MaxHives = 0, rq_MaxDronesPerHive = 0, rq_MaxTotalDrones = 0, rq_MaxMemoryGB = 0\<rparr>"

definition zero_stage :: stage where
  "zero_stage = \<lparr>st_Name = '''', st_AgentRef = '''', st_Replicas = 0, st_Parallel = False, st_WaitForAll = False\<rparr>"

section \<open>Conversions of the parts\<close>

text \<open>Go's conversions between \<open>int\<close> and \<open>int32\<close>.\<close>

definition to32 :: "int \<Rightarrow> int32" where
  "to32 x = word_of_int x"

definition from32 :: "int32 \<Rightarrow> int" where
  "from32 x = sint x"

definition timestampToTime :: "time option \<Rightarrow> time" where
  "timestampToTime ts = (case ts of None \<Rightarrow> zero_time | Some t \<Rightarrow> t)"

definition timeToTimestamp :: "time \<Rightarrow> time option" where
  "timeToTimestamp t = (if t = zero_time then None else Some t)"

definition typeMetaToProto :: "type_meta \<Rightarrow> type_meta option" where
  "typeMetaToProto tm = (if tm_APIVersion tm = '''' \<and> tm_Kind tm = '''' then None else Some tm)"

definition typeMetaFromProto :: "type_meta option \<Rightarrow> type_meta" where
  "typeMetaFromProto tm = (case tm of None \<Rightarrow> zero_type_meta | Some tm \<Rightarrow> tm)"

definition objectMetaToProto :: "object_meta \<Rightarrow> p_object_meta" where
  "objectMetaToProto om =
    \<lparr>po_name = om_Name om, po_namespace = om_Namespace om, po_uid = om_UID om, po_labels = om_Labels om,
     po_annotations = om_Annotations om, po_createdAt = timeToTimestamp (om_CreatedAt om),
     po_updatedAt = timeToTimestamp (om_UpdatedAt om)\<rparr>"

definition objectMetaFromProto :: "p_object_meta option \<Rightarrow> object_meta" where
  "objectMetaFromProto om =
    (case om of
       None \<Rightarrow> zero_object_meta
     | Some om \<Rightarrow> \<lparr>om_Name = po_name om, om_Namespace = po_namespace om, om_UID = po_uid om, om_Labels = po_labels om,
         om_Annotations = po_annotations om, om_CreatedAt = timestampToTime (po_createdAt om),
         om_UpdatedAt = timestampToTime (po_updatedAt om)\<rparr>)"

definition resourceRequirementsToProto :: "resource_requirements \<Rightarrow> resource_requirements" where
  "resourceRequirementsToProto rr = \<lparr>rr_CPU = rr_CPU rr, rr_Memory = rr_Memory rr\<rparr>"

definition resourceRequirementsFromProto :: "resource_requirements option \<Rightarrow> resource_requirements" where
  "resourceRequirementsFromProto rr =
    (case rr of None \<Rightarrow> zero_requirements | Some rr \<Rightarrow> \<lparr>rr_CPU = rr_CPU rr, rr_Memory = rr_Memory rr\<rparr>)"

text \<open>A source without a key reference is dereferenced: the outer \<open>None\<close> of the result is the panic.\<close>

definition envVarToProto :: "env_var \<Rightarrow> p_env_var option" where
  "envVarToProto ev =
    (case ev_ValueFrom ev of
       None \<Rightarrow> Some \<lparr>pv_name = ev_Name ev, pv_value = ev_Value ev, pv_valueFrom = None\<rparr>
     | Some None \<Rightarrow> None
     | Some (Some key) \<Rightarrow> Some \<lparr>pv_name = ev_Name ev, pv_value = ev_Value ev, pv_valueFrom = Some (Some key)\<rparr>)"

definition envVarFromProto :: "p_env_var option \<Rightarrow> env_var" where
  "envVarFromProto ev =
    (case ev of
       None \<Rightarrow> \<lparr>ev_Name = '''', ev_Value = '''', ev_ValueFrom = None\<rparr>
     | Some ev \<Rightarrow> \<lparr>ev_Name = pv_name ev, ev_Value = pv_value ev,
         ev_ValueFrom = (case pv_valueFrom ev of Some (Some key) \<Rightarrow> Some (Some key) | _ \<Rightarrow> None)\<rparr>)"

definition runtimeConfigToProto :: "runtime_config \<Rightarrow> p_runtime option" where
  "runtimeConfigToProto rc =
    map_option (\<lambda>env. \<lparr>pr_command = rc_Command rc, pr_workingDir = rc_WorkingDir rc, pr_env = map Some env\<rparr>)
      (those (map envVarToProto (rc_Env rc)))"

definition runtimeConfigFromProto :: "p_runtime option \<Rightarrow> runtime_config" where
  "runtimeConfigFromProto rc =
    (case rc of
       None \<Rightarrow> zero_runtime
     | Some rc \<Rightarrow> \<lparr>rc_Command = pr_command rc, rc_WorkingDir = pr_workingDir rc,
         rc_Env = map envVarFromProto (pr_env rc)\<rparr>)"

definition interfaceConfigToProto :: "interface_config \<Rightarrow> p_interface" where
  "interfaceConfigToProto ic =
    \<lparr>pi_type = ic_Type ic, pi_port = to32 (ic_Port ic), pi_healthPath = ic_HealthPath ic, pi_messagePath = ic_MessagePath ic\<rparr>"

definition interfaceConfigFromProto :: "p_interface option \<Rightarrow> interface_config" where
  "interfaceConfigFromProto ic =
    (case ic of
       None \<Rightarrow> zero_interface
     | Some ic \<Rightarrow> \<lparr>ic_Type = pi_type ic, ic_Port = from32 (pi_port ic), ic_HealthPath = pi_healthPath ic,
         ic_MessagePath = pi_messagePath ic\<rparr>)"

definition resourceConfigToProto :: "resource_config \<Rightarrow> p_resources" where
  "resourceConfigToProto rc =
    \<lparr>ps_requests = Some (resourceRequirementsToProto (rs_Requests rc)),
     ps_limits = Some (resourceRequirementsToProto (rs_Limits rc)), ps_tokenBudget = rs_TokenBudgetPerRequest rc\<rparr>"

definition resourceConfigFromProto :: "p_resources option \<Rightarrow> resource_config" where
  "resourceConfigFromProto rc =
    (case rc of
       None \<Rightarrow> zero_resources
     | Some rc \<Rightarrow> \<lparr>rs_Requests = resourceRequirementsFromProto (ps_requests rc),
         rs_Limits = resourceRequirementsFromProto (ps_limits rc), rs_TokenBudgetPerRequest = ps_tokenBudget rc\<rparr>)"

definition scalingConfigToProto :: "scaling_config \<Rightarrow> p_scaling" where
  "scalingConfigToProto sc =
    \<lparr>pc_minReplicas = to32 (sc_MinReplicas sc), pc_maxReplicas = to32 (sc_MaxReplicas sc),
     pc_targetLatencyMs = to32 (sc_TargetLatencyMs sc), pc_scaleUpThreshold = sc_ScaleUpThreshold sc,
     pc_scaleDownThreshold = sc_ScaleDownThreshold sc, pc_cooldownSeconds = to32 (sc_CooldownSeconds sc)\<rparr>"

definition scalingConfigFromProto :: "p_scaling option \<Rightarrow> scaling_config" where
  "scalingConfigFromProto sc =
    (case sc of
       None \<Rightarrow> zero_scaling
     | Some sc \<Rightarrow> \<lparr>sc_MinReplicas = from32 (pc_minReplicas sc), sc_MaxReplicas = from32 (pc_maxReplicas sc),
         sc_TargetLatencyMs = from32 (pc_targetLatencyMs sc), sc_ScaleUpThreshold = pc_scaleUpThreshold sc,
         sc_ScaleDownThreshold = pc_scaleDownThreshold sc, sc_CooldownSeconds = from32 (pc_cooldownSeconds sc)\<rparr>)"

definition guardrailConfigToProto :: "json \<Rightarrow> guardrail_config \<Rightarrow> p_guardrails" where
  "guardrailConfigToProto js gc =
    (let outputSchema = (if gc_OutputSchema gc \<noteq> []
           then (case js_encMap js (gc_OutputSchema gc) of None \<Rightarrow> '''' | Some data \<Rightarrow> data) else '''')
     in \<lparr>pg_responseTimeoutSeconds = to32 (gc_ResponseTimeoutSeconds gc),
         pg_rateLimitPerMinute = to32 (gc_RateLimitPerMinute gc), pg_outputSchema = outputSchema,
         pg_tokenBudgetPerRequest = gc_TokenBudgetPerRequest gc, pg_tokenBudgetPerSession = gc_TokenBudgetPerSession gc,
         pg_tokenBudgetPerMinute = gc_TokenBudgetPerMinute gc\<rparr>)"

definition guardrailConfigFromProto :: "json \<Rightarrow> p_guardrails option \<Rightarrow> guardrail_config" where
  "guardrailConfigFromProto js gc =
    (case gc of
       None \<Rightarrow> zero_guardrails
     | Some gc \<Rightarrow>
        (let outputSchema = (if pg_outputSchema gc \<noteq> ''''
               then (case js_decMap js (pg_outputSchema gc) of None \<Rightarrow> [] | Some m \<Rightarrow> m) else [])
         in \<lparr>gc_ResponseTimeoutSeconds = from32 (pg_responseTimeoutSeconds gc),
             gc_RateLimitPerMinute = from32 (pg_rateLimitPerMinute gc), gc_OutputSchema = outputSchema,
             gc_TokenBudgetPerRequest = pg_tokenBudgetPerRequest gc, gc_TokenBudgetPerSession = pg_tokenBudgetPerSession gc,
             gc_TokenBudgetPerMinute = pg_tokenBudgetPerMinute gc\<rparr>))"

section \<open>Agent specifications and drones\<close>

definition guarded :: "guardrail_config \<Rightarrow> bool" where
  "guarded gc \<longleftrightarrow> gc_ResponseTimeoutSeconds gc > 0 \<or> gc_RateLimitPerMinute gc > 0"

definition agentSpecSpecToProto :: "json \<Rightarrow> agent_spec_spec \<Rightarrow> p_spec_spec option" where
  "agentSpecSpecToProto js spec =
    map_option (\<lambda>runtime.
      \<lparr>px_runtime = Some runtime, px_interface = Some (interfaceConfigToProto (ss_Interface spec)),
       px_resources = Some (resourceConfigToProto (ss_Resources spec)),
       px_scaling = (if sc_MinReplicas (ss_Scaling spec) > 0 \<or> sc_MaxReplicas (ss_Scaling spec) > 0
         then Some (scalingConfigToProto (ss_Scaling spec)) else None),
       px_taskTier = ss_TaskTier spec,
       px_guardrails = (if guarded (ss_Guardrails spec) then Some (guardrailConfigToProto js (ss_Guardrails spec)) else None)\<rparr>)
      (runtimeConfigToProto (ss_Runtime spec))"

definition agentSpecSpecFromProto :: "json \<Rightarrow> p_spec_spec option \<Rightarrow> agent_spec_spec" where
  "agentSpecSpecFromProto js spec =
    (case spec of
       None \<Rightarrow> zero_spec
     | Some spec \<Rightarrow>
        \<lparr>ss_Runtime = runtimeConfigFromProto (px_runtime spec), ss_Interface = interfaceConfigFromProto (px_interface spec),
         ss_Resources = resourceConfigFromProto (px_resources spec),
         ss_Scaling = (if px_scaling spec \<noteq> None then scalingConfigFromProto (px_scaling spec) else zero_scaling),
         ss_TaskTier = px_taskTier spec,
         ss_Guardrails = (if px_guardrails spec \<noteq> None then guardrailConfigFromProto js (px_guardrails spec)
           else zero_guardrails)\<rparr>)"

text \<open>The resource is not nil where this is called.  \<open>None\<close> is a panic.\<close>

definition agentSpecToProto :: "json \<Rightarrow> agent_spec \<Rightarrow> p_agent_spec option" where
  "agentSpecToProto js a =
    map_option (\<lambda>spec. \<lparr>pa_typeMeta = typeMetaToProto (as_TypeMeta a), pa_metadata = Some (objectMetaToProto (as_Meta a)),
      pa_spec = Some spec\<rparr>) (agentSpecSpecToProto js (as_Spec a))"

definition agentSpecFromProto :: "json \<Rightarrow> p_agent_spec option \<Rightarrow> agent_spec option" where
  "agentSpecFromProto js a =
    map_option (\<lambda>a. \<lparr>as_TypeMeta = typeMetaFromProto (pa_typeMeta a), as_Meta = objectMetaFromProto (pa_metadata a),
      as_Spec = agentSpecSpecFromProto js (pa_spec a)\<rparr>) a"

text \<open>The loops over the details: a string is passed as it is, and read back as JSON where that succeeds.\<close>

fun details_to :: "json \<Rightarrow> (string \<times> go_value) list \<Rightarrow> (string \<times> string) list" where
  "details_to js [] = []"
| "details_to js ((k, v) # vs) =
    (case v of
       GString s \<Rightarrow> (k, s) # details_to js vs
     | _ \<Rightarrow> (case js_enc js v of Some data \<Rightarrow> (k, data) # details_to js vs | None \<Rightarrow> details_to js vs))"

definition healthStatusToProto :: "json \<Rightarrow> health_status option \<Rightarrow> p_health option" where
  "healthStatusToProto js hs =
    map_option (\<lambda>hs. \<lparr>ph_healthy = hs_Healthy hs, ph_message = hs_Message hs,
      ph_timestamp = timeToTimestamp (hs_Timestamp hs), ph_details = details_to js (hs_Details hs)\<rparr>) hs"

definition healthStatusFromProto :: "json \<Rightarrow> p_health option \<Rightarrow> health_status option" where
  "healthStatusFromProto js hs =
    map_option (\<lambda>hs. \<lparr>hs_Healthy = ph_healthy hs, hs_Message = ph_message hs,
      hs_Timestamp = timestampToTime (ph_timestamp hs),
      hs_Details = map (\<lambda>(k, v). (k, case js_dec js v of Some x \<Rightarrow> x | None \<Rightarrow> GString v)) (ph_details hs)\<rparr>) hs"

definition dronePhaseToProto :: "string \<Rightarrow> p_drone_phase" where
  "dronePhaseToProto phase =
    (if phase = DronePhasePending then PDPending
     else if phase = DronePhaseStarting then PDStarting
     else if phase = DronePhaseRunning then PDRunning
     else if phase = DronePhaseStopping then PDStopping
     else if phase = DronePhaseStopped then PDStopped
     else if phase = DronePhaseFailed then PDFailed
     else PDUnspecified)"

fun dronePhaseFromProto :: "p_drone_phase \<Rightarrow> string" where
  "dronePhaseFromProto PDPending = DronePhasePending"
| "dronePhaseFromProto PDStarting = DronePhaseStarting"
| "dronePhaseFromProto PDRunning = DronePhaseRunning"
| "dronePhaseFromProto PDStopping = DronePhaseStopping"
| "dronePhaseFromProto PDStopped = DronePhaseStopped"
| "dronePhaseFromProto PDFailed = DronePhaseFailed"
| "dronePhaseFromProto PDUnspecified = DronePhasePending"

definition droneStatusToProto :: "json \<Rightarrow> drone_status \<Rightarrow> p_drone_status" where
  "droneStatusToProto js ds =
    \<lparr>pd_phase = dronePhaseToProto (dst_Phase ds), pd_message = dst_Message ds,
     pd_startedAt = (case dst_StartedAt ds of None \<Rightarrow> None | Some t \<Rightarrow> timeToTimestamp t),
     pd_keeperAddr = dst_KeeperAddr ds, pd_health = healthStatusToProto js (dst_Health ds)\<rparr>"

definition droneStatusFromProto :: "json \<Rightarrow> p_drone_status option \<Rightarrow> drone_status" where
  "droneStatusFromProto js ds =
    (case ds of
       None \<Rightarrow> \<lparr>dst_Phase = '''', dst_Message = '''', dst_StartedAt = None, dst_KeeperAddr = '''', dst_Health = None\<rparr>
     | Some ds \<Rightarrow>
        \<lparr>dst_Phase = dronePhaseFromProto (pd_phase ds), dst_Message = pd_message ds,
         dst_StartedAt = (case pd_startedAt ds of None \<Rightarrow> None | Some t \<Rightarrow> Some (timestampToTime (Some t))),
         dst_KeeperAddr = pd_keeperAddr ds, dst_Health = healthStatusFromProto js (pd_health ds)\<rparr>)"

definition droneToProto :: "json \<Rightarrow> drone \<Rightarrow> p_drone option" where
  "droneToProto js d =
    (let result = (\<lambda>spec. \<lparr>pn_typeMeta = typeMetaToProto (dr_TypeMeta d), pn_metadata = Some (objectMetaToProto (dr_Meta d)),
           pn_status = Some (droneStatusToProto js (dr_Status d)), pn_spec = spec\<rparr>)
     in case dr_Spec d of
          None \<Rightarrow> Some (result None)
        | Some spec \<Rightarrow> map_option (\<lambda>s. result (Some s)) (agentSpecToProto js spec))"

definition droneFromProto :: "json \<Rightarrow> p_drone option \<Rightarrow> drone option" where
  "droneFromProto js d =
    map_option (\<lambda>d. \<lparr>dr_TypeMeta = typeMetaFromProto (pn_typeMeta d), dr_Meta = objectMetaFromProto (pn_metadata d),
      dr_Status = droneStatusFromProto js (pn_status d), dr_Spec = agentSpecFromProto js (pn_spec d)\<rparr>) d"

section \<open>Hives\<close>

definition retryPolicyToProto :: "retry_policy \<Rightarrow> p_retry" where
  "retryPolicyToProto rp =
    \<lparr>py_maxRetries = to32 (rp_MaxRetries rp), py_backoffMultiplier = to32 (rp_BackoffMultiplier rp),
     py_initialDelayMs = to32 (rp_InitialDelayMs rp)\<rparr>"

definition retryPolicyFromProto :: "p_retry option \<Rightarrow> retry_policy" where
  "retryPolicyFromProto rp =
    (case rp of
       None \<Rightarrow> zero_retry
     | Some rp \<Rightarrow> \<lparr>rp_MaxRetries = from32 (py_maxRetries rp), rp_BackoffMultiplier = from32 (py_backoffMultiplier rp),
         rp_InitialDelayMs = from32 (py_initialDelayMs rp)\<rparr>)"

definition sessionConfigToProto :: "session_config \<Rightarrow> p_session_config" where
  "sessionConfigToProto sc =
    \<lparr>pq_timeoutMinutes = to32 (sn_TimeoutMinutes sc), pq_maxDurationMinutes = to32 (sn_MaxDurationMinutes sc),
     pq_persistOnTerminate = sn_PersistOnTerminate sc, pq_persistPath = sn_PersistPath sc,
     pq_maxMemoryMb = to32 (sn_MaxMemoryMB sc)\<rparr>"

definition sessionConfigFromProto :: "p_session_config option \<Rightarrow> session_config" where
  "sessionConfigFromProto sc =
    (case sc of
       None \<Rightarrow> zero_session
     | Some sc \<Rightarrow> \<lparr>sn_TimeoutMinutes = from32 (pq_timeoutMinutes sc), sn_MaxDurationMinutes = from32 (pq_maxDurationMinutes sc),
         sn_PersistOnTerminate = pq_persistOnTerminate sc, sn_PersistPath = pq_persistPath sc,
         sn_MaxMemoryMB = from32 (pq_maxMemoryMb sc)\<rparr>)"

text \<open>The message of a stage has fields for \<open>Replicas\<close>, \<open>Parallel\<close> and \<open>WaitForAll\<close> too, which the two
  conversions neither write nor read.\<close>

definition stageToProto :: "stage \<Rightarrow> p_stage" where
  "stageToProto s = \<lparr>pt_name = st_Name s, pt_agentRef = st_AgentRef s\<rparr>"

definition stageFromProto :: "p_stage option \<Rightarrow> stage" where
  "stageFromProto s =
    (case s of None \<Rightarrow> zero_stage | Some s \<Rightarrow> zero_stage\<lparr>st_Name := pt_name s, st_AgentRef := pt_agentRef s\<rparr>)"

definition routingConfigToProto :: "routing_config \<Rightarrow> p_routing" where
  "routingConfigToProto rc =
    \<lparr>pu_deadLetterTopic = ro_DeadLetterTopic rc,
     pu_retryPolicy = (if rp_MaxRetries (ro_RetryPolicy rc) > 0 then Some (retryPolicyToProto (ro_RetryPolicy rc)) else None)\<rparr>"

definition routingConfigFromProto :: "p_routing option \<Rightarrow> routing_config" where
  "routingConfigFromProto rc =
    (case rc of
       None \<Rightarrow> zero_routing
     | Some rc \<Rightarrow> \<lparr>ro_DeadLetterTopic = pu_deadLetterTopic rc,
         ro_RetryPolicy = (if pu_retryPolicy rc \<noteq> None then retryPolicyFromProto (pu_retryPolicy rc) else zero_retry)\<rparr>)"

definition webhookConfigToProto :: "webhook_config \<Rightarrow> webhook_config" where
  "webhookConfigToProto wc = \<lparr>wh_URL = wh_URL wc, wh_AuthHeader = wh_AuthHeader wc\<rparr>"

definition webhookConfigFromProto :: "webhook_config option \<Rightarrow> webhook_config" where
  "webhookConfigFromProto wc =
    (case wc of None \<Rightarrow> zero_webhook | Some wc \<Rightarrow> \<lparr>wh_URL = wh_URL wc, wh_AuthHeader = wh_AuthHeader wc\<rparr>)"

definition hiveSpecToProto :: "json \<Rightarrow> hive_spec \<Rightarrow> p_hive_spec" where
  "hiveSpecToProto js hs =
    \<lparr>pw_poolMode = hi_PoolMode hs, pw_warmPoolSize = to32 (hi_WarmPoolSize hs),
     pw_session = (if sn_TimeoutMinutes (hi_Session hs) > 0 \<or> sn_MaxDurationMinutes (hi_Session hs) > 0
       then Some (sessionConfigToProto (hi_Session hs)) else None),
     pw_pattern = hi_Pattern hs,
     pw_stages = (if hi_Stages hs \<noteq> [] then map (\<lambda>s. Some (stageToProto s)) (hi_Stages hs) else []),
     pw_routing = (if ro_DeadLetterTopic (hi_Routing hs) \<noteq> '''' \<or> rp_MaxRetries (ro_RetryPolicy (hi_Routing hs)) > 0
       then Some (routingConfigToProto (hi_Routing hs)) else None),
     pw_guardrails = (if guarded (hi_Guardrails hs) then Some (guardrailConfigToProto js (hi_Guardrails hs)) else None),
     pw_webhook = (if wh_URL (hi_Webhook hs) \<noteq> '''' then Some (webhookConfigToProto (hi_Webhook hs)) else None)\<rparr>"

definition hiveSpecFromProto :: "json \<Rightarrow> p_hive_spec option \<Rightarrow> hive_spec" where
  "hiveSpecFromProto js hs =
    (case hs of
       None \<Rightarrow> zero_hive_spec
     | Some hs \<Rightarrow>
        \<lparr>hi_PoolMode = pw_poolMode hs, hi_WarmPoolSize = from32 (pw_warmPoolSize hs),
         hi_Session = (if pw_session hs \<noteq> None then sessionConfigFromProto (pw_session hs) else zero_session),
         hi_Pattern = pw_pattern hs,
         hi_Stages = (if pw_stages hs \<noteq> [] then map stageFromProto (pw_stages hs) else []),
         hi_Routing = (if pw_routing hs \<noteq> None then routingConfigFromProto (pw_routing hs) else zero_routing),
         hi_Guardrails = (if pw_guardrails hs \<noteq> None then guardrailConfigFromProto js (pw_guardrails hs) else zero_guardrails),
         hi_Webhook = (if pw_webhook hs \<noteq> None then webhookConfigFromProto (pw_webhook hs) else zero_webhook),
         hi_PatternSegments = []\<rparr>)"

definition hivePhaseToProto :: "string \<Rightarrow> p_hive_phase" where
  "hivePhaseToProto phase =
    (if phase = ''pending'' then PHPending
     else if phase = ''active'' then PHActive
     else if phase = ''paused'' then PHPaused
     else if phase = ''failed'' then PHFailed
     else PHUnspecified)"

fun hivePhaseFromProto :: "p_hive_phase \<Rightarrow> string" where
  "hivePhaseFromProto PHPending = ''pending''"
| "hivePhaseFromProto PHActive = ''active''"
| "hivePhaseFromProto PHPaused = ''paused''"
| "hivePhaseFromProto PHFailed = ''failed''"
| "hivePhaseFromProto PHUnspecified = ''pending''"

definition hiveStatusToProto :: "hive_status \<Rightarrow> p_hive_status" where
  "hiveStatusToProto hs =
    \<lparr>pz_phase = hivePhaseToProto (hst_Phase hs), pz_message = hst_Message hs, pz_activeDrones = to32 (hst_ActiveDrones hs)\<rparr>"

definition hiveStatusFromProto :: "p_hive_status option \<Rightarrow> hive_status" where
  "hiveStatusFromProto hs =
    (case hs of
       None \<Rightarrow> \<lparr>hst_Phase = '''', hst_Message = '''', hst_ActiveDrones = 0\<rparr>
     | Some hs \<Rightarrow> \<lparr>hst_Phase = hivePhaseFromProto (pz_phase hs), hst_Message = pz_message hs,
         hst_ActiveDrones = from32 (pz_activeDrones hs)\<rparr>)"

definition hiveToProto :: "json \<Rightarrow> hive \<Rightarrow> p_hive" where
  "hiveToProto js h =
    \<lparr>pk_typeMeta = typeMetaToProto (hv_TypeMeta h), pk_metadata = Some (objectMetaToProto (hv_Meta h)),
     pk_spec = Some (hiveSpecToProto js (hv_Spec h)),
     pk_status = (if hst_Phase (hv_Status h) \<noteq> '''' then Some (hiveStatusToProto (hv_Status h)) else None)\<rparr>"

definition hiveFromProto :: "json \<Rightarrow> p_hive option \<Rightarrow> hive option" where
  "hiveFromProto js h =
    map_option (\<lambda>h. \<lparr>hv_TypeMeta = typeMetaFromProto (pk_typeMeta h), hv_Meta = objectMetaFromProto (pk_metadata h),
      hv_Spec = hiveSpecFromProto js (pk_spec h),
      hv_Status = (if pk_status h \<noteq> None then hiveStatusFromProto (pk_status h)
        else \<lparr>hst_Phase = '''', hst_Message = '''', hst_ActiveDrones = 0\<rparr>)\<rparr>) h"

section \<open>Cells and secrets\<close>

definition resourceQuotaToProto :: "resource_quota \<Rightarrow> p_quota" where
  "resourceQuotaToProto rq =
    \<lparr>pl_maxHives = to32 (rq_MaxHives rq), pl_maxDronesPerHive = to32 (rq_MaxDronesPerHive rq),
     pl_maxTotalDrones = to32 (rq_MaxTotalDrones rq), pl_maxMemoryGb = to32 (rq_MaxMemoryGB rq)\<rparr>"

definition resourceQuotaFromProto :: "p_quota option \<Rightarrow> resource_quota" where
  "resourceQuotaFromProto rq =
    (case rq of
       None \<Rightarrow> zero_quota
     | Some rq \<Rightarrow> \<lparr>rq_MaxHives = from32 (pl_maxHives rq), rq_MaxDronesPerHive = from32 (pl_maxDronesPerHive rq),
         rq_MaxTotalDrones = from32 (pl_maxTotalDrones rq), rq_MaxMemoryGB = from32 (pl_maxMemoryGb rq)\<rparr>)"

definition defaultConfigToProto :: "json \<Rightarrow> guardrail_config \<Rightarrow> p_guardrails option" where
  "defaultConfigToProto js gc = (if guarded gc then Some (guardrailConfigToProto js gc) else None)"

definition defaultConfigFromProto :: "json \<Rightarrow> p_guardrails option option \<Rightarrow> guardrail_config" where
  "defaultConfigFromProto js dc =
    (case dc of
       None \<Rightarrow> zero_guardrails
     | Some gc \<Rightarrow> (if gc \<noteq> None then guardrailConfigFromProto js gc else zero_guardrails))"

definition cellSpecToProto :: "json \<Rightarrow> cell_spec \<Rightarrow> p_cell_spec" where
  "cellSpecToProto js cs =
    \<lparr>pj_quota = (if rq_MaxHives (ce_ResourceQuota cs) > 0 \<or> rq_MaxTotalDrones (ce_ResourceQuota cs) > 0
       then Some (resourceQuotaToProto (ce_ResourceQuota cs)) else None),
     pj_defaults = (if guarded (ce_DefaultGuardrails cs) then Some (defaultConfigToProto js (ce_DefaultGuardrails cs)) else None)\<rparr>"

definition cellSpecFromProto :: "json \<Rightarrow> p_cell_spec option \<Rightarrow> cell_spec" where
  "cellSpecFromProto js cs =
    (case cs of
       None \<Rightarrow> \<lparr>ce_ResourceQuota = zero_quota, ce_DefaultGuardrails = zero_guardrails\<rparr>
     | Some cs \<Rightarrow>
        \<lparr>ce_ResourceQuota = (if pj_quota cs \<noteq> None then resourceQuotaFromProto (pj_quota cs) else zero_quota),
         ce_DefaultGuardrails = (if pj_defaults cs \<noteq> None then defaultConfigFromProto js (pj_defaults cs) else zero_guardrails)\<rparr>)"

definition cellToProto :: "json \<Rightarrow> cell \<Rightarrow> p_cell" where
  "cellToProto js c =
    \<lparr>pb_typeMeta = typeMetaToProto (cl_TypeMeta c), pb_metadata = Some (objectMetaToProto (cl_Meta c)),
     pb_spec = Some (cellSpecToProto js (cl_Spec c))\<rparr>"

definition cellFromProto :: "json \<Rightarrow> p_cell option \<Rightarrow> cell option" where
  "cellFromProto js c =
    map_option (\<lambda>c. \<lparr>cl_TypeMeta = typeMetaFromProto (pb_typeMeta c), cl_Meta = objectMetaFromProto (pb_metadata c),
      cl_Spec = cellSpecFromProto js (pb_spec c)\<rparr>) c"

definition secretToProto :: "secret \<Rightarrow> p_secret" where
  "secretToProto s =
    \<lparr>pf_typeMeta = typeMetaToProto (sec_TypeMeta s), pf_metadata = Some (objectMetaToProto (sec_Meta s)), pf_data = sec_Data s\<rparr>"

definition secretFromProto :: "p_secret option \<Rightarrow> secret option" where
  "secretFromProto s =
    map_option (\<lambda>s. \<lparr>sec_TypeMeta = typeMetaFromProto (pf_typeMeta s), sec_Meta = objectMetaFromProto (pf_metadata s),
      sec_Data = pf_data s\<rparr>) s"


section \<open>Round trips\<close>

text \<open>The part of a 64-bit integer that an \<open>int32\<close> keeps.\<close>

definition wrap32 :: "int \<Rightarrow> int" where
  "wrap32 x = (x + 2147483648) mod 4294967296 - 2147483648"

definition in32 :: "int \<Rightarrow> bool" where
  "in32 x \<longleftrightarrow> - 2147483648 \<le> x \<and> x < 2147483648"

lemma from32_to32 [simp]: "from32 (to32 x) = wrap32 x"
  by (simp add: from32_def to32_def sint_sbintrunc' wrap32_def signed_take_bit_eq_take_bit_shift take_bit_eq_mod)

lemma in32_wrap32 [simp]: "in32 (wrap32 x)"
  using pos_mod_bound [of 4294967296 "x + 2147483648"] pos_mod_sign [of 4294967296 "x + 2147483648"]
  by (simp add: in32_def wrap32_def)

lemma wrap32_eq_iff [simp]: "wrap32 x = x \<longleftrightarrow> in32 x"
proof
  assume "in32 x" then show "wrap32 x = x" by (simp add: wrap32_def in32_def)
next
  assume "wrap32 x = x" then show "in32 x" using in32_wrap32 [of x] by simp
qed

lemma wrap32_idem [simp]: "wrap32 (wrap32 x) = wrap32 x"
  by simp

lemma wrap32_0 [simp]: "wrap32 0 = 0"
  by (simp add: in32_def)

text \<open>A conversion to a message and back: what comes back is a normal form, on which the round trip
  is the identity.\<close>

locale codec =
  fixes enc :: "'a \<Rightarrow> 'p" and dec :: "'p option \<Rightarrow> 'a" and norm :: "'a \<Rightarrow> 'a"
  assumes dec_enc: "dec (Some (enc x)) = norm x" and norm_norm: "norm (norm x) = norm x"
begin

lemma survives_iff: "dec (Some (enc x)) = x \<longleftrightarrow> norm x = x"
  by (simp add: dec_enc)

text \<open>A second round trip changes nothing more.\<close>

lemma second_trip: "dec (Some (enc (dec (Some (enc x))))) = dec (Some (enc x))"
  by (simp add: dec_enc norm_norm)

end

text \<open>A part that is sent only under a condition, and read as the zero value when it is missing.\<close>

locale optional_codec = codec +
  fixes present :: "'a \<Rightarrow> bool" and zero :: 'a
  assumes zero_absent: "\<not> present zero" and dec_None: "dec None = zero"
begin

definition optional_norm :: "'a \<Rightarrow> 'a" where
  "optional_norm x = (if present x then norm x else zero)"

lemma optional_trip: "dec (if present x then Some (enc x) else None) = optional_norm x"
  by (simp add: optional_norm_def dec_enc dec_None)

lemma optional_survives_iff:
  "dec (if present x then Some (enc x) else None) = x \<longleftrightarrow> (if present x then norm x = x else x = zero)"
  by (auto simp: dec_enc dec_None)

end

interpretation meta: codec objectMetaToProto objectMetaFromProto id
  by unfold_locales (simp_all add: objectMetaToProto_def objectMetaFromProto_def timeToTimestamp_def timestampToTime_def)

lemma type_meta_trip [simp]: "typeMetaFromProto (typeMetaToProto tm) = tm"
  by (simp add: typeMetaFromProto_def typeMetaToProto_def zero_type_meta_def)

definition norm_interface :: "interface_config \<Rightarrow> interface_config" where
  "norm_interface ic = ic\<lparr>ic_Port := wrap32 (ic_Port ic)\<rparr>"

interpretation interface_codec: codec interfaceConfigToProto interfaceConfigFromProto norm_interface
  by unfold_locales (simp_all add: interfaceConfigToProto_def interfaceConfigFromProto_def norm_interface_def)

interpretation resources_codec: codec resourceConfigToProto resourceConfigFromProto id
  by unfold_locales (simp_all add: resourceConfigToProto_def resourceConfigFromProto_def resourceRequirementsToProto_def
      resourceRequirementsFromProto_def)

definition norm_scaling :: "scaling_config \<Rightarrow> scaling_config" where
  "norm_scaling sc = sc\<lparr>sc_MinReplicas := wrap32 (sc_MinReplicas sc), sc_MaxReplicas := wrap32 (sc_MaxReplicas sc),
     sc_TargetLatencyMs := wrap32 (sc_TargetLatencyMs sc), sc_CooldownSeconds := wrap32 (sc_CooldownSeconds sc)\<rparr>"

interpretation scaling_codec: optional_codec scalingConfigToProto scalingConfigFromProto norm_scaling
    "\<lambda>sc. sc_MinReplicas sc > 0 \<or> sc_MaxReplicas sc > 0" zero_scaling
  by unfold_locales (simp_all add: scalingConfigToProto_def scalingConfigFromProto_def norm_scaling_def zero_scaling_def)

definition norm_session :: "session_config \<Rightarrow> session_config" where
  "norm_session sc = sc\<lparr>sn_TimeoutMinutes := wrap32 (sn_TimeoutMinutes sc),
     sn_MaxDurationMinutes := wrap32 (sn_MaxDurationMinutes sc), sn_MaxMemoryMB := wrap32 (sn_MaxMemoryMB sc)\<rparr>"

interpretation session_codec: optional_codec sessionConfigToProto sessionConfigFromProto norm_session
    "\<lambda>sc. sn_TimeoutMinutes sc > 0 \<or> sn_MaxDurationMinutes sc > 0" zero_session
  by unfold_locales (simp_all add: sessionConfigToProto_def sessionConfigFromProto_def norm_session_def zero_session_def)

definition norm_retry :: "retry_policy \<Rightarrow> retry_policy" where
  "norm_retry rp = rp\<lparr>rp_MaxRetries := wrap32 (rp_MaxRetries rp), rp_BackoffMultiplier := wrap32 (rp_BackoffMultiplier rp),
     rp_InitialDelayMs := wrap32 (rp_InitialDelayMs rp)\<rparr>"

interpretation retry_codec: optional_codec retryPolicyToProto retryPolicyFromProto norm_retry
    "\<lambda>rp. rp_MaxRetries rp > 0" zero_retry
  by unfold_locales (simp_all add: retryPolicyToProto_def retryPolicyFromProto_def norm_retry_def zero_retry_def)

definition norm_quota :: "resource_quota \<Rightarrow> resource_quota" where
  "norm_quota rq = rq\<lparr>rq_MaxHives := wrap32 (rq_MaxHives rq), rq_MaxDronesPerHive := wrap32 (rq_MaxDronesPerHive rq),
     rq_MaxTotalDrones := wrap32 (rq_MaxTotalDrones rq), rq_MaxMemoryGB := wrap32 (rq_MaxMemoryGB rq)\<rparr>"

interpretation quota_codec: optional_codec resourceQuotaToProto resourceQuotaFromProto norm_quota
    "\<lambda>rq. rq_MaxHives rq > 0 \<or> rq_MaxTotalDrones rq > 0" zero_quota
  by unfold_locales (simp_all add: resourceQuotaToProto_def resourceQuotaFromProto_def norm_quota_def zero_quota_def)

definition norm_stage :: "stage \<Rightarrow> stage" where
  "norm_stage s = zero_stage\<lparr>st_Name := st_Name s, st_AgentRef := st_AgentRef s\<rparr>"

interpretation stage_codec: codec stageToProto stageFromProto norm_stage
  by unfold_locales (simp_all add: stageToProto_def stageFromProto_def norm_stage_def)

text \<open>What \<open>encoding/json\<close> reads where it has written a value: a list of strings comes back as a list of
  values, strings, booleans, numbers, lists and maps as themselves.\<close>

fun json_read :: "(string \<Rightarrow> go_value) \<Rightarrow> go_value \<Rightarrow> go_value" where
  "json_read f (GString s) = GString s"
| "json_read f (GStrings ss) = GList (map GString ss)"
| "json_read f (GList vs) = GList (map (json_read f) vs)"
| "json_read f (GMap m) = GMap (map (\<lambda>kv. (fst kv, json_read f (snd kv))) m)"
| "json_read f (GBool b) = GBool b"
| "json_read f (GFloat x) = GFloat x"
| "json_read f (GOther s) = f s"

definition json_read_map :: "json \<Rightarrow> (string \<times> go_value) list \<Rightarrow> (string \<times> go_value) list" where
  "json_read_map js m = map (\<lambda>kv. (fst kv, json_read (js_other js) (snd kv))) m"

definition json_maps_ok :: "json \<Rightarrow> bool" where
  "json_maps_ok js \<longleftrightarrow>
    (\<forall>m d. js_encMap js m = Some d \<longrightarrow> d \<noteq> '''' \<and> js_decMap js d = Some (json_read_map js m))"

definition norm_guardrails :: "json \<Rightarrow> guardrail_config \<Rightarrow> guardrail_config" where
  "norm_guardrails js gc = gc\<lparr>gc_ResponseTimeoutSeconds := wrap32 (gc_ResponseTimeoutSeconds gc),
     gc_RateLimitPerMinute := wrap32 (gc_RateLimitPerMinute gc),
     gc_OutputSchema := (if js_encMap js (gc_OutputSchema gc) = None then [] else json_read_map js (gc_OutputSchema gc))\<rparr>"

lemma guardrails_trip:
  "json_maps_ok js \<Longrightarrow> guardrailConfigFromProto js (Some (guardrailConfigToProto js gc)) = norm_guardrails js gc"
  by (auto simp: guardrailConfigFromProto_def guardrailConfigToProto_def norm_guardrails_def json_maps_ok_def Let_def json_read_map_def
      split: option.split)

lemma runtime_trip: "runtimeConfigToProto rc = Some p \<Longrightarrow> runtimeConfigFromProto (Some p) = rc"
proof -
  assume "runtimeConfigToProto rc = Some p"
  then obtain env where e: "those (map envVarToProto (rc_Env rc)) = Some env"
      "p = \<lparr>pr_command = rc_Command rc, pr_workingDir = rc_WorkingDir rc, pr_env = map Some env\<rparr>"
    by (auto simp: runtimeConfigToProto_def)
  have v: "envVarToProto ev = Some q \<Longrightarrow> envVarFromProto (Some q) = ev" for ev q
    by (auto simp: envVarToProto_def envVarFromProto_def split: option.splits)
  have "map envVarFromProto (map Some env) = xs" if "those (map envVarToProto xs) = Some env" for xs
    using that v by (induction xs arbitrary: env) (auto split: option.splits)
  from this [OF e(1)] show ?thesis by (simp add: runtimeConfigFromProto_def e(2))
qed

text \<open>What an agent specification must be like to survive: its 32-bit fields fit, its scaling and
  guardrails are sent at all or are zero, and its schema can be encoded and is read back as it is.\<close>

definition guardrails_fit :: "json \<Rightarrow> guardrail_config \<Rightarrow> bool" where
  "guardrails_fit js gc \<longleftrightarrow>
    (if guarded gc
     then in32 (gc_ResponseTimeoutSeconds gc) \<and> in32 (gc_RateLimitPerMinute gc) \<and>
       (gc_OutputSchema gc = [] \<or>
         js_encMap js (gc_OutputSchema gc) \<noteq> None \<and> json_read_map js (gc_OutputSchema gc) = gc_OutputSchema gc)
     else gc = zero_guardrails)"

definition scaling_fits :: "scaling_config \<Rightarrow> bool" where
  "scaling_fits sc \<longleftrightarrow>
    (if sc_MinReplicas sc > 0 \<or> sc_MaxReplicas sc > 0
     then in32 (sc_MinReplicas sc) \<and> in32 (sc_MaxReplicas sc) \<and> in32 (sc_TargetLatencyMs sc) \<and> in32 (sc_CooldownSeconds sc)
     else sc = zero_scaling)"

definition spec_fits :: "json \<Rightarrow> agent_spec \<Rightarrow> bool" where
  "spec_fits js a \<longleftrightarrow> in32 (ic_Port (ss_Interface (as_Spec a))) \<and> scaling_fits (ss_Scaling (as_Spec a)) \<and>
    guardrails_fit js (ss_Guardrails (as_Spec a))"

lemma guardrails_survive_iff:
  assumes "json_maps_ok js"
  shows "(if (if guarded gc then Some (guardrailConfigToProto js gc) else None) \<noteq> None
      then guardrailConfigFromProto js (if guarded gc then Some (guardrailConfigToProto js gc) else None)
      else zero_guardrails) = gc \<longleftrightarrow> guardrails_fit js gc"
  by (cases gc) (auto simp: guardrails_trip [OF assms] guardrails_fit_def norm_guardrails_def json_read_map_def)

lemma scaling_survives_iff:
  "(if (if sc_MinReplicas sc > 0 \<or> sc_MaxReplicas sc > 0 then Some (scalingConfigToProto sc) else None) \<noteq> None
      then scalingConfigFromProto (if sc_MinReplicas sc > 0 \<or> sc_MaxReplicas sc > 0 then Some (scalingConfigToProto sc) else None)
      else zero_scaling) = sc \<longleftrightarrow> scaling_fits sc"
  by (cases sc) (auto simp: scaling_codec.dec_enc scaling_fits_def norm_scaling_def)

lemma interface_survives_iff: "interfaceConfigFromProto (Some (interfaceConfigToProto ic)) = ic \<longleftrightarrow> in32 (ic_Port ic)"
  by (cases ic) (simp add: interface_codec.dec_enc norm_interface_def)

text \<open>C38: An agent specification read over gRPC and converted back is the same exactly if its 32-bit fields
  fit, its scaling and guardrails are zero or enabled by the fields that are tested, and its schema can be
  encoded and holds values that JSON reads back as they are.  (Token budgets and a schema without a timeout or a
  rate limit are lost.)\<close>

theorem grpc_spec_round_trip:
  assumes "json_maps_ok js" and "agentSpecToProto js a = Some p"
  shows "agentSpecFromProto js (Some p) = Some a \<longleftrightarrow> spec_fits js a"
proof -
  let ?s = "as_Spec a"
  obtain r where r: "runtimeConfigToProto (ss_Runtime ?s) = Some r" using assms(2)
    by (auto simp: agentSpecToProto_def agentSpecSpecToProto_def)
  have p: "p = \<lparr>pa_typeMeta = typeMetaToProto (as_TypeMeta a), pa_metadata = Some (objectMetaToProto (as_Meta a)),
      pa_spec = Some \<lparr>px_runtime = Some r, px_interface = Some (interfaceConfigToProto (ss_Interface ?s)),
       px_resources = Some (resourceConfigToProto (ss_Resources ?s)),
       px_scaling = (if sc_MinReplicas (ss_Scaling ?s) > 0 \<or> sc_MaxReplicas (ss_Scaling ?s) > 0
         then Some (scalingConfigToProto (ss_Scaling ?s)) else None),
       px_taskTier = ss_TaskTier ?s,
       px_guardrails = (if guarded (ss_Guardrails ?s) then Some (guardrailConfigToProto js (ss_Guardrails ?s)) else None)\<rparr>\<rparr>"
    using assms(2) r by (simp add: agentSpecToProto_def agentSpecSpecToProto_def)
  have eq: "\<lparr>as_TypeMeta = t, as_Meta = m, as_Spec = \<lparr>ss_Runtime = ru, ss_Interface = i, ss_Resources = re, ss_Scaling = sc,
      ss_TaskTier = tt, ss_Guardrails = g\<rparr>\<rparr> = a \<longleftrightarrow> t = as_TypeMeta a \<and> m = as_Meta a \<and> ru = ss_Runtime ?s \<and> i = ss_Interface ?s \<and>
      re = ss_Resources ?s \<and> sc = ss_Scaling ?s \<and> tt = ss_TaskTier ?s \<and> g = ss_Guardrails ?s" for t m ru i re sc tt g
    by (cases a; cases "as_Spec a") auto
  have "agentSpecFromProto js (Some p) = Some a \<longleftrightarrow>
      interfaceConfigFromProto (Some (interfaceConfigToProto (ss_Interface ?s))) = ss_Interface ?s \<and>
      (if px_scaling (the (pa_spec p)) \<noteq> None then scalingConfigFromProto (px_scaling (the (pa_spec p))) else zero_scaling) = ss_Scaling ?s \<and>
      (if px_guardrails (the (pa_spec p)) \<noteq> None then guardrailConfigFromProto js (px_guardrails (the (pa_spec p)))
       else zero_guardrails) = ss_Guardrails ?s"
    unfolding agentSpecFromProto_def agentSpecSpecFromProto_def p
    by (simp add: eq runtime_trip [OF r] resources_codec.dec_enc meta.dec_enc)
  then show ?thesis
    unfolding spec_fits_def interface_survives_iff [symmetric] scaling_survives_iff [symmetric]
      guardrails_survive_iff [OF assms(1), symmetric]
    by (simp only: p p_agent_spec.simps p_spec_spec.simps option.sel)
qed



text \<open>A JSON library that can encode the empty map.\<close>

definition empty_json :: json where
  "empty_json = \<lparr>js_encMap = (\<lambda>m. if m = [] then Some ''{}'' else None), js_decMap = (\<lambda>d. if d = ''{}'' then Some [] else None),
     js_enc = (\<lambda>_. None), js_dec = (\<lambda>_. None), js_other = GOther\<rparr>"

lemma empty_json_ok: "json_maps_ok empty_json"
  by (simp add: json_maps_ok_def empty_json_def json_read_map_def)

lemma grpc_spec_round_trip_witness:
  "\<exists>p. agentSpecToProto empty_json sample_spec = Some p \<and> agentSpecFromProto empty_json (Some p) = Some sample_spec"
proof -
  have "\<exists>p. agentSpecToProto empty_json sample_spec = Some p"
    by (simp add: agentSpecToProto_def agentSpecSpecToProto_def runtimeConfigToProto_def sample_spec_def)
  then obtain p where p: "agentSpecToProto empty_json sample_spec = Some p" by blast
  have "spec_fits empty_json sample_spec"
    by (simp add: spec_fits_def sample_spec_def in32_def scaling_fits_def guardrails_fit_def guarded_def zero_guardrails_def)
  then show ?thesis using grpc_spec_round_trip [OF empty_json_ok p] p by blast
qed

text \<open>A hive read over gRPC and converted back has lost what its stages run with: every stage keeps only its
  name and its agent, so it has no replicas and neither runs in parallel nor waits for all, and a composed
  pattern has no segments.\<close>

lemma grpc_hive_forgets_stages:
  "map_option (\<lambda>h'. (hi_Pattern (hv_Spec h'), hi_Stages (hv_Spec h'), hi_PatternSegments (hv_Spec h')))
     (hiveFromProto js (Some (hiveToProto js h))) =
   Some (hi_Pattern (hv_Spec h),
     map (\<lambda>st. \<lparr>st_Name = st_Name st, st_AgentRef = st_AgentRef st, st_Replicas = 0, st_Parallel = False,
       st_WaitForAll = False\<rparr>) (hi_Stages (hv_Spec h)), [])"
  by (simp add: hiveFromProto_def hiveToProto_def hiveSpecFromProto_def hiveSpecToProto_def stage_codec.dec_enc
      norm_stage_def zero_stage_def o_def)

end
