(* ===== verification/GRPC_Resources.thy ===== *)
theory GRPC_Resources
  imports API_Operations Proto_Convert
begin

text \<open>
  The gRPC server: \<open>grpc_server.go\<close>, \<open>grpc_cells.go\<close>, \<open>grpc_agentspecs.go\<close>, \<open>grpc_hives.go\<close> and
  \<open>grpc_secrets.go\<close>.  A request is a pointer, so it may be nil; a response is a message, an
  error with its code, or the panic of the conversion of an environment variable.
\<close>

section \<open>Requests and results\<close>

datatype grpc_code =
    GInvalidArgument | GNotFound | GAlreadyExists | GResourceExhausted | GInternal | GUnauthenticated | GPermissionDenied

datatype 'a rpc = Reply 'a | Fail grpc_code message_text | Panic

record rpc_list =
  gl_namespace :: string

record rpc_name =
  gn_namespace :: string
  gn_name :: string

record 'a rpc_create =
  gc_namespace :: string
  gc_resource :: "'a option"

record 'a rpc_update =
  gu_namespace :: string
  gu_name :: string
  gu_resource :: "'a option"

record rpc_scale =
  gs_namespace :: string
  gs_name :: string
  gs_stage :: string
  gs_replicas :: int32

record rpc_drain =
  gd_namespace :: string
  gd_name :: string
  gd_force :: bool
  gd_timeout :: string

record rpc_scaled =
  gsr_message :: string
  gsr_replicas :: int32

record rpc_drained =
  gdr_message :: string
  gdr_drainedCount :: int32
  gdr_errors :: "drain_error list"

abbreviation invalid :: "string \<Rightarrow> 'a rpc" where
  "invalid msg \<equiv> Fail GInvalidArgument (Text msg)"

definition grpc_handleError :: "store_error \<Rightarrow> 'a rpc" where
  "grpc_handleError e =
    (case store_api_error e of
       ApiNotFound \<Rightarrow> Fail GNotFound (StoreMsg e)
     | ApiAlreadyExists \<Rightarrow> Fail GAlreadyExists (StoreMsg e)
     | ApiInvalidInput \<Rightarrow> Fail GInvalidArgument (StoreMsg e)
     | ApiOther \<Rightarrow> Fail GInternal (Text ''An internal error occurred''))"

text \<open>The first checks of the methods.\<close>

definition with_list :: "rpc_list option \<Rightarrow> (string \<Rightarrow> 'a rpc) \<Rightarrow> 'a rpc" where
  "with_list req f =
    (case req of
       None \<Rightarrow> invalid ''namespace is required''
     | Some req \<Rightarrow> (if gl_namespace req = '''' then invalid ''namespace is required'' else f (gl_namespace req)))"

definition with_name :: "string \<Rightarrow> rpc_name option \<Rightarrow> 'b \<Rightarrow> (string \<Rightarrow> string \<Rightarrow> 'b \<times> 'a rpc) \<Rightarrow> 'b \<times> 'a rpc" where
  "with_name what req w f =
    (case req of
       None \<Rightarrow> (w, invalid ''namespace is required'')
     | Some req \<Rightarrow>
        (if gn_namespace req = '''' then (w, invalid ''namespace is required'')
         else if gn_name req = '''' then (w, invalid (what @ '' is required''))
         else f (gn_namespace req) (gn_name req)))"

text \<open>Before a creation: the namespace, then the body, which is then converted.\<close>

definition with_create :: "string \<Rightarrow> ('p option \<Rightarrow> 'r option) \<Rightarrow> 'p rpc_create option \<Rightarrow> 'b \<Rightarrow>
    (string \<Rightarrow> 'r \<Rightarrow> 'b \<times> 'a rpc) \<Rightarrow> 'b \<times> 'a rpc" where
  "with_create what convert req w f =
    (case req of
       None \<Rightarrow> (w, invalid ''namespace is required'')
     | Some req \<Rightarrow>
        (if gc_namespace req = '''' then (w, invalid ''namespace is required'')
         else case convert (gc_resource req) of
                None \<Rightarrow> (w, invalid (what @ '' is required''))
              | Some r \<Rightarrow> f (gc_namespace req) r))"

definition with_update :: "string \<Rightarrow> ('p option \<Rightarrow> 'r option) \<Rightarrow> 'p rpc_update option \<Rightarrow> 'b \<Rightarrow>
    (string \<Rightarrow> string \<Rightarrow> 'r \<Rightarrow> 'b \<times> 'a rpc) \<Rightarrow> 'b \<times> 'a rpc" where
  "with_update what convert req w f =
    (case req of
       None \<Rightarrow> (w, invalid ''namespace is required'')
     | Some req \<Rightarrow>
        (if gu_namespace req = '''' then (w, invalid ''namespace is required'')
         else if gu_name req = '''' then (w, invalid ''name is required'')
         else case convert (gu_resource req) of
                None \<Rightarrow> (w, invalid (what @ '' is required''))
              | Some r \<Rightarrow> f (gu_namespace req) (gu_name req) r))"

text \<open>The ends of the methods: a store operation and the conversion of what it leaves in the variable.\<close>

definition rpc_Create :: "'d world_env \<Rightarrow> (resource \<Rightarrow> 'a rpc) \<Rightarrow> resource \<Rightarrow> 'd world \<Rightarrow> 'd world \<times> 'a rpc" where
  "rpc_Create env convert r w =
    (case ptr_Create env r w of
       (_, w, Some e) \<Rightarrow> (w, grpc_handleError e)
     | (r, w, None) \<Rightarrow> (w, convert r))"

definition rpc_Update :: "'d world_env \<Rightarrow> (resource \<Rightarrow> 'a rpc) \<Rightarrow> resource \<Rightarrow> 'd world \<Rightarrow> 'd world \<times> 'a rpc" where
  "rpc_Update env convert r w =
    (case ptr_Update env r w of
       (_, w, Some e) \<Rightarrow> (w, grpc_handleError e)
     | (r, w, None) \<Rightarrow> (w, convert r))"

definition rpc_Delete :: "'d world_env \<Rightarrow> string \<Rightarrow> string \<Rightarrow> string \<Rightarrow> 'd world \<Rightarrow> 'd world \<times> unit rpc" where
  "rpc_Delete env kind name namespace w =
    (case w_Delete env kind name namespace w of
       (w, Some e) \<Rightarrow> (w, grpc_handleError e)
     | (w, None) \<Rightarrow> (w, Reply ()))"

definition rpc_Get :: "'d world_env \<Rightarrow> (resource \<Rightarrow> 'a rpc) \<Rightarrow> string \<Rightarrow> string \<Rightarrow> string \<Rightarrow> 'd world \<Rightarrow> 'a rpc" where
  "rpc_Get env convert kind name namespace w =
    (case w_Get env kind name namespace w of
       Inl e \<Rightarrow> grpc_handleError e
     | Inr r \<Rightarrow> convert r)"

text \<open>The loop of a list method: a resource of another type is skipped, and a conversion can panic.\<close>

fun rpc_loop :: "(resource \<Rightarrow> 'a rpc) \<Rightarrow> resource list \<Rightarrow> 'a list \<Rightarrow> 'a list rpc" where
  "rpc_loop convert [] acc = Reply acc"
| "rpc_loop convert (r # rs) acc =
    (case convert r of
       Reply x \<Rightarrow> rpc_loop convert rs (acc @ [x])
     | Fail _ _ \<Rightarrow> rpc_loop convert rs acc
     | Panic \<Rightarrow> Panic)"

definition rpc_List :: "'d world_env \<Rightarrow> (resource \<Rightarrow> 'a rpc) \<Rightarrow> string \<Rightarrow> string \<Rightarrow> 'd world \<Rightarrow> 'a list rpc" where
  "rpc_List env convert kind namespace w = rpc_loop convert (w_List env kind namespace None w) []"

text \<open>Type assertion and conversion.\<close>

definition not_a :: "string \<Rightarrow> 'a rpc" where
  "not_a kind = Fail GInternal (Text (''resource is not a '' @ kind))"

fun cell_reply :: "json \<Rightarrow> resource \<Rightarrow> p_cell rpc" where
  "cell_reply js (RCell c) = Reply (cellToProto js c)"
| "cell_reply js _ = not_a ''Cell''"

fun spec_reply :: "json \<Rightarrow> resource \<Rightarrow> p_agent_spec rpc" where
  "spec_reply js (RAgentSpec s) = (case agentSpecToProto js s of None \<Rightarrow> Panic | Some p \<Rightarrow> Reply p)"
| "spec_reply js _ = Fail GInternal (Text ''resource is not an AgentSpec'')"

fun hive_reply :: "json \<Rightarrow> resource \<Rightarrow> p_hive rpc" where
  "hive_reply js (RHive h) = Reply (hiveToProto js h)"
| "hive_reply js _ = not_a ''Hive''"

fun secret_reply :: "resource \<Rightarrow> p_secret rpc" where
  "secret_reply (RSecret s) = Reply (secretToProto s)"
| "secret_reply _ = not_a ''Secret''"

fun drone_reply :: "json \<Rightarrow> resource \<Rightarrow> p_drone rpc" where
  "drone_reply js (RDrone d) = (case droneToProto js d of None \<Rightarrow> Panic | Some p \<Rightarrow> Reply p)"
| "drone_reply js _ = not_a ''Drone''"

section \<open>Cells\<close>

definition grpc_ListCells :: "json \<Rightarrow> 'd world_env \<Rightarrow> 'd world \<Rightarrow> p_cell list rpc" where
  "grpc_ListCells js env w = rpc_List env (cell_reply js) ''Cell'' '''' w"

text \<open>The requests about one cell have a name only.\<close>

definition grpc_GetCell :: "json \<Rightarrow> 'd world_env \<Rightarrow> string option \<Rightarrow> 'd world \<Rightarrow> p_cell rpc" where
  "grpc_GetCell js env req w =
    (if req = None \<or> req = Some '''' then invalid ''name is required''
     else rpc_Get env (cell_reply js) ''Cell'' (the req) '''' w)"

definition grpc_CreateCell :: "json \<Rightarrow> 'd world_env \<Rightarrow> p_cell option option \<Rightarrow> 'd world \<Rightarrow> 'd world \<times> p_cell rpc" where
  "grpc_CreateCell js env req w =
    (case Option.bind req (cellFromProto js) of
       None \<Rightarrow> (w, invalid ''cell is required'')
     | Some cell \<Rightarrow>
        (case validateNamespace (GetName (RCell cell)) of
           Some e \<Rightarrow> (w, Fail GInvalidArgument (NamespaceMsg e))
         | None \<Rightarrow> rpc_Create env (cell_reply js) (RCell cell) w))"

definition grpc_UpdateCell :: "json \<Rightarrow> 'd world_env \<Rightarrow> (string \<times> p_cell option) option \<Rightarrow> 'd world \<Rightarrow>
    'd world \<times> p_cell rpc" where
  "grpc_UpdateCell js env req w =
    (case req of
       None \<Rightarrow> (w, invalid ''name is required'')
     | Some (name, body) \<Rightarrow>
        (if name = '''' then (w, invalid ''name is required'')
         else case cellFromProto js body of
                None \<Rightarrow> (w, invalid ''cell is required'')
              | Some cell \<Rightarrow>
                 (if GetName (RCell cell) \<noteq> name then (w, invalid ''name in request does not match name in cell'')
                  else rpc_Update env (cell_reply js) (RCell cell) w)))"

definition grpc_DeleteCell :: "'d world_env \<Rightarrow> string option \<Rightarrow> 'd world \<Rightarrow> 'd world \<times> unit rpc" where
  "grpc_DeleteCell env req w =
    (if req = None \<or> req = Some '''' then (w, invalid ''name is required'')
     else rpc_Delete env ''Cell'' (the req) '''' w)"


section \<open>Quota\<close>

definition grpc_checkResourceQuota :: "'d world_env \<Rightarrow> string \<Rightarrow> string \<Rightarrow> 'd world \<Rightarrow> quota_error option" where
  "grpc_checkResourceQuota env namespace kind w =
    (if namespace = '''' then None
     else case w_Get env ''Cell'' namespace '''' w of
       Inl ErrNotFound \<Rightarrow> None
     | Inl e \<Rightarrow> Some (QCellFailed e)
     | Inr (RCell cell) \<Rightarrow>
        (let quota = ce_ResourceQuota (cl_Spec cell)
         in if kind = ''Hive''
            then (if rq_MaxHives quota > 0 \<and> int (length (w_List env ''Hive'' namespace None w)) \<ge> rq_MaxHives quota
                  then Some (QHives (rq_MaxHives quota) namespace) else None)
            else if kind = ''Drone''
            then (let drones = w_List env ''Drone'' namespace None w
                  in if rq_MaxTotalDrones quota > 0 \<and> int (length drones) \<ge> rq_MaxTotalDrones quota
                     then Some (QDrones (rq_MaxTotalDrones quota) namespace)
                     else if rq_MaxMemoryGB quota > 0 \<and> memory_gb drones \<ge> rq_MaxMemoryGB quota
                     then Some (QMemory (rq_MaxMemoryGB quota) namespace)
                     else None)
            else None)
     | Inr _ \<Rightarrow> Some QNotCell)"

definition checkResourceQuotaForHive :: "'d world_env \<Rightarrow> string \<Rightarrow> 'd world \<Rightarrow> quota_error option" where
  "checkResourceQuotaForHive env namespace w =
    (if namespace = '''' then None
     else case w_Get env ''Cell'' namespace '''' w of
       Inl ErrNotFound \<Rightarrow> None
     | Inl e \<Rightarrow> Some (QCellFailed e)
     | Inr (RCell cell) \<Rightarrow>
        (let quota = ce_ResourceQuota (cl_Spec cell)
         in if rq_MaxHives quota > 0 \<and> int (length (w_List env ''Hive'' namespace None w)) \<ge> rq_MaxHives quota
            then Some (QHives (rq_MaxHives quota) namespace) else None)
     | Inr _ \<Rightarrow> Some QNotCell)"

section \<open>Agent specifications\<close>

definition grpc_ListAgentSpecs :: "json \<Rightarrow> 'd world_env \<Rightarrow> rpc_list option \<Rightarrow> 'd world \<Rightarrow> p_agent_spec list rpc" where
  "grpc_ListAgentSpecs js env req w =
    with_list req (\<lambda>namespace.
      case validateNamespace namespace of
        Some e \<Rightarrow> Fail GInvalidArgument (NamespaceMsg e)
      | None \<Rightarrow> rpc_List env (spec_reply js) ''AgentSpec'' namespace w)"

definition grpc_GetAgentSpec :: "json \<Rightarrow> 'd world_env \<Rightarrow> rpc_name option \<Rightarrow> 'd world \<Rightarrow> p_agent_spec rpc" where
  "grpc_GetAgentSpec js env req w =
    snd (with_name ''name'' req () (\<lambda>namespace name.
      ((), case validateNamespace namespace of
             Some e \<Rightarrow> Fail GInvalidArgument (NamespaceMsg e)
           | None \<Rightarrow> rpc_Get env (spec_reply js) ''AgentSpec'' name namespace w)))"

definition grpc_CreateAgentSpec :: "json \<Rightarrow> 'd world_env \<Rightarrow> p_agent_spec rpc_create option \<Rightarrow> 'd world \<Rightarrow>
    'd world \<times> p_agent_spec rpc" where
  "grpc_CreateAgentSpec js env req w =
    with_create ''agentspec'' (agentSpecFromProto js) req w (\<lambda>namespace spec.
      case validateNamespace namespace of
        Some e \<Rightarrow> (w, Fail GInvalidArgument (NamespaceMsg e))
      | None \<Rightarrow>
         (if rc_Command (ss_Runtime (as_Spec spec)) = [] then (w, invalid ''spec.runtime.command is required'')
          else if ic_Type (ss_Interface (as_Spec spec)) = '''' then (w, invalid ''spec.interface.type is required'')
          else if om_Namespace (as_Meta spec) \<noteq> '''' \<and> om_Namespace (as_Meta spec) \<noteq> namespace
          then (w, invalid ''namespace in request does not match namespace in agentspec'')
          else (let spec = spec\<lparr>as_Meta := (as_Meta spec)\<lparr>om_Namespace := namespace\<rparr>\<rparr>
                in case grpc_checkResourceQuota env namespace ''AgentSpec'' w of
                     Some e \<Rightarrow> (w, Fail GResourceExhausted (QuotaMsg e))
                   | None \<Rightarrow> rpc_Create env (spec_reply js) (RAgentSpec spec) w)))"

definition grpc_UpdateAgentSpec :: "json \<Rightarrow> 'd world_env \<Rightarrow> p_agent_spec rpc_update option \<Rightarrow> 'd world \<Rightarrow>
    'd world \<times> p_agent_spec rpc" where
  "grpc_UpdateAgentSpec js env req w =
    with_update ''agentspec'' (agentSpecFromProto js) req w (\<lambda>namespace name spec.
      case validateNamespace namespace of
        Some e \<Rightarrow> (w, Fail GInvalidArgument (NamespaceMsg e))
      | None \<Rightarrow>
         (case validateResourceNamespace (GetNamespace (RAgentSpec spec)) namespace of
            Some e \<Rightarrow> (w, Fail GInvalidArgument (NamespaceMsg e))
          | None \<Rightarrow>
             (if rc_Command (ss_Runtime (as_Spec spec)) = [] then (w, invalid ''spec.runtime.command is required'')
              else if ic_Type (ss_Interface (as_Spec spec)) = '''' then (w, invalid ''spec.interface.type is required'')
              else if GetName (RAgentSpec spec) \<noteq> name
              then (w, invalid ''name in request does not match name in agentspec'')
              else rpc_Update env (spec_reply js) (RAgentSpec spec) w)))"

definition grpc_DeleteAgentSpec :: "'d world_env \<Rightarrow> rpc_name option \<Rightarrow> 'd world \<Rightarrow> 'd world \<times> unit rpc" where
  "grpc_DeleteAgentSpec env req w =
    with_name ''name'' req w (\<lambda>namespace name. rpc_Delete env ''AgentSpec'' name namespace w)"

text \<open>The requests to scale carry the number as an \<open>int32\<close>, and it may not be negative.\<close>

definition with_scale :: "rpc_scale option \<Rightarrow> 'b \<Rightarrow> (string \<Rightarrow> string \<Rightarrow> string \<Rightarrow> int \<Rightarrow> 'b \<times> 'a rpc) \<Rightarrow> 'b \<times> 'a rpc" where
  "with_scale req w f =
    (case req of
       None \<Rightarrow> (w, invalid ''namespace is required'')
     | Some req \<Rightarrow>
        (if gs_namespace req = '''' then (w, invalid ''namespace is required'')
         else if gs_name req = '''' then (w, invalid ''name is required'')
         else if from32 (gs_replicas req) < 0 then (w, invalid ''replicas must be >= 0'')
         else f (gs_namespace req) (gs_name req) (gs_stage req) (from32 (gs_replicas req))))"

definition grpc_ScaleAgentSpec :: "'d world_env \<Rightarrow> rpc_scale option \<Rightarrow> 'd world \<Rightarrow> 'd world \<times> rpc_scaled rpc" where
  "grpc_ScaleAgentSpec env req w =
    with_scale req w (\<lambda>namespace name _ replicas.
      case w_Get env ''AgentSpec'' name namespace w of
        Inl e \<Rightarrow> (w, grpc_handleError e)
      | Inr (RAgentSpec spec) \<Rightarrow>
         (let s = ss_Scaling (as_Spec spec)
          in if sc_MinReplicas s > 0 \<and> replicas < sc_MinReplicas s
             then (w, invalid (''replicas ('' @ int_str replicas @ '') must be >= minReplicas ('' @
               int_str (sc_MinReplicas s) @ '')''))
             else if sc_MaxReplicas s > 0 \<and> replicas > sc_MaxReplicas s
             then (w, invalid (''replicas ('' @ int_str replicas @ '') must be <= maxReplicas ('' @
               int_str (sc_MaxReplicas s) @ '')''))
             else case w_Update env (RAgentSpec (set_replicas replicas spec)) w of
                    (w, Some e) \<Rightarrow> (w, grpc_handleError e)
                  | (w, None) \<Rightarrow>
                     (w, Reply \<lparr>gsr_message = ''AgentSpec '' @ name @ '' scaled to '' @ int_str replicas @ '' replicas'',
                       gsr_replicas = to32 replicas\<rparr>))
      | Inr _ \<Rightarrow> (w, Fail GInternal (Text ''failed to cast resource to AgentSpec'')))"

text \<open>The loop over the drones is the one of the REST handler, \<open>drain_all\<close>, with an \<open>int32\<close> counter.\<close>

definition grpc_DrainAgentSpec :: "'d world_env \<Rightarrow> (nat \<Rightarrow> string) \<Rightarrow> rpc_drain option \<Rightarrow> 'd world \<Rightarrow>
    'd world \<times> rpc_drained rpc" where
  "grpc_DrainAgentSpec env now req w =
    (case req of
       None \<Rightarrow> (w, invalid ''namespace is required'')
     | Some req \<Rightarrow>
        (if gd_namespace req = '''' then (w, invalid ''namespace is required'')
         else if gd_name req = '''' then (w, invalid ''name is required'')
         else case w_Get env ''AgentSpec'' (gd_name req) (gd_namespace req) w of
                Inl e \<Rightarrow> (w, grpc_handleError e)
              | Inr _ \<Rightarrow>
                 (let drones = w_List env ''Drone'' (gd_namespace req) (Some [(''agentspec'', gd_name req)]) w;
                      (w, drained, errs) = drain_all env (gd_namespace req) (gd_force req) now drones 0 [] w
                  in (w, Reply \<lparr>gdr_message = ''Drained '' @ int_str (from32 (of_nat drained)) @ '' Drone(s) for AgentSpec '' @
                         gd_name req @ (if errs \<noteq> [] then '' ('' @ nat_str (length errs) @ '' errors)'' else ''''),
                       gdr_drainedCount = of_nat drained, gdr_errors = errs\<rparr>))))"

section \<open>Hives\<close>

definition grpc_ListHives :: "json \<Rightarrow> 'd world_env \<Rightarrow> rpc_list option \<Rightarrow> 'd world \<Rightarrow> p_hive list rpc" where
  "grpc_ListHives js env req w = with_list req (\<lambda>namespace. rpc_List env (hive_reply js) ''Hive'' namespace w)"

definition grpc_GetHive :: "json \<Rightarrow> 'd world_env \<Rightarrow> rpc_name option \<Rightarrow> 'd world \<Rightarrow> p_hive rpc" where
  "grpc_GetHive js env req w =
    snd (with_name ''name'' req () (\<lambda>namespace name. ((), rpc_Get env (hive_reply js) ''Hive'' name namespace w)))"

text \<open>Here the quota is checked before the body is converted.\<close>

definition grpc_CreateHive :: "json \<Rightarrow> 'd world_env \<Rightarrow> p_hive rpc_create option \<Rightarrow> 'd world \<Rightarrow> 'd world \<times> p_hive rpc" where
  "grpc_CreateHive js env req w =
    with_create ''hive'' (hiveFromProto js) req w (\<lambda>namespace hive.
      case checkResourceQuotaForHive env namespace w of
        Some e \<Rightarrow> (w, Fail GResourceExhausted (QuotaMsg e))
      | None \<Rightarrow>
         (if om_Namespace (hv_Meta hive) \<noteq> '''' \<and> om_Namespace (hv_Meta hive) \<noteq> namespace
          then (w, invalid ''namespace in request does not match namespace in hive'')
          else rpc_Create env (hive_reply js) (RHive (hive\<lparr>hv_Meta := (hv_Meta hive)\<lparr>om_Namespace := namespace\<rparr>\<rparr>)) w))"

definition grpc_UpdateHive :: "json \<Rightarrow> 'd world_env \<Rightarrow> p_hive rpc_update option \<Rightarrow> 'd world \<Rightarrow> 'd world \<times> p_hive rpc" where
  "grpc_UpdateHive js env req w =
    with_update ''hive'' (hiveFromProto js) req w (\<lambda>namespace name hive.
      if GetName (RHive hive) \<noteq> name then (w, invalid ''name in request does not match name in hive'')
      else if om_Namespace (hv_Meta hive) \<noteq> namespace
      then (w, invalid ''namespace in request does not match namespace in hive'')
      else rpc_Update env (hive_reply js) (RHive hive) w)"

definition grpc_DeleteHive :: "'d world_env \<Rightarrow> rpc_name option \<Rightarrow> 'd world \<Rightarrow> 'd world \<times> unit rpc" where
  "grpc_DeleteHive env req w =
    with_name ''name'' req w (\<lambda>namespace name. rpc_Delete env ''Hive'' name namespace w)"

definition grpc_ScaleHive :: "'d world_env \<Rightarrow> rpc_scale option \<Rightarrow> 'd world \<Rightarrow> 'd world \<times> rpc_scaled rpc" where
  "grpc_ScaleHive env req w =
    with_scale req w (\<lambda>namespace name stage replicas.
      case w_Get env ''Hive'' name namespace w of
        Inl e \<Rightarrow> (w, grpc_handleError e)
      | Inr (RHive hive) \<Rightarrow>
         (let stages = hi_Stages (hv_Spec hive)
          in case (if stage \<noteq> '''' then scale_stage stage replicas stages
                   else Some (map (\<lambda>st. st\<lparr>st_Replicas := replicas\<rparr>) stages)) of
               None \<Rightarrow> (w, Fail GNotFound (Text (''stage '' @ stage @ '' not found'')))
             | Some stages \<Rightarrow>
                (case w_Update env (RHive (hive\<lparr>hv_Spec := (hv_Spec hive)\<lparr>hi_Stages := stages\<rparr>\<rparr>)) w of
                   (w, Some e) \<Rightarrow> (w, grpc_handleError e)
                 | (w, None) \<Rightarrow>
                    (w, Reply \<lparr>gsr_message =
                       (if stage \<noteq> ''''
                        then ''Hive '' @ name @ '' stage '' @ stage @ '' scaled to '' @ int_str replicas @ '' replicas''
                        else ''Hive '' @ name @ '' scaled to '' @ int_str replicas @ '' replicas''),
                       gsr_replicas = to32 replicas\<rparr>)))
      | Inr _ \<Rightarrow> (w, Fail GInternal (Text ''failed to cast resource to Hive'')))"

section \<open>Secrets\<close>

definition grpc_ListSecrets :: "'d world_env \<Rightarrow> rpc_list option \<Rightarrow> 'd world \<Rightarrow> p_secret list rpc" where
  "grpc_ListSecrets env req w = with_list req (\<lambda>namespace. rpc_List env secret_reply ''Secret'' namespace w)"

definition grpc_GetSecret :: "'d world_env \<Rightarrow> rpc_name option \<Rightarrow> 'd world \<Rightarrow> p_secret rpc" where
  "grpc_GetSecret env req w =
    snd (with_name ''name'' req () (\<lambda>namespace name. ((), rpc_Get env secret_reply ''Secret'' name namespace w)))"

definition grpc_CreateSecret :: "'d world_env \<Rightarrow> p_secret rpc_create option \<Rightarrow> 'd world \<Rightarrow> 'd world \<times> p_secret rpc" where
  "grpc_CreateSecret env req w =
    with_create ''secret'' secretFromProto req w (\<lambda>namespace secret.
      case validateNamespace namespace of
        Some e \<Rightarrow> (w, Fail GInvalidArgument (NamespaceMsg e))
      | None \<Rightarrow>
         (if om_Namespace (sec_Meta secret) \<noteq> '''' \<and> om_Namespace (sec_Meta secret) \<noteq> namespace
          then (w, invalid ''namespace in request does not match namespace in secret'')
          else (let secret = secret\<lparr>sec_Meta := (sec_Meta secret)\<lparr>om_Namespace := namespace\<rparr>\<rparr>
                in if sec_Data secret = [] then (w, invalid ''secret data cannot be empty'')
                   else case validateResourceNamespace (om_Namespace (sec_Meta secret)) namespace of
                          Some e \<Rightarrow> (w, Fail GInvalidArgument (NamespaceMsg e))
                        | None \<Rightarrow> rpc_Create env secret_reply (RSecret secret) w)))"

definition grpc_UpdateSecret :: "'d world_env \<Rightarrow> p_secret rpc_update option \<Rightarrow> 'd world \<Rightarrow> 'd world \<times> p_secret rpc" where
  "grpc_UpdateSecret env req w =
    with_update ''secret'' secretFromProto req w (\<lambda>namespace name secret.
      case validateNamespace namespace of
        Some e \<Rightarrow> (w, Fail GInvalidArgument (NamespaceMsg e))
      | None \<Rightarrow>
         (if GetName (RSecret secret) \<noteq> name then (w, invalid ''name in request does not match name in secret'')
          else case validateResourceNamespace (om_Namespace (sec_Meta secret)) namespace of
                 Some e \<Rightarrow> (w, Fail GInvalidArgument (NamespaceMsg e))
               | None \<Rightarrow> rpc_Update env secret_reply (RSecret secret) w))"

definition grpc_DeleteSecret :: "'d world_env \<Rightarrow> rpc_name option \<Rightarrow> 'd world \<Rightarrow> 'd world \<times> unit rpc" where
  "grpc_DeleteSecret env req w =
    with_name ''name'' req w (\<lambda>namespace name. rpc_Delete env ''Secret'' name namespace w)"


end
