(* ===== verification/GRPC_Drones.thy ===== *)
theory GRPC_Drones
  imports GRPC_Resources Comb
begin

text \<open>
  \<open>grpc_drones.go\<close>: the methods of the gRPC server about drones, with the two that stream what the
  keeper of a drone answers.  The keeper's HTTP interface is a parameter: an error, or a status, the body
  as a whole, and the reads the streaming loop makes of it.
\<close>

section \<open>Drones\<close>

definition grpc_ListDrones :: "json \<Rightarrow> 'd world_env \<Rightarrow> rpc_list option \<Rightarrow> 'd world \<Rightarrow> p_drone list rpc" where
  "grpc_ListDrones js env req w = with_list req (\<lambda>namespace. rpc_List env (drone_reply js) ''Drone'' namespace w)"

definition grpc_GetDrone :: "json \<Rightarrow> 'd world_env \<Rightarrow> rpc_name option \<Rightarrow> 'd world \<Rightarrow> p_drone rpc" where
  "grpc_GetDrone js env req w =
    snd (with_name ''id'' req () (\<lambda>namespace i. ((), rpc_Get env (drone_reply js) ''Drone'' i namespace w)))"

definition grpc_DeleteDrone :: "'d world_env \<Rightarrow> rpc_name option \<Rightarrow> 'd world \<Rightarrow> 'd world \<times> unit rpc" where
  "grpc_DeleteDrone env req w =
    with_name ''id'' req w (\<lambda>namespace i. rpc_Delete env ''Drone'' i namespace w)"

section \<open>Draining\<close>

definition grpc_drain_delete :: "'d world_env \<Rightarrow> string \<Rightarrow> string \<Rightarrow> string \<Rightarrow> 'd world \<Rightarrow> 'd world \<times> string rpc" where
  "grpc_drain_delete env i namespace msg w =
    (case w_Delete env ''Drone'' i namespace w of
       (w, Some e) \<Rightarrow> (w, grpc_handleError e)
     | (w, None) \<Rightarrow> (w, Reply msg))"

text \<open>As in the REST handler the list holds what the others do before each tick; only the phase
  \<open>stopped\<close> ends the loop.\<close>

fun grpc_drain_loop :: "'d world_env \<Rightarrow> string \<Rightarrow> string \<Rightarrow> ('d world \<Rightarrow> 'd world) list \<Rightarrow> 'd world \<Rightarrow>
    'd world \<times> string rpc" where
  "grpc_drain_loop env i namespace [] w =
    grpc_drain_delete env i namespace (''Drone '' @ i @ '' drained (timeout reached) and deleted'') w"
| "grpc_drain_loop env i namespace (act # acts) w =
    (let w = act w
     in case w_Get env ''Drone'' i namespace w of
          Inl _ \<Rightarrow> (w, Reply (''Drone '' @ i @ '' drained and deleted''))
        | Inr (RDrone d) \<Rightarrow>
           (if dst_Phase (dr_Status d) = DronePhaseStopped
            then grpc_drain_delete env i namespace (''Drone '' @ i @ '' drained and deleted'') w
            else grpc_drain_loop env i namespace acts w)
        | Inr _ \<Rightarrow> (w, Fail GInternal (Text ''failed to cast resource to Drone'')))"

definition grpc_DrainDrone :: "(string \<Rightarrow> duration option) \<Rightarrow> (duration \<Rightarrow> ('d world \<Rightarrow> 'd world) list) \<Rightarrow> 'd world_env \<Rightarrow>
    string \<Rightarrow> rpc_drain option \<Rightarrow> 'd world \<Rightarrow> 'd world \<times> string rpc" where
  "grpc_DrainDrone parseDuration acts env now req w =
    (case req of
       None \<Rightarrow> (w, invalid ''namespace is required'')
     | Some req \<Rightarrow>
        (if gd_namespace req = '''' then (w, invalid ''namespace is required'')
         else if gd_name req = '''' then (w, invalid ''id is required'')
         else case w_Get env ''Drone'' (gd_name req) (gd_namespace req) w of
                Inl e \<Rightarrow> (w, grpc_handleError e)
              | Inr (RDrone d) \<Rightarrow>
                 (case (if gd_timeout req \<noteq> '''' then parseDuration (gd_timeout req) else Some (30 * second)) of
                    None \<Rightarrow> (w, invalid ''invalid timeout format'')
                  | Some timeout \<Rightarrow>
                     (case w_Update env (RDrone (mark_draining now d)) w of
                        (w, Some e) \<Rightarrow> (w, grpc_handleError e)
                      | (w, None) \<Rightarrow>
                         (if gd_force req
                          then grpc_drain_delete env (gd_name req) (gd_namespace req)
                            (''Drone '' @ gd_name req @ '' force drained and deleted'') w
                          else grpc_drain_loop env (gd_name req) (gd_namespace req) (acts timeout) w)))
              | Inr _ \<Rightarrow> (w, Fail GInternal (Text ''failed to cast resource to Drone''))))"

section \<open>Streams\<close>

text \<open>One round of a streaming loop: the context, what \<open>Read\<close> returns, and the error of the sends.\<close>

datatype read_end = ReadMore | ReadEOF | ReadFailed string

record read_step =
  rd_ctx :: "ctx_error option"
  rd_chunk :: string
  rd_end :: read_end
  rd_sendErr :: "string option"
  rd_finalErr :: "string option"

datatype stream_end = StreamOk | StreamCtx ctx_error | SendErr string | StreamFail grpc_code message_text | StreamOpen

fun log_stream :: "read_step list \<Rightarrow> string list \<Rightarrow> string list \<times> stream_end" where
  "log_stream [] sent = (sent, StreamOpen)"
| "log_stream (st # sts) sent =
    (case rd_ctx st of
       Some e \<Rightarrow> (sent, StreamCtx e)
     | None \<Rightarrow>
        (if rd_chunk st \<noteq> [] \<and> rd_sendErr st \<noteq> None then (sent, SendErr (the (rd_sendErr st)))
         else (let sent = (if rd_chunk st \<noteq> [] then sent @ [rd_chunk st] else sent)
               in case rd_end st of
                    ReadEOF \<Rightarrow> (sent, StreamOk)
                  | ReadFailed e \<Rightarrow> (sent, StreamFail GInternal (Text (''failed to read logs: '' @ e)))
                  | ReadMore \<Rightarrow> log_stream sts sent)))"

text \<open>\<open>handleError\<close> in a method that returns an error only.\<close>

definition stream_error :: "store_error \<Rightarrow> stream_end" where
  "stream_error e = (case (grpc_handleError e :: unit rpc) of Fail c m \<Rightarrow> StreamFail c m | _ \<Rightarrow> StreamOk)"

record rpc_logs =
  gg_namespace :: string
  gg_id :: string
  gg_tail :: string
  gg_since :: string

text \<open>\<open>mkreq\<close> is the error of \<open>http.NewRequest\<close>, if any.\<close>

definition grpc_GetDroneLogs :: "(string \<Rightarrow> string option) \<Rightarrow> (string \<Rightarrow> string + (int \<times> string \<times> read_step list)) \<Rightarrow>
    'd world_env \<Rightarrow> rpc_logs option \<Rightarrow> 'd world \<Rightarrow> string list \<times> stream_end" where
  "grpc_GetDroneLogs mkreq fetch env req w =
    (case req of
       None \<Rightarrow> ([], StreamFail GInvalidArgument (Text ''namespace is required''))
     | Some req \<Rightarrow>
        (if gg_namespace req = '''' then ([], StreamFail GInvalidArgument (Text ''namespace is required''))
         else if gg_id req = '''' then ([], StreamFail GInvalidArgument (Text ''id is required''))
         else case w_Get env ''Drone'' (gg_id req) (gg_namespace req) w of
                Inl e \<Rightarrow> ([], stream_error e)
              | Inr (RDrone d) \<Rightarrow>
                 (let keeperAddr = dst_KeeperAddr (dr_Status d)
                  in if keeperAddr = '''' then ([], StreamFail GNotFound (Text ''Keeper address not found for drone''))
                     else (let url = logs_url keeperAddr (gg_tail req) (gg_since req)
                           in case mkreq url of
                                Some e \<Rightarrow> ([], StreamFail GInternal (Text (''failed to create request: '' @ e)))
                              | None \<Rightarrow>
                                 (case fetch url of
                                    Inl e \<Rightarrow> ([], StreamFail GInternal (Text (''failed to fetch logs from Keeper: '' @ e)))
                                  | Inr (status, text, steps) \<Rightarrow>
                                     (if status \<noteq> 200
                                      then ([], StreamFail GInternal
                                        (Text (''Keeper returned status '' @ int_str status @ '': '' @ text)))
                                      else log_stream steps []))))
              | Inr _ \<Rightarrow> ([], StreamFail GInternal (Text ''failed to cast resource to Drone''))))"

datatype exec_message = Stdout string | ExitCode int

fun exec_stream :: "read_step list \<Rightarrow> exec_message list \<Rightarrow> exec_message list \<times> stream_end" where
  "exec_stream [] sent = (sent, StreamOpen)"
| "exec_stream (st # sts) sent =
    (case rd_ctx st of
       Some e \<Rightarrow> (sent, StreamCtx e)
     | None \<Rightarrow>
        (if rd_chunk st \<noteq> [] \<and> rd_sendErr st \<noteq> None then (sent, SendErr (the (rd_sendErr st)))
         else (let sent = (if rd_chunk st \<noteq> [] then sent @ [Stdout (rd_chunk st)] else sent)
               in case rd_end st of
                    ReadEOF \<Rightarrow>
                      (case rd_finalErr st of Some e \<Rightarrow> (sent, SendErr e) | None \<Rightarrow> (sent @ [ExitCode 0], StreamOk))
                  | ReadFailed e \<Rightarrow> (sent, StreamFail GInternal (Text (''failed to read output: '' @ e)))
                  | ReadMore \<Rightarrow> exec_stream sts sent)))"

record rpc_exec =
  ge_namespace :: string
  ge_id :: string
  ge_request :: exec_request

datatype recv = RecvEOF | RecvErr string | Recv rpc_exec

text \<open>Only the first message of the client is received; the request goes to the keeper as it is.\<close>

definition grpc_ExecDrone :: "(string \<Rightarrow> string option) \<Rightarrow>
    (string \<Rightarrow> exec_request \<Rightarrow> string + (int \<times> string \<times> read_step list)) \<Rightarrow> 'd world_env \<Rightarrow> recv \<Rightarrow> 'd world \<Rightarrow>
    exec_message list \<times> stream_end" where
  "grpc_ExecDrone mkreq post env first w =
    (case first of
       RecvEOF \<Rightarrow> ([], StreamFail GInvalidArgument (Text ''no request received''))
     | RecvErr e \<Rightarrow> ([], SendErr e)
     | Recv req \<Rightarrow>
        (if ge_namespace req = '''' then ([], StreamFail GInvalidArgument (Text ''namespace is required''))
         else if ge_id req = '''' then ([], StreamFail GInvalidArgument (Text ''id is required''))
         else case w_Get env ''Drone'' (ge_id req) (ge_namespace req) w of
                Inl e \<Rightarrow> ([], stream_error e)
              | Inr (RDrone d) \<Rightarrow>
                 (let keeperAddr = dst_KeeperAddr (dr_Status d)
                  in if keeperAddr = '''' then ([], StreamFail GNotFound (Text ''Keeper address not found for drone''))
                     else if xr_Command (ge_request req) = []
                     then ([], StreamFail GInvalidArgument (Text ''command is required''))
                     else (let url = ''http://'' @ keeperAddr @ ''/exec''
                           in case mkreq url of
                                Some e \<Rightarrow> ([], StreamFail GInternal (Text (''failed to create request: '' @ e)))
                              | None \<Rightarrow>
                                 (case post url (ge_request req) of
                                    Inl e \<Rightarrow> ([], StreamFail GInternal (Text (''failed to execute command on Keeper: '' @ e)))
                                  | Inr (status, text, steps) \<Rightarrow>
                                     (if status \<noteq> 200
                                      then ([], StreamFail GInternal
                                        (Text (''Keeper returned status '' @ int_str status @ '': '' @ text)))
                                      else exec_stream steps []))))
              | Inr _ \<Rightarrow> ([], StreamFail GInternal (Text ''failed to cast resource to Drone''))))"

text \<open>A stream that ends well has sent everything that was read, in order, and nothing after the end.\<close>

lemma log_stream_complete:
  "log_stream sts acc = (sent, StreamOk) \<Longrightarrow>
    \<exists>n < length sts. concat sent = concat acc @ concat (map rd_chunk (take (Suc n) sts)) \<and> rd_end (sts ! n) = ReadEOF"
proof (induction sts arbitrary: acc)
  case Nil
  then show ?case by simp
next
  case (Cons st sts)
  show ?case
  proof (cases "rd_end st")
    case ReadMore
    have "log_stream sts (if rd_chunk st \<noteq> [] then acc @ [rd_chunk st] else acc) = (sent, StreamOk)"
      using Cons.prems ReadMore by (simp add: Let_def split: option.splits if_splits)
    from Cons.IH [OF this] obtain n where n: "n < length sts" "rd_end (sts ! n) = ReadEOF"
      "concat sent = concat (if rd_chunk st \<noteq> [] then acc @ [rd_chunk st] else acc) @ concat (map rd_chunk (take (Suc n) sts))"
      by blast
    then show ?thesis by (intro exI [of _ "Suc n"]) (auto split: if_splits)
  next
    case ReadEOF
    then show ?thesis using Cons.prems by (intro exI [of _ 0]) (auto simp: Let_def split: option.splits if_splits)
  qed (use Cons.prems in \<open>simp add: Let_def split: option.splits if_splits\<close>)
qed

end
