(* ===== verification/GRPC_Interceptors.thy ===== *)
theory GRPC_Interceptors
  imports GRPC_Drones
begin

text \<open>
  \<open>grpc_interceptors.go\<close>: the interceptors that find the caller and check its role.  A unary handler
  gets the context (here its principal) and changes a state of any type; a stream handler gets the
  stream, whose context only a wrapper could change.  Those that only
  observe are in \<open>Tracing\<close>.

  The metadata are the values of each key.  A request is described by the namespace its
  \<open>GetNamespace\<close> returns, if its type has that method.
\<close>

section \<open>The caller\<close>

type_synonym metadata = "(string \<Rightarrow> string list) option"

definition extractPrincipalFromMetadata :: "metadata \<Rightarrow> principal option" where
  "extractPrincipalFromMetadata md =
    (case md of
       None \<Rightarrow> None
     | Some md \<Rightarrow>
        (if md ''x-user-id'' = [] \<or> hd (md ''x-user-id'') = '''' then None
         else (let userID = hd (md ''x-user-id'');
                   userNames = md ''x-user-name''
               in Some \<lparr>pr_ID = userID,
                        pr_Name = (if userNames \<noteq> [] \<and> hd userNames \<noteq> '''' then hd userNames else userID)\<rparr>)))"

section \<open>Methods and permissions\<close>

text \<open>The backwards scan for a slash; \<open>i\<close> counts down from the length.\<close>

fun method_scan :: "string \<Rightarrow> nat \<Rightarrow> string" where
  "method_scan m 0 = m"
| "method_scan m (Suc i) =
    (if m ! i = CHR ''/'' then (if Suc i < length m then drop (Suc i) m else m) else method_scan m i)"

definition method_name :: "string \<Rightarrow> string" where
  "method_name m = method_scan m (length m)"

definition read_methods :: "string list" where
  "read_methods = [''ListCells'', ''GetCell'', ''ListAgentSpecs'', ''GetAgentSpec'', ''ListHives'', ''GetHive'',
    ''ListSecrets'', ''GetSecret'', ''ListDrones'', ''GetDrone'', ''GetDroneLogs'']"

definition create_methods :: "string list" where
  "create_methods = [''CreateCell'', ''CreateAgentSpec'', ''CreateHive'', ''CreateSecret'']"

definition update_methods :: "string list" where
  "update_methods = [''UpdateCell'', ''UpdateAgentSpec'', ''UpdateHive'', ''UpdateSecret'', ''ScaleAgentSpec'', ''ScaleHive'']"

definition delete_methods :: "string list" where
  "delete_methods = [''DeleteCell'', ''DeleteAgentSpec'', ''DeleteHive'', ''DeleteSecret'', ''DeleteDrone'', ''DrainDrone'',
    ''DrainAgentSpec'']"

definition getPermissionFromMethod :: "string \<Rightarrow> permission" where
  "getPermissionFromMethod m =
    (let n = method_name m
     in if n \<in> set read_methods then PermissionRead
        else if n \<in> set create_methods then PermissionCreate
        else if n \<in> set update_methods then PermissionUpdate
        else if n \<in> set delete_methods then PermissionDelete
        else PermissionRead)"

definition isNamespacedMethod :: "string \<Rightarrow> bool" where
  "isNamespacedMethod m \<longleftrightarrow> method_name m \<noteq> ''ListCells''"

definition extractNamespaceFromRequest :: "string option \<Rightarrow> string" where
  "extractNamespaceFromRequest req = (case req of Some ns \<Rightarrow> ns | None \<Rightarrow> '''')"

section \<open>Interceptors of unary methods\<close>

type_synonym ('s, 'a) unary = "principal option \<Rightarrow> 's \<Rightarrow> 's \<times> 'a rpc"

definition UnaryAuthInterceptor :: "metadata \<Rightarrow> ('s, 'a) unary \<Rightarrow> ('s, 'a) unary" where
  "UnaryAuthInterceptor md handler ctx =
    (case extractPrincipalFromMetadata md of None \<Rightarrow> handler ctx | Some p \<Rightarrow> handler (Some p))"

definition UnaryAuthorizationInterceptor :: "rbac option \<Rightarrow> bool \<Rightarrow> string \<Rightarrow> string option \<Rightarrow> ('s, 'a) unary \<Rightarrow>
    ('s, 'a) unary" where
  "UnaryAuthorizationInterceptor rbac requireAuth fullMethod req handler ctx s =
    (case rbac of
       None \<Rightarrow> handler ctx s
     | Some r \<Rightarrow>
        (if \<not> isNamespacedMethod fullMethod then handler ctx s
         else case ctx of
           None \<Rightarrow> (if requireAuth then (s, Fail GUnauthenticated (Text ''Authentication required'')) else handler ctx s)
         | Some p \<Rightarrow>
            (let namespace = extractNamespaceFromRequest req
             in if namespace = '''' then handler ctx s
                else if \<not> CheckPermission (Some p) namespace (getPermissionFromMethod fullMethod) r
                then (s, Fail GPermissionDenied (Text ''Insufficient permissions''))
                else handler ctx s)))"

section \<open>Interceptors of streams\<close>

text \<open>The principal is put into a context that is then dropped: the handler gets the stream as it was.\<close>

definition StreamAuthInterceptor :: "metadata \<Rightarrow> (principal option \<Rightarrow> 'o) \<Rightarrow> principal option \<Rightarrow> 'o" where
  "StreamAuthInterceptor md handler ss =
    (let ctx = ss; ctx = (case extractPrincipalFromMetadata md of None \<Rightarrow> ctx | Some p \<Rightarrow> Some p) in handler ss)"

definition StreamAuthorizationInterceptor :: "rbac option \<Rightarrow> bool \<Rightarrow> string \<Rightarrow>
    (principal option \<Rightarrow> 'm list \<times> stream_end) \<Rightarrow> principal option \<Rightarrow> 'm list \<times> stream_end" where
  "StreamAuthorizationInterceptor rbac requireAuth fullMethod handler ss =
    (case rbac of
       None \<Rightarrow> handler ss
     | Some r \<Rightarrow>
        (if \<not> isNamespacedMethod fullMethod then handler ss
         else case ss of
           None \<Rightarrow> (if requireAuth then ([], StreamFail GUnauthenticated (Text ''Authentication required'')) else handler ss)
         | Some p \<Rightarrow> handler ss))"

section \<open>What they check\<close>

lemma method_scan_suffix: "i \<le> length m \<Longrightarrow> \<forall>j. i \<le> j \<and> j < length m \<longrightarrow> m ! j \<noteq> CHR ''/'' \<Longrightarrow>
    m = p @ CHR ''/'' # n \<Longrightarrow> n \<noteq> [] \<Longrightarrow> CHR ''/'' \<notin> set n \<Longrightarrow> method_scan m i = n"
proof (induction i)
  case 0
  have "m ! length p = CHR ''/''" "length p < length m" by (simp_all add: 0(3))
  then show ?case using 0(2) by blast
next
  case (Suc i)
  show ?case
  proof (cases "m ! i = CHR ''/''")
    case True
    have "i = length p"
    proof (rule ccontr)
      assume "i \<noteq> length p"
      then consider "i < length p" | "length p < i" by linarith
      then show False
      proof cases
        case 1
        have "m ! length p = CHR ''/''" "length p < length m" by (simp_all add: Suc.prems(3))
        then show False using Suc.prems(2) 1 Suc_leI by blast
      next
        case 2
        have "i - Suc (length p) < length n" using Suc.prems(1,3) 2 by simp
        then have "n ! (i - Suc (length p)) \<in> set n" by (rule nth_mem)
        moreover have "m ! i = n ! (i - Suc (length p))" using Suc.prems(3) 2 by (simp add: nth_append)
        ultimately show False using True Suc.prems(5) by simp
      qed
    qed
    then show ?thesis using True Suc.prems(3,4) by simp
  next
    case False
    then have "\<forall>j. i \<le> j \<and> j < length m \<longrightarrow> m ! j \<noteq> CHR ''/''"
      using Suc.prems(2) le_antisym by (metis Suc_leI le_neq_implies_less)
    then show ?thesis using False Suc.IH Suc.prems(1,3-5) by simp
  qed
qed

text \<open>The name of a method is what follows the last slash.\<close>

lemma method_name_last: "n \<noteq> [] \<Longrightarrow> CHR ''/'' \<notin> set n \<Longrightarrow> method_name (p @ CHR ''/'' # n) = n"
  unfolding method_name_def by (rule method_scan_suffix) auto

definition full_method :: "string \<Rightarrow> string" where
  "full_method n = ''/apiary.v1.ApiaryService'' @ CHR ''/'' # n"

lemma method_name_full: "n \<noteq> [] \<Longrightarrow> CHR ''/'' \<notin> set n \<Longrightarrow> method_name (full_method n) = n"
  unfolding full_method_def by (rule method_name_last)

text \<open>A developer may call a method that changes something only if it creates or updates.\<close>

lemma getPermission_name:
  assumes "n \<noteq> []" "CHR ''/'' \<notin> set n"
  shows "getPermissionFromMethod (full_method n) =
    (if n \<in> set create_methods then PermissionCreate else if n \<in> set update_methods then PermissionUpdate
     else if n \<in> set delete_methods then PermissionDelete else PermissionRead)"
proof -
  have d: "n \<in> set read_methods \<Longrightarrow> n \<notin> set create_methods \<and> n \<notin> set update_methods \<and> n \<notin> set delete_methods"
    by (auto simp: read_methods_def create_methods_def update_methods_def delete_methods_def)
  show ?thesis using d by (simp add: getPermissionFromMethod_def method_name_full [OF assms] Let_def)
qed

end
