(* ===== verification/GRPC_Properties.thy ===== *)
theory GRPC_Properties
  imports API_Properties GRPC_Interceptors
begin

text \<open>
  What the gRPC methods do, compared with the handlers of the REST server they are said to mirror, and
  what the interceptors let through.
\<close>

section \<open>The two servers\<close>

text \<open>The HTTP status that stands for a code.\<close>

fun http_status :: "grpc_code \<Rightarrow> int" where
  "http_status GInvalidArgument = 400"
| "http_status GNotFound = 404"
| "http_status GAlreadyExists = 409"
| "http_status GResourceExhausted = 403"
| "http_status GInternal = 500"
| "http_status GUnauthenticated = 401"
| "http_status GPermissionDenied = 403"

text \<open>A panic loses the answer of a request that has been carried out.\<close>

definition agrees :: "'a rpc \<Rightarrow> answer \<Rightarrow> bool" where
  "agrees r rsp = (case r of Reply _ \<Rightarrow> success rsp | Panic \<Rightarrow> success rsp | Fail c _ \<Rightarrow> rsp_Status rsp = http_status c)"

definition mirrors :: "'w \<times> 'a rpc \<Rightarrow> 'w \<times> answer \<Rightarrow> bool" where
  "mirrors x y \<longleftrightarrow> fst x = fst y \<and> agrees (snd x) (snd y)"

lemma agrees_simps [simp]:
  "agrees (Reply a) rsp = success rsp" "agrees Panic rsp = success rsp"
  "agrees (Fail c m) rsp \<longleftrightarrow> rsp_Status rsp = http_status c"
  by (simp_all add: agrees_def)

lemma rsp_status_simps [simp]:
  "rsp_Status (errorResponse c e m) = c" "rsp_Status (bad_request t) = 400" "rsp_Status (bad_namespace ne) = 400"
  "rsp_Status (cast_failed k) = 500"
  by (simp_all add: errorResponse_def bad_request_def bad_namespace_def cast_failed_def)

lemma agrees_error [simp]: "agrees (grpc_handleError e) (handleError (store_api_error e))"
  by (cases "store_api_error e") (simp_all add: grpc_handleError_def)

lemma quota_same: "grpc_checkResourceQuota env ns kind w = checkResourceQuota env ns kind w"
  by (simp add: grpc_checkResourceQuota_def checkResourceQuota_def)

lemma quota_for_hive: "checkResourceQuotaForHive env ns w = checkResourceQuota env ns ''Hive'' w"
  by (auto simp: checkResourceQuotaForHive_def checkResourceQuota_def Let_def split: sum.split store_error.split resource.split)

text \<open>A conversion that answers for its kind.\<close>

definition converts :: "(resource \<Rightarrow> 'a rpc) \<Rightarrow> string \<Rightarrow> bool" where
  "converts convert kind \<longleftrightarrow> (\<forall>r c m. GetKind r = kind \<longrightarrow> convert r \<noteq> Fail c m)"

lemma converts_replies [simp]:
  "converts (cell_reply js) ''Cell''" "converts (spec_reply js) ''AgentSpec''" "converts (hive_reply js) ''Hive''"
  "converts secret_reply ''Secret''" "converts (drone_reply js) ''Drone''"
  unfolding converts_def
proof (safe)
  fix r c m
  show "GetKind r = ''Cell'' \<Longrightarrow> cell_reply js r = Fail c m \<Longrightarrow> False"
    and "GetKind r = ''AgentSpec'' \<Longrightarrow> spec_reply js r = Fail c m \<Longrightarrow> False"
    and "GetKind r = ''Hive'' \<Longrightarrow> hive_reply js r = Fail c m \<Longrightarrow> False"
    and "GetKind r = ''Secret'' \<Longrightarrow> secret_reply r = Fail c m \<Longrightarrow> False"
    and "GetKind r = ''Drone'' \<Longrightarrow> drone_reply js r = Fail c m \<Longrightarrow> False"
    by (cases r; simp split: option.splits)+
qed

lemma converts_success: "converts convert (GetKind r) \<Longrightarrow> success rsp \<Longrightarrow> agrees (convert r) rsp"
  by (cases "convert r") (auto simp: converts_def)

lemma store_write_kind: "GetKind (fst (store_write env now rnd ev v r s)) = GetKind r"
proof -
  have "GetKind r' = GetKind r" if "encryptSecretData cr rnd p r = Inr r'" for cr p r'
    using that by (auto simp: encryptSecretData_def split: resource.splits sum.splits)
  then show ?thesis by (auto simp: store_write_def Let_def split: sum.split option.split)
qed

lemma ptr_kind:
  "ptr_Create env r w = (r', w', e) \<Longrightarrow> GetKind r' = GetKind r"
  "ptr_Update env r w = (r', w', e) \<Longrightarrow> GetKind r' = GetKind r"
  by (auto simp: ptr_Create_def ptr_Update_def store_Create_def store_Update_def Let_def store_write_kind ensureUID_def
      split: sum.split kv_error.split)

lemma mirrors_Create: "converts convert (GetKind r) \<Longrightarrow> mirrors (rpc_Create env convert r w) (reply_Create env r w)"
  by (auto simp: rpc_Create_def reply_Create_def mirrors_def ptr_kind(1) intro!: converts_success split: prod.split option.split)

lemma mirrors_Update: "converts convert (GetKind r) \<Longrightarrow> mirrors (rpc_Update env convert r w) (reply_Update env r w)"
  by (auto simp: rpc_Update_def reply_Update_def mirrors_def ptr_kind(2) intro!: converts_success split: prod.split option.split)

lemma mirrors_Delete: "mirrors (rpc_Delete env k n ns w) (reply_Delete env k n ns w)"
  by (auto simp: rpc_Delete_def reply_Delete_def mirrors_def split: prod.split option.split)

lemma Get_kind:
  assumes "world_ok env" and "w_Get env k n m w = Inr r"
  shows "GetKind r = k"
proof -
  obtain data r0 where d: "unmarshalResource (we_store env) k data = Inr r0"
      "decryptSecretData (be_crypto (we_store env)) (bs_passphrase (w_store w)) r0 = Inr r"
    using assms(2) by (auto simp: w_Get_def store_Get_def split: sum.splits kv_error.splits)
  have "GetKind r0 = k" using unmarshal_kind [OF _ d(1)] assms(1) by (simp add: world_ok_def)
  then show ?thesis using d(2) by (auto simp: decryptSecretData_def Let_def split: resource.splits if_splits sum.splits)
qed

lemma agrees_Get: "world_ok env \<Longrightarrow> converts convert k \<Longrightarrow> agrees (rpc_Get env convert k n m w) (reply_Get env k n m w)"
  by (auto simp: rpc_Get_def reply_Get_def dest!: Get_kind intro!: converts_success split: sum.split)

lemma validated_nonempty: "validateNamespace ns = None \<Longrightarrow> ns \<noteq> ''''"
  by (auto simp: validateNamespace_def)

lemma mirrors_error [simp]: "mirrors (w, Fail c m) (w', rsp) \<longleftrightarrow> w = w' \<and> rsp_Status rsp = http_status c"
  by (simp add: mirrors_def)

lemma mirrors_reply: "success rsp \<Longrightarrow> mirrors (w, Reply a) (w, rsp)"
  by (simp add: mirrors_def)

lemma mirrors_handled: "mirrors (w, grpc_handleError e) (w, handleError (store_api_error e))"
  by (simp add: mirrors_def)

lemma spec_methods_mirror:
  assumes "world_ok env" "validateNamespace ns = None" "n \<noteq> ''''" "agentSpecFromProto js p = Some spec" "0 \<le> from32 k"
  shows "agrees (grpc_GetAgentSpec js env (Some \<lparr>gn_namespace = ns, gn_name = n\<rparr>) w) (getAgentSpec env ns n w)"
    and "mirrors (grpc_CreateAgentSpec js env (Some \<lparr>gc_namespace = ns, gc_resource = p\<rparr>) w) (createAgentSpec env ns (Inr spec) w)"
    and "mirrors (grpc_UpdateAgentSpec js env (Some \<lparr>gu_namespace = ns, gu_name = n, gu_resource = p\<rparr>) w)
      (updateAgentSpec env ns n (Inr spec) w)"
    and "mirrors (grpc_DeleteAgentSpec env (Some \<lparr>gn_namespace = ns, gn_name = n\<rparr>) w) (deleteAgentSpec env ns n w)"
    and "mirrors (grpc_ScaleAgentSpec env (Some \<lparr>gs_namespace = ns, gs_name = n, gs_stage = st, gs_replicas = k\<rparr>) w)
      (scaleAgentSpec env ns n (Inr (from32 k)) w)"
proof -
  note ne = validated_nonempty [OF assms(2)]
  show "agrees (grpc_GetAgentSpec js env (Some \<lparr>gn_namespace = ns, gn_name = n\<rparr>) w) (getAgentSpec env ns n w)"
    using ne assms(2,3) by (simp add: grpc_GetAgentSpec_def with_name_def getAgentSpec_def agrees_Get assms(1))
  show "mirrors (grpc_CreateAgentSpec js env (Some \<lparr>gc_namespace = ns, gc_resource = p\<rparr>) w) (createAgentSpec env ns (Inr spec) w)"
    using ne assms(2,4) by (simp add: grpc_CreateAgentSpec_def with_create_def createAgentSpec_def quota_same Let_def
        mirrors_Create split: option.split)
  show "mirrors (grpc_UpdateAgentSpec js env (Some \<lparr>gu_namespace = ns, gu_name = n, gu_resource = p\<rparr>) w)
      (updateAgentSpec env ns n (Inr spec) w)"
    using ne assms(2-4) by (simp add: grpc_UpdateAgentSpec_def with_update_def updateAgentSpec_def mirrors_Update
        split: option.split)
  show "mirrors (grpc_DeleteAgentSpec env (Some \<lparr>gn_namespace = ns, gn_name = n\<rparr>) w) (deleteAgentSpec env ns n w)"
    using ne assms(3) by (simp add: grpc_DeleteAgentSpec_def with_name_def deleteAgentSpec_def mirrors_Delete)
  show "mirrors (grpc_ScaleAgentSpec env (Some \<lparr>gs_namespace = ns, gs_name = n, gs_stage = st, gs_replicas = k\<rparr>) w)
      (scaleAgentSpec env ns n (Inr (from32 k)) w)"
    using ne assms(3,5) by (simp add: grpc_ScaleAgentSpec_def with_scale_def scaleAgentSpec_def Let_def mirrors_handled mirrors_reply
        split: sum.split resource.split prod.split option.split)
qed


lemma hive_methods_mirror:
  assumes "world_ok env" "ns \<noteq> ''''" "n \<noteq> ''''" "hiveFromProto js p = Some hive" "0 \<le> from32 k"
  shows "agrees (grpc_GetHive js env (Some \<lparr>gn_namespace = ns, gn_name = n\<rparr>) w) (getHive env ns n w)"
    and "mirrors (grpc_CreateHive js env (Some \<lparr>gc_namespace = ns, gc_resource = p\<rparr>) w) (createHive env ns (Inr hive) w)"
    and "mirrors (grpc_UpdateHive js env (Some \<lparr>gu_namespace = ns, gu_name = n, gu_resource = p\<rparr>) w)
      (updateHive env ns n (Inr hive) w)"
    and "mirrors (grpc_DeleteHive env (Some \<lparr>gn_namespace = ns, gn_name = n\<rparr>) w) (deleteHive env ns n w)"
    and "mirrors (grpc_ScaleHive env (Some \<lparr>gs_namespace = ns, gs_name = n, gs_stage = st, gs_replicas = k\<rparr>) w)
      (scaleHive env ns n (Inr (st, from32 k)) w)"
proof -
  show "agrees (grpc_GetHive js env (Some \<lparr>gn_namespace = ns, gn_name = n\<rparr>) w) (getHive env ns n w)"
    using assms(2,3) by (simp add: grpc_GetHive_def with_name_def getHive_def agrees_Get assms(1))
  show "mirrors (grpc_CreateHive js env (Some \<lparr>gc_namespace = ns, gc_resource = p\<rparr>) w) (createHive env ns (Inr hive) w)"
    using assms(2,4) by (simp add: grpc_CreateHive_def with_create_def createHive_def quota_for_hive mirrors_Create split: option.split)
  show "mirrors (grpc_UpdateHive js env (Some \<lparr>gu_namespace = ns, gu_name = n, gu_resource = p\<rparr>) w)
      (updateHive env ns n (Inr hive) w)"
    using assms(2-4) by (simp add: grpc_UpdateHive_def with_update_def updateHive_def mirrors_Update)
  show "mirrors (grpc_DeleteHive env (Some \<lparr>gn_namespace = ns, gn_name = n\<rparr>) w) (deleteHive env ns n w)"
    using assms(2,3) by (simp add: grpc_DeleteHive_def with_name_def deleteHive_def mirrors_Delete)
  show "mirrors (grpc_ScaleHive env (Some \<lparr>gs_namespace = ns, gs_name = n, gs_stage = st, gs_replicas = k\<rparr>) w)
      (scaleHive env ns n (Inr (st, from32 k)) w)"
    using assms(2,3,5) by (simp add: grpc_ScaleHive_def with_scale_def scaleHive_def Let_def mirrors_handled mirrors_reply
        split: sum.split resource.split prod.split option.split)
qed

text \<open>A secret may be emptied over gRPC, which REST refuses; otherwise the methods agree.\<close>

lemma secret_methods_mirror:
  assumes "world_ok env" "validateNamespace ns = None" "n \<noteq> ''''" "secretFromProto p = Some secret"
  shows "agrees (grpc_GetSecret env (Some \<lparr>gn_namespace = ns, gn_name = n\<rparr>) w) (getSecret env ns n w)"
    and "mirrors (grpc_CreateSecret env (Some \<lparr>gc_namespace = ns, gc_resource = p\<rparr>) w) (createSecret env ns (Inr secret) w)"
    and "sec_Data secret \<noteq> [] \<Longrightarrow> mirrors (grpc_UpdateSecret env (Some \<lparr>gu_namespace = ns, gu_name = n, gu_resource = p\<rparr>) w)
      (updateSecret env ns n (Inr secret) w)"
    and "mirrors (grpc_DeleteSecret env (Some \<lparr>gn_namespace = ns, gn_name = n\<rparr>) w) (deleteSecret env ns n w)"
proof -
  note ne = validated_nonempty [OF assms(2)]
  show "agrees (grpc_GetSecret env (Some \<lparr>gn_namespace = ns, gn_name = n\<rparr>) w) (getSecret env ns n w)"
    using ne assms(3) by (simp add: grpc_GetSecret_def with_name_def getSecret_def agrees_Get assms(1))
  show "mirrors (grpc_CreateSecret env (Some \<lparr>gc_namespace = ns, gc_resource = p\<rparr>) w) (createSecret env ns (Inr secret) w)"
    using ne assms(2,4) by (simp add: grpc_CreateSecret_def with_create_def createSecret_def Let_def mirrors_Create split: option.split)
  show "mirrors (grpc_UpdateSecret env (Some \<lparr>gu_namespace = ns, gu_name = n, gu_resource = p\<rparr>) w)
      (updateSecret env ns n (Inr secret) w)" if "sec_Data secret \<noteq> []"
    using ne assms(2-4) that
    by (auto simp: grpc_UpdateSecret_def with_update_def updateSecret_def mirrors_Update validateResourceNamespace_def
        errorResponse_def split: option.split)
  show "mirrors (grpc_DeleteSecret env (Some \<lparr>gn_namespace = ns, gn_name = n\<rparr>) w) (deleteSecret env ns n w)"
    using ne assms(2,3) by (simp add: grpc_DeleteSecret_def with_name_def deleteSecret_def mirrors_Delete)
qed

lemma cell_methods_mirror:
  assumes "world_ok env" "n \<noteq> ''''" "cellFromProto js p = Some cell"
  shows "agrees (grpc_GetCell js env (Some n) w) (getCell env n w)"
    and "mirrors (grpc_CreateCell js env (Some p) w) (createCell env (Inr cell) w)"
    and "mirrors (grpc_UpdateCell js env (Some (n, p)) w) (updateCell env n (Inr cell) w)"
    and "mirrors (grpc_DeleteCell env (Some n) w) (deleteCell env n w)"
proof -
  show "agrees (grpc_GetCell js env (Some n) w) (getCell env n w)"
    using assms(2) by (simp add: grpc_GetCell_def getCell_def agrees_Get assms(1))
  show "mirrors (grpc_CreateCell js env (Some p) w) (createCell env (Inr cell) w)"
    using assms(3) by (simp add: grpc_CreateCell_def createCell_def mirrors_Create split: option.split)
  show "mirrors (grpc_UpdateCell js env (Some (n, p)) w) (updateCell env n (Inr cell) w)"
    using assms(2,3) by (simp add: grpc_UpdateCell_def updateCell_def mirrors_Update)
  show "mirrors (grpc_DeleteCell env (Some n) w) (deleteCell env n w)"
    using assms(2) by (simp add: grpc_DeleteCell_def deleteCell_def mirrors_Delete)
qed


text \<open>While a drone is drained gracefully, gRPC waits for the phase \<open>stopped\<close>, REST also for \<open>failed\<close>: this is the condition
  that the drone is at no tick found failed.\<close>

fun never_failed :: "'d world_env \<Rightarrow> string \<Rightarrow> string \<Rightarrow> ('d world \<Rightarrow> 'd world) list \<Rightarrow> 'd world \<Rightarrow> bool" where
  "never_failed env i ns [] w \<longleftrightarrow> True"
| "never_failed env i ns (act # acts) w \<longleftrightarrow>
    (case w_Get env ''Drone'' i ns (act w) of
       Inr (RDrone d) \<Rightarrow> dst_Phase (dr_Status d) \<noteq> DronePhaseFailed \<and> never_failed env i ns acts (act w)
     | _ \<Rightarrow> True)"

lemma drain_delete_mirror: "mirrors (grpc_drain_delete env i ns msg w) (drain_delete env i ns msg' w)"
  by (simp add: grpc_drain_delete_def drain_delete_def mirrors_handled mirrors_reply split: prod.split option.split)

lemma drain_loop_mirror:
  "never_failed env i ns acts w \<Longrightarrow> mirrors (grpc_drain_loop env i ns acts w) (drain_loop env i ns acts w)"
  by (induction env i ns acts w rule: never_failed.induct)
    (auto simp: drain_delete_mirror mirrors_reply Let_def split: sum.split resource.split)

lemma drone_methods_mirror:
  assumes "ns \<noteq> ''''" "n \<noteq> ''''"
    and "dq_Force rq \<or> (\<forall>d t. w_Get env ''Drone'' n ns w = Inr (RDrone d) \<longrightarrow>
      never_failed env n ns (acts t) (fst (w_Update env (RDrone (mark_draining (nows 0) d)) w)))"
  shows "mirrors (grpc_DeleteDrone env (Some \<lparr>gn_namespace = ns, gn_name = n\<rparr>) w) (deleteDrone_api env ns n w)"
    and "mirrors (grpc_DrainDrone pd acts env (nows 0) (Some \<lparr>gd_namespace = ns, gd_name = n, gd_force = dq_Force rq,
      gd_timeout = dq_Timeout rq\<rparr>) w) (drainDrone pd acts env ns n (Inr rq) (nows 0) w)"
    and "mirrors (grpc_DrainAgentSpec env nows (Some \<lparr>gd_namespace = ns, gd_name = n, gd_force = dq_Force rq,
      gd_timeout = dq_Timeout rq\<rparr>) w) (drainAgentSpec env ns n (Inr rq) nows w)"
proof -
  show "mirrors (grpc_DeleteDrone env (Some \<lparr>gn_namespace = ns, gn_name = n\<rparr>) w) (deleteDrone_api env ns n w)"
    using assms(1,2) by (simp add: grpc_DeleteDrone_def with_name_def deleteDrone_api_def mirrors_Delete)
  show "mirrors (grpc_DrainDrone pd acts env (nows 0) (Some \<lparr>gd_namespace = ns, gd_name = n, gd_force = dq_Force rq,
      gd_timeout = dq_Timeout rq\<rparr>) w) (drainDrone pd acts env ns n (Inr rq) (nows 0) w)"
    using assms by (auto simp: grpc_DrainDrone_def drainDrone_def drain_bind_def Let_def mirrors_handled drain_delete_mirror
        drain_loop_mirror split: sum.split resource.split option.split prod.split)
  show "mirrors (grpc_DrainAgentSpec env nows (Some \<lparr>gd_namespace = ns, gd_name = n, gd_force = dq_Force rq,
      gd_timeout = dq_Timeout rq\<rparr>) w) (drainAgentSpec env ns n (Inr rq) nows w)"
    using assms(1,2) by (simp add: grpc_DrainAgentSpec_def drainAgentSpec_def drain_bind_def Let_def mirrors_handled mirrors_reply
        split: sum.split prod.split)
qed


text \<open>C11: The gRPC methods that change resources do what the REST handlers do that they are said to mirror:
  for the same valid namespace, name and resource they leave the same world and succeed or fail in the same way,
  for cells, agent specifications, hives, secrets and drones, drains included.
  The conditions are where they differ: REST does not check every namespace and takes a negative number of replicas,
  gRPC lets a secret be emptied by an update, and a graceful drain of a drone that fails meanwhile waits longer over gRPC.\<close>

theorem grpc_mirrors_rest:
  fixes env :: "'d world_env"
  assumes "world_ok env" "validateNamespace ns = None" "n \<noteq> ''''" "0 \<le> from32 k"
    and "cellFromProto js pc = Some cell" "agentSpecFromProto js pa = Some spec" "hiveFromProto js ph = Some hive"
    and "secretFromProto ps = Some secret" "sec_Data secret \<noteq> []"
    and "dq_Force rq \<or> (\<forall>d t. w_Get env ''Drone'' n ns w = Inr (RDrone d) \<longrightarrow>
      never_failed env n ns (acts t) (fst (w_Update env (RDrone (mark_draining (nows 0) d)) w)))"
  shows "mirrors (grpc_CreateCell js env (Some pc) w) (createCell env (Inr cell) w) \<and>
    mirrors (grpc_UpdateCell js env (Some (n, pc)) w) (updateCell env n (Inr cell) w) \<and>
    mirrors (grpc_DeleteCell env (Some n) w) (deleteCell env n w) \<and>
    mirrors (grpc_CreateAgentSpec js env (Some \<lparr>gc_namespace = ns, gc_resource = pa\<rparr>) w) (createAgentSpec env ns (Inr spec) w) \<and>
    mirrors (grpc_UpdateAgentSpec js env (Some \<lparr>gu_namespace = ns, gu_name = n, gu_resource = pa\<rparr>) w)
      (updateAgentSpec env ns n (Inr spec) w) \<and>
    mirrors (grpc_DeleteAgentSpec env (Some \<lparr>gn_namespace = ns, gn_name = n\<rparr>) w) (deleteAgentSpec env ns n w) \<and>
    mirrors (grpc_ScaleAgentSpec env (Some \<lparr>gs_namespace = ns, gs_name = n, gs_stage = st, gs_replicas = k\<rparr>) w)
      (scaleAgentSpec env ns n (Inr (from32 k)) w) \<and>
    mirrors (grpc_CreateHive js env (Some \<lparr>gc_namespace = ns, gc_resource = ph\<rparr>) w) (createHive env ns (Inr hive) w) \<and>
    mirrors (grpc_UpdateHive js env (Some \<lparr>gu_namespace = ns, gu_name = n, gu_resource = ph\<rparr>) w)
      (updateHive env ns n (Inr hive) w) \<and>
    mirrors (grpc_DeleteHive env (Some \<lparr>gn_namespace = ns, gn_name = n\<rparr>) w) (deleteHive env ns n w) \<and>
    mirrors (grpc_ScaleHive env (Some \<lparr>gs_namespace = ns, gs_name = n, gs_stage = st, gs_replicas = k\<rparr>) w)
      (scaleHive env ns n (Inr (st, from32 k)) w) \<and>
    mirrors (grpc_CreateSecret env (Some \<lparr>gc_namespace = ns, gc_resource = ps\<rparr>) w) (createSecret env ns (Inr secret) w) \<and>
    mirrors (grpc_UpdateSecret env (Some \<lparr>gu_namespace = ns, gu_name = n, gu_resource = ps\<rparr>) w)
      (updateSecret env ns n (Inr secret) w) \<and>
    mirrors (grpc_DeleteSecret env (Some \<lparr>gn_namespace = ns, gn_name = n\<rparr>) w) (deleteSecret env ns n w) \<and>
    mirrors (grpc_DeleteDrone env (Some \<lparr>gn_namespace = ns, gn_name = n\<rparr>) w) (deleteDrone_api env ns n w) \<and>
    mirrors (grpc_DrainDrone pd acts env (nows 0) (Some \<lparr>gd_namespace = ns, gd_name = n, gd_force = dq_Force rq,
      gd_timeout = dq_Timeout rq\<rparr>) w) (drainDrone pd acts env ns n (Inr rq) (nows 0) w) \<and>
    mirrors (grpc_DrainAgentSpec env nows (Some \<lparr>gd_namespace = ns, gd_name = n, gd_force = dq_Force rq,
      gd_timeout = dq_Timeout rq\<rparr>) w) (drainAgentSpec env ns n (Inr rq) nows w)"
  by (intro conjI cell_methods_mirror [OF assms(1,3,5)] spec_methods_mirror [OF assms(1-3,6,4)]
      hive_methods_mirror [OF assms(1) validated_nonempty [OF assms(2)] assms(3,7,4)]
      secret_methods_mirror [OF assms(1-3,8)] assms(9)
      drone_methods_mirror [where acts = acts and nows = nows, OF validated_nonempty [OF assms(2)] assms(3,10)])

lemma grpc_mirrors_rest_witness:
  "let p = hiveToProto empty_json quota_hive
   in mirrors (grpc_CreateHive empty_json table_world_env (Some \<lparr>gc_namespace = ''prod'', gc_resource = Some p\<rparr>) empty_world)
     (createHive table_world_env ''prod'' (Inr (the (hiveFromProto empty_json (Some p)))) empty_world)"
proof -
  let ?sec = "\<lparr>sec_TypeMeta = zero_type_meta, sec_Meta = zero_object_meta, sec_Data = [(''k'', ''v'')]\<rparr>"
  have v: "validateNamespace ''prod'' = None" by code_simp
  have k: "0 \<le> from32 1" by (simp add: from32_def)
  obtain cell spec hive secret where
      "cellFromProto empty_json (Some (cellToProto empty_json quota_cell)) = Some cell"
      "agentSpecFromProto empty_json (Some \<lparr>pa_typeMeta = None, pa_metadata = None, pa_spec = None\<rparr>) = Some spec"
      "hiveFromProto empty_json (Some (hiveToProto empty_json quota_hive)) = Some hive"
      "secretFromProto (Some (secretToProto ?sec)) = Some secret" "sec_Data secret \<noteq> []"
    by (simp add: cellFromProto_def agentSpecFromProto_def hiveFromProto_def secretFromProto_def secretToProto_def)
  from grpc_mirrors_rest [OF table_world_ok v _ k this, of "''main''" "\<lparr>dq_Force = True, dq_Timeout = ''''\<rparr>" empty_world
      "\<lambda>_. []" "\<lambda>_. ''''" "''''" "\<lambda>_. None"] this(3)
  show ?thesis by (simp add: Let_def)
qed


section \<open>Writing back what was read\<close>

lemma rpc_Update_reply:
  assumes "world_ok env" "plain (GetName r)" "plain (GetNamespace r)" "rpc_Update env convert r w = (w', Reply q)"
  shows "w_Get env (GetKind r) (GetName r) (GetNamespace r) w' = Inr r"
proof -
  have "w_Update env r w = (w', None)"
    using assms(4) by (auto simp: rpc_Update_def ptr_Update_def grpc_handleError_def split: prod.splits option.splits api_error.splits)
  then show ?thesis using ws.upd_effect [OF assms(1-3), of w w'] assms(2,3) by (auto simp: resource_key_def)
qed

text \<open>C25: A client that reads a hive over gRPC and writes the answer back unchanged stops it: afterwards every
  stage has the name and the agent it had, no replicas, and neither runs in parallel nor waits for all, and the segments of a
  composed pattern are gone.\<close>

theorem grpc_write_back_stops_hive:
  assumes "world_ok env" "plain ns" "plain n" and "w_Get env ''Hive'' n ns w = Inr (RHive h)"
    and "grpc_GetHive js env (Some \<lparr>gn_namespace = ns, gn_name = n\<rparr>) w = Reply p"
    and "grpc_UpdateHive js env (Some \<lparr>gu_namespace = ns, gu_name = n, gu_resource = Some p\<rparr>) w = (w', Reply q)"
  shows "\<exists>h'. w_Get env ''Hive'' n ns w' = Inr (RHive h') \<and> hi_PatternSegments (hv_Spec h') = [] \<and>
    hi_Stages (hv_Spec h') = map (\<lambda>st. \<lparr>st_Name = st_Name st, st_AgentRef = st_AgentRef st, st_Replicas = 0,
      st_Parallel = False, st_WaitForAll = False\<rparr>) (hi_Stages (hv_Spec h))"
proof -
  have ne: "ns \<noteq> ''''" "n \<noteq> ''''" using assms(5) by (auto simp: grpc_GetHive_def with_name_def split: if_splits)
  have p: "p = hiveToProto js h" using assms(4,5) ne by (simp add: grpc_GetHive_def with_name_def rpc_Get_def)
  obtain h' where h': "hiveFromProto js (Some p) = Some h'" by (simp add: hiveFromProto_def)
  have u: "rpc_Update env (hive_reply js) (RHive h') w = (w', Reply q)" "GetName (RHive h') = n" "om_Namespace (hv_Meta h') = ns"
    using assms(6) h' ne by (auto simp: grpc_UpdateHive_def with_update_def split: if_splits)
  have "w_Get env ''Hive'' n ns w' = Inr (RHive h')"
    using rpc_Update_reply [OF assms(1) _ _ u(1)] u(2,3) assms(2,3) by (simp add: names)
  then show ?thesis using grpc_hive_forgets_stages [of js h] h' unfolding p by auto
qed

definition staged_hive :: hive where
  "staged_hive = quota_hive\<lparr>hv_Spec := (hv_Spec quota_hive)\<lparr>hi_Stages :=
     [\<lparr>st_Name = ''s'', st_AgentRef = ''worker'', st_Replicas = 3, st_Parallel = True, st_WaitForAll = True\<rparr>]\<rparr>\<rparr>"

definition hive_table :: "(string \<times> resource) list" where
  "hive_table = [(''h'', RHive staged_hive), (''x'', RHive (the (hiveFromProto empty_json (Some (hiveToProto empty_json staged_hive)))))]"

abbreviation hive_world_env :: "(string \<times> string) list world_env" where
  "hive_world_env \<equiv> sample_world_env hive_table"

definition hive_world :: "(string \<times> string) list world" where
  "hive_world = fst (w_Create hive_world_env (RHive staged_hive) empty_world)"

lemma hive_world_Get: "w_Get hive_world_env ''Hive'' ''main'' ''prod'' hive_world = Inr (RHive staged_hive)"
  by code_simp

lemma grpc_write_back_stops_hive_witness:
  "\<exists>w' h'. w_Get hive_world_env ''Hive'' ''main'' ''prod'' w' = Inr (RHive h') \<and> map st_Replicas (hi_Stages (hv_Spec h')) = [0]"
proof -
  let ?p = "hiveToProto empty_json staged_hive"
  let ?u = "grpc_UpdateHive empty_json hive_world_env (Some \<lparr>gu_namespace = ''prod'', gu_name = ''main'', gu_resource = Some ?p\<rparr>) hive_world"
  have ok: "world_ok hive_world_env" by (rule sample_world_ok) (simp add: hive_table_def)
  have p: "plain ''main''" "plain ''prod''" by (simp_all add: plain_def)
  have g: "grpc_GetHive empty_json hive_world_env (Some \<lparr>gn_namespace = ''prod'', gn_name = ''main''\<rparr>) hive_world = Reply ?p"
    by (simp add: grpc_GetHive_def with_name_def rpc_Get_def hive_world_Get)
  have "(case snd ?u of Reply _ \<Rightarrow> True | _ \<Rightarrow> False) = True" by code_simp
  then obtain w' q where u: "?u = (w', Reply q)" by (cases ?u) (auto split: rpc.splits)
  from grpc_write_back_stops_hive [OF ok p(2,1) hive_world_Get g u] obtain h' where
      "w_Get hive_world_env ''Hive'' ''main'' ''prod'' w' = Inr (RHive h')" "map st_Replicas (hi_Stages (hv_Spec h')) = [0]"
    by (auto simp: staged_hive_def)
  then show ?thesis by (intro exI conjI)
qed

section \<open>Access over gRPC\<close>

text \<open>The unary methods of the service, as \<open>apiary.proto\<close> lists them, and which role may call which, by the verb in its name.\<close>

definition unary_methods :: "string list" where
  "unary_methods = [''ListCells'', ''GetCell'', ''CreateCell'', ''UpdateCell'', ''DeleteCell'',
    ''ListAgentSpecs'', ''GetAgentSpec'', ''CreateAgentSpec'', ''UpdateAgentSpec'', ''DeleteAgentSpec'', ''ScaleAgentSpec'',
    ''DrainAgentSpec'', ''ListHives'', ''GetHive'', ''CreateHive'', ''UpdateHive'', ''DeleteHive'', ''ScaleHive'',
    ''ListSecrets'', ''GetSecret'', ''CreateSecret'', ''UpdateSecret'', ''DeleteSecret'',
    ''ListDrones'', ''GetDrone'', ''DeleteDrone'', ''DrainDrone'']"

definition role_may :: "role \<Rightarrow> string \<Rightarrow> bool" where
  "role_may role n \<longleftrightarrow> role = ''admin'' \<or>
    (role = ''developer'' \<and> \<not> has_prefix ''Delete'' n \<and> \<not> has_prefix ''Drain'' n) \<or>
    (role = ''viewer'' \<and> (has_prefix ''List'' n \<or> has_prefix ''Get'' n))"

definition verb_permission :: "string \<Rightarrow> permission" where
  "verb_permission n =
    (if has_prefix ''Delete'' n \<or> has_prefix ''Drain'' n then PermissionDelete
     else if has_prefix ''List'' n \<or> has_prefix ''Get'' n then PermissionRead
     else if has_prefix ''Create'' n then PermissionCreate else PermissionUpdate)"

lemma unary_methods_filed:
  assumes "n \<in> set unary_methods"
  shows "getPermissionFromMethod (full_method n) = verb_permission n \<and> n \<noteq> [] \<and> CHR ''/'' \<notin> set n"
proof -
  have "list_all (\<lambda>n. getPermissionFromMethod (full_method n) = verb_permission n \<and> n \<noteq> [] \<and> CHR ''/'' \<notin> set n) unary_methods"
    by code_simp
  then show ?thesis using assms by (simp add: list_all_iff)
qed

lemma verbs_exclusive:
  "has_prefix ''Delete'' n \<Longrightarrow> \<not> has_prefix ''List'' n \<and> \<not> has_prefix ''Get'' n"
  "has_prefix ''Drain'' n \<Longrightarrow> \<not> has_prefix ''List'' n \<and> \<not> has_prefix ''Get'' n"
  by (cases n; auto)+

lemma role_may_permission:
  assumes "n \<in> set unary_methods"
  shows "hasPermission role (getPermissionFromMethod (full_method n)) \<longleftrightarrow> role_may role n"
  using verbs_exclusive [of n] unary_methods_filed [OF assms]
  by (auto simp: hasPermission_def role_may_def verb_permission_def)

text \<open>C21: A unary call about a cell reaches its handler exactly if the caller names itself and has a role in that cell that
  may call the method: an admin any, a developer all but those that delete or drain, a viewer only those that list or get.
  Otherwise it is answered with an error and changes nothing.\<close>

theorem grpc_calls_need_a_role:
  assumes "n \<in> set unary_methods" "n \<noteq> ''ListCells''" "ns \<noteq> ''''"
  shows "UnaryAuthInterceptor md (UnaryAuthorizationInterceptor (Some r) True (full_method n) (Some ns) handler) None s =
    (case extractPrincipalFromMetadata md of
       None \<Rightarrow> (s, Fail GUnauthenticated (Text ''Authentication required''))
     | Some p \<Rightarrow>
        (case GetRole ns (pr_ID p) r of
           None \<Rightarrow> (s, Fail GPermissionDenied (Text ''Insufficient permissions''))
         | Some role \<Rightarrow> (if role_may role n then handler (Some p) s
             else (s, Fail GPermissionDenied (Text ''Insufficient permissions'')))))"
proof -
  note n = unary_methods_filed [OF assms(1)]
  have "isNamespacedMethod (full_method n)"
    using n assms(2) by (simp add: isNamespacedMethod_def method_name_full)
  then show ?thesis using assms(3) role_may_permission [OF assms(1)] n
    by (simp add: UnaryAuthInterceptor_def UnaryAuthorizationInterceptor_def extractNamespaceFromRequest_def
        CheckPermission_def Let_def split: option.split)
qed


definition caller :: "string \<Rightarrow> metadata" where
  "caller user = Some (\<lambda>k. if k = ''x-user-id'' then [user] else [])"

lemma caller_principal: "user \<noteq> '''' \<Longrightarrow> extractPrincipalFromMetadata (caller user) = Some \<lparr>pr_ID = user, pr_Name = user\<rparr>"
  by (simp add: caller_def extractPrincipalFromMetadata_def Let_def)

lemma grpc_calls_need_a_role_witness:
  "UnaryAuthInterceptor (caller ''eve'')
     (UnaryAuthorizationInterceptor (Some [(''prod'', [(''eve'', RoleViewer)])]) True (full_method ''DeleteHive'') (Some ''prod'')
       (\<lambda>_. grpc_DeleteHive table_world_env (Some \<lparr>gn_namespace = ''prod'', gn_name = ''main''\<rparr>))) None empty_world =
   (empty_world, Fail GPermissionDenied (Text ''Insufficient permissions''))"
proof (subst grpc_calls_need_a_role)
  show "''DeleteHive'' \<in> set unary_methods" by (simp add: unary_methods_def)
qed (simp_all add: caller_principal GetRole_def role_may_def)

text \<open>C23: The requests about a cell itself have no namespace, so no role is checked: anyone who names itself, with no role
  anywhere, deletes any cell over gRPC.\<close>

theorem anyone_deletes_a_cell:
  assumes "extractPrincipalFromMetadata md = Some p" and "world_ok env" "plain c" "c \<noteq> ''''"
    and "UnaryAuthInterceptor md (UnaryAuthorizationInterceptor (Some r) True (full_method ''DeleteCell'') None
      (\<lambda>_. grpc_DeleteCell env (Some c))) None w = (w', rsp)"
  shows "(w', rsp) = grpc_DeleteCell env (Some c) w \<and> (rsp = Reply () \<longrightarrow> w_Get env ''Cell'' c '''' w' = Inl ErrNotFound)"
proof -
  have m: "isNamespacedMethod (full_method ''DeleteCell'')"
    by (simp add: isNamespacedMethod_def method_name_full)
  have d: "grpc_DeleteCell env (Some c) w = (w', rsp)"
    using assms(1,5) m by (simp add: UnaryAuthInterceptor_def UnaryAuthorizationInterceptor_def extractNamespaceFromRequest_def)
  have "w_Delete env ''Cell'' c '''' w = (w', None)" if "rsp = Reply ()"
    using d that assms(4)
    by (auto simp: grpc_DeleteCell_def rpc_Delete_def grpc_handleError_def split: prod.splits option.splits api_error.splits)
  then show ?thesis using ws.del_effect [OF assms(2) _ assms(3), of "''Cell''" "''''" w w'] assms(3) d by (auto simp: plain_def)
qed

lemma anyone_deletes_a_cell_witness:
  "w_Get table_world_env ''Cell'' ''prod'' '''' (fst (UnaryAuthInterceptor (caller ''nobody'') (UnaryAuthorizationInterceptor (Some []) True
     (full_method ''DeleteCell'') None (\<lambda>_. grpc_DeleteCell table_world_env (Some ''prod''))) None world_with_cell)) = Inl ErrNotFound"
proof -
  let ?c = "UnaryAuthInterceptor (caller ''nobody'') (UnaryAuthorizationInterceptor (Some []) True
     (full_method ''DeleteCell'') None (\<lambda>_. grpc_DeleteCell table_world_env (Some ''prod''))) None world_with_cell"
  obtain w' rsp where c: "?c = (w', rsp)" by fastforce
  have "snd ?c = Reply ()" by code_simp
  then have r: "rsp = Reply ()" by (simp only: c snd_conv)
  have p: "extractPrincipalFromMetadata (caller ''nobody'') = Some \<lparr>pr_ID = ''nobody'', pr_Name = ''nobody''\<rparr>"
    by (simp add: caller_principal)
  have n: "plain ''prod''" "''prod'' \<noteq> ''''" by (simp_all add: plain_def)
  have "w_Get table_world_env ''Cell'' ''prod'' '''' w' = Inl ErrNotFound"
    using anyone_deletes_a_cell [OF p table_world_ok n c] r by blast
  then show ?thesis by (simp only: c fst_conv)
qed

text \<open>The stream interceptor drops the principal it has found.  With authentication required every
  stream is refused, whoever calls; without it every stream is handled, whatever the roles say.\<close>

lemma stream_roles_have_no_effect:
  "StreamAuthInterceptor md (StreamAuthorizationInterceptor (Some r) requireAuth (full_method ''ExecDrone'')
     (\<lambda>_. grpc_ExecDrone mkreq post env first w)) None =
   (if requireAuth then ([], StreamFail GUnauthenticated (Text ''Authentication required''))
    else grpc_ExecDrone mkreq post env first w) \<and>
   StreamAuthInterceptor md (StreamAuthorizationInterceptor (Some r) requireAuth (full_method ''GetDroneLogs'')
     (\<lambda>_. grpc_GetDroneLogs mkreq fetch env req w)) None =
   (if requireAuth then ([], StreamFail GUnauthenticated (Text ''Authentication required''))
    else grpc_GetDroneLogs mkreq fetch env req w)"
  by (simp add: StreamAuthInterceptor_def StreamAuthorizationInterceptor_def isNamespacedMethod_def method_name_full Let_def)

end
