(* ===== verification/Manifest.thy ===== *)
theory Manifest
  imports Apiary_Types
begin

text \<open>
  \<open>pkg/manifest/manifest.go\<close>: manifests, their parsing, validation and serialization.

  The YAML and JSON libraries are the record \<open>codecs\<close>.  A decoder gets the value it decodes into, as
  in Go, and may have changed it when it fails; \<open>co_number\<close> is what YAML reads where it has written a number, an
  \<open>int\<close> or a \<open>float64\<close>.  Reading a file is left to the caller: \<open>ParseManifestFile\<close> and
  \<open>ParseAndValidateFile\<close> apply the functions below to its contents.
\<close>

section \<open>Parsing\<close>

record manifest =
  mf_APIVersion :: string
  mf_Kind :: string
  mf_Metadata :: object_meta
  mf_Spec :: "(string \<times> go_value) list"
  mf_Resource :: "resource option"

record codecs =
  co_yaml :: "string \<Rightarrow> manifest \<Rightarrow> manifest \<times> string option"
  co_json :: "string \<Rightarrow> manifest \<Rightarrow> manifest \<times> string option"
  co_encMap :: "(string \<times> go_value) list \<Rightarrow> string option"
  co_agentSpec :: "string \<Rightarrow> string + agent_spec_spec"
  co_hiveSpec :: "string \<Rightarrow> string + hive_spec"
  co_cellSpec :: "string \<Rightarrow> string + cell_spec"
  co_session :: "string \<Rightarrow> string + session_config"
  co_encResource :: "resource \<Rightarrow> string option"
  co_decMap :: "string \<Rightarrow> (string \<times> go_value) list option"
  co_yamlOut :: "manifest \<Rightarrow> string option"
  co_jsonOut :: "manifest \<Rightarrow> string option"
  co_number :: "rat \<Rightarrow> go_value"

datatype manifest_error =
    ParseFailed string string
  | APIVersionRequired
  | KindRequired
  | SpecMarshalFailed
  | SpecUnmarshalFailed string string
  | UnknownKind string

definition empty_meta :: object_meta where
  "empty_meta = \<lparr>om_Name = '''', om_Namespace = '''', om_UID = '''', om_Labels = [], om_Annotations = [],
     om_CreatedAt = zero_time, om_UpdatedAt = zero_time\<rparr>"

definition empty_manifest :: manifest where
  "empty_manifest = \<lparr>mf_APIVersion = '''', mf_Kind = '''', mf_Metadata = empty_meta, mf_Spec = [], mf_Resource = None\<rparr>"

text \<open>The loop over the data of a secret keeps the values that are strings.\<close>

fun secret_data :: "(string \<times> go_value) list \<Rightarrow> (string \<times> string) list" where
  "secret_data [] = []"
| "secret_data ((k, GString s) # kvs) = (k, s) # secret_data kvs"
| "secret_data ((k, v) # kvs) = secret_data kvs"

definition unmarshal_spec :: "string \<Rightarrow> (string + 'a) \<Rightarrow> ('a \<Rightarrow> resource) \<Rightarrow> manifest_error + resource" where
  "unmarshal_spec kind r f = (case r of Inl e \<Rightarrow> Inl (SpecUnmarshalFailed kind e) | Inr s \<Rightarrow> Inr (f s))"

definition toResource :: "codecs \<Rightarrow> manifest \<Rightarrow> manifest_error + resource" where
  "toResource co m =
    (case co_encMap co (mf_Spec m) of
       None \<Rightarrow> Inl SpecMarshalFailed
     | Some specData \<Rightarrow>
        (let tm = \<lparr>tm_APIVersion = mf_APIVersion m, tm_Kind = mf_Kind m\<rparr>;
             meta = mf_Metadata m
         in if mf_Kind m = ''AgentSpec''
            then unmarshal_spec ''AgentSpec'' (co_agentSpec co specData)
              (\<lambda>s. RAgentSpec \<lparr>as_TypeMeta = tm, as_Meta = meta, as_Spec = s\<rparr>)
            else if mf_Kind m = ''Hive''
            then unmarshal_spec ''Hive'' (co_hiveSpec co specData)
              (\<lambda>s. RHive \<lparr>hv_TypeMeta = tm, hv_Meta = meta, hv_Spec = s,
                hv_Status = \<lparr>hst_Phase = '''', hst_Message = '''', hst_ActiveDrones = 0\<rparr>\<rparr>)
            else if mf_Kind m = ''Cell''
            then unmarshal_spec ''Cell'' (co_cellSpec co specData) (\<lambda>s. RCell \<lparr>cl_TypeMeta = tm, cl_Meta = meta, cl_Spec = s\<rparr>)
            else if mf_Kind m = ''Session''
            then unmarshal_spec ''Session'' (co_session co specData)
              (\<lambda>s. RSession \<lparr>se_TypeMeta = tm, se_Meta = meta,
                se_Status = \<lparr>sst_Phase = '''', sst_LastActivity = zero_time, sst_ActiveAgents = 0\<rparr>, se_Spec = s\<rparr>)
            else if mf_Kind m = ''Secret''
            then Inr (RSecret \<lparr>sec_TypeMeta = tm, sec_Meta = meta,
              sec_Data = (case map_of (mf_Spec m) ''data'' of Some (GMap dataMap) \<Rightarrow> secret_data dataMap | _ \<Rightarrow> [])\<rparr>)
            else Inl (UnknownKind (mf_Kind m))))"

definition ParseManifest :: "codecs \<Rightarrow> string \<Rightarrow> manifest_error + manifest" where
  "ParseManifest co data =
    (let (m, err) = co_yaml co data empty_manifest;
         (m, failed) = (case err of
            None \<Rightarrow> (m, None)
          | Some e \<Rightarrow> (case co_json co data m of (m, None) \<Rightarrow> (m, None) | (m, Some e2) \<Rightarrow> (m, Some (ParseFailed e e2))))
     in case failed of
          Some e \<Rightarrow> Inl e
        | None \<Rightarrow>
           (if mf_APIVersion m = '''' then Inl APIVersionRequired
            else if mf_Kind m = '''' then Inl KindRequired
            else if om_Name (mf_Metadata m) \<noteq> ''''
            then (case toResource co m of Inl e \<Rightarrow> Inl e | Inr r \<Rightarrow> Inr (m\<lparr>mf_Resource := Some r\<rparr>))
            else Inr m))"

section \<open>Serialization\<close>

datatype serialize_error = NoResource | ResourceMarshalFailed | ResourceUnmarshalFailed | OutputFailed | UnsupportedFormat string

definition ascii_lower :: "char \<Rightarrow> char" where
  "ascii_lower c = (if (of_char c :: nat) \<ge> 65 \<and> (of_char c :: nat) \<le> 90 then char_of ((of_char c :: nat) + 32) else c)"

definition toLower :: "string \<Rightarrow> string" where
  "toLower s = map ascii_lower s"

text \<open>The manifest is changed in place: the second part is the manifest afterwards.\<close>

definition Serialize :: "codecs \<Rightarrow> string \<Rightarrow> manifest \<Rightarrow> (serialize_error + string) \<times> manifest" where
  "Serialize co format m =
    (case mf_Resource m of
       None \<Rightarrow> (Inl NoResource, m)
     | Some r \<Rightarrow>
        (let m = m\<lparr>mf_Kind := GetKind r, mf_APIVersion := ''apiary.io/v1'',
               mf_Metadata := \<lparr>om_Name = GetName r, om_Namespace = GetNamespace r, om_UID = GetUID r, om_Labels = GetLabels r,
                 om_Annotations = om_Annotations (res_meta r), om_CreatedAt = om_CreatedAt (res_meta r),
                 om_UpdatedAt = om_UpdatedAt (res_meta r)\<rparr>\<rparr>
         in case co_encResource co r of
              None \<Rightarrow> (Inl ResourceMarshalFailed, m)
            | Some specData \<Rightarrow>
               (case co_decMap co specData of
                  None \<Rightarrow> (Inl ResourceUnmarshalFailed, m)
                | Some resourceMap \<Rightarrow>
                   (let m = (case map_of resourceMap ''spec'' of
                          Some (GMap spec) \<Rightarrow> m\<lparr>mf_Spec := spec\<rparr>
                        | _ \<Rightarrow>
                           (case r of
                              RSecret sec \<Rightarrow> m\<lparr>mf_Spec := [(''data'', GMap (map (\<lambda>(k, v). (k, GString v)) (sec_Data sec)))]\<rparr>
                            | _ \<Rightarrow> m));
                        format = toLower format;
                        written = (\<lambda>out. case out of None \<Rightarrow> Inl OutputFailed | Some s \<Rightarrow> Inr s)
                    in if format = ''yaml'' \<or> format = ''yml'' then (written (co_yamlOut co m), m)
                       else if format = ''json'' then (written (co_jsonOut co m), m)
                       else (Inl (UnsupportedFormat format), m)))))"

section \<open>Validation\<close>

record field_error =
  vl_Field :: string
  vl_Message :: string

abbreviation verr :: "string \<Rightarrow> string \<Rightarrow> field_error" where
  "verr f m \<equiv> \<lparr>vl_Field = f, vl_Message = m\<rparr>"

definition err_if :: "bool \<Rightarrow> string \<Rightarrow> string \<Rightarrow> field_error list" where
  "err_if b f m = (if b then [verr f m] else [])"

definition interface_types :: "string list" where
  "interface_types = [''stdin'', ''http'', ''grpc'', ''unix-socket'']"

definition valid_patterns :: "string list" where
  "valid_patterns = [''pipeline'', ''hierarchical'', ''swarm'', ''event-driven'']"

definition validateAgentSpec :: "agent_spec \<Rightarrow> field_error list" where
  "validateAgentSpec spec =
    (let s = as_Spec spec; ty = ic_Type (ss_Interface s); mn = sc_MinReplicas (ss_Scaling s); mx = sc_MaxReplicas (ss_Scaling s)
     in err_if (rc_Command (ss_Runtime s) = []) ''spec.runtime.command'' ''spec.runtime.command is required'' @
        err_if (ty = '''') ''spec.interface.type'' ''spec.interface.type is required'' @
        err_if (ty \<notin> set interface_types) ''spec.interface.type''
          (''invalid interface type: '' @ ty @ '' (must be one of: stdin, http, grpc, unix-socket)'') @
        err_if (mn < 0) ''spec.scaling.minReplicas'' ''spec.scaling.minReplicas must be >= 0'' @
        err_if (mx > 0 \<and> mx < mn) ''spec.scaling.maxReplicas'' ''spec.scaling.maxReplicas must be >= spec.scaling.minReplicas'')"

definition invalid_pattern :: "string \<Rightarrow> string" where
  "invalid_pattern p = ''invalid pattern: '' @ p @ '' (must be one of: pipeline, hierarchical, swarm, event-driven)''"

fun validate_segments :: "nat \<Rightarrow> pattern_segment list \<Rightarrow> field_error list" where
  "validate_segments i [] = []"
| "validate_segments i (seg # segs) =
    (let fld = (\<lambda>x. ''spec.patternSegments['' @ nat_str i @ '']'' @ x)
     in err_if (ps_Name seg = '''') (fld ''.name'') ''segment name is required'' @
        (if ps_Pattern seg = '''' then [verr (fld ''.pattern'') ''segment pattern is required'']
         else err_if (ps_Pattern seg \<notin> set valid_patterns) (fld ''.pattern'') (invalid_pattern (ps_Pattern seg))) @
        (if ps_Pattern seg = ''pipeline''
         then (case map_of (ps_Config seg) ''stages'' of
                 Some (GList (st # sts)) \<Rightarrow> []
               | _ \<Rightarrow> [verr (fld ''.config.stages'') ''stages are required for pipeline pattern''])
         else []) @
        validate_segments (Suc i) segs)"

fun validate_stages :: "nat \<Rightarrow> stage list \<Rightarrow> field_error list" where
  "validate_stages i [] = []"
| "validate_stages i (st # sts) =
    (let fld = (\<lambda>x. ''spec.stages['' @ nat_str i @ '']'' @ x)
     in err_if (st_Name st = '''') (fld ''.name'') ''stage name is required'' @
        err_if (st_AgentRef st = '''') (fld ''.agentRef'') ''stage agentRef is required'' @
        err_if (st_Replicas st < 0) (fld ''.replicas'') ''stage replicas must be >= 0'' @
        validate_stages (Suc i) sts)"

definition validateHive :: "hive \<Rightarrow> field_error list" where
  "validateHive hive =
    (let s = hv_Spec hive
     in (if hi_PatternSegments s \<noteq> []
         then err_if (hi_Pattern s \<noteq> '''') ''spec.pattern'' ''spec.pattern cannot be specified when spec.patternSegments is used'' @
           validate_segments 0 (hi_PatternSegments s)
         else err_if (hi_Pattern s \<noteq> '''' \<and> hi_Pattern s \<notin> set valid_patterns) ''spec.pattern'' (invalid_pattern (hi_Pattern s)) @
           err_if (hi_Pattern s = ''pipeline'' \<and> hi_Stages s = []) ''spec.stages'' ''spec.stages is required for pipeline pattern'') @
        validate_stages 0 (hi_Stages s))"

definition validateCell :: "cell \<Rightarrow> field_error list" where
  "validateCell cell =
    (let q = rq_MaxHives (ce_ResourceQuota (cl_Spec cell))
     in err_if (q > 0 \<and> q < 0) ''spec.resourceQuota.maxHives'' ''spec.resourceQuota.maxHives must be >= 0'')"

text \<open>An error of the raw specification is added only if its field has none yet.\<close>

definition add_once :: "bool \<Rightarrow> string \<Rightarrow> string \<Rightarrow> field_error list \<Rightarrow> field_error list" where
  "add_once b f m es = (if b \<and> list_all (\<lambda>e. vl_Field e \<noteq> f) es then es @ [verr f m] else es)"

definition Validate :: "manifest \<Rightarrow> field_error list" where
  "Validate m =
    (let es = (if mf_APIVersion m = '''' then [verr ''apiVersion'' ''apiVersion is required'']
               else err_if (mf_APIVersion m \<noteq> ''apiary.io/v1'') ''apiVersion''
                 (''unsupported apiVersion: '' @ mf_APIVersion m @ '' (expected apiary.io/v1)'')) @
              err_if (mf_Kind m = '''') ''kind'' ''kind is required'' @
              err_if (om_Name (mf_Metadata m) = '''') ''metadata.name'' ''metadata.name is required'' @
              (case mf_Resource m of
                 Some (RAgentSpec r) \<Rightarrow> validateAgentSpec r
               | Some (RHive r) \<Rightarrow> validateHive r
               | Some (RCell r) \<Rightarrow> validateCell r
               | _ \<Rightarrow> [])
     in if mf_Kind m = ''AgentSpec''
        then (let es = (case map_of (mf_Spec m) ''runtime'' of
                  Some (GMap runtimeMap) \<Rightarrow>
                    add_once (case map_of runtimeMap ''command'' of Some (GList (c # cs)) \<Rightarrow> False | _ \<Rightarrow> True)
                      ''spec.runtime.command'' ''spec.runtime.command is required'' es
                | _ \<Rightarrow> es)
              in case map_of (mf_Spec m) ''interface'' of
                   Some (GMap interfaceMap) \<Rightarrow>
                     add_once (case map_of interfaceMap ''type'' of Some (GString s) \<Rightarrow> s = '''' | _ \<Rightarrow> True)
                       ''spec.interface.type'' ''spec.interface.type is required'' es
                 | _ \<Rightarrow> es)
        else es)"

definition ParseAndValidate :: "codecs \<Rightarrow> string \<Rightarrow> manifest_error + (manifest \<times> field_error list)" where
  "ParseAndValidate co data =
    (case ParseManifest co data of Inl e \<Rightarrow> Inl e | Inr m \<Rightarrow> Inr (m, Validate m))"


section \<open>What is accepted\<close>

lemma err_if_Nil [simp]: "err_if b f m = [] \<longleftrightarrow> \<not> b"
  by (simp add: err_if_def)

lemma validate_stages_Nil: "validate_stages i sts = [] \<longleftrightarrow>
    (\<forall>st \<in> set sts. st_Name st \<noteq> '''' \<and> st_AgentRef st \<noteq> '''' \<and> 0 \<le> st_Replicas st)"
  by (induction i sts rule: validate_stages.induct) (auto simp: Let_def)

text \<open>A segment of a composed pattern; a pipeline has its stages in its configuration.\<close>

definition segment_ok :: "pattern_segment \<Rightarrow> bool" where
  "segment_ok seg \<longleftrightarrow> ps_Name seg \<noteq> '''' \<and> ps_Pattern seg \<in> set valid_patterns \<and>
    (ps_Pattern seg = ''pipeline'' \<longrightarrow> (\<exists>st sts. map_of (ps_Config seg) ''stages'' = Some (GList (st # sts))))"

lemma stages_config_Nil: "(case x of Some (GList (st # sts)) \<Rightarrow> [] | _ \<Rightarrow> [e]) = [] \<longleftrightarrow> (\<exists>st sts. x = Some (GList (st # sts)))"
  by (auto split: option.split go_value.split list.split)

lemma validate_segments_Nil: "validate_segments i segs = [] \<longleftrightarrow> list_all segment_ok segs"
proof (induction i segs rule: validate_segments.induct)
  case (2 i seg segs)
  have e: "'''' \<notin> set valid_patterns" by (simp add: valid_patterns_def)
  show ?case using 2 e by (auto simp: Let_def segment_ok_def stages_config_Nil)
qed simp

definition hive_ok :: "hive_spec \<Rightarrow> bool" where
  "hive_ok s \<longleftrightarrow>
    (if hi_PatternSegments s \<noteq> [] then hi_Pattern s = '''' \<and> list_all segment_ok (hi_PatternSegments s)
     else hi_Pattern s \<in> set ('''' # valid_patterns) \<and> (hi_Pattern s = ''pipeline'' \<longrightarrow> hi_Stages s \<noteq> [])) \<and>
    (\<forall>st \<in> set (hi_Stages s). st_Name st \<noteq> '''' \<and> st_AgentRef st \<noteq> '''' \<and> 0 \<le> st_Replicas st)"

lemma validateHive_Nil: "validateHive h = [] \<longleftrightarrow> hive_ok (hv_Spec h)"
  by (auto simp: validateHive_def hive_ok_def Let_def validate_segments_Nil validate_stages_Nil)

definition spec_ok :: "agent_spec_spec \<Rightarrow> bool" where
  "spec_ok s \<longleftrightarrow> rc_Command (ss_Runtime s) \<noteq> [] \<and> ic_Type (ss_Interface s) \<in> set interface_types \<and>
    0 \<le> sc_MinReplicas (ss_Scaling s) \<and>
    (sc_MaxReplicas (ss_Scaling s) \<le> 0 \<or> sc_MinReplicas (ss_Scaling s) \<le> sc_MaxReplicas (ss_Scaling s))"

lemma validateAgentSpec_Nil: "validateAgentSpec a = [] \<longleftrightarrow> spec_ok (as_Spec a)"
proof -
  have "'''' \<notin> set interface_types" by (simp add: interface_types_def)
  then show ?thesis by (auto simp: validateAgentSpec_def spec_ok_def Let_def not_le)
qed

text \<open>No quota is ever refused: the only test of a cell cannot succeed.\<close>

lemma validateCell_Nil [simp]: "validateCell c = []"
  by (simp add: validateCell_def Let_def)

lemma add_once_Nil [simp]: "add_once b f m es = [] \<longleftrightarrow> es = [] \<and> \<not> b"
  by (auto simp: add_once_def)

text \<open>What the raw specification of an agent must be like, where it has a runtime and an interface.\<close>

definition raw_ok :: "(string \<times> go_value) list \<Rightarrow> bool" where
  "raw_ok spec \<longleftrightarrow>
    (\<forall>rt. map_of spec ''runtime'' = Some (GMap rt) \<longrightarrow> (\<exists>c cs. map_of rt ''command'' = Some (GList (c # cs)))) \<and>
    (\<forall>i. map_of spec ''interface'' = Some (GMap i) \<longrightarrow> (\<exists>s. map_of i ''type'' = Some (GString s) \<and> s \<noteq> ''''))"

lemma runtime_step_Nil:
  "(case x of Some (GMap rt) \<Rightarrow> add_once (case map_of rt k of Some (GList (c # cs)) \<Rightarrow> False | _ \<Rightarrow> True) f m es | _ \<Rightarrow> es) = [] \<longleftrightarrow>
    es = [] \<and> (\<forall>rt. x = Some (GMap rt) \<longrightarrow> (\<exists>c cs. map_of rt k = Some (GList (c # cs))))"
  by (auto split: option.split go_value.split list.split)

lemma interface_step_Nil:
  "(case x of Some (GMap i) \<Rightarrow> add_once (case map_of i k of Some (GString s) \<Rightarrow> s = '''' | _ \<Rightarrow> True) f m es | _ \<Rightarrow> es) = [] \<longleftrightarrow>
    es = [] \<and> (\<forall>i. x = Some (GMap i) \<longrightarrow> (\<exists>s. map_of i k = Some (GString s) \<and> s \<noteq> ''''))"
  by (auto split: option.split go_value.split)

definition resource_valid :: "resource \<Rightarrow> bool" where
  "resource_valid r \<longleftrightarrow> (case r of RAgentSpec a \<Rightarrow> spec_ok (as_Spec a) | RHive h \<Rightarrow> hive_ok (hv_Spec h) | _ \<Rightarrow> True)"

lemma resource_errors_Nil:
  "(case x of Some (RAgentSpec r) \<Rightarrow> validateAgentSpec r | Some (RHive r) \<Rightarrow> validateHive r | Some (RCell r) \<Rightarrow> validateCell r
    | _ \<Rightarrow> []) = [] \<longleftrightarrow> (\<forall>r. x = Some r \<longrightarrow> resource_valid r)"
  by (auto simp: resource_valid_def validateAgentSpec_Nil validateHive_Nil split: option.split resource.split)

text \<open>C39: A manifest is accepted without an error exactly if its version is the supported one, it has a kind and a
  name, its resource is valid (an agent specification has a command, a known interface and bounds in order; a hive has
  known patterns, complete segments and complete stages), and its raw specification agrees.\<close>

theorem manifest_accepted_iff:
  "Validate m = [] \<longleftrightarrow> mf_APIVersion m = ''apiary.io/v1'' \<and> mf_Kind m \<noteq> '''' \<and> om_Name (mf_Metadata m) \<noteq> '''' \<and>
    (case mf_Resource m of None \<Rightarrow> True | Some r \<Rightarrow> resource_valid r) \<and>
    (if mf_Kind m = ''AgentSpec'' then raw_ok (mf_Spec m) else True)"
proof -
  have o: "(case x of None \<Rightarrow> True | Some r \<Rightarrow> resource_valid r) \<longleftrightarrow> (\<forall>r. x = Some r \<longrightarrow> resource_valid r)" for x
    by (cases x) simp_all
  show ?thesis
    by (cases "mf_APIVersion m = ''''")
      (auto simp: Validate_def Let_def o raw_ok_def runtime_step_Nil interface_step_Nil resource_errors_Nil)
qed


section \<open>Round trip\<close>

text \<open>What reading a written manifest gives: the kind and the supported version, and no status.\<close>

fun restamp :: "resource \<Rightarrow> resource" where
  "restamp (RAgentSpec a) = RAgentSpec (a\<lparr>as_TypeMeta := \<lparr>tm_APIVersion = ''apiary.io/v1'', tm_Kind = ''AgentSpec''\<rparr>\<rparr>)"
| "restamp (RHive h) = RHive (h\<lparr>hv_TypeMeta := \<lparr>tm_APIVersion = ''apiary.io/v1'', tm_Kind = ''Hive''\<rparr>,
    hv_Status := \<lparr>hst_Phase = '''', hst_Message = '''', hst_ActiveDrones = 0\<rparr>\<rparr>)"
| "restamp (RCell c) = RCell (c\<lparr>cl_TypeMeta := \<lparr>tm_APIVersion = ''apiary.io/v1'', tm_Kind = ''Cell''\<rparr>,
    cl_Meta := (cl_Meta c)\<lparr>om_Namespace := ''''\<rparr>\<rparr>)"
| "restamp (RSession s) = RSession (s\<lparr>se_TypeMeta := \<lparr>tm_APIVersion = ''apiary.io/v1'', tm_Kind = ''Session''\<rparr>,
    se_Status := \<lparr>sst_Phase = '''', sst_LastActivity = zero_time, sst_ActiveAgents = 0\<rparr>\<rparr>)"
| "restamp (RSecret s) = RSecret (s\<lparr>sec_TypeMeta := \<lparr>tm_APIVersion = ''apiary.io/v1'', tm_Kind = ''Secret''\<rparr>\<rparr>)"
| "restamp (RDrone d) = RDrone d"

text \<open>What JSON can carry: a number passes through a \<open>float64\<close>, which holds the integers up to \<open>2 ^ 53\<close>, a
  string must be valid UTF-8, and a value of type \<open>interface{}\<close> must be of one of the types that are read back.\<close>

definition float_exact :: "int \<Rightarrow> bool" where
  "float_exact i \<longleftrightarrow> \<bar>i\<bar> \<le> 9007199254740992"

definition continuation :: "nat \<Rightarrow> bool" where
  "continuation b \<longleftrightarrow> 128 \<le> b \<and> b \<le> 191"

fun utf8_bytes :: "nat list \<Rightarrow> bool" where
  "utf8_bytes [] \<longleftrightarrow> True"
| "utf8_bytes (b # bs) \<longleftrightarrow>
    (if b < 128 then utf8_bytes bs
     else case bs of [] \<Rightarrow> False | c # bs \<Rightarrow>
       continuation c \<and>
       (if 194 \<le> b \<and> b \<le> 223 then utf8_bytes bs
        else case bs of [] \<Rightarrow> False | c' # bs \<Rightarrow>
          continuation c' \<and>
          (if 224 \<le> b \<and> b \<le> 239 then (b = 224 \<longrightarrow> 160 \<le> c) \<and> (b = 237 \<longrightarrow> c \<le> 159) \<and> utf8_bytes bs
           else case bs of [] \<Rightarrow> False | c'' # bs \<Rightarrow>
             continuation c'' \<and> 240 \<le> b \<and> b \<le> 244 \<and> (b = 240 \<longrightarrow> 144 \<le> c) \<and> (b = 244 \<longrightarrow> c \<le> 143) \<and>
             utf8_bytes bs)))"

definition valid_utf8 :: "string \<Rightarrow> bool" where
  "valid_utf8 s \<longleftrightarrow> utf8_bytes (map of_char s)"

fun json_plain :: "go_value \<Rightarrow> bool" where
  "json_plain (GString s) \<longleftrightarrow> valid_utf8 s"
| "json_plain (GStrings ss) \<longleftrightarrow> False"
| "json_plain (GList vs) \<longleftrightarrow> (\<forall>v \<in> set vs. json_plain v)"
| "json_plain (GMap m) \<longleftrightarrow> (\<forall>kv \<in> set m. valid_utf8 (fst kv) \<and> json_plain (snd kv))"
| "json_plain (GBool b) \<longleftrightarrow> True"
| "json_plain (GFloat x) \<longleftrightarrow> True"
| "json_plain (GOther s) \<longleftrightarrow> s = ''null''"

definition guardrail_ints :: "guardrail_config \<Rightarrow> int list" where
  "guardrail_ints gc = [gc_ResponseTimeoutSeconds gc, gc_RateLimitPerMinute gc, gc_TokenBudgetPerRequest gc,
     gc_TokenBudgetPerSession gc, gc_TokenBudgetPerMinute gc]"

definition session_ints :: "session_config \<Rightarrow> int list" where
  "session_ints sn = [sn_TimeoutMinutes sn, sn_MaxDurationMinutes sn, sn_MaxMemoryMB sn]"

definition env_texts :: "env_var \<Rightarrow> string list" where
  "env_texts e = ev_Name e # ev_Value e #
    (case ev_ValueFrom e of Some (Some sk) \<Rightarrow> [sk_Name sk, sk_Key sk] | _ \<Rightarrow> [])"

text \<open>The integers, the strings and the untyped maps of a specification.\<close>

fun spec_ints :: "resource \<Rightarrow> int list" where
  "spec_ints (RAgentSpec a) =
    (let s = as_Spec a; rs = ss_Resources s; sc = ss_Scaling s
     in [ic_Port (ss_Interface s), rr_CPU (rs_Requests rs), rr_Memory (rs_Requests rs), rr_CPU (rs_Limits rs),
         rr_Memory (rs_Limits rs), rs_TokenBudgetPerRequest rs, sc_MinReplicas sc, sc_MaxReplicas sc,
         sc_TargetLatencyMs sc, sc_CooldownSeconds sc] @ guardrail_ints (ss_Guardrails s))"
| "spec_ints (RHive h) =
    (let s = hv_Spec h; rp = ro_RetryPolicy (hi_Routing s)
     in hi_WarmPoolSize s # session_ints (hi_Session s) @ map st_Replicas (hi_Stages s) @
        [rp_MaxRetries rp, rp_BackoffMultiplier rp, rp_InitialDelayMs rp] @ guardrail_ints (hi_Guardrails s))"
| "spec_ints (RCell c) =
    (let q = ce_ResourceQuota (cl_Spec c)
     in [rq_MaxHives q, rq_MaxDronesPerHive q, rq_MaxTotalDrones q, rq_MaxMemoryGB q] @
        guardrail_ints (ce_DefaultGuardrails (cl_Spec c)))"
| "spec_ints (RSession s) = session_ints (se_Spec s)"
| "spec_ints (RSecret s) = []"
| "spec_ints (RDrone d) = []"

fun spec_texts :: "resource \<Rightarrow> string list" where
  "spec_texts (RAgentSpec a) =
    (let s = as_Spec a; rt = ss_Runtime s; ic = ss_Interface s
     in rc_Command rt @ [rc_WorkingDir rt] @ concat (map env_texts (rc_Env rt)) @
        [ic_Type ic, ic_HealthPath ic, ic_MessagePath ic, ss_TaskTier s])"
| "spec_texts (RHive h) =
    (let s = hv_Spec h
     in [hi_PoolMode s, sn_PersistPath (hi_Session s), hi_Pattern s, ro_DeadLetterTopic (hi_Routing s),
         wh_URL (hi_Webhook s), wh_AuthHeader (hi_Webhook s)] @
        concat (map (\<lambda>st. [st_Name st, st_AgentRef st]) (hi_Stages s)) @
        concat (map (\<lambda>ps. [ps_Name ps, ps_Pattern ps, ps_InputTopic ps, ps_OutputTopic ps]) (hi_PatternSegments s)))"
| "spec_texts (RCell c) = []"
| "spec_texts (RSession s) = [sn_PersistPath (se_Spec s)]"
| "spec_texts (RSecret s) = concat (map (\<lambda>kv. [fst kv, snd kv]) (sec_Data s))"
| "spec_texts (RDrone d) = []"

fun spec_maps :: "resource \<Rightarrow> (string \<times> go_value) list list" where
  "spec_maps (RAgentSpec a) = [gc_OutputSchema (ss_Guardrails (as_Spec a))]"
| "spec_maps (RHive h) = gc_OutputSchema (hi_Guardrails (hv_Spec h)) # map ps_Config (hi_PatternSegments (hv_Spec h))"
| "spec_maps (RCell c) = [gc_OutputSchema (ce_DefaultGuardrails (cl_Spec c))]"
| "spec_maps (RSession s) = []"
| "spec_maps (RSecret s) = []"
| "spec_maps (RDrone d) = []"

definition json_exact :: "resource \<Rightarrow> bool" where
  "json_exact r \<longleftrightarrow> (\<forall>i \<in> set (spec_ints r). float_exact i) \<and> (\<forall>s \<in> set (spec_texts r). valid_utf8 s) \<and>
    (\<forall>m \<in> set (spec_maps r). json_plain (GMap m))"

text \<open>What YAML reads where it has written a value.\<close>

fun yaml_read :: "(rat \<Rightarrow> go_value) \<Rightarrow> go_value \<Rightarrow> go_value" where
  "yaml_read f (GString s) = GString s"
| "yaml_read f (GStrings ss) = GList (map GString ss)"
| "yaml_read f (GList vs) = GList (map (yaml_read f) vs)"
| "yaml_read f (GMap m) = GMap (map (\<lambda>kv. (fst kv, yaml_read f (snd kv))) m)"
| "yaml_read f (GBool b) = GBool b"
| "yaml_read f (GFloat x) = f x"
| "yaml_read f (GOther s) = GOther s"

definition yaml_read_map :: "codecs \<Rightarrow> (string \<times> go_value) list \<Rightarrow> (string \<times> go_value) list" where
  "yaml_read_map co m = map (\<lambda>kv. (fst kv, yaml_read (co_number co) (snd kv))) m"

text \<open>The field \<open>spec\<close> in the JSON of a resource that JSON can carry, taken as a map, written and read as YAML and
  encoded again, is read as the value it was.\<close>

definition respec_ok :: "codecs \<Rightarrow> resource \<Rightarrow> (string \<Rightarrow> string + 'a) \<Rightarrow> 'a \<Rightarrow> bool" where
  "respec_ok co r dec s \<longleftrightarrow>
    (\<forall>d mp. json_exact r \<longrightarrow> co_encResource co r = Some d \<longrightarrow> co_decMap co d = Some mp \<longrightarrow>
      (\<exists>sp e. map_of mp ''spec'' = Some (GMap sp) \<and> co_encMap co (yaml_read_map co sp) = Some e \<and> dec e = Inr s))"

text \<open>The laws: YAML reads what it has written, values of untyped maps up to the type of their numbers, and JSON
  reads specifications as above; a decoded map holds strings, numbers, booleans, lists, maps and \<open>null\<close> only; the
  JSON of a secret has no specification; and a map of strings can be encoded.\<close>

definition codecs_ok :: "codecs \<Rightarrow> bool" where
  "codecs_ok co \<longleftrightarrow>
    (\<forall>m s. json_plain (GMap (mf_Spec m)) \<longrightarrow> co_yamlOut co m = Some s \<longrightarrow>
      co_yaml co s empty_manifest = (m\<lparr>mf_Spec := yaml_read_map co (mf_Spec m), mf_Resource := None\<rparr>, None)) \<and>
    (\<forall>a. respec_ok co (RAgentSpec a) (co_agentSpec co) (as_Spec a)) \<and>
    (\<forall>h. respec_ok co (RHive h) (co_hiveSpec co) (hv_Spec h)) \<and>
    (\<forall>c. respec_ok co (RCell c) (co_cellSpec co) (cl_Spec c)) \<and>
    (\<forall>s. respec_ok co (RSession s) (co_session co) (se_Spec s)) \<and>
    (\<forall>d mp. co_decMap co d = Some mp \<longrightarrow> json_plain (GMap mp)) \<and>
    (\<forall>sec d mp. co_encResource co (RSecret sec) = Some d \<longrightarrow> co_decMap co d = Some mp \<longrightarrow> map_of mp ''spec'' = None) \<and>
    (\<forall>d. co_encMap co [(''data'', GMap (map (\<lambda>(k, v). (k, GString v)) d))] \<noteq> None)"

lemma secret_data_strings [simp]: "secret_data (map (\<lambda>(k, v). (k, GString v)) d) = d"
  by (induction d) auto

lemma ParseManifest_yaml:
  assumes "co_yaml co s empty_manifest = (m, None)" "mf_APIVersion m \<noteq> ''''" "mf_Kind m \<noteq> ''''" "om_Name (mf_Metadata m) \<noteq> ''''"
  shows "ParseManifest co s = (case toResource co m of Inl e \<Rightarrow> Inl e | Inr r \<Rightarrow> Inr (m\<lparr>mf_Resource := Some r\<rparr>))"
  using assms by (simp add: ParseManifest_def)

text \<open>What a successful serialization has written.\<close>

definition written_manifest :: "codecs \<Rightarrow> resource \<Rightarrow> (string \<times> go_value) list \<Rightarrow> manifest \<Rightarrow> bool" where
  "written_manifest co r spec m \<longleftrightarrow> mf_APIVersion m = ''apiary.io/v1'' \<and> mf_Kind m = GetKind r \<and>
    mf_Metadata m = (res_meta r)\<lparr>om_Namespace := GetNamespace r\<rparr> \<and> mf_Spec m = spec"

lemma Serialize_yaml:
  assumes "Serialize co format m = (Inr s, m')" "toLower format = ''yaml'' \<or> toLower format = ''yml''" "mf_Resource m = Some r"
  shows "\<exists>d mp. co_encResource co r = Some d \<and> co_decMap co d = Some mp \<and> co_yamlOut co m' = Some s \<and>
    written_manifest co r (case map_of mp ''spec'' of
        Some (GMap spec) \<Rightarrow> spec
      | _ \<Rightarrow> (case r of RSecret sec \<Rightarrow> [(''data'', GMap (map (\<lambda>(k, v). (k, GString v)) (sec_Data sec)))] | _ \<Rightarrow> mf_Spec m)) m'"
proof -
  obtain d mp where d: "co_encResource co r = Some d" "co_decMap co d = Some mp"
    using assms(1,3) by (auto simp: Serialize_def Let_def split: option.splits)
  note defs = Serialize_def written_manifest_def GetName_def GetUID_def GetLabels_def Let_def
  show ?thesis
  proof (cases "\<exists>spec. map_of mp ''spec'' = Some (GMap spec)")
    case True
    then show ?thesis using assms d by (auto simp: defs split: option.splits(2) if_splits)
  next
    case False
    then have c: "(case map_of mp ''spec'' of Some (GMap sp) \<Rightarrow> f sp | _ \<Rightarrow> g) = g" for f :: "_ \<Rightarrow> 'x" and g
      by (auto split: option.split go_value.split)
    show ?thesis using assms d by (cases r) (auto simp: defs c split: option.splits(2) if_splits)
  qed
qed


lemma toResource_spec:
  assumes "written_manifest co r (yaml_read_map co spec) m" "respec_ok co r dec s" "json_exact r"
    and "co_encResource co r = Some d" "co_decMap co d = Some mp"
    and "spec = (case map_of mp ''spec'' of Some (GMap sp) \<Rightarrow> sp | _ \<Rightarrow> other)"
  shows "\<exists>e. co_encMap co (mf_Spec m) = Some e \<and> dec e = Inr s"
  using assms by (auto simp: respec_ok_def written_manifest_def)

lemma yaml_read_strings [simp]:
  "map (\<lambda>kv. (fst kv, yaml_read f (snd kv))) (map (\<lambda>(k, v). (k, GString v)) d) = map (\<lambda>(k, v). (k, GString v)) d"
  by (induction d) auto

text \<open>The specification a serialization has written.\<close>

definition spec_written :: "resource \<Rightarrow> (string \<times> go_value) list \<Rightarrow> (string \<times> go_value) list \<Rightarrow> (string \<times> go_value) list" where
  "spec_written r mp other =
    (case map_of mp ''spec'' of
        Some (GMap spec) \<Rightarrow> spec
      | _ \<Rightarrow> (case r of RSecret sec \<Rightarrow> [(''data'', GMap (map (\<lambda>(k, v). (k, GString v)) (sec_Data sec)))] | _ \<Rightarrow> other))"

lemma spec_written_plain:
  assumes "codecs_ok co" "json_exact r" "GetKind r \<noteq> ''Drone''" "co_encResource co r = Some d" "co_decMap co d = Some mp"
  shows "json_plain (GMap (spec_written r mp other))"
proof (cases "\<exists>sp. map_of mp ''spec'' = Some (GMap sp)")
  case True
  then obtain sp where sp: "map_of mp ''spec'' = Some (GMap sp)" by blast
  have "json_plain (GMap mp)" using assms(1,5) unfolding codecs_ok_def by blast
  then have "json_plain (GMap sp)" using map_of_SomeD [OF sp] by fastforce
  then show ?thesis by (simp only: spec_written_def sp option.case go_value.case)
next
  case False
  have "\<exists>sec. r = RSecret sec"
  proof (cases r)
    case (RAgentSpec a)
    then have "respec_ok co r (co_agentSpec co) (as_Spec a)" using assms(1) by (simp only: codecs_ok_def)
    then show ?thesis using False assms(2,4,5) by (auto simp only: respec_ok_def)
  next
    case (RHive h)
    then have "respec_ok co r (co_hiveSpec co) (hv_Spec h)" using assms(1) by (simp only: codecs_ok_def)
    then show ?thesis using False assms(2,4,5) by (auto simp only: respec_ok_def)
  next
    case (RCell c)
    then have "respec_ok co r (co_cellSpec co) (cl_Spec c)" using assms(1) by (simp only: codecs_ok_def)
    then show ?thesis using False assms(2,4,5) by (auto simp only: respec_ok_def)
  next
    case (RSession s)
    then have "respec_ok co r (co_session co) (se_Spec s)" using assms(1) by (simp only: codecs_ok_def)
    then show ?thesis using False assms(2,4,5) by (auto simp only: respec_ok_def)
  qed (use assms(3) in simp_all)
  then obtain sec where sec: "r = RSecret sec" by blast
  have "spec_written r mp other = [(''data'', GMap (map (\<lambda>(k, v). (k, GString v)) (sec_Data sec)))]"
    using False by (auto simp: spec_written_def sec split: option.split go_value.split)
  moreover have "valid_utf8 ''data''" by code_simp
  moreover have "valid_utf8 k \<and> valid_utf8 v" if "(k, v) \<in> set (sec_Data sec)" for k v
    using that assms(2) by (force simp: json_exact_def sec)
  ultimately show ?thesis by fastforce
qed

lemma toResource_written:
  assumes "codecs_ok co" "json_exact r" "GetKind r \<noteq> ''Drone''" "co_encResource co r = Some d" "co_decMap co d = Some mp"
    and w: "written_manifest co r (yaml_read_map co (spec_written r mp other)) m"
  shows "toResource co m = Inr (restamp r)"
proof (cases r)
  case (RAgentSpec a)
  from assms(1) have "respec_ok co r (co_agentSpec co) (as_Spec a)" by (simp add: codecs_ok_def RAgentSpec)
  from toResource_spec [OF w this assms(2,4,5)] obtain e where "co_encMap co (mf_Spec m) = Some e" "co_agentSpec co e = Inr (as_Spec a)"
    by (auto simp: RAgentSpec spec_written_def)
  then show ?thesis using w by (simp add: toResource_def written_manifest_def RAgentSpec unmarshal_spec_def GetNamespace_def)
next
  case (RHive h)
  from assms(1) have "respec_ok co r (co_hiveSpec co) (hv_Spec h)" by (simp add: codecs_ok_def RHive)
  from toResource_spec [OF w this assms(2,4,5)] obtain e where "co_encMap co (mf_Spec m) = Some e" "co_hiveSpec co e = Inr (hv_Spec h)"
    by (auto simp: RHive spec_written_def)
  then show ?thesis using w by (simp add: toResource_def written_manifest_def RHive unmarshal_spec_def GetNamespace_def)
next
  case (RCell c)
  from assms(1) have "respec_ok co r (co_cellSpec co) (cl_Spec c)" by (simp add: codecs_ok_def RCell)
  from toResource_spec [OF w this assms(2,4,5)] obtain e where "co_encMap co (mf_Spec m) = Some e" "co_cellSpec co e = Inr (cl_Spec c)"
    by (auto simp: RCell spec_written_def)
  then show ?thesis using w by (simp add: toResource_def written_manifest_def RCell unmarshal_spec_def GetNamespace_def)
next
  case (RSession s)
  from assms(1) have "respec_ok co r (co_session co) (se_Spec s)" by (simp add: codecs_ok_def RSession)
  from toResource_spec [OF w this assms(2,4,5)] obtain e where "co_encMap co (mf_Spec m) = Some e" "co_session co e = Inr (se_Spec s)"
    by (auto simp: RSession spec_written_def)
  then show ?thesis using w by (simp add: toResource_def written_manifest_def RSession unmarshal_spec_def GetNamespace_def)
next
  case (RSecret sec)
  have "map_of mp ''spec'' = None" using assms(1,4,5) by (simp add: codecs_ok_def RSecret)
  then have m: "mf_Spec m = [(''data'', GMap (map (\<lambda>(k, v). (k, GString v)) (sec_Data sec)))]"
    using w by (simp add: written_manifest_def RSecret spec_written_def yaml_read_map_def del: map_map)
  obtain e where e: "co_encMap co [(''data'', GMap (map (\<lambda>(k, v). (k, GString v)) (sec_Data sec)))] = Some e"
    using assms(1) unfolding codecs_ok_def by blast
  have k: "mf_Kind m = ''Secret''" "mf_APIVersion m = ''apiary.io/v1''" "mf_Metadata m = sec_Meta sec"
    using w by (simp_all add: written_manifest_def RSecret GetNamespace_def)
  show ?thesis by (simp add: toResource_def m e k RSecret)
qed (use assms(3) in simp)

text \<open>C40: Writing a resource that JSON can carry as a YAML manifest and parsing the text gives the resource back, with the
  supported version and without its status.  JSON can carry it if the integers of its specification are within
  \<open>2 ^ 53\<close> (they pass through \<open>float64\<close>), its strings are valid UTF-8 and its untyped maps hold JSON values.
  (Drones are written, but not read: their kind is unknown to the parser.)\<close>

theorem manifest_round_trip:
  assumes "codecs_ok co" "toLower format = ''yaml'' \<or> toLower format = ''yml''" "mf_Resource m = Some r"
    and "json_exact r" "GetKind r \<noteq> ''Drone''" "GetName r \<noteq> ''''" "Serialize co format m = (Inr s, m')"
  shows "\<exists>m''. ParseManifest co s = Inr m'' \<and> mf_Resource m'' = Some (restamp r)"
proof -
  obtain d mp where d: "co_encResource co r = Some d" "co_decMap co d = Some mp" "co_yamlOut co m' = Some s"
    and w: "written_manifest co r (spec_written r mp (mf_Spec m)) m'"
    using Serialize_yaml [OF assms(7,2,3)] unfolding spec_written_def by blast
  let ?n = "m'\<lparr>mf_Spec := yaml_read_map co (mf_Spec m'), mf_Resource := None\<rparr>"
  have "json_plain (GMap (mf_Spec m'))"
    using spec_written_plain [OF assms(1,4,5) d(1,2)] w by (simp only: written_manifest_def)
  then have y: "co_yaml co s empty_manifest = (?n, None)" using assms(1) d(3) unfolding codecs_ok_def by blast
  have wn: "written_manifest co r (yaml_read_map co (spec_written r mp (mf_Spec m))) ?n"
    using w by (simp add: written_manifest_def)
  have f: "mf_APIVersion ?n \<noteq> ''''" "mf_Kind ?n \<noteq> ''''" "om_Name (mf_Metadata ?n) \<noteq> ''''"
    using w assms(6) by (cases r; simp add: written_manifest_def GetName_def)+
  show ?thesis using ParseManifest_yaml [OF y f] toResource_written [OF assms(1,4,5) d(1,2) wn] by simp
qed


text \<open>Libraries that can write one agent specification; its numbers are read as integers.\<close>

definition worker_map :: "go_value \<Rightarrow> (string \<times> go_value) list" where
  "worker_map n = [(''taskTier'', GString ''complex''), (''scaling'', GMap [(''maxReplicas'', n)])]"

definition worker_manifest :: "go_value \<Rightarrow> manifest" where
  "worker_manifest n = \<lparr>mf_APIVersion = ''apiary.io/v1'', mf_Kind = ''AgentSpec'', mf_Metadata = as_Meta sample_spec,
     mf_Spec = worker_map n, mf_Resource = Some (RAgentSpec sample_spec)\<rparr>"

definition worker_codecs :: codecs where
  "worker_codecs =
    \<lparr>co_yaml = (\<lambda>s m. if s = ''y'' then (worker_manifest (GOther ''5'')\<lparr>mf_Resource := None\<rparr>, None) else (m, Some ''bad'')),
     co_json = (\<lambda>s m. (m, Some ''bad'')), co_encMap = (\<lambda>m. Some (if m = worker_map (GOther ''5'') then ''m'' else '''')),
     co_agentSpec = (\<lambda>s. if s = ''m'' then Inr (as_Spec sample_spec) else Inl ''''), co_hiveSpec = (\<lambda>_. Inl ''''),
     co_cellSpec = (\<lambda>_. Inl ''''), co_session = (\<lambda>_. Inl ''''),
     co_encResource = (\<lambda>r. if r = RAgentSpec sample_spec then Some ''r'' else None),
     co_decMap = (\<lambda>_. Some [(''spec'', GMap (worker_map (GFloat 5)))]),
     co_yamlOut = (\<lambda>m. if m = worker_manifest (GFloat 5) then Some ''y'' else None), co_jsonOut = (\<lambda>_. None),
     co_number = (\<lambda>x. if x = 5 then GOther ''5'' else GFloat x)\<rparr>"

lemma worker_codecs_ok: "codecs_ok worker_codecs"
proof -
  have "json_plain (GMap [(''spec'', GMap (worker_map (GFloat 5)))])" unfolding worker_map_def by code_simp
  then show ?thesis
    by (auto simp: codecs_ok_def respec_ok_def worker_codecs_def worker_manifest_def worker_map_def yaml_read_map_def
        split: if_splits)
qed

lemma manifest_round_trip_witness:
  "\<exists>m. ParseManifest worker_codecs ''y'' = Inr m \<and> mf_Resource m = Some (restamp (RAgentSpec sample_spec))"
proof -
  obtain m' where s: "Serialize worker_codecs ''YAML'' (worker_manifest (GFloat 5)) = (Inr ''y'', m')"
  proof -
    have "fst (Serialize worker_codecs ''YAML'' (worker_manifest (GFloat 5))) = Inr ''y''" by code_simp
    then show ?thesis using that by (metis prod.collapse)
  qed
  have f: "toLower ''YAML'' = ''yaml'' \<or> toLower ''YAML'' = ''yml''" by code_simp
  have x: "json_exact (RAgentSpec sample_spec)" by code_simp
  show ?thesis by (rule manifest_round_trip [OF worker_codecs_ok f _ x _ _ s])
    (simp_all add: worker_manifest_def sample_spec_def GetName_def)
qed

end
