(* ===== verification/CLI_Client.thy ===== *)
theory CLI_Client
  imports Manifest
begin

text \<open>
  The HTTP client of the command line, \<open>cmd/apiaryctl/cmd/client.go\<close>, and the output formats of
  \<open>output.go\<close>.

  \<open>cli_config\<close> is what the client reads of the configuration library and the environment.  The
  transport is a parameter, a function on the state \<open>'w\<close> of whatever answers the requests; so are the JSON and YAML
  encoders and decoders.  A command prints a list of texts, one for each call of a printing
  function; errors are the texts of the Go errors.
\<close>

section \<open>Strings\<close>

text \<open>\<open>strings.Split\<close> with a separator of one character.\<close>

fun split_char :: "char \<Rightarrow> string \<Rightarrow> string list" where
  "split_char c [] = [[]]"
| "split_char c (x # xs) =
    (case split_char c xs of
       [] \<Rightarrow> [[x]]
     | p # ps \<Rightarrow> if x = c then [] # p # ps else (x # p) # ps)"

lemma split_char_not_Nil [simp]: "split_char c s \<noteq> []"
  by (induction s) (auto split: list.splits)

lemma split_char_none: "c \<notin> set s \<Longrightarrow> split_char c s = [s]"
  by (induction s) auto

lemma split_char_append:
  assumes "c \<notin> set s"
  shows "split_char c (s @ c # t) = s # split_char c t"
  using assms by (induction s) (auto split: list.split)

fun join_with :: "string \<Rightarrow> string list \<Rightarrow> string" where
  "join_with sep [] = ''''"
| "join_with sep [p] = p"
| "join_with sep (p # ps) = p @ sep @ join_with sep ps"

definition trim_prefix :: "string \<Rightarrow> string \<Rightarrow> string" where
  "trim_prefix p s = (if has_prefix p s then drop (length p) s else s)"

definition trim_suffix :: "string \<Rightarrow> string \<Rightarrow> string" where
  "trim_suffix p s = rev (trim_prefix (rev p) (rev s))"

lemma trim_prefix_append [simp]: "trim_prefix p (p @ s) = s"
  by (simp add: trim_prefix_def)

text \<open>\<open>strings.Contains\<close>.\<close>

fun contains :: "string \<Rightarrow> string \<Rightarrow> bool" where
  "contains p [] = (p = [])"
| "contains p (c # s) = (has_prefix p (c # s) \<or> contains p s)"

section \<open>The client\<close>

record cli_config =
  cf_server :: string
  cf_namespace :: string
  cf_output :: string
  cf_userID :: string
  cf_userName :: string
  cf_envUserID :: string
  cf_envUserName :: string

record api_client =
  ac_baseURL :: string
  ac_userID :: string
  ac_userName :: string

record http_call =
  hc_Method :: string
  hc_URL :: string
  hc_Headers :: "(string \<times> string) list"
  hc_Body :: "string option"

record http_reply =
  hp_Status :: int
  hp_Body :: string
  hp_Headers :: "(string \<times> string) list"

record 'w cli_env =
  cv_newreq :: "string \<Rightarrow> string option"
  cv_do :: "http_call \<Rightarrow> 'w \<Rightarrow> 'w \<times> (string + http_reply)"
  cv_encMap :: "(string \<times> go_value) list \<Rightarrow> string + string"
  cv_encResource :: "resource \<Rightarrow> string + string"
  cv_decAny :: "string \<Rightarrow> string + go_value"
  cv_decList :: "string \<Rightarrow> string + go_value list"
  cv_decMap :: "string \<Rightarrow> string + (string \<times> go_value) list"
  cv_json :: "go_value \<Rightarrow> string + string"
  cv_yaml :: "go_value \<Rightarrow> string + string"
  cv_verb :: "char \<Rightarrow> go_value \<Rightarrow> string"

definition NewAPIClient :: "cli_config \<Rightarrow> api_client" where
  "NewAPIClient cf =
    \<lparr>ac_baseURL = trim_suffix ''/'' (if cf_server cf = '''' then ''http://localhost:8080'' else cf_server cf),
     ac_userID = (if cf_userID cf = '''' then cf_envUserID cf else cf_userID cf),
     ac_userName = (if cf_userName cf = '''' then cf_envUserName cf else cf_userName cf)\<rparr>"

definition client_namespace :: "cli_config \<Rightarrow> string" where
  "client_namespace cf = (if cf_namespace cf = '''' then ''default'' else cf_namespace cf)"

text \<open>\<open>fmt.Errorf("...: %w", err)\<close>.\<close>

definition wrap_error :: "string \<Rightarrow> string \<Rightarrow> string" where
  "wrap_error msg e = msg @ '': '' @ e"

definition doRequest :: "'w cli_env \<Rightarrow> api_client \<Rightarrow> string \<Rightarrow> string \<Rightarrow> string option \<Rightarrow> 'w \<Rightarrow> 'w \<times> (string + http_reply)" where
  "doRequest env c method path body w =
    (let url = ac_baseURL c @ path
     in case cv_newreq env url of
          Some e \<Rightarrow> (w, Inl (wrap_error ''failed to create request'' e))
        | None \<Rightarrow>
           (case cv_do env \<lparr>hc_Method = method, hc_URL = url,
               hc_Headers = (if ac_userID c \<noteq> '''' then [(''X-User-ID'', ac_userID c)] else []) @
                 (if ac_userName c \<noteq> '''' then [(''X-User-Name'', ac_userName c)] else []) @
                 (if body \<noteq> None then [(''Content-Type'', ''application/json'')] else []),
               hc_Body = body\<rparr> w of
              (w, Inl e) \<Rightarrow> (w, Inl (wrap_error ''request failed'' e))
            | (w, Inr resp) \<Rightarrow> (w, Inr resp)))"

definition status_ok :: "http_reply \<Rightarrow> bool" where
  "status_ok r \<longleftrightarrow> 200 \<le> hp_Status r \<and> hp_Status r < 300"

definition api_error_text :: "http_reply \<Rightarrow> string" where
  "api_error_text r = ''API error (status '' @ int_str (hp_Status r) @ ''): '' @ hp_Body r"

definition client_Get :: "'w cli_env \<Rightarrow> api_client \<Rightarrow> string \<Rightarrow> 'w \<Rightarrow> 'w \<times> (string + http_reply)" where
  "client_Get env c path w = doRequest env c ''GET'' path None w"

definition GetWithError :: "'w cli_env \<Rightarrow> api_client \<Rightarrow> string \<Rightarrow> 'w \<Rightarrow> 'w \<times> (string + http_reply)" where
  "GetWithError env c path w =
    (case doRequest env c ''GET'' path None w of
       (w, Inl e) \<Rightarrow> (w, Inl e)
     | (w, Inr r) \<Rightarrow> (w, if status_ok r then Inr r else Inl (api_error_text r)))"

text \<open>\<open>body\<close> is the encoded body, or the error of the encoder; a nil body is empty.  The buffer
  itself is never nil, so these requests always name their content type.\<close>

definition send_body :: "'w cli_env \<Rightarrow> api_client \<Rightarrow> string \<Rightarrow> string \<Rightarrow> string + string \<Rightarrow> 'w \<Rightarrow> 'w \<times> (string + http_reply)" where
  "send_body env c method path body w =
    (case body of
       Inl e \<Rightarrow> (w, Inl (wrap_error ''failed to encode body'' e))
     | Inr text \<Rightarrow> doRequest env c method path (Some text) w)"

definition client_Post :: "'w cli_env \<Rightarrow> api_client \<Rightarrow> string \<Rightarrow> string + string \<Rightarrow> 'w \<Rightarrow> 'w \<times> (string + http_reply)" where
  "client_Post env c path body w = send_body env c ''POST'' path body w"

definition client_Put :: "'w cli_env \<Rightarrow> api_client \<Rightarrow> string \<Rightarrow> string + string \<Rightarrow> 'w \<Rightarrow> 'w \<times> (string + http_reply)" where
  "client_Put env c path body w = send_body env c ''PUT'' path body w"

definition client_Delete :: "'w cli_env \<Rightarrow> api_client \<Rightarrow> string \<Rightarrow> 'w \<Rightarrow> 'w \<times> (string + http_reply)" where
  "client_Delete env c path w = doRequest env c ''DELETE'' path None w"

definition resource_body :: "'w cli_env \<Rightarrow> resource option \<Rightarrow> string + string" where
  "resource_body env r = (case r of None \<Rightarrow> Inr '''' | Some r \<Rightarrow> cv_encResource env r)"

text \<open>\<open>HandleResponse\<close> without and with a variable to decode into.\<close>

definition check_response :: "http_reply \<Rightarrow> string option" where
  "check_response r = (if \<not> status_ok r then Some (api_error_text r) else None)"

definition HandleResponse :: "(string \<Rightarrow> string + 'v) \<Rightarrow> http_reply \<Rightarrow> string + 'v" where
  "HandleResponse decode r =
    (case check_response r of
       Some e \<Rightarrow> Inl e
     | None \<Rightarrow>
        (case decode (hp_Body r) of
           Inl e \<Rightarrow> Inl (wrap_error ''failed to decode response'' e)
         | Inr v \<Rightarrow> Inr v))"

definition IsNotFound :: "string option \<Rightarrow> bool" where
  "IsNotFound e = (case e of None \<Rightarrow> False | Some e \<Rightarrow> contains ''status 404'' e)"

text \<open>A request whose response is decoded, as most commands send it.\<close>

definition decoded :: "(string \<Rightarrow> string + 'v) \<Rightarrow> string \<Rightarrow> 'w \<times> (string + http_reply) \<Rightarrow> 'w \<times> (string + 'v)" where
  "decoded decode msg r =
    (case r of
       (w, Inl e) \<Rightarrow> (w, Inl (wrap_error msg e))
     | (w, Inr resp) \<Rightarrow> (w, HandleResponse decode resp))"

lemma HandleResponse_Inr:
  "HandleResponse d r = Inr v \<longleftrightarrow> status_ok r \<and> d (hp_Body r) = Inr v"
  by (auto simp: HandleResponse_def check_response_def split: sum.splits)

section \<open>Output\<close>

datatype output_format = YAMLFormat | JSONFormat | WideFormat | NameFormat | TableFormat

definition GetOutputFormat :: "cli_config \<Rightarrow> output_format" where
  "GetOutputFormat cf =
    (let format = toLower (cf_output cf)
     in if format = ''yaml'' \<or> format = ''y'' then YAMLFormat
        else if format = ''json'' \<or> format = ''j'' then JSONFormat
        else if format = ''wide'' \<or> format = ''w'' then WideFormat
        else if format = ''name'' \<or> format = ''n'' then NameFormat
        else TableFormat)"

text \<open>What a command did: returned nil or an error, or panicked.\<close>

datatype outcome = Finished | Errored string | Panicked

definition printed :: "string + string \<Rightarrow> string list \<times> outcome" where
  "printed r = (case r of Inl e \<Rightarrow> ([], Errored e) | Inr s \<Rightarrow> ([s], Finished))"

text \<open>A decoded value written as JSON and read into a map: JSON's null leaves a nil map.\<close>

definition json_map :: "go_value \<Rightarrow> (string \<times> go_value) list option" where
  "json_map v = (case v of GMap m \<Rightarrow> Some m | GOther s \<Rightarrow> (if s = ''null'' then Some [] else None) | _ \<Rightarrow> None)"

definition field_map :: "string \<Rightarrow> (string \<times> go_value) list \<Rightarrow> (string \<times> go_value) list option" where
  "field_map k m = (case map_of m k of Some (GMap x) \<Rightarrow> Some x | _ \<Rightarrow> None)"

definition field_string :: "string \<Rightarrow> (string \<times> go_value) list \<Rightarrow> string option" where
  "field_string k m = (case map_of m k of Some (GString x) \<Rightarrow> Some x | _ \<Rightarrow> None)"

definition meta_name :: "(string \<times> go_value) list \<Rightarrow> string option" where
  "meta_name m = (case field_map ''metadata'' m of None \<Rightarrow> None | Some meta \<Rightarrow> field_string ''name'' meta)"

text \<open>A decoded value is never a \<open>fmt.Stringer\<close>.\<close>

definition printName :: "go_value \<Rightarrow> string list \<times> outcome" where
  "printName v =
    (case json_map v of
       None \<Rightarrow> ([], Errored ''json: cannot unmarshal into Go value of type map[string]interface {}'')
     | Some m \<Rightarrow>
        (case meta_name m of
           Some name \<Rightarrow> ([name], Finished)
         | None \<Rightarrow> ([], Errored ''unable to extract name from resource'')))"

text \<open>The items of the list that have no name are skipped.\<close>

definition printNameList :: "go_value list \<Rightarrow> string list \<times> outcome" where
  "printNameList vs =
    (List.map_filter (\<lambda>v. case v of GMap m \<Rightarrow> meta_name m | _ \<Rightarrow> None) vs, Finished)"

definition PrintResource :: "'w cli_env \<Rightarrow> go_value \<Rightarrow> output_format \<Rightarrow> string list \<times> outcome" where
  "PrintResource env v format =
    (case format of
       YAMLFormat \<Rightarrow> printed (cv_yaml env v)
     | JSONFormat \<Rightarrow> printed (cv_json env v)
     | NameFormat \<Rightarrow> printName v
     | TableFormat \<Rightarrow> printed (cv_json env v)
     | WideFormat \<Rightarrow> printed (cv_json env v))"

definition PrintList :: "'w cli_env \<Rightarrow> go_value list \<Rightarrow> output_format \<Rightarrow> string list \<times> outcome" where
  "PrintList env vs format =
    (case format of
       YAMLFormat \<Rightarrow> printed (cv_yaml env (GList vs))
     | JSONFormat \<Rightarrow> printed (cv_json env (GList vs))
     | NameFormat \<Rightarrow> printNameList vs
     | TableFormat \<Rightarrow> printed (cv_json env (GList vs))
     | WideFormat \<Rightarrow> printed (cv_json env (GList vs)))"

end
