(* ===== verification/CLI_Get.thy ===== *)
theory CLI_Get
  imports CLI_Client Float64
begin

text \<open>
  The commands of the command line that read, \<open>cmd/apiaryctl/cmd/get.go\<close> and \<open>describe.go\<close>.

  A command gets its flags and arguments and returns the state of the transport, the texts it
  printed and its outcome.  A text is what one printing call writes, without the final newline; a
  line of a table is written to a tabwriter, which only aligns its columns.  The loops over
  maps follow the order of the association list, where Go's order is arbitrary.
\<close>

section \<open>Paths\<close>

definition normalizeResourceType :: "string \<Rightarrow> string" where
  "normalizeResourceType t =
    (if t = ''cell'' \<or> t = ''cells'' then ''cell''
     else if t = ''agentspec'' \<or> t = ''agentspecs'' then ''agentspec''
     else if t = ''hive'' \<or> t = ''hives'' then ''hive''
     else if t = ''secret'' \<or> t = ''secrets'' then ''secret''
     else if t = ''drone'' \<or> t = ''drones'' then ''drone''
     else if t = ''session'' \<or> t = ''sessions'' then ''session''
     else t)"

definition cells_path :: "string \<Rightarrow> string" where
  "cells_path ns = ''/api/v1/cells/'' @ ns"

definition unsupported_type :: "string \<Rightarrow> string" where
  "unsupported_type t = ''unsupported resource type: '' @ t"

definition getGetPath :: "string \<Rightarrow> string \<Rightarrow> string \<Rightarrow> string + string" where
  "getGetPath t name namespace =
    (if t = ''cell'' then Inr (cells_path name)
     else if t = ''agentspec'' then Inr (cells_path namespace @ ''/agentspecs/'' @ name)
     else if t = ''hive'' then Inr (cells_path namespace @ ''/hives/'' @ name)
     else if t = ''secret'' then Inr (cells_path namespace @ ''/secrets/'' @ name)
     else if t = ''drone'' then Inr (cells_path namespace @ ''/drones/'' @ name)
     else if t = ''session'' then Inr (cells_path namespace @ ''/sessions/'' @ name)
     else Inl (unsupported_type t))"

definition getListPath :: "string \<Rightarrow> string \<Rightarrow> string + string" where
  "getListPath t namespace =
    (if t = ''cell'' then Inr ''/api/v1/cells''
     else if t = ''agentspec'' then Inr (cells_path namespace @ ''/agentspecs'')
     else if t = ''hive'' then Inr (cells_path namespace @ ''/hives'')
     else if t = ''secret'' then Inr (cells_path namespace @ ''/secrets'')
     else if t = ''drone'' then Inr (cells_path namespace @ ''/drones'')
     else if t = ''session'' then Inr (cells_path namespace @ ''/sessions'')
     else Inl (unsupported_type t))"

section \<open>Selection\<close>

definition matchesSelector :: "go_value \<Rightarrow> string \<Rightarrow> string \<Rightarrow> bool" where
  "matchesSelector resource key val =
    (case json_map resource of
       None \<Rightarrow> False
     | Some m \<Rightarrow>
        (case field_map ''metadata'' m of
           None \<Rightarrow> False
         | Some meta \<Rightarrow>
            (case field_map ''labels'' meta of
               None \<Rightarrow> False
             | Some labels \<Rightarrow> field_string key labels = Some val)))"

definition filterBySelector :: "go_value list \<Rightarrow> string \<Rightarrow> go_value list" where
  "filterBySelector resources selector =
    (case split_char CHR ''='' selector of
       [key, val] \<Rightarrow> filter (\<lambda>r. matchesSelector r key val) resources
     | _ \<Rightarrow> resources)"

section \<open>Tables\<close>

definition getString :: "(string \<times> go_value) list \<Rightarrow> string \<Rightarrow> string" where
  "getString m key = (case field_string key m of None \<Rightarrow> '''' | Some s \<Rightarrow> s)"

definition formatTime :: "string \<Rightarrow> string" where
  "formatTime timeStr =
    (if timeStr = '''' then ''<unknown>'' else if length timeStr > 19 then take 19 timeStr else timeStr)"

text \<open>The metadata of a listed resource; the type assertion panics without it.  An error of the
  decoder is ignored and leaves a nil map.\<close>

definition table_meta :: "go_value \<Rightarrow> (string \<times> go_value) list option" where
  "table_meta r = field_map ''metadata'' (case json_map r of None \<Rightarrow> [] | Some m \<Rightarrow> m)"

definition extractCellFields :: "go_value \<Rightarrow> (string \<times> string) option" where
  "extractCellFields r =
    map_option (\<lambda>meta. (getString meta ''name'', formatTime (getString meta ''createdAt''))) (table_meta r)"

definition extractNamespacedFields :: "go_value \<Rightarrow> (string \<times> string \<times> string) option" where
  "extractNamespacedFields r =
    map_option (\<lambda>meta. (getString meta ''name'', getString meta ''namespace'', formatTime (getString meta ''createdAt'')))
      (table_meta r)"

definition extractStatusFields :: "go_value \<Rightarrow> (string \<times> string \<times> string \<times> string) option" where
  "extractStatusFields r =
    map_option (\<lambda>meta.
      (getString meta ''name'', getString meta ''namespace'',
       (case Option.bind (json_map r) (field_map ''status'') of
          None \<Rightarrow> ''Unknown''
        | Some s \<Rightarrow> (case field_string ''phase'' s of None \<Rightarrow> ''Unknown'' | Some phase \<Rightarrow> phase)),
       formatTime (getString meta ''createdAt''))) (table_meta r)"

fun tab_line :: "string list \<Rightarrow> string" where
  "tab_line [] = ''''"
| "tab_line [x] = x"
| "tab_line (x # xs) = x @ CHR 0x09 # tab_line xs"

text \<open>The rows up to the first one that panics; the deferred flush prints them in any case.\<close>

fun table_rows :: "(go_value \<Rightarrow> string list option) \<Rightarrow> go_value list \<Rightarrow> string list \<times> outcome" where
  "table_rows row [] = ([], Finished)"
| "table_rows row (r # rs) =
    (case row r of
       None \<Rightarrow> ([], Panicked)
     | Some cells \<Rightarrow> (let (ls, oc) = table_rows row rs in (tab_line cells # ls, oc)))"

definition with_header :: "string list \<Rightarrow> string list \<times> outcome \<Rightarrow> string list \<times> outcome" where
  "with_header h r = (tab_line h # fst r, snd r)"

definition printResourceTable :: "'w cli_env \<Rightarrow> go_value list \<Rightarrow> string \<Rightarrow> string list \<times> outcome" where
  "printResourceTable env rs t =
    (if rs = [] then ([''No resources found.''], Finished)
     else if t = ''cell''
     then with_header [''NAME'', ''CREATED''] (table_rows (\<lambda>r. map_option (\<lambda>(n, c). [n, c]) (extractCellFields r)) rs)
     else if t = ''agentspec'' \<or> t = ''hive'' \<or> t = ''secret''
     then with_header [''NAME'', ''NAMESPACE'', ''CREATED'']
       (table_rows (\<lambda>r. map_option (\<lambda>(n, ns, c). [n, ns, c]) (extractNamespacedFields r)) rs)
     else if t = ''drone'' \<or> t = ''session''
     then with_header [''NAME'', ''NAMESPACE'', ''STATUS'', ''CREATED'']
       (table_rows (\<lambda>r. map_option (\<lambda>(n, ns, s, c). [n, ns, s, c]) (extractStatusFields r)) rs)
     else PrintList env rs JSONFormat)"

section \<open>The command get\<close>

definition print_listed :: "'w cli_env \<Rightarrow> output_format \<Rightarrow> string \<Rightarrow> go_value list \<Rightarrow> string list \<times> outcome" where
  "print_listed env format t rs =
    (if format = TableFormat then printResourceTable env rs t else PrintList env rs format)"

text \<open>Watching polls once, and ignores the selector.\<close>

definition watchResources :: "'w cli_env \<Rightarrow> api_client \<Rightarrow> string \<Rightarrow> string \<Rightarrow> output_format \<Rightarrow> 'w \<Rightarrow>
    'w \<times> string list \<times> outcome" where
  "watchResources env c apiPath t format w =
    (let banner = ''Watch mode - polling for changes (full watch implementation pending)''
     in case decoded (cv_decList env) ''failed to list resources'' (client_Get env c apiPath w) of
          (w, Inl e) \<Rightarrow> (w, [banner], Errored e)
        | (w, Inr rs) \<Rightarrow> (let (ls, oc) = print_listed env format t rs in (w, banner # ls, oc)))"

record get_flags =
  gf_selector :: string
  gf_watch :: bool

definition get_one :: "'w cli_env \<Rightarrow> cli_config \<Rightarrow> get_flags \<Rightarrow> string \<Rightarrow> string \<Rightarrow> 'w \<Rightarrow> 'w \<times> string list \<times> outcome" where
  "get_one env cf g t name w =
    (case getGetPath t name (client_namespace cf) of
       Inl e \<Rightarrow> (w, [], Errored e)
     | Inr apiPath \<Rightarrow>
        (if gf_watch g then (w, [], Errored ''watch mode is not supported for single resources'')
         else case decoded (cv_decAny env) ''failed to get resource'' (client_Get env (NewAPIClient cf) apiPath w) of
                (w, Inl e) \<Rightarrow> (w, [], Errored e)
              | (w, Inr r) \<Rightarrow> (w, PrintResource env r (GetOutputFormat cf))))"

definition get_list :: "'w cli_env \<Rightarrow> cli_config \<Rightarrow> get_flags \<Rightarrow> string \<Rightarrow> 'w \<Rightarrow> 'w \<times> string list \<times> outcome" where
  "get_list env cf g t w =
    (case getListPath t (client_namespace cf) of
       Inl e \<Rightarrow> (w, [], Errored e)
     | Inr apiPath \<Rightarrow>
        (if gf_watch g then watchResources env (NewAPIClient cf) apiPath t (GetOutputFormat cf) w
         else case decoded (cv_decList env) ''failed to list resources'' (client_Get env (NewAPIClient cf) apiPath w) of
                (w, Inl e) \<Rightarrow> (w, [], Errored e)
              | (w, Inr rs) \<Rightarrow>
                  (w, print_listed env (GetOutputFormat cf) t
                        (if gf_selector g \<noteq> '''' then filterBySelector rs (gf_selector g) else rs))))"

definition runGet :: "'w cli_env \<Rightarrow> cli_config \<Rightarrow> get_flags \<Rightarrow> string list \<Rightarrow> 'w \<Rightarrow> 'w \<times> string list \<times> outcome" where
  "runGet env cf g args w =
    (case args of
       [] \<Rightarrow> (w, [], Errored ''resource type is required'')
     | a # rest \<Rightarrow>
        (let t = normalizeResourceType (toLower a);
             name = (case rest of [] \<Rightarrow> '''' | n # _ \<Rightarrow> n)
         in if name \<noteq> '''' then get_one env cf g t name w else get_list env cf g t w))"

section \<open>The command describe\<close>

definition format_value :: "'w cli_env \<Rightarrow> char \<Rightarrow> go_value \<Rightarrow> string" where
  "format_value env verb v = (case v of GString s \<Rightarrow> s | _ \<Rightarrow> cv_verb env verb v)"

definition field_number :: "string \<Rightarrow> (string \<times> go_value) list \<Rightarrow> rat option" where
  "field_number k m = (case map_of m k of Some (GFloat x) \<Rightarrow> Some x | _ \<Rightarrow> None)"

definition field_bool :: "string \<Rightarrow> (string \<times> go_value) list \<Rightarrow> bool option" where
  "field_bool k m = (case map_of m k of Some (GBool x) \<Rightarrow> Some x | _ \<Rightarrow> None)"

definition field_list :: "string \<Rightarrow> (string \<times> go_value) list \<Rightarrow> go_value list option" where
  "field_list k m = (case map_of m k of Some (GList x) \<Rightarrow> Some x | _ \<Rightarrow> None)"

definition getFloat64 :: "(string \<times> go_value) list \<Rightarrow> string \<Rightarrow> rat" where
  "getFloat64 m k = (case field_number k m of None \<Rightarrow> 0 | Some x \<Rightarrow> x)"

definition interfaceSliceToStringSlice :: "'w cli_env \<Rightarrow> go_value list \<Rightarrow> string list" where
  "interfaceSliceToStringSlice env vs = map (format_value env CHR ''v'') vs"

text \<open>The guarded printing calls: a field of the asserted type, or nothing.\<close>

definition line_if :: "bool \<Rightarrow> string \<Rightarrow> string list" where
  "line_if b s = (if b then [s] else [])"

definition string_line :: "(string \<times> go_value) list \<Rightarrow> string \<Rightarrow> string \<Rightarrow> string list" where
  "string_line m k label = (case field_string k m of None \<Rightarrow> [] | Some s \<Rightarrow> [label @ s])"

definition nonempty_line :: "(string \<times> go_value) list \<Rightarrow> string \<Rightarrow> string \<Rightarrow> string list" where
  "nonempty_line m k label = (case field_string k m of None \<Rightarrow> [] | Some s \<Rightarrow> line_if (s \<noteq> '''') (label @ s))"

definition time_line :: "(string \<times> go_value) list \<Rightarrow> string \<Rightarrow> string \<Rightarrow> string list" where
  "time_line m k label =
    (case field_string k m of None \<Rightarrow> [] | Some s \<Rightarrow> line_if (s \<noteq> '''') (label @ formatTime s))"

definition number_line :: "(string \<times> go_value) list \<Rightarrow> string \<Rightarrow> string \<Rightarrow> string \<Rightarrow> string list" where
  "number_line m k label unit =
    (case field_number k m of None \<Rightarrow> [] | Some x \<Rightarrow> [label @ int_str (int64_of_float x) @ unit])"

definition positive_line :: "(string \<times> go_value) list \<Rightarrow> string \<Rightarrow> string \<Rightarrow> string list" where
  "positive_line m k label =
    (case field_number k m of None \<Rightarrow> [] | Some x \<Rightarrow> line_if (x > 0) (label @ int_str (int64_of_float x)))"

definition bool_line :: "(string \<times> go_value) list \<Rightarrow> string \<Rightarrow> string \<Rightarrow> string list" where
  "bool_line m k label =
    (case field_bool k m of None \<Rightarrow> [] | Some b \<Rightarrow> [label @ (if b then ''true'' else ''false'')])"

text \<open>A part that is a map, with its lines.\<close>

definition map_part :: "(string \<times> go_value) list \<Rightarrow> string \<Rightarrow> ((string \<times> go_value) list \<Rightarrow> string list) \<Rightarrow> string list" where
  "map_part m k f = (case field_map k m of None \<Rightarrow> [] | Some x \<Rightarrow> f x)"

definition printStatus :: "(string \<times> go_value) list \<Rightarrow> string \<Rightarrow> string list" where
  "printStatus st t =
    (if t = ''drone''
     then string_line st ''phase'' ''  Phase:       '' @ nonempty_line st ''message'' ''  Message:     '' @
       time_line st ''startedAt'' ''  Started:     '' @ nonempty_line st ''keeperAddr'' ''  Keeper Addr: '' @
       map_part st ''health'' (\<lambda>h. bool_line h ''healthy'' ''  Healthy:     '' @
         nonempty_line h ''message'' ''  Health Msg:   '')
     else if t = ''session''
     then string_line st ''phase'' ''  Phase:       '' @ bool_line st ''active'' ''  Active:      '' @
       time_line st ''expiresAt'' ''  Expires:     ''
     else if t = ''hive''
     then number_line st ''activeDrones'' ''  Active Drones: '' '''' @ number_line st ''totalDrones'' ''  Total Drones:  '' ''''
     else [])"

definition env_line :: "go_value \<Rightarrow> string list" where
  "env_line e =
    (case e of
       GMap m \<Rightarrow> [''      '' @ getString m ''name'' @
         (if getString m ''value'' \<noteq> '''' then ''='' @ getString m ''value'' else ''=<from secret>'')]
     | _ \<Rightarrow> [])"

definition runtime_lines :: "'w cli_env \<Rightarrow> (string \<times> go_value) list \<Rightarrow> string list" where
  "runtime_lines env rt =
    ''  Runtime:'' #
    (case field_list ''command'' rt of
       None \<Rightarrow> []
     | Some command \<Rightarrow> [''    Command:    '' @ join_with '' '' (interfaceSliceToStringSlice env command)]) @
    nonempty_line rt ''workingDir'' ''    WorkingDir: '' @
    (case field_list ''env'' rt of
       None \<Rightarrow> []
     | Some vs \<Rightarrow> (if vs = [] then [] else ''    Environment:'' # concat (map env_line vs)))"

fun stage_lines :: "nat \<Rightarrow> go_value list \<Rightarrow> string list" where
  "stage_lines i [] = []"
| "stage_lines i (v # vs) =
    (case v of
       GMap s \<Rightarrow> [''    ['' @ nat_str (Suc i) @ ''] '' @ getString s ''name'' @ '' (Agent: '' @ getString s ''agentRef'' @
         '', Replicas: '' @ int_str (int64_of_float (getFloat64 s ''replicas'')) @ '')'']
     | _ \<Rightarrow> []) @ stage_lines (Suc i) vs"

definition printSpec :: "'w cli_env \<Rightarrow> (string \<times> go_value) list \<Rightarrow> string \<Rightarrow> string list" where
  "printSpec env sp t =
    (if t = ''agentspec''
     then map_part sp ''runtime'' (runtime_lines env) @
       map_part sp ''interface'' (\<lambda>i. ''  Interface:'' # string_line i ''type'' ''    Type:       '' @
         number_line i ''port'' ''    Port:       '' '''' @ nonempty_line i ''healthPath'' ''    HealthPath: '') @
       map_part sp ''resources'' (\<lambda>r. ''  Resources:'' # number_line r ''cpu'' ''    CPU:        '' '' m'' @
         number_line r ''memory'' ''    Memory:     '' '' bytes'') @
       map_part sp ''scaling'' (\<lambda>s. ''  Scaling:'' # number_line s ''minReplicas'' ''    MinReplicas: '' '''' @
         number_line s ''maxReplicas'' ''    MaxReplicas: '' '''' @
         number_line s ''targetLatencyMs'' ''    TargetLatency: '' '' ms'') @
       map_part sp ''guardrails'' (\<lambda>g. ''  Guardrails:'' # number_line g ''rateLimitPerMinute'' ''    RateLimit:  '' ''/min'' @
         number_line g ''responseTimeoutSeconds'' ''    Timeout:    '' '' s'' @
         number_line g ''tokenBudgetPerSession'' ''    TokenBudget: '' ''/session'')
     else if t = ''hive''
     then nonempty_line sp ''pattern'' ''  Pattern:     '' @ nonempty_line sp ''poolMode'' ''  PoolMode:    '' @
       number_line sp ''warmPoolSize'' ''  WarmPoolSize: '' '''' @
       (case field_list ''stages'' sp of
          None \<Rightarrow> []
        | Some stages \<Rightarrow> (if stages = [] then [] else ''  Stages:'' # stage_lines 0 stages)) @
       map_part sp ''webhook'' (\<lambda>w. nonempty_line w ''url'' ''  Webhook URL: '')
     else if t = ''cell''
     then map_part sp ''resourceQuota'' (\<lambda>q. ''  Resource Quota:'' # positive_line q ''maxHives'' ''    MaxHives:        '' @
       positive_line q ''maxTotalDrones'' ''    MaxTotalDrones:  '' @ positive_line q ''maxMemoryGB'' ''    MaxMemoryGB:     '')
     else if t = ''secret''
     then map_part sp ''data'' (\<lambda>d. ''  Data Keys:'' # map (\<lambda>(k, _). ''    '' @ k) d)
     else if t = ''drone'' then map_part sp ''spec'' (\<lambda>s. string_line s ''name'' ''  AgentSpec:   '')
     else [])"

definition label_lines :: "'w cli_env \<Rightarrow> (string \<times> go_value) list \<Rightarrow> string \<Rightarrow> string \<Rightarrow> string list" where
  "label_lines env meta k title =
    (case field_map k meta of
       None \<Rightarrow> []
     | Some ls \<Rightarrow>
        (if ls = [] then []
         else (CHR 0x0A # title) # map (\<lambda>(k, v). ''  '' @ k @ ''='' @ format_value env CHR ''s'' v) ls))"

definition map_or_nil :: "(string \<times> go_value) list option \<Rightarrow> (string \<times> go_value) list" where
  "map_or_nil m = (case m of None \<Rightarrow> [] | Some m \<Rightarrow> m)"

definition printResourceDescription :: "'w cli_env \<Rightarrow> (string \<times> go_value) list \<Rightarrow> string \<Rightarrow> string list" where
  "printResourceDescription env r t =
    (let meta = map_or_nil (field_map ''metadata'' r);
         sp = map_or_nil (field_map ''spec'' r);
         st = map_or_nil (field_map ''status'' r)
     in [''Name:         '' @ getString meta ''name''] @
        line_if (getString meta ''namespace'' \<noteq> '''') (''Namespace:    '' @ getString meta ''namespace'') @
        [''UID:          '' @ getString meta ''uid'', ''Created:      '' @ formatTime (getString meta ''createdAt'')] @
        line_if (getString meta ''updatedAt'' \<noteq> '''') (''Updated:      '' @ formatTime (getString meta ''updatedAt'')) @
        label_lines env meta ''labels'' ''Labels:'' @ label_lines env meta ''annotations'' ''Annotations:'' @
        (if st \<noteq> [] then (CHR 0x0A # ''Status:'') # printStatus st t else []) @
        (if sp \<noteq> [] then (CHR 0x0A # ''Spec:'') # printSpec env sp t else []))"

definition runDescribe :: "'w cli_env \<Rightarrow> cli_config \<Rightarrow> string list \<Rightarrow> 'w \<Rightarrow> 'w \<times> string list \<times> outcome" where
  "runDescribe env cf args w =
    (case args of
       a # name # _ \<Rightarrow>
         (let t = normalizeResourceType (toLower a)
          in case getGetPath t name (client_namespace cf) of
               Inl e \<Rightarrow> (w, [], Errored e)
             | Inr apiPath \<Rightarrow>
                (case decoded (cv_decMap env) ''failed to get resource'' (client_Get env (NewAPIClient cf) apiPath w) of
                   (w, Inl e) \<Rightarrow> (w, [], Errored e)
                 | (w, Inr r) \<Rightarrow> (w, printResourceDescription env r t, Finished)))
     | _ \<Rightarrow> (w, [], Errored ''resource type and name are required''))"

end
