(* ===== verification/CLI_Apply.thy ===== *)
theory CLI_Apply
  imports CLI_Get
begin

text \<open>
  The commands of the command line that change resources from manifests and by name,
  \<open>cmd/apiaryctl/cmd/apply.go\<close> and \<open>delete.go\<close>.

  The file system is the record \<open>cli_fs\<close>: what \<open>os.Stat\<close> says of a path, the calls \<open>filepath.Walk\<close> makes of its
  function, and the contents of a file.  Normal output and the errors printed to standard error are one list of texts.
\<close>

section \<open>Files\<close>

record cli_fs =
  fs_stat :: "string \<Rightarrow> string + bool"
  fs_walk :: "string \<Rightarrow> (string \<times> (string + bool)) list"
  fs_read :: "string \<Rightarrow> string + string"

text \<open>\<open>Inr True\<close> is a directory.  Walking stops at the first error.\<close>

definition manifest_suffix :: "string \<Rightarrow> bool" where
  "manifest_suffix path \<longleftrightarrow>
    has_prefix (rev ''.yaml'') (rev path) \<or> has_prefix (rev ''.yml'') (rev path) \<or> has_prefix (rev ''.json'') (rev path)"

fun walk_files :: "(string \<times> (string + bool)) list \<Rightarrow> string + string list" where
  "walk_files [] = Inr []"
| "walk_files ((path, Inl e) # vs) = Inl e"
| "walk_files ((path, Inr dir) # vs) =
    (case walk_files vs of
       Inl e \<Rightarrow> Inl e
     | Inr ps \<Rightarrow> Inr (if \<not> dir \<and> manifest_suffix path then path # ps else ps))"

fun collect_files :: "cli_fs \<Rightarrow> bool \<Rightarrow> string list \<Rightarrow> string + string list" where
  "collect_files fs recurse [] = Inr []"
| "collect_files fs recurse (file # files) =
    (case fs_stat fs file of
       Inl e \<Rightarrow> Inl (wrap_error (''failed to stat file '' @ file) e)
     | Inr True \<Rightarrow>
        (if \<not> recurse then Inl (file @ '' is a directory (use -R to process recursively)'')
         else case walk_files (fs_walk fs file) of
                Inl e \<Rightarrow> Inl (wrap_error (''failed to walk directory '' @ file) e)
              | Inr ps \<Rightarrow> (case collect_files fs recurse files of Inl e \<Rightarrow> Inl e | Inr qs \<Rightarrow> Inr (ps @ qs)))
     | Inr False \<Rightarrow> (case collect_files fs recurse files of Inl e \<Rightarrow> Inl e | Inr qs \<Rightarrow> Inr (file # qs)))"

text \<open>\<open>marshalErr\<close> is the text of the JSON encoder's error, which \<open>SpecMarshalFailed\<close> does not keep.\<close>

fun manifest_error_text :: "string \<Rightarrow> manifest_error \<Rightarrow> string" where
  "manifest_error_text marshalErr (ParseFailed e e2) =
    ''failed to parse as YAML: '' @ e @ '', failed to parse as JSON: '' @ e2"
| "manifest_error_text marshalErr APIVersionRequired = ''apiVersion is required''"
| "manifest_error_text marshalErr KindRequired = ''kind is required''"
| "manifest_error_text marshalErr SpecMarshalFailed = ''failed to convert to resource: failed to marshal spec: '' @ marshalErr"
| "manifest_error_text marshalErr (SpecUnmarshalFailed kind e) =
    ''failed to convert to resource: failed to unmarshal '' @ kind @ '' spec: '' @ e"
| "manifest_error_text marshalErr (UnknownKind kind) = ''failed to convert to resource: unknown resource kind: '' @ kind"

definition ParseAndValidateFile :: "codecs \<Rightarrow> string \<Rightarrow> cli_fs \<Rightarrow> string \<Rightarrow> string + (manifest \<times> field_error list)" where
  "ParseAndValidateFile co marshalErr fs path =
    (case fs_read fs path of
       Inl e \<Rightarrow> Inl (wrap_error ''failed to read file'' e)
     | Inr data \<Rightarrow>
        (case ParseAndValidate co data of Inl e \<Rightarrow> Inl (manifest_error_text marshalErr e) | Inr r \<Rightarrow> Inr r))"

definition field_error_line :: "field_error \<Rightarrow> string" where
  "field_error_line e = ''  - '' @ vl_Field e @ '': '' @ vl_Message e"

text \<open>\<open>PrintError\<close>.\<close>

definition error_line :: "string \<Rightarrow> string" where
  "error_line e = ''Error: '' @ e"

section \<open>The command apply\<close>

definition unsupported_kind :: "string \<Rightarrow> string" where
  "unsupported_kind kind = ''unsupported resource kind: '' @ kind"

definition getAPIPath :: "string \<Rightarrow> string \<Rightarrow> string \<Rightarrow> string + string" where
  "getAPIPath kind name namespace =
    (let kindLower = toLower kind
     in if kind = ''Cell'' then Inr (cells_path name)
        else if kindLower = ''agentspec'' then Inr (cells_path namespace @ ''/agentspecs/'' @ name)
        else if kindLower = ''hive'' then Inr (cells_path namespace @ ''/hives/'' @ name)
        else if kindLower = ''secret'' then Inr (cells_path namespace @ ''/secrets/'' @ name)
        else Inl (unsupported_kind kind))"

definition getCreatePath :: "string \<Rightarrow> string \<Rightarrow> string + string" where
  "getCreatePath kind namespace =
    (let kindLower = toLower kind
     in if kind = ''Cell'' then Inr ''/api/v1/cells''
        else if kindLower = ''agentspec'' then Inr (cells_path namespace @ ''/agentspecs'')
        else if kindLower = ''hive'' then Inr (cells_path namespace @ ''/hives'')
        else if kindLower = ''secret'' then Inr (cells_path namespace @ ''/secrets'')
        else Inl (unsupported_kind kind))"

datatype apply_result = Created | Updated | Validated | ApplyFailed

definition check_mark :: string where
  "check_mark = [CHR 0xE2, CHR 0x9C, CHR 0x93]"

definition applied_line :: "manifest \<Rightarrow> string \<Rightarrow> string" where
  "applied_line m what = ''  '' @ check_mark @ '' '' @ mf_Kind m @ ''/'' @ om_Name (mf_Metadata m) @ '' '' @ what"

definition kind_name :: "manifest \<Rightarrow> string" where
  "kind_name m = mf_Kind m @ ''/'' @ om_Name (mf_Metadata m)"

text \<open>A sent request: an error of the transport and an unsuccessful status are reported in the same way.\<close>

definition sent :: "manifest \<Rightarrow> string \<Rightarrow> string \<Rightarrow> apply_result \<Rightarrow> 'w \<times> (string + http_reply) \<Rightarrow>
    'w \<times> string list \<times> apply_result" where
  "sent m doing what done r =
    (case r of
       (w, Inl e) \<Rightarrow> (w, [error_line (wrap_error (''failed to '' @ doing @ '' '' @ kind_name m) e)], ApplyFailed)
     | (w, Inr resp) \<Rightarrow>
        (case check_response resp of
           Some e \<Rightarrow> (w, [error_line (wrap_error (''failed to '' @ doing @ '' '' @ kind_name m) e)], ApplyFailed)
         | None \<Rightarrow> (w, [applied_line m what], done)))"

definition manifest_namespace :: "manifest \<Rightarrow> string \<Rightarrow> string" where
  "manifest_namespace m namespace = (if om_Namespace (mf_Metadata m) = '''' then namespace else om_Namespace (mf_Metadata m))"

text \<open>An error of \<open>Get\<close> comes without a response, so it is never taken for a missing resource; every response
  that is not successful is.\<close>

definition apply_manifest :: "'w cli_env \<Rightarrow> api_client \<Rightarrow> string \<Rightarrow> string \<Rightarrow> manifest \<Rightarrow> 'w \<Rightarrow>
    'w \<times> string list \<times> apply_result" where
  "apply_manifest env c namespace file m w =
    (let ns = manifest_namespace m namespace
     in case getAPIPath (mf_Kind m) (om_Name (mf_Metadata m)) ns of
          Inl e \<Rightarrow> (w, [error_line (wrap_error (''failed to determine API path for '' @ file) e)], ApplyFailed)
        | Inr apiPath \<Rightarrow>
           (case client_Get env c apiPath w of
              (w, Inl e) \<Rightarrow> (w, [error_line (wrap_error (''failed to check if '' @ kind_name m @ '' exists'') e)], ApplyFailed)
            | (w, Inr resp) \<Rightarrow>
               (if status_ok resp
                then sent m ''update'' ''updated'' Updated (client_Put env c apiPath (resource_body env (mf_Resource m)) w)
                else case getCreatePath (mf_Kind m) ns of
                       Inl e \<Rightarrow> (w, [error_line (wrap_error (''failed to determine create path for '' @ file) e)], ApplyFailed)
                     | Inr createPath \<Rightarrow>
                         sent m ''create'' ''created'' Created
                           (client_Post env c createPath (resource_body env (mf_Resource m)) w))))"

definition apply_file :: "'w cli_env \<Rightarrow> codecs \<Rightarrow> string \<Rightarrow> cli_fs \<Rightarrow> api_client \<Rightarrow> string \<Rightarrow> bool \<Rightarrow> string \<Rightarrow> 'w \<Rightarrow>
    'w \<times> string list \<times> apply_result" where
  "apply_file env co marshalErr fs c namespace dryRun file w =
    (let banner = ''Processing file: '' @ file
     in case ParseAndValidateFile co marshalErr fs file of
          Inl e \<Rightarrow> (w, [banner, error_line (wrap_error (''failed to parse '' @ file) e)], ApplyFailed)
        | Inr (m, errs) \<Rightarrow>
           (if errs \<noteq> []
            then (w, [banner, error_line (''validation errors in '' @ file @ '':'')] @ map field_error_line errs, ApplyFailed)
            else if dryRun then (w, [banner, applied_line m ''validated (dry-run)''], Validated)
            else (case apply_manifest env c namespace file m w of (w, ls, r) \<Rightarrow> (w, banner # ls, r))))"

fun apply_files :: "'w cli_env \<Rightarrow> codecs \<Rightarrow> string \<Rightarrow> cli_fs \<Rightarrow> api_client \<Rightarrow> string \<Rightarrow> bool \<Rightarrow> string list \<Rightarrow> 'w \<Rightarrow>
    'w \<times> string list \<times> apply_result list" where
  "apply_files env co marshalErr fs c namespace dryRun [] w = (w, [], [])"
| "apply_files env co marshalErr fs c namespace dryRun (file # files) w =
    (case apply_file env co marshalErr fs c namespace dryRun file w of
       (w, ls, r) \<Rightarrow>
         (case apply_files env co marshalErr fs c namespace dryRun files w of
            (w, ls2, rs) \<Rightarrow> (w, ls @ ls2, r # rs)))"

record apply_flags =
  af_files :: "string list"
  af_dryRun :: bool
  af_recurse :: bool

definition count_results :: "apply_result \<Rightarrow> apply_result list \<Rightarrow> nat" where
  "count_results r rs = length (filter (\<lambda>x. x = r) rs)"

definition apply_summary :: "bool \<Rightarrow> apply_result list \<Rightarrow> string" where
  "apply_summary dryRun rs =
    (if dryRun then CHR 0x0A # check_mark @ '' All manifests validated (dry-run)''
     else CHR 0x0A # ''Summary: '' @ nat_str (count_results Created rs) @ '' created, '' @
       nat_str (count_results Updated rs) @ '' updated'' @
       (if count_results ApplyFailed rs > 0 then '', '' @ nat_str (count_results ApplyFailed rs) @ '' errors'' else ''''))"

definition errors_outcome :: "nat \<Rightarrow> outcome" where
  "errors_outcome n = (if n > 0 then Errored (''encountered '' @ nat_str n @ '' errors'') else Finished)"

definition runApply :: "'w cli_env \<Rightarrow> codecs \<Rightarrow> string \<Rightarrow> cli_fs \<Rightarrow> cli_config \<Rightarrow> apply_flags \<Rightarrow> 'w \<Rightarrow>
    'w \<times> string list \<times> outcome" where
  "runApply env co marshalErr fs cf af w =
    (case collect_files fs (af_recurse af) (af_files af) of
       Inl e \<Rightarrow> (w, [], Errored e)
     | Inr [] \<Rightarrow> (w, [], Errored ''no manifest files found'')
     | Inr files \<Rightarrow>
        (case apply_files env co marshalErr fs (NewAPIClient cf) (client_namespace cf) (af_dryRun af) files w of
           (w, ls, rs) \<Rightarrow>
             (w, ls @ [apply_summary (af_dryRun af) rs], errors_outcome (count_results ApplyFailed rs))))"

section \<open>The command delete\<close>

record resource_to_delete =
  rd_kind :: string
  rd_name :: string
  rd_namespace :: string

definition getDeletePath :: "string \<Rightarrow> string \<Rightarrow> string \<Rightarrow> string + string" where
  "getDeletePath t name namespace =
    (if t = ''cell'' then Inr (cells_path name)
     else if t = ''agentspec'' then Inr (cells_path namespace @ ''/agentspecs/'' @ name)
     else if t = ''hive'' then Inr (cells_path namespace @ ''/hives/'' @ name)
     else if t = ''secret'' then Inr (cells_path namespace @ ''/secrets/'' @ name)
     else if t = ''drone'' then Inr (cells_path namespace @ ''/drones/'' @ name)
     else if t = ''session'' then Inr (cells_path namespace @ ''/sessions/'' @ name)
     else Inl (unsupported_type t))"

text \<open>The names of the listed resources whose label or annotation is the name of the resource to delete.\<close>

definition dependents :: "string \<Rightarrow> string \<Rightarrow> string \<Rightarrow> go_value list \<Rightarrow> string list" where
  "dependents part key name vs =
    List.map_filter (\<lambda>v. case v of
       GMap d \<Rightarrow>
         (case field_map ''metadata'' d of
            None \<Rightarrow> None
          | Some meta \<Rightarrow>
             (case field_map part meta of
                None \<Rightarrow> None
              | Some ls \<Rightarrow> (if field_string key ls = Some name then field_string ''name'' meta else None)))
     | _ \<Rightarrow> None) vs"

definition cascade_warning :: "resource_to_delete \<Rightarrow> string \<Rightarrow> string list \<Rightarrow> string \<Rightarrow> string list" where
  "cascade_warning res what names note =
    (if names = [] then []
     else (''Warning: Deleting '' @ rd_kind res @ ''/'' @ rd_name res @ '' will affect '' @ nat_str (length names) @ '' '' @
            what @ '':'') # map (\<lambda>n. ''  - '' @ n) names @ (if note \<noteq> '''' then [note] else []))"

definition list_dependents :: "'w cli_env \<Rightarrow> api_client \<Rightarrow> string \<Rightarrow> 'w \<Rightarrow> 'w \<times> go_value list" where
  "list_dependents env c path w =
    (case client_Get env c path w of
       (w, Inl e) \<Rightarrow> (w, [])
     | (w, Inr resp) \<Rightarrow>
        (if hp_Status resp = 200
         then (w, case HandleResponse (cv_decList env) resp of Inl e \<Rightarrow> [] | Inr vs \<Rightarrow> vs)
         else (w, [])))"

text \<open>Every error is ignored: the check only warns.\<close>

definition checkCascadeDeletion :: "'w cli_env \<Rightarrow> api_client \<Rightarrow> resource_to_delete \<Rightarrow> 'w \<Rightarrow> 'w \<times> string list" where
  "checkCascadeDeletion env c res w =
    (if rd_kind res = ''agentspec''
     then (let (w, vs) = list_dependents env c (cells_path (rd_namespace res) @ ''/drones'') w
           in (w, cascade_warning res ''Drone(s)'' (dependents ''labels'' ''agentspec'' (rd_name res) vs)
                 ''These Drones will be stopped and removed by the Queen's reconciliation loop.''))
     else if rd_kind res = ''hive''
     then (let (w, vs) = list_dependents env c (cells_path (rd_namespace res) @ ''/sessions'') w
           in (w, cascade_warning res ''Session(s)'' (dependents ''annotations'' ''hive'' (rd_name res) vs) ''''))
     else (w, []))"

record delete_flags =
  df_force :: bool
  df_file :: string

text \<open>What is to be deleted, with the warnings printed about it.\<close>

definition deletion_target :: "codecs \<Rightarrow> string \<Rightarrow> cli_fs \<Rightarrow> cli_config \<Rightarrow> delete_flags \<Rightarrow> string list \<Rightarrow>
    string list \<times> (string + resource_to_delete)" where
  "deletion_target co marshalErr fs cf df args =
    (if df_file df \<noteq> ''''
     then (case ParseAndValidateFile co marshalErr fs (df_file df) of
             Inl e \<Rightarrow> ([], Inl (wrap_error ''failed to parse manifest file'' e))
           | Inr (m, errs) \<Rightarrow>
               ((if errs \<noteq> [] then ''Warning: Validation errors in manifest:'' # map field_error_line errs else []),
                Inr \<lparr>rd_kind = mf_Kind m, rd_name = om_Name (mf_Metadata m),
                     rd_namespace = manifest_namespace m (client_namespace cf)\<rparr>))
     else (case args of
             t # name # _ \<Rightarrow>
               ([], Inr \<lparr>rd_kind = normalizeResourceType (toLower t), rd_name = name, rd_namespace = client_namespace cf\<rparr>)
           | _ \<Rightarrow> ([], Inl ''resource type and name are required (or use -f to delete from manifest)'')))"

definition is_blank :: "char \<Rightarrow> bool" where
  "is_blank c \<longleftrightarrow> c \<in> {CHR '' '', CHR 0x09, CHR 0x0A, CHR 0x0B, CHR 0x0C, CHR 0x0D}"

definition trim_space :: "string \<Rightarrow> string" where
  "trim_space s = rev (dropWhile is_blank (rev (dropWhile is_blank s)))"

text \<open>\<open>input\<close> is the line read from standard input, or its error.\<close>

definition confirmed :: "string + string \<Rightarrow> string + bool" where
  "confirmed input =
    (case input of
       Inl e \<Rightarrow> Inl (wrap_error ''failed to read confirmation'' e)
     | Inr s \<Rightarrow> (let response = trim_space (toLower s) in Inr (response = ''yes'' \<or> response = ''y'')))"

definition delete_resource :: "'w cli_env \<Rightarrow> api_client \<Rightarrow> resource_to_delete \<Rightarrow> 'w \<Rightarrow> 'w \<times> string list \<times> bool" where
  "delete_resource env c res w =
    (let item = rd_kind res @ ''/'' @ rd_name res
     in case getDeletePath (rd_kind res) (rd_name res) (rd_namespace res) of
          Inl e \<Rightarrow> (w, [error_line (wrap_error (''failed to determine delete path for '' @ item) e)], False)
        | Inr apiPath \<Rightarrow>
           (case client_Delete env c apiPath w of
              (w, Inl e) \<Rightarrow> (w, [error_line (wrap_error (''failed to delete '' @ item) e)], False)
            | (w, Inr resp) \<Rightarrow>
               (case check_response resp of
                  Some e \<Rightarrow> (w, [error_line (wrap_error (''failed to delete '' @ item) e)], False)
                | None \<Rightarrow> (w, [check_mark @ '' '' @ item @ '' deleted''], True))))"

definition deletion_prompt :: "resource_to_delete \<Rightarrow> string list" where
  "deletion_prompt res =
    [''You are about to delete the following resources:'',
     ''  '' @ rd_kind res @ ''/'' @ rd_name res @ (if rd_namespace res \<noteq> '''' then '' in namespace '' @ rd_namespace res else ''''),
     ''Are you sure you want to continue? (yes/no): '']"

text \<open>The list of resources to delete has always one element.\<close>

definition delete_confirmed :: "'w cli_env \<Rightarrow> api_client \<Rightarrow> resource_to_delete \<Rightarrow> 'w \<Rightarrow> 'w \<times> string list \<times> outcome" where
  "delete_confirmed env c res w =
    (case delete_resource env c res w of
       (w, ls, ok) \<Rightarrow>
         (w, ls @ [CHR 0x0A # ''Deleted '' @ nat_str (if ok then 1 else 0) @ '' resource(s)'' @
                   (if ok then '''' else '', 1 error(s)'')],
          errors_outcome (if ok then 0 else 1)))"

definition runDelete :: "'w cli_env \<Rightarrow> codecs \<Rightarrow> string \<Rightarrow> cli_fs \<Rightarrow> cli_config \<Rightarrow> delete_flags \<Rightarrow> string + string \<Rightarrow>
    string list \<Rightarrow> 'w \<Rightarrow> 'w \<times> string list \<times> outcome" where
  "runDelete env co marshalErr fs cf df input args w =
    (case deletion_target co marshalErr fs cf df args of
       (ls, Inl e) \<Rightarrow> (w, ls, Errored e)
     | (ls, Inr res) \<Rightarrow>
        (case checkCascadeDeletion env (NewAPIClient cf) res w of
           (w, ls2) \<Rightarrow>
             (if df_force df
              then (case delete_confirmed env (NewAPIClient cf) res w of (w, ls3, oc) \<Rightarrow> (w, ls @ ls2 @ ls3, oc))
              else (let ls2 = ls2 @ deletion_prompt res
                    in case confirmed input of
                         Inl e \<Rightarrow> (w, ls @ ls2, Errored e)
                       | Inr False \<Rightarrow> (w, ls @ ls2 @ [''Deletion cancelled.''], Finished)
                       | Inr True \<Rightarrow>
                          (case delete_confirmed env (NewAPIClient cf) res w of
                             (w, ls3, oc) \<Rightarrow> (w, ls @ ls2 @ ls3, oc))))))"

section \<open>Deleting from a file\<close>

lemma parsed_kind:
  assumes "ParseAndValidateFile co marshalErr fs file = Inr (m, errs)" "om_Name (mf_Metadata m) \<noteq> ''''"
  shows "mf_Kind m \<in> {''AgentSpec'', ''Hive'', ''Cell'', ''Session'', ''Secret''}"
proof -
  obtain data where p: "ParseManifest co data = Inr m"
    using assms(1) by (auto simp: ParseAndValidateFile_def ParseAndValidate_def split: sum.splits)
  have "\<exists>m1 r. toResource co m1 = Inr r \<and> m = m1\<lparr>mf_Resource := Some r\<rparr>"
    using p assms(2) by (auto simp: ParseManifest_def Let_def split: prod.splits option.splits if_splits sum.splits)
  then obtain m1 r where "toResource co m1 = Inr r" "mf_Kind m1 = mf_Kind m" by fastforce
  then show ?thesis by (auto simp: toResource_def Let_def split: option.splits if_splits)
qed

lemma capital_kinds:
  assumes "rd_kind res \<in> {''AgentSpec'', ''Hive'', ''Cell'', ''Session'', ''Secret''}"
  shows "checkCascadeDeletion env c res w = (w, [])"
    and "getDeletePath (rd_kind res) n ns = Inl (unsupported_type (rd_kind res))"
  using assms by (auto simp: checkCascadeDeletion_def getDeletePath_def)

text \<open>Libraries that can write one secret.\<close>

definition token_secret :: secret where
  "token_secret = \<lparr>sec_TypeMeta = \<lparr>tm_APIVersion = ''v1'', tm_Kind = ''Secret''\<rparr>,
     sec_Meta = empty_meta\<lparr>om_Name := ''token'', om_Namespace := ''prod''\<rparr>, sec_Data = [(''k'', ''v'')]\<rparr>"

definition token_manifest :: manifest where
  "token_manifest = \<lparr>mf_APIVersion = ''apiary.io/v1'', mf_Kind = ''Secret'', mf_Metadata = sec_Meta token_secret,
     mf_Spec = [(''data'', GMap [(''k'', GString ''v'')])], mf_Resource = Some (RSecret token_secret)\<rparr>"

definition token_codecs :: codecs where
  "token_codecs =
    \<lparr>co_yaml = (\<lambda>s m. if s = ''y'' then (token_manifest\<lparr>mf_Resource := None\<rparr>, None) else (m, Some ''bad'')),
     co_json = (\<lambda>s m. (m, Some ''bad'')), co_encMap = (\<lambda>_. Some ''m''), co_agentSpec = (\<lambda>_. Inl ''''), co_hiveSpec = (\<lambda>_. Inl ''''),
     co_cellSpec = (\<lambda>_. Inl ''''), co_session = (\<lambda>_. Inl ''''),
     co_encResource = (\<lambda>r. if r = RSecret token_secret then Some ''r'' else None), co_decMap = (\<lambda>_. Some []),
     co_yamlOut = (\<lambda>m. if m = token_manifest then Some ''y'' else None), co_jsonOut = (\<lambda>_. None), co_number = GFloat\<rparr>"

text \<open>C28: Deleting from a manifest file never deletes anything: the kinds of manifests start with a capital letter, and the paths are
  made for lower-case types.  Every named manifest, valid or not, ends in an error without a request being sent.\<close>

theorem delete_file_fails:
  assumes "ParseAndValidateFile co marshalErr fs (df_file df) = Inr (m, errs)" "df_file df \<noteq> ''''"
    and "om_Name (mf_Metadata m) \<noteq> ''''" "df_force df \<or> confirmed input = Inr True"
    and "runDelete env co marshalErr fs cf df input args w = (w', ls, oc)"
  shows "w' = w \<and> oc = Errored ''encountered 1 errors''"
proof -
  have t: "deletion_target co marshalErr fs cf df args =
      (if errs \<noteq> [] then ''Warning: Validation errors in manifest:'' # map field_error_line errs else [],
       Inr \<lparr>rd_kind = mf_Kind m, rd_name = om_Name (mf_Metadata m), rd_namespace = manifest_namespace m (client_namespace cf)\<rparr>)"
    using assms(1,2) by (simp add: deletion_target_def)
  let ?res = "\<lparr>rd_kind = mf_Kind m, rd_name = om_Name (mf_Metadata m), rd_namespace = manifest_namespace m (client_namespace cf)\<rparr>"
  have k: "rd_kind ?res \<in> {''AgentSpec'', ''Hive'', ''Cell'', ''Session'', ''Secret''}"
    using parsed_kind [OF assms(1,3)] by simp
  have one: "errors_outcome (Suc 0) = Errored ''encountered 1 errors''" by code_simp
  obtain l where "delete_resource env (NewAPIClient cf) ?res w = (w, l, False)"
    by (simp add: delete_resource_def capital_kinds(2) [OF k, simplified])
  then obtain ls1 where d: "delete_confirmed env (NewAPIClient cf) ?res w = (w, ls1, Errored ''encountered 1 errors'')"
    by (simp add: delete_confirmed_def one)
  note r = assms(5) [unfolded runDelete_def t prod.case sum.case capital_kinds(1) [OF k] d Let_def]
  show ?thesis
  proof (cases "df_force df")
    case True
    then show ?thesis using r by auto
  next
    case False
    then have "confirmed input = Inr True" using assms(4) by simp
    with False show ?thesis using r by auto
  qed
qed

lemma delete_file_fails_witness:
  "\<exists>ls. runDelete (\<lparr>cv_newreq = Map.empty, cv_do = (\<lambda>_ w. (w, Inl '''')), cv_encMap = Inl \<circ> (\<lambda>_. ''''), cv_encResource = Inl \<circ> (\<lambda>_. ''''),
      cv_decAny = Inl, cv_decList = Inl, cv_decMap = Inl, cv_json = (\<lambda>_. Inl ''''), cv_yaml = (\<lambda>_. Inl ''''), cv_verb = (\<lambda>_ _. '''')\<rparr> :: unit cli_env)
      token_codecs '''' \<lparr>fs_stat = (\<lambda>_. Inr False), fs_walk = (\<lambda>_. []), fs_read = (\<lambda>_. Inr ''y'')\<rparr>
      \<lparr>cf_server = '''', cf_namespace = '''', cf_output = '''', cf_userID = '''', cf_userName = '''', cf_envUserID = '''', cf_envUserName = ''''\<rparr>
      \<lparr>df_force = True, df_file = ''f''\<rparr> (Inl '''') [] () = ((), ls, Errored ''encountered 1 errors'')"
proof -
  let ?fs = "\<lparr>fs_stat = (\<lambda>_. Inr False), fs_walk = (\<lambda>_. []), fs_read = (\<lambda>_. Inr ''y'')\<rparr>"
  have "case ParseAndValidateFile token_codecs '''' ?fs ''f'' of Inl e \<Rightarrow> False | Inr (m, errs) \<Rightarrow> om_Name (mf_Metadata m) = ''token''"
    by code_simp
  then obtain m errs where p: "ParseAndValidateFile token_codecs '''' ?fs (df_file \<lparr>df_force = True, df_file = ''f''\<rparr>) = Inr (m, errs)"
      and n: "om_Name (mf_Metadata m) \<noteq> ''''"
    by (auto split: sum.splits)
  show ?thesis using delete_file_fails [OF p _ n] by (metis delete_flags.select_convs(1,2) list.distinct(1) prod_cases3)
qed

end
