(* ===== verification/CLI_Operate.thy ===== *)
theory CLI_Operate
  imports CLI_Get
begin

text \<open>
  The commands of the command line that operate on running agents, \<open>cmd/apiaryctl/cmd/scale.go\<close>, \<open>drain.go\<close>,
  \<open>logs.go\<close> and \<open>exec.go\<close>.

  The bodies these commands send are maps; an \<open>int\<close> in them is its number.  Following logs never ends: one
  step is one tick of the ticker, and a run of the loop is given by the number of its ticks.
\<close>

section \<open>The command scale\<close>

record scale_flags =
  sf_replicas :: int
  sf_stage :: string

definition scale_path :: "string \<Rightarrow> string \<Rightarrow> string \<Rightarrow> string" where
  "scale_path namespace t name =
    (if t = ''agentspec'' then cells_path namespace @ ''/agentspecs/'' @ name @ ''/scale''
     else cells_path namespace @ ''/hives/'' @ name @ ''/scale'')"

definition scale_body :: "scale_flags \<Rightarrow> string \<Rightarrow> (string \<times> go_value) list" where
  "scale_body sf t =
    (''replicas'', GFloat (of_int (sf_replicas sf))) #
    (if t = ''hive'' \<and> sf_stage sf \<noteq> '''' then [(''stage'', GString (sf_stage sf))] else [])"

definition marshal_indent :: "'w cli_env \<Rightarrow> (string \<times> go_value) list \<Rightarrow> string" where
  "marshal_indent env m = (case cv_json env (GMap m) of Inl e \<Rightarrow> '''' | Inr s \<Rightarrow> s)"

definition runScale :: "'w cli_env \<Rightarrow> cli_config \<Rightarrow> scale_flags \<Rightarrow> string list \<Rightarrow> 'w \<Rightarrow> 'w \<times> string list \<times> outcome" where
  "runScale env cf sf args w =
    (case args of
       a # name # _ \<Rightarrow>
         (let t = normalizeResourceType (toLower a)
          in if t \<noteq> ''agentspec'' \<and> t \<noteq> ''hive''
             then (w, [], Errored (''unsupported resource type for scaling: '' @ t @ '' (supported: agentspec, hive)''))
             else case decoded (cv_decMap env) ''failed to scale resource''
                 (client_Put env (NewAPIClient cf) (scale_path (client_namespace cf) t name)
                   (cv_encMap env (scale_body sf t)) w) of
               (w, Inl e) \<Rightarrow> (w, [], Errored e)
             | (w, Inr result) \<Rightarrow>
                 (w, [case field_string ''message'' result of Some m \<Rightarrow> m | None \<Rightarrow> marshal_indent env result], Finished))
     | _ \<Rightarrow> (w, [], Errored ''resource type and name are required''))"

section \<open>The command drain\<close>

record drain_flags =
  wf_force :: bool
  wf_timeout :: string

definition format_hint :: string where
  "format_hint = '' (expected: drone/<name> or agentspec/<name>)''"

text \<open>The resource type and the name in the argument.\<close>

definition drain_target :: "string \<Rightarrow> string + (string \<times> string)" where
  "drain_target a =
    (if has_prefix ''drone/'' a then Inr (''drone'', trim_prefix ''drone/'' a)
     else if has_prefix ''agentspec/'' a then Inr (''agentspec'', trim_prefix ''agentspec/'' a)
     else if contains ''/'' a
     then (case split_char CHR ''/'' a of
             [t, name] \<Rightarrow> Inr (t, name)
           | _ \<Rightarrow> Inl (''invalid resource format: '' @ a @ format_hint))
     else Inl (''resource type required: '' @ a @ format_hint))"

definition drain_path :: "string \<Rightarrow> string \<Rightarrow> string \<Rightarrow> string" where
  "drain_path namespace t name =
    (if t = ''drone'' then cells_path namespace @ ''/drones/'' @ name @ ''/drain''
     else cells_path namespace @ ''/agentspecs/'' @ name @ ''/drain'')"

definition drain_body :: "drain_flags \<Rightarrow> (string \<times> go_value) list" where
  "drain_body df =
    (''force'', GBool (wf_force df)) # (if wf_timeout df \<noteq> '''' then [(''timeout'', GString (wf_timeout df))] else [])"

definition drain_report :: "'w cli_env \<Rightarrow> (string \<times> go_value) list \<Rightarrow> string list" where
  "drain_report env result =
    [case field_string ''message'' result of
       Some m \<Rightarrow> m
     | None \<Rightarrow> ''Drain completed: '' @ cv_verb env CHR ''+'' (GMap result)] @
    (case field_number ''drainedCount'' result of
       None \<Rightarrow> []
     | Some x \<Rightarrow> [''Drained '' @ int_str (int64_of_float x) @ '' resource(s)'']) @
    (case field_list ''errors'' result of
       None \<Rightarrow> []
     | Some es \<Rightarrow> (if es = [] then [] else ''Errors encountered:'' # map (\<lambda>e. ''  - '' @ format_value env CHR ''v'' e) es))"

definition runDrain :: "(string \<Rightarrow> string option) \<Rightarrow> 'w cli_env \<Rightarrow> cli_config \<Rightarrow> drain_flags \<Rightarrow> string list \<Rightarrow> 'w \<Rightarrow>
    'w \<times> string list \<times> outcome" where
  "runDrain durationErr env cf df args w =
    (case args of
       [] \<Rightarrow> (w, [], Errored ''resource name is required (format: drone/<name> or agentspec/<name>)'')
     | a # _ \<Rightarrow>
        (case drain_target a of
           Inl e \<Rightarrow> (w, [], Errored e)
         | Inr (t, name) \<Rightarrow>
            (if t \<noteq> ''drone'' \<and> t \<noteq> ''agentspec''
             then (w, [], Errored (''unsupported resource type for draining: '' @ t @ '' (supported: drone, agentspec)''))
             else case (if wf_timeout df \<noteq> '''' then durationErr (wf_timeout df) else None) of
               Some e \<Rightarrow> (w, [], Errored (''invalid timeout format: '' @ e))
             | None \<Rightarrow>
                (let banner = ''Draining '' @ t @ ''/'' @ name @ ''...''
                 in case decoded (cv_decMap env) ''failed to drain resource''
                     (client_Post env (NewAPIClient cf) (drain_path (client_namespace cf) t name)
                       (cv_encMap env (drain_body df)) w) of
                      (w, Inl e) \<Rightarrow> (w, [banner], Errored e)
                    | (w, Inr result) \<Rightarrow> (w, banner # drain_report env result, Finished)))))"

section \<open>Lines of a body\<close>

text \<open>\<open>bufio.Scanner\<close>: lines without their end, a last line only if it is not empty, and an error for a line
  that does not fit the buffer of 64 KiB.\<close>

definition drop_cr :: "string \<Rightarrow> string" where
  "drop_cr s = (if s \<noteq> [] \<and> last s = CHR 0x0D then butlast s else s)"

fun scan_lines :: "string list \<Rightarrow> string list \<times> string option" where
  "scan_lines [] = ([], None)"
| "scan_lines (l # ls) =
    (if ls = [] \<and> l = [] then ([], None)
     else if int (length l) \<ge> 65536 then ([], Some ''bufio.Scanner: token too long'')
     else (let (ts, e) = scan_lines ls in (drop_cr l # ts, e)))"

definition scanner :: "string \<Rightarrow> string list \<times> string option" where
  "scanner s = scan_lines (split_char CHR 0x0A s)"

section \<open>The command logs\<close>

record logs_flags =
  lf_follow :: bool
  lf_tail :: int
  lf_since :: string

definition drone_name :: "string \<Rightarrow> string" where
  "drone_name a = trim_prefix ''drone/'' a"

definition logs_path :: "logs_flags \<Rightarrow> string \<Rightarrow> string \<Rightarrow> string" where
  "logs_path lf namespace name =
    (let params = (if lf_tail lf > 0 then [''tail='' @ int_str (lf_tail lf)] else []) @
           (if lf_since lf \<noteq> '''' then [''since='' @ lf_since lf] else []) @
           (if lf_follow lf then [''follow=true''] else [])
     in cells_path namespace @ ''/drones/'' @ name @ ''/logs'' @
        (if params \<noteq> [] then ''?'' @ join_with ''&'' params else ''''))"

definition status_error :: "string \<Rightarrow> http_reply \<Rightarrow> string" where
  "status_error what r = what @ '' (status '' @ int_str (hp_Status r) @ ''): '' @ hp_Body r"

definition fetchLogs :: "'w cli_env \<Rightarrow> string \<Rightarrow> api_client \<Rightarrow> 'w \<Rightarrow> 'w \<times> string list \<times> outcome" where
  "fetchLogs env path c w =
    (case client_Get env c path w of
       (w, Inl e) \<Rightarrow> (w, [], Errored (wrap_error ''failed to fetch logs'' e))
     | (w, Inr resp) \<Rightarrow>
        (if hp_Status resp \<noteq> 200 then (w, [], Errored (status_error ''failed to fetch logs'' resp))
         else (case scanner (hp_Body resp) of
                 (ls, None) \<Rightarrow> (w, ls, Finished)
               | (ls, Some e) \<Rightarrow> (w, ls, Errored e))))"

text \<open>One tick: the number of lines seen before and afterwards, and the new lines.\<close>

definition follow_tick :: "'w cli_env \<Rightarrow> string \<Rightarrow> api_client \<Rightarrow> nat \<Rightarrow> 'w \<Rightarrow> 'w \<times> nat \<times> string list" where
  "follow_tick env path c seen w =
    (case client_Get env c path w of
       (w, Inl e) \<Rightarrow> (w, seen, [])
     | (w, Inr resp) \<Rightarrow>
        (if hp_Status resp = 200
         then (let ls = fst (scanner (hp_Body resp)) in (w, length ls, drop seen ls))
         else (w, seen, [])))"

text \<open>The loop has no way out: its context is cancelled only when the function has returned.\<close>

fun streamLogs :: "nat \<Rightarrow> 'w cli_env \<Rightarrow> string \<Rightarrow> api_client \<Rightarrow> nat \<Rightarrow> 'w \<Rightarrow> 'w \<times> string list" where
  "streamLogs 0 env path c seen w = (w, [])"
| "streamLogs (Suc n) env path c seen w =
    (case follow_tick env path c seen w of
       (w, seen, ls) \<Rightarrow> (case streamLogs n env path c seen w of (w, ls2) \<Rightarrow> (w, ls @ ls2)))"

text \<open>The outcome after \<open>ticks\<close> ticks; a command that is still following has none.\<close>

definition runLogs :: "nat \<Rightarrow> 'w cli_env \<Rightarrow> cli_config \<Rightarrow> logs_flags \<Rightarrow> string list \<Rightarrow> 'w \<Rightarrow>
    'w \<times> string list \<times> outcome option" where
  "runLogs ticks env cf lf args w =
    (case args of
       [] \<Rightarrow> (w, [], Some (Errored ''drone name is required (format: drone/<name>)''))
     | a # _ \<Rightarrow>
        (let c = NewAPIClient cf; path = logs_path lf (client_namespace cf) (drone_name a)
         in if lf_follow lf then (case streamLogs ticks env path c 0 w of (w, ls) \<Rightarrow> (w, ls, None))
            else (case fetchLogs env path c w of (w, ls, oc) \<Rightarrow> (w, ls, Some oc))))"

section \<open>The command exec\<close>

record exec_flags =
  xf_interactive :: bool
  xf_tty :: bool

text \<open>The index of the first separator.\<close>

fun separator_index :: "string list \<Rightarrow> nat option" where
  "separator_index [] = None"
| "separator_index (a # as) = (if a = ''--'' then Some 0 else map_option Suc (separator_index as))"

definition exec_target :: "string list \<Rightarrow> string + (string \<times> string list)" where
  "exec_target args =
    (case args of
       [] \<Rightarrow> Inl ''drone name and command are required (format: drone/<name> -- <command>...)''
     | a # _ \<Rightarrow>
        (case separator_index args of
           None \<Rightarrow> Inl ''command separator '--' is required''
         | Some i \<Rightarrow>
            (if i = 0 then Inl (''drone name is required before '--'' @ [CHR 0x27])
             else if i = length args - 1 then Inl (''command is required after '--'' @ [CHR 0x27])
             else Inr (drone_name a, drop (Suc i) args))))"

definition exec_path :: "string \<Rightarrow> string \<Rightarrow> string" where
  "exec_path namespace name = cells_path namespace @ ''/drones/'' @ name @ ''/exec''"

definition exec_json :: "exec_flags \<Rightarrow> string list \<Rightarrow> (string \<times> go_value) list" where
  "exec_json xf command =
    [(''command'', GStrings command), (''stdin'', GBool (xf_interactive xf)), (''tty'', GBool (xf_tty xf))]"

definition reply_header :: "string \<Rightarrow> http_reply \<Rightarrow> string" where
  "reply_header k r = (case map_of (hp_Headers r) k of None \<Rightarrow> '''' | Some v \<Rightarrow> v)"

text \<open>\<open>interrupted\<close> is the number of lines printed when a signal arrives before the output ends.\<close>

definition runExec :: "nat option \<Rightarrow> 'w cli_env \<Rightarrow> cli_config \<Rightarrow> exec_flags \<Rightarrow> string list \<Rightarrow> 'w \<Rightarrow>
    'w \<times> string list \<times> outcome" where
  "runExec interrupted env cf xf args w =
    (case exec_target args of
       Inl e \<Rightarrow> (w, [], Errored e)
     | Inr (name, command) \<Rightarrow>
        (case client_Post env (NewAPIClient cf) (exec_path (client_namespace cf) name)
            (cv_encMap env (exec_json xf command)) w of
           (w, Inl e) \<Rightarrow> (w, [], Errored (wrap_error ''failed to execute command'' e))
         | (w, Inr resp) \<Rightarrow>
            (if hp_Status resp \<noteq> 200 then (w, [], Errored (status_error ''exec failed'' resp))
             else (case scanner (hp_Body resp) of
                (ls, err) \<Rightarrow>
                  (case interrupted of
                     Some n \<Rightarrow> (w, take n ls @ [CHR 0x0A # ''Interrupted''], Finished)
                   | None \<Rightarrow>
                      (case err of
                         Some e \<Rightarrow> (w, ls, Errored (wrap_error ''failed to read output'' e))
                       | None \<Rightarrow>
                          (let exitCode = reply_header ''X-Exit-Code'' resp
                           in if exitCode \<noteq> '''' \<and> exitCode \<noteq> ''0''
                              then (w, ls, Errored (''command exited with code '' @ exitCode))
                              else (w, ls, Finished))))))))"

end
