(* ===== verification/CLI_Properties.thy ===== *)
theory CLI_Properties
  imports CLI_Apply CLI_Operate API_Properties
begin

text \<open>
  The command line against the REST server: \<open>api_transport\<close> answers the requests of the client with
  \<open>serve\<close>.  Between them are Go's HTTP packages, whose treatment of a URL is modelled here (the fragment, the query and the
  escapes), and the web framework, which splits the path into its segments; the headers and the body are handed on, and the
  body of an answer is rendered (\<open>render\<close>).  \<open>rq0\<close> holds what the handlers read of their environment.
\<close>

section \<open>The connection\<close>

text \<open>\<open>net/url\<close>: decoding (in a query a plus is a space), and the encoding of a path.\<close>

definition hex_value :: "char \<Rightarrow> nat option" where
  "hex_value c =
    (let n = of_char c
     in if 48 \<le> n \<and> n \<le> 57 then Some (n - 48) else if 97 \<le> n \<and> n \<le> 102 then Some (n - 87)
        else if 65 \<le> n \<and> n \<le> 70 then Some (n - 55) else None)"

fun url_unescape :: "bool \<Rightarrow> string \<Rightarrow> string option" where
  "url_unescape q [] = Some []"
| "url_unescape q (c # cs) =
    (if c = CHR ''%''
     then (case cs of
             a # b # rest \<Rightarrow>
               (case (hex_value a, hex_value b) of
                  (Some x, Some y) \<Rightarrow> map_option (\<lambda>t. char_of (16 * x + y) # t) (url_unescape q rest)
                | _ \<Rightarrow> None)
           | _ \<Rightarrow> None)
     else map_option (\<lambda>t. (if q \<and> c = CHR ''+'' then CHR '' '' else c) # t) (url_unescape q cs))"

definition path_char :: "char \<Rightarrow> bool" where
  "path_char c \<longleftrightarrow>
    (let n = (of_char c :: nat)
     in 48 \<le> n \<and> n \<le> 57 \<or> 65 \<le> n \<and> n \<le> 90 \<or> 97 \<le> n \<and> n \<le> 122 \<or> c \<in> set ''-_.~$&+,/:;=@'')"

definition hex_upper :: "nat \<Rightarrow> char" where
  "hex_upper x = char_of (if x < 10 then x + 48 else x + 55)"

definition url_escape :: "string \<Rightarrow> string" where
  "url_escape s = concat (map (\<lambda>c. if path_char c then [c]
     else [CHR ''%'', hex_upper (of_char c div 16), hex_upper (of_char c mod 16)]) s)"

definition valid_encoded :: "string \<Rightarrow> bool" where
  "valid_encoded s \<longleftrightarrow> list_all (\<lambda>c. path_char c \<or> c \<in> set ''!()*[]%'' \<or> c = char_of (39 :: nat)) s"

text \<open>The client sends a path as it is written, if that is a valid encoding, and otherwise encodes it anew; echo routes the
  encoded path, if it is not the default encoding, and otherwise the decoded one.  A path that cannot be decoded is not
  sent: \<open>cv_newreq\<close> has failed.\<close>

definition routed_path :: "string \<Rightarrow> string" where
  "routed_path raw =
    (case url_unescape False raw of
       None \<Rightarrow> raw
     | Some d \<Rightarrow> (if valid_encoded raw \<and> raw \<noteq> url_escape d then raw else d))"

definition no_fragment :: "string \<Rightarrow> string" where
  "no_fragment path = takeWhile (\<lambda>c. c \<noteq> CHR ''#'') path"

definition url_segments :: "string \<Rightarrow> string list" where
  "url_segments path = tl (split_char CHR ''/'' (routed_path (takeWhile (\<lambda>c. c \<noteq> CHR ''?'') (no_fragment path))))"

text \<open>The value of a query parameter.  A pair that cannot be decoded, or has a semicolon, is skipped.\<close>

definition query_pair :: "string \<Rightarrow> (string \<times> string) option" where
  "query_pair p =
    (if CHR '';'' \<in> set p then None
     else case url_unescape True (takeWhile (\<lambda>c. c \<noteq> CHR ''='') p) of
       None \<Rightarrow> None
     | Some k \<Rightarrow> map_option (Pair k) (url_unescape True (drop 1 (dropWhile (\<lambda>c. c \<noteq> CHR ''='') p))))"

definition query_value :: "string \<Rightarrow> string \<Rightarrow> string" where
  "query_value path key =
    (let query = drop 1 (dropWhile (\<lambda>c. c \<noteq> CHR ''?'') (no_fragment path))
     in case map_of (List.map_filter query_pair (split_char CHR ''&'' query)) key of None \<Rightarrow> '''' | Some v \<Rightarrow> v)"

definition api_request :: "'d http_request \<Rightarrow> string \<Rightarrow> http_call \<Rightarrow> 'd http_request" where
  "api_request rq0 base c =
    (let path = drop (length base) (hc_URL c)
     in rq0\<lparr>hr_Method := hc_Method c, hr_Path := url_segments path, hr_Query := query_value path,
            hr_Header := (\<lambda>h. case map_of (hc_Headers c) h of None \<Rightarrow> '''' | Some v \<Rightarrow> v),
            hr_Body := (case hc_Body c of None \<Rightarrow> '''' | Some b \<Rightarrow> b)\<rparr>)"

definition http_answer :: "(answer \<Rightarrow> string) \<Rightarrow> answer \<Rightarrow> http_reply" where
  "http_answer render a =
    \<lparr>hp_Status = rsp_Status a, hp_Body = render a,
     hp_Headers = (case rsp_Body a of StreamBody (Some x) _ \<Rightarrow> [(''X-Exit-Code'', x)] | _ \<Rightarrow> [])\<rparr>"

definition api_transport :: "'d api_env \<Rightarrow> 'd http_request \<Rightarrow> string \<Rightarrow> (answer \<Rightarrow> string) \<Rightarrow> http_call \<Rightarrow> 'd server \<Rightarrow>
    'd server \<times> (string + http_reply)" where
  "api_transport env rq0 base render c sv =
    (case serve env (api_request rq0 base c) sv of (sv, a) \<Rightarrow> (sv, Inr (http_answer render a)))"

section \<open>Paths\<close>

definition path_of :: "string list \<Rightarrow> string" where
  "path_of ss = concat (map (\<lambda>s. CHR ''/'' # s) ss)"

text \<open>A name that a URL carries unchanged: without a slash, a question mark, a hash, a percent sign and control characters.\<close>

definition segment :: "string \<Rightarrow> bool" where
  "segment s \<longleftrightarrow> list_all (\<lambda>c. c \<notin> set ''/?#%'' \<and> 32 \<le> (of_char c :: nat) \<and> (of_char c :: nat) \<noteq> 127) s"

lemma segmentD: "segment s \<Longrightarrow> CHR ''/'' \<notin> set s \<and> CHR ''?'' \<notin> set s \<and> CHR ''#'' \<notin> set s \<and> CHR ''%'' \<notin> set s"
  by (auto simp: segment_def list_all_iff)

lemma path_of_Cons: "path_of (s # ss) = CHR ''/'' # s @ path_of ss"
  by (simp add: path_of_def)

lemma split_path: "list_all segment ss \<Longrightarrow> segment s \<Longrightarrow> split_char CHR ''/'' (s @ path_of ss) = s # ss"
proof (induction ss arbitrary: s)
  case Nil
  then show ?case by (simp add: path_of_def segmentD split_char_none)
next
  case (Cons t ts)
  then show ?case by (simp add: path_of_Cons segmentD split_char_append)
qed

lemma path_no_special: "list_all segment ss \<Longrightarrow>
    CHR ''?'' \<notin> set (path_of ss) \<and> CHR ''#'' \<notin> set (path_of ss) \<and> CHR ''%'' \<notin> set (path_of ss)"
  by (induction ss) (auto simp: path_of_def dest: segmentD)

lemma url_unescape_plain: "CHR ''%'' \<notin> set s \<Longrightarrow> url_unescape False s = Some s"
  by (induction s) auto

lemma routed_path_plain: "CHR ''%'' \<notin> set s \<Longrightarrow> routed_path s = s"
  by (simp add: routed_path_def url_unescape_plain)

lemma takeWhile_stop: "c \<notin> set s \<Longrightarrow> takeWhile (\<lambda>x. x \<noteq> c) (s @ t) = s @ takeWhile (\<lambda>x. x \<noteq> c) t"
  by (induction s) auto

lemma url_segments_path [simp]:
  assumes "list_all segment ss"
  shows "url_segments (path_of ss) = ss" "url_segments (path_of ss @ CHR ''?'' # q) = ss"
proof -
  note no = path_no_special [OF assms]
  have all: "takeWhile (\<lambda>x. x \<noteq> c) (path_of ss) = path_of ss" if "c \<notin> set (path_of ss)" for c
    using takeWhile_stop [OF that, of "[]"] by simp
  have t: "takeWhile (\<lambda>c. c \<noteq> CHR ''?'') (no_fragment (path_of ss)) = path_of ss"
    "takeWhile (\<lambda>c. c \<noteq> CHR ''?'') (no_fragment (path_of ss @ CHR ''?'' # q)) = path_of ss"
    unfolding no_fragment_def takeWhile_stop [OF no [THEN conjunct2, THEN conjunct1]] all [OF no [THEN conjunct2, THEN conjunct1]]
      all [OF no [THEN conjunct1]] takeWhile_stop [OF no [THEN conjunct1]]
    by simp_all
  have "split_char CHR ''/'' ([] @ path_of ss) = [] # ss" by (rule split_path [OF assms]) (simp add: segment_def)
  then show "url_segments (path_of ss) = ss" "url_segments (path_of ss @ CHR ''?'' # q) = ss"
    using no by (simp_all only: url_segments_def t routed_path_plain append_Nil list.sel simp_thms)
qed

lemma cells_path_of:
  "cells_path ns = path_of [''api'', ''v1'', ''cells'', ns]"
  "''/api/v1/cells'' = path_of [''api'', ''v1'', ''cells'']"
  by (simp_all add: cells_path_def path_of_def)

lemma path_of_append:
  "path_of ss @ ''/agentspecs'' = path_of (ss @ [''agentspecs''])" "path_of ss @ ''/hives'' = path_of (ss @ [''hives''])"
  "path_of ss @ ''/secrets'' = path_of (ss @ [''secrets''])" "path_of ss @ ''/drones'' = path_of (ss @ [''drones''])"
  "path_of ss @ ''/sessions'' = path_of (ss @ [''sessions''])"
  "path_of ss @ ''/agentspecs/'' @ n = path_of (ss @ [''agentspecs'', n])" "path_of ss @ ''/hives/'' @ n = path_of (ss @ [''hives'', n])"
  "path_of ss @ ''/secrets/'' @ n = path_of (ss @ [''secrets'', n])" "path_of ss @ ''/drones/'' @ n = path_of (ss @ [''drones'', n])"
  "path_of ss @ ''/sessions/'' @ n = path_of (ss @ [''sessions'', n])"
  by (simp_all add: path_of_def)

lemma path_of_append3:
  "path_of ss @ ''/agentspecs/'' @ n @ ''/scale'' = path_of (ss @ [''agentspecs'', n, ''scale''])"
  "path_of ss @ ''/hives/'' @ n @ ''/scale'' = path_of (ss @ [''hives'', n, ''scale''])"
  "path_of ss @ ''/agentspecs/'' @ n @ ''/drain'' = path_of (ss @ [''agentspecs'', n, ''drain''])"
  "path_of ss @ ''/drones/'' @ n @ ''/drain'' = path_of (ss @ [''drones'', n, ''drain''])"
  "path_of ss @ ''/drones/'' @ n @ ''/exec'' = path_of (ss @ [''drones'', n, ''exec''])"
  "path_of ss @ ''/drones/'' @ n @ ''/logs'' @ q = path_of (ss @ [''drones'', n, ''logs'']) @ q"
  by (simp_all add: path_of_def)

lemma segment_literals [simp]:
  "segment ''api''" "segment ''v1''" "segment ''cells''" "segment ''agentspecs''" "segment ''hives''" "segment ''secrets''"
  "segment ''drones''" "segment ''sessions''" "segment ''scale''" "segment ''drain''" "segment ''exec''" "segment ''logs''"
  "segment ''prod''" "segment ''d''" "segment ''main''"
  by code_simp+

text \<open>The endpoint behind the path of a command.\<close>

definition endpoint_of :: "string \<Rightarrow> string + string \<Rightarrow> endpoint option" where
  "endpoint_of method p = (case p of Inl e \<Rightarrow> None | Inr path \<Rightarrow> setupRoutes method (url_segments path))"

lemma lower_kinds [simp]:
  "toLower ''AgentSpec'' = ''agentspec''" "toLower ''Hive'' = ''hive''" "toLower ''Secret'' = ''secret''"
  "toLower ''Cell'' = ''cell''"
  by code_simp+

lemmas routing = endpoint_of_def setupRoutes_def route_cell_def

lemma cli_logs_routed:
  assumes "segment ns" "segment n"
  shows "endpoint_of ''GET'' (Inr (logs_path lf ns n)) = Some (DroneLogs ns n)"
    and "endpoint_of ''POST'' (Inr (exec_path ns n)) = Some (ExecDroneE ns n)"
proof -
  show "endpoint_of ''GET'' (Inr (logs_path lf ns n)) = Some (DroneLogs ns n)"
    unfolding logs_path_def Let_def cells_path_of path_of_append3 by (simp add: assms routing)
  show "endpoint_of ''POST'' (Inr (exec_path ns n)) = Some (ExecDroneE ns n)"
    unfolding exec_path_def Let_def cells_path_of path_of_append3 by (simp add: assms routing)
qed

text \<open>C13: The paths the commands build lead to the endpoints they mean: reading, listing and deleting by type, applying by
  kind, scaling, draining, logs and commands, for every namespace and name that is not empty and has no slash, question mark,
  hash, percent sign or control character.  (The client escapes none of these: it puts names into URLs as they are.)\<close>

theorem cli_paths_routed:
  assumes "segment ns" "segment n" "ns \<noteq> ''''" "n \<noteq> ''''"
  shows "map (\<lambda>t. endpoint_of ''GET'' (getGetPath t n ns)) [''cell'', ''agentspec'', ''hive'', ''secret'', ''drone'', ''session''] =
      map Some [GetCell n, GetAgentSpec ns n, GetHive ns n, GetSecret ns n, GetDrone ns n, GetSessionE ns n] \<and>
    map (\<lambda>t. endpoint_of ''GET'' (getListPath t ns)) [''cell'', ''agentspec'', ''hive'', ''secret'', ''drone'', ''session''] =
      map Some [ListCells, ListAgentSpecs ns, ListHives ns, ListSecrets ns, ListDrones ns, ListSessions ns] \<and>
    map (\<lambda>t. endpoint_of ''DELETE'' (getDeletePath t n ns)) [''cell'', ''agentspec'', ''hive'', ''secret'', ''drone'', ''session''] =
      map Some [DeleteCell n, DeleteAgentSpec ns n, DeleteHive ns n, DeleteSecret ns n, DeleteDrone ns n, DeleteSession ns n] \<and>
    map (\<lambda>k. endpoint_of ''GET'' (getAPIPath k n ns)) [''Cell'', ''AgentSpec'', ''Hive'', ''Secret''] =
      map Some [GetCell n, GetAgentSpec ns n, GetHive ns n, GetSecret ns n] \<and>
    map (\<lambda>k. endpoint_of ''PUT'' (getAPIPath k n ns)) [''Cell'', ''AgentSpec'', ''Hive'', ''Secret''] =
      map Some [UpdateCell n, UpdateAgentSpec ns n, UpdateHive ns n, UpdateSecret ns n] \<and>
    map (\<lambda>k. endpoint_of ''POST'' (getCreatePath k ns)) [''Cell'', ''AgentSpec'', ''Hive'', ''Secret''] =
      map Some [CreateCell, CreateAgentSpec ns, CreateHive ns, CreateSecret ns] \<and>
    map (\<lambda>t. endpoint_of ''PUT'' (Inr (scale_path ns t n))) [''agentspec'', ''hive''] = map Some [ScaleAgentSpec ns n, ScaleHive ns n] \<and>
    map (\<lambda>t. endpoint_of ''POST'' (Inr (drain_path ns t n))) [''drone'', ''agentspec''] = map Some [DrainDrone ns n, DrainAgentSpec ns n] \<and>
    endpoint_of ''GET'' (Inr (logs_path lf ns n)) = Some (DroneLogs ns n) \<and>
    endpoint_of ''POST'' (Inr (exec_path ns n)) = Some (ExecDroneE ns n)"
proof (intro conjI)
  show "map (\<lambda>t. endpoint_of ''GET'' (getGetPath t n ns)) [''cell'', ''agentspec'', ''hive'', ''secret'', ''drone'', ''session''] =
      map Some [GetCell n, GetAgentSpec ns n, GetHive ns n, GetSecret ns n, GetDrone ns n, GetSessionE ns n]"
    unfolding getGetPath_def cells_path_of path_of_append by (simp add: assms routing)
  show "map (\<lambda>t. endpoint_of ''GET'' (getListPath t ns)) [''cell'', ''agentspec'', ''hive'', ''secret'', ''drone'', ''session''] =
      map Some [ListCells, ListAgentSpecs ns, ListHives ns, ListSecrets ns, ListDrones ns, ListSessions ns]"
    unfolding getListPath_def cells_path_of path_of_append by (simp add: assms routing)
  show "map (\<lambda>t. endpoint_of ''DELETE'' (getDeletePath t n ns)) [''cell'', ''agentspec'', ''hive'', ''secret'', ''drone'', ''session''] =
      map Some [DeleteCell n, DeleteAgentSpec ns n, DeleteHive ns n, DeleteSecret ns n, DeleteDrone ns n, DeleteSession ns n]"
    unfolding getDeletePath_def cells_path_of path_of_append by (simp add: assms routing)
  show "map (\<lambda>k. endpoint_of ''GET'' (getAPIPath k n ns)) [''Cell'', ''AgentSpec'', ''Hive'', ''Secret''] =
      map Some [GetCell n, GetAgentSpec ns n, GetHive ns n, GetSecret ns n]"
    unfolding getAPIPath_def Let_def cells_path_of path_of_append by (simp add: assms lower_kinds routing)
  show "map (\<lambda>k. endpoint_of ''PUT'' (getAPIPath k n ns)) [''Cell'', ''AgentSpec'', ''Hive'', ''Secret''] =
      map Some [UpdateCell n, UpdateAgentSpec ns n, UpdateHive ns n, UpdateSecret ns n]"
    unfolding getAPIPath_def Let_def cells_path_of path_of_append by (simp add: assms lower_kinds routing)
  show "map (\<lambda>k. endpoint_of ''POST'' (getCreatePath k ns)) [''Cell'', ''AgentSpec'', ''Hive'', ''Secret''] =
      map Some [CreateCell, CreateAgentSpec ns, CreateHive ns, CreateSecret ns]"
    unfolding getCreatePath_def Let_def cells_path_of path_of_append by (simp add: assms lower_kinds routing)
  show "map (\<lambda>t. endpoint_of ''PUT'' (Inr (scale_path ns t n))) [''agentspec'', ''hive''] = map Some [ScaleAgentSpec ns n, ScaleHive ns n]"
    unfolding scale_path_def Let_def cells_path_of path_of_append3 by (simp add: assms routing)
  show "map (\<lambda>t. endpoint_of ''POST'' (Inr (drain_path ns t n))) [''drone'', ''agentspec''] = map Some [DrainDrone ns n, DrainAgentSpec ns n]"
    unfolding drain_path_def Let_def cells_path_of path_of_append3 by (simp add: assms routing)
qed (rule cli_logs_routed [OF assms(1,2)])+

lemma cli_paths_routed_witness:
  "endpoint_of ''POST'' (Inr (exec_path ''prod'' ''d'')) = Some (ExecDroneE ''prod'' ''d'')"
  using cli_paths_routed [of "''prod''" "''d''"] by simp

text \<open>Names with such characters lead elsewhere: to another drone, to the list, or nowhere.\<close>

lemma cli_paths_misrouted:
  "endpoint_of ''GET'' (getGetPath ''drone'' ''a%20b'' ''prod'') = Some (GetDrone ''prod'' ''a b'')"
  "endpoint_of ''GET'' (getGetPath ''drone'' ''a#b'' ''prod'') = Some (GetDrone ''prod'' ''a'')"
  "endpoint_of ''DELETE'' (getDeletePath ''drone'' ''a?b'' ''prod'') = Some (DeleteDrone ''prod'' ''a'')"
  "endpoint_of ''GET'' (getGetPath ''drone'' ''a%2Fb'' ''prod'') = Some (GetDrone ''prod'' ''a%2Fb'')"
  "endpoint_of ''GET'' (getGetPath ''drone'' '''' ''prod'') = None"
  by code_simp+

section \<open>Applying a manifest\<close>

text \<open>The kinds with a namespace that manifests can create: a resource put into a namespace, and their endpoints.\<close>

fun in_namespace :: "string \<Rightarrow> resource \<Rightarrow> resource" where
  "in_namespace ns (RAgentSpec a) = RAgentSpec (a\<lparr>as_Meta := (as_Meta a)\<lparr>om_Namespace := ns\<rparr>\<rparr>)"
| "in_namespace ns (RHive h) = RHive (h\<lparr>hv_Meta := (hv_Meta h)\<lparr>om_Namespace := ns\<rparr>\<rparr>)"
| "in_namespace ns (RSecret s) = RSecret (s\<lparr>sec_Meta := (sec_Meta s)\<lparr>om_Namespace := ns\<rparr>\<rparr>)"
| "in_namespace ns r = r"

fun create_endpoint :: "resource \<Rightarrow> string \<Rightarrow> endpoint" where
  "create_endpoint (RAgentSpec a) ns = CreateAgentSpec ns"
| "create_endpoint (RHive h) ns = CreateHive ns"
| "create_endpoint (RSecret s) ns = CreateSecret ns"
| "create_endpoint _ ns = Ready"

fun update_endpoint :: "resource \<Rightarrow> string \<Rightarrow> string \<Rightarrow> endpoint" where
  "update_endpoint (RAgentSpec a) ns n = UpdateAgentSpec ns n"
| "update_endpoint (RHive h) ns n = UpdateHive ns n"
| "update_endpoint (RSecret s) ns n = UpdateSecret ns n"
| "update_endpoint _ ns n = Ready"

text \<open>The server reads the resource that was sent.\<close>

fun reads_body :: "'d api_env \<Rightarrow> resource \<Rightarrow> string \<Rightarrow> bool" where
  "reads_body env (RAgentSpec a) b = (ae_spec env b = Inr a)"
| "reads_body env (RHive h) b = (ae_hive env b = Inr h)"
| "reads_body env (RSecret s) b = (ae_secret env b = Inr s)"
| "reads_body env r b = False"

lemma in_namespace_key [simp]:
  "GetKind (in_namespace ns r) = GetKind r" "GetName (in_namespace ns r) = GetName r"
  by (cases r; simp add: names)+

lemma in_namespace_GetNamespace: "reads_body env r b \<Longrightarrow> GetNamespace (in_namespace ns r) = ns"
  by (cases r) (simp_all add: names)

lemma refused_not_success [simp]: "\<not> (300 > code \<and> code \<ge> 200) \<Longrightarrow> \<not> success (refused code)"
  by (auto simp: refused_def success_def)

text \<open>A handler that creates or updates either refuses and changes nothing, or ends in the store.\<close>

definition ends_in :: "'d world \<Rightarrow> 'd world \<times> 'b response \<Rightarrow> 'd world \<times> 'b response \<Rightarrow> bool" where
  "ends_in w r final \<longleftrightarrow> (fst r = w \<and> \<not> success (snd r)) \<or> r = final"

lemma ends_in_refused [simp]:
  "ends_in w (w, errorResponse 400 e m) f" "ends_in w (w, errorResponse 403 e m) f" "ends_in w (w, bad_request t) f"
  "ends_in w (w, bind_failed t) f" "ends_in w (w, bad_namespace ne) f" "ends_in w f f"
  by (simp_all add: ends_in_def)

lemma create_ends:
  "ends_in w (createAgentSpec env ns (Inr a) w) (reply_Create env (in_namespace ns (RAgentSpec a)) w)"
  "ends_in w (createHive env ns (Inr h) w) (reply_Create env (in_namespace ns (RHive h)) w)"
  "ends_in w (createSecret env ns (Inr s) w) (reply_Create env (in_namespace ns (RSecret s)) w)"
  by (simp_all add: createAgentSpec_def createHive_def createSecret_def Let_def split: option.split)

definition checked_Update :: "'d world_env \<Rightarrow> string \<Rightarrow> resource \<Rightarrow> 'd world \<Rightarrow> 'd world \<times> 'b response" where
  "checked_Update env ns r w = (if GetNamespace r = ns then reply_Update env r w else (w, bad_request ''other namespace''))"

lemma update_ends:
  assumes "ns \<noteq> ''''"
  shows "ends_in w (updateAgentSpec env ns n (Inr a) w) (checked_Update env ns (RAgentSpec a) w)"
    "ends_in w (updateHive env ns n (Inr h) w) (checked_Update env ns (RHive h) w)"
    "ends_in w (updateSecret env ns n (Inr s) w) (checked_Update env ns (RSecret s) w)"
  using assms by (auto simp: updateAgentSpec_def updateHive_def updateSecret_def validateResourceNamespace_def names
    checked_Update_def split: option.split)

text \<open>The same for the server behind its middleware.\<close>

definition served :: "'d api_env \<Rightarrow> 'd server \<Rightarrow> 'd server \<times> answer \<Rightarrow> ('d world \<times> answer) \<Rightarrow> bool" where
  "served env sv r final \<longleftrightarrow>
    (sv_world (fst r) = sv_world sv \<and> \<not> success (snd r)) \<or> (sv_world (fst r), snd r) = final"

lemma served_on_world: "ends_in (sv_world sv) r f \<Longrightarrow> served env sv (on_world sv r) f"
  by (cases r; cases f) (auto simp: served_def ends_in_def on_world_def)

lemma served_refusals: "served env sv (sv, errorResponse 408 e m) f" "code \<in> {401, 403, 404} \<Longrightarrow> served env sv (sv, refused code) f"
  by (auto simp: served_def success_def errorResponse_def refused_def)

lemma authorize_codes: "authorize env rq e sv = Respond code \<Longrightarrow> code \<in> {401, 403, 404}"
  by (auto simp: authorize_def AuthorizationMiddleware_def PrincipalMiddleware_def split: option.splits if_splits)

lemma serve_served:
  assumes "setupRoutes (hr_Method rq) (hr_Path rq) = Some e" "served env sv (handle env rq e sv) f"
  shows "served env sv (serve env rq sv) f"
  using assms authorize_codes [of env rq "Some e" sv]
  by (cases "hr_Cancelled rq"; cases "authorize env rq (Some e) sv")
    (simp_all add: serve_def contextValidationMiddleware_def served_refusals)

text \<open>A request without a route changes nothing and is refused.\<close>

lemma serve_unrouted:
  assumes "setupRoutes (hr_Method rq) (hr_Path rq) = None" "hr_Method rq \<noteq> ''OPTIONS''"
  shows "served env sv (serve env rq sv) f"
  using assms authorize_codes [of env rq None sv]
  by (cases "hr_Cancelled rq"; cases "authorize env rq None sv")
    (auto simp: serve_def contextValidationMiddleware_def served_refusals no_route_def served_def success_def refused_def
      errorResponse_def)

lemma serve_create:
  assumes "setupRoutes (hr_Method rq) (hr_Path rq) = Some (create_endpoint r ns)" "reads_body env r (hr_Body rq)"
  shows "served env sv (serve env rq sv) (reply_Create (ae_world env) (in_namespace ns r) (sv_world sv))"
  using assms by (intro serve_served [OF assms(1)]) (cases r; simp add: served_on_world create_ends [simplified])

lemma serve_update:
  assumes "setupRoutes (hr_Method rq) (hr_Path rq) = Some (update_endpoint r ns n)" "reads_body env r (hr_Body rq)" "ns \<noteq> ''''"
  shows "served env sv (serve env rq sv) (checked_Update (ae_world env) ns r (sv_world sv))"
  using assms(2) by (intro serve_served [OF assms(1)])
    (cases r; simp add: served_on_world update_ends [OF assms(3)])

text \<open>A request of the client: the server is untouched by a reading request, and a writing one ends in the store or
  fails.\<close>

definition connected :: "'d server cli_env \<Rightarrow> 'd api_env \<Rightarrow> 'd http_request \<Rightarrow> (answer \<Rightarrow> string) \<Rightarrow> api_client \<Rightarrow> bool" where
  "connected cv env rq0 render c \<longleftrightarrow> cv_do cv = api_transport env rq0 (ac_baseURL c) render"

lemma status_ok_answer [simp]: "status_ok (http_answer render a) \<longleftrightarrow> success a"
  by (simp add: status_ok_def success_def http_answer_def)

lemma doRequest_keepers:
  assumes "connected cv env rq0 render c" "doRequest cv c method path body sv = (sv', r)"
  shows "(sv' = sv \<and> (\<exists>e. r = Inl e)) \<or>
    (\<exists>rq a. hr_Method rq = method \<and> hr_Path rq = url_segments path \<and> hr_Body rq = (case body of None \<Rightarrow> '''' | Some b \<Rightarrow> b) \<and>
      hr_fetch rq = hr_fetch rq0 \<and> hr_post rq = hr_post rq0 \<and>
      serve env rq sv = (sv', a) \<and> r = Inr (http_answer render a))"
proof (cases "cv_newreq cv (ac_baseURL c @ path)")
  case (Some e)
  then show ?thesis using assms(2) by (auto simp: doRequest_def)
next
  case None
  then obtain call where "hc_Method call = method" "hc_URL call = ac_baseURL c @ path" "hc_Body call = body"
      and r: "(case cv_do cv call sv of (w, Inl e) \<Rightarrow> (w, Inl (wrap_error ''request failed'' e)) | (w, Inr resp) \<Rightarrow> (w, Inr resp)) = (sv', r)"
    using assms(2) unfolding doRequest_def Let_def
    by (metis (no_types, lifting) http_call.select_convs(1,2,4) option.simps(4))
  moreover obtain a where "serve env (api_request rq0 (ac_baseURL c) call) sv = (sv', a)" "r = Inr (http_answer render a)"
    using r assms(1) by (auto simp: connected_def api_transport_def split: prod.splits)
  ultimately show ?thesis by (intro disjI2 exI [of _ "api_request rq0 (ac_baseURL c) call"]) (auto simp: api_request_def Let_def)
qed

lemma doRequest_connected:
  assumes "connected cv env rq0 render c" "doRequest cv c method path body sv = (sv', r)"
  shows "(sv' = sv \<and> (\<exists>e. r = Inl e)) \<or>
    (\<exists>rq a. hr_Method rq = method \<and> hr_Path rq = url_segments path \<and> hr_Body rq = (case body of None \<Rightarrow> '''' | Some b \<Rightarrow> b) \<and>
      serve env rq sv = (sv', a) \<and> r = Inr (http_answer render a))"
  using doRequest_keepers [OF assms] by blast

lemma doRequest_served:
  assumes "connected cv env rq0 render c" "doRequest cv c method path (Some b) sv = (sv', r)"
    and "\<And>rq. hr_Method rq = method \<Longrightarrow> hr_Path rq = url_segments path \<Longrightarrow> hr_Body rq = b \<Longrightarrow> served env sv (serve env rq sv) f"
  shows "(sv_world sv' = sv_world sv \<and> (\<forall>resp. r = Inr resp \<longrightarrow> \<not> status_ok resp)) \<or>
    (\<exists>a. (sv_world sv', a) = f \<and> r = Inr (http_answer render a))"
  using doRequest_connected [OF assms(1,2)] assms(3) by (fastforce simp: served_def)

lemma sent_body:
  assumes "sent m d wt dn (send_body cv c method path (cv_encResource cv r) sv) = (sv', ls, res)" "dn \<noteq> ApplyFailed"
    and "connected cv env rq0 render c" "\<And>b. cv_encResource cv r = Inr b \<Longrightarrow> reads_body env r b"
    and "\<And>rq. hr_Method rq = method \<Longrightarrow> hr_Path rq = url_segments path \<Longrightarrow> reads_body env r (hr_Body rq) \<Longrightarrow>
      served env sv (serve env rq sv) f"
  shows "(res = ApplyFailed \<and> (sv_world sv' = sv_world sv \<or> (\<exists>a. (sv_world sv', a) = f \<and> \<not> success a))) \<or>
    (res = dn \<and> (\<exists>a. (sv_world sv', a) = f \<and> success a))"
proof (cases "cv_encResource cv r")
  case (Inl e)
  then show ?thesis using assms(1) by (simp add: sent_def send_body_def)
next
  case (Inr b)
  obtain s x where q: "doRequest cv c method path (Some b) sv = (s, x)" by fastforce
  have sv': "sv' = s" using assms(1) Inr q by (auto simp: sent_def send_body_def split: sum.splits option.splits)
  have res: "res = (case x of Inl e \<Rightarrow> ApplyFailed | Inr resp \<Rightarrow> if status_ok resp then dn else ApplyFailed)"
    using assms(1) Inr q by (auto simp: sent_def send_body_def check_response_def split: sum.splits option.splits if_splits)
  have "(sv_world s = sv_world sv \<and> (\<forall>resp. x = Inr resp \<longrightarrow> \<not> status_ok resp)) \<or>
      (\<exists>a. (sv_world s, a) = f \<and> x = Inr (http_answer render a))"
    using doRequest_served [OF assms(3) q] assms(4) [OF Inr] assms(5) by blast
  then show ?thesis unfolding sv' res using assms(2) by (cases x) auto
qed

text \<open>What reading, creating and updating the resource of a manifest are routed to.\<close>

lemma apply_routes:
  assumes "segment ns" "segment n" "reads_body env r b"
  shows "endpoint_of ''PUT'' (getAPIPath (GetKind r) n ns) = (if n = '''' then None else Some (update_endpoint r ns n))"
    and "endpoint_of ''POST'' (getCreatePath (GetKind r) ns) = Some (create_endpoint r ns)"
    and "\<exists>p. getAPIPath (GetKind r) n ns = Inr p"
proof -
  show "\<exists>p. getAPIPath (GetKind r) n ns = Inr p" using assms(3) by (cases r) (simp_all add: getAPIPath_def)
  show "endpoint_of ''PUT'' (getAPIPath (GetKind r) n ns) = (if n = '''' then None else Some (update_endpoint r ns n))"
    using assms(3) unfolding getAPIPath_def Let_def cells_path_of path_of_append
    by (cases r) (simp_all add: assms(1,2) lower_kinds routing)
  show "endpoint_of ''POST'' (getCreatePath (GetKind r) ns) = Some (create_endpoint r ns)"
    using assms(3) unfolding getCreatePath_def Let_def cells_path_of path_of_append
    by (cases r) (simp_all add: assms(1,2) lower_kinds routing)
qed

lemma get_world:
  assumes "connected cv env rq0 render c" "client_Get cv c path sv = (sv', r)"
  shows "sv_world sv' = sv_world sv"
proof -
  have "sv_world (fst (serve env rq sv)) = sv_world sv" if "hr_Method rq = ''GET''" for rq
    by (rule serve_cases [of "\<lambda>r. sv_world (fst r) = sv_world sv"])
      (use setupRoutes_method [of "hr_Method rq" "hr_Path rq"] that handle_reads in auto)
  note keep = this
  have "(sv' = sv \<and> (\<exists>e. r = Inl e)) \<or> (\<exists>rq a. hr_Method rq = ''GET'' \<and> hr_Path rq = url_segments path \<and>
      hr_Body rq = (case None of None \<Rightarrow> '''' | Some b \<Rightarrow> b) \<and> serve env rq sv = (sv', a) \<and> r = Inr (http_answer render a))"
    by (rule doRequest_connected [OF assms(1)]) (use assms(2) in \<open>simp add: client_Get_def\<close>)
  then show ?thesis
  proof (elim disjE exE conjE)
    fix rq a
    assume "hr_Method rq = ''GET''" "serve env rq sv = (sv', a)"
    then show ?thesis using keep [of rq] by simp
  qed simp
qed

text \<open>The two ends of \<open>apply_manifest\<close>.\<close>

lemma apply_manifest_ends:
  assumes "connected cv env rq0 render c" "apply_manifest cv c namespace file m sv = (sv', ls, res)"
    and "mf_Resource m = Some r" "mf_Kind m = GetKind r" "mf_Metadata m = res_meta r" "manifest_namespace m namespace = ns"
    and "\<forall>b. cv_encResource cv r = Inr b \<longrightarrow> reads_body env r b" "reads_body env r b0"
    and "segment ns" "segment (GetName r)" "ns \<noteq> ''''"
  shows "(res = ApplyFailed \<and> (\<forall>k n l. w_Get (ae_world env) k n l (sv_world sv') = w_Get (ae_world env) k n l (sv_world sv))) \<or>
    (res = Created \<and> (\<exists>a :: answer. reply_Create (ae_world env) (in_namespace ns r) (sv_world sv) = (sv_world sv', a) \<and> success a)) \<or>
    (res = Updated \<and> GetNamespace r = ns \<and> (\<exists>a :: answer. reply_Update (ae_world env) r (sv_world sv) = (sv_world sv', a) \<and> success a))"
proof -
  let ?W = "ae_world env"
  have name: "om_Name (mf_Metadata m) = GetName r" using assms(5,8) by (cases r) (simp_all add: names)
  note routes = apply_routes [OF assms(9,10,8)]
  obtain p where p: "getAPIPath (GetKind r) (GetName r) ns = Inr p" using routes(3) by blast
  have to: "setupRoutes ''PUT'' (url_segments p) =
      (if GetName r = '''' then None else Some (update_endpoint r ns (GetName r)))"
    using routes(1) by (simp add: endpoint_of_def p)
  obtain q where q: "getCreatePath (GetKind r) ns = Inr q" "setupRoutes ''POST'' (url_segments q) = Some (create_endpoint r ns)"
    using routes(2) by (auto simp: endpoint_of_def split: sum.splits)
  obtain s x where g: "client_Get cv c p sv = (s, x)" by fastforce
  have w: "sv_world s = sv_world sv" by (rule get_world [OF assms(1) g])
  have put: "served env s (serve env rq s) (checked_Update ?W ns r (sv_world s))"
    if "hr_Method rq = ''PUT''" "hr_Path rq = url_segments p" "reads_body env r (hr_Body rq)" for rq
  proof (cases "GetName r = ''''")
    case True
    show ?thesis by (rule serve_unrouted) (simp_all add: that to True)
  next
    case False
    show ?thesis by (rule serve_update [where n = "GetName r", OF _ that(3) assms(11)]) (simp add: that to False)
  qed
  have post: "served env s (serve env rq s) (reply_Create ?W (in_namespace ns r) (sv_world s))"
    if "hr_Method rq = ''POST''" "hr_Path rq = url_segments q" "reads_body env r (hr_Body rq)" for rq
    by (rule serve_create [OF _ that(3)]) (simp add: that q(2))
  note am = assms(2) [unfolded apply_manifest_def Let_def assms(4,6) name p q(1) assms(3) resource_body_def]
  show ?thesis
  proof (cases x)
    case (Inl e)
    then show ?thesis using am g w by (auto simp: Let_def)
  next
    case (Inr resp)
    show ?thesis
    proof (cases "status_ok resp")
      case True
      then have "sent m ''update'' ''updated'' Updated (send_body cv c ''PUT'' p (cv_encResource cv r) s) = (sv', ls, res)"
        using am g Inr by (simp add: client_Put_def)
      note st = this
      have "(res = ApplyFailed \<and> (sv_world sv' = sv_world s \<or> (\<exists>a :: answer. (sv_world sv', a) = checked_Update ?W ns r (sv_world s) \<and> \<not> success a))) \<or>
          (res = Updated \<and> (\<exists>a :: answer. (sv_world sv', a) = checked_Update ?W ns r (sv_world s) \<and> success a))"
        by (rule sent_body [OF st _ assms(1)]) (simp, use assms(7) in blast, rule put)
      then show ?thesis unfolding w
      proof (elim disjE conjE exE)
        fix a :: answer
        assume f: "res = ApplyFailed" and a: "(sv_world sv', a) = checked_Update ?W ns r (sv_world sv)" "\<not> success a"
        have "w_Get ?W k n l (sv_world sv') = w_Get ?W k n l (sv_world sv)" for k n l
        proof (cases "GetNamespace r = ns")
          case True
          then have "reply_Update ?W r (sv_world sv) = (sv_world sv', a)" using a(1) by (simp add: checked_Update_def)
          with a(2) show ?thesis by (metis reply_Update_refused fst_conv snd_conv)
        next
          case False
          then show ?thesis using a(1) by (simp add: checked_Update_def)
        qed
        then show ?thesis using f by simp
      next
        fix a :: answer
        assume "res = Updated" "(sv_world sv', a) = checked_Update ?W ns r (sv_world sv)" "success a"
        then show ?thesis by (auto simp: checked_Update_def split: if_splits intro!: exI [of _ a])
      qed simp
    next
      case False
      then have "sent m ''create'' ''created'' Created (send_body cv c ''POST'' q (cv_encResource cv r) s) = (sv', ls, res)"
        using am g Inr by (simp add: client_Post_def)
      note st = this
      have "(res = ApplyFailed \<and> (sv_world sv' = sv_world s \<or> (\<exists>a :: answer. (sv_world sv', a) = reply_Create ?W (in_namespace ns r) (sv_world s) \<and> \<not> success a))) \<or>
          (res = Created \<and> (\<exists>a :: answer. (sv_world sv', a) = reply_Create ?W (in_namespace ns r) (sv_world s) \<and> success a))"
        by (rule sent_body [OF st _ assms(1)]) (simp, use assms(7) in blast, rule post)
      then show ?thesis unfolding w
      proof (elim disjE conjE exE)
        fix a :: answer
        assume f: "res = ApplyFailed" and a: "(sv_world sv', a) = reply_Create ?W (in_namespace ns r) (sv_world sv)" "\<not> success a"
        then have "w_Get ?W k n l (sv_world sv') = w_Get ?W k n l (sv_world sv)" for k n l
          by (metis reply_Create_refused fst_conv snd_conv)
        then show ?thesis using f by simp
      next
        fix a :: answer
        assume "res = Created" "(sv_world sv', a) = reply_Create ?W (in_namespace ns r) (sv_world sv)" "success a"
        then show ?thesis by (auto intro!: exI [of _ a])
      qed simp
    qed
  qed
qed

text \<open>C3: Applying the manifest of an agent specification, a hive or a secret to the server either fails and changes no
  resource, or creates a resource that was not there, or replaces one.  A manifest that names no namespace
  (the namespace comes from the command) can only create: applied a second time it fails, although the command is said to be
  idempotent.\<close>

theorem apply_exact:
  assumes "world_ok (ae_world env)" "connected cv env rq0 render c"
    and "apply_manifest cv c namespace file m sv = (sv', ls, res)"
    and "mf_Resource m = Some r" "mf_Kind m = GetKind r" "mf_Metadata m = res_meta r" "manifest_namespace m namespace = ns"
    and "\<forall>b. cv_encResource cv r = Inr b \<longrightarrow> reads_body env r b" "reads_body env r b0"
    and "plain ns" "plain (GetName r)" "segment ns" "segment (GetName r)" "ns \<noteq> ''''"
  shows "res \<noteq> Validated \<and>
    (res = ApplyFailed \<longrightarrow> (\<forall>k n l. w_Get (ae_world env) k n l (sv_world sv') = w_Get (ae_world env) k n l (sv_world sv))) \<and>
    (res = Created \<longrightarrow> w_Get (ae_world env) (GetKind r) (GetName r) ns (sv_world sv) = Inl ErrNotFound \<and>
      (\<exists>u. w_Get (ae_world env) (GetKind r) (GetName r) ns (sv_world sv') = Inr (ensureUID u (in_namespace ns r)))) \<and>
    (res = Updated \<longrightarrow> w_Get (ae_world env) (GetKind r) (GetName r) ns (sv_world sv) \<noteq> Inl ErrNotFound \<and>
      w_Get (ae_world env) (GetKind r) (GetName r) ns (sv_world sv') = Inr r) \<and>
    (om_Namespace (res_meta r) = '''' \<and> w_Get (ae_world env) (GetKind r) (GetName r) ns (sv_world sv) \<noteq> Inl ErrNotFound \<longrightarrow>
      res = ApplyFailed)"
proof -
  let ?get = "w_Get (ae_world env) (GetKind r) (GetName r) ns"
  have gn: "GetNamespace (in_namespace ns r) = ns" "GetNamespace r = om_Namespace (res_meta r)"
    using in_namespace_GetNamespace [OF assms(9)] assms(9) by (cases r; simp add: names)+
  have created: "?get (sv_world sv) = Inl ErrNotFound \<and> (\<exists>u. ?get (sv_world sv') = Inr (ensureUID u (in_namespace ns r)))"
    if "reply_Create (ae_world env) (in_namespace ns r) (sv_world sv) = (sv_world sv', a)" "success a" for a :: answer
    using reply_Create_success [OF assms(1) _ _ that] assms(10,11) gn by simp
  have updated: "?get (sv_world sv) \<noteq> Inl ErrNotFound \<and> ?get (sv_world sv') = Inr r"
    if "reply_Update (ae_world env) r (sv_world sv) = (sv_world sv', a)" "success a" "GetNamespace r = ns" for a :: answer
    using reply_Update_success [OF assms(1) _ _ that(1,2)] assms(10,11) that(3) by simp
  have kept: "\<And>k n l. w_Get (ae_world env) k n l (sv_world sv') = w_Get (ae_world env) k n l (sv_world sv)" if "res = ApplyFailed"
    using apply_manifest_ends [OF assms(2-9,12-14)] that by auto
  from apply_manifest_ends [OF assms(2-9,12-14)] show ?thesis
  proof (elim disjE conjE exE)
    assume "res = ApplyFailed"
    then show ?thesis using kept by simp
  next
    fix a :: answer
    assume "res = Created" and a: "reply_Create (ae_world env) (in_namespace ns r) (sv_world sv) = (sv_world sv', a)" "success a"
    then show ?thesis using created [OF a] by auto
  next
    fix a :: answer
    assume "res = Updated" and n: "GetNamespace r = ns"
      and a: "reply_Update (ae_world env) r (sv_world sv) = (sv_world sv', a)" "success a"
    then show ?thesis using updated [OF a n] gn(2) assms(14) by auto
  qed
qed

text \<open>A developer who applies a hive without a namespace twice.\<close>

definition bare_hive :: hive where
  "bare_hive = quota_hive\<lparr>hv_Meta := (hv_Meta quota_hive)\<lparr>om_Namespace := ''''\<rparr>\<rparr>"

definition bare_manifest :: manifest where
  "bare_manifest = \<lparr>mf_APIVersion = ''apiary.io/v1'', mf_Kind = ''Hive'', mf_Metadata = hv_Meta bare_hive, mf_Spec = [],
     mf_Resource = Some (RHive bare_hive)\<rparr>"

definition bare_env :: "(string \<times> string) list api_env" where
  "bare_env = sample_api_env\<lparr>ae_hive := (\<lambda>_. Inr bare_hive)\<rparr>"

definition dev_config :: cli_config where
  "dev_config = \<lparr>cf_server = '''', cf_namespace = ''prod'', cf_output = '''', cf_userID = ''dev'', cf_userName = '''',
     cf_envUserID = '''', cf_envUserName = ''''\<rparr>"

definition dev_cli :: "(string \<times> string) list api_env \<Rightarrow> (string \<times> string) list server cli_env" where
  "dev_cli env = \<lparr>cv_newreq = (\<lambda>_. None),
     cv_do = api_transport env (sample_http '''' [] '''') (ac_baseURL (NewAPIClient dev_config)) (\<lambda>_. ''''),
     cv_encMap = (\<lambda>_. Inr ''''), cv_encResource = (\<lambda>_. Inr ''''), cv_decAny = Inl, cv_decList = (\<lambda>_. Inr []),
     cv_decMap = (\<lambda>_. Inr []), cv_json = (\<lambda>_. Inr ''''), cv_yaml = (\<lambda>_. Inr ''''), cv_verb = (\<lambda>_ _. '''')\<rparr>"

abbreviation apply_bare :: "(string \<times> string) list server \<Rightarrow> (string \<times> string) list server \<times> string list \<times> apply_result" where
  "apply_bare \<equiv> apply_manifest (dev_cli bare_env) (NewAPIClient dev_config) ''prod'' ''f'' bare_manifest"

lemma apply_exact_witness:
  "snd (snd (apply_bare sample_server)) = Created \<and> snd (snd (apply_bare (fst (apply_bare sample_server)))) = ApplyFailed"
proof
  let ?s1 = "fst (apply_bare sample_server)"
  show "snd (snd (apply_bare sample_server)) = Created" by code_simp
  obtain sv ls res where a: "apply_bare ?s1 = (sv, ls, res)" by (metis prod_cases3)
  have "w_Get table_world_env ''Hive'' ''main'' ''prod'' (sv_world ?s1) = Inr (RHive quota_hive)" by code_simp
  then have g: "w_Get (ae_world bare_env) (GetKind (RHive bare_hive)) (GetName (RHive bare_hive)) ''prod'' (sv_world ?s1) \<noteq> Inl ErrNotFound"
    by (simp add: bare_env_def sample_api_env_def names bare_hive_def quota_hive_def)
  have ok: "world_ok (ae_world bare_env)" using table_world_ok by (simp add: bare_env_def sample_api_env_def)
  have c: "connected (dev_cli bare_env) bare_env (sample_http '''' [] '''') (\<lambda>_. '''') (NewAPIClient dev_config)"
    by (simp add: connected_def dev_cli_def)
  have m: "mf_Resource bare_manifest = Some (RHive bare_hive)" "mf_Kind bare_manifest = GetKind (RHive bare_hive)"
    "mf_Metadata bare_manifest = res_meta (RHive bare_hive)" "manifest_namespace bare_manifest ''prod'' = ''prod''"
    by (simp_all add: bare_manifest_def manifest_namespace_def bare_hive_def)
  have b: "\<forall>b. cv_encResource (dev_cli bare_env) (RHive bare_hive) = Inr b \<longrightarrow> reads_body bare_env (RHive bare_hive) b"
    "reads_body bare_env (RHive bare_hive) ''''"
    by (simp_all add: bare_env_def)
  have p: "plain ''prod''" "plain (GetName (RHive bare_hive))" "segment ''prod''" "segment (GetName (RHive bare_hive))" "''prod'' \<noteq> ''''"
    by (simp_all add: plain_def names bare_hive_def quota_hive_def)
  have "om_Namespace (res_meta (RHive bare_hive)) = ''''" by (simp add: bare_hive_def)
  then have "res = ApplyFailed" using apply_exact [OF ok c a m b p] g by blast
  then show "snd (snd (apply_bare ?s1)) = ApplyFailed" using a by simp
qed

end
