(* ===== verification/Keeper_Server.thy ===== *)
theory Keeper_Server
  imports Keeper_Relay API_Operations
begin

text \<open>
  The HTTP interface of a keeper, \<open>internal/keeper/keeper.go\<close>: its start, the health and metrics servers with their
  routes, the handlers \<open>handleHealth\<close> and \<open>handleExec\<close>, the health monitor, and the shutdown.

  A \<open>ResponseWriter\<close> is its header map, the status and the copy of the headers taken by \<open>WriteHeader\<close>, and the
  body: headers set after that copy are not sent.  Request paths are clean, so that the multiplexer does not redirect
  them.  Running a command is a parameter: the failure of one of the pipes or of the start, or the text of the two
  copied streams and what \<open>Wait\<close> returned.
\<close>

section \<open>Responses\<close>

record response_writer =
  rw_Header :: "(string \<times> string) list"
  rw_Sent :: "(int \<times> (string \<times> string) list) option"
  rw_Body :: string

definition new_writer :: response_writer where
  "new_writer = \<lparr>rw_Header = [], rw_Sent = None, rw_Body = ''''\<rparr>"

definition set_header :: "string \<Rightarrow> string \<Rightarrow> response_writer \<Rightarrow> response_writer" where
  "set_header k v w = w\<lparr>rw_Header := AList.update k v (rw_Header w)\<rparr>"

definition write_header :: "int \<Rightarrow> response_writer \<Rightarrow> response_writer" where
  "write_header code w = (if rw_Sent w = None then w\<lparr>rw_Sent := Some (code, rw_Header w)\<rparr> else w)"

definition write_text :: "string \<Rightarrow> response_writer \<Rightarrow> response_writer" where
  "write_text s w = (write_header 200 w)\<lparr>rw_Body := rw_Body w @ s\<rparr>"

text \<open>\<open>http.Error\<close>.\<close>

definition http_error :: "string \<Rightarrow> int \<Rightarrow> response_writer \<Rightarrow> response_writer" where
  "http_error msg code w =
    write_text (msg @ [CHR 0x0A]) (write_header code
      (set_header ''X-Content-Type-Options'' ''nosniff'' (set_header ''Content-Type'' ''text/plain; charset=utf-8'' w)))"

text \<open>What the client gets when the handler has returned: the status, the sent headers and the body.\<close>

definition delivered :: "response_writer \<Rightarrow> int \<times> (string \<times> string) list \<times> string" where
  "delivered w = (case rw_Sent (write_header 200 w) of Some (code, hs) \<Rightarrow> (code, hs, rw_Body w) | None \<Rightarrow> (200, [], rw_Body w))"

section \<open>Health\<close>

definition handleHealth :: "(keeper_health \<Rightarrow> string) \<Rightarrow> 's keeper \<Rightarrow> response_writer" where
  "handleHealth json k =
    write_text (json (kp_health k))
      (write_header (if kh_Healthy (kp_health k) then 200 else 503)
        (set_header ''Content-Type'' ''application/json'' new_writer))"

text \<open>The monitor checks on every tick until its context is cancelled; \<open>ticks\<close> holds the machine at each tick.\<close>

definition monitorHealth :: "string \<Rightarrow> 's keeper_env \<Rightarrow> launcher list \<Rightarrow> 's keeper \<Rightarrow> 's keeper" where
  "monitorHealth signal_error env ticks k = fold (checkHealth signal_error env) ticks k"

section \<open>Commands\<close>

datatype wait_result = WaitOK | WaitExit int | WaitFailed string

datatype exec_run =
    NoStdinPipe string
  | NoStdoutPipe string
  | NoStderrPipe string
  | NoStart string
  | Ran string wait_result

definition exit_code :: "wait_result \<Rightarrow> string" where
  "exit_code r = (case r of WaitOK \<Rightarrow> ''0'' | WaitExit n \<Rightarrow> int_str n | WaitFailed e \<Rightarrow> ''1'')"

text \<open>\<open>run\<close> gets the command, the working directory and environment of the agent if there is a process, and whether the
  rest of the request's body is its input.  \<open>bind\<close> is the decoded body.\<close>

definition handleExec :: "(string list \<Rightarrow> (string \<times> string list) option \<Rightarrow> bool \<Rightarrow> exec_run) \<Rightarrow> string list \<Rightarrow>
    string \<Rightarrow> string + exec_request \<Rightarrow> 's keeper \<Rightarrow> response_writer" where
  "handleExec run agent_env meth bind k =
    (if meth \<noteq> ''POST'' then http_error ''method not allowed'' 405 new_writer
     else case bind of
       Inl e \<Rightarrow> http_error (''invalid request: '' @ e) 400 new_writer
     | Inr rq \<Rightarrow>
        (if xr_Command rq = [] then http_error ''command is required'' 400 new_writer
         else
          (let setting = (if kp_process k \<noteq> None
                 then Some (rc_WorkingDir (ss_Runtime (as_Spec (kp_spec k))), agent_env) else None)
           in case run (xr_Command rq) setting (xr_Stdin rq) of
                NoStdinPipe e \<Rightarrow> http_error (''failed to create stdin pipe: '' @ e) 500 new_writer
              | NoStdoutPipe e \<Rightarrow> http_error (''failed to create stdout pipe: '' @ e) 500 new_writer
              | NoStderrPipe e \<Rightarrow> http_error (''failed to create stderr pipe: '' @ e) 500 new_writer
              | NoStart e \<Rightarrow> http_error (''failed to start command: '' @ e) 500 new_writer
              | Ran text status \<Rightarrow>
                 (let w = write_header 200 (set_header ''Content-Type'' ''application/octet-stream'' new_writer);
                      w = write_text text w
                  in set_header ''X-Exit-Code'' (exit_code status) w))))"

section \<open>The servers\<close>

datatype keeper_route = KHealth | KComb | KExec | KRedirect | KNotFound

definition health_mux :: "string \<Rightarrow> keeper_route" where
  "health_mux path =
    (if path = ''/health'' then KHealth
     else if path = ''/exec'' then KExec
     else if has_prefix ''/comb/'' path then KComb
     else if path = ''/comb'' then KRedirect
     else KNotFound)"

record http_in =
  hi_Method :: string
  hi_URLPath :: string
  hi_Body :: string

text \<open>What the handlers use of the libraries, and the memory proxy's own readings.\<close>

record keeper_http =
  kx_health :: "keeper_health \<Rightarrow> string"
  kx_run :: "string list \<Rightarrow> (string \<times> string list) option \<Rightarrow> bool \<Rightarrow> exec_run"
  kx_exec :: "string \<Rightarrow> string + exec_request"
  kx_comb :: "string \<Rightarrow> string + (string \<times> duration)"
  kx_value :: "string \<Rightarrow> string"
  kx_combError :: "comb_error \<Rightarrow> string"
  kx_ctx :: "nat \<Rightarrow> ctx_error option"
  kx_now :: "nat \<Rightarrow> time"

definition comb_request_of :: "keeper_http \<Rightarrow> http_in \<Rightarrow> comb_request" where
  "comb_request_of hx rq =
    \<lparr>cr_Method = (if hi_Method rq = ''GET'' then CombGet
       else if hi_Method rq = ''POST'' \<or> hi_Method rq = ''PUT'' then CombPut
       else if hi_Method rq = ''DELETE'' then CombDelete else CombOther),
     cr_Key = drop (length ''/comb/'') (hi_URLPath rq),
     cr_Body = (case kx_comb hx (hi_Body rq) of Inl e \<Rightarrow> None | Inr b \<Rightarrow> Some b)\<rparr>"

text \<open>The texts of \<open>handleComb\<close>: an empty key and a body that cannot be decoded are both bad requests.\<close>

definition comb_answer :: "keeper_http \<Rightarrow> http_in \<Rightarrow> comb_response \<Rightarrow> response_writer" where
  "comb_answer hx rq r =
    (case r of
       CombValue v \<Rightarrow> write_text (kx_value hx v) (set_header ''Content-Type'' ''application/json'' new_writer)
     | CombBadRequest \<Rightarrow>
        http_error (if hi_URLPath rq = ''/comb/'' then ''key is required''
          else (case kx_comb hx (hi_Body rq) of Inl e \<Rightarrow> e | Inr b \<Rightarrow> '''')) 400 new_writer
     | CombNotFound e \<Rightarrow> http_error (kx_combError hx e) 404 new_writer
     | CombServerError e \<Rightarrow> http_error (kx_combError hx e) 500 new_writer
     | CombOK \<Rightarrow> write_header 200 new_writer
     | CombNoContent \<Rightarrow> write_header 204 new_writer
     | CombNotAllowed \<Rightarrow> http_error ''method not allowed'' 405 new_writer)"

definition keeper_serve :: "keeper_http \<Rightarrow> string list \<Rightarrow> http_in \<Rightarrow> 's keeper \<times> comb_store \<Rightarrow>
    ('s keeper \<times> comb_store) \<times> response_writer" where
  "keeper_serve hx agent_env rq ks =
    (let (k, s) = ks
     in case health_mux (hi_URLPath rq) of
          KHealth \<Rightarrow> (ks, handleHealth (kx_health hx) k)
        | KExec \<Rightarrow> (ks, handleExec (kx_run hx) agent_env (hi_Method rq) (kx_exec hx (hi_Body rq)) k)
        | KComb \<Rightarrow>
           (case handleComb (kx_ctx hx) (kx_now hx) (comb_sid (k_ns k) (kp_sessionID k)) (comb_request_of hx rq) (kp_cache k, s) of
              ((c, s), r) \<Rightarrow> ((k\<lparr>kp_cache := c\<rparr>, s), comb_answer hx rq r))
        | KRedirect \<Rightarrow> (ks, write_header 301 (set_header ''Location'' ''/comb/'' new_writer))
        | KNotFound \<Rightarrow> (ks, http_error ''404 page not found'' 404 new_writer))"

text \<open>The metrics server has one route, and is there only when the keeper has a collector.\<close>

definition metrics_serve :: "(collector \<Rightarrow> string) \<Rightarrow> string \<Rightarrow> 's keeper \<Rightarrow> response_writer" where
  "metrics_serve prom path k =
    (if path = ''/metrics'' then write_text (prom (kp_metrics k)) new_writer
     else http_error ''404 page not found'' 404 new_writer)"

section \<open>Start and stop\<close>

text \<open>A server is the address it listens on and whether it was shut down.\<close>

record keeper_run =
  kr_health :: "string option"
  kr_metrics :: "string option"
  kr_monitor :: bool
  kr_relay :: bool
  kr_subscribed :: bool

text \<open>Listening happens in goroutines whose errors are only logged, so only the launch can fail.\<close>

definition startHealthServer :: "keeper_run \<Rightarrow> keeper_run" where
  "startHealthServer r = r\<lparr>kr_health := Some '':8080''\<rparr>"

definition startMetricsServer :: "bool \<Rightarrow> keeper_run \<Rightarrow> keeper_run" where
  "startMetricsServer has_metrics r = (if has_metrics then r\<lparr>kr_metrics := Some '':9090''\<rparr> else r)"

definition Keeper_Start :: "(string list \<Rightarrow> string \<Rightarrow> string list \<Rightarrow> string + int) \<Rightarrow> bool \<Rightarrow> string list \<Rightarrow> bool \<Rightarrow>
    's keeper_env \<Rightarrow> 's keeper \<times> keeper_run \<Rightarrow> ('s keeper \<times> keeper_run) \<times> start_error option" where
  "Keeper_Start start pipe_ok environ has_metrics env kr =
    (case launchAgent start pipe_ok environ env (fst kr) of
       (k, Some e) \<Rightarrow> ((k, snd kr), Some e)
     | (k, None) \<Rightarrow> ((k, (startMetricsServer has_metrics (startHealthServer (snd kr)))\<lparr>kr_monitor := True\<rparr>), None))"

text \<open>Stopping: \<open>relay_done\<close> says which comes first, the end of the relay's goroutines, the end of the caller's context, or the
  five seconds; \<open>interrupt_ok\<close> and \<open>exited\<close> whether the process gets the signal and ends before the context.\<close>

datatype wait_event = WorkDone | CtxDone | FiveSeconds

datatype stop_act = ShutdownMetrics | ShutdownHealth | CancelRelay | UnsubscribeBus | Interrupt int | Kill int

definition Keeper_Stop :: "wait_event \<Rightarrow> bool \<Rightarrow> bool \<Rightarrow> 's keeper \<times> keeper_run \<Rightarrow>
    ('s keeper \<times> keeper_run) \<times> stop_act list \<times> bool" where
  "Keeper_Stop relay_done interrupt_ok exited kr =
    (let (k, r) = kr;
         acts = (if kr_metrics r \<noteq> None then [ShutdownMetrics] else []) @
           (if kr_health r \<noteq> None then [ShutdownHealth] else []) @
           (if kr_relay r then [CancelRelay] else []) @
           (if kr_subscribed r then [UnsubscribeBus] else []);
         r = r\<lparr>kr_subscribed := False\<rparr>
     in if relay_done = CtxDone then ((k, r), acts, False)
        else case kp_process k of
               None \<Rightarrow> ((k, r), acts, True)
             | Some pid \<Rightarrow>
                (let acts = acts @ Interrupt pid # (if interrupt_ok then [] else [Kill pid])
                 in if exited then ((k, r), acts, True) else ((k, r), acts @ [Kill pid], False)))"

text \<open>Reading from the agent's standard output is not there yet.\<close>

definition ReceiveMessage :: "string + wmsg" where
  "ReceiveMessage = Inl ''ReceiveMessage not yet implemented''"

section \<open>Secrets\<close>

text \<open>\<open>resolveSecretRef\<close> of the keeper, which is not the launcher's: the same steps, written again.\<close>

definition keeper_resolveSecretRef :: "'s keeper_env \<Rightarrow> string \<Rightarrow> secret_key_selector \<Rightarrow> launch_error + string" where
  "keeper_resolveSecretRef env namespace ref =
    (case ke_store env of
       None \<Rightarrow> Inl StoreNotAvailable
     | Some get \<Rightarrow>
        (case get ''Secret'' (sk_Name ref) namespace of
           Inl e \<Rightarrow> Inl (SecretGetFailed (sk_Name ref) e)
         | Inr (RSecret secret) \<Rightarrow>
             (if GetNamespace (RSecret secret) \<noteq> namespace
              then Inl (SecretWrongNamespace (sk_Name ref) (GetNamespace (RSecret secret)) namespace)
              else (case map_of (sec_Data secret) (sk_Key ref) of
                      None \<Rightarrow> Inl (SecretKeyMissing (sk_Key ref) (sk_Name ref))
                    | Some v \<Rightarrow> Inr v))
         | Inr _ \<Rightarrow> Inl (NotASecret (sk_Name ref))))"

lemma keeper_resolves_like_launcher: "keeper_resolveSecretRef env = resolveSecretRef (ke_store env)"
  by (intro ext) (simp add: keeper_resolveSecretRef_def resolveSecretRef_def split: option.split sum.split resource.split)

end
