(* ===== verification/CLI_Keepers.thy ===== *)
theory CLI_Keepers
  imports CLI_Properties Keeper_Server Relay_Properties
begin

text \<open>
  The whole path of a command about a running agent: the command line, the REST server, and the keepers behind it.
  \<open>fleet\<close> gives the keeper at an address; the server's requests to an address without a keeper fail.
\<close>

section \<open>The keepers behind the server\<close>

type_synonym 's fleet = "string \<Rightarrow> ('s keeper \<times> comb_store) option"

definition url_host :: "string \<Rightarrow> string" where
  "url_host url = takeWhile (\<lambda>c. c \<noteq> CHR ''/'') (drop (length ''http://'') url)"

definition url_path :: "string \<Rightarrow> string" where
  "url_path url = takeWhile (\<lambda>c. c \<noteq> CHR ''?'') (dropWhile (\<lambda>c. c \<noteq> CHR ''/'') (drop (length ''http://'') url))"

definition ask_keeper :: "'s fleet \<Rightarrow> keeper_http \<Rightarrow> string list \<Rightarrow> string \<Rightarrow> string \<Rightarrow> string \<Rightarrow>
    string + (int \<times> (string \<times> string) list \<times> string)" where
  "ask_keeper fleet hx agent_env meth url body =
    (case fleet (url_host url) of
       None \<Rightarrow> Inl ''connection refused''
     | Some ks \<Rightarrow>
        Inr (delivered (snd (keeper_serve hx agent_env \<lparr>hi_Method = meth, hi_URLPath = url_path url, hi_Body = body\<rparr> ks))))"

definition fleet_fetch :: "'s fleet \<Rightarrow> keeper_http \<Rightarrow> string list \<Rightarrow> string \<Rightarrow> string + (int \<times> string)" where
  "fleet_fetch fleet hx agent_env url =
    (case ask_keeper fleet hx agent_env ''GET'' url '''' of Inl e \<Rightarrow> Inl e | Inr (code, hs, text) \<Rightarrow> Inr (code, text))"

text \<open>\<open>enc\<close> encodes the body the server makes; a consumed body is empty.\<close>

definition fleet_post :: "'s fleet \<Rightarrow> keeper_http \<Rightarrow> string list \<Rightarrow> (exec_request \<Rightarrow> string) \<Rightarrow> string \<Rightarrow> exec_body \<Rightarrow>
    string + (int \<times> string \<times> string)" where
  "fleet_post fleet hx agent_env enc url body =
    (case ask_keeper fleet hx agent_env ''POST'' url (case body of JsonBody rq \<Rightarrow> enc rq | ConsumedBody \<Rightarrow> '''') of
       Inl e \<Rightarrow> Inl e
     | Inr (code, hs, text) \<Rightarrow> Inr (code, (case map_of hs ''X-Exit-Code'' of None \<Rightarrow> '''' | Some x \<Rightarrow> x), text))"

text \<open>A request of the server whose keeper calls go to the fleet, and drones whose addresses are hosts.\<close>

definition fleet_request :: "'s fleet \<Rightarrow> keeper_http \<Rightarrow> string list \<Rightarrow> (exec_request \<Rightarrow> string) \<Rightarrow> 'd http_request \<Rightarrow> 'd http_request" where
  "fleet_request fleet hx agent_env enc rq0 =
    rq0\<lparr>hr_fetch := fleet_fetch fleet hx agent_env, hr_post := fleet_post fleet hx agent_env enc\<rparr>"

definition hosts_ok :: "'d world_env \<Rightarrow> 'd world \<Rightarrow> bool" where
  "hosts_ok env w \<longleftrightarrow> (\<forall>i ns d. w_Get env ''Drone'' i ns w = Inr (RDrone d) \<longrightarrow> CHR ''/'' \<notin> set (dst_KeeperAddr (dr_Status d)))"

lemma url_of_host:
  assumes "CHR ''/'' \<notin> set addr"
  shows "url_path (''http://'' @ addr @ ''/exec'') = ''/exec''" "url_path (logs_url addr ta sc) = ''/logs''"
proof -
  have a: "takeWhile (\<lambda>c. c \<noteq> CHR ''/'') (addr @ CHR ''/'' # r) = addr" "dropWhile (\<lambda>c. c \<noteq> CHR ''/'') (addr @ CHR ''/'' # r) = CHR ''/'' # r" for r
    using assms by (auto simp: takeWhile_append dropWhile_append)
  show "url_path (''http://'' @ addr @ ''/exec'') = ''/exec''" by (simp add: url_path_def a)
  show "url_path (logs_url addr ta sc) = ''/logs''" by (simp add: url_path_def logs_url_def a Let_def)
qed

section \<open>No logs\<close>

lemma keeper_has_no_logs: "fst (delivered (snd (keeper_serve hx agent_env \<lparr>hi_Method = m, hi_URLPath = ''/logs'', hi_Body = b\<rparr> ks))) = 404"
  by (simp add: keeper_serve_def health_mux_def http_error_def write_text_def write_header_def set_header_def new_writer_def
      delivered_def Let_def split: prod.split)

lemma getDroneLogs_fails:
  assumes "hosts_ok env w"
  shows "rsp_Status (getDroneLogs mkreq (fleet_fetch fleet hx agent_env) env ns i ta sc fw w :: answer) \<noteq> 200"
proof -
  have k: "fleet_fetch fleet hx agent_env (logs_url addr ta sc) \<noteq> Inr (200, t)" if "CHR ''/'' \<notin> set addr" for addr t
  proof (cases "fleet (url_host (logs_url addr ta sc))")
    case (Some ks)
    then show ?thesis using keeper_has_no_logs [of hx agent_env "''GET''" "''''" ks]
      by (auto simp: fleet_fetch_def ask_keeper_def url_of_host [OF that] split: prod.splits)
  qed (simp add: fleet_fetch_def ask_keeper_def)
  show ?thesis
  proof (cases "w_Get env ''Drone'' i ns w")
    case (Inl e)
    then show ?thesis by (cases "store_api_error e") (simp_all add: getDroneLogs_def errorResponse_def)
  next
    case (Inr r)
    show ?thesis
    proof (cases r)
      case (RDrone d)
      then have "CHR ''/'' \<notin> set (dst_KeeperAddr (dr_Status d))" using assms Inr by (auto simp: hosts_ok_def)
      from k [OF this] show ?thesis unfolding RDrone
        by (auto simp: getDroneLogs_def Inr RDrone Let_def errorResponse_def bad_gateway_def split: sum.split prod.split)
    qed (simp_all add: getDroneLogs_def Inr cast_failed_def errorResponse_def)
  qed
qed

lemma logs_request_fails:
  assumes "hosts_ok (ae_world env) (sv_world sv)" "segment ns" "segment n"
    and "connected cv env (fleet_request fleet hx agent_env enc rq0) render c"
    and "client_Get cv c (logs_path lf ns n) sv = (sv', r)"
  shows "sv_world sv' = sv_world sv" "\<forall>resp. r = Inr resp \<longrightarrow> hp_Status resp \<noteq> 200"
proof -
  show "sv_world sv' = sv_world sv" by (rule get_world [OF assms(4,5)])
  have route: "setupRoutes ''GET'' (url_segments (logs_path lf ns n)) = Some (DroneLogs ns n)"
    using cli_logs_routed [OF assms(2,3)] by (simp add: endpoint_of_def)
  have "(\<exists>rq a. hr_Method rq = ''GET'' \<and> hr_Path rq = url_segments (logs_path lf ns n) \<and>
      hr_fetch rq = fleet_fetch fleet hx agent_env \<and> serve env rq sv = (sv', a) \<and> r = Inr (http_answer render a)) \<or> (\<exists>e. r = Inl e)"
    using doRequest_keepers [OF assms(4) assms(5) [unfolded client_Get_def]] by (auto simp: fleet_request_def)
  then show "\<forall>resp. r = Inr resp \<longrightarrow> hp_Status resp \<noteq> 200"
  proof (elim disjE exE conjE)
    fix rq a
    assume a: "hr_Method rq = ''GET''" "hr_Path rq = url_segments (logs_path lf ns n)" "hr_fetch rq = fleet_fetch fleet hx agent_env"
      "serve env rq sv = (sv', a)" "r = Inr (http_answer render a)"
    have "rsp_Status (snd (serve env rq sv)) \<noteq> 200"
      using authorize_codes [of env rq "Some (DroneLogs ns n)" sv]
      by (auto simp: getDroneLogs_fails [OF assms(1)] serve_def contextValidationMiddleware_def Let_def a(1-3) route refused_def errorResponse_def split: decision.split)
    with a(4,5) show ?thesis by (simp add: http_answer_def)
  qed simp
qed

lemma fetchLogs_fails:
  assumes "hosts_ok (ae_world env) (sv_world sv)" "segment ns" "segment n"
    and "connected cv env (fleet_request fleet hx agent_env enc rq0) render c"
    and "fetchLogs cv (logs_path lf ns n) c sv = (sv', ls, oc)"
  shows "ls = [] \<and> (\<exists>e. oc = Errored e)"
proof -
  obtain s r where g: "client_Get cv c (logs_path lf ns n) sv = (s, r)" by fastforce
  show ?thesis using assms(5) logs_request_fails(2) [OF assms(1-4) g] g
    by (cases r) (auto simp: fetchLogs_def split: prod.splits option.splits if_splits)
qed

lemma streamLogs_silent:
  assumes "segment ns" "segment n" "connected cv env (fleet_request fleet hx agent_env enc rq0) render c"
  shows "hosts_ok (ae_world env) (sv_world sv) \<Longrightarrow> snd (streamLogs ticks cv (logs_path lf ns n) c seen sv) = []"
proof (induction ticks arbitrary: seen sv)
  case (Suc ticks)
  obtain s r where g: "client_Get cv c (logs_path lf ns n) sv = (s, r)" by fastforce
  note f = logs_request_fails [OF Suc.prems assms g]
  have "follow_tick cv (logs_path lf ns n) c seen sv = (s, seen, [])"
    using f(2) g by (cases r) (simp_all add: follow_tick_def)
  moreover have "hosts_ok (ae_world env) (sv_world s)" using Suc.prems f(1) by simp
  ultimately show ?case using Suc.IH [of s seen] by (simp split: prod.split)
qed simp

text \<open>C27: No drone's logs can be read: the server asks the keeper for \<open>/logs\<close>, which no keeper serves, and it does not follow
  logs.  The command prints nothing whatever its flags; it fails, or polls forever when it follows.\<close>

theorem logs_never_available:
  assumes "hosts_ok (ae_world env) (sv_world sv)" "segment (client_namespace cf)" "segment (drone_name a)"
    and "connected cv env (fleet_request fleet hx agent_env enc rq0) render (NewAPIClient cf)"
    and "runLogs ticks cv cf lf (a # args) sv = (sv', ls, oc)"
  shows "ls = [] \<and> (if lf_follow lf then oc = None else \<exists>e. oc = Some (Errored e))"
proof (cases "lf_follow lf")
  case True
  then show ?thesis using assms(5) streamLogs_silent [OF assms(2,3,4,1), of ticks lf 0]
    by (auto simp: runLogs_def Let_def split: prod.splits)
next
  case False
  obtain s l o' where f: "fetchLogs cv (logs_path lf (client_namespace cf) (drone_name a)) (NewAPIClient cf) sv = (s, l, o')"
    by (metis prod_cases3)
  show ?thesis using assms(5) fetchLogs_fails [OF assms(1-4) f] f False by (auto simp: runLogs_def Let_def)
qed

section \<open>Lost exit codes\<close>

lemma http_error_delivered [simp]: "\<exists>hs t. delivered (http_error msg code new_writer) = (code, hs, t) \<and> map_of hs ''X-Exit-Code'' = None"
  by (simp add: http_error_def write_text_def write_header_def set_header_def new_writer_def delivered_def)

lemma handleExec_headers:
  "map_of (fst (snd (delivered (handleExec run agent_env m bind k)))) ''X-Exit-Code'' = None"
proof -
  have e: "map_of (fst (snd (delivered (http_error msg code new_writer)))) ''X-Exit-Code'' = None" for msg code
    using http_error_delivered [of msg code] by auto
  have r: "map_of (fst (snd (delivered (set_header ''X-Exit-Code'' x (write_text t (write_header 200
      (set_header ''Content-Type'' ''application/octet-stream'' new_writer)))))) ) ''X-Exit-Code'' = None" for x t
    by (simp add: delivered_def set_header_def write_text_def write_header_def new_writer_def)
  show ?thesis unfolding handleExec_def by (auto simp: e r Let_def split: sum.split exec_run.split)
qed

lemma fleet_post_exec:
  fixes fleet :: "'s fleet"
  assumes "url_path url = ''/exec''" "fleet_post fleet hx agent_env enc url body = Inr (code, x, text)"
    and "b = (case body of JsonBody rq \<Rightarrow> enc rq | ConsumedBody \<Rightarrow> '''')"
  shows "\<exists>(k :: 's keeper) hs. delivered (handleExec (kx_run hx) agent_env ''POST'' (kx_exec hx b) k) = (code, hs, text) \<and>
    x = (case map_of hs ''X-Exit-Code'' of None \<Rightarrow> '''' | Some x \<Rightarrow> x)"
proof -
  obtain k s where f: "fleet (url_host url) = Some (k, s)"
    using assms(2) by (cases "fleet (url_host url)") (auto simp: fleet_post_def ask_keeper_def)
  have "snd (keeper_serve hx agent_env \<lparr>hi_Method = ''POST'', hi_URLPath = url_path url, hi_Body = b\<rparr> (k, s)) =
      handleExec (kx_run hx) agent_env ''POST'' (kx_exec hx b) k"
    by (simp add: keeper_serve_def health_mux_def assms(1))
  then have "ask_keeper fleet hx agent_env ''POST'' url b = Inr (delivered (handleExec (kx_run hx) agent_env ''POST'' (kx_exec hx b) k))"
    by (simp add: ask_keeper_def f)
  then show ?thesis using assms(2)
    by (intro exI [of _ k] exI [of _ "fst (snd (delivered (handleExec (kx_run hx) agent_env ''POST'' (kx_exec hx b) k)))"])
      (auto simp: fleet_post_def assms(3) [symmetric] split: prod.splits)
qed

lemma fleet_post_no_exit_code:
  fixes fleet :: "'s fleet"
  assumes "url_path url = ''/exec''" "fleet_post fleet hx agent_env enc url body = Inr (code, x, text)"
  shows "x = ''''"
proof -
  obtain k :: "'s keeper" and hs where d: "delivered (handleExec (kx_run hx) agent_env ''POST''
        (kx_exec hx (case body of JsonBody rq \<Rightarrow> enc rq | ConsumedBody \<Rightarrow> '''')) k) = (code, hs, text)"
      and x: "x = (case map_of hs ''X-Exit-Code'' of None \<Rightarrow> '''' | Some x \<Rightarrow> x)"
    using fleet_post_exec [OF assms refl] by blast
  have "map_of hs ''X-Exit-Code'' = None"
    using handleExec_headers [of "kx_run hx" agent_env "''POST''" "kx_exec hx (case body of JsonBody rq \<Rightarrow> enc rq | ConsumedBody \<Rightarrow> '''')" k]
    unfolding d by simp
  then show ?thesis using x by simp
qed

lemma fleet_post_consumed:
  assumes "url_path url = ''/exec''" "kx_exec hx '''' = Inl e"
  shows "fleet_post fleet hx agent_env enc url ConsumedBody \<noteq> Inr (200, x, text)"
proof
  assume "fleet_post fleet hx agent_env enc url ConsumedBody = Inr (200, x, text)"
  from fleet_post_exec [OF assms(1) this refl] obtain hs where
    "delivered (http_error (''invalid request: '' @ e) 400 new_writer) = (200, hs, text)"
    by (auto simp: handleExec_def assms(2))
  then show False using http_error_delivered [of "''invalid request: '' @ e" 400] by auto
qed

lemma handleError_answer [simp]:
  "rsp_Body (handleError x) \<noteq> StreamBody c t" "rsp_Status (handleError x) \<noteq> 200"
  by (cases x; simp add: errorResponse_def)+

lemma execDrone_no_exit_code:
  assumes "hosts_ok env w" and "rsp_Body (execDrone mkreq (fleet_post fleet hx agent_env enc) env ns i bind w :: answer) = StreamBody (Some x) t"
  shows False
proof -
  obtain d where d: "w_Get env ''Drone'' i ns w = Inr (RDrone d)"
    using assms(2) by (auto simp: execDrone_def cast_failed_def errorResponse_def split: sum.splits resource.splits)
  then have "CHR ''/'' \<notin> set (dst_KeeperAddr (dr_Status d))" using assms(1) by (auto simp: hosts_ok_def)
  note post = fleet_post_no_exit_code [OF url_of_host(1) [OF this], simplified]
  show False using assms(2)
    by (auto dest: post simp: execDrone_def d Let_def errorResponse_def bad_request_def bind_failed_def bad_gateway_def
        split: sum.splits if_splits prod.splits)
qed

text \<open>With input the server hands on a body that has been read to its end, which the keeper cannot decode.\<close>

lemma execDrone_stdin:
  assumes "hosts_ok env w" "bind = Inr rq" "xr_Stdin rq" "kx_exec hx '''' = Inl e"
  shows "rsp_Status (execDrone mkreq (fleet_post fleet hx agent_env enc) env ns i bind w :: answer) \<noteq> 200"
proof (cases "\<exists>d. w_Get env ''Drone'' i ns w = Inr (RDrone d)")
  case True
  then obtain d where d: "w_Get env ''Drone'' i ns w = Inr (RDrone d)" by blast
  then have a: "CHR ''/'' \<notin> set (dst_KeeperAddr (dr_Status d))" using assms(1) by (auto simp: hosts_ok_def)
  note post = fleet_post_consumed [OF url_of_host(1) [OF a] assms(4), simplified]
  show ?thesis using assms(2,3)
    by (auto simp: post execDrone_def d Let_def errorResponse_def bad_request_def bad_gateway_def split: sum.split prod.split)
next
  case False
  then show ?thesis
    by (auto simp: execDrone_def cast_failed_def errorResponse_def split: sum.split resource.split)
qed

lemma exec_request_answer:
  assumes "segment ns" "segment n" "connected cv env (fleet_request fleet hx agent_env enc rq0) render c"
    and "client_Post cv c (exec_path ns n) body sv = (sv', Inr resp)"
  obtains rq a b where "body = Inr b" "resp = http_answer render a" "rsp_Status a \<noteq> 200 \<or>
    a = execDrone (ae_mkreq env) (fleet_post fleet hx agent_env enc) (ae_world env) ns n (ae_exec env b) (sv_world sv)"
    and "(\<exists>e t. rsp_Body a = ErrorBody e t) \<or> rsp_Body a = NoBody \<or>
    a = execDrone (ae_mkreq env) (fleet_post fleet hx agent_env enc) (ae_world env) ns n (ae_exec env b) (sv_world sv)"
proof -
  obtain b where b: "body = Inr b" "doRequest cv c ''POST'' (exec_path ns n) (Some b) sv = (sv', Inr resp)"
    using assms(4) by (cases body) (auto simp: client_Post_def send_body_def)
  have route: "setupRoutes ''POST'' (url_segments (exec_path ns n)) = Some (ExecDroneE ns n)"
    using cli_logs_routed(2) [OF assms(1,2)] by (simp add: endpoint_of_def)
  from doRequest_keepers [OF assms(3) b(2)] obtain rq a where r: "hr_Method rq = ''POST''"
      "hr_Path rq = url_segments (exec_path ns n)" "hr_Body rq = b" "hr_post rq = fleet_post fleet hx agent_env enc"
      "serve env rq sv = (sv', a)" "resp = http_answer render a"
    by (auto simp: fleet_request_def)
  have "(a = execDrone (ae_mkreq env) (fleet_post fleet hx agent_env enc) (ae_world env) ns n (ae_exec env b) (sv_world sv)) \<or>
      (rsp_Status a \<noteq> 200 \<and> ((\<exists>e t. rsp_Body a = ErrorBody e t) \<or> rsp_Body a = NoBody))"
    using r(5) authorize_codes [of env rq "Some (ExecDroneE ns n)" sv]
    by (auto simp: serve_def contextValidationMiddleware_def Let_def r(1-4) route refused_def errorResponse_def
        split: decision.splits if_splits)
  then show ?thesis using that [OF b(1) r(6)] by blast
qed

lemma separator_index_less: "separator_index args = Some i \<Longrightarrow> i < length args"
  by (induction args arbitrary: i) (auto split: if_splits)

lemma exec_targetD:
  assumes "exec_target args = Inr (name, command)"
  shows "name = drone_name (hd args)" "command \<noteq> []"
  using assms separator_index_less [of args]
  by (auto simp: exec_target_def split: list.splits option.splits if_splits)

lemma exec_reports:
  assumes "hosts_ok (ae_world env) (sv_world sv)" "segment (client_namespace cf)" "segment (drone_name (hd args))"
    and "connected cv env (fleet_request fleet hx agent_env enc rq0) render (NewAPIClient cf)"
    and "\<forall>name command b. exec_target args = Inr (name, command) \<and> cv_encMap cv (exec_json xf command) = Inr b \<longrightarrow>
      ae_exec env b = Inr \<lparr>xr_Command = command, xr_Stdin = xf_interactive xf, xr_TTY = xf_tty xf\<rparr>"
    and "kx_exec hx '''' = Inl e" and "runExec interrupted cv cf xf args sv = (sv', ls, oc)"
  shows "oc \<noteq> Errored (''command exited with code '' @ code) \<and> (xf_interactive xf \<longrightarrow> (\<exists>e. oc = Errored e))"
proof (cases "exec_target args")
  case (Inl e)
  then show ?thesis using assms(7)
    by (auto simp: runExec_def exec_target_def split: list.splits option.splits if_splits)
next
  case (Inr t)
  obtain name command where t: "exec_target args = Inr (name, command)" using Inr by (metis prod.collapse)
  then have n: "name = drone_name (hd args)" by (auto simp: exec_target_def split: list.splits option.splits if_splits)
  obtain s r where p: "client_Post cv (NewAPIClient cf) (exec_path (client_namespace cf) name)
      (cv_encMap cv (exec_json xf command)) sv = (s, r)" by fastforce
  show ?thesis
  proof (cases r)
    case (Inl e)
    then show ?thesis using assms(7) by (auto simp: runExec_def t p wrap_error_def)
  next
    case (Inr resp)
    obtain a b where b: "cv_encMap cv (exec_json xf command) = Inr b" and resp: "resp = http_answer render a"
      and st: "rsp_Status a \<noteq> 200 \<or> a = execDrone (ae_mkreq env) (fleet_post fleet hx agent_env enc) (ae_world env)
        (client_namespace cf) name (ae_exec env b) (sv_world sv)"
      and bd: "(\<exists>e t. rsp_Body a = ErrorBody e t) \<or> rsp_Body a = NoBody \<or> a = execDrone (ae_mkreq env)
        (fleet_post fleet hx agent_env enc) (ae_world env) (client_namespace cf) name (ae_exec env b) (sv_world sv)"
      using exec_request_answer [OF assms(2) _ assms(4) p [unfolded Inr]] assms(3) n by metis
    have "reply_header ''X-Exit-Code'' resp = ''''"
      using bd execDrone_no_exit_code [OF assms(1)] unfolding resp
      by (fastforce simp: reply_header_def http_answer_def split: body.splits option.splits)
    moreover have "hp_Status resp \<noteq> 200" if "xf_interactive xf"
      using st that unfolding resp
      by (auto simp: http_answer_def execDrone_stdin [OF assms(1) assms(5) [rule_format, OF conjI, OF t b] _ assms(6)])
    ultimately show ?thesis using assms(7)
      by (auto simp: runExec_def t p Inr wrap_error_def status_error_def Let_def split: prod.splits option.splits if_splits)
  qed
qed

text \<open>The request a command makes, and the conditions under which it is carried out: the server lets it through, the drone has a
  keeper, and the keeper decodes what the server encodes and runs the command, which prints \<open>text\<close> and ends with \<open>status\<close>.\<close>

definition client_call :: "api_client \<Rightarrow> string \<Rightarrow> string \<Rightarrow> string \<Rightarrow> http_call" where
  "client_call c method path b =
    \<lparr>hc_Method = method, hc_URL = ac_baseURL c @ path,
     hc_Headers = (if ac_userID c \<noteq> '''' then [(''X-User-ID'', ac_userID c)] else []) @
       (if ac_userName c \<noteq> '''' then [(''X-User-Name'', ac_userName c)] else []) @ [(''Content-Type'', ''application/json'')],
     hc_Body = Some b\<rparr>"

definition exec_let_through :: "'d server cli_env \<Rightarrow> 'd api_env \<Rightarrow> 'd http_request \<Rightarrow> api_client \<Rightarrow> string \<Rightarrow> string \<Rightarrow> string \<Rightarrow>
    'd server \<Rightarrow> bool" where
  "exec_let_through cv env rq0 c ns n b sv \<longleftrightarrow>
    cv_newreq cv (ac_baseURL c @ exec_path ns n) = None \<and> \<not> hr_Cancelled rq0 \<and>
    authorize env (api_request rq0 (ac_baseURL c) (client_call c ''POST'' (exec_path ns n) b)) (Some (ExecDroneE ns n)) sv = CallNext"

definition command_runs :: "'s fleet \<Rightarrow> keeper_http \<Rightarrow> string list \<Rightarrow> (exec_request \<Rightarrow> string) \<Rightarrow> 'd api_env \<Rightarrow> 'd world \<Rightarrow>
    string \<Rightarrow> string \<Rightarrow> exec_request \<Rightarrow> string \<Rightarrow> wait_result \<Rightarrow> bool" where
  "command_runs fleet hx agent_env enc env w ns n rq text status \<longleftrightarrow>
    (case w_Get (ae_world env) ''Drone'' n ns w of
       Inr (RDrone d) \<Rightarrow>
        (let addr = dst_KeeperAddr (dr_Status d)
         in addr \<noteq> '''' \<and> ae_mkreq env (''http://'' @ addr @ ''/exec'') \<and>
           (case fleet addr of
              None \<Rightarrow> False
            | Some (k, s) \<Rightarrow>
               kx_exec hx (enc rq) = Inr rq \<and>
               kx_run hx (xr_Command rq) (if kp_process k \<noteq> None
                  then Some (rc_WorkingDir (ss_Runtime (as_Spec (kp_spec k))), agent_env) else None) (xr_Stdin rq) = Ran text status))
     | _ \<Rightarrow> False)"

lemma fleet_post_runs:
  fixes k :: "'s keeper"
  assumes "CHR ''/'' \<notin> set addr" "fleet addr = Some (k, s)" "kx_exec hx (enc rq) = Inr rq" "xr_Command rq \<noteq> []"
    and "kx_run hx (xr_Command rq) (if kp_process k \<noteq> None
      then Some (rc_WorkingDir (ss_Runtime (as_Spec (kp_spec k))), agent_env) else None) (xr_Stdin rq) = Ran text status"
  shows "fleet_post fleet hx agent_env enc (''http://'' @ addr @ ''/exec'') (JsonBody rq) = Inr (200, '''', text)"
proof -
  have h: "url_host (''http://'' @ addr @ ''/exec'') = addr" using assms(1) by (auto simp: url_host_def takeWhile_append)
  have "delivered (handleExec (kx_run hx) agent_env ''POST'' (Inr rq) k) =
      (200, [(''Content-Type'', ''application/octet-stream'')], text)"
    using assms(4,5) by (simp add: handleExec_def Let_def delivered_def set_header_def write_text_def write_header_def new_writer_def)
  then show ?thesis
    by (simp only: fleet_post_def ask_keeper_def keeper_serve_def health_mux_def h url_of_host(1) [OF assms(1)] assms(2,3)
        option.case exec_body.case prod.case) (simp add: url_of_host(1) [OF assms(1), simplified] assms(3))
qed

lemma exec_answer:
  assumes "hosts_ok (ae_world env) (sv_world sv)" "segment ns" "segment n"
    and "connected cv env (fleet_request fleet hx agent_env enc rq0) render c" "exec_let_through cv env rq0 c ns n b sv"
    and "ae_exec env b = Inr rq" "\<not> xr_Stdin rq" "xr_Command rq \<noteq> []"
    and "command_runs fleet hx agent_env enc env (sv_world sv) ns n rq text status"
  shows "client_Post cv c (exec_path ns n) (Inr b) sv = (sv, Inr (http_answer render \<lparr>rsp_Status = 200, rsp_Body = StreamBody None text\<rparr>))"
proof -
  let ?rq0 = "fleet_request fleet hx agent_env enc rq0" and ?call = "client_call c ''POST'' (exec_path ns n) b"
  obtain d k s where d: "w_Get (ae_world env) ''Drone'' n ns (sv_world sv) = Inr (RDrone d)" "dst_KeeperAddr (dr_Status d) \<noteq> ''''"
      "ae_mkreq env (''http://'' @ dst_KeeperAddr (dr_Status d) @ ''/exec'')" "fleet (dst_KeeperAddr (dr_Status d)) = Some (k, s)"
      "kx_exec hx (enc rq) = Inr rq" "kx_run hx (xr_Command rq) (if kp_process k \<noteq> None
        then Some (rc_WorkingDir (ss_Runtime (as_Spec (kp_spec k))), agent_env) else None) (xr_Stdin rq) = Ran text status"
    using assms(9) by (auto simp: command_runs_def Let_def split: sum.splits resource.splits option.splits)
  have "CHR ''/'' \<notin> set (dst_KeeperAddr (dr_Status d))" using assms(1) d(1) by (auto simp: hosts_ok_def)
  note post = fleet_post_runs [where hx = hx and enc = enc and addr = "dst_KeeperAddr (dr_Status d)" and fleet = fleet and k = k
    and rq = rq, OF this d(4) d(5) assms(8) d(6)]
  have x: "execDrone (ae_mkreq env) (fleet_post fleet hx agent_env enc) (ae_world env) ns n (ae_exec env b) (sv_world sv) =
      (\<lparr>rsp_Status = 200, rsp_Body = StreamBody None text\<rparr> :: answer)"
    using d(3) post by (simp add: execDrone_def d(1,2) Let_def assms(6,7,8))
  have route: "setupRoutes ''POST'' (url_segments (exec_path ns n)) = Some (ExecDroneE ns n)"
    using cli_logs_routed(2) [OF assms(2,3)] by (simp add: endpoint_of_def)
  have rq: "hr_Method (api_request ?rq0 (ac_baseURL c) ?call) = ''POST''"
      "hr_Path (api_request ?rq0 (ac_baseURL c) ?call) = url_segments (exec_path ns n)"
      "hr_Body (api_request ?rq0 (ac_baseURL c) ?call) = b" "hr_Cancelled (api_request ?rq0 (ac_baseURL c) ?call) = hr_Cancelled rq0"
      "hr_post (api_request ?rq0 (ac_baseURL c) ?call) = fleet_post fleet hx agent_env enc"
      "hr_Header (api_request ?rq0 (ac_baseURL c) ?call) = hr_Header (api_request rq0 (ac_baseURL c) ?call)"
    by (simp_all add: api_request_def Let_def client_call_def fleet_request_def)
  have rq0: "hr_Method (api_request rq0 (ac_baseURL c) ?call) = ''POST''"
      "hr_Path (api_request rq0 (ac_baseURL c) ?call) = url_segments (exec_path ns n)"
    by (simp_all add: api_request_def Let_def client_call_def)
  have "authorize env (api_request ?rq0 (ac_baseURL c) ?call) (Some (ExecDroneE ns n)) sv = CallNext"
    using assms(5) unfolding exec_let_through_def authorize_def rq rq0 option.case by blast
  then have serve: "serve env (api_request ?rq0 (ac_baseURL c) ?call) sv = (sv, \<lparr>rsp_Status = 200, rsp_Body = StreamBody None text\<rparr>)"
    using assms(5) by (simp add: serve_def Let_def rq route contextValidationMiddleware_def exec_let_through_def x)
  have "doRequest cv c ''POST'' (exec_path ns n) (Some b) sv =
      (case cv_do cv ?call sv of (w, Inl e) \<Rightarrow> (w, Inl (wrap_error ''request failed'' e)) | (w, Inr resp) \<Rightarrow> (w, Inr resp))"
    using assms(5) by (simp add: doRequest_def Let_def exec_let_through_def client_call_def)
  then show ?thesis
    using assms(4) by (simp add: client_Post_def send_body_def connected_def api_transport_def serve)
qed

text \<open>C26: A command that \<open>runExec\<close> runs in a drone is reported as a success whatever its exit status: if the server lets the
  request through and the drone's keeper runs the command, its output is printed and the client finishes without an error (unless
  it is interrupted or a line is too long), because the keeper sets the exit code after the headers were sent.  It never reports an
  exit code.  With input the command is not run and the client fails, if the keeper cannot decode an empty body.\<close>

theorem exec_exit_code_lost:
  assumes "hosts_ok (ae_world env) (sv_world sv)" "segment (client_namespace cf)" "segment (drone_name (hd args))"
    and "connected cv env (fleet_request fleet hx agent_env enc rq0) render (NewAPIClient cf)"
    and "\<forall>name command b. exec_target args = Inr (name, command) \<and> cv_encMap cv (exec_json xf command) = Inr b \<longrightarrow>
      ae_exec env b = Inr \<lparr>xr_Command = command, xr_Stdin = xf_interactive xf, xr_TTY = xf_tty xf\<rparr>"
    and "kx_exec hx '''' = Inl e" "\<forall>x t. render \<lparr>rsp_Status = 200, rsp_Body = StreamBody x t\<rparr> = t"
    and "runExec interrupted cv cf xf args sv = (sv', ls, oc)"
  shows "(\<forall>code. oc \<noteq> Errored (''command exited with code '' @ code)) \<and>
    (xf_interactive xf \<longrightarrow> (\<exists>e. oc = Errored e)) \<and>
    (\<forall>name command b printed status. \<not> xf_interactive xf \<and> interrupted = None \<and> exec_target args = Inr (name, command) \<and>
      cv_encMap cv (exec_json xf command) = Inr b \<and> exec_let_through cv env rq0 (NewAPIClient cf) (client_namespace cf) name b sv \<and>
      command_runs fleet hx agent_env enc env (sv_world sv) (client_namespace cf) name
        \<lparr>xr_Command = command, xr_Stdin = False, xr_TTY = xf_tty xf\<rparr> printed status \<and> snd (scanner printed) = None \<longrightarrow>
      sv' = sv \<and> ls = fst (scanner printed) \<and> oc = Finished)"
proof -
  have "sv' = sv \<and> ls = fst (scanner printed) \<and> oc = Finished" if run:
      "\<not> xf_interactive xf \<and> interrupted = None \<and> exec_target args = Inr (name, command) \<and>
      cv_encMap cv (exec_json xf command) = Inr b \<and> exec_let_through cv env rq0 (NewAPIClient cf) (client_namespace cf) name b sv \<and>
      command_runs fleet hx agent_env enc env (sv_world sv) (client_namespace cf) name
        \<lparr>xr_Command = command, xr_Stdin = False, xr_TTY = xf_tty xf\<rparr> printed status \<and> snd (scanner printed) = None"
    for name command b printed status
  proof -
    have "client_Post cv (NewAPIClient cf) (exec_path (client_namespace cf) name) (Inr b) sv =
        (sv, Inr (http_answer render \<lparr>rsp_Status = 200, rsp_Body = StreamBody None printed\<rparr>))"
      using run assms(3,5) exec_targetD [of args name command]
      by (intro exec_answer [OF assms(1,2) _ assms(4), where rq = "\<lparr>xr_Command = command, xr_Stdin = False, xr_TTY = xf_tty xf\<rparr>"]) auto
    moreover obtain out where "scanner printed = (out, None)" using run by (cases "scanner printed") auto
    ultimately have "runExec interrupted cv cf xf args sv = (sv, fst (scanner printed), Finished)"
      using run assms(7) by (simp add: runExec_def http_answer_def reply_header_def Let_def)
    then show ?thesis using assms(8) by simp
  qed
  moreover have "(\<forall>code. oc \<noteq> Errored (''command exited with code '' @ code)) \<and> (xf_interactive xf \<longrightarrow> (\<exists>e. oc = Errored e))"
    using exec_reports [OF assms(1-6,8)] by blast
  ultimately show ?thesis by blast
qed

section \<open>A drone with a keeper\<close>

definition kept_drone :: drone where
  "kept_drone = idle_drone\<lparr>dr_Status := (dr_Status idle_drone)\<lparr>dst_KeeperAddr := ''k:8080''\<rparr>\<rparr>"

abbreviation kept_env :: "(string \<times> string) list world_env" where
  "kept_env \<equiv> sample_world_env [(''d'', RDrone kept_drone)]"

definition kept_server :: "(string \<times> string) list server" where
  "kept_server = sample_server\<lparr>sv_world := fst (w_Create kept_env (RDrone kept_drone) empty_world)\<rparr>"

definition kept_api :: "(string \<times> string) list api_env" where
  "kept_api = sample_api_env\<lparr>ae_world := kept_env,
     ae_exec := (\<lambda>b. Inr \<lparr>xr_Command = [''false''], xr_Stdin = (b = ''i''), xr_TTY = False\<rparr>)\<rparr>"

text \<open>The keeper's command prints a line and fails.\<close>

definition failing_http :: keeper_http where
  "failing_http = \<lparr>kx_health = (\<lambda>_. ''''), kx_run = (\<lambda>_ _ _. Ran ''out'' (WaitExit 3)),
     kx_exec = (\<lambda>b. if b = '''' then Inl ''EOF'' else Inr \<lparr>xr_Command = [''false''], xr_Stdin = False, xr_TTY = False\<rparr>),
     kx_comb = (\<lambda>_. Inl ''EOF''), kx_value = id, kx_combError = (\<lambda>_. ''''), kx_ctx = (\<lambda>_. None), kx_now = (\<lambda>_. 0)\<rparr>"

abbreviation kept_fleet :: "nat fleet" where
  "kept_fleet \<equiv> (\<lambda>h. if h = ''k:8080'' then Some (sample_keeper, NewStore) else None)"

abbreviation kept_request :: "(string \<times> string) list http_request" where
  "kept_request \<equiv> fleet_request kept_fleet failing_http [] (\<lambda>_. ''c'') (sample_http '''' [] '''')"

definition kept_cli :: "(string \<times> string) list server cli_env" where
  "kept_cli = (dev_cli kept_api)
     \<lparr>cv_do := api_transport kept_api kept_request (ac_baseURL (NewAPIClient dev_config))
        (\<lambda>a. case rsp_Body a of StreamBody _ t \<Rightarrow> t | _ \<Rightarrow> ''''),
      cv_encMap := (\<lambda>m. Inr (if map_of m ''stdin'' = Some (GBool True) then ''i'' else ''n''))\<rparr>"

lemma store_Get_read:
  assumes "store_Get env kind n ns s = Inr r"
  shows "\<exists>data r0. be_unmarshal env kind data = Some r0 \<and> decryptSecretData (be_crypto env) (bs_passphrase s) r0 = Inr r"
  using assms by (auto simp: store_Get_def unmarshalResource_def split: sum.splits kv_error.splits option.splits if_splits)

lemma decrypt_drone: "decryptSecretData c p r = Inr (RDrone d) \<Longrightarrow> r = RDrone d"
  by (cases r) (auto simp: decryptSecretData_def Let_def split: sum.splits if_splits option.splits)

lemma kept_hosts_ok: "hosts_ok (ae_world kept_api) w"
proof -
  have "d = kept_drone" if g: "w_Get kept_env ''Drone'' i ns w = Inr (RDrone d)" for i ns d
  proof -
    obtain data where "be_unmarshal (we_store kept_env) ''Drone'' data = Some (RDrone d)"
    proof -
      obtain data r0 where "be_unmarshal (we_store kept_env) ''Drone'' data = Some r0"
          "decryptSecretData (be_crypto (we_store kept_env)) (bs_passphrase (w_store w)) r0 = Inr (RDrone d)"
        using store_Get_read [OF g [unfolded w_Get_def]] by (elim exE conjE)
      with decrypt_drone [OF this(2)] show ?thesis using that by simp
    qed
    then show ?thesis by (simp add: sample_world_env_def table_env_def split: if_splits)
  qed
  moreover have "CHR ''/'' \<notin> set (dst_KeeperAddr (dr_Status kept_drone))" by (simp add: kept_drone_def)
  moreover have "ae_world kept_api = kept_env" by (simp add: kept_api_def sample_api_env_def)
  ultimately show ?thesis unfolding hosts_ok_def by metis
qed

lemma kept_connected: "connected kept_cli kept_api kept_request (\<lambda>a. case rsp_Body a of StreamBody _ t \<Rightarrow> t | _ \<Rightarrow> '''') (NewAPIClient dev_config)"
  by (simp add: connected_def kept_cli_def)

lemma kept_names: "segment (client_namespace dev_config)" "segment (drone_name ''drone/d'')"
  by (simp_all add: segment_def client_namespace_def dev_config_def drone_name_def trim_prefix_def)

lemma logs_never_available_witness:
  "fst (snd (runLogs 3 kept_cli dev_config \<lparr>lf_follow = False, lf_tail = 5, lf_since = ''''\<rparr> [''drone/d''] kept_server)) = []"
proof -
  let ?run = "runLogs 3 kept_cli dev_config \<lparr>lf_follow = False, lf_tail = 5, lf_since = ''''\<rparr> [''drone/d''] kept_server"
  obtain sv ls oc where r: "?run = (sv, ls, oc)" by (metis prod_cases3)
  show ?thesis unfolding r fst_conv snd_conv
    using logs_never_available [OF kept_hosts_ok kept_names kept_connected r] by (rule conjunct1)
qed

lemma exec_exit_code_lost_witness:
  "\<exists>sv. runExec None kept_cli dev_config \<lparr>xf_interactive = False, xf_tty = False\<rparr> [''drone/d'', ''--'', ''false''] kept_server =
    (sv, [''out''], Finished)"
proof -
  let ?xf = "\<lparr>xf_interactive = False, xf_tty = False\<rparr>" and ?args = "[''drone/d'', ''--'', ''false'']"
  let ?run = "runExec None kept_cli dev_config ?xf ?args kept_server"
  let ?rq = "\<lparr>xr_Command = [''false''], xr_Stdin = False, xr_TTY = False\<rparr>"
  have t: "exec_target ?args = Inr (''d'', [''false''])" by code_simp
  have e: "\<forall>name command b. exec_target ?args = Inr (name, command) \<and> cv_encMap kept_cli (exec_json ?xf command) = Inr b \<longrightarrow>
      ae_exec kept_api b = Inr \<lparr>xr_Command = command, xr_Stdin = xf_interactive ?xf, xr_TTY = xf_tty ?xf\<rparr>"
    unfolding t by (simp add: kept_api_def kept_cli_def exec_json_def)
  have k: "kx_exec failing_http '''' = Inl ''EOF''" by (simp add: failing_http_def)
  have n: "segment (drone_name (hd ?args))" using kept_names(2) by simp
  have render: "\<forall>x t. (\<lambda>a. case rsp_Body a of StreamBody _ t \<Rightarrow> t | _ \<Rightarrow> '''') \<lparr>rsp_Status = 200, rsp_Body = StreamBody x t\<rparr> = (t :: string)"
    by simp
  obtain sv ls oc where r: "?run = (sv, ls, oc)" by (metis prod_cases3)
  have "cv_encMap kept_cli (exec_json ?xf [''false'']) = Inr ''n''" by code_simp
  moreover have "exec_let_through kept_cli kept_api (sample_http '''' [] '''') (NewAPIClient dev_config) (client_namespace dev_config)
      ''d'' ''n'' kept_server" by code_simp
  moreover have "command_runs kept_fleet failing_http [] (\<lambda>_. ''c'') kept_api (sv_world kept_server) (client_namespace dev_config) ''d''
      ?rq ''out'' (WaitExit 3)" by code_simp
  moreover have "scanner ''out'' = ([''out''], None)" by code_simp
  ultimately show ?thesis
    using exec_exit_code_lost [OF kept_hosts_ok kept_names(1) n kept_connected e k render r] t r by auto
qed

end
