(* ===== verification/Daemons.thy ===== *)
theory Daemons
  imports Queen API_Properties
begin

text \<open>
  The daemons, \<open>cmd/apiaryd/main.go\<close> and \<open>cmd/keeper/main.go\<close>, and the goroutines the queen and the session manager
  run inside the first: \<open>Start\<close>, \<open>Stop\<close> and the loops of \<open>queen.go\<close>, the registry of drones, the callbacks of
  \<open>leader.go\<close>, and \<open>Start\<close>, \<open>Stop\<close> and the monitor of \<open>session/manager.go\<close>.

  A goroutine that waits for several channels is a function on the list of what it receives.  The server, the queen and the
  session manager of a daemon share one store, launcher and scheduler: the world of the server.
\<close>

section \<open>The queen's goroutines\<close>

text \<open>Which goroutines run, and whether the stop channel is closed.  Closing it twice panics.\<close>

record queen_run =
  qr_watching :: bool
  qr_looping :: bool
  qr_poolRunning :: bool
  qr_closed :: bool

text \<open>\<open>pool_error\<close> is the error of the warm pool manager's start.\<close>

definition Queen_Start :: "string option \<Rightarrow> queen \<times> queen_run \<Rightarrow> (queen \<times> queen_run) \<times> string option" where
  "Queen_Start pool_error qr =
    (let (q, r) = qr
     in case (if qn_warmPool q \<noteq> None then pool_error else None) of
          Some e \<Rightarrow> ((q, r), Some (''failed to start warm pool manager: '' @ e))
        | None \<Rightarrow>
            ((q\<lparr>qn_trigger := True\<rparr>,
              r\<lparr>qr_poolRunning := (qn_warmPool q \<noteq> None), qr_watching := True, qr_looping := True\<rparr>), None))"

text \<open>The goroutines end when the channel is closed; the second part is whether they ended before the caller's context.\<close>

definition Queen_Stop :: "bool \<Rightarrow> queen_run \<Rightarrow> (queen_run \<times> bool) option" where
  "Queen_Stop ended r =
    (if qr_closed r then None
     else Some (r\<lparr>qr_closed := True, qr_poolRunning := False, qr_watching := False, qr_looping := False\<rparr>, ended))"

datatype watch_input = WatchEvent | WatchClosed | WatchStop | WatchCtx

text \<open>\<open>watch_ok\<close> is the outcome of \<open>Watch\<close>; an event triggers a reconciliation unless one is pending.\<close>

fun watch_loop :: "watch_input list \<Rightarrow> queen \<Rightarrow> queen" where
  "watch_loop [] q = q"
| "watch_loop (WatchEvent # is) q = watch_loop is (watch_event q)"
| "watch_loop (_ # is) q = q"

definition watchAgentSpecs :: "bool \<Rightarrow> watch_input list \<Rightarrow> queen \<Rightarrow> queen" where
  "watchAgentSpecs watch_ok is q = (if \<not> watch_ok then q else watch_loop is q)"

datatype loop_input = LoopTrigger | LoopTick | LoopStop | LoopCtx

fun reconciliationLoop :: "nat \<Rightarrow> 'd world_env \<Rightarrow> (nat \<Rightarrow> warm_pool \<Rightarrow> warm_pool) \<Rightarrow> loop_input list \<Rightarrow> queen \<Rightarrow> 'd world \<Rightarrow>
    (queen \<times> 'd world) option" where
  "reconciliationLoop fuel env meanwhile [] q w = Some (q, w)"
| "reconciliationLoop fuel env meanwhile (LoopTrigger # is) q w =
    (case reconciliation_round fuel env meanwhile False q w of
       None \<Rightarrow> None | Some (q, w) \<Rightarrow> reconciliationLoop fuel env meanwhile is q w)"
| "reconciliationLoop fuel env meanwhile (LoopTick # is) q w =
    (case reconciliation_round fuel env meanwhile True q w of
       None \<Rightarrow> None | Some (q, w) \<Rightarrow> reconciliationLoop fuel env meanwhile is q w)"
| "reconciliationLoop fuel env meanwhile (_ # is) q w = Some (q, w)"

text \<open>The registry of the drones' processes; a missing process is nil.\<close>

definition newDroneRegistry :: "string \<rightharpoonup> agent_process" where
  "newDroneRegistry = Map.empty"

definition registry_add :: "string \<Rightarrow> agent_process \<Rightarrow> queen \<Rightarrow> queen" where
  "registry_add i p q = q\<lparr>qn_droneReg := (qn_droneReg q)(i \<mapsto> p)\<rparr>"

definition registry_get :: "string \<Rightarrow> queen \<Rightarrow> agent_process option" where
  "registry_get i q = qn_droneReg q i"

definition registry_remove :: "string \<Rightarrow> queen \<Rightarrow> queen" where
  "registry_remove i q = q\<lparr>qn_droneReg := (qn_droneReg q)(i := None)\<rparr>"

text \<open>The callbacks of an elector, by name: the stub keeps them and calls none.\<close>

record elector_callbacks =
  ec_elected :: "string option"
  ec_lost :: "string option"

fun OnLeaderElected :: "elector \<Rightarrow> string \<Rightarrow> elector_callbacks \<Rightarrow> elector_callbacks" where
  "OnLeaderElected (NoOpElector b) f c = c"
| "OnLeaderElected (EtcdElector e) f c = c\<lparr>ec_elected := Some f\<rparr>"

fun OnLeaderLost :: "elector \<Rightarrow> string \<Rightarrow> elector_callbacks \<Rightarrow> elector_callbacks" where
  "OnLeaderLost (NoOpElector b) f c = c"
| "OnLeaderLost (EtcdElector e) f c = c\<lparr>ec_lost := Some f\<rparr>"

section \<open>The session manager's monitor\<close>

record session_run =
  sr_monitoring :: bool
  sr_closed :: bool

definition sessions_Start :: "session_run \<Rightarrow> session_run" where
  "sessions_Start r = r\<lparr>sr_monitoring := True\<rparr>"

definition sessions_Stop :: "bool \<Rightarrow> session_run \<Rightarrow> (session_run \<times> bool) option" where
  "sessions_Stop ended r = (if sr_closed r then None else Some (r\<lparr>sr_closed := True, sr_monitoring := False\<rparr>, ended))"

datatype monitor_input = MonitorTick | MonitorStop | MonitorCtx

fun monitorTimeouts :: "'d world_env \<Rightarrow> monitor_input list \<Rightarrow> session_table \<Rightarrow> 'd world \<Rightarrow> session_table \<times> 'd world" where
  "monitorTimeouts env [] m w = (m, w)"
| "monitorTimeouts env (MonitorTick # is) m w = (case checkTimeouts env m w of (m, w) \<Rightarrow> monitorTimeouts env is m w)"
| "monitorTimeouts env (_ # is) m w = (m, w)"

section \<open>apiaryd\<close>

text \<open>The daemon's server: no session memory, a new table of roles without any role, and no choice about authentication, so the
  server requires it.  Its queen has neither autoscaler nor warm pools.\<close>

record 'd daemon =
  dn_server :: "'d server"
  dn_queen :: queen
  dn_queenRun :: queen_run
  dn_sessions :: session_run

definition apiaryd_server :: "'d world \<Rightarrow> 'd server" where
  "apiaryd_server w = NewServer w None (Some NewRBAC) None (Some dlq_NewManager) (Some NewCollector)"

text \<open>\<open>opened\<close> is the outcome of opening the store.  Every failure ends the process.\<close>

definition apiaryd_main :: "string option \<Rightarrow> string + 'd \<Rightarrow> string \<Rightarrow> string + 'd daemon" where
  "apiaryd_main logger_error opened passphrase =
    (case logger_error of
       Some e \<Rightarrow> Inl (''Failed to initialize logger: '' @ e)
     | None \<Rightarrow>
        (case opened of
           Inl e \<Rightarrow> Inl (''Failed to create store: '' @ e)
         | Inr db \<Rightarrow>
            (let q = NewQueen None NewCollector None;
                 sessions = sessions_Start \<lparr>sr_monitoring = False, sr_closed = False\<rparr>
             in case Queen_Start None (q, \<lparr>qr_watching = False, qr_looping = False, qr_poolRunning = False, qr_closed = False\<rparr>) of
                  (_, Some e) \<Rightarrow> Inl (''Failed to start Queen: '' @ e)
                | ((q, run), None) \<Rightarrow>
                    Inr \<lparr>dn_server = apiaryd_server (NewWorld db passphrase), dn_queen = q, dn_queenRun = run,
                         dn_sessions = sessions\<rparr>)))"

text \<open>On a signal the queen is stopped, then the server; their errors are only logged.\<close>

definition apiaryd_shutdown :: "bool \<Rightarrow> 'd daemon \<Rightarrow> 'd daemon option" where
  "apiaryd_shutdown ended d =
    (case Queen_Stop ended (dn_queenRun d) of None \<Rightarrow> None | Some (run, _) \<Rightarrow> Some (d\<lparr>dn_queenRun := run\<rparr>))"

text \<open>What happens in a running daemon.\<close>

datatype 'd daemon_event = Requested "'d http_request" | Reconciled bool | Watched | Swept

definition daemon_step :: "nat \<Rightarrow> 'd api_env \<Rightarrow> 'd daemon_event \<Rightarrow> 'd daemon \<Rightarrow> 'd daemon option" where
  "daemon_step fuel env ev d =
    (case ev of
       Requested rq \<Rightarrow> Some (d\<lparr>dn_server := fst (serve env rq (dn_server d))\<rparr>)
     | Reconciled tick \<Rightarrow>
        (case reconciliation_round fuel (ae_world env) (\<lambda>_. id) tick (dn_queen d) (sv_world (dn_server d)) of
           None \<Rightarrow> None
         | Some (q, w) \<Rightarrow> Some (d\<lparr>dn_queen := q, dn_server := (dn_server d)\<lparr>sv_world := w\<rparr>\<rparr>))
     | Watched \<Rightarrow> Some (d\<lparr>dn_queen := watch_event (dn_queen d)\<rparr>)
     | Swept \<Rightarrow>
        (case checkTimeouts (ae_world env) (sv_sessions (dn_server d)) (sv_world (dn_server d)) of
           (m, w) \<Rightarrow> Some (d\<lparr>dn_server := (dn_server d)\<lparr>sv_sessions := m, sv_world := w\<rparr>\<rparr>)))"

fun daemon_run :: "nat \<Rightarrow> 'd api_env \<Rightarrow> 'd daemon_event list \<Rightarrow> 'd daemon \<Rightarrow> 'd daemon option" where
  "daemon_run fuel env [] d = Some d"
| "daemon_run fuel env (ev # evs) d =
    (case daemon_step fuel env ev d of None \<Rightarrow> None | Some d \<Rightarrow> daemon_run fuel env evs d)"

section \<open>The keeper's command\<close>

text \<open>What is written and the exit code.  The keeper itself is not started.\<close>

definition keeper_main :: "string option \<Rightarrow> string \<Rightarrow> string list \<times> int" where
  "keeper_main logger_error agentSpecPath =
    (if agentSpecPath = '''' then ([''agent-spec is required''], 1)
     else case logger_error of
       Some e \<Rightarrow> ([''Failed to initialize logger: '' @ e], 1)
     | None \<Rightarrow> ([''Keeper starting'', ''Keeper implementation pending''], 0))"

section \<open>A daemon without roles\<close>

definition no_roles :: "'d server \<Rightarrow> bool" where
  "no_roles sv \<longleftrightarrow> sv_rbac sv \<noteq> None \<and> sv_requireAuth sv \<and> (\<forall>cell u. cell \<noteq> '''' \<longrightarrow> role_in sv cell u = None)"

lemma refused_without_roles:
  assumes "no_roles sv" "request_cell rq \<noteq> ''''"
  shows "fst (serve env rq sv) = sv \<and> rsp_Status (snd (serve env rq sv)) \<in> {401, 403, 408}"
proof -
  obtain r where r: "sv_rbac sv = Some r" "\<And>u. GetRole (request_cell rq) u r = None" "sv_requireAuth sv"
    using assms by (auto simp: no_roles_def role_in_def)
  obtain e where e: "setupRoutes (hr_Method rq) (hr_Path rq) = Some e" "param_namespace e = request_cell rq"
    using assms(2) by (auto simp: request_cell_def split: option.splits)
  have "authorize env rq (Some e) sv \<in> {Respond 401, Respond 403}"
    using authorize_iff [OF r(1,3) e(1), of env] assms(2) r(2) e(2) by (auto split: option.split)
  then show ?thesis by (auto simp: serve_def contextValidationMiddleware_def Let_def e(1) refused_def errorResponse_def)
qed

lemma serve_requireAuth: "sv_requireAuth (fst (serve env rq sv)) = sv_requireAuth sv"
proof (rule serve_cases)
  fix e show "sv_requireAuth (fst (handle env rq e sv)) = sv_requireAuth sv"
    by (cases e) (simp_all add: on_world_def on_sessions_def on_rbac_def on_dlq_def on_metrics_def)
qed simp_all

lemma serve_has_rbac: "sv_rbac (fst (serve env rq sv)) \<noteq> None \<longleftrightarrow> sv_rbac sv \<noteq> None"
proof (rule serve_cases)
  fix e show "sv_rbac (fst (handle env rq e sv)) \<noteq> None \<longleftrightarrow> sv_rbac sv \<noteq> None"
    by (cases e) (auto simp: on_world_def on_sessions_def on_rbac_def on_dlq_def on_metrics_def assignRoleHandler_def
        removeRoleHandler_def with_rbac_def Let_def split: option.splits sum.splits prod.splits if_splits)
qed simp_all

lemma other_events_roles:
  assumes "daemon_step fuel env ev d = Some d'" "\<And>rq. ev \<noteq> Requested rq"
  shows "sv_rbac (dn_server d') = sv_rbac (dn_server d) \<and> sv_requireAuth (dn_server d') = sv_requireAuth (dn_server d)"
proof (cases ev)
  case (Reconciled tick)
  then show ?thesis using assms(1) by (auto simp: daemon_step_def split: option.splits)
next
  case Swept
  then show ?thesis using assms(1) by (auto simp: daemon_step_def split: prod.splits)
qed (use assms in \<open>auto simp: daemon_step_def\<close>)

lemma no_roles_step:
  assumes "no_roles (dn_server d)" "daemon_step fuel env ev d = Some d'"
  shows "no_roles (dn_server d')"
proof (cases "\<exists>rq. ev = Requested rq")
  case True
  then obtain rq where d': "dn_server d' = fst (serve env rq (dn_server d))" using assms(2) by (auto simp: daemon_step_def)
  show ?thesis
  proof (cases "request_cell rq = ''''")
    case True
    have "role_in (fst (serve env rq (dn_server d))) cell u = role_in (dn_server d) cell u" if "cell \<noteq> ''''" for cell u
      using serve_roles [of cell rq env "dn_server d" u] that True by simp
    then show ?thesis using assms(1) serve_has_rbac serve_requireAuth unfolding d' no_roles_def by metis
  next
    case False
    then show ?thesis using refused_without_roles [OF assms(1) False] assms(1) unfolding d' by simp
  qed
next
  case False
  then show ?thesis using other_events_roles [OF assms(2)] assms(1) by (simp add: no_roles_def role_in_def)
qed

text \<open>C12: The daemon as it is shipped is locked: it starts with no role and, because its configuration does not say otherwise,
  requires one for everything inside a cell, also for assigning roles.  Whatever it serves, reconciles and sweeps, every
  request to a path below that of a named cell is refused and changes nothing.  (The path of the cell itself is served without
  a role.)\<close>

theorem shipped_daemon_locked:
  assumes "apiaryd_main logger_error opened passphrase = Inr d"
    and "daemon_run fuel env evs d = Some d'" "request_cell rq \<noteq> ''''"
  shows "fst (serve env rq (dn_server d')) = dn_server d' \<and> rsp_Status (snd (serve env rq (dn_server d'))) \<in> {401, 403, 408}"
proof -
  have "no_roles (dn_server d)" using assms(1)
    by (auto simp: apiaryd_main_def Queen_Start_def NewQueen_def Let_def apiaryd_server_def NewServer_def no_roles_def role_in_def NewRBAC_def
        GetRole_def split: option.splits sum.splits)
  then have "no_roles (dn_server d')" using assms(2)
  proof (induction evs arbitrary: d)
    case (Cons ev evs)
    from Cons.prems(2) obtain d1 where d1: "daemon_step fuel env ev d = Some d1" "daemon_run fuel env evs d1 = Some d'"
      by (auto split: option.splits)
    show ?case by (rule Cons.IH [OF no_roles_step [OF Cons.prems(1) d1(1)] d1(2)])
  qed simp
  then show ?thesis using refused_without_roles assms(3) by blast
qed

lemma shipped_daemon_locked_witness:
  "\<exists>d d'. apiaryd_main None (Inr []) '''' = Inr d \<and>
    daemon_run 1 sample_api_env [Requested (sample_http ''POST'' [''api'', ''v1'', ''cells''] ''dev''), Reconciled True] d = Some d' \<and>
    w_Get table_world_env ''Cell'' ''prod'' '''' (sv_world (dn_server d')) = Inr (RCell quota_cell) \<and>
    rsp_Status (snd (serve sample_api_env (sample_http ''POST'' [''api'', ''v1'', ''cells'', ''prod'', ''roles''] ''dev'') (dn_server d')))
      \<in> {401, 403, 408}"
proof -
  let ?evs = "[Requested (sample_http ''POST'' [''api'', ''v1'', ''cells''] ''dev''), Reconciled True]"
  let ?rq = "sample_http ''POST'' [''api'', ''v1'', ''cells'', ''prod'', ''roles''] ''dev''"
  let ?m = "apiaryd_main None (Inr []) '''' :: string + (string \<times> string) list daemon"
  have "case ?m of Inl e \<Rightarrow> False | Inr d \<Rightarrow> (case daemon_run 1 sample_api_env ?evs d of None \<Rightarrow> False
      | Some d' \<Rightarrow> w_Get table_world_env ''Cell'' ''prod'' '''' (sv_world (dn_server d')) = Inr (RCell quota_cell))"
    by code_simp
  then obtain d d' where d: "?m = Inr d" "daemon_run 1 sample_api_env ?evs d = Some d'"
      "w_Get table_world_env ''Cell'' ''prod'' '''' (sv_world (dn_server d')) = Inr (RCell quota_cell)"
    by (auto split: sum.splits option.splits)
  have c: "request_cell ?rq \<noteq> ''''" by (simp add: request_cell_def setupRoutes_def route_cell_def sample_http_def)
  show ?thesis using d shipped_daemon_locked [OF d(1,2) c] by blast
qed

end
