(* ===== verification/Nectar_Bus.thy ===== *)
theory Nectar_Bus
  imports Messaging "HOL-Library.Sublist"
begin

text \<open>
  The construction and the closing of the message bus (\<open>internal/nectar/bus.go\<close>): which of the NATS
  server and the connection a bus owns, and what is left of them when a step fails.  NATS is a
  parameter: the outcomes of the calls \<open>NewBus\<close> makes.
\<close>

record bus_config =
  bc_Port :: int
  bc_Persistent :: bool
  bc_DataDir :: string
  bc_ExternalURLs :: string

record server_options =
  so_Host :: string
  so_Port :: int
  so_JetStream :: bool
  so_StoreDir :: string
  so_MaxPayload :: int

record stream_config =
  sc_Name :: string
  sc_Subjects :: "string list"
  sc_FileStorage :: bool

text \<open>An error of each call, if it fails; the server created has a URL for its clients.\<close>

record nats_lib =
  nl_connect :: "string \<Rightarrow> string option"
  nl_newServer :: "server_options \<Rightarrow> string + string"
  nl_ready :: bool
  nl_jetStream :: "string option"
  nl_addStream :: "stream_config \<Rightarrow> string option"

text \<open>What runs: the embedded server and the connection.\<close>

record nats_state =
  ns_server :: bool
  ns_conn :: bool

definition nothing_runs :: nats_state where
  "nothing_runs = \<lparr>ns_server = False, ns_conn = False\<rparr>"

definition embedded_options :: "bus_config \<Rightarrow> server_options" where
  "embedded_options cfg = \<lparr>so_Host = ''127.0.0.1'', so_Port = bc_Port cfg, so_JetStream = bc_Persistent cfg,
    so_StoreDir = bc_DataDir cfg, so_MaxPayload = 10 * 1024 * 1024\<rparr>"

definition connect_nats :: "nats_lib \<Rightarrow> bus_config \<Rightarrow> nats_state \<times> (string + bool)" where
  "connect_nats lib cfg =
    (if bc_ExternalURLs cfg \<noteq> ''''
     then case nl_connect lib (bc_ExternalURLs cfg) of
            Some e \<Rightarrow> (nothing_runs, Inl (''failed to connect to external NATS cluster: '' @ e))
          | None \<Rightarrow> (nothing_runs\<lparr>ns_conn := True\<rparr>, Inr False)
     else case nl_newServer lib (embedded_options cfg) of
            Inl e \<Rightarrow> (nothing_runs, Inl (''failed to create NATS server: '' @ e))
          | Inr url \<Rightarrow>
              (let st = nothing_runs\<lparr>ns_server := True\<rparr>
               in if \<not> nl_ready lib then (st\<lparr>ns_server := False\<rparr>, Inl ''NATS server failed to start'')
                  else case nl_connect lib url of
                    Some e \<Rightarrow> (st\<lparr>ns_server := False\<rparr>, Inl (''failed to connect to NATS server: '' @ e))
                  | None \<Rightarrow> (st\<lparr>ns_conn := True\<rparr>, Inr True)))"

definition nectar_stream :: stream_config where
  "nectar_stream = \<lparr>sc_Name = ''NECTAR'', sc_Subjects = [''nectar.>''], sc_FileStorage = True\<rparr>"

text \<open>The set-up of JetStream; only an embedded server gets a stream, and an existing one is no error.\<close>

definition persist :: "nats_lib \<Rightarrow> bool \<Rightarrow> string option" where
  "persist lib embedded =
    (case nl_jetStream lib of
       Some e \<Rightarrow> Some (''failed to create JetStream context: '' @ e)
     | None \<Rightarrow>
        (if \<not> embedded then None
         else case nl_addStream lib nectar_stream of
           None \<Rightarrow> None
         | Some e \<Rightarrow>
            (if sublist ''stream name already in use'' e then None
             else Some (''failed to create JetStream stream: '' @ e))))"

text \<open>A bus and whether it has a server of its own.\<close>

record bus_handle =
  bh_bus :: bus
  bh_server :: bool

definition NewBus :: "nats_lib \<Rightarrow> bus_config \<Rightarrow> nats_state \<times> (string + bus_handle)" where
  "NewBus lib cfg =
    (case connect_nats lib cfg of
       (st, Inl e) \<Rightarrow> (st, Inl e)
     | (st, Inr embedded) \<Rightarrow>
        (let handle = \<lparr>bh_bus = \<lparr>bu_persistent = bc_Persistent cfg, bu_subs = []\<rparr>, bh_server = embedded\<rparr>
         in if \<not> bc_Persistent cfg then (st, Inr handle)
            else case persist lib embedded of
              None \<Rightarrow> (st, Inr handle)
            | Some e \<Rightarrow>
               (let st = st\<lparr>ns_conn := False\<rparr>
                in (if embedded then st\<lparr>ns_server := False\<rparr> else st, Inl e))))"

text \<open>\<open>Close\<close> with its effect on NATS.\<close>

definition close_bus :: "bus_handle \<Rightarrow> nats_state \<Rightarrow> bus_handle \<times> nats_state \<times> nat list" where
  "close_bus h st =
    (let (b, cancelled) = bus_Close (bh_bus h);
         st = st\<lparr>ns_conn := False\<rparr>
     in (h\<lparr>bh_bus := b\<rparr>, if bh_server h then st\<lparr>ns_server := False\<rparr> else st, cancelled))"

lemma connect_nats_cases:
  "(\<exists>e. connect_nats lib cfg = (nothing_runs, Inl e)) \<or>
   connect_nats lib cfg = (\<lparr>ns_server = bc_ExternalURLs cfg = '''', ns_conn = True\<rparr>, Inr (bc_ExternalURLs cfg = ''''))"
  by (auto simp: connect_nats_def nothing_runs_def Let_def split: option.split sum.split)

text \<open>A bus that cannot be set up leaves nothing running, whichever step failed.\<close>

lemma failed_bus_releases: "NewBus lib cfg = (st, Inl e) \<Longrightarrow> st = nothing_runs"
  using connect_nats_cases [of lib cfg] by (auto simp: NewBus_def nothing_runs_def Let_def split: option.splits if_splits)

text \<open>A bus owns its connection, and the server exactly if it was not told to use another; closing it
  releases both and cancels every subscription in its table.\<close>

lemma new_bus_owns:
  assumes "NewBus lib cfg = (st, Inr h)"
  shows "ns_conn st \<and> (ns_server st \<longleftrightarrow> bc_ExternalURLs cfg = '''') \<and> bu_subs (bh_bus h) = [] \<and>
    bu_persistent (bh_bus h) = bc_Persistent cfg \<and> bh_server h = ns_server st"
  using assms connect_nats_cases [of lib cfg] by (auto simp: NewBus_def Let_def split: option.splits if_splits)

lemma closed_bus_releases:
  assumes "NewBus lib cfg = (st, Inr h)" "bh_server h' = bh_server h"
  shows "fst (snd (close_bus h' st)) = nothing_runs \<and> bu_subs (bh_bus (fst (close_bus h' st))) = [] \<and>
    snd (snd (close_bus h' st)) = map snd (bu_subs (bh_bus h'))"
  using new_bus_owns [OF assms(1)] assms(2) by (cases st) (auto simp: close_bus_def bus_Close_def nothing_runs_def)

end
