(* ===== verification/Tracing.thy ===== *)
theory Tracing
  imports GRPC_Interceptors
begin

text \<open>
  \<open>internal/observability\<close> and the wrappers around the handlers that only observe: tracing of REST
  requests (\<open>tracing_middleware.go\<close>), tracing, logging and metrics of gRPC calls
  (\<open>grpc_tracing_interceptors.go\<close>, the second half of \<open>grpc_interceptors.go\<close>), and the log line of a
  request (\<open>loggingMiddleware\<close> of \<open>server.go\<close>).

  OpenTelemetry is a parameter: the outcomes of its constructors, how it extracts a trace from
  headers and how it puts a span into a context.  Contexts, states, results and errors are of any type.
\<close>

section \<open>Observability\<close>

record obs_config =
  oc_ServiceName :: string
  oc_ServiceVersion :: string
  oc_Environment :: string

text \<open>An error of each constructor; an instrument is asked for by its name.\<close>

record otel_lib =
  ol_resource :: "string \<Rightarrow> string \<Rightarrow> string \<Rightarrow> string option"
  ol_traceExporter :: "string option"
  ol_metricExporter :: "string option"
  ol_instrument :: "string \<Rightarrow> string option"

text \<open>The providers of the process: the service they work for, if one is installed and not shut down.\<close>

record otel_state =
  og_tracer :: "string option"
  og_meter :: "string option"

record observability =
  ob_tracerProvider :: bool
  ob_meterProvider :: bool
  ob_tracer :: string
  ob_instruments :: "string list"

definition default_to :: "string \<Rightarrow> string \<Rightarrow> string" where
  "default_to d s = (if s = '''' then d else s)"

text \<open>The instruments with the words of their errors.\<close>

definition instruments :: "(string \<times> string) list" where
  "instruments = [(''apiary_requests_total'', ''request counter''),
    (''apiary_request_duration_seconds'', ''request duration histogram''),
    (''apiary_request_size_bytes'', ''request size histogram''),
    (''apiary_response_size_bytes'', ''response size histogram'')]"

fun create_instruments :: "otel_lib \<Rightarrow> (string \<times> string) list \<Rightarrow> string + string list" where
  "create_instruments lib [] = Inr []"
| "create_instruments lib ((name, what) # ins) =
    (case ol_instrument lib name of
       Some e \<Rightarrow> Inl (''failed to create '' @ what @ '': '' @ e)
     | None \<Rightarrow> (case create_instruments lib ins of Inl e \<Rightarrow> Inl e | Inr ns \<Rightarrow> Inr (name # ns)))"

definition createMetrics :: "otel_lib \<Rightarrow> string + string list" where
  "createMetrics lib = create_instruments lib instruments"

definition NewObservability :: "otel_lib \<Rightarrow> obs_config \<Rightarrow> otel_state \<Rightarrow> otel_state \<times> (string + observability)" where
  "NewObservability lib cfg g =
    (let service = default_to ''apiary'' (oc_ServiceName cfg);
         version = default_to ''1.0.0'' (oc_ServiceVersion cfg);
         environment = default_to ''production'' (oc_Environment cfg)
     in case ol_resource lib service version environment of
          Some e \<Rightarrow> (g, Inl (''failed to create resource: '' @ e))
        | None \<Rightarrow>
       (case ol_traceExporter lib of
          Some e \<Rightarrow> (g, Inl (''failed to create trace exporter: '' @ e))
        | None \<Rightarrow>
       (let g = g\<lparr>og_tracer := Some service\<rparr>
        in case ol_metricExporter lib of
          Some e \<Rightarrow> (g, Inl (''failed to create metric exporter: '' @ e))
        | None \<Rightarrow>
       (let g = g\<lparr>og_meter := Some service\<rparr>
        in case createMetrics lib of
          Inl e \<Rightarrow> (g, Inl (''failed to create metrics: '' @ e))
        | Inr names \<Rightarrow> (g, Inr \<lparr>ob_tracerProvider = True, ob_meterProvider = True, ob_tracer = service,
            ob_instruments = names\<rparr>)))))"

text \<open>\<open>te\<close> and \<open>me\<close> are the errors of the two shutdowns; both are attempted.\<close>

definition obs_Shutdown :: "string option \<Rightarrow> string option \<Rightarrow> observability \<Rightarrow> string list" where
  "obs_Shutdown te me o' =
    (if ob_tracerProvider o'
     then case te of None \<Rightarrow> [] | Some e \<Rightarrow> [''failed to shutdown tracer provider: '' @ e] else []) @
    (if ob_meterProvider o'
     then case me of None \<Rightarrow> [] | Some e \<Rightarrow> [''failed to shutdown meter provider: '' @ e] else [])"

lemma create_instruments_cases:
  "((\<forall>i \<in> set ins. ol_instrument lib (fst i) = None) \<and> create_instruments lib ins = Inr (map fst ins)) \<or>
   ((\<exists>i \<in> set ins. ol_instrument lib (fst i) \<noteq> None) \<and> (\<exists>e. create_instruments lib ins = Inl e))"
proof (induction ins)
  case (Cons i ins)
  obtain name what where i: "i = (name, what)" by fastforce
  show ?case using Cons by (cases "ol_instrument lib name") (auto simp: i)
qed simp

lemma create_instruments_iff:
  "create_instruments lib ins = Inr ns \<longleftrightarrow> ns = map fst ins \<and> (\<forall>i \<in> set ins. ol_instrument lib (fst i) = None)"
  using create_instruments_cases [of ins lib] by auto

text \<open>With every constructor successful all four instruments exist; the version and the environment
  only describe the resource.\<close>

lemma observability_ready:
  assumes "NewObservability lib cfg g = (g', Inr ob)"
  shows "ob_instruments ob = map fst instruments \<and> (\<forall>i \<in> set instruments. ol_instrument lib (fst i) = None) \<and>
    g' = g\<lparr>og_tracer := Some (ob_tracer ob), og_meter := Some (ob_tracer ob)\<rparr> \<and> ob_tracer ob \<noteq> ''''"
  using assms unfolding NewObservability_def createMetrics_def Let_def
  by (auto simp: create_instruments_iff default_to_def split: option.splits sum.splits if_splits)

text \<open>A failure of the metrics leaves the tracer provider installed, and nobody has a handle to shut it
  down: the error is all the caller gets.\<close>

lemma failed_metrics_leak_tracer:
  assumes "ol_resource lib (default_to ''apiary'' (oc_ServiceName cfg)) (default_to ''1.0.0'' (oc_ServiceVersion cfg))
      (default_to ''production'' (oc_Environment cfg)) = None"
    and "ol_traceExporter lib = None" and "ol_metricExporter lib = Some e"
  shows "NewObservability lib cfg g =
    (g\<lparr>og_tracer := Some (default_to ''apiary'' (oc_ServiceName cfg))\<rparr>, Inl (''failed to create metric exporter: '' @ e))"
  using assms by (simp add: NewObservability_def Let_def)

section \<open>Correlation of logs\<close>

record span_context =
  sx_Recording :: bool
  sx_Valid :: bool
  sx_TraceID :: string
  sx_SpanID :: string
  sx_Sampled :: bool

datatype log_value = LString string | LBool bool | LInt int | LDuration duration | LError "string option"

type_synonym log_fields = "(string \<times> log_value) list"

definition TraceContextFromContext :: "span_context \<Rightarrow> log_fields" where
  "TraceContextFromContext sp =
    (if \<not> sx_Recording sp then []
     else if \<not> sx_Valid sp then []
     else [(''trace_id'', LString (sx_TraceID sp)), (''span_id'', LString (sx_SpanID sp))] @
       (if sx_Sampled sp then [(''trace_sampled'', LBool True)] else []))"

text \<open>A logger is the fields it adds to every line.\<close>

definition LoggerWithTraceContext :: "span_context \<Rightarrow> log_fields option \<Rightarrow> log_fields option" where
  "LoggerWithTraceContext sp base =
    (case base of
       None \<Rightarrow> None
     | Some l \<Rightarrow> (let fields = TraceContextFromContext sp in if fields = [] then Some l else Some (l @ fields)))"

record request_values =
  rv_RequestID :: string
  rv_Method :: string
  rv_URI :: string
  rv_Status :: int
  rv_Latency :: duration
  rv_Error :: "string option"

text \<open>The fields of a request's log line; \<open>sp\<close> is the span of its context, if there is observability.\<close>

definition request_log :: "span_context option \<Rightarrow> request_values \<Rightarrow> log_fields" where
  "request_log sp v =
    [(''id'', LString (rv_RequestID v)), (''method'', LString (rv_Method v)), (''uri'', LString (rv_URI v)),
     (''status'', LInt (rv_Status v)), (''latency'', LDuration (rv_Latency v)), (''error'', LError (rv_Error v))] @
    (case sp of None \<Rightarrow> [] | Some sp \<Rightarrow> TraceContextFromContext sp)"

lemma LoggerWithTraceContext_eq: "LoggerWithTraceContext sp (Some l) = Some (l @ TraceContextFromContext sp)"
  by (simp add: LoggerWithTraceContext_def Let_def)

section \<open>Spans\<close>

datatype attribute = AString string | AInt int | ABool bool

datatype span_status = SpanError string | SpanOk

record span =
  sp_Name :: string
  sp_Attributes :: "(string \<times> attribute) list"
  sp_Recorded :: "string list"
  sp_Status :: span_status

text \<open>\<open>tc_extract\<close> puts the caller's trace into a context, \<open>tc_start\<close> the new span.\<close>

record ('c, 'h) tracer =
  tc_extract :: "'h \<Rightarrow> 'c \<Rightarrow> 'c"
  tc_start :: "string \<Rightarrow> 'c \<Rightarrow> 'c"

text \<open>How errors of gRPC handlers read: \<open>status.FromError\<close> and \<open>Error\<close>.\<close>

record 'e rpc_errors =
  re_status :: "'e \<Rightarrow> (int \<times> string) option"
  re_text :: "'e \<Rightarrow> string"

definition rpc_span :: "'e rpc_errors \<Rightarrow> string \<Rightarrow> bool \<Rightarrow> duration \<Rightarrow> 'e option \<Rightarrow> span" where
  "rpc_span er fullMethod stream d err =
    (let attrs = [(''rpc.system'', AString ''grpc''), (''rpc.service'', AString fullMethod), (''rpc.method'', AString fullMethod)] @
           (if stream then [(''rpc.stream'', ABool True)] else []) @ [(''rpc.duration_ms'', AInt (go_div d millisecond))];
         code = (\<lambda>c. (''rpc.grpc.status_code'', AInt c))
     in case err of
          None \<Rightarrow> \<lparr>sp_Name = fullMethod, sp_Attributes = attrs @ [code 0], sp_Recorded = [], sp_Status = SpanOk\<rparr>
        | Some e \<Rightarrow>
           (case re_status er e of
              Some (c, msg) \<Rightarrow> \<lparr>sp_Name = fullMethod, sp_Attributes = attrs @ [code c], sp_Recorded = [], sp_Status = SpanError msg\<rparr>
            | None \<Rightarrow> \<lparr>sp_Name = fullMethod, sp_Attributes = attrs, sp_Recorded = [re_text er e], sp_Status = SpanError (re_text er e)\<rparr>))"

definition error_of :: "'e + 'a \<Rightarrow> 'e option" where
  "error_of r = (case r of Inl e \<Rightarrow> Some e | Inr _ \<Rightarrow> None)"

definition traced_context :: "('c, 'h) tracer \<Rightarrow> 'h option \<Rightarrow> string \<Rightarrow> 'c \<Rightarrow> 'c" where
  "traced_context tc md name ctx = tc_start tc name (case md of None \<Rightarrow> ctx | Some md \<Rightarrow> tc_extract tc md ctx)"

section \<open>Interceptors\<close>

text \<open>A unary handler gets its context, a stream handler its stream, of which the context is what the
  wrapper of the tracing changes.  \<open>t0\<close> and \<open>t1\<close> are the readings of the clock around the handler.\<close>

type_synonym ('c, 's, 'r) handler = "'c \<Rightarrow> 's \<Rightarrow> 's \<times> 'r"

definition UnaryTracingInterceptor :: "('c, 'h) tracer \<Rightarrow> 'e rpc_errors \<Rightarrow> time \<Rightarrow> time \<Rightarrow> 'h option \<Rightarrow> string \<Rightarrow>
    ('c, 's, 'e + 'a) handler \<Rightarrow> 'c \<Rightarrow> 's \<Rightarrow> 's \<times> ('e + 'a) \<times> span" where
  "UnaryTracingInterceptor tc er t0 t1 md fullMethod handler ctx s =
    (case handler (traced_context tc md fullMethod ctx) s of
       (s, resp) \<Rightarrow> (s, resp, rpc_span er fullMethod False (t1 - t0) (error_of resp)))"

definition StreamTracingInterceptor :: "('c, 'h) tracer \<Rightarrow> 'e rpc_errors \<Rightarrow> time \<Rightarrow> time \<Rightarrow> 'h option \<Rightarrow> string \<Rightarrow>
    ('c, 's, 'e option) handler \<Rightarrow> 'c \<Rightarrow> 's \<Rightarrow> 's \<times> 'e option \<times> span" where
  "StreamTracingInterceptor tc er t0 t1 md fullMethod handler ctx s =
    (let wrapped = traced_context tc md fullMethod ctx
     in case handler wrapped s of (s, err) \<Rightarrow> (s, err, rpc_span er fullMethod True (t1 - t0) err))"

text \<open>\<open>Get\<close> of the carrier: the first value of a key.\<close>

definition carrier_Get :: "(string \<Rightarrow> string list) \<Rightarrow> string \<Rightarrow> string" where
  "carrier_Get md key = (let values = md key in if values = [] then '''' else values ! 0)"

record 'e rpc_log =
  lg_method :: string
  lg_code :: string
  lg_latency :: duration
  lg_error :: "'e option"

text \<open>\<open>code\<close> names the status code of an error, or of none.  Without a logger nothing is logged.\<close>

definition UnaryLoggingInterceptor :: "bool \<Rightarrow> ('e option \<Rightarrow> string) \<Rightarrow> time \<Rightarrow> time \<Rightarrow> string \<Rightarrow>
    ('c, 's, 'e + 'a) handler \<Rightarrow> 'c \<Rightarrow> 's \<Rightarrow> 's \<times> ('e + 'a) \<times> 'e rpc_log list" where
  "UnaryLoggingInterceptor logger code t0 t1 fullMethod handler ctx s =
    (if \<not> logger then (case handler ctx s of (s, resp) \<Rightarrow> (s, resp, []))
     else case handler ctx s of
       (s, resp) \<Rightarrow> (s, resp, [\<lparr>lg_method = fullMethod, lg_code = code (error_of resp), lg_latency = t1 - t0,
          lg_error = error_of resp\<rparr>]))"

definition StreamLoggingInterceptor :: "bool \<Rightarrow> ('e option \<Rightarrow> string) \<Rightarrow> time \<Rightarrow> time \<Rightarrow> string \<Rightarrow>
    ('c, 's, 'e option) handler \<Rightarrow> 'c \<Rightarrow> 's \<Rightarrow> 's \<times> 'e option \<times> 'e rpc_log list" where
  "StreamLoggingInterceptor logger code t0 t1 fullMethod handler ctx s =
    (if \<not> logger then (case handler ctx s of (s, err) \<Rightarrow> (s, err, []))
     else case handler ctx s of
       (s, err) \<Rightarrow> (s, err, [\<lparr>lg_method = fullMethod, lg_code = code err, lg_latency = t1 - t0, lg_error = err\<rparr>]))"

text \<open>The interceptors for metrics find the method's name and record nothing: the collector comes back
  as it was.\<close>

definition UnaryMetricsInterceptor :: "'m option \<Rightarrow> string \<Rightarrow> ('c, 's, 'r) handler \<Rightarrow> 'c \<Rightarrow> 's \<Rightarrow> 's \<times> 'r \<times> 'm option" where
  "UnaryMetricsInterceptor metrics fullMethod handler ctx s =
    (case metrics of
       None \<Rightarrow> (case handler ctx s of (s, r) \<Rightarrow> (s, r, None))
     | Some m \<Rightarrow> (case handler ctx s of (s, r) \<Rightarrow> (let methodName = method_name fullMethod in (s, r, Some m))))"

definition StreamMetricsInterceptor :: "'m option \<Rightarrow> string \<Rightarrow> ('c, 's, 'e option) handler \<Rightarrow> 'c \<Rightarrow> 's \<Rightarrow> 's \<times> 'e option \<times> 'm option" where
  "StreamMetricsInterceptor metrics fullMethod handler ctx s =
    (case metrics of
       None \<Rightarrow> (case handler ctx s of (s, r) \<Rightarrow> (s, r, None))
     | Some m \<Rightarrow> (case handler ctx s of (s, r) \<Rightarrow> (let methodName = method_name fullMethod in (s, r, Some m))))"

section \<open>REST\<close>

record traced_request =
  tq_Method :: string
  tq_Route :: string
  tq_URL :: string
  tq_UserAgent :: string

text \<open>What a handler has written when it returns.\<close>

record written =
  wr_Status :: int
  wr_Size :: int

definition tracingMiddleware :: "('c, 'h) tracer \<Rightarrow> 'h \<Rightarrow> traced_request \<Rightarrow> ('c, 's, written \<times> string option) handler \<Rightarrow>
    'c \<Rightarrow> 's \<Rightarrow> 's \<times> (written \<times> string option) \<times> span" where
  "tracingMiddleware tc headers rq next ctx s =
    (let ctx = tc_extract tc headers ctx;
         name = tq_Method rq @ '' '' @ tq_Route rq;
         ctx = tc_start tc name ctx
     in case next ctx s of
          (s, (wr, err)) \<Rightarrow>
            (s, (wr, err),
             \<lparr>sp_Name = name,
              sp_Attributes = [(''http.method'', AString (tq_Method rq)), (''http.url'', AString (tq_URL rq)),
                (''http.route'', AString (tq_Route rq)), (''http.user_agent'', AString (tq_UserAgent rq)),
                (''http.status_code'', AInt (wr_Status wr)), (''http.response.size'', AInt (wr_Size wr))],
              sp_Recorded = (case err of None \<Rightarrow> [] | Some e \<Rightarrow> [e]),
              sp_Status = (case err of
                 Some e \<Rightarrow> SpanError e
               | None \<Rightarrow> (if wr_Status wr \<ge> 400 then SpanError (''HTTP '' @ int_str (wr_Status wr)) else SpanOk))\<rparr>))"

section \<open>Observers change nothing\<close>

text \<open>Every wrapper calls the handler once and gives back its state and its result.  The tracing ones
  hand it a context with the span in it; that is what the stream interceptor for authentication
  does not manage, which drops its context.\<close>

lemma observers_pass_on:
  "(let r = UnaryTracingInterceptor tc er t0 t1 md m h ctx s in (fst r, fst (snd r))) = h (traced_context tc md m ctx) s"
  "(let r = StreamTracingInterceptor tc er t0 t1 md m g ctx s in (fst r, fst (snd r))) = g (traced_context tc md m ctx) s"
  "(let r = UnaryLoggingInterceptor l code t0 t1 m h ctx s in (fst r, fst (snd r))) = h ctx s"
  "(let r = StreamLoggingInterceptor l code t0 t1 m g ctx s in (fst r, fst (snd r))) = g ctx s"
  "(let r = UnaryMetricsInterceptor c m k ctx s in (fst r, fst (snd r))) = k ctx s"
  "(let r = StreamMetricsInterceptor c m g ctx s in (fst r, fst (snd r))) = g ctx s"
  "(let r = tracingMiddleware tc hd rq n ctx s in (fst r, fst (snd r))) =
    n (traced_context tc (Some hd) (tq_Method rq @ '' '' @ tq_Route rq) ctx) s"
  by (simp_all add: UnaryTracingInterceptor_def StreamTracingInterceptor_def UnaryLoggingInterceptor_def
      StreamLoggingInterceptor_def UnaryMetricsInterceptor_def StreamMetricsInterceptor_def tracingMiddleware_def
      traced_context_def Let_def split: prod.split option.split)

lemma metrics_unchanged:
  "snd (snd (UnaryMetricsInterceptor c m k ctx s)) = c" "snd (snd (StreamMetricsInterceptor c m g ctx s)) = c"
  by (simp_all add: UnaryMetricsInterceptor_def StreamMetricsInterceptor_def split: prod.split option.split)

text \<open>A span says that all went well exactly if the call did.\<close>

lemma rpc_span_ok_iff: "sp_Status (rpc_span er m st d err) = SpanOk \<longleftrightarrow> err = None"
  by (auto simp: rpc_span_def Let_def split: option.split)

lemma http_span_ok_iff:
  assumes "tracingMiddleware tc hd rq n ctx s = (s', (wr, err), sp)"
  shows "sp_Status sp = SpanOk \<longleftrightarrow> err = None \<and> wr_Status wr < 400"
  using assms by (auto simp: tracingMiddleware_def Let_def split: prod.splits option.splits if_splits)

text \<open>The status is read before the framework answers an error that a handler returns: for a request
  without a route the response still has its initial status 200, and so has the span.\<close>

lemma unanswered_error_traced_as_200:
  assumes "n (traced_context tc (Some hd) (tq_Method rq @ '' '' @ tq_Route rq) ctx) s = (s, (\<lparr>wr_Status = 200, wr_Size = 0\<rparr>, Some e))"
  shows "(''http.status_code'', AInt 200) \<in> set (sp_Attributes (snd (snd (tracingMiddleware tc hd rq n ctx s))))"
  using assms by (simp add: tracingMiddleware_def traced_context_def Let_def)

end
