(* ===== verification/Metrics_Export.thy ===== *)
theory Metrics_Export
  imports Metrics
begin

text \<open>
  The other half of \<open>internal/metrics/metrics.go\<close>: the families of metrics the collector registers
  with Prometheus and what its methods record in them, and the goroutine that cleans up idle aggregates.

  Prometheus is reduced to its documented behaviour: a vector holds one series for each list of label
  values, panics (\<open>None\<close>) when their number is not that of its labels, and a counter panics when it is to
  decrease.  A ticker that was stopped never fires again.
\<close>

section \<open>Families\<close>

datatype family_kind = Histogram "rat list" | CounterVec | GaugeVec

record family =
  fa_Name :: string
  fa_Help :: string
  fa_Kind :: family_kind
  fa_Labels :: "string list"

text \<open>\<open>prometheus.ExponentialBuckets\<close>.\<close>

definition exponential_buckets :: "rat \<Rightarrow> rat \<Rightarrow> nat \<Rightarrow> rat list" where
  "exponential_buckets start factor n = map (\<lambda>i. start * factor ^ i) [0..<n]"

definition drone_labels :: "string list" where
  "drone_labels = [''agentspec'', ''namespace'', ''drone_id'']"

definition hive_labels :: "string list" where
  "hive_labels = [''namespace'', ''hive'']"

definition webhook_labels :: "string list" where
  "webhook_labels = [''namespace'', ''hive'', ''event_type'']"

definition families :: "family list" where
  "families = map (\<lambda>(n, h, k, l). \<lparr>fa_Name = n, fa_Help = h, fa_Kind = k, fa_Labels = l\<rparr>)
    [(''apiary_response_latency_ms'', ''Response latency in milliseconds'', Histogram (exponential_buckets 10 2 10), drone_labels),
     (''apiary_tokens_used_total'', ''Total tokens used'', CounterVec, drone_labels),
     (''apiary_queue_depth'', ''Current queue depth'', GaugeVec, drone_labels),
     (''apiary_requests_total'', ''Total requests processed'', CounterVec, drone_labels),
     (''apiary_circuit_breaker_state'', ''Circuit breaker state (0=closed, 1=half-open, 2=open)'', GaugeVec, drone_labels),
     (''apiary_circuit_breaker_failures_total'', ''Total circuit breaker failures'', CounterVec, drone_labels),
     (''apiary_output_validation_failures_total'', ''Total output validation failures'', CounterVec, drone_labels),
     (''apiary_rate_limit_exceeded_total'', ''Total rate limit exceeded events'', CounterVec, drone_labels),
     (''apiary_dlq_messages_added_total'', ''Total messages added to dead letter queue'', CounterVec, hive_labels),
     (''apiary_dlq_queue_size'', ''Current size of dead letter queue'', GaugeVec, hive_labels),
     (''apiary_webhook_sent_total'', ''Total webhooks sent'', CounterVec, webhook_labels),
     (''apiary_webhook_failed_total'', ''Total webhook delivery failures'', CounterVec, webhook_labels)]"

definition family_of :: "string \<Rightarrow> family option" where
  "family_of n = find (\<lambda>f. fa_Name f = n) families"

text \<open>Registering two families of one name panics.\<close>

definition MustRegister :: "family list \<Rightarrow> family \<Rightarrow> family list option" where
  "MustRegister reg f = (if fa_Name f \<in> fa_Name ` set reg then None else Some (reg @ [f]))"

fun register_all :: "family list \<Rightarrow> family list \<Rightarrow> family list option" where
  "register_all reg [] = Some reg"
| "register_all reg (f # fs) = (case MustRegister reg f of None \<Rightarrow> None | Some reg \<Rightarrow> register_all reg fs)"

lemma registry_complete: "register_all [] families = Some families"
  by code_simp

section \<open>Series\<close>

text \<open>The observations of a series of a histogram, and the value of any other, by family and label values.\<close>

record exporter =
  xp_observed :: "string \<times> string list \<Rightarrow> rat list"
  xp_value :: "string \<times> string list \<Rightarrow> rat"

definition no_series :: exporter where
  "no_series = \<lparr>xp_observed = (\<lambda>_. []), xp_value = (\<lambda>_. 0)\<rparr>"

definition labels_fit :: "string \<Rightarrow> string list \<Rightarrow> bool" where
  "labels_fit n ls \<longleftrightarrow> (case family_of n of None \<Rightarrow> False | Some f \<Rightarrow> length ls = length (fa_Labels f))"

definition vec_Observe :: "string \<Rightarrow> string list \<Rightarrow> rat \<Rightarrow> exporter \<Rightarrow> exporter option" where
  "vec_Observe n ls v x =
    (if labels_fit n ls then Some (x\<lparr>xp_observed := (xp_observed x)((n, ls) := xp_observed x (n, ls) @ [v])\<rparr>) else None)"

definition vec_Set :: "string \<Rightarrow> string list \<Rightarrow> rat \<Rightarrow> exporter \<Rightarrow> exporter option" where
  "vec_Set n ls v x = (if labels_fit n ls then Some (x\<lparr>xp_value := (xp_value x)((n, ls) := v)\<rparr>) else None)"

definition vec_Add :: "string \<Rightarrow> string list \<Rightarrow> rat \<Rightarrow> exporter \<Rightarrow> exporter option" where
  "vec_Add n ls v x =
    (if \<not> labels_fit n ls \<or> v < 0 then None
     else Some (x\<lparr>xp_value := (xp_value x)((n, ls) := fadd (xp_value x (n, ls)) v)\<rparr>))"

text \<open>The first statements of the recording methods; their aggregates are in \<open>Metrics\<close>.\<close>

definition export_latency :: "string \<Rightarrow> string \<Rightarrow> string \<Rightarrow> duration \<Rightarrow> exporter \<Rightarrow> exporter option" where
  "export_latency agentspec namespace droneID latency =
    vec_Observe ''apiary_response_latency_ms'' [agentspec, namespace, droneID] (float_of_int (go_div latency millisecond))"

definition export_tokens :: "string \<Rightarrow> string \<Rightarrow> string \<Rightarrow> int \<Rightarrow> exporter \<Rightarrow> exporter option" where
  "export_tokens agentspec namespace droneID tokens =
    vec_Add ''apiary_tokens_used_total'' [agentspec, namespace, droneID] (float_of_int tokens)"

definition export_queue :: "string \<Rightarrow> string \<Rightarrow> string \<Rightarrow> int \<Rightarrow> exporter \<Rightarrow> exporter option" where
  "export_queue agentspec namespace droneID depth =
    vec_Set ''apiary_queue_depth'' [agentspec, namespace, droneID] (float_of_int depth)"

definition export_request :: "string \<Rightarrow> string \<Rightarrow> string \<Rightarrow> exporter \<Rightarrow> exporter option" where
  "export_request agentspec namespace droneID = vec_Add ''apiary_requests_total'' [agentspec, namespace, droneID] 1"

definition SetDLQQueueSize :: "string \<Rightarrow> string \<Rightarrow> int \<Rightarrow> exporter \<Rightarrow> exporter option" where
  "SetDLQQueueSize namespace hive n = vec_Set ''apiary_dlq_queue_size'' [namespace, hive] (float_of_int n)"

text \<open>The labels always fit.  Only tokens can be refused: a negative number makes the counter panic, also in
  the report of a keeper, whose values \<open>AggregateMetrics\<close> passes on.\<close>

lemma family_lookups:
  "labels_fit ''apiary_response_latency_ms'' ls \<longleftrightarrow> length ls = 3" "labels_fit ''apiary_tokens_used_total'' ls \<longleftrightarrow> length ls = 3"
  "labels_fit ''apiary_queue_depth'' ls \<longleftrightarrow> length ls = 3" "labels_fit ''apiary_requests_total'' ls \<longleftrightarrow> length ls = 3"
  "labels_fit ''apiary_dlq_queue_size'' ls \<longleftrightarrow> length ls = 2"
  by (simp_all add: labels_fit_def family_of_def families_def drone_labels_def hive_labels_def webhook_labels_def eval_nat_numeral)

lemma exports_fit:
  "export_latency a n d l x \<noteq> None" "export_queue a n d q x \<noteq> None" "export_request a n d x \<noteq> None"
  "SetDLQQueueSize n h q x \<noteq> None" "export_tokens a n d t x = None \<longleftrightarrow> float_of_int t < 0"
  by (simp_all add: export_latency_def export_queue_def export_request_def SetDLQQueueSize_def export_tokens_def
      vec_Observe_def vec_Set_def vec_Add_def family_lookups)

text \<open>A gauge shows the last depth, while the aggregate of the same method keeps the greatest.\<close>

lemma gauge_shows_last:
  assumes "export_queue a n d p x = Some x1" "export_queue a n d q x1 = Some x2"
  shows "xp_value x2 (''apiary_queue_depth'', [a, n, d]) = float_of_int q"
  using assms by (auto simp: export_queue_def vec_Set_def family_lookups)

section \<open>The cleanup goroutine\<close>

text \<open>Tickers are numbered; the field holds the latest.  The goroutine waits for the ticker the field held
  when it last entered its \<open>select\<close>, or is cleaning up, or has ended.\<close>

datatype cleaner = Waiting nat | Cleaning | Ended

record cleanup_run =
  cu_ticker :: nat
  cu_stopped :: "nat set"
  cu_interval :: duration
  cu_closed :: bool
  cu_cleaner :: cleaner

definition startCleanup :: cleanup_run where
  "startCleanup = \<lparr>cu_ticker = 0, cu_stopped = {}, cu_interval = 1 * hour, cu_closed = False, cu_cleaner = Waiting 0\<rparr>"

text \<open>\<open>time.NewTicker\<close> panics for an interval that is not positive.\<close>

definition SetCleanupInterval :: "duration \<Rightarrow> cleanup_run \<Rightarrow> cleanup_run option" where
  "SetCleanupInterval d r =
    (let r = r\<lparr>cu_stopped := insert (cu_ticker r) (cu_stopped r), cu_interval := d\<rparr>
     in if d \<le> 0 then None else Some (r\<lparr>cu_ticker := Suc (cu_ticker r)\<rparr>))"

text \<open>Closing a second time panics; otherwise \<open>Close\<close> waits for the goroutine, which stops the ticker of the field.\<close>

definition metrics_Close :: "cleanup_run \<Rightarrow> cleanup_run option" where
  "metrics_Close r =
    (if cu_closed r then None
     else Some (r\<lparr>cu_closed := True, cu_cleaner := Ended, cu_stopped := insert (cu_ticker r) (cu_stopped r)\<rparr>))"

text \<open>The steps of the goroutine and of its callers, with the collector.  \<open>Close\<close> waits for a cleanup to end.\<close>

inductive cleanup_step :: "cleanup_run \<times> collector \<Rightarrow> cleanup_run \<times> collector \<Rightarrow> bool" where
  Fires: "cu_cleaner r = Waiting i \<Longrightarrow> i \<notin> cu_stopped r \<Longrightarrow> cleanup_step (r, c) (r\<lparr>cu_cleaner := Cleaning\<rparr>, c)"
| Cleans: "cu_cleaner r = Cleaning \<Longrightarrow>
    cleanup_step (r, c) (r\<lparr>cu_cleaner := Waiting (cu_ticker r)\<rparr>, cleanupIdleMetrics now c)"
| Sets: "SetCleanupInterval d r = Some r' \<Longrightarrow> cleanup_step (r, c) (r', c)"
| Closes: "cu_cleaner r \<noteq> Cleaning \<Longrightarrow> metrics_Close r = Some r' \<Longrightarrow> cleanup_step (r, c) (r', c)"

inductive_cases cleanup_stepE: "cleanup_step (r, c) (r', c')"

definition cleanup_dead :: "cleanup_run \<Rightarrow> bool" where
  "cleanup_dead r \<longleftrightarrow> cu_cleaner r = Ended \<or> (\<exists>i. cu_cleaner r = Waiting i \<and> i \<in> cu_stopped r)"

lemma cleanup_dead_step:
  assumes "cleanup_step (r, c) (r', c')" "cleanup_dead r"
  shows "cleanup_dead r' \<and> c' = c"
  using assms(1)
  by (cases rule: cleanup_stepE)
    (use assms(2) in \<open>auto simp: cleanup_dead_def SetCleanupInterval_def metrics_Close_def Let_def split: if_splits\<close>)

text \<open>Changing the interval while the goroutine waits stops the cleanup for good: the goroutine goes on waiting for
  the ticker that was stopped, whatever is done afterwards.\<close>

lemma interval_change_ends_cleanup:
  assumes "SetCleanupInterval d r = Some r1" "cu_cleaner r = Waiting (cu_ticker r)" "cleanup_step\<^sup>*\<^sup>* (r1, c) (r2, c2)"
  shows "c2 = c"
proof -
  have dead: "cleanup_dead r1" using assms(1,2) by (auto simp: SetCleanupInterval_def cleanup_dead_def Let_def split: if_splits)
  have "cleanup_dead (fst s) \<and> snd s = c" if "cleanup_step\<^sup>*\<^sup>* (r1, c) s" for s
    using that
  proof (induction rule: rtranclp_induct)
    case (step s t)
    have "cleanup_step (fst s, snd s) (fst t, snd t)" using step.hyps(2) by simp
    from cleanup_dead_step [OF this] step.IH show ?case by simp
  qed (simp add: dead)
  then show ?thesis using assms(3) by force
qed

lemma interval_change_ends_cleanup_applies:
  "\<exists>r1. SetCleanupInterval minute startCleanup = Some r1 \<and> cu_cleaner startCleanup = Waiting (cu_ticker startCleanup)"
  by (simp add: SetCleanupInterval_def startCleanup_def Let_def)

end
