(* ===== verification/Spec2Isabelle.thy ===== *)
theory Spec2Isabelle
  imports Version_Pruning Comb_Structured Circuit_Breaker Guardrails Messaging Access_Control
    Scheduler Metrics Launcher Platform Autoscaler Warm_Pool Session_Manager Keeper_Cache
    Notifications Relay_Properties Queen Composed API_Properties GRPC_Properties Manifest
    CLI_Keepers Daemons Nectar_Bus Tracing Metrics_Export
begin

text \<open>
  Verification of Apiary, an orchestrator of agent processes written in Go.

  Apiary keeps declared resources (agent specifications, hives, drones, sessions, secrets) in
  a versioned store; control loops (queen, autoscaler, warm pools, session manager) compare
  them with what runs and start or stop processes through a scheduler and a launcher; each
  process has a keeper, which relays its messages over a bus, guards them with rate limits,
  token budgets and timeouts, and gives it access to the memory of its session.  Patterns connect
  agents over the bus.  Clients use a REST server, by hand or through the command line, or the gRPC
  methods; both work on the store and on the tables of sessions, roles and dead letters.

  \<^bold>\<open>The foundation\<close>

  \<^item> \<open>Prelude\<close>: times, 64-bit wrap-around, association lists, the named collections
    \<open>model_simps\<close>, \<open>inv_simps\<close> and \<open>inv_intros\<close>.
  \<^item> \<open>Apiary_Types\<close>: \<open>pkg/apiary/types.go\<close>, the resource kinds as records, one
    datatype \<open>resource\<close> for the interface \<open>Resource\<close>, label selectors.
  \<^item> \<open>Secrets\<close>: \<open>internal/secrets/encrypt.go\<close>; base64 and the layout of encrypted values.
  \<^item> \<open>Badger_Store\<close>, \<open>Version_Pruning\<close>: \<open>internal/store/badger\<close>, the operations of the
    store over an ordered key-value transaction, watchers, and the pruning of old versions.
    \<open>Typed_Store\<close>: the type invariant of its contents.
  \<^item> \<open>Comb\<close>, \<open>Comb_Structured\<close>: \<open>internal/comb\<close>, the session memory with expiry and memory
    limits, and conversation, artifacts, state machine and scratchpad on top of it.
  \<^item> \<open>Circuit_Breaker\<close>: \<open>internal/circuitbreaker\<close>, the breaker as a state machine with its
    reachable states, and the table of breakers.
  \<^item> \<open>Guardrails\<close>, \<open>Output_Validation\<close>: \<open>internal/guardrails\<close>, rate limiter, token budgets,
    timeouts and the validation of outputs.
  \<^item> \<open>Messaging\<close>, \<open>Nectar_Bus\<close>: \<open>internal/nectar\<close> and \<open>internal/dlq\<close>, topics, message
    stamping, subscriptions, dead letters, and the construction and closing of the bus.
  \<^item> \<open>Access_Control\<close>: \<open>internal/auth\<close>, roles and the authorization middleware.
  \<^item> \<open>Float64\<close>, \<open>Scheduler\<close>: \<open>internal/scheduler\<close>, with Go's \<open>float64\<close> as rationals rounded
    to 53 bits, ties to even.
  \<^item> \<open>Metrics\<close>, \<open>Metrics_Export\<close>: \<open>internal/metrics\<close>, the aggregates that the autoscaler reads,
    what is recorded for Prometheus, and the goroutine that cleans up.
  \<^item> \<open>Launcher\<close>: \<open>internal/launcher\<close>, the environment of a process, start, stop and exit.
  \<^item> \<open>Waggle\<close>: \<open>pkg/waggle\<close>, the messages of agents, their validation and pairing;
    \<open>Notifications\<close>: \<open>internal/audit\<close> and \<open>internal/webhook\<close>.

  \<^bold>\<open>The control loops\<close>

  \<^item> \<open>Platform\<close>: store, launcher, scheduler and clock as one state, \<open>world\<close>, on which the
    control loops run.
  \<^item> \<open>Autoscaler\<close>: \<open>internal/autoscaler\<close>; \<open>Warm_Pool\<close>: \<open>internal/warmpool\<close>;
    \<open>Session_Manager\<close>: \<open>internal/session\<close>; \<open>Queen\<close>: \<open>internal/queen\<close>, the
    reconciliation that drives scheduler, launcher, autoscaler and warm pools.
  \<^item> \<open>Daemons\<close>: \<open>cmd/apiaryd\<close> and \<open>cmd/keeper\<close>, what the daemon starts, the goroutines of the
    queen and the session manager, and the runs of a daemon as sequences of requests and rounds.

  \<^bold>\<open>Agents\<close>

  \<^item> \<open>Keeper_Cache\<close>: the caches and the memory proxy of \<open>internal/keeper/keeper.go\<close>;
    \<open>Keeper_Relay\<close>, \<open>Relay_Properties\<close>: the construction of a keeper, its message relay
    (\<open>relay.go\<close>) with retries, guards, audit and webhooks, and its health check;
    \<open>Keeper_Server\<close>: its HTTP interface, start and stop.
  \<^item> \<open>Patterns\<close>, \<open>Event_Patterns\<close>, \<open>Hierarchical\<close>, \<open>Composed\<close>: \<open>internal/patterns\<close>, pipelines,
    event routing and swarms, hierarchies, and chains of patterns with the orchestrator.

  \<^bold>\<open>Interfaces for clients\<close>

  \<^item> \<open>Quota\<close>, \<open>API_Resources\<close>, \<open>API_Operations\<close>, \<open>API_Sessions\<close>, \<open>API_Server\<close>: the REST server of
    \<open>internal/api\<close>: quota, the handlers in the order of \<open>server.go\<close>, the routes and the chain of
    middleware.  \<open>API_Properties\<close>: what it guarantees.
  \<^item> \<open>Proto_Convert\<close>: \<open>grpc_convert.go\<close>; \<open>GRPC_Resources\<close>, \<open>GRPC_Drones\<close>: the methods of the gRPC
    server; \<open>GRPC_Interceptors\<close>: the interceptors that find the caller and check its role;
    \<open>GRPC_Properties\<close>: the comparison with REST, and what the interceptors let through.
  \<^item> \<open>Tracing\<close>: \<open>internal/observability\<close> and the wrappers of both servers that only observe.
  \<^item> \<open>Manifest\<close>: \<open>pkg/manifest\<close>, parsing, validation and serialization of manifests.
  \<^item> \<open>CLI_Client\<close>, \<open>CLI_Get\<close>, \<open>CLI_Apply\<close>, \<open>CLI_Operate\<close>: \<open>cmd/apiaryctl\<close>, the HTTP client and the
    commands with their requests and their output.  \<open>CLI_Properties\<close> runs them against the REST
    server, \<open>CLI_Keepers\<close> against the REST server with the keepers behind it.

  \<^bold>\<open>What the lemmas show\<close>

  Each component has its invariant with its preservation, the effect of its operations on every
  branch, and the abstract specification it implements where it has one: a map for the store
  and (with expiry times) for the session memory, the direct memory for the cache, the REST
  handlers for the gRPC methods.  Above them stand the properties that span components: a request
  changes nothing outside its cell and nothing without a role, stored resources stay typed, the relay
  lets only valid messages pass, a round of the queen removes exactly the surplus, and what a user of
  the command line gets from the whole chain.  Where the code does not do what it says, the lemma states
  what it does, like \<open>queen_ignores_cells\<close> or \<open>exec_exit_code_lost\<close>.

  \<^bold>\<open>Interfaces between components\<close>

  \<open>session_memory\<close> (interpreted as \<open>comb\<close>) is the memory as a map with expiry times,
  \<open>drone_breakers\<close> (\<open>cbm\<close>) the table of circuit breakers, and \<open>resource_store\<close> (\<open>ws\<close>) the
  store as the control loops and the API use it: what each operation does to the lookups.
  \<open>started_pattern\<close> (\<open>hier\<close>, \<open>swarm\<close>, \<open>events\<close>) is a pattern that holds its subscriptions from
  start to stop.  \<open>codec\<close> is a conversion to a message and back, up to a normal form
  (\<open>meta\<close>, \<open>interface_codec\<close>, \<open>resources_codec\<close>, \<open>stage_codec\<close>), and \<open>optional_codec\<close> one that is only sent when present
  (\<open>scaling_codec\<close>, \<open>session_codec\<close>, \<open>retry_codec\<close>, \<open>quota_codec\<close>).

  \<^bold>\<open>Conventions\<close>

  A mutable object is a record that its operations return updated; methods that hold a mutex
  for their whole body are atomic, and where a lock is given up in between the sections are
  definitions of their own (\<open>comb_read\<close> and \<open>comb_drop\<close>, \<open>fillPool\<close> with its parameter
  \<open>meanwhile\<close>).  Times and durations are nanoseconds as \<open>int\<close>; every reading of the clock is
  an argument, or an element of a stream indexed by the tick of the world.  \<open>int64\<close> values
  are \<open>int\<close>, with \<open>wrap64\<close> wherever they can overflow.  A Go map is an association list when
  the code iterates over it or takes its length, and a partial function otherwise.  Errors
  are values of one datatype per component; a nil pointer is \<open>None\<close>.  A panic of a command is the
  outcome \<open>Panicked\<close>, one of a conversion or of a stop \<open>None\<close>.  The goroutines of the patterns and of the
  daemon are sequences of their steps in any order.

  Handlers of the servers are atomic: requests are served one after the other.  The code holds no lock over a handler,
  so that two creations at once can both pass the check of a quota; \<open>comb_Keys\<close> likewise does in one step
  what the code does in two sections.  A drain is split at its ticks, and what others do meanwhile is a parameter.

  \<^bold>\<open>Parameters\<close>

  BadgerDB (an ordered map with transactions, \<open>kv\<close>), encoding/json, YAML, the schema compiler, PBKDF2 and
  AES-GCM, uuid, NATS, OpenTelemetry, Prometheus, the start of a process and of a command, the file system, the terminal
  and the transport of HTTP requests are arguments of the definitions that use them, most of them fields of a
  record (\<open>world_env\<close>, \<open>keeper_env\<close>, \<open>pattern_env\<close>, \<open>api_env\<close>, \<open>codecs\<close>, \<open>cli_env\<close>, \<open>cli_fs\<close>,
  \<open>nats_lib\<close>, \<open>otel_lib\<close>).  What the proofs need of them is named: \<open>json_laws\<close>, \<open>kv_laws\<close>, the laws of the
  ciphers, \<open>world_ok\<close>, \<open>json_maps_ok\<close>, \<open>codecs_ok\<close>, and for the transport \<open>connected\<close>, which says that a
  request of the client reaches the modelled server; witnesses use concrete instances of them
  (\<open>table_env\<close>, \<open>table_world_env\<close>, \<open>sample_api_env\<close>, \<open>worker_codecs\<close>).

  Some of these laws have limits that the statements carry.  JSON reads numbers into untyped maps as \<open>float64\<close> and
  strings as valid UTF-8, so \<open>codecs_ok\<close> and \<open>json_maps_ok\<close> say what a value is read back as
  (\<open>co_number\<close>, \<open>json_read\<close>), and \<open>json_exact\<close> is a resource that comes back unchanged.  A write to an agent's
  input returns, fails or blocks (\<open>ke_write\<close>); \<open>agent_reads\<close> says that none blocks, and \<open>blocked_delivery\<close> what
  follows when one does.  The parameters of a path that echo has no route for are \<open>ae_unrouted\<close>.  What net/http and
  net/url do to the URL of a request (fragments, escapes, queries) is written out in \<open>CLI_Properties\<close>.

  \<^bold>\<open>Fuel\<close>

  \<open>fillPool\<close> recurses on fuel; \<open>fill_pool_returns\<close> shows that one unit for each missing
  drone and each drone that others take meanwhile, and one more, is enough.  A round of the queen passes this
  fuel on and is \<open>None\<close> when it runs out.  The retries of the relay (\<open>retry_loop\<close>) wait for the
  clock, so they take fuel as well; \<open>relay_retries_end\<close> shows that some fuel is enough when the clock advances and
  no write blocks.
  The stages of a pipeline are a function with a measure.  Loops that
  the outside world keeps going get what it does at each round as a list: the ticks of a drain and of
  \<open>streamLogs\<close>, the reads of a stream, the inputs of the daemon's loops.  All other loops are structural.

  \<^bold>\<open>Not modelled\<close>

  The generated protocol code; the parsing of flags and the configuration of the command
  line (\<open>root.go\<close>), which call external packages, so that flags are arguments of the commands;
  listening sockets, signals, tickers and the collection of garbage of BadgerDB, which have no
  state of their own; log lines, except where they carry data that is checked (audit, relay, commands,
  tracing).  \<open>internal/store/store.go\<close> holds a package comment only.
\<close>

end
